(* ===== verification/LP_Prelude.thy ===== *)
theory LP_Prelude
  imports Complex_Main "HOL-Library.Word" "HOL-Library.AList"
begin

text \<open>
  What every component of the LivePhoto model shares: Python values as they occur in JSON files
  (\<open>json\<close>, \<open>obj\<close>), file contents (\<open>blob\<close>), Python string helpers, a state-and-exception
  computation type \<open>sm\<close> with its weakest-precondition calculus.
\<close>

section \<open>Rewrite collections\<close>

named_theorems path_simps \<open>validity of the constant artifact paths\<close>
named_theorems wp_simps \<open>weakest-precondition equations of the operations\<close>
named_theorems op_defs \<open>definitions of small operations that proofs unfold\<close>

section \<open>Python values\<close>

type_synonym byte = "8 word"
type_synonym bytes = "byte list"

text \<open>A Python float: finite values are the rationals that binary64 represents.\<close>

datatype pyfloat = Fin rat | PosInf | NegInf | NaN

text \<open>
  The values \<open>json.loads\<close> returns. \<open>JTime t\<close> is the text that \<open>datetime.isoformat()\<close> prints for
  the UTC instant \<open>t\<close> (microseconds since the epoch); every other text is \<open>JStr\<close>.
\<close>

datatype json =
    JNull
  | JBool bool
  | JInt int
  | JFloat pyfloat
  | JStr string
  | JTime int
  | JArr "json list"
  | JObj "(string \<times> json) list"

type_synonym obj = "(string \<times> json) list"

abbreviation jget :: "obj \<Rightarrow> string \<Rightarrow> json option" where
  "jget ob k \<equiv> map_of ob k"

definition jget_d :: "obj \<Rightarrow> string \<Rightarrow> json \<Rightarrow> json" where
  "jget_d ob k d = (case jget ob k of None \<Rightarrow> d | Some v \<Rightarrow> v)"

abbreviation jput :: "string \<Rightarrow> json \<Rightarrow> obj \<Rightarrow> obj" where
  "jput k v ob \<equiv> AList.update k v ob"

text \<open>\<open>d.get(k)\<close> is \<open>jget_n\<close>: a missing key and an explicit \<open>null\<close> both give \<open>None\<close>.\<close>

definition jget_n :: "obj \<Rightarrow> string \<Rightarrow> json" where
  "jget_n ob k = jget_d ob k JNull"

fun is_jstr :: "json \<Rightarrow> bool" where
  "is_jstr (JStr _) = True"
| "is_jstr (JTime _) = True"
| "is_jstr _ = False"

text \<open>Python truthiness of a JSON value.\<close>

fun truthy :: "json \<Rightarrow> bool" where
  "truthy JNull = False"
| "truthy (JBool b) = b"
| "truthy (JInt i) = (i \<noteq> 0)"
| "truthy (JFloat (Fin q)) = (q \<noteq> 0)"
| "truthy (JFloat _) = True"
| "truthy (JStr s) = (s \<noteq> [])"
| "truthy (JTime _) = True"
| "truthy (JArr xs) = (xs \<noteq> [])"
| "truthy (JObj kvs) = (kvs \<noteq> [])"

fun as_list :: "json \<Rightarrow> json list option" where
  "as_list (JArr xs) = Some xs"
| "as_list _ = None"

text \<open>An optional string argument as it appears in a JSON file: \<open>None\<close> is \<open>null\<close>.\<close>

definition jopt :: "string option \<Rightarrow> json" where
  "jopt x = (case x of None \<Rightarrow> JNull | Some s \<Rightarrow> JStr s)"

fun jstr_of :: "json \<Rightarrow> string option" where
  "jstr_of (JStr s) = Some s"
| "jstr_of _ = None"

text \<open>
  The contents of a file. A byte string that is the UTF-8 text of a JSON value is kept as the value
  (\<open>Json\<close>); other UTF-8 text is \<open>Text\<close>; bytes that are not UTF-8, as every JPEG (its first byte is
  0xFF), are \<open>Bin\<close>.
\<close>

datatype blob = Bin bytes | Text string | Json json

definition jpeg_signature :: bytes where
  "jpeg_signature = [0xFF, 0xD8, 0xFF]"

fun blob_starts_jpeg :: "blob \<Rightarrow> bool" where
  "blob_starts_jpeg (Bin b) = (take 3 b = jpeg_signature)"
| "blob_starts_jpeg _ = False"

text \<open>A count as a JSON number.\<close>

definition jnat :: "nat \<Rightarrow> json" where "jnat n = JInt (int n)"

lemma jget_d_update [simp]:
  "jget_d (jput k v ob) k' d = (if k = k' then v else jget_d ob k' d)"
  by (simp add: jget_d_def update_conv)

lemma jget_d_Cons [simp]:
  "jget_d ((k, v) # ob') k' d = (if k = k' then v else jget_d ob' k' d)"
  by (simp add: jget_d_def)

lemma jget_d_Nil [simp]: "jget_d [] k d = d"
  by (simp add: jget_d_def)

lemma jget_n_update [simp]: "jget_n (jput k v ob) k' = (if k = k' then v else jget_n ob k')"
  by (simp add: jget_n_def)

lemma jget_n_Cons [simp]: "jget_n ((k, v) # ob') k' = (if k = k' then v else jget_n ob' k')"
  by (simp add: jget_n_def)

lemma jget_n_Nil [simp]: "jget_n [] k = JNull"
  by (simp add: jget_n_def)

lemma jopt_simps [simp]: "jopt None = JNull" "jopt (Some s) = JStr s"
  by (simp_all add: jopt_def)

section \<open>Python strings\<close>

definition char_between :: "char \<Rightarrow> char \<Rightarrow> char \<Rightarrow> bool" where
  "char_between a b c \<longleftrightarrow> (of_char a :: nat) \<le> of_char c \<and> (of_char c :: nat) \<le> of_char b"

definition is_digit :: "char \<Rightarrow> bool" where
  "is_digit c \<longleftrightarrow> char_between CHR ''0'' CHR ''9'' c"

definition is_upper :: "char \<Rightarrow> bool" where
  "is_upper c \<longleftrightarrow> char_between CHR ''A'' CHR ''Z'' c"

definition is_lower :: "char \<Rightarrow> bool" where
  "is_lower c \<longleftrightarrow> char_between CHR ''a'' CHR ''z'' c"

definition is_alnum :: "char \<Rightarrow> bool" where
  "is_alnum c \<longleftrightarrow> is_digit c \<or> is_upper c \<or> is_lower c"

definition hex_chars :: "char list" where
  "hex_chars = ''0123456789abcdef''"

text \<open>Case conversion on the ASCII letters; white space as \<open>str.isspace\<close> has it below 256.\<close>

definition to_lower :: "char \<Rightarrow> char" where
  "to_lower c = (if is_upper c then char_of ((of_char c :: nat) + 32) else c)"

definition to_upper :: "char \<Rightarrow> char" where
  "to_upper c = (if is_lower c then char_of ((of_char c :: nat) - 32) else c)"

definition str_lower :: "string \<Rightarrow> string" where "str_lower s = map to_lower s"
definition str_upper :: "string \<Rightarrow> string" where "str_upper s = map to_upper s"

definition is_space :: "char \<Rightarrow> bool" where
  "is_space c \<longleftrightarrow> (let n = (of_char c :: nat) in n = 32 \<or> (9 \<le> n \<and> n \<le> 13) \<or> (28 \<le> n \<and> n \<le> 31)
     \<or> n = 133 \<or> n = 160)"

definition rstrip_if :: "(char \<Rightarrow> bool) \<Rightarrow> string \<Rightarrow> string" where
  "rstrip_if p s = rev (dropWhile p (rev s))"

definition str_strip :: "string \<Rightarrow> string" where
  "str_strip s = rstrip_if is_space (dropWhile is_space s)"

definition starts_with :: "string \<Rightarrow> string \<Rightarrow> bool" where
  "starts_with p s \<longleftrightarrow> take (length p) s = p"

definition ends_with :: "string \<Rightarrow> string \<Rightarrow> bool" where
  "ends_with p s \<longleftrightarrow> starts_with (rev p) (rev s)"

text \<open>\<open>s.split(c)\<close> for a one-character separator; \<open>''''.split(c)\<close> is \<open>['''']\<close>.\<close>

fun split_on :: "char \<Rightarrow> string \<Rightarrow> string list" where
  "split_on c [] = [[]]"
| "split_on c (x # xs) =
     (if x = c then [] # split_on c xs
      else (case split_on c xs of [] \<Rightarrow> [[x]] | p # ps \<Rightarrow> (x # p) # ps))"

fun join_on :: "char \<Rightarrow> string list \<Rightarrow> string" where
  "join_on c [] = []"
| "join_on c [p] = p"
| "join_on c (p # ps) = p @ c # join_on c ps"

lemma split_on_not_Nil [simp]: "split_on c s \<noteq> []"
  by (induction s) (auto split: list.splits)

lemma join_split: "join_on c (split_on c s) = s"
proof (induction s)
  case (Cons x xs)
  then show ?case
    by (cases "split_on c xs"; cases "tl (split_on c xs)") auto
qed simp

lemma split_on_inj: "split_on c s = split_on c t \<Longrightarrow> s = t"
  by (metis join_split)

lemma split_on_no_sep: "p \<in> set (split_on c s) \<Longrightarrow> c \<notin> set p"
  by (induction s arbitrary: p) (auto split: list.splits if_splits)

lemma split_on_absent: "c \<notin> set s \<Longrightarrow> split_on c s = [s]"
  by (induction s) auto

lemma split_on_append_absent:
  "c \<notin> set p \<Longrightarrow> split_on c (p @ s) = (case split_on c s of q # qs \<Rightarrow> (p @ q) # qs)"
proof (induction p)
  case Nil
  then show ?case by (cases "split_on c s") auto
next
  case (Cons a p)
  then show ?case by (cases "split_on c s") auto
qed

text \<open>The first separator splits a string uniquely; so does the last one.\<close>

lemma append_sep_inject:
  assumes "c \<notin> set a" and "c \<notin> set b"
  shows "a @ c # s = b @ c # t \<longleftrightarrow> a = b \<and> s = t"
  using assms
proof (induction a arbitrary: b)
  case Nil
  then show ?case by (cases b) auto
next
  case (Cons x a)
  then show ?case by (cases b) auto
qed

lemma append_sep_inject_right:
  assumes "c \<notin> set s" and "c \<notin> set t"
  shows "a @ c # s = b @ c # t \<longleftrightarrow> a = b \<and> s = t"
proof -
  have "a @ c # s = b @ c # t \<longleftrightarrow> rev (a @ c # s) = rev (b @ c # t)" by (simp only: rev_is_rev_conv)
  also have "\<dots> \<longleftrightarrow> rev s @ c # rev a = rev t @ c # rev b" by simp
  also have "\<dots> \<longleftrightarrow> rev s = rev t \<and> rev a = rev b"
    using assms by (intro append_sep_inject) auto
  finally show ?thesis by auto
qed

text \<open>Decimal text of a natural number, and zero-padded to a width as \<open>f''{n:0wd}''\<close> does.\<close>

definition digit_char :: "nat \<Rightarrow> char" where
  "digit_char d = char_of (48 + d)"

fun nat_digits :: "nat \<Rightarrow> string" where
  "nat_digits n = (if n < 10 then [digit_char n] else nat_digits (n div 10) @ [digit_char (n mod 10)])"

declare nat_digits.simps [simp del]

definition int_text :: "int \<Rightarrow> string" where
  "int_text i = (if i < 0 then ''-'' @ nat_digits (nat (- i)) else nat_digits (nat i))"

primrec pad_digits :: "nat \<Rightarrow> nat \<Rightarrow> string" where
  "pad_digits 0 n = []"
| "pad_digits (Suc w) n = pad_digits w (n div 10) @ [digit_char (n mod 10)]"

lemma length_pad_digits [simp]: "length (pad_digits w n) = w"
  by (induction w arbitrary: n) auto

lemma of_char_digit_char: "d < 10 \<Longrightarrow> (of_char (digit_char d) :: nat) = 48 + d"
  by (simp add: digit_char_def)

lemma is_digit_digit_char [simp]: "d < 10 \<Longrightarrow> is_digit (digit_char d)"
  by (simp add: is_digit_def char_between_def of_char_digit_char)

lemma pad_digits_all_digits: "list_all is_digit (pad_digits w n)"
  by (induction w arbitrary: n) auto

text \<open>A padded number determines the number within the width.\<close>

lemma digit_char_inj: "d < 10 \<Longrightarrow> e < 10 \<Longrightarrow> digit_char d = digit_char e \<longleftrightarrow> d = e"
  by (metis add_left_cancel of_char_digit_char)

lemma pad_digits_inj:
  "m < 10 ^ w \<Longrightarrow> n < 10 ^ w \<Longrightarrow> pad_digits w m = pad_digits w n \<Longrightarrow> m = n"
proof (induction w arbitrary: m n)
  case (Suc w)
  have "m div 10 < 10 ^ w" "n div 10 < 10 ^ w" using Suc.prems by auto
  moreover have "pad_digits w (m div 10) = pad_digits w (n div 10)" "m mod 10 = n mod 10"
    using Suc.prems(3) by (auto simp: digit_char_inj)
  ultimately have "m div 10 = n div 10" using Suc.IH by blast
  with \<open>m mod 10 = n mod 10\<close> show ?case by (metis div_mult_mod_eq)
qed simp

section \<open>State and exceptions\<close>

text \<open>
  A Python call on the shared state: it returns a value or raises, and the state it leaves is kept
  in both cases (files written before a \<open>raise\<close> stay written).
\<close>

type_synonym ('w, 'e, 'a) sm = "'w \<Rightarrow> ('e + 'a) \<times> 'w"

definition ret :: "'a \<Rightarrow> ('w, 'e, 'a) sm" where
  "ret x w = (Inr x, w)"

definition raise :: "'e \<Rightarrow> ('w, 'e, 'a) sm" where
  "raise e w = (Inl e, w)"

definition bnd :: "('w, 'e, 'a) sm \<Rightarrow> ('a \<Rightarrow> ('w, 'e, 'b) sm) \<Rightarrow> ('w, 'e, 'b) sm" where
  "bnd m f w = (case m w of (Inl e, w') \<Rightarrow> (Inl e, w') | (Inr x, w') \<Rightarrow> f x w')"

definition andthen :: "('w, 'e, 'a) sm \<Rightarrow> ('w, 'e, 'b) sm \<Rightarrow> ('w, 'e, 'b) sm" where
  "andthen m n = bnd m (\<lambda>_. n)"

text \<open>\<open>try: m except ...: h\<close>; \<open>h\<close> re-raises what it does not handle.\<close>

definition catch :: "('w, 'e, 'a) sm \<Rightarrow> ('e \<Rightarrow> ('w, 'e, 'a) sm) \<Rightarrow> ('w, 'e, 'a) sm" where
  "catch m h w = (case m w of (Inl e, w') \<Rightarrow> h e w' | (Inr x, w') \<Rightarrow> (Inr x, w'))"

definition gets :: "('w \<Rightarrow> 'a) \<Rightarrow> ('w, 'e, 'a) sm" where
  "gets f w = (Inr (f w), w)"

definition modify :: "('w \<Rightarrow> 'w) \<Rightarrow> ('w, 'e, unit) sm" where
  "modify f w = (Inr (), f w)"

definition lift :: "'e + 'a \<Rightarrow> ('w, 'e, 'a) sm" where
  "lift r w = (r, w)"

definition guard :: "bool \<Rightarrow> 'e \<Rightarrow> ('w, 'e, unit) sm" where
  "guard b e = (if b then ret () else raise e)"

definition when_do :: "bool \<Rightarrow> ('w, 'e, unit) sm \<Rightarrow> ('w, 'e, unit) sm" where
  "when_do b m = (if b then m else ret ())"

primrec for_each :: "'x list \<Rightarrow> ('x \<Rightarrow> ('w, 'e, unit) sm) \<Rightarrow> ('w, 'e, unit) sm" where
  "for_each [] f = ret ()"
| "for_each (x # xs) f = andthen (f x) (for_each xs f)"

definition finally_do :: "('w, 'e, 'a) sm \<Rightarrow> ('w \<Rightarrow> 'w) \<Rightarrow> ('w, 'e, 'a) sm" where
  "finally_do m f w = (case m w of (r, w') \<Rightarrow> (r, f w'))"

text \<open>The weakest precondition of a call: \<open>Q\<close> when it returns, \<open>E\<close> when it raises.\<close>

definition wp :: "('w, 'e, 'a) sm \<Rightarrow> ('a \<Rightarrow> 'w \<Rightarrow> bool) \<Rightarrow> ('e \<Rightarrow> 'w \<Rightarrow> bool) \<Rightarrow> 'w \<Rightarrow> bool" where
  "wp m Q E w = (case m w of (Inl e, w') \<Rightarrow> E e w' | (Inr x, w') \<Rightarrow> Q x w')"

lemma wp_ret [wp_simps]: "wp (ret x) Q E w = Q x w"
  by (simp add: wp_def ret_def)

lemma wp_raise [wp_simps]: "wp (raise e) Q E w = E e w"
  by (simp add: wp_def raise_def)

lemma wp_bnd [wp_simps]: "wp (bnd m f) Q E w = wp m (\<lambda>x. wp (f x) Q E) E w"
  by (simp add: wp_def bnd_def split: prod.splits sum.splits)

lemma wp_andthen [wp_simps]: "wp (andthen m n) Q E w = wp m (\<lambda>_. wp n Q E) E w"
  by (simp add: andthen_def wp_bnd)

lemma wp_catch [wp_simps]: "wp (catch m h) Q E w = wp m Q (\<lambda>e. wp (h e) Q E) w"
  by (simp add: wp_def catch_def split: prod.splits sum.splits)

lemma wp_gets [wp_simps]: "wp (gets f) Q E w = Q (f w) w"
  by (simp add: wp_def gets_def)

lemma wp_modify [wp_simps]: "wp (modify f) Q E w = Q () (f w)"
  by (simp add: wp_def modify_def)

lemma wp_lift [wp_simps]: "wp (lift r) Q E w = (case r of Inl e \<Rightarrow> E e w | Inr x \<Rightarrow> Q x w)"
  by (simp add: wp_def lift_def split: sum.splits)

lemma wp_guard [wp_simps]: "wp (guard b e) Q E w = (if b then Q () w else E e w)"
  by (simp add: guard_def wp_ret wp_raise)

lemma wp_when [wp_simps]: "wp (when_do b m) Q E w = (if b then wp m Q E w else Q () w)"
  by (simp add: when_do_def wp_ret)

lemma wp_finally [wp_simps]:
  "wp (finally_do m f) Q E w = wp m (\<lambda>x w'. Q x (f w')) (\<lambda>e w'. E e (f w')) w"
  by (simp add: wp_def finally_do_def split: prod.splits sum.splits)

lemma wp_if [wp_simps]: "wp (if b then m else n) Q E w = (if b then wp m Q E w else wp n Q E w)"
  by simp

text \<open>The same equations for a precondition that is not applied to a state.\<close>

lemma wp_ret_fun: "wp (ret x) Q E = Q x"
  by (simp add: fun_eq_iff wp_ret)

lemma wp_raise_fun: "wp (raise e) Q E = E e"
  by (simp add: fun_eq_iff wp_raise)

lemma wp_bnd_fun: "wp (bnd m f) Q E = wp m (\<lambda>x. wp (f x) Q E) E"
  by (simp add: fun_eq_iff wp_bnd)

lemma wp_andthen_fun: "wp (andthen m n) Q E = wp m (\<lambda>_. wp n Q E) E"
  by (simp add: fun_eq_iff wp_andthen)

lemma wp_catch_fun: "wp (catch m h) Q E = wp m Q (\<lambda>e. wp (h e) Q E)"
  by (simp add: fun_eq_iff wp_catch)

lemma wp_modify_fun: "wp (modify u) Q E = (\<lambda>w. Q () (u w))"
  by (simp add: fun_eq_iff wp_modify)

lemmas wp_funs = wp_ret_fun wp_raise_fun wp_bnd_fun wp_andthen_fun wp_catch_fun wp_modify_fun

lemma wp_for_each_Nil [wp_simps]: "wp (for_each [] f) Q E w = Q () w"
  by (simp add: wp_ret)

lemma wp_for_each_Cons [wp_simps]:
  "wp (for_each (x # xs) f) Q E w = wp (f x) (\<lambda>_. wp (for_each xs f) Q E) E w"
  by (simp add: wp_andthen)

lemma wp_mono:
  assumes "wp m Q E w"
    and "\<And>x w'. Q x w' \<Longrightarrow> Q' x w'"
    and "\<And>e w'. E e w' \<Longrightarrow> E' e w'"
  shows "wp m Q' E' w"
  using assms by (auto simp: wp_def split: prod.splits sum.splits)

lemma wp_conj: "wp m (\<lambda>x w'. Q x w' \<and> Q' x w') (\<lambda>e w'. E e w' \<and> E' e w') w
    \<longleftrightarrow> wp m Q E w \<and> wp m Q' E' w"
  by (auto simp: wp_def split: prod.splits sum.splits)

lemma wp_InrD: "wp m Q E w \<Longrightarrow> m w = (Inr x, w') \<Longrightarrow> Q x w'"
  by (simp add: wp_def)

lemma wp_InlD: "wp m Q E w \<Longrightarrow> m w = (Inl e, w') \<Longrightarrow> E e w'"
  by (simp add: wp_def)

lemma wp_okI: "(\<And>x w'. m w = (Inr x, w') \<Longrightarrow> Q x w') \<Longrightarrow> (\<And>e w'. m w = (Inl e, w') \<Longrightarrow> E e w')
    \<Longrightarrow> wp m Q E w"
  by (simp add: wp_def split: prod.splits sum.splits)

text \<open>An invariant that a loop body keeps is kept by the loop.\<close>

lemma wp_for_each_inv:
  assumes "\<And>x w. x \<in> set xs \<Longrightarrow> I w \<Longrightarrow> wp (f x) (\<lambda>_. I) (\<lambda>_. I) w" and "I w"
  shows "wp (for_each xs f) (\<lambda>_. I) (\<lambda>_. I) w"
  using assms
proof (induction xs arbitrary: w)
  case Nil
  then show ?case by (simp add: wp_ret)
next
  case (Cons x xs)
  from Cons.prems have "wp (f x) (\<lambda>_. I) (\<lambda>_. I) w" by simp
  then have "wp (f x) (\<lambda>_. wp (for_each xs f) (\<lambda>_. I) (\<lambda>_. I)) (\<lambda>_. I) w"
  proof (rule wp_mono)
    fix x w' assume "I w'"
    with Cons.prems(1) show "wp (for_each xs f) (\<lambda>_. I) (\<lambda>_. I) w'" by (intro Cons.IH) auto
  qed
  then show ?case by (simp add: wp_andthen)
qed

lemma bnd_Inr: "bnd m f w = (Inr y, w'') \<longleftrightarrow> (\<exists>x w'. m w = (Inr x, w') \<and> f x w' = (Inr y, w''))"
  by (auto simp: bnd_def split: prod.splits sum.splits)

lemmas run_defs = ret_def raise_def bnd_def andthen_def catch_def gets_def modify_def lift_def
  guard_def when_do_def finally_do_def

end
