(* ===== verification/LP_Interfaces.thy ===== *)
theory LP_Interfaces
  imports LP_Prelude
begin

text \<open>
  The contracts several components share, as locales: a string enumeration (\<open>str_enum\<close>), a keyed
  store of values (\<open>keyed_store\<close>, \<open>removable_store\<close>), a bounded retry loop (\<open>retrying\<close>) and a
  single-flight claim (\<open>single_flight\<close>). The components that provide them interpret the locales on
  their own operations; the lemmas proved here are what the clients of those components use.
\<close>

section \<open>String enumerations\<close>

text \<open>\<open>Enum(value)\<close> of a Python \<open>StrEnum\<close>: the member with that value, or a \<open>ValueError\<close> (\<open>None\<close>).\<close>

definition enum_parse :: "('a \<Rightarrow> string) \<Rightarrow> 'a list \<Rightarrow> string \<Rightarrow> 'a option" where
  "enum_parse val members s = List.find (\<lambda>x. val x = s) members"

locale str_enum =
  fixes val :: "'a \<Rightarrow> string" and members :: "'a list"
  assumes complete: "x \<in> set members"
    and values_distinct: "distinct (map val members)"
begin

lemma val_inj: "val x = val y \<longleftrightarrow> x = y"
  by (meson complete distinct_map inj_onD values_distinct)

lemma parse_val [simp]: "enum_parse val members (val x) = Some x"
proof (cases "List.find (\<lambda>y. val y = val x) members")
  case None
  then show ?thesis using complete[of x] by (auto simp: find_None_iff)
next
  case (Some y)
  then have "val y = val x" by (auto simp: find_Some_iff)
  with Some show ?thesis by (simp add: enum_parse_def val_inj)
qed

lemma parse_Some_iff: "enum_parse val members s = Some x \<longleftrightarrow> s = val x"
proof
  assume "enum_parse val members s = Some x"
  then show "s = val x" unfolding enum_parse_def by (auto simp: find_Some_iff)
next
  assume "s = val x"
  then show "enum_parse val members s = Some x" by simp
qed

lemma parse_None_iff: "enum_parse val members s = None \<longleftrightarrow> s \<notin> range val"
  using parse_Some_iff by (metis not_Some_eq rangeE rangeI)

end

section \<open>Keyed stores\<close>

text \<open>
  A store that maps keys of a set \<open>K\<close> to values: what a lookup returns after an update, of the same
  key and of another one.
\<close>

locale keyed_store =
  fixes put :: "'k \<Rightarrow> 'v \<Rightarrow> 'w \<Rightarrow> 'w" and look :: "'w \<Rightarrow> 'k \<Rightarrow> 'v option"
  assumes look_put: "look (put k v w) k' = (if k = k' then Some v else look w k')"
begin

lemma look_put_same: "look (put k v w) k = Some v"
  by (simp add: look_put)

lemma look_put_other: "k \<noteq> k' \<Longrightarrow> look (put k v w) k' = look w k'"
  by (simp add: look_put)

lemma look_put_put: "look (put k v (put k v' w)) k' = look (put k v w) k'"
  by (simp add: look_put)

end

locale removable_store = keyed_store +
  fixes del :: "'k \<Rightarrow> 'w \<Rightarrow> 'w"
  assumes look_del: "look (del k w) k' = (if k = k' then None else look w k')"
begin

text \<open>Removing a list of keys removes exactly those: the revocation loops of the code.\<close>

lemma look_del_all: "look (fold del ks w) k = (if k \<in> set ks then None else look w k)"
proof (induction ks arbitrary: w)
  case Nil
  then show ?case by simp
next
  case (Cons k' ks)
  show ?case by (simp add: Cons.IH look_del)
qed

lemma look_put_del: "look (put k v (del k w)) k' = look (put k v w) k'"
  by (simp add: look_put look_del)

end

section \<open>Bounded retries\<close>

text \<open>
  \<open>run op n\<close> calls \<open>op 0\<close>, \<open>op 1\<close>, \dots and returns the outcome it stops at with the number of calls
  made. It goes on only after an outcome that \<open>again\<close> accepts, and makes at most \<open>n + 1\<close> calls.
\<close>

locale retrying =
  fixes run :: "(nat \<Rightarrow> 'r) \<Rightarrow> nat \<Rightarrow> 'r \<times> nat" and again :: "'r \<Rightarrow> bool"
  assumes run_stops: "run op n = (r, k) \<Longrightarrow> k = Suc j \<Longrightarrow> r = op j \<and> (\<forall>i<j. again (op i))"
    and run_calls: "run op n = (r, k) \<Longrightarrow> 0 < k \<and> k \<le> Suc n"
    and run_exhausts: "run op n = (r, k) \<Longrightarrow> again r \<Longrightarrow> k = Suc n"
begin

lemma result_is_last_call: "run op n = (r, k) \<Longrightarrow> r = op (k - 1)"
  using run_stops[of op n r k "k - 1"] run_calls[of op n r k] by auto

lemma success_is_first: "run op n = (r, k) \<Longrightarrow> \<not> again r \<Longrightarrow> i < k - 1 \<Longrightarrow> again (op i)"
  using run_stops[of op n r k "k - 1"] run_calls[of op n r k] by auto

lemma no_retry_after_final: "\<not> again (op 0) \<Longrightarrow> run op n = (op 0, 1)"
proof -
  assume *: "\<not> again (op 0)"
  obtain r k where rk: "run op n = (r, k)" by fastforce
  then obtain j where "k = Suc j" using run_calls by (metis gr0_implies_Suc)
  with rk run_stops[OF rk] * have "j = 0" by auto
  with rk run_stops[OF rk] \<open>k = Suc j\<close> show ?thesis by auto
qed

lemma gives_up_only_when_all_failed:
  assumes "run op n = (r, k)" and "again r" shows "k = Suc n \<and> (\<forall>i\<le>n. again (op i))"
proof -
  have k: "k = Suc n" using assms by (rule run_exhausts)
  moreover have "r = op n \<and> (\<forall>i<n. again (op i))" using run_stops[OF assms(1) k] .
  ultimately show ?thesis using assms(2) by (auto simp: le_less)
qed

end

section \<open>Single flight\<close>

text \<open>
  A claim taken before a slow call and released after it. \<open>ready\<close> says a fresh claim may be
  established: none is held, or the one held is older than its lifetime.
\<close>

locale single_flight =
  fixes claimed :: "'w \<Rightarrow> 'i \<Rightarrow> bool" and ready :: "'w \<Rightarrow> 'i \<Rightarrow> bool"
    and set_claim :: "'i \<Rightarrow> 'w \<Rightarrow> 'w" and clear_claim :: "'i \<Rightarrow> 'w \<Rightarrow> 'w"
    and fresh :: "'w \<Rightarrow> bool"
  assumes claimed_set: "claimed (set_claim i w) j \<longleftrightarrow> i = j \<or> claimed w j"
    and claimed_clear: "claimed (clear_claim i w) j \<longleftrightarrow> i \<noteq> j \<and> claimed w j"
    and unclaimed_ready: "\<not> claimed w i \<Longrightarrow> ready w i"
    and set_not_ready: "fresh w \<Longrightarrow> \<not> ready (set_claim i w) i"
begin

text \<open>A claim just taken keeps a second one out; once cleared, the next one may be taken.\<close>

lemma second_excluded: "fresh w \<Longrightarrow> claimed (set_claim i w) i \<and> \<not> ready (set_claim i w) i"
  by (simp add: claimed_set set_not_ready)

lemma cleared_ready: "ready (clear_claim i w) i"
  by (simp add: claimed_clear unclaimed_ready)

lemma other_claims_kept: "i \<noteq> j \<Longrightarrow> claimed (set_claim i w) j \<longleftrightarrow> claimed w j"
  by (simp add: claimed_set)

end

end
