(* ===== verification/Domain.thy ===== *)
theory Domain
  imports LP_Interfaces
begin

text \<open>
  The enumerations of \<open>app/domain\<close>, \<open>app/providers/vision/models.py\<close>, \<open>errors.py\<close> and
  \<open>app/portrait/errors.py\<close>, each with its string values and its members in source order, and the
  session-state sets. Every enumeration interprets \<open>str_enum\<close>, so parsing a value and printing a
  member are inverse.
\<close>

section \<open>Business vocabulary (app/domain)\<close>

datatype decision_outcome = PASS | RETRY | REVIEW | FAIL

fun decision_outcome_value :: "decision_outcome \<Rightarrow> string" where
  "decision_outcome_value PASS = ''PASS''"
| "decision_outcome_value RETRY = ''RETRY''"
| "decision_outcome_value REVIEW = ''REVIEW''"
| "decision_outcome_value FAIL = ''FAIL''"

definition decision_outcomes :: "decision_outcome list" where
  "decision_outcomes = [PASS, RETRY, REVIEW, FAIL]"

interpretation outcome_enum: str_enum decision_outcome_value decision_outcomes
  by unfold_locales (auto simp: decision_outcomes_def intro: decision_outcome.exhaust)

datatype session_state =
    S_CREATED | S_ACTIVE | S_CAPTURE_IN_PROGRESS | S_VALIDATING | S_PASS | S_RETRY | S_REVIEW
  | S_FAIL | S_EXPIRED | S_CANCELLED

fun session_state_value :: "session_state \<Rightarrow> string" where
  "session_state_value S_CREATED = ''CREATED''"
| "session_state_value S_ACTIVE = ''ACTIVE''"
| "session_state_value S_CAPTURE_IN_PROGRESS = ''CAPTURE_IN_PROGRESS''"
| "session_state_value S_VALIDATING = ''VALIDATING''"
| "session_state_value S_PASS = ''PASS''"
| "session_state_value S_RETRY = ''RETRY''"
| "session_state_value S_REVIEW = ''REVIEW''"
| "session_state_value S_FAIL = ''FAIL''"
| "session_state_value S_EXPIRED = ''EXPIRED''"
| "session_state_value S_CANCELLED = ''CANCELLED''"

definition session_states :: "session_state list" where
  "session_states = [S_CREATED, S_ACTIVE, S_CAPTURE_IN_PROGRESS, S_VALIDATING, S_PASS, S_RETRY,
     S_REVIEW, S_FAIL, S_EXPIRED, S_CANCELLED]"

interpretation session_enum: str_enum session_state_value session_states
proof
  show "x \<in> set session_states" for x by (cases x) (simp_all add: session_states_def)
qed (simp add: session_states_def)

definition TERMINAL_SESSION_STATES :: "session_state list" where
  "TERMINAL_SESSION_STATES = [S_PASS, S_REVIEW, S_FAIL, S_EXPIRED, S_CANCELLED]"

definition NON_TERMINAL_SESSION_STATES :: "session_state list" where
  "NON_TERMINAL_SESSION_STATES =
     [S_CREATED, S_ACTIVE, S_CAPTURE_IN_PROGRESS, S_VALIDATING, S_RETRY]"

definition is_terminal_session_state :: "session_state \<Rightarrow> bool" where
  "is_terminal_session_state s \<longleftrightarrow> s \<in> set TERMINAL_SESSION_STATES"

text \<open>The two sets partition the states: a session is in exactly one of them.\<close>

lemma session_states_partition:
  "is_terminal_session_state s \<longleftrightarrow> s \<notin> set NON_TERMINAL_SESSION_STATES"
  by (cases s) (simp_all add: is_terminal_session_state_def TERMINAL_SESSION_STATES_def
      NON_TERMINAL_SESSION_STATES_def)

section \<open>Normalised VLM results (app/providers/vision/models.py)\<close>

definition VLM_SCHEMA_VERSION :: string where
  "VLM_SCHEMA_VERSION = ''vlm-result-v3''"

datatype vlm_classification = C_LIVE | C_SCREEN_REPLAY | C_PRINT_ATTACK | C_QUALITY_FAILURE | C_UNCERTAIN

fun vlm_classification_value :: "vlm_classification \<Rightarrow> string" where
  "vlm_classification_value C_LIVE = ''LIVE''"
| "vlm_classification_value C_SCREEN_REPLAY = ''SCREEN_REPLAY''"
| "vlm_classification_value C_PRINT_ATTACK = ''PRINT_ATTACK''"
| "vlm_classification_value C_QUALITY_FAILURE = ''QUALITY_FAILURE''"
| "vlm_classification_value C_UNCERTAIN = ''UNCERTAIN''"

definition vlm_classifications :: "vlm_classification list" where
  "vlm_classifications =
     [C_LIVE, C_SCREEN_REPLAY, C_PRINT_ATTACK, C_QUALITY_FAILURE, C_UNCERTAIN]"

interpretation classification_enum: str_enum vlm_classification_value vlm_classifications
proof
  show "x \<in> set vlm_classifications" for x by (cases x) (simp_all add: vlm_classifications_def)
qed (simp add: vlm_classifications_def)

datatype subject_count = N_ZERO | N_ONE | N_MULTIPLE | N_UNCERTAIN

fun subject_count_value :: "subject_count \<Rightarrow> string" where
  "subject_count_value N_ZERO = ''ZERO''"
| "subject_count_value N_ONE = ''ONE''"
| "subject_count_value N_MULTIPLE = ''MULTIPLE''"
| "subject_count_value N_UNCERTAIN = ''UNCERTAIN''"

definition subject_counts :: "subject_count list" where
  "subject_counts = [N_ZERO, N_ONE, N_MULTIPLE, N_UNCERTAIN]"

interpretation subject_enum: str_enum subject_count_value subject_counts
proof
  show "x \<in> set subject_counts" for x by (cases x) (simp_all add: subject_counts_def)
qed (simp add: subject_counts_def)

datatype secondary_person_state = P_NONE | P_BACKGROUND | P_INTERFERING | P_UNCERTAIN

fun secondary_person_state_value :: "secondary_person_state \<Rightarrow> string" where
  "secondary_person_state_value P_NONE = ''NONE''"
| "secondary_person_state_value P_BACKGROUND = ''BACKGROUND''"
| "secondary_person_state_value P_INTERFERING = ''INTERFERING''"
| "secondary_person_state_value P_UNCERTAIN = ''UNCERTAIN''"

definition secondary_person_states :: "secondary_person_state list" where
  "secondary_person_states = [P_NONE, P_BACKGROUND, P_INTERFERING, P_UNCERTAIN]"

interpretation secondary_enum: str_enum secondary_person_state_value secondary_person_states
proof
  show "x \<in> set secondary_person_states" for x
    by (cases x) (simp_all add: secondary_person_states_def)
qed (simp add: secondary_person_states_def)

datatype attack_medium =
    M_MOBILE_SCREEN | M_TABLET_SCREEN | M_LAPTOP_SCREEN | M_MONITOR | M_PRINT_PHOTO | M_NEWSPAPER
  | M_MAGAZINE | M_UNKNOWN | M_NONE

fun attack_medium_value :: "attack_medium \<Rightarrow> string" where
  "attack_medium_value M_MOBILE_SCREEN = ''MOBILE_SCREEN''"
| "attack_medium_value M_TABLET_SCREEN = ''TABLET_SCREEN''"
| "attack_medium_value M_LAPTOP_SCREEN = ''LAPTOP_SCREEN''"
| "attack_medium_value M_MONITOR = ''MONITOR''"
| "attack_medium_value M_PRINT_PHOTO = ''PRINT_PHOTO''"
| "attack_medium_value M_NEWSPAPER = ''NEWSPAPER''"
| "attack_medium_value M_MAGAZINE = ''MAGAZINE''"
| "attack_medium_value M_UNKNOWN = ''UNKNOWN''"
| "attack_medium_value M_NONE = ''NONE''"

definition attack_media :: "attack_medium list" where
  "attack_media = [M_MOBILE_SCREEN, M_TABLET_SCREEN, M_LAPTOP_SCREEN, M_MONITOR, M_PRINT_PHOTO,
     M_NEWSPAPER, M_MAGAZINE, M_UNKNOWN, M_NONE]"

interpretation medium_enum: str_enum attack_medium_value attack_media
proof
  show "x \<in> set attack_media" for x by (cases x) (simp_all add: attack_media_def)
qed (simp add: attack_media_def)

datatype evidence_code =
    E_DEVICE_BORDER_VISIBLE | E_SCREEN_EDGE_VISIBLE | E_DISPLAY_REFLECTION | E_MOIRE_PATTERN
  | E_PIXEL_GRID_PATTERN | E_DISPLAY_GLARE | E_PAPER_EDGE_VISIBLE | E_PAPER_TEXTURE
  | E_PRINT_HALFTONE_PATTERN | E_FLAT_PRINT_APPEARANCE | E_ENVIRONMENT_CONSISTENT_WITH_LIVE
  | E_NATURAL_SCENE_DEPTH_CUES | E_INSUFFICIENT_VISUAL_EVIDENCE | E_NONE

fun evidence_code_value :: "evidence_code \<Rightarrow> string" where
  "evidence_code_value E_DEVICE_BORDER_VISIBLE = ''DEVICE_BORDER_VISIBLE''"
| "evidence_code_value E_SCREEN_EDGE_VISIBLE = ''SCREEN_EDGE_VISIBLE''"
| "evidence_code_value E_DISPLAY_REFLECTION = ''DISPLAY_REFLECTION''"
| "evidence_code_value E_MOIRE_PATTERN = ''MOIRE_PATTERN''"
| "evidence_code_value E_PIXEL_GRID_PATTERN = ''PIXEL_GRID_PATTERN''"
| "evidence_code_value E_DISPLAY_GLARE = ''DISPLAY_GLARE''"
| "evidence_code_value E_PAPER_EDGE_VISIBLE = ''PAPER_EDGE_VISIBLE''"
| "evidence_code_value E_PAPER_TEXTURE = ''PAPER_TEXTURE''"
| "evidence_code_value E_PRINT_HALFTONE_PATTERN = ''PRINT_HALFTONE_PATTERN''"
| "evidence_code_value E_FLAT_PRINT_APPEARANCE = ''FLAT_PRINT_APPEARANCE''"
| "evidence_code_value E_ENVIRONMENT_CONSISTENT_WITH_LIVE = ''ENVIRONMENT_CONSISTENT_WITH_LIVE''"
| "evidence_code_value E_NATURAL_SCENE_DEPTH_CUES = ''NATURAL_SCENE_DEPTH_CUES''"
| "evidence_code_value E_INSUFFICIENT_VISUAL_EVIDENCE = ''INSUFFICIENT_VISUAL_EVIDENCE''"
| "evidence_code_value E_NONE = ''NONE''"

section \<open>Error vocabularies\<close>

datatype vlm_error_code =
    VLM_DISABLED | PROVIDER_NOT_CONFIGURED | PROVIDER_AUTH_ERROR | PROVIDER_TIMEOUT
  | PROVIDER_RATE_LIMITED | PROVIDER_UNAVAILABLE | PROVIDER_BAD_REQUEST | REQUEST_TOO_LARGE
  | TOO_MANY_IMAGES | UNSUPPORTED_MEDIA_TYPE | SCHEMA_VALIDATION_ERROR | PROVIDER_RESPONSE_ERROR
  | UNKNOWN_PROVIDER_ERROR

fun vlm_error_value :: "vlm_error_code \<Rightarrow> string" where
  "vlm_error_value VLM_DISABLED = ''VLM_DISABLED''"
| "vlm_error_value PROVIDER_NOT_CONFIGURED = ''PROVIDER_NOT_CONFIGURED''"
| "vlm_error_value PROVIDER_AUTH_ERROR = ''PROVIDER_AUTH_ERROR''"
| "vlm_error_value PROVIDER_TIMEOUT = ''PROVIDER_TIMEOUT''"
| "vlm_error_value PROVIDER_RATE_LIMITED = ''PROVIDER_RATE_LIMITED''"
| "vlm_error_value PROVIDER_UNAVAILABLE = ''PROVIDER_UNAVAILABLE''"
| "vlm_error_value PROVIDER_BAD_REQUEST = ''PROVIDER_BAD_REQUEST''"
| "vlm_error_value REQUEST_TOO_LARGE = ''REQUEST_TOO_LARGE''"
| "vlm_error_value TOO_MANY_IMAGES = ''TOO_MANY_IMAGES''"
| "vlm_error_value UNSUPPORTED_MEDIA_TYPE = ''UNSUPPORTED_MEDIA_TYPE''"
| "vlm_error_value SCHEMA_VALIDATION_ERROR = ''SCHEMA_VALIDATION_ERROR''"
| "vlm_error_value PROVIDER_RESPONSE_ERROR = ''PROVIDER_RESPONSE_ERROR''"
| "vlm_error_value UNKNOWN_PROVIDER_ERROR = ''UNKNOWN_PROVIDER_ERROR''"

datatype portrait_error_code =
    PORTRAIT_PROCESSING_FAILED | PORTRAIT_MODEL_UNAVAILABLE | PORTRAIT_MODEL_INTEGRITY
  | PORTRAIT_INVALID_SOURCE | PORTRAIT_QUALITY_FAILED

fun portrait_error_value :: "portrait_error_code \<Rightarrow> string" where
  "portrait_error_value PORTRAIT_PROCESSING_FAILED = ''PORTRAIT_PROCESSING_FAILED''"
| "portrait_error_value PORTRAIT_MODEL_UNAVAILABLE = ''PORTRAIT_MODEL_UNAVAILABLE''"
| "portrait_error_value PORTRAIT_MODEL_INTEGRITY = ''PORTRAIT_MODEL_INTEGRITY''"
| "portrait_error_value PORTRAIT_INVALID_SOURCE = ''PORTRAIT_INVALID_SOURCE''"
| "portrait_error_value PORTRAIT_QUALITY_FAILED = ''PORTRAIT_QUALITY_FAILED''"

definition RETRYABLE_PORTRAIT_CODES :: "portrait_error_code list" where
  "RETRYABLE_PORTRAIT_CODES = [PORTRAIT_QUALITY_FAILED]"

definition portrait_error_status :: "portrait_error_code \<Rightarrow> nat" where
  "portrait_error_status code = (if code \<in> set RETRYABLE_PORTRAIT_CODES then 422 else 500)"

end
