(* ===== verification/Config.thy ===== *)
theory Config
  imports Domain
begin

text \<open>
  Application settings (\<open>app/core/config.py\<close>): the fields the modelled code reads, with their
  defaults, the derived properties, and the field and model validators as one function that either
  refuses a configuration or returns the settings the process runs with. Secrets are their text.
  Also the URL splitting of \<open>urllib.parse\<close> that the validators and the redirect check use.
\<close>

section \<open>urllib.parse, as used on ASCII text\<close>

record url_parts =
  u_scheme :: string
  u_netloc :: string
  u_path :: string
  u_query :: string
  u_fragment :: string

text \<open>\<open>s.partition(c)\<close> and \<open>s.rpartition(c)\<close> for one character; the flag says whether it was found.\<close>

definition partition_at :: "char \<Rightarrow> string \<Rightarrow> string \<times> bool \<times> string" where
  "partition_at c s =
     (let p = takeWhile (\<lambda>x. x \<noteq> c) s; r = dropWhile (\<lambda>x. x \<noteq> c) s
      in (p, r \<noteq> [], tl r))"

definition rpartition_at :: "char \<Rightarrow> string \<Rightarrow> string \<times> bool \<times> string" where
  "rpartition_at c s =
     (let (p, found, r) = partition_at c (rev s)
      in if found then (rev r, True, rev p) else ([], False, s))"

definition is_alpha :: "char \<Rightarrow> bool" where
  "is_alpha c \<longleftrightarrow> is_upper c \<or> is_lower c"

definition scheme_char :: "char \<Rightarrow> bool" where
  "scheme_char c \<longleftrightarrow> is_alnum c \<or> c \<in> set ''+-.''"

definition c0_or_space :: "char \<Rightarrow> bool" where
  "c0_or_space c \<longleftrightarrow> (of_char c :: nat) \<le> 32"

text \<open>
  The host of a bracketed network location must be an IPv6 address, with an optional zone, or an
  \<open>IPvFuture\<close> text; the address syntax is the one \<open>ipaddress\<close> accepts.
\<close>

definition is_hex_digit :: "char \<Rightarrow> bool" where
  "is_hex_digit c \<longleftrightarrow> is_digit c \<or> char_between CHR ''A'' CHR ''F'' c \<or> char_between CHR ''a'' CHR ''f'' c"

definition digits_value :: "string \<Rightarrow> nat" where
  "digits_value s = foldl (\<lambda>n c. 10 * n + ((of_char c :: nat) - 48)) 0 s"

definition ipv4_octet :: "string \<Rightarrow> bool" where
  "ipv4_octet s \<longleftrightarrow> s \<noteq> [] \<and> list_all is_digit s \<and> length s \<le> 3
     \<and> (s = ''0'' \<or> hd s \<noteq> CHR ''0'') \<and> digits_value s \<le> 255"

definition is_ipv4 :: "string \<Rightarrow> bool" where
  "is_ipv4 s \<longleftrightarrow> (let ps = split_on CHR ''.'' s in length ps = 4 \<and> list_all ipv4_octet ps)"

definition ipv6_group :: "string \<Rightarrow> bool" where
  "ipv6_group s \<longleftrightarrow> s \<noteq> [] \<and> length s \<le> 4 \<and> list_all is_hex_digit s"

text \<open>The groups, a dotted tail counting as two; one empty inner group stands for the zeros left out.\<close>

definition ipv6_groups_ok :: "string list \<Rightarrow> bool" where
  "ipv6_groups_ok parts \<longleftrightarrow> length parts \<le> 9 \<and>
     (let inner = butlast (tl parts); n = length (filter (\<lambda>p. p = []) inner);
          before = takeWhile (\<lambda>p. p \<noteq> []) inner; after = tl (dropWhile (\<lambda>p. p \<noteq> []) inner);
          hi = (if hd parts = [] then [] else [hd parts]) @ before;
          lo = after @ (if last parts = [] then [] else [last parts])
      in if n = 0 then length parts = 8 \<and> list_all ipv6_group parts
         else n = 1 \<and> (hd parts = [] \<longrightarrow> before = []) \<and> (last parts = [] \<longrightarrow> after = [])
              \<and> length hi + length lo \<le> 7 \<and> list_all ipv6_group (hi @ lo))"

definition is_ipv6_address :: "string \<Rightarrow> bool" where
  "is_ipv6_address s \<longleftrightarrow>
     (let parts = split_on CHR '':'' s in
      3 \<le> length parts \<and>
      (if CHR ''.'' \<in> set (last parts)
       then is_ipv4 (last parts) \<and> ipv6_groups_ok (butlast parts @ [''0'', ''0''])
       else ipv6_groups_ok parts))"

definition is_ipv6 :: "string \<Rightarrow> bool" where
  "is_ipv6 s \<longleftrightarrow>
     (let (address, has_zone, zone) = partition_at CHR ''%'' s
      in (has_zone \<longrightarrow> zone \<noteq> [] \<and> CHR ''%'' \<notin> set zone) \<and> is_ipv6_address address)"

text \<open>\<open>v[a-fA-F0-9]+\..+\<close> for a host that starts with \<open>v\<close>.\<close>

definition bracketed_host_ok :: "string \<Rightarrow> bool" where
  "bracketed_host_ok h \<longleftrightarrow>
     (if starts_with ''v'' h
      then (let (digits, dot, rest) = partition_at CHR ''.'' (tl h)
            in dot \<and> digits \<noteq> [] \<and> list_all is_hex_digit digits \<and> rest \<noteq> [] \<and> CHR 0x0A \<notin> set rest)
      else is_ipv6 h)"

definition bracketed_netloc_ok :: "string \<Rightarrow> bool" where
  "bracketed_netloc_ok netloc \<longleftrightarrow>
     (let (_, _, hostport) = rpartition_at CHR ''@'' netloc;
          (before, br, bracketed) = partition_at CHR ''['' hostport
      in if br
         then (let (h, _, port) = partition_at CHR '']'' bracketed
               in before = [] \<and> (port = [] \<or> starts_with '':'' port) \<and> bracketed_host_ok h)
         else bracketed_host_ok (fst (partition_at CHR '':'' hostport)))"

text \<open>\<open>urlsplit\<close>: \<open>None\<close> is the \<open>ValueError\<close> for a network location with bad brackets.\<close>

definition urlsplit :: "string \<Rightarrow> url_parts option" where
  "urlsplit url0 =
     (let url1 = filter (\<lambda>c. (of_char c :: nat) \<notin> {9, 10, 13}) (dropWhile c0_or_space url0);
          (pre, colon, post) = partition_at CHR '':'' url1;
          has_scheme = (colon \<and> pre \<noteq> [] \<and> is_alpha (hd pre) \<and> list_all scheme_char pre);
          scheme = (if has_scheme then str_lower pre else []);
          url2 = (if has_scheme then post else url1);
          is_net = starts_with ''//'' url2;
          netloc = (if is_net then takeWhile (\<lambda>c. c \<notin> set ''/?#'') (drop 2 url2) else []);
          url3 = (if is_net then dropWhile (\<lambda>c. c \<notin> set ''/?#'') (drop 2 url2) else url2);
          (url4, _, fragment) = partition_at CHR ''#'' url3;
          (path, _, query) = partition_at CHR ''?'' url4
      in if (CHR ''['' \<in> set netloc) \<noteq> (CHR '']'' \<in> set netloc) then None
         else if CHR ''['' \<in> set netloc \<and> \<not> bracketed_netloc_ok netloc then None
         else Some \<lparr>u_scheme = scheme, u_netloc = netloc, u_path = path, u_query = query,
                    u_fragment = fragment\<rparr>)"

definition url_userinfo :: "url_parts \<Rightarrow> string option \<times> string option" where
  "url_userinfo u =
     (let (info, found, _) = rpartition_at CHR ''@'' (u_netloc u);
          (name, has_pw, pw) = partition_at CHR '':'' info
      in if found then (Some name, if has_pw then Some pw else None) else (None, None))"

definition url_hostinfo :: "url_parts \<Rightarrow> string \<times> string" where
  "url_hostinfo u =
     (let (_, _, hostinfo) = rpartition_at CHR ''@'' (u_netloc u);
          (_, br, bracketed) = partition_at CHR ''['' hostinfo
      in if br then
           (let (h, _, rest) = partition_at CHR '']'' bracketed;
                (_, _, p) = partition_at CHR '':'' rest
            in (h, p))
         else (let (h, _, p) = partition_at CHR '':'' hostinfo in (h, p)))"

definition url_hostname :: "url_parts \<Rightarrow> string option" where
  "url_hostname u =
     (let (h, _) = url_hostinfo u; (name, pct, zone) = partition_at CHR ''%'' h
      in if h = [] then None
         else Some (str_lower name @ (if pct then CHR ''%'' # zone else [])))"

datatype url_port = NoPort | Port nat | BadPort

definition url_port_of :: "url_parts \<Rightarrow> url_port" where
  "url_port_of u =
     (let (_, p) = url_hostinfo u
      in if p = [] then NoPort
         else if \<not> list_all is_digit p then BadPort
         else if 65535 < digits_value p then BadPort
         else Port (digits_value p))"

section \<open>Settings\<close>

datatype app_environment = Env_local | Env_test | Env_development | Env_uat | Env_production

fun app_env_text :: "app_environment \<Rightarrow> string" where
  "app_env_text Env_local = ''local''"
| "app_env_text Env_test = ''test''"
| "app_env_text Env_development = ''development''"
| "app_env_text Env_uat = ''uat''"
| "app_env_text Env_production = ''production''"

datatype samesite = Strict | Lax | SameSiteNone
datatype auth_mode = AuthUnconfigured | AuthJwt | AuthLocalDev

record base_settings =
  app_name :: string
  app_env :: app_environment
  app_version :: string
  api_v1_prefix :: string
  log_level :: string
  log_format_json :: bool
  cors_origins :: "string list"
  cors_allow_credentials :: bool
  database_url :: string
  otel_enabled :: bool
  otel_service_name :: string
  otel_traces_console :: bool
  prometheus_enabled :: bool
  metrics_path :: string
  hsts_enabled :: bool

record vlm_settings = base_settings +
  vlm_experiment_enabled :: bool
  vlm_uat_local_experiment_enabled :: bool
  vlm_experiment_logging_enabled :: bool
  vlm_experiment_log_raw_model_text :: bool
  vlm_provider :: string
  vlm_timeout_seconds :: rat
  vlm_max_retries :: int
  vlm_max_frames :: int
  vlm_max_single_image_bytes :: int
  vlm_max_total_image_bytes :: int
  vlm_allowed_mime_types :: "string list"
  vlm_mock_behavior :: string
  gemini_api_key :: string
  gemini_model :: string
  groq_api_key :: string
  groq_model :: string
  openrouter_api_key :: string
  openrouter_model :: string
  local_vlm_base_url :: string
  local_vlm_model :: string
  local_vlm_api_key :: string
  local_vlm_timeout_seconds :: rat
  local_vlm_max_images :: int
  local_vlm_verify_tls :: bool

record portrait_settings = vlm_settings +
  file_storage_root :: string
  file_storage_transactions_dir :: string
  portrait_processing_enabled :: bool
  portrait_background_mode :: string
  portrait_background_color :: string
  portrait_crop_mode :: string
  portrait_output_format :: string
  portrait_jpeg_quality :: int
  portrait_model_path :: string
  portrait_model_sha256 :: string
  portrait_segmentation_provider :: string

record settings = portrait_settings +
  public_livephoto_base_url :: string
  consumer_profiles_path :: string
  browser_support_policy_path :: string
  launch_token_ttl_seconds :: int
  browser_session_ttl_seconds :: int
  browser_cookie_secure :: bool
  browser_cookie_samesite :: samesite
  s2s_auth_mode :: auth_mode
  s2s_local_dev_token :: string
  s2s_jwt_issuer :: string
  s2s_jwt_audience :: string
  s2s_jwt_jwks_url :: string
  s2s_jwt_client_id_claim :: string
  s2s_jwt_clock_skew_seconds :: int
  s2s_jwt_algorithms :: "string list"
  callback_timeout_seconds :: rat
  callback_max_retries :: int
  capture_attempt_warning_at :: int
  capture_attempt_warning_again_at :: int
  capture_attempt_limit :: int
  decision_test_writer_enabled :: bool

definition default_settings :: settings where
  "default_settings = \<lparr>
     app_name = ''LivePhoto'', app_env = Env_local, app_version = ''0.1.0'',
     api_v1_prefix = ''/api/v1'', log_level = ''INFO'', log_format_json = False,
     cors_origins = [''http://localhost:5173''], cors_allow_credentials = False,
     database_url = [], otel_enabled = False, otel_service_name = ''livephoto-backend'',
     otel_traces_console = False,
     prometheus_enabled = True, metrics_path = ''/metrics'', hsts_enabled = False,
     vlm_experiment_enabled = False, vlm_uat_local_experiment_enabled = False,
     vlm_experiment_logging_enabled = False, vlm_experiment_log_raw_model_text = False,
     vlm_provider = [], vlm_timeout_seconds = 60, vlm_max_retries = 1, vlm_max_frames = 3,
     vlm_max_single_image_bytes = 5 * 1024 * 1024, vlm_max_total_image_bytes = 15 * 1024 * 1024,
     vlm_allowed_mime_types = [''image/jpeg''], vlm_mock_behavior = [],
     gemini_api_key = [], gemini_model = [], groq_api_key = [], groq_model = [],
     openrouter_api_key = [], openrouter_model = [],
     local_vlm_base_url = [], local_vlm_model = [], local_vlm_api_key = [],
     local_vlm_timeout_seconds = 60, local_vlm_max_images = 3, local_vlm_verify_tls = True,
     file_storage_root = ''./local-data/file-storage'', file_storage_transactions_dir = ''transactions'',
     portrait_processing_enabled = False, portrait_background_mode = ''solid'',
     portrait_background_color = ''#FFFFFF'', portrait_crop_mode = ''passport'',
     portrait_output_format = ''jpeg'', portrait_jpeg_quality = 95, portrait_model_path = [], portrait_model_sha256 = [],
     portrait_segmentation_provider = [],
     public_livephoto_base_url = [], consumer_profiles_path = ''config/consumers.example.json'',
     browser_support_policy_path = ''config/browser-support.json'', launch_token_ttl_seconds = 600,
     browser_session_ttl_seconds = 1800, browser_cookie_secure = True,
     browser_cookie_samesite = Strict, s2s_auth_mode = AuthUnconfigured,
     s2s_local_dev_token = [], s2s_jwt_issuer = [], s2s_jwt_audience = ''livephoto'',
     s2s_jwt_jwks_url = [], s2s_jwt_client_id_claim = ''client_id'',
     s2s_jwt_clock_skew_seconds = 30, s2s_jwt_algorithms = [''RS256''], callback_timeout_seconds = 10, callback_max_retries = 2,
     capture_attempt_warning_at = 5, capture_attempt_warning_again_at = 7,
     capture_attempt_limit = 10, decision_test_writer_enabled = False\<rparr>"

definition s2s_jwks_is_local_path :: "settings \<Rightarrow> bool" where
  "s2s_jwks_is_local_path s \<longleftrightarrow>
     (let u = s2s_jwt_jwks_url s in starts_with ''/'' u \<or> starts_with ''./'' u \<or> starts_with ''../'' u)"

definition vlm_experiment_available :: "'a vlm_settings_scheme \<Rightarrow> bool" where
  "vlm_experiment_available s \<longleftrightarrow>
     (if \<not> vlm_experiment_enabled s then False
      else if app_env s = Env_production then False
      else if app_env s = Env_uat then vlm_uat_local_experiment_enabled s
      else True)"

definition local_vlm_configured :: "'a vlm_settings_scheme \<Rightarrow> bool" where
  "local_vlm_configured s \<longleftrightarrow> local_vlm_base_url s \<noteq> [] \<and> local_vlm_model s \<noteq> []"

section \<open>Validators\<close>

text \<open>The refusals, one per \<open>raise ValueError\<close> of the validators.\<close>

datatype config_error =
    AttemptThresholdNotPositive | AttemptOrder | NegativeClockSkew
  | LocalDevForbidden | JwksRequired | LocalJwksForbidden | CookieMustBeSecure | BaseUrlNotHttps
  | BaseUrlUnparseable
  | UnsupportedBackgroundMode | BadBackgroundColor | UnsupportedCropMode | UnsupportedOutputFormat
  | BadJpegQuality | WildcardWithCredentials

definition is_rrggbb :: "string \<Rightarrow> bool" where
  "is_rrggbb v \<longleftrightarrow> length v = 7 \<and> hd v = CHR ''#'' \<and> list_all is_hex_digit (tl v)"

text \<open>Field validators, in the order of the fields; the colour one returns its upper-case text.\<close>

definition validate_fields :: "settings \<Rightarrow> config_error + settings" where
  "validate_fields s =
     (if portrait_background_mode s \<noteq> ''solid'' then Inl UnsupportedBackgroundMode
      else if \<not> is_rrggbb (portrait_background_color s) then Inl BadBackgroundColor
      else if portrait_crop_mode s \<noteq> ''passport'' then Inl UnsupportedCropMode
      else if portrait_output_format s \<noteq> ''jpeg'' then Inl UnsupportedOutputFormat
      else if \<not> (1 \<le> portrait_jpeg_quality s \<and> portrait_jpeg_quality s \<le> 100) then Inl BadJpegQuality
      else if s2s_jwt_clock_skew_seconds s < 0 then Inl NegativeClockSkew
      else if capture_attempt_warning_at s \<le> 0 \<or> capture_attempt_warning_again_at s \<le> 0
              \<or> capture_attempt_limit s \<le> 0 then Inl AttemptThresholdNotPositive
      else Inr (s\<lparr>portrait_background_color := str_upper (portrait_background_color s)\<rparr>))"

definition validate_attempt_order :: "settings \<Rightarrow> config_error + settings" where
  "validate_attempt_order s =
     (if capture_attempt_warning_at s < capture_attempt_warning_again_at s
         \<and> capture_attempt_warning_again_at s < capture_attempt_limit s
      then Inr s else Inl AttemptOrder)"

definition is_deployed :: "app_environment \<Rightarrow> bool" where
  "is_deployed e \<longleftrightarrow> e = Env_uat \<or> e = Env_production"

definition validate_s2s_environment_gates :: "settings \<Rightarrow> config_error + settings" where
  "validate_s2s_environment_gates s =
     (if is_deployed (app_env s) then
        if s2s_auth_mode s = AuthLocalDev then Inl LocalDevForbidden
        else if s2s_auth_mode s = AuthJwt \<and> s2s_jwt_jwks_url s = [] then Inl JwksRequired
        else if s2s_jwks_is_local_path s then Inl LocalJwksForbidden
        else if \<not> browser_cookie_secure s then Inl CookieMustBeSecure
        else if public_livephoto_base_url s \<noteq> [] then
          (case urlsplit (public_livephoto_base_url s) of
             None \<Rightarrow> Inl BaseUrlUnparseable
           | Some u \<Rightarrow>
               if u_scheme u \<noteq> ''https'' \<or> u_query u \<noteq> [] \<or> u_fragment u \<noteq> []
               then Inl BaseUrlNotHttps else Inr s)
        else Inr s
      else Inr s)"

definition reject_wildcard_with_credentials :: "settings \<Rightarrow> config_error + settings" where
  "reject_wildcard_with_credentials s =
     (if cors_allow_credentials s \<and> ''*'' \<in> set (cors_origins s) then Inl WildcardWithCredentials
      else Inr s)"

definition sum_bind :: "'e + 'a \<Rightarrow> ('a \<Rightarrow> 'e + 'b) \<Rightarrow> 'e + 'b" where
  "sum_bind r f = (case r of Inl e \<Rightarrow> Inl e | Inr x \<Rightarrow> f x)"

definition load_settings :: "settings \<Rightarrow> config_error + settings" where
  "load_settings s =
     sum_bind (validate_fields s) (\<lambda>s1.
     sum_bind (validate_attempt_order s1) (\<lambda>s2.
     sum_bind (validate_s2s_environment_gates s2) reject_wildcard_with_credentials))"

lemma sum_bind_Inr: "sum_bind r f = Inr y \<longleftrightarrow> (\<exists>x. r = Inr x \<and> f x = Inr y)"
  by (auto simp: sum_bind_def split: sum.splits)

lemmas validator_defs = validate_fields_def validate_attempt_order_def
  validate_s2s_environment_gates_def reject_wildcard_with_credentials_def

lemma load_settingsD:
  assumes "load_settings s = Inr s'"
  shows "s' = s\<lparr>portrait_background_color := str_upper (portrait_background_color s)\<rparr>"
    and "validate_fields s = Inr s'" and "validate_attempt_order s' = Inr s'"
    and "validate_s2s_environment_gates s' = Inr s'" and "reject_wildcard_with_credentials s' = Inr s'"
proof -
  obtain s1 s2 s3 where *: "validate_fields s = Inr s1" "validate_attempt_order s1 = Inr s2"
      "validate_s2s_environment_gates s2 = Inr s3" "reject_wildcard_with_credentials s3 = Inr s'"
    using assms unfolding load_settings_def sum_bind_Inr by blast
  have "s2 = s1" using *(2) by (simp add: validate_attempt_order_def split: if_splits)
  moreover have "s3 = s2"
    using *(3) by (simp add: validate_s2s_environment_gates_def split: if_splits option.splits)
  moreover have "s' = s3"
    using *(4) by (simp add: reject_wildcard_with_credentials_def split: if_splits)
  moreover have "s1 = s\<lparr>portrait_background_color := str_upper (portrait_background_color s)\<rparr>"
    using *(1) by (simp add: validate_fields_def split: if_splits)
  ultimately show "s' = s\<lparr>portrait_background_color := str_upper (portrait_background_color s)\<rparr>"
    "validate_fields s = Inr s'" "validate_attempt_order s' = Inr s'"
    "validate_s2s_environment_gates s' = Inr s'" "reject_wildcard_with_credentials s' = Inr s'"
    using * by auto
qed

text \<open>What a loaded configuration guarantees to the rest of the program.\<close>

lemma loaded_attempt_thresholds:
  assumes "load_settings s = Inr s'"
  shows "0 < capture_attempt_warning_at s' \<and> capture_attempt_warning_at s' < capture_attempt_warning_again_at s'
    \<and> capture_attempt_warning_again_at s' < capture_attempt_limit s'"
  using load_settingsD(1,2,3)[OF assms]
  by (auto simp: validate_fields_def validate_attempt_order_def split: if_splits)

lemma loaded_deployed:
  assumes "load_settings s = Inr s'" and "is_deployed (app_env s')"
  shows "s2s_auth_mode s' \<noteq> AuthLocalDev \<and> browser_cookie_secure s' \<and> \<not> s2s_jwks_is_local_path s'"
  using load_settingsD(4)[OF assms(1)] assms(2)
  by (auto simp: validate_s2s_environment_gates_def split: if_splits)

lemma experiment_never_in_production: "app_env s = Env_production \<Longrightarrow> \<not> vlm_experiment_available s"
  by (simp add: vlm_experiment_available_def)

end
