(* ===== verification/World.thy ===== *)
theory World
  imports Config
begin

text \<open>
  The state of a running backend and the exceptions its code raises. All durable state is on the
  shared file system: the transaction directories (\<open>txs\<close>: transaction id, then the
  transaction-relative path, to the file's contents) and the three index directories. The clock, the
  supply of random tokens, the callbacks posted to consumers, the provider calls and the Prometheus
  counters are the rest of what the code reads or changes.
\<close>

datatype exn =
    StorageError | TxExistsError | ArtifactNotFound | PathError
  | IndexStoreError
  | ApiError string string nat
  | BrowserAuthError string string nat
  | S2SAuthError string string nat
  | VlmError vlm_error_code string
  | PortraitError portrait_error_code string
  | AttemptValidationError
  | AttemptUploadRejected
  | CallbackTransportError
  | CallbackTerminalError "nat option"
  | ConsumerConfigError
  | ValueErr | KeyErr | TypeErr | UnicodeErr | AttributeErr | OverflowErr | IndexErr | OsErr | LibraryErr

text \<open>The class \<open>TransactionStorageError\<close> with its subclasses.\<close>

definition is_storage_error :: "exn \<Rightarrow> bool" where
  "is_storage_error e \<longleftrightarrow> e \<in> {StorageError, TxExistsError, ArtifactNotFound, PathError}"

datatype metric =
    MLaunchSession string string
  | MRedemption string
  | MCaptureAttempt string
  | MSubmit string
  | MCallback string string
  | MStatusRead string
  | MVlmEvaluation string string "string option"

text \<open>One callback request as it leaves the process: URL, headers and JSON body.\<close>

record callback_post =
  cp_url :: string
  cp_headers :: "(string \<times> string) list"
  cp_payload :: obj

record world =
  txs :: "string \<rightharpoonup> (string \<rightharpoonup> blob)"
  launch_ix :: "string \<rightharpoonup> blob"
  session_ix :: "string \<rightharpoonup> blob"
  external_ix :: "string \<rightharpoonup> blob"
  clock :: int
  rng :: nat
  outbox :: "callback_post list"
  vlm_calls :: "string list"
  metrics :: "metric list"

type_synonym 'a M = "(world, exn, 'a) sm"

definition empty_world :: world where
  "empty_world = \<lparr>txs = Map.empty, launch_ix = Map.empty, session_ix = Map.empty,
     external_ix = Map.empty, clock = 0, rng = 0, outbox = [], vlm_calls = [], metrics = []\<rparr>"

section \<open>What the code takes from its runtime\<close>

text \<open>
  Parameters of the model: SHA-256 in hexadecimal (of a text and of a file), the opaque values of
  \<open>secrets.token_urlsafe\<close> and \<open>uuid4().hex\<close> by the number drawn so far, the random suffix of
  \<open>secrets.token_hex\<close>, the bytes of a serialised JSON value,
  what \<open>json.loads\<close> makes of a text, Python's \<open>str\<close> of a float, list
  or dictionary, the characters \<open>isoformat\<close> prints for an instant, and what \<open>fromisoformat\<close> makes of
  a text (an error, a datetime without a zone, or an instant), and what \<open>float\<close> makes of one.
\<close>

datatype iso_parse = IsoInvalid | IsoNaive | IsoInstant int

record runtime =
  sha_text :: "string \<Rightarrow> string"
  sha_blob :: "blob \<Rightarrow> string"
  opaque_token :: "nat \<Rightarrow> string"
  token_hex :: "nat \<Rightarrow> string"
  json_bytes :: "json \<Rightarrow> bytes"
  json_loads :: "string \<Rightarrow> json option"
  py_repr :: "json \<Rightarrow> string"
  iso_text :: "int \<Rightarrow> string"
  from_iso :: "string \<Rightarrow> iso_parse"
  parse_float :: "string \<Rightarrow> pyfloat option"

text \<open>
  The documented behaviour the theorems rely on: a digest is 64 lower-case hexadecimal digits, and
  (collision resistance) different inputs have different digests; drawn tokens do not repeat and are
  not empty.
\<close>

definition hex_digest :: "string \<Rightarrow> bool" where
  "hex_digest s \<longleftrightarrow> length s = 64 \<and> set s \<subseteq> set hex_chars"

definition hashes_hex :: "runtime \<Rightarrow> bool" where
  "hashes_hex rt \<longleftrightarrow> (\<forall>s. hex_digest (sha_text rt s)) \<and> (\<forall>b. hex_digest (sha_blob rt b))"

definition collision_free :: "runtime \<Rightarrow> bool" where
  "collision_free rt \<longleftrightarrow> inj (sha_text rt) \<and> inj (sha_blob rt)"

definition tokens_fresh :: "runtime \<Rightarrow> bool" where
  "tokens_fresh rt \<longleftrightarrow> inj (opaque_token rt) \<and> (\<forall>n. opaque_token rt n \<noteq> [])"

definition blob_bytes :: "runtime \<Rightarrow> blob \<Rightarrow> bytes" where
  "blob_bytes rt b = (case b of Bin d \<Rightarrow> d | Text s \<Rightarrow> map of_char s | Json j \<Rightarrow> json_bytes rt j)"

definition blob_size :: "runtime \<Rightarrow> blob \<Rightarrow> nat" where
  "blob_size rt b = length (blob_bytes rt b)"

text \<open>\<open>str(v)\<close> of a value read from JSON; an instant prints as its ISO text and is kept as itself.\<close>

fun py_str :: "runtime \<Rightarrow> json \<Rightarrow> json" where
  "py_str rt JNull = JStr ''None''"
| "py_str rt (JBool b) = JStr (if b then ''True'' else ''False'')"
| "py_str rt (JInt i) = JStr (int_text i)"
| "py_str rt (JStr s) = JStr s"
| "py_str rt (JTime t) = JTime t"
| "py_str rt v = JStr (py_repr rt v)"

text \<open>\<open>int(v)\<close> of a value read from JSON, and of a text: optional sign, decimal digits, single underscores
  between digits, surrounding white space.\<close>

fun digits_int :: "bool \<Rightarrow> int \<Rightarrow> string \<Rightarrow> int option" where
  "digits_int after_digit acc [] = (if after_digit then Some acc else None)"
| "digits_int after_digit acc (c # cs) =
     (if is_digit c then digits_int True (acc * 10 + int (of_char c - 48)) cs
      else if c = CHR ''_'' \<and> after_digit then digits_int False acc cs
      else None)"

definition int_of_text :: "string \<Rightarrow> int option" where
  "int_of_text s = (case str_strip s of
     [] \<Rightarrow> None
   | c # cs \<Rightarrow> if c = CHR ''-'' then map_option uminus (digits_int False 0 cs)
              else if c = CHR ''+'' then digits_int False 0 cs
              else digits_int False 0 (c # cs))"

definition trunc_rat :: "rat \<Rightarrow> int" where
  "trunc_rat q = (if q < 0 then - \<lfloor>- q\<rfloor> else \<lfloor>q\<rfloor>)"

fun py_int :: "json \<Rightarrow> exn + int" where
  "py_int (JInt i) = Inr i"
| "py_int (JBool b) = Inr (if b then 1 else 0)"
| "py_int (JFloat (Fin q)) = Inr (trunc_rat q)"
| "py_int (JFloat NaN) = Inl ValueErr"
| "py_int (JFloat _) = Inl OverflowErr"
| "py_int (JStr s) = (case int_of_text s of None \<Rightarrow> Inl ValueErr | Some i \<Rightarrow> Inr i)"
| "py_int (JTime _) = Inl ValueErr"
| "py_int _ = Inl TypeErr"

text \<open>\<open>list(v)\<close> of a value read from JSON.\<close>

fun py_list :: "runtime \<Rightarrow> json \<Rightarrow> exn + json list" where
  "py_list rt (JArr xs) = Inr xs"
| "py_list rt (JStr s) = Inr (map (\<lambda>c. JStr [c]) s)"
| "py_list rt (JTime t) = Inr (map (\<lambda>c. JStr [c]) (iso_text rt t))"
| "py_list rt (JObj kvs) = Inr (map (\<lambda>kv. JStr (fst kv)) kvs)"
| "py_list rt _ = Inl TypeErr"

section \<open>Primitive effects\<close>

definition draw_token :: "runtime \<Rightarrow> string M" where
  "draw_token rt = bnd (gets rng) (\<lambda>n. andthen (modify (\<lambda>w. w\<lparr>rng := Suc (rng w)\<rparr>)) (ret (opaque_token rt n)))"

definition record_metric :: "metric \<Rightarrow> unit M" where
  "record_metric m = modify (\<lambda>w. w\<lparr>metrics := metrics w @ [m]\<rparr>)"

text \<open>
  The counters of \<open>app/observability/metrics.py\<close>: each recording function increments the counter
  named by its labels; the model appends the labelled event. The durations are in Metrics_Registry.
\<close>

definition record_launch_session :: "string \<Rightarrow> string \<Rightarrow> unit M" where
  "record_launch_session consumer result = record_metric (MLaunchSession consumer result)"

definition record_capture_attempt :: "string \<Rightarrow> unit M" where
  "record_capture_attempt consumer = record_metric (MCaptureAttempt consumer)"

definition record_submit :: "string \<Rightarrow> unit M" where
  "record_submit result = record_metric (MSubmit result)"

definition record_callback :: "string \<Rightarrow> string \<Rightarrow> unit M" where
  "record_callback consumer result = record_metric (MCallback consumer result)"

definition record_status_read :: "string \<Rightarrow> unit M" where
  "record_status_read consumer = record_metric (MStatusRead consumer)"

definition record_vlm_evaluation :: "string \<Rightarrow> string \<Rightarrow> string option \<Rightarrow> unit M" where
  "record_vlm_evaluation provider result error_type =
     record_metric (MVlmEvaluation provider result error_type)"

lemma wp_draw_token [wp_simps]:
  "wp (draw_token rt) Q E w = Q (opaque_token rt (rng w)) (w\<lparr>rng := Suc (rng w)\<rparr>)"
  by (simp add: draw_token_def wp_simps)

lemma wp_record_metric [wp_simps]:
  "wp (record_metric m) Q E w = Q () (w\<lparr>metrics := metrics w @ [m]\<rparr>)"
  by (simp add: record_metric_def wp_simps)

lemmas record_defs [wp_simps] = record_launch_session_def record_capture_attempt_def
  record_submit_def record_callback_def record_status_read_def record_vlm_evaluation_def

text \<open>\<open>d[k]\<close>: a missing key is a \<open>KeyError\<close>.\<close>

definition getitem :: "obj \<Rightarrow> string \<Rightarrow> json M" where
  "getitem ob k = lift (case jget ob k of None \<Rightarrow> Inl KeyErr | Some v \<Rightarrow> Inr v)"

text \<open>
  The text of a JSON string (\<open>isinstance(v, str)\<close>). A value used where a string is required fails with
  a \<open>TypeError\<close> when it is anything else.
\<close>

fun str_text :: "runtime \<Rightarrow> json \<Rightarrow> string option" where
  "str_text rt (JStr s) = Some s"
| "str_text rt (JTime t) = Some (iso_text rt t)"
| "str_text rt _ = None"

definition need_str :: "runtime \<Rightarrow> json \<Rightarrow> string M" where
  "need_str rt v = lift (case str_text rt v of None \<Rightarrow> Inl TypeErr | Some s \<Rightarrow> Inr s)"

lemma wp_getitem [wp_simps]:
  "wp (getitem ob k) Q E w = (case jget ob k of None \<Rightarrow> E KeyErr w | Some v \<Rightarrow> Q v w)"
  by (simp add: getitem_def wp_simps split: option.splits)

lemma wp_need_str [wp_simps]:
  "wp (need_str rt v) Q E w = (case str_text rt v of None \<Rightarrow> E TypeErr w | Some s \<Rightarrow> Q s w)"
  by (simp add: need_str_def wp_simps split: option.splits)

lemma hex_digest_chars: "hex_digest s \<Longrightarrow> c \<in> set s \<Longrightarrow> is_alnum c"
  by (auto simp: hex_digest_def hex_chars_def is_alnum_def is_digit_def is_lower_def char_between_def
      dest: subsetD)

lemma hex_digest_nonempty: "hex_digest s \<Longrightarrow> s \<noteq> []"
  by (auto simp: hex_digest_def)

lemma hex_digest_no_colon: "hex_digest s \<Longrightarrow> CHR '':'' \<notin> set s"
  by (auto simp: hex_digest_def hex_chars_def dest: subsetD)

lemma hex_digest_no_slash: "hex_digest s \<Longrightarrow> CHR ''/'' \<notin> set s \<and> CHR 0x5C \<notin> set s"
  by (auto simp: hex_digest_def hex_chars_def dest: subsetD)

end
