(* ===== verification/Tx_Store.thy ===== *)
theory Tx_Store
  imports World
begin

text \<open>
  The transaction file store (\<open>app/transactions/store.py\<close>, \<open>artifacts.py\<close>): transaction ids,
  artifact paths, the status field of \<open>transaction.json\<close> with its sticky terminal states, artifact
  and JSON reads and writes. Writes are atomic (temporary file and rename), so a file holds the old
  or the new contents (Storage_Faults models the system calls of a write, Storage_Properties shows it); elsewhere
  operating-system failures (disk full, permissions) do not occur, and symbolic links are not modelled.
\<close>

section \<open>Statuses\<close>

datatype transaction_status =
    LAUNCHED | CREATED | CAPTURE_READY | VLM_EVALUATED | PORTRAIT_PROCESSING | PORTRAIT_READY
  | DECISION_READY | SUBMITTED | COMPLETED | CALLBACK_FAILED | ATTEMPT_LIMIT_EXCEEDED | FAILED
  | TECHNICAL_ERROR

fun status_value :: "transaction_status \<Rightarrow> string" where
  "status_value LAUNCHED = ''LAUNCHED''"
| "status_value CREATED = ''CREATED''"
| "status_value CAPTURE_READY = ''CAPTURE_READY''"
| "status_value VLM_EVALUATED = ''VLM_EVALUATED''"
| "status_value PORTRAIT_PROCESSING = ''PORTRAIT_PROCESSING''"
| "status_value PORTRAIT_READY = ''PORTRAIT_READY''"
| "status_value DECISION_READY = ''DECISION_READY''"
| "status_value SUBMITTED = ''SUBMITTED''"
| "status_value COMPLETED = ''COMPLETED''"
| "status_value CALLBACK_FAILED = ''CALLBACK_FAILED''"
| "status_value ATTEMPT_LIMIT_EXCEEDED = ''ATTEMPT_LIMIT_EXCEEDED''"
| "status_value FAILED = ''FAILED''"
| "status_value TECHNICAL_ERROR = ''TECHNICAL_ERROR''"

definition statuses :: "transaction_status list" where
  "statuses = [LAUNCHED, CREATED, CAPTURE_READY, VLM_EVALUATED, PORTRAIT_PROCESSING, PORTRAIT_READY,
     DECISION_READY, SUBMITTED, COMPLETED, CALLBACK_FAILED, ATTEMPT_LIMIT_EXCEEDED, FAILED,
     TECHNICAL_ERROR]"

interpretation status_enum: str_enum status_value statuses
proof
  show "x \<in> set statuses" for x by (cases x) (simp_all add: statuses_def)
qed (simp add: statuses_def)

definition status_from_value :: "string \<Rightarrow> transaction_status" where
  "status_from_value v = (case enum_parse status_value statuses v of
     Some s \<Rightarrow> s | None \<Rightarrow> TECHNICAL_ERROR)"

definition TERMINAL_TRANSACTION_STATUSES :: "transaction_status list" where
  "TERMINAL_TRANSACTION_STATUSES = [COMPLETED, ATTEMPT_LIMIT_EXCEEDED, FAILED]"

lemma status_from_value_value [simp]: "status_from_value (status_value s) = s"
  by (simp add: status_from_value_def)

lemma status_from_value_terminal:
  "status_from_value v \<in> set TERMINAL_TRANSACTION_STATUSES \<longleftrightarrow>
     v \<in> {''COMPLETED'', ''ATTEMPT_LIMIT_EXCEEDED'', ''FAILED''}"
proof (cases "enum_parse status_value statuses v")
  case None
  then have "v \<noteq> status_value s" for s by (auto simp: status_enum.parse_None_iff)
  from this[of COMPLETED] this[of ATTEMPT_LIMIT_EXCEEDED] this[of FAILED] None show ?thesis
    by (simp add: status_from_value_def TERMINAL_TRANSACTION_STATUSES_def)
next
  case (Some s)
  then have "v = status_value s" by (simp add: status_enum.parse_Some_iff)
  then show ?thesis by (cases s) (simp_all add: TERMINAL_TRANSACTION_STATUSES_def del: status_value.simps
        add: status_value.simps[symmetric] status_enum.val_inj)
qed

section \<open>Artifact types and paths\<close>

datatype artifact_type =
  SELECTED_ORIGINAL_CAPTURE | VLM_RESULT | PROCESSED_PORTRAIT | PORTRAIT_PROCESSING_RESULT

fun artifact_type_value :: "artifact_type \<Rightarrow> string" where
  "artifact_type_value SELECTED_ORIGINAL_CAPTURE = ''SELECTED_ORIGINAL_CAPTURE''"
| "artifact_type_value VLM_RESULT = ''VLM_RESULT''"
| "artifact_type_value PROCESSED_PORTRAIT = ''PROCESSED_PORTRAIT''"
| "artifact_type_value PORTRAIT_PROCESSING_RESULT = ''PORTRAIT_PROCESSING_RESULT''"

definition artifact_types :: "artifact_type list" where
  "artifact_types = [SELECTED_ORIGINAL_CAPTURE, VLM_RESULT, PROCESSED_PORTRAIT, PORTRAIT_PROCESSING_RESULT]"

interpretation artifact_enum: str_enum artifact_type_value artifact_types
proof
  show "x \<in> set artifact_types" for x by (cases x) (simp_all add: artifact_types_def)
qed (simp add: artifact_types_def)

fun artifact_directory :: "artifact_type \<Rightarrow> string" where
  "artifact_directory SELECTED_ORIGINAL_CAPTURE = ''capture''"
| "artifact_directory VLM_RESULT = ''vlm''"
| "artifact_directory PROCESSED_PORTRAIT = ''portrait''"
| "artifact_directory PORTRAIT_PROCESSING_RESULT = ''portrait''"

fun ARTIFACT_RELATIVE_PATHS :: "artifact_type \<Rightarrow> string" where
  "ARTIFACT_RELATIVE_PATHS SELECTED_ORIGINAL_CAPTURE = ''capture/selected-original.jpg''"
| "ARTIFACT_RELATIVE_PATHS VLM_RESULT = ''vlm/result.json''"
| "ARTIFACT_RELATIVE_PATHS PROCESSED_PORTRAIT = ''portrait/processed.jpg''"
| "ARTIFACT_RELATIVE_PATHS PORTRAIT_PROCESSING_RESULT = ''portrait/processing.json''"

record artifact_reference =
  ref_transaction_id :: string
  ref_artifact_type :: artifact_type
  ref_relative_path :: string
  ref_content_type :: string
  ref_size_bytes :: nat
  ref_sha256 :: string

definition MAX_ARTIFACT_BYTES :: nat where
  "MAX_ARTIFACT_BYTES = 50 * 1024 * 1024"

section \<open>Ids and paths\<close>

definition id_char :: "char \<Rightarrow> bool" where
  "id_char c \<longleftrightarrow> is_alnum c \<or> c = CHR ''_'' \<or> c = CHR ''-''"

definition is_valid_transaction_id :: "string \<Rightarrow> bool" where
  "is_valid_transaction_id t \<longleftrightarrow> 16 \<le> length t \<and> length t \<le> 128 \<and> list_all id_char t"

definition path_part_kept :: "string \<Rightarrow> bool" where
  "path_part_kept p \<longleftrightarrow> p \<noteq> [] \<and> p \<noteq> ''.'' \<and> p \<noteq> ''..''"

definition rel_ok :: "string \<Rightarrow> bool" where
  "rel_ok p \<longleftrightarrow> p \<noteq> [] \<and> \<not> starts_with ''/'' p \<and> CHR 0x5C \<notin> set p
     \<and> filter path_part_kept (split_on CHR ''/'' p) = split_on CHR ''/'' p"

text \<open>The resolved path, as its components below the transactions root.\<close>

definition resolve_artifact :: "string \<Rightarrow> string \<Rightarrow> exn + string list" where
  "resolve_artifact t p =
     (if \<not> is_valid_transaction_id t then Inl PathError
      else if p = [] \<or> starts_with ''/'' p \<or> CHR 0x5C \<in> set p then Inl PathError
      else let parts = filter path_part_kept (split_on CHR ''/'' p)
           in if parts \<noteq> split_on CHR ''/'' p then Inl PathError
              else Inr (t # parts))"

lemma resolve_artifact_eq:
  "resolve_artifact t p =
     (if is_valid_transaction_id t \<and> rel_ok p then Inr (t # split_on CHR ''/'' p) else Inl PathError)"
  by (auto simp: resolve_artifact_def rel_ok_def Let_def)

text \<open>
  A resolved path stays below the transaction's own directory: its components are the id and then
  names that are not empty, not \<open>.\<close>, not \<open>..\<close> and contain no separator.
\<close>

lemma resolve_artifact_confined:
  assumes "resolve_artifact t p = Inr ps"
  shows "hd ps = t \<and> (\<forall>q \<in> set ps. q \<noteq> [] \<and> q \<noteq> ''.'' \<and> q \<noteq> ''..'' \<and> CHR ''/'' \<notin> set q)"
proof -
  have t: "is_valid_transaction_id t" and ok: "rel_ok p" and ps: "ps = t # split_on CHR ''/'' p"
    using assms by (auto simp: resolve_artifact_eq split: if_splits)
  have "q \<noteq> [] \<and> q \<noteq> ''.'' \<and> q \<noteq> ''..'' \<and> CHR ''/'' \<notin> set q" if "q \<in> set (split_on CHR ''/'' p)" for q
  proof -
    have "path_part_kept q" using ok that by (simp add: rel_ok_def filter_id_conv)
    then show ?thesis using that by (auto simp: path_part_kept_def dest: split_on_no_sep)
  qed
  moreover have "t \<noteq> [] \<and> t \<noteq> ''.'' \<and> t \<noteq> ''..'' \<and> CHR ''/'' \<notin> set t"
    using t by (auto simp: is_valid_transaction_id_def list_all_iff id_char_def is_alnum_def is_digit_def
        is_upper_def is_lower_def char_between_def)
  ultimately show ?thesis using ps by auto
qed

text \<open>Distinct relative paths of one transaction resolve to distinct files.\<close>

lemma resolve_artifact_inj:
  "resolve_artifact t p = Inr ps \<Longrightarrow> resolve_artifact t q = Inr ps \<Longrightarrow> p = q"
  by (metis Inl_Inr_False list.inject resolve_artifact_eq split_on_inj sum.inject(2))

section \<open>Files\<close>

definition file_at :: "world \<Rightarrow> string \<Rightarrow> string \<Rightarrow> blob option" where
  "file_at w t p = (case txs w t of None \<Rightarrow> None | Some fs \<Rightarrow> fs p)"

definition tx_files :: "world \<Rightarrow> string \<Rightarrow> (string \<rightharpoonup> blob)" where
  "tx_files w t = (case txs w t of None \<Rightarrow> Map.empty | Some fs \<Rightarrow> fs)"

definition put_file :: "string \<Rightarrow> string \<Rightarrow> blob \<Rightarrow> world \<Rightarrow> world" where
  "put_file t p b w = w\<lparr>txs := (txs w)(t \<mapsto> (tx_files w t)(p \<mapsto> b))\<rparr>"

definition del_file :: "string \<Rightarrow> string \<Rightarrow> world \<Rightarrow> world" where
  "del_file t p w = (case txs w t of None \<Rightarrow> w | Some fs \<Rightarrow> w\<lparr>txs := (txs w)(t \<mapsto> fs(p := None))\<rparr>)"

definition make_dir :: "string \<Rightarrow> world \<Rightarrow> world" where
  "make_dir t w = w\<lparr>txs := (txs w)(t \<mapsto> tx_files w t)\<rparr>"

lemma file_at_put: "file_at (put_file t p b w) t' p' = (if t = t' \<and> p = p' then Some b else file_at w t' p')"
  by (auto simp: file_at_def put_file_def tx_files_def split: option.splits)

lemma file_at_del: "file_at (del_file t p w) t' p' = (if t = t' \<and> p = p' then None else file_at w t' p')"
  by (auto simp: file_at_def del_file_def split: option.splits)

lemma file_at_make_dir [simp]: "file_at (make_dir t w) t' p' = file_at w t' p'"
  by (auto simp: file_at_def make_dir_def tx_files_def split: option.splits)

interpretation tx_files: removable_store
  "\<lambda>(t, p). put_file t p" "\<lambda>w (t, p). file_at w t p" "\<lambda>(t, p). del_file t p"
  by unfold_locales (auto simp: file_at_put file_at_del split: prod.splits)

text \<open>The other parts of the state are untouched by file operations.\<close>

lemma put_file_frame [simp]:
  "launch_ix (put_file t p b w) = launch_ix w" "session_ix (put_file t p b w) = session_ix w"
  "external_ix (put_file t p b w) = external_ix w" "clock (put_file t p b w) = clock w"
  "rng (put_file t p b w) = rng w" "outbox (put_file t p b w) = outbox w"
  "vlm_calls (put_file t p b w) = vlm_calls w" "metrics (put_file t p b w) = metrics w"
  by (simp_all add: put_file_def)

lemma del_file_frame [simp]:
  "launch_ix (del_file t p w) = launch_ix w" "session_ix (del_file t p w) = session_ix w"
  "external_ix (del_file t p w) = external_ix w" "clock (del_file t p w) = clock w"
  "rng (del_file t p w) = rng w" "outbox (del_file t p w) = outbox w"
  "vlm_calls (del_file t p w) = vlm_calls w" "metrics (del_file t p w) = metrics w"
  by (simp_all add: del_file_def split: option.splits)

lemma make_dir_frame [simp]:
  "launch_ix (make_dir t w) = launch_ix w" "session_ix (make_dir t w) = session_ix w"
  "external_ix (make_dir t w) = external_ix w" "clock (make_dir t w) = clock w"
  "rng (make_dir t w) = rng w" "outbox (make_dir t w) = outbox w"
  "vlm_calls (make_dir t w) = vlm_calls w" "metrics (make_dir t w) = metrics w"
  by (simp_all add: make_dir_def)

lemma file_at_other_fields [simp]:
  "file_at (w\<lparr>launch_ix := a\<rparr>) t p = file_at w t p" "file_at (w\<lparr>session_ix := a\<rparr>) t p = file_at w t p"
  "file_at (w\<lparr>external_ix := a\<rparr>) t p = file_at w t p" "file_at (w\<lparr>clock := b\<rparr>) t p = file_at w t p"
  "file_at (w\<lparr>rng := c\<rparr>) t p = file_at w t p" "file_at (w\<lparr>outbox := d\<rparr>) t p = file_at w t p"
  "file_at (w\<lparr>vlm_calls := e\<rparr>) t p = file_at w t p" "file_at (w\<lparr>metrics := f\<rparr>) t p = file_at w t p"
  by (simp_all add: file_at_def)

section \<open>Operations\<close>

definition transaction_dir :: "string \<Rightarrow> exn + string list" where
  "transaction_dir t = (if is_valid_transaction_id t then Inr [t] else Inl PathError)"

definition transaction_exists :: "string \<Rightarrow> bool M" where
  "transaction_exists t = bnd (lift (transaction_dir t)) (\<lambda>_. gets (\<lambda>w. txs w t \<noteq> None))"

text \<open>
  \<open>with store.lock_transaction(t): body\<close>: the id is checked, the directory is created if it is
  missing, and the body runs with no other holder of the lock, so the model runs it in one step.
\<close>

definition lock_transaction :: "string \<Rightarrow> 'a M \<Rightarrow> 'a M" where
  "lock_transaction t body =
     bnd (lift (transaction_dir t)) (\<lambda>_. andthen (modify (make_dir t)) body)"

definition read_artifact :: "string \<Rightarrow> string \<Rightarrow> blob M" where
  "read_artifact t p =
     bnd (lift (resolve_artifact t p)) (\<lambda>_.
     bnd (gets (\<lambda>w. file_at w t p)) (\<lambda>f. case f of None \<Rightarrow> raise ArtifactNotFound | Some b \<Rightarrow> ret b))"

definition artifact_exists :: "string \<Rightarrow> string \<Rightarrow> bool M" where
  "artifact_exists t p = bnd (lift (resolve_artifact t p)) (\<lambda>_. gets (\<lambda>w. file_at w t p \<noteq> None))"

definition write_bytes :: "runtime \<Rightarrow> string \<Rightarrow> string \<Rightarrow> blob \<Rightarrow> unit M" where
  "write_bytes rt t p b =
     (if blob_size rt b > MAX_ARTIFACT_BYTES then raise StorageError
      else bnd (lift (resolve_artifact t p)) (\<lambda>_. modify (put_file t p b)))"

definition write_artifact :: "runtime \<Rightarrow> string \<Rightarrow> artifact_type \<Rightarrow> blob \<Rightarrow> string \<Rightarrow> artifact_reference M" where
  "write_artifact rt t k b content_type =
     (if blob_size rt b > MAX_ARTIFACT_BYTES then raise StorageError
      else
        (let p = ARTIFACT_RELATIVE_PATHS k in
         bnd (lift (resolve_artifact t p)) (\<lambda>_.
         andthen (modify (put_file t p b))
         (ret \<lparr>ref_transaction_id = t, ref_artifact_type = k, ref_relative_path = p,
               ref_content_type = content_type, ref_size_bytes = blob_size rt b,
               ref_sha256 = sha_blob rt b\<rparr>))))"

definition remove_artifact :: "string \<Rightarrow> string \<Rightarrow> unit M" where
  "remove_artifact t p = bnd (lift (resolve_artifact t p)) (\<lambda>_. modify (del_file t p))"

definition write_json :: "string \<Rightarrow> string \<Rightarrow> obj \<Rightarrow> unit M" where
  "write_json t p ob = bnd (lift (resolve_artifact t p)) (\<lambda>_. modify (put_file t p (Json (JObj ob))))"

fun parse_object :: "blob \<Rightarrow> exn + obj" where
  "parse_object (Json (JObj ob)) = Inr ob"
| "parse_object (Json _) = Inl StorageError"
| "parse_object (Text _) = Inl StorageError"
| "parse_object (Bin _) = Inl UnicodeErr"

definition read_json :: "string \<Rightarrow> string \<Rightarrow> obj M" where
  "read_json t p = bnd (read_artifact t p) (\<lambda>b. lift (parse_object b))"

definition read_transaction_json :: "string \<Rightarrow> obj M" where
  "read_transaction_json t = read_json t ''transaction.json''"

definition create_transaction :: "string \<Rightarrow> obj \<Rightarrow> unit M" where
  "create_transaction t metadata =
     bnd (lift (transaction_dir t)) (\<lambda>_.
     bnd (gets (\<lambda>w. txs w t)) (\<lambda>d.
       if d \<noteq> None then raise TxExistsError
       else
         andthen (modify (make_dir t))
         (catch (write_json t ''transaction.json'' metadata)
           (\<lambda>e. if is_storage_error e
                then andthen (modify (\<lambda>w. w\<lparr>txs := (txs w)(t := None)\<rparr>)) (raise e)
                else raise e))))"

definition update_transaction_status :: "runtime \<Rightarrow> string \<Rightarrow> string \<Rightarrow> unit M" where
  "update_transaction_status rt t status =
     bnd (read_transaction_json t) (\<lambda>metadata.
       (let current = (case jstr_of (py_str rt (jget_d metadata ''status'' (JStr []))) of
                         Some s \<Rightarrow> status_from_value s | None \<Rightarrow> TECHNICAL_ERROR);
            new_status = status_from_value status
        in if current \<in> set TERMINAL_TRANSACTION_STATUSES
              \<and> new_status \<notin> set TERMINAL_TRANSACTION_STATUSES
           then ret ()
           else bnd (gets clock) (\<lambda>now.
             write_json t ''transaction.json''
               (jput ''updated_at'' (JTime now) (jput ''status'' (JStr status) metadata)))))"

section \<open>Equations of the operations\<close>

abbreviation path_ok :: "string \<Rightarrow> string \<Rightarrow> bool" where
  "path_ok t p \<equiv> is_valid_transaction_id t \<and> rel_ok p"

lemma rel_ok_constants [path_simps]:
  "rel_ok ''transaction.json''" "rel_ok ''capture/selected-original.jpg''" "rel_ok ''capture/capture.json''"
  "rel_ok ''vlm/result.json''" "rel_ok ''portrait/processed.jpg''" "rel_ok ''portrait/processing.json''"
  "rel_ok ''portrait/authorization.json''" "rel_ok ''decisions/decision.json''" "rel_ok ''attempts.json''"
  "rel_ok ''launch/active-launches.json''" "rel_ok ''browser/active-session.json''"
  "rel_ok ''callback/decision-callback.json''"
  by (simp_all add: rel_ok_def starts_with_def path_part_kept_def)

lemma wp_read_artifact [wp_simps]:
  "wp (read_artifact t p) Q E w =
     (if path_ok t p then (case file_at w t p of None \<Rightarrow> E ArtifactNotFound w | Some b \<Rightarrow> Q b w)
      else E PathError w)"
  by (simp add: read_artifact_def wp_simps resolve_artifact_eq split: option.splits)

lemma wp_artifact_exists [wp_simps]:
  "wp (artifact_exists t p) Q E w =
     (if path_ok t p then Q (file_at w t p \<noteq> None) w else E PathError w)"
  by (simp add: artifact_exists_def wp_simps resolve_artifact_eq)

lemma wp_write_bytes [wp_simps]:
  "wp (write_bytes rt t p b) Q E w =
     (if blob_size rt b > MAX_ARTIFACT_BYTES then E StorageError w
      else if path_ok t p then Q () (put_file t p b w) else E PathError w)"
  by (simp add: write_bytes_def wp_simps resolve_artifact_eq)

lemma rel_ok_artifact [path_simps]: "rel_ok (ARTIFACT_RELATIVE_PATHS k)"
  by (cases k) (simp_all add: path_simps)

lemma wp_write_artifact [wp_simps]:
  "wp (write_artifact rt t k b c) Q E w =
     (if blob_size rt b > MAX_ARTIFACT_BYTES then E StorageError w
      else if is_valid_transaction_id t then
        Q \<lparr>ref_transaction_id = t, ref_artifact_type = k, ref_relative_path = ARTIFACT_RELATIVE_PATHS k,
           ref_content_type = c, ref_size_bytes = blob_size rt b, ref_sha256 = sha_blob rt b\<rparr>
          (put_file t (ARTIFACT_RELATIVE_PATHS k) b w)
      else E PathError w)"
  by (simp add: write_artifact_def wp_simps resolve_artifact_eq path_simps Let_def)

lemma wp_remove_artifact [wp_simps]:
  "wp (remove_artifact t p) Q E w = (if path_ok t p then Q () (del_file t p w) else E PathError w)"
  by (simp add: remove_artifact_def wp_simps resolve_artifact_eq)

lemma wp_write_json [wp_simps]:
  "wp (write_json t p ob) Q E w =
     (if path_ok t p then Q () (put_file t p (Json (JObj ob)) w) else E PathError w)"
  by (simp add: write_json_def wp_simps resolve_artifact_eq)

lemma wp_read_json [wp_simps]:
  "wp (read_json t p) Q E w =
     (if path_ok t p
      then (case file_at w t p of None \<Rightarrow> E ArtifactNotFound w
            | Some b \<Rightarrow> (case parse_object b of Inl e \<Rightarrow> E e w | Inr ob \<Rightarrow> Q ob w))
      else E PathError w)"
  by (simp add: read_json_def wp_simps split: option.splits sum.splits)

lemma wp_read_transaction_json [wp_simps]:
  "wp (read_transaction_json t) Q E w =
     (if is_valid_transaction_id t
      then (case file_at w t ''transaction.json'' of None \<Rightarrow> E ArtifactNotFound w
            | Some b \<Rightarrow> (case parse_object b of Inl e \<Rightarrow> E e w | Inr ob \<Rightarrow> Q ob w))
      else E PathError w)"
  by (simp add: read_transaction_json_def wp_simps path_simps)

lemma wp_lock_transaction [wp_simps]:
  "wp (lock_transaction t body) Q E w =
     (if is_valid_transaction_id t then wp body Q E (make_dir t w) else E PathError w)"
  by (simp add: lock_transaction_def transaction_dir_def wp_simps)

lemma wp_transaction_exists [wp_simps]:
  "wp (transaction_exists t) Q E w =
     (if is_valid_transaction_id t then Q (txs w t \<noteq> None) w else E PathError w)"
  by (simp add: transaction_exists_def transaction_dir_def wp_simps)

lemma wp_create_transaction [wp_simps]:
  "wp (create_transaction t md) Q E w =
     (if is_valid_transaction_id t
      then (if txs w t \<noteq> None then E TxExistsError w
            else Q () (put_file t ''transaction.json'' (Json (JObj md)) (make_dir t w)))
      else E PathError w)"
  by (simp add: create_transaction_def transaction_dir_def wp_simps path_simps)

text \<open>A written JSON object is read back, and only the file written changes.\<close>

lemma write_read_json:
  assumes "path_ok t p"
  shows "wp (andthen (write_json t p ob) (read_json t p)) (\<lambda>ob' _. ob' = ob) (\<lambda>_ _. False) w"
  using assms by (simp add: wp_simps file_at_put)

section \<open>The status of a transaction\<close>

text \<open>The stored status as the code compares it: \<open>TransactionStatus.from_value(str(...))\<close>.\<close>

definition metadata_of :: "world \<Rightarrow> string \<Rightarrow> obj option" where
  "metadata_of w t = (case file_at w t ''transaction.json'' of
     Some (Json (JObj ob)) \<Rightarrow> Some ob | _ \<Rightarrow> None)"

definition metadata_status :: "runtime \<Rightarrow> obj \<Rightarrow> transaction_status" where
  "metadata_status rt md = (case jstr_of (py_str rt (jget_d md ''status'' (JStr []))) of
     Some s \<Rightarrow> status_from_value s | None \<Rightarrow> TECHNICAL_ERROR)"

definition status_of :: "runtime \<Rightarrow> world \<Rightarrow> string \<Rightarrow> transaction_status option" where
  "status_of rt w t = map_option (metadata_status rt) (metadata_of w t)"

definition is_terminal :: "transaction_status \<Rightarrow> bool" where
  "is_terminal s \<longleftrightarrow> s \<in> set TERMINAL_TRANSACTION_STATUSES"

lemma metadata_status_put [simp]:
  "metadata_status rt (jput ''updated_at'' x (jput ''status'' (JStr (status_value s)) md)) = s"
  by (simp add: metadata_status_def)

lemma metadata_status_put_text:
  "metadata_status rt (jput ''updated_at'' x (jput ''status'' (JStr v) md)) = status_from_value v"
  by (simp add: metadata_status_def)

lemma metadata_of_put:
  "metadata_of (put_file t p b w) t' =
     (if t = t' \<and> p = ''transaction.json'' then (case b of Json (JObj ob) \<Rightarrow> Some ob | _ \<Rightarrow> None)
      else metadata_of w t')"
  by (simp add: metadata_of_def file_at_put)

lemma status_of_put:
  "status_of rt (put_file t ''transaction.json'' (Json (JObj md)) w) t = Some (metadata_status rt md)"
  by (simp add: status_of_def metadata_of_put)

lemma status_of_put_other:
  "p \<noteq> ''transaction.json'' \<Longrightarrow> status_of rt (put_file t p b w) t' = status_of rt w t'"
  by (auto simp: status_of_def metadata_of_put)

lemma parse_object_Inr: "parse_object b = Inr ob \<longleftrightarrow> b = Json (JObj ob)"
  by (cases b rule: parse_object.cases) auto

lemma metadata_of_Some: "metadata_of w t = Some md \<longleftrightarrow> file_at w t ''transaction.json'' = Some (Json (JObj md))"
  by (auto simp: metadata_of_def split: option.splits blob.splits json.splits)

lemma wp_update_status [wp_simps]:
  "wp (update_transaction_status rt t s) Q E w =
     (if is_valid_transaction_id t
      then (case file_at w t ''transaction.json'' of None \<Rightarrow> E ArtifactNotFound w
            | Some b \<Rightarrow> (case parse_object b of Inl e \<Rightarrow> E e w
                | Inr md \<Rightarrow>
                    (if is_terminal (metadata_status rt md) \<and> \<not> is_terminal (status_from_value s)
                     then Q () w
                     else Q () (put_file t ''transaction.json''
                       (Json (JObj (jput ''updated_at'' (JTime (clock w)) (jput ''status'' (JStr s) md)))) w))))
      else E PathError w)"
  by (simp add: update_transaction_status_def wp_simps path_simps Let_def metadata_status_def
      is_terminal_def split: option.splits sum.splits)

end
