(* ===== verification/Index_Store.thy ===== *)
theory Index_Store
  imports Tx_Store
begin

text \<open>
  The index store (\<open>app/integrations/store.py\<close>): launch tokens, browser sessions and external
  transaction ids, each a directory of JSON objects named by a SHA-256 digest. \<open>_confine\<close> resolves
  the name below the index root; every key the code uses is a digest, a single path component, for
  which it is the identity, so a key is its own path here. Key order inside a JSON file is not kept.
\<close>

definition sha256_hex :: "runtime \<Rightarrow> string \<Rightarrow> string" where
  "sha256_hex rt data = sha_text rt data"

definition external_key_hash :: "runtime \<Rightarrow> string \<Rightarrow> string \<Rightarrow> string" where
  "external_key_hash rt consumer_id external_transaction_id =
     sha256_hex rt (consumer_id @ '':'' @ external_transaction_id)"

fun index_read :: "blob option \<Rightarrow> exn + obj option" where
  "index_read None = Inr None"
| "index_read (Some (Json (JObj ob))) = Inr (Some ob)"
| "index_read (Some (Json _)) = Inl IndexStoreError"
| "index_read (Some (Text _)) = Inl IndexStoreError"
| "index_read (Some (Bin _)) = Inl UnicodeErr"

text \<open>The three maps as state functions.\<close>

definition set_launch :: "string \<Rightarrow> obj \<Rightarrow> world \<Rightarrow> world" where
  "set_launch h ob w = w\<lparr>launch_ix := (launch_ix w)(h \<mapsto> Json (JObj ob))\<rparr>"

definition drop_launch :: "string \<Rightarrow> world \<Rightarrow> world" where
  "drop_launch h w = w\<lparr>launch_ix := (launch_ix w)(h := None)\<rparr>"

definition set_session :: "string \<Rightarrow> obj \<Rightarrow> world \<Rightarrow> world" where
  "set_session h ob w = w\<lparr>session_ix := (session_ix w)(h \<mapsto> Json (JObj ob))\<rparr>"

definition drop_session :: "string \<Rightarrow> world \<Rightarrow> world" where
  "drop_session h w = w\<lparr>session_ix := (session_ix w)(h := None)\<rparr>"

definition set_external :: "string \<Rightarrow> obj \<Rightarrow> world \<Rightarrow> world" where
  "set_external h ob w = w\<lparr>external_ix := (external_ix w)(h \<mapsto> Json (JObj ob))\<rparr>"

definition put_launch_token :: "string \<Rightarrow> obj \<Rightarrow> unit M" where
  "put_launch_token h ob = modify (set_launch h ob)"

definition get_launch_token :: "string \<Rightarrow> obj option M" where
  "get_launch_token h = bnd (gets (\<lambda>w. launch_ix w h)) (\<lambda>b. lift (index_read b))"

definition delete_launch_token :: "string \<Rightarrow> unit M" where
  "delete_launch_token h = modify (drop_launch h)"

definition put_browser_session :: "string \<Rightarrow> obj \<Rightarrow> unit M" where
  "put_browser_session h ob = modify (set_session h ob)"

definition get_browser_session :: "string \<Rightarrow> obj option M" where
  "get_browser_session h = bnd (gets (\<lambda>w. session_ix w h)) (\<lambda>b. lift (index_read b))"

definition delete_browser_session :: "string \<Rightarrow> unit M" where
  "delete_browser_session h = modify (drop_session h)"

definition put_external :: "string \<Rightarrow> obj \<Rightarrow> unit M" where
  "put_external h ob = modify (set_external h ob)"

definition get_external :: "string \<Rightarrow> obj option M" where
  "get_external h = bnd (gets (\<lambda>w. external_ix w h)) (\<lambda>b. lift (index_read b))"

text \<open>\<open>with index_store.lock_external(k): body\<close> runs the body with no other holder.\<close>

definition lock_external :: "string \<Rightarrow> 'a M \<Rightarrow> 'a M" where
  "lock_external h body = body"

section \<open>Laws\<close>

interpretation launch_tokens: removable_store
  "\<lambda>h ob. set_launch h ob" "\<lambda>w h. case launch_ix w h of Some (Json (JObj ob)) \<Rightarrow> Some ob | _ \<Rightarrow> None"
  "drop_launch"
  by unfold_locales (auto simp: set_launch_def drop_launch_def)

interpretation browser_sessions: removable_store
  "\<lambda>h ob. set_session h ob" "\<lambda>w h. case session_ix w h of Some (Json (JObj ob)) \<Rightarrow> Some ob | _ \<Rightarrow> None"
  "drop_session"
  by unfold_locales (auto simp: set_session_def drop_session_def)

interpretation external_ids: keyed_store
  "\<lambda>h ob. set_external h ob" "\<lambda>w h. case external_ix w h of Some (Json (JObj ob)) \<Rightarrow> Some ob | _ \<Rightarrow> None"
  by unfold_locales (auto simp: set_external_def)

lemma index_read_Inr: "index_read b = Inr (Some ob) \<longleftrightarrow> b = Some (Json (JObj ob))"
  "index_read b = Inr None \<longleftrightarrow> b = None"
  by (cases b rule: index_read.cases; simp)+

lemma wp_index_ops [wp_simps]:
  "wp (put_launch_token h ob) Q E w = Q () (set_launch h ob w)"
  "wp (delete_launch_token h) Q E w = Q () (drop_launch h w)"
  "wp (put_browser_session h ob) Q E w = Q () (set_session h ob w)"
  "wp (delete_browser_session h) Q E w = Q () (drop_session h w)"
  "wp (put_external h ob) Q E w = Q () (set_external h ob w)"
  "wp (lock_external h body) R E w = wp body R E w"
  by (simp_all add: put_launch_token_def delete_launch_token_def put_browser_session_def
      delete_browser_session_def put_external_def lock_external_def wp_simps)

lemma wp_index_gets [wp_simps]:
  "wp (get_launch_token h) Q E w = (case index_read (launch_ix w h) of Inl e \<Rightarrow> E e w | Inr x \<Rightarrow> Q x w)"
  "wp (get_browser_session h) Q E w = (case index_read (session_ix w h) of Inl e \<Rightarrow> E e w | Inr x \<Rightarrow> Q x w)"
  "wp (get_external h) Q E w = (case index_read (external_ix w h) of Inl e \<Rightarrow> E e w | Inr x \<Rightarrow> Q x w)"
  by (simp_all add: get_launch_token_def get_browser_session_def get_external_def wp_simps)

lemma index_frames [simp]:
  "txs (set_launch h ob w) = txs w" "txs (drop_launch h w) = txs w"
  "txs (set_session h ob w) = txs w" "txs (drop_session h w) = txs w"
  "txs (set_external h ob w) = txs w"
  "clock (set_launch h ob w) = clock w" "clock (drop_launch h w) = clock w"
  "clock (set_session h ob w) = clock w" "clock (drop_session h w) = clock w"
  "clock (set_external h ob w) = clock w"
  "rng (set_launch h ob w) = rng w" "rng (drop_launch h w) = rng w"
  "rng (set_session h ob w) = rng w" "rng (drop_session h w) = rng w"
  "rng (set_external h ob w) = rng w"
  "session_ix (set_launch h ob w) = session_ix w" "session_ix (drop_launch h w) = session_ix w"
  "external_ix (set_launch h ob w) = external_ix w" "external_ix (drop_launch h w) = external_ix w"
  "launch_ix (set_session h ob w) = launch_ix w" "launch_ix (drop_session h w) = launch_ix w"
  "external_ix (set_session h ob w) = external_ix w" "external_ix (drop_session h w) = external_ix w"
  "launch_ix (set_external h ob w) = launch_ix w" "session_ix (set_external h ob w) = session_ix w"
  by (simp_all add: set_launch_def drop_launch_def set_session_def drop_session_def set_external_def)

lemma index_files [simp]:
  "file_at (set_launch h ob w) t p = file_at w t p" "file_at (drop_launch h w) t p = file_at w t p"
  "file_at (set_session h ob w) t p = file_at w t p" "file_at (drop_session h w) t p = file_at w t p"
  "file_at (set_external h ob w) t p = file_at w t p"
  by (simp_all add: file_at_def)

lemma launch_ix_ops [simp]:
  "launch_ix (set_launch h ob w) = (launch_ix w)(h \<mapsto> Json (JObj ob))"
  "launch_ix (drop_launch h w) = (launch_ix w)(h := None)"
  "session_ix (set_session h ob w) = (session_ix w)(h \<mapsto> Json (JObj ob))"
  "session_ix (drop_session h w) = (session_ix w)(h := None)"
  "external_ix (set_external h ob w) = (external_ix w)(h \<mapsto> Json (JObj ob))"
  by (simp_all add: set_launch_def drop_launch_def set_session_def drop_session_def set_external_def)

text \<open>
  The external key determines the pair when the consumer id has no colon; the code does not check
  that, and two consumers whose ids and external ids only differ in where the colon stands share a key.
\<close>

lemma external_key_hash_inj:
  assumes "collision_free rt" "CHR '':'' \<notin> set c" "CHR '':'' \<notin> set c'"
  shows "external_key_hash rt c e = external_key_hash rt c' e' \<longleftrightarrow> c = c' \<and> e = e'"
  using assms append_sep_inject[of "CHR '':''" c c' e e']
  by (auto simp: external_key_hash_def sha256_hex_def collision_free_def inj_eq)

lemma external_key_hash_shared:
  "external_key_hash rt (c @ '':'' @ d) e = external_key_hash rt c (d @ '':'' @ e)"
  by (simp add: external_key_hash_def)

end
