(* ===== verification/Attempts.thy ===== *)
theory Attempts
  imports Index_Store
begin

text \<open>
  Capture attempts (\<open>app/integrations/attempts.py\<close>): an opaque attempt id is counted at most once
  and uploads at most once; the limit of the consumer, or else of the settings, ends the transaction.
\<close>

section \<open>Vocabulary\<close>

definition ATTEMPTS_PATH :: string where "ATTEMPTS_PATH = ''attempts.json''"

definition BROWSER_REASON_ALLOWLIST :: "string list" where
  "BROWSER_REASON_ALLOWLIST =
     [''NO_FACE'', ''MULTIPLE_FACES'', ''FACE_TOO_SMALL'', ''FACE_TOO_LARGE'', ''FACE_OFF_CENTER'',
      ''BLURRED'', ''UNDEREXPOSED'', ''OVEREXPOSED'', ''LOW_CONTRAST'', ''RESOLUTION_TOO_LOW'',
      ''EYES_CLOSED'', ''EYE_STATE_UNKNOWN'', ''LOW_LIGHT'']"

definition FORBIDDEN_BROWSER_VALUES :: "string list" where
  "FORBIDDEN_BROWSER_VALUES =
     [''PASS'', ''LIVE'', ''APPROVED'', ''VERIFIED'', ''SCREEN_REPLAY'', ''PRINT_ATTACK'']"

definition ALLOWED_BROWSER_RESULTS :: "string list" where
  "ALLOWED_BROWSER_RESULTS = [''QUALITY_RETRY'', ''QUALITY_ELIGIBLE'']"

record attempt_result =
  ar_attempt_count :: int
  ar_max_attempts :: int
  ar_warning :: bool
  ar_terminal :: bool
  ar_status :: "string option"

definition attempt_id_hash :: "runtime \<Rightarrow> string \<Rightarrow> string" where
  "attempt_id_hash rt attempt_id = sha_text rt attempt_id"

definition validate_reason :: "string option \<Rightarrow> exn + unit" where
  "validate_reason reason_code = (case reason_code of None \<Rightarrow> Inr ()
     | Some r \<Rightarrow> if r \<in> set FORBIDDEN_BROWSER_VALUES \<or> r \<notin> set BROWSER_REASON_ALLOWLIST
               then Inl AttemptValidationError else Inr ())"

definition validate_result :: "string option \<Rightarrow> exn + unit" where
  "validate_result result = (case result of None \<Rightarrow> Inr ()
     | Some r \<Rightarrow> if r \<notin> set ALLOWED_BROWSER_RESULTS then Inl AttemptValidationError else Inr ())"

section \<open>Operations\<close>

definition blank_attempts :: "int \<Rightarrow> int \<Rightarrow> obj" where
  "blank_attempts now max_attempts =
     [(''attempt_count'', JInt 0), (''warning_stages'', JArr [JInt 5, JInt 7]),
      (''limit'', JInt max_attempts), (''consumed_attempt_ids'', JArr []),
      (''uploaded_attempt_ids'', JArr []), (''reason_codes'', JArr []), (''updated_at'', JTime now)]"

definition read_attempts :: "string \<Rightarrow> int \<Rightarrow> obj M" where
  "read_attempts t max_attempts =
     bnd (artifact_exists t ATTEMPTS_PATH) (\<lambda>present.
     bnd (gets clock) (\<lambda>now.
       if \<not> present then ret (blank_attempts now max_attempts)
       else catch (read_json t ATTEMPTS_PATH) (\<lambda>_. ret (blank_attempts now max_attempts))))"

text \<open>\<open>v = d.get(k, [])\<close>, replaced by \<open>[]\<close> when it is not a list.\<close>

definition list_field :: "obj \<Rightarrow> string \<Rightarrow> json list" where
  "list_field ob k = (case as_list (jget_d ob k (JArr [])) of None \<Rightarrow> [] | Some xs \<Rightarrow> xs)"

definition effective_limit :: "settings \<Rightarrow> int option \<Rightarrow> int" where
  "effective_limit s max_attempts = (case max_attempts of
     Some m \<Rightarrow> if m > 0 then m else capture_attempt_limit s | None \<Rightarrow> capture_attempt_limit s)"

text \<open>The body of \<open>if id_hash not in consumed\<close>: the id is counted, with the reason at most once.\<close>

definition consume_attempt :: "int \<Rightarrow> string \<Rightarrow> string option \<Rightarrow> int \<Rightarrow> obj \<Rightarrow> obj" where
  "consume_attempt now h reason_code count attempts =
     (let consumed = list_field attempts ''consumed_attempt_ids'' @ [JStr h];
          a1 = jput ''consumed_attempt_ids'' (JArr consumed) attempts;
          a2 = jput ''attempt_count'' (JInt (count + 1)) a1;
          a3 = (case reason_code of None \<Rightarrow> a2
                | Some r \<Rightarrow> if r = [] then a2
                          else (let codes = list_field a2 ''reason_codes'' in
                                jput ''reason_codes''
                                  (JArr (if JStr r \<in> set codes then codes else codes @ [JStr r])) a2))
      in jput ''updated_at'' (JTime now) a3)"

text \<open>From "Server-authoritative warning/limit stages" to the end of \<open>register_attempt_locked\<close>.\<close>

definition settle_attempt :: "runtime \<Rightarrow> settings \<Rightarrow> string \<Rightarrow> int \<Rightarrow> obj \<Rightarrow> attempt_result M" where
  "settle_attempt rt s t limit attempts =
     (let stages = [capture_attempt_warning_at s, capture_attempt_warning_again_at s];
          a3 = jput ''limit'' (JInt limit) (jput ''warning_stages'' (JArr (map JInt stages)) attempts) in
     bnd (lift (py_int (jget_d a3 ''attempt_count'' (JInt 0)))) (\<lambda>count.
     andthen (when_do (count \<ge> limit)
                (update_transaction_status rt t (status_value ATTEMPT_LIMIT_EXCEEDED)))
     (andthen (write_json t ATTEMPTS_PATH a3)
     (ret \<lparr>ar_attempt_count = count, ar_max_attempts = limit, ar_warning = count \<in> set stages,
           ar_terminal = count \<ge> limit,
           ar_status = (if count \<ge> limit then Some (status_value ATTEMPT_LIMIT_EXCEEDED) else None)\<rparr>))))"

definition register_attempt_locked ::
  "runtime \<Rightarrow> settings \<Rightarrow> string \<Rightarrow> string \<Rightarrow> string option \<Rightarrow> string option \<Rightarrow> int option \<Rightarrow> bool
    \<Rightarrow> attempt_result M" where
  "register_attempt_locked rt s t attempt_id result reason_code max_attempts mark_uploaded =
     bnd (lift (validate_result result)) (\<lambda>_.
     bnd (lift (validate_reason reason_code)) (\<lambda>_.
     (let limit = effective_limit s max_attempts; h = attempt_id_hash rt attempt_id in
     bnd (read_attempts t limit) (\<lambda>attempts.
     (let uploaded = list_field attempts ''uploaded_attempt_ids'';
          consumed = list_field attempts ''consumed_attempt_ids'' in
     if mark_uploaded \<and> JStr h \<in> set uploaded then raise AttemptUploadRejected
     else
     bnd (if JStr h \<notin> set consumed
          then bnd (lift (py_int (jget_d attempts ''attempt_count'' (JInt 0)))) (\<lambda>n.
               bnd (gets clock) (\<lambda>now. ret (consume_attempt now h reason_code n attempts)))
          else ret attempts) (\<lambda>a1.
     settle_attempt rt s t limit
       (if mark_uploaded \<and> JStr h \<notin> set uploaded
        then jput ''uploaded_attempt_ids'' (JArr (uploaded @ [JStr h])) a1 else a1)))))))"

definition register_attempt ::
  "runtime \<Rightarrow> settings \<Rightarrow> string \<Rightarrow> string \<Rightarrow> string option \<Rightarrow> string option \<Rightarrow> int option \<Rightarrow> bool
    \<Rightarrow> attempt_result M" where
  "register_attempt rt s t attempt_id result reason_code max_attempts mark_uploaded =
     lock_transaction t
       (register_attempt_locked rt s t attempt_id result reason_code max_attempts mark_uploaded)"

record attempt_summary =
  as_attempt_count :: int
  as_max_attempts :: int
  as_reason_codes :: "json list"

definition read_attempt_summary :: "runtime \<Rightarrow> string \<Rightarrow> int \<Rightarrow> attempt_summary M" where
  "read_attempt_summary rt t max_attempts =
     bnd (read_attempts t max_attempts) (\<lambda>attempts.
     bnd (lift (py_int (jget_d attempts ''attempt_count'' (JInt 0)))) (\<lambda>n.
     bnd (lift (py_list rt (jget_d attempts ''reason_codes'' (JArr [])))) (\<lambda>codes.
       ret \<lparr>as_attempt_count = n, as_max_attempts = max_attempts, as_reason_codes = codes\<rparr>)))"

definition new_attempt_id :: "runtime \<Rightarrow> string M" where
  "new_attempt_id rt = draw_token rt"

section \<open>What a registration does\<close>

text \<open>The attempts object as every reader sees it: a missing or unreadable file counts as blank.\<close>

definition attempts_of :: "world \<Rightarrow> string \<Rightarrow> int \<Rightarrow> obj" where
  "attempts_of w t limit = (case file_at w t ATTEMPTS_PATH of
     Some (Json (JObj ob)) \<Rightarrow> ob | _ \<Rightarrow> blank_attempts (clock w) limit)"

lemma rel_ok_attempts [path_simps]: "rel_ok ATTEMPTS_PATH"
  by (simp add: ATTEMPTS_PATH_def path_simps)

lemma wp_read_attempts [wp_simps]:
  "wp (read_attempts t limit) Q E w =
     (if is_valid_transaction_id t then Q (attempts_of w t limit) w else E PathError w)"
  by (auto simp: read_attempts_def wp_simps path_simps attempts_of_def parse_object_Inr
      split: option.splits sum.splits blob.splits json.splits)

text \<open>
  The invariant of the file: as many attempts counted as distinct ids consumed, and every id that
  uploaded was consumed.
\<close>

definition attempts_view :: "obj \<Rightarrow> string list \<Rightarrow> string list \<Rightarrow> bool" where
  "attempts_view ob consumed uploaded \<longleftrightarrow>
     jget ob ''attempt_count'' = Some (JInt (int (length consumed)))
     \<and> jget ob ''consumed_attempt_ids'' = Some (JArr (map JStr consumed))
     \<and> jget ob ''uploaded_attempt_ids'' = Some (JArr (map JStr uploaded))
     \<and> distinct consumed \<and> distinct uploaded \<and> set uploaded \<subseteq> set consumed"

lemma blank_view: "attempts_view (blank_attempts now limit) [] []"
  by (simp add: attempts_view_def blank_attempts_def)

definition add_new :: "'a \<Rightarrow> 'a list \<Rightarrow> 'a list" where
  "add_new x xs = (if x \<in> set xs then xs else xs @ [x])"

lemma set_add_new [simp]: "set (add_new x xs) = insert x (set xs)"
  by (auto simp: add_new_def)

lemma distinct_add_new [simp]: "distinct (add_new x xs) = distinct xs"
  by (simp add: add_new_def)

lemma view_list_field:
  "attempts_view ob cs us \<Longrightarrow> list_field ob ''consumed_attempt_ids'' = map JStr cs"
  "attempts_view ob cs us \<Longrightarrow> list_field ob ''uploaded_attempt_ids'' = map JStr us"
  "attempts_view ob cs us \<Longrightarrow> jget_d ob ''attempt_count'' d = JInt (int (length cs))"
  by (simp_all add: attempts_view_def list_field_def jget_d_def)

lemma view_puts [simp]:
  "attempts_view (jput ''limit'' x ob) cs us = attempts_view ob cs us"
  "attempts_view (jput ''warning_stages'' x ob) cs us = attempts_view ob cs us"
  "attempts_view (jput ''updated_at'' x ob) cs us = attempts_view ob cs us"
  "attempts_view (jput ''reason_codes'' x ob) cs us = attempts_view ob cs us"
  by (simp_all add: attempts_view_def update_conv)

lemma consume_view:
  assumes "attempts_view ob cs us" and "h \<notin> set cs"
  shows "attempts_view (consume_attempt now h r (int (length cs)) ob) (cs @ [h]) us"
proof -
  have "attempts_view (jput ''attempt_count'' (JInt (int (length cs) + 1))
      (jput ''consumed_attempt_ids'' (JArr (map JStr cs @ [JStr h])) ob)) (cs @ [h]) us"
    using assms by (auto simp: attempts_view_def update_conv)
  then show ?thesis
    by (simp add: consume_attempt_def view_list_field(1)[OF assms(1)] Let_def split: option.splits)
qed

lemma upload_view:
  "attempts_view ob cs us \<Longrightarrow> h \<in> set cs \<Longrightarrow> h \<notin> set us \<Longrightarrow>
     attempts_view (jput ''uploaded_attempt_ids'' (JArr (map JStr us @ [JStr h])) ob) cs (us @ [h])"
  by (auto simp: attempts_view_def update_conv)

text \<open>
  The whole registration on a file that satisfies the invariant. It counts the id once, marks an
  upload once, refuses a second upload without changing the state, and writes the terminal status
  exactly when the limit is reached.
\<close>

definition limit_reached_world :: "runtime \<Rightarrow> string \<Rightarrow> bool \<Rightarrow> world \<Rightarrow> world" where
  "limit_reached_world rt t reached w =
     (if reached then snd (update_transaction_status rt t (status_value ATTEMPT_LIMIT_EXCEEDED) w) else w)"

lemma status_update_ok:
  assumes "is_valid_transaction_id t" "metadata_of w t = Some md"
  shows "wp (update_transaction_status rt t s) (\<lambda>_ w'. Q w') E w \<longleftrightarrow>
    Q (snd (update_transaction_status rt t s w))"
proof -
  obtain w' where "update_transaction_status rt t s w = (Inr (), w')"
  proof -
    have "wp (update_transaction_status rt t s) (\<lambda>_ _. True) (\<lambda>_ _. False) w"
      using assms by (simp add: wp_simps metadata_of_Some)
    then show thesis using that by (auto simp: wp_def split: prod.splits sum.splits)
  qed
  then show ?thesis by (simp add: wp_def)
qed

lemma settle_attempt_spec:
  assumes id: "is_valid_transaction_id t" and md: "metadata_of w t = Some md"
    and view: "attempts_view a cs us"
  shows "wp (settle_attempt rt s t limit a)
    (\<lambda>res w'. ar_attempt_count res = int (length cs)
        \<and> ar_terminal res = (int (length cs) \<ge> limit) \<and> ar_max_attempts res = limit
        \<and> (\<exists>ob. attempts_view ob cs us \<and> w' = put_file t ATTEMPTS_PATH (Json (JObj ob))
             (limit_reached_world rt t (int (length cs) \<ge> limit) w)))
    (\<lambda>e w'. False) w"
proof -
  define a3 where "a3 = jput ''limit'' (JInt limit) (jput ''warning_stages''
      (JArr (map JInt [capture_attempt_warning_at s, capture_attempt_warning_again_at s])) a)"
  have v3: "attempts_view a3 cs us" using view by (simp add: a3_def)
  have count: "jget_d a3 ''attempt_count'' (JInt 0) = JInt (int (length cs))"
    by (rule view_list_field(3)[OF v3])
  show ?thesis
    unfolding settle_attempt_def Let_def a3_def[symmetric] count py_int.simps wp_bnd wp_lift sum.case
      wp_andthen wp_when status_update_ok[OF id md] wp_write_json wp_ret
    using id v3 by (auto simp: path_simps limit_reached_world_def)
qed

lemma register_attempt_locked_spec:
  fixes mark :: bool and rt :: runtime and a t :: string and s :: settings
  assumes id: "is_valid_transaction_id t" and md: "metadata_of w t = Some md"
    and view: "attempts_view (attempts_of w t (effective_limit s m)) cs us"
    and ok: "validate_result r = Inr ()" "validate_reason c = Inr ()"
  defines "h \<equiv> attempt_id_hash rt a" and "limit \<equiv> effective_limit s m"
  defines "cs' \<equiv> add_new h cs" and "us' \<equiv> if mark then add_new h us else us"
  defines "reached \<equiv> int (length cs') \<ge> limit"
  shows "wp (register_attempt_locked rt s t a r c m mark)
    (\<lambda>res w'. \<not> (mark \<and> h \<in> set us) \<and> ar_attempt_count res = int (length cs')
        \<and> ar_terminal res = reached \<and> ar_max_attempts res = limit
        \<and> (\<exists>ob. attempts_view ob cs' us'
             \<and> w' = put_file t ATTEMPTS_PATH (Json (JObj ob)) (limit_reached_world rt t reached w)))
    (\<lambda>e w'. e = AttemptUploadRejected \<and> mark \<and> h \<in> set us \<and> w' = w) w"
proof -
  let ?ob = "attempts_of w t limit"
  have fields: "list_field ?ob ''uploaded_attempt_ids'' = map JStr us"
    "list_field ?ob ''consumed_attempt_ids'' = map JStr cs"
    "jget_d ?ob ''attempt_count'' (JInt 0) = JInt (int (length cs))"
    using view_list_field[OF view] by (simp_all add: limit_def)
  define a1 where "a1 = (if h \<in> set cs then ?ob else consume_attempt (clock w) h c (int (length cs)) ?ob)"
  define a2 where "a2 = (if mark \<and> h \<notin> set us
      then jput ''uploaded_attempt_ids'' (JArr (map JStr us @ [JStr h])) a1 else a1)"
  have run: "wp (register_attempt_locked rt s t a r c m mark) Q E w \<longleftrightarrow>
     (if mark \<and> h \<in> set us then E AttemptUploadRejected w else wp (settle_attempt rt s t limit a2) Q E w)"
    for Q E
    using id ok fields by (auto simp: register_attempt_locked_def wp_simps Let_def
        h_def[symmetric] limit_def[symmetric] a1_def a2_def image_iff)
  show ?thesis
  proof (cases "mark \<and> h \<in> set us")
    case True
    then show ?thesis unfolding run by simp
  next
    case False
    have v1: "attempts_view a1 cs' us"
      using view by (auto simp: a1_def cs'_def add_new_def limit_def intro: consume_view)
    then have "attempts_view a2 cs' us'"
      using False by (auto simp: a2_def us'_def add_new_def cs'_def intro!: upload_view)
    then show ?thesis using False unfolding run reached_def
      by (auto intro: wp_mono[OF settle_attempt_spec[OF id md]])
  qed
qed

end
