(* ===== verification/Decisions.thy ===== *)
theory Decisions
  imports Tx_Store
begin

text \<open>
  The canonical decision record (\<open>app/transactions/decisions.py\<close>): the authorization boundary of
  portrait processing and submission. The validation of \<open>DecisionRecord\<close> is the pydantic model's:
  texts of at least one character where it says so, an outcome of the enumeration, and the defaults of
  the two container fields. Texts are kept as JSON texts, so that an ISO instant is one too.
\<close>

definition DECISION_RELATIVE_PATH :: string where
  "DECISION_RELATIVE_PATH = ''decisions/decision.json''"

record decision_record =
  d_decision_id :: json
  d_transaction_id :: json
  d_outcome :: decision_outcome
  d_decided_at :: json
  d_decision_source :: json
  d_decision_version :: json
  d_evidence_refs :: "json list"
  d_metadata :: obj

definition build_decision ::
  "runtime \<Rightarrow> string \<Rightarrow> decision_outcome \<Rightarrow> string \<Rightarrow> string \<Rightarrow> obj option \<Rightarrow> json list option \<Rightarrow> decision_record M" where
  "build_decision rt t outcome source version metadata evidence_refs =
     bnd (draw_token rt) (\<lambda>uid.
     bnd (gets clock) (\<lambda>now.
       if uid = [] \<or> t = [] then raise ValueErr
       else ret \<lparr>d_decision_id = JStr uid, d_transaction_id = JStr t, d_outcome = outcome,
            d_decided_at = JTime now, d_decision_source = JStr source, d_decision_version = JStr version,
            d_evidence_refs = (case evidence_refs of None \<Rightarrow> [] | Some r \<Rightarrow> r),
            d_metadata = (case metadata of None \<Rightarrow> [] | Some m \<Rightarrow> m)\<rparr>))"

text \<open>\<open>record.model_dump(mode=''json'')\<close> and \<open>DecisionRecord.model_validate(raw)\<close>.\<close>

definition encode_decision :: "decision_record \<Rightarrow> obj" where
  "encode_decision r =
     [(''decision_id'', d_decision_id r), (''transaction_id'', d_transaction_id r),
      (''outcome'', JStr (decision_outcome_value (d_outcome r))), (''decided_at'', d_decided_at r),
      (''decision_source'', d_decision_source r), (''decision_version'', d_decision_version r),
      (''evidence_refs'', JArr (d_evidence_refs r)), (''metadata'', JObj (d_metadata r))]"

definition text_field :: "obj \<Rightarrow> string \<Rightarrow> json option" where
  "text_field ob k = (case jget ob k of Some v \<Rightarrow> if is_jstr v then Some v else None | None \<Rightarrow> None)"

definition text_field_nonempty :: "obj \<Rightarrow> string \<Rightarrow> json option" where
  "text_field_nonempty ob k = (case text_field ob k of
     Some v \<Rightarrow> if v = JStr [] then None else Some v | None \<Rightarrow> None)"

definition decode_decision :: "obj \<Rightarrow> decision_record option" where
  "decode_decision ob =
     (case (text_field_nonempty ob ''decision_id'', text_field_nonempty ob ''transaction_id'',
            jget ob ''outcome'', text_field ob ''decided_at'', text_field ob ''decision_source'',
            text_field ob ''decision_version'', jget_d ob ''evidence_refs'' (JArr []),
            jget_d ob ''metadata'' (JObj [])) of
        (Some i, Some t, Some (JStr oc), Some when_at, Some src, Some ver, JArr refs, JObj md) \<Rightarrow>
          (case enum_parse decision_outcome_value decision_outcomes oc of
             Some outcome \<Rightarrow>
               if list_all is_jstr refs
               then Some \<lparr>d_decision_id = i, d_transaction_id = t, d_outcome = outcome, d_decided_at = when_at,
                          d_decision_source = src, d_decision_version = ver, d_evidence_refs = refs,
                          d_metadata = md\<rparr>
               else None
           | None \<Rightarrow> None)
      | _ \<Rightarrow> None)"

definition read_decision :: "string \<Rightarrow> decision_record option M" where
  "read_decision t =
     bnd (artifact_exists t DECISION_RELATIVE_PATH) (\<lambda>present.
       if \<not> present then ret None
       else catch (bnd (read_json t DECISION_RELATIVE_PATH) (\<lambda>raw. ret (decode_decision raw)))
                  (\<lambda>_. ret None))"

definition has_canonical_pass :: "string \<Rightarrow> bool M" where
  "has_canonical_pass t =
     bnd (read_decision t) (\<lambda>r. ret (case r of None \<Rightarrow> False | Some d \<Rightarrow> d_outcome d = PASS))"

definition write_decision :: "string \<Rightarrow> decision_record \<Rightarrow> unit M" where
  "write_decision t r = write_json t DECISION_RELATIVE_PATH (encode_decision r)"

section \<open>Facts\<close>

text \<open>What \<open>DecisionRecord(...)\<close> accepts, hence what every record built satisfies.\<close>

definition decision_wf :: "decision_record \<Rightarrow> bool" where
  "decision_wf r \<longleftrightarrow> list_all is_jstr [d_decision_id r, d_transaction_id r, d_decided_at r,
       d_decision_source r, d_decision_version r]
     \<and> d_decision_id r \<noteq> JStr [] \<and> d_transaction_id r \<noteq> JStr []
     \<and> list_all is_jstr (d_evidence_refs r)"

lemma decode_encode_decision: "decision_wf r \<Longrightarrow> decode_decision (encode_decision r) = Some r"
  by (simp add: decision_wf_def encode_decision_def decode_decision_def text_field_def
      text_field_nonempty_def)

lemma decode_decision_wf: "decode_decision ob = Some r \<Longrightarrow> decision_wf r"
  by (auto simp: decision_wf_def decode_decision_def text_field_def text_field_nonempty_def
      split: option.splits json.splits if_splits)

text \<open>The decision a transaction holds, as every reader of it sees it.\<close>

definition decision_of :: "world \<Rightarrow> string \<Rightarrow> decision_record option" where
  "decision_of w t = (case file_at w t DECISION_RELATIVE_PATH of
     Some (Json (JObj ob)) \<Rightarrow> decode_decision ob | _ \<Rightarrow> None)"

lemma rel_ok_decision [path_simps]: "rel_ok DECISION_RELATIVE_PATH"
  by (simp add: DECISION_RELATIVE_PATH_def path_simps)

lemma wp_read_decision [wp_simps]:
  "wp (read_decision t) Q E w =
     (if is_valid_transaction_id t then Q (decision_of w t) w else E PathError w)"
  by (auto simp: read_decision_def wp_simps path_simps decision_of_def parse_object_Inr
      split: option.splits sum.splits blob.splits json.splits)

lemma wp_has_canonical_pass [wp_simps]:
  "wp (has_canonical_pass t) Q E w =
     (if is_valid_transaction_id t
      then Q (\<exists>r. decision_of w t = Some r \<and> d_outcome r = PASS) w else E PathError w)"
  by (simp add: has_canonical_pass_def wp_simps split: option.splits)

lemma wp_write_decision [wp_simps]:
  "wp (write_decision t r) Q E w =
     (if is_valid_transaction_id t
      then Q () (put_file t DECISION_RELATIVE_PATH (Json (JObj (encode_decision r))) w)
      else E PathError w)"
  by (simp add: write_decision_def wp_simps path_simps)

lemma decision_of_put:
  "decision_of (put_file t p b w) t' =
     (if t = t' \<and> p = DECISION_RELATIVE_PATH
      then (case b of Json (JObj ob) \<Rightarrow> decode_decision ob | _ \<Rightarrow> None)
      else decision_of w t')"
  by (simp add: decision_of_def file_at_put split: blob.splits json.splits)

end
