(* ===== verification/Tx_Ids.thy ===== *)
theory Tx_Ids
  imports Tx_Store
begin

text \<open>
  LivePhoto's own transaction ids (\<open>app/transactions/ids.py\<close>): the format
  \<open>LP-YYYYMMDDTHHMMSSmmmZ-RANDOM\<close>, its generator, and the bounded retry that creates a transaction
  under a fresh id. Instants are microseconds since 1970-01-01 UTC; the calendar conversion below is
  the one \<open>datetime.strftime\<close> performs on them.
\<close>

section \<open>Calendar fields of an instant\<close>

definition is_leap_year :: "nat \<Rightarrow> bool" where
  "is_leap_year y \<longleftrightarrow> y mod 4 = 0 \<and> (y mod 100 \<noteq> 0 \<or> y mod 400 = 0)"

definition year_length :: "nat \<Rightarrow> nat" where
  "year_length y = (if is_leap_year y then 366 else 365)"

definition month_lengths :: "nat \<Rightarrow> nat list" where
  "month_lengths y = [31, if is_leap_year y then 29 else 28, 31, 30, 31, 30, 31, 31, 30, 31, 30, 31]"

function civil_year :: "nat \<Rightarrow> nat \<Rightarrow> nat \<times> nat" where
  "civil_year y d = (if d < year_length y then (y, d) else civil_year (Suc y) (d - year_length y))"
  by pat_completeness auto
termination
  by (relation "measure snd") (auto simp: year_length_def split: if_splits)

declare civil_year.simps [simp del]

fun civil_month :: "nat \<Rightarrow> nat list \<Rightarrow> nat \<Rightarrow> nat \<times> nat" where
  "civil_month m [] d = (m, d)"
| "civil_month m [l] d = (m, d)"
| "civil_month m (l # ls) d = (if d < l then (m, d) else civil_month (Suc m) ls (d - l))"

record utc_fields =
  f_year :: nat
  f_month :: nat
  f_day :: nat
  f_hour :: nat
  f_minute :: nat
  f_second :: nat
  f_micro :: nat

definition utc_fields_of :: "int \<Rightarrow> utc_fields" where
  "utc_fields_of t =
     (let us = nat t; s = us div 1000000; days = s div 86400; r = s mod 86400;
          (y, doy) = civil_year 1970 days; (m, dom) = civil_month 1 (month_lengths y) doy
      in \<lparr>f_year = y, f_month = m, f_day = dom + 1, f_hour = r div 3600,
          f_minute = r mod 3600 div 60, f_second = r mod 60, f_micro = us mod 1000000\<rparr>)"

lemma civil_year_bound: "civil_year y d = (y', d') \<Longrightarrow> d' < year_length y'"
proof (induction y d rule: civil_year.induct)
  case (1 y d)
  then show ?case by (cases "d < year_length y") (auto simp: civil_year.simps[of y d])
qed

lemma civil_month_bound:
  "d < sum_list ls \<Longrightarrow> ls \<noteq> [] \<Longrightarrow> civil_month m ls d = (m', d') \<Longrightarrow>
     m \<le> m' \<and> m' < m + length ls \<and> d' < Max (set ls)"
proof (induction m ls d rule: civil_month.induct)
  case (3 m l l' ls d)
  show ?case
  proof (cases "d < l")
    case True
    with 3 show ?thesis by (auto simp: less_max_iff_disj)
  next
    case False
    with 3 have "Suc m \<le> m' \<and> m' < Suc m + length (l' # ls) \<and> d' < Max (set (l' # ls))" by simp
    then show ?thesis by (auto simp: less_max_iff_disj)
  qed
qed auto

lemma sum_month_lengths: "sum_list (month_lengths y) = year_length y"
  by (simp add: month_lengths_def year_length_def)

text \<open>The fields are in the calendar's ranges.\<close>

lemma utc_fields_ranges:
  assumes "utc_fields_of t = f"
  shows "1 \<le> f_month f \<and> f_month f \<le> 12 \<and> 1 \<le> f_day f \<and> f_day f \<le> 31 \<and> f_hour f < 24
    \<and> f_minute f < 60 \<and> f_second f < 60 \<and> f_micro f < 1000000"
proof -
  let ?days = "nat t div 1000000 div 86400"
  obtain y doy where y: "civil_year 1970 ?days = (y, doy)" by fastforce
  obtain m dom where m: "civil_month 1 (month_lengths y) doy = (m, dom)" by fastforce
  have "doy < sum_list (month_lengths y)" using civil_year_bound[OF y] by (simp add: sum_month_lengths)
  then have *: "1 \<le> m \<and> m < 1 + length (month_lengths y) \<and> dom < Max (set (month_lengths y))"
    by (rule civil_month_bound[OF _ _ m]) (simp add: month_lengths_def)
  have "length (month_lengths y) = 12" "Max (set (month_lengths y)) \<le> 31"
    by (simp_all add: month_lengths_def)
  moreover have "r div 3600 < 24" if "r < 86400" for r :: nat using that by (simp add: less_mult_imp_div_less)
  moreover have "r mod 3600 div 60 < 60" for r :: nat by (simp add: less_mult_imp_div_less)
  ultimately show ?thesis
    using assms y m * by (auto simp: utc_fields_of_def Let_def)
qed

section \<open>Generation\<close>

definition PREFIX :: string where "PREFIX = ''LP''"
definition DEFAULT_MAX_ATTEMPTS :: nat where "DEFAULT_MAX_ATTEMPTS = 5"

text \<open>\<open>now\<close>: a timezone-aware datetime is its instant, whatever its zone; a naive one is refused.\<close>

datatype py_datetime = Naive utc_fields | Aware int

definition strftime_timestamp :: "utc_fields \<Rightarrow> string" where
  "strftime_timestamp f =
     pad_digits 4 (f_year f) @ pad_digits 2 (f_month f) @ pad_digits 2 (f_day f) @ ''T'' @
     pad_digits 2 (f_hour f) @ pad_digits 2 (f_minute f) @ pad_digits 2 (f_second f) @
     pad_digits 3 (f_micro f div 1000) @ ''Z''"

definition draw_suffix :: "runtime \<Rightarrow> string M" where
  "draw_suffix rt = bnd (gets rng) (\<lambda>n. andthen (modify (\<lambda>w. w\<lparr>rng := Suc (rng w)\<rparr>)) (ret (token_hex rt n)))"

definition generate_internal_transaction_id :: "runtime \<Rightarrow> py_datetime option \<Rightarrow> string M" where
  "generate_internal_transaction_id rt now =
     bnd (gets clock) (\<lambda>c.
       case (case now of None \<Rightarrow> Aware c | Some m \<Rightarrow> m) of
         Naive _ \<Rightarrow> raise ValueErr
       | Aware t \<Rightarrow>
           bnd (draw_suffix rt) (\<lambda>hex.
             ret (PREFIX @ ''-'' @ strftime_timestamp (utc_fields_of t) @ ''-'' @ str_upper hex)))"

text \<open>\<open>^LP-\<open>\\\<close>d{8}T\<open>\\\<close>d{9}Z-[A-F0-9]{6,8}$\<close>\<close>

definition matches_internal_pattern :: "string \<Rightarrow> bool" where
  "matches_internal_pattern s \<longleftrightarrow>
     (let ts = take 8 (drop 3 s); ms = take 9 (drop 12 s); suffix = drop 23 s
      in take 3 s = ''LP-'' \<and> length ts = 8 \<and> list_all is_digit ts
         \<and> take 1 (drop 11 s) = ''T'' \<and> length ms = 9 \<and> list_all is_digit ms
         \<and> take 2 (drop 21 s) = ''Z-'' \<and> 6 \<le> length suffix \<and> length suffix \<le> 8
         \<and> list_all (\<lambda>c. is_digit c \<or> char_between CHR ''A'' CHR ''F'' c) suffix)"

definition suffix_hex :: "runtime \<Rightarrow> bool" where
  "suffix_hex rt \<longleftrightarrow> (\<forall>n. length (token_hex rt n) = 6 \<and> set (token_hex rt n) \<subseteq> set hex_chars)"

lemma list_all_pad [simp]: "list_all is_digit (pad_digits w n)"
  by (rule pad_digits_all_digits)

lemma upper_hex_char:
  assumes "c \<in> set hex_chars"
  shows "is_digit (to_upper c) \<or> char_between CHR ''A'' CHR ''F'' (to_upper c)"
proof -
  have "list_all (\<lambda>c. is_digit (to_upper c) \<or> char_between CHR ''A'' CHR ''F'' (to_upper c)) hex_chars"
    by (simp add: hex_chars_def to_upper_def is_lower_def is_digit_def char_between_def)
  with assms show ?thesis by (auto simp: list_all_iff)
qed

lemma upper_hex_chars:
  "set s \<subseteq> set hex_chars \<Longrightarrow> list_all (\<lambda>c. is_digit c \<or> char_between CHR ''A'' CHR ''F'' c) (str_upper s)"
  using upper_hex_char by (fastforce simp: list_all_iff str_upper_def)

lemma strftime_pieces:
  "take 8 (strftime_timestamp f) = pad_digits 4 (f_year f) @ pad_digits 2 (f_month f) @ pad_digits 2 (f_day f)"
  "take 1 (drop 8 (strftime_timestamp f)) = ''T''"
  "take 9 (drop 9 (strftime_timestamp f)) = pad_digits 2 (f_hour f) @ pad_digits 2 (f_minute f) @
     pad_digits 2 (f_second f) @ pad_digits 3 (f_micro f div 1000)"
  "drop 18 (strftime_timestamp f) = ''Z''" "length (strftime_timestamp f) = 19"
  by (simp_all add: strftime_timestamp_def)

lemma generated_id_matches:
  assumes "suffix_hex rt"
  shows "matches_internal_pattern
    (PREFIX @ ''-'' @ strftime_timestamp f @ ''-'' @ str_upper (token_hex rt n))" (is "matches_internal_pattern ?s")
proof -
  let ?x = "str_upper (token_hex rt n)"
  have len: "length ?x = 6" using assms by (simp add: suffix_hex_def str_upper_def)
  have up: "list_all (\<lambda>c. is_digit c \<or> char_between CHR ''A'' CHR ''F'' c) ?x"
    using assms by (intro upper_hex_chars) (simp add: suffix_hex_def)
  have s: "?s = ''LP-'' @ strftime_timestamp f @ ''-'' @ ?x" by (simp add: PREFIX_def)
  show ?thesis unfolding s matches_internal_pattern_def Let_def
    using len up by (simp add: strftime_timestamp_def)
qed

lemma digit_id_char: "is_digit c \<Longrightarrow> id_char c"
  by (simp add: id_char_def is_alnum_def)

lemma AF_id_char: "char_between CHR ''A'' CHR ''F'' c \<Longrightarrow> id_char c"
  by (simp add: id_char_def is_alnum_def is_upper_def char_between_def)

lemma pattern_decomposition:
  assumes "matches_internal_pattern s"
  shows "s = ''LP-'' @ take 8 (drop 3 s) @ ''T'' @ take 9 (drop 12 s) @ ''Z-'' @ drop 23 s"
proof -
  have split: "drop n s = take k (drop n s) @ drop (n + k) s" for n k
    by (metis add.commute append_take_drop_id drop_drop)
  have "s = take 3 s @ take 8 (drop 3 s) @ take 1 (drop 11 s) @ take 9 (drop 12 s)
      @ take 2 (drop 21 s) @ drop 23 s"
    using split[of 3 8] split[of 11 1] split[of 12 9] split[of 21 2] append_take_drop_id[of 3 s]
    by simp
  with assms show ?thesis by (auto simp: matches_internal_pattern_def Let_def)
qed

text \<open>Every id of the generated shape is a valid transaction id of the store.\<close>

lemma pattern_valid_id:
  assumes "matches_internal_pattern s"
  shows "is_valid_transaction_id s"
proof -
  from assms have parts: "length (take 8 (drop 3 s)) = 8" "list_all is_digit (take 8 (drop 3 s))"
    "length (take 9 (drop 12 s)) = 9" "list_all is_digit (take 9 (drop 12 s))"
    "6 \<le> length (drop 23 s)" "length (drop 23 s) \<le> 8"
    "list_all (\<lambda>c. is_digit c \<or> char_between CHR ''A'' CHR ''F'' c) (drop 23 s)"
    by (simp_all add: matches_internal_pattern_def Let_def)
  obtain a b c where s: "s = ''LP-'' @ a @ ''T'' @ b @ ''Z-'' @ c"
    and "length a = 8" "list_all is_digit a" "length b = 9" "list_all is_digit b"
    and "6 \<le> length c" "length c \<le> 8"
    and "list_all (\<lambda>c. is_digit c \<or> char_between CHR ''A'' CHR ''F'' c) c"
    using pattern_decomposition[OF assms] parts by blast
  then show ?thesis
    by (auto simp: s is_valid_transaction_id_def list_all_iff intro: digit_id_char AF_id_char)
       (simp_all add: id_char_def is_alnum_def is_upper_def char_between_def)
qed

section \<open>Creation with a generated id\<close>

primrec allocate_transaction :: "string M \<Rightarrow> (string \<Rightarrow> obj) \<Rightarrow> nat \<Rightarrow> string M" where
  "allocate_transaction generate metadata_factory 0 = raise StorageError"
| "allocate_transaction generate metadata_factory (Suc n) =
     bnd generate (\<lambda>candidate.
       catch (andthen (create_transaction candidate (metadata_factory candidate)) (ret candidate))
         (\<lambda>e. if e = TxExistsError then allocate_transaction generate metadata_factory n else raise e))"

definition create_transaction_with_generated_id ::
  "runtime \<Rightarrow> (string \<Rightarrow> obj) \<Rightarrow> py_datetime option \<Rightarrow> string M option \<Rightarrow> nat \<Rightarrow> string M" where
  "create_transaction_with_generated_id rt metadata_factory now id_factory max_attempts =
     allocate_transaction
       (case id_factory of None \<Rightarrow> generate_internal_transaction_id rt now | Some g \<Rightarrow> g)
       metadata_factory max_attempts"

lemma wp_generate_now [wp_simps]:
  "wp (generate_internal_transaction_id rt (Some (Aware t))) Q E w =
     Q (PREFIX @ ''-'' @ strftime_timestamp (utc_fields_of t) @ ''-'' @ str_upper (token_hex rt (rng w)))
       (w\<lparr>rng := Suc (rng w)\<rparr>)"
  by (simp add: generate_internal_transaction_id_def draw_suffix_def wp_simps)

text \<open>
  The loop, for any generator that leaves the transactions alone: on success the id is valid and was
  free, the new transaction holds exactly its metadata, and every other transaction is as before; on failure no
  transaction changed.
\<close>

lemma allocate_transaction_spec:
  assumes gen: "\<And>v. G v \<Longrightarrow> wp generate (\<lambda>_ v'. txs v' = txs v \<and> G v') (\<lambda>_ v'. txs v' = txs v \<and> G v') v"
    and G: "\<And>v x. G v \<Longrightarrow> G (v\<lparr>txs := x\<rparr>)"
    and "txs w = T" and "G w"
  shows "wp (allocate_transaction generate mf n)
    (\<lambda>c w'. is_valid_transaction_id c \<and> T c = None \<and> txs w' = T(c \<mapsto> [''transaction.json'' \<mapsto> Json (JObj (mf c))]) \<and> G w')
    (\<lambda>e w'. txs w' = T \<and> G w') w"
  using assms(3,4)
proof (induction n arbitrary: w)
  case 0
  then show ?case by (simp add: wp_simps)
next
  case (Suc n)
  show ?case unfolding allocate_transaction.simps wp_bnd
  proof (rule wp_mono[OF gen[OF Suc.prems(2)]])
    fix c v assume v: "txs v = txs w \<and> G v"
    have Gput: "G (put_file c ''transaction.json'' b (make_dir c v))" for b
      using v by (simp add: put_file_def make_dir_def G)
    have put: "T c = None \<Longrightarrow> txs (put_file c ''transaction.json'' b (make_dir c v))
        = T(c \<mapsto> [''transaction.json'' \<mapsto> b])" for b
      using v Suc.prems by (simp add: put_file_def make_dir_def tx_files_def)
    have "wp (allocate_transaction generate mf n)
      (\<lambda>c w'. is_valid_transaction_id c \<and> T c = None \<and> txs w' = T(c \<mapsto> [''transaction.json'' \<mapsto> Json (JObj (mf c))]) \<and> G w')
      (\<lambda>e w'. txs w' = T \<and> G w') v"
      using v Suc.prems by (intro Suc.IH) auto
    then show "wp (catch (andthen (create_transaction c (mf c)) (ret c))
         (\<lambda>e. if e = TxExistsError then allocate_transaction generate mf n else raise e))
      (\<lambda>c w'. is_valid_transaction_id c \<and> T c = None \<and> txs w' = T(c \<mapsto> [''transaction.json'' \<mapsto> Json (JObj (mf c))]) \<and> G w')
      (\<lambda>e w'. txs w' = T \<and> G w') v"
      using v Suc.prems by (simp add: wp_simps put Gput)
  qed (use Suc.prems in auto)
qed

end
