(* ===== verification/Transaction_Properties.thy ===== *)
theory Transaction_Properties
  imports Attempts Decisions Tx_Ids
begin

text \<open>
  The properties of the transaction store, the generated ids, the decision record and the attempt
  counter, each with a witness where it has hypotheses. \<open>demo_runtime\<close> and \<open>demo_world\<close> are the concrete
  runtime and state the witnesses use.
\<close>

section \<open>A concrete runtime and state\<close>

definition demo_runtime :: runtime where
  "demo_runtime = \<lparr>sha_text = (\<lambda>s. replicate 64 CHR ''0''), sha_blob = (\<lambda>b. replicate 64 CHR ''0''),
     opaque_token = (\<lambda>n. replicate (Suc n) CHR ''t''), token_hex = (\<lambda>n. ''00abcd''),
     json_bytes = (\<lambda>j. []), json_loads = (\<lambda>s. None), py_repr = (\<lambda>j. ''repr''), iso_text = (\<lambda>t. ''iso''),
     from_iso = (\<lambda>s. IsoInvalid), parse_float = (\<lambda>s. None)\<rparr>"

definition demo_id :: string where "demo_id = ''LP-20260101T000000000Z-00ABCD''"

definition demo_world :: "string \<Rightarrow> world" where
  "demo_world status = put_file demo_id ''transaction.json''
     (Json (JObj [(''transaction_id'', JStr demo_id), (''status'', JStr status)])) empty_world"

lemma demo_id_valid [simp]: "is_valid_transaction_id demo_id"
  by (simp add: demo_id_def is_valid_transaction_id_def id_char_def is_alnum_def is_digit_def is_upper_def
      is_lower_def char_between_def)

lemma demo_id_not_Nil: "demo_id \<noteq> []"
  by (simp add: demo_id_def)

lemma demo_suffix_hex [simp]: "suffix_hex demo_runtime"
  by (simp add: suffix_hex_def demo_runtime_def hex_chars_def)

lemma demo_hashes_hex [simp]: "hashes_hex demo_runtime"
  by (simp add: hashes_hex_def hex_digest_def demo_runtime_def hex_chars_def)

lemma demo_metadata [simp]:
  "metadata_of (demo_world s) demo_id = Some [(''transaction_id'', JStr demo_id), (''status'', JStr s)]"
  by (simp add: demo_world_def metadata_of_put)

section \<open>Paths\<close>

text \<open>C24: A resolved artifact path lies below the directory of its own transaction: the first component is
  the transaction id, and no component is empty, a dot, a double dot or contains a separator.\<close>

theorem artifact_path_confined:
  assumes "resolve_artifact t p = Inr ps"
  shows "hd ps = t \<and> (\<forall>q. q \<in> set ps \<longrightarrow> q \<noteq> [] \<and> q \<noteq> ''.'' \<and> q \<noteq> ''..'' \<and> CHR ''/'' \<notin> set q)"
  using resolve_artifact_confined[OF assms] by blast

theorem artifact_path_confined_witness:
  "hd [demo_id, ''vlm'', ''result.json''] = demo_id \<and> ''..'' \<notin> set [demo_id, ''vlm'', ''result.json'']"
proof -
  have "resolve_artifact demo_id ''vlm/result.json'' = Inr [demo_id, ''vlm'', ''result.json'']"
    by (simp add: resolve_artifact_eq path_simps)
  then show ?thesis using artifact_path_confined by blast
qed

section \<open>Transactions\<close>

text \<open>Creating a transaction never overwrites one: it succeeds only for a valid id without a
  directory, and then adds exactly the directory with its metadata; every refusal leaves the state as it was.\<close>

theorem create_transaction_exclusive:
  "wp (create_transaction t md)
     (\<lambda>_ w'. is_valid_transaction_id t \<and> txs w t = None
        \<and> txs w' = (txs w)(t \<mapsto> [''transaction.json'' \<mapsto> Json (JObj md)]))
     (\<lambda>e w'. w' = w \<and> (if is_valid_transaction_id t then e = TxExistsError \<and> txs w t \<noteq> None else e = PathError)) w"
  by (simp add: wp_simps put_file_def tx_files_def make_dir_def)

text \<open>A terminal status is sticky: whatever status is written to a transaction in a terminal one, it
  is in a terminal one afterwards, and a status that is not terminal changes nothing.\<close>

theorem terminal_status_sticky:
  assumes "is_valid_transaction_id t" and "status_of rt w t = Some st" and "is_terminal st"
  shows "wp (update_transaction_status rt t s)
    (\<lambda>_ w'. (\<exists>st'. status_of rt w' t = Some st' \<and> is_terminal st')
       \<and> (w' = w \<or> status_of rt w' t = Some (status_from_value s))) (\<lambda>_ _. False) w"
proof -
  obtain md where md: "file_at w t ''transaction.json'' = Some (Json (JObj md))" "metadata_status rt md = st"
    using assms(2) by (auto simp: status_of_def metadata_of_Some)
  then have "status_of rt w t = Some st" using assms(2) by simp
  with md assms show ?thesis by (auto simp: wp_simps status_of_put metadata_status_put_text)
qed

theorem terminal_status_sticky_witness:
  "wp (update_transaction_status demo_runtime demo_id ''CAPTURE_READY'')
    (\<lambda>_ w'. (\<exists>st'. status_of demo_runtime w' demo_id = Some st' \<and> is_terminal st')
       \<and> (w' = demo_world ''COMPLETED'' \<or> status_of demo_runtime w' demo_id = Some (status_from_value ''CAPTURE_READY'')))
    (\<lambda>_ _. False) (demo_world ''COMPLETED'')"
  by (rule terminal_status_sticky[where st = COMPLETED])
     (use status_from_value_value[of COMPLETED] in
       \<open>simp_all add: status_of_def metadata_status_def is_terminal_def TERMINAL_TRANSACTION_STATUSES_def\<close>)

text \<open>A JSON object written to an artifact path is what the next read of that path returns, and no
  other file changes.\<close>

theorem json_written_is_read:
  "wp (andthen (write_json t p ob) (read_json t p))
     (\<lambda>ob' w'. ob' = ob \<and> w' = put_file t p (Json (JObj ob)) w) (\<lambda>e w'. e = PathError \<and> w' = w) w"
  by (simp add: wp_simps file_at_put)

section \<open>Generated ids\<close>

text \<open>An id generated from an aware time matches the internal pattern, so it is a valid transaction
  id; a naive time is refused.\<close>

theorem generated_id_valid:
  assumes "suffix_hex rt"
  shows "wp (generate_internal_transaction_id rt now)
    (\<lambda>i _. matches_internal_pattern i \<and> is_valid_transaction_id i) (\<lambda>e w'. e = ValueErr \<and> w' = w) w"
  using generated_id_matches[OF assms] pattern_valid_id[OF generated_id_matches[OF assms]]
  by (simp add: generate_internal_transaction_id_def draw_suffix_def wp_simps split: py_datetime.splits option.splits)

theorem generated_id_valid_witness:
  "wp (generate_internal_transaction_id demo_runtime (Some (Aware 0)))
    (\<lambda>i _. matches_internal_pattern i \<and> is_valid_transaction_id i) (\<lambda>e w'. e = ValueErr \<and> w' = empty_world) empty_world"
  by (rule generated_id_valid) simp

section \<open>Decisions\<close>

text \<open>C25: A well-formed decision record that is written is what the decision reader returns.\<close>

theorem decision_written_is_read:
  assumes "is_valid_transaction_id t" and "decision_wf d"
  shows "wp (andthen (write_decision t d) (read_decision t)) (\<lambda>r _. r = Some d) (\<lambda>_ _. False) w"
  using assms by (simp add: wp_simps decision_of_put decode_encode_decision)

definition demo_decision :: decision_record where
  "demo_decision = \<lparr>d_decision_id = JStr ''d'', d_transaction_id = JStr demo_id, d_outcome = PASS,
     d_decided_at = JTime 0, d_decision_source = JStr ''vlm'', d_decision_version = JStr ''v'',
     d_evidence_refs = [JStr ''liveness/x.json''], d_metadata = []\<rparr>"

theorem decision_written_is_read_witness:
  "wp (andthen (write_decision demo_id demo_decision) (read_decision demo_id))
     (\<lambda>r _. r = Some demo_decision) (\<lambda>_ _. False) empty_world"
  by (rule decision_written_is_read) (simp_all add: decision_wf_def demo_decision_def demo_id_not_Nil)

section \<open>Attempts\<close>

lemma limit_reached_status:
  assumes "is_valid_transaction_id t" and "metadata_of w t = Some md"
  shows "status_of rt (limit_reached_world rt t reached w) t =
    Some (if reached then ATTEMPT_LIMIT_EXCEEDED else metadata_status rt md)"
proof -
  have s: "status_from_value ''ATTEMPT_LIMIT_EXCEEDED'' = ATTEMPT_LIMIT_EXCEEDED"
    using status_from_value_value[of ATTEMPT_LIMIT_EXCEEDED] by simp
  have "wp (update_transaction_status rt t ''ATTEMPT_LIMIT_EXCEEDED'')
      (\<lambda>_ w'. status_of rt w' t = Some ATTEMPT_LIMIT_EXCEEDED) (\<lambda>_ _. False) w"
    using assms by (simp add: wp_simps metadata_of_Some status_of_put metadata_status_put_text s is_terminal_def
        TERMINAL_TRANSACTION_STATUSES_def)
  then show ?thesis
    using assms by (auto simp: limit_reached_world_def status_of_def wp_def split: prod.splits sum.splits)
qed

lemma attempts_of_make_dir [simp]: "attempts_of (make_dir t w) t' n = attempts_of w t' n"
  by (simp add: attempts_of_def split: option.splits blob.splits json.splits)

lemma metadata_of_make_dir [simp]: "metadata_of (make_dir t w) t' = metadata_of w t'"
  by (simp add: metadata_of_def)

lemma path_neq: "ATTEMPTS_PATH \<noteq> ''transaction.json''"
  by (simp add: ATTEMPTS_PATH_def)

lemma attempts_of_put:
  "attempts_of (put_file t ATTEMPTS_PATH (Json (JObj ob)) w) t n = ob"
  by (simp add: attempts_of_def file_at_put)

lemma demo_attempts [simp]: "attempts_view (attempts_of (demo_world st) demo_id n) [] []"
  by (simp add: attempts_of_def demo_world_def file_at_put ATTEMPTS_PATH_def blank_view)
     (simp add: file_at_def empty_world_def blank_view)

text \<open>C11: Registering an attempt counts its id once: a new id raises the count by one, a known one
  leaves it; an upload is marked once and a second one for the same id is refused without a change; the
  transaction ends in ATTEMPT\_LIMIT\_EXCEEDED exactly when the count reaches the limit.\<close>

theorem attempt_registered_once:
  fixes mark :: bool
  assumes "is_valid_transaction_id t" and "metadata_of w t = Some md"
    and "attempts_view (attempts_of w t (effective_limit s m)) cs us"
    and "validate_result r = Inr ()" and "validate_reason c = Inr ()"
    and "cs' = add_new (attempt_id_hash rt a) cs"
    and "us' = (if mark then add_new (attempt_id_hash rt a) us else us)"
  shows "wp (register_attempt rt s t a r c m mark)
    (\<lambda>res w'. ar_attempt_count res = int (length cs')
        \<and> ar_terminal res = (int (length cs') \<ge> effective_limit s m)
        \<and> attempts_view (attempts_of w' t (effective_limit s m)) cs' us'
        \<and> status_of rt w' t = Some (if ar_terminal res then ATTEMPT_LIMIT_EXCEEDED else metadata_status rt md))
    (\<lambda>e w'. e = AttemptUploadRejected \<and> mark \<and> attempt_id_hash rt a \<in> set us \<and> w' = make_dir t w) w"
proof -
  let ?v = "make_dir t w"
  have md: "metadata_of ?v t = Some md" using assms(2) by simp
  have view: "attempts_view (attempts_of ?v t (effective_limit s m)) cs us" using assms(3) by simp
  show ?thesis
    unfolding register_attempt_def wp_lock_transaction if_P[OF assms(1)]
    by (rule wp_mono[OF register_attempt_locked_spec[OF assms(1) md view assms(4,5)]])
       (auto simp: assms(6,7) status_of_put_other limit_reached_status[OF assms(1) md] attempts_of_put
          path_neq)
qed

theorem attempt_registered_once_witness:
  "wp (register_attempt demo_runtime (default_settings\<lparr>capture_attempt_limit := 1\<rparr>) demo_id ''a'' None None None True)
    (\<lambda>res w'. ar_attempt_count res = 1 \<and> status_of demo_runtime w' demo_id = Some ATTEMPT_LIMIT_EXCEEDED)
    (\<lambda>_ _. False) (demo_world ''LAUNCHED'')"
  by (rule wp_mono[OF attempt_registered_once[OF demo_id_valid demo_metadata demo_attempts _ _ refl refl]])
     (auto simp: validate_result_def validate_reason_def effective_limit_def add_new_def)

text \<open>A selected original is accepted at most once per attempt id: right after a successful upload,
  whatever result, reason or limit it comes with, a further upload under the same id is refused.\<close>

theorem attempt_uploads_once:
  assumes "is_valid_transaction_id t" and "metadata_of w t = Some md"
    and "attempts_view (attempts_of w t (effective_limit s m)) cs us"
  shows "wp (register_attempt rt s t a None None m True)
    (\<lambda>_. wp (register_attempt rt s t a None None m True) (\<lambda>_ _. False) (\<lambda>e _. e = AttemptUploadRejected))
    (\<lambda>e _. e = AttemptUploadRejected) w"
proof -
  let ?h = "attempt_id_hash rt a" and ?lim = "effective_limit s m"
  have again: "wp (register_attempt_locked rt s t a None None m True) (\<lambda>_ _. False) (\<lambda>e _. e = AttemptUploadRejected) v"
    if "attempts_view (attempts_of v t ?lim) cs' us'" "?h \<in> set us'" for v cs' us'
    using that assms(1) view_list_field(2)[OF that(1)]
    by (simp add: register_attempt_locked_def wp_simps validate_result_def validate_reason_def Let_def)
  have first: "attempts_view (attempts_of (make_dir t w) t ?lim) cs us" "metadata_of (make_dir t w) t = Some md"
    using assms(2,3) by simp_all
  show ?thesis
    unfolding register_attempt_def wp_lock_transaction if_P[OF assms(1)]
    by (rule wp_mono[OF register_attempt_locked_spec[OF assms(1) first(2,1)]])
       (auto simp: validate_result_def validate_reason_def attempts_of_put intro!: again)
qed

theorem attempt_uploads_once_witness:
  "wp (register_attempt demo_runtime default_settings demo_id ''a'' None None None True)
    (\<lambda>_. wp (register_attempt demo_runtime default_settings demo_id ''a'' None None None True)
       (\<lambda>_ _. False) (\<lambda>e _. e = AttemptUploadRejected))
    (\<lambda>e _. e = AttemptUploadRejected) (demo_world ''LAUNCHED'')"
  by (rule attempt_uploads_once[OF demo_id_valid demo_metadata, where cs = "[]" and us = "[]"])
     simp

end
