(* ===== verification/Consumers.thy ===== *)
theory Consumers
  imports World
begin

text \<open>
  Consumer profiles (\<open>app/integrations/consumers.py\<close>): the profile and its checks, the registry by
  consumer id, and the loader of the profiles file. Pydantic's validation of one profile is a
  parameter (\<open>validate_profile\<close>): the JSON entry to the profile, or no profile.
\<close>

datatype callback_auth = Auth_none | Auth_bearer_env

record callback_config =
  cb_url :: string
  cb_auth_type :: callback_auth
  cb_secret_env :: string

record request_policy =
  rp_ocr_required :: "bool list"
  rp_camera_configs :: "string list"
  rp_white_background :: "bool list"
  rp_output_formats :: "string list"

record consumer_profile =
  consumer_id :: string
  active :: bool
  cp_name :: string
  jwt_client_ids :: "string list"
  callback :: callback_config
  allowed_redirect_origins :: "string list"
  policy :: request_policy
  max_attempts :: int
  watermark_spec :: json

definition default_callback_config :: callback_config where
  "default_callback_config = \<lparr>cb_url = [], cb_auth_type = Auth_none, cb_secret_env = []\<rparr>"

definition default_request_policy :: request_policy where
  "default_request_policy =
     \<lparr>rp_ocr_required = [False], rp_camera_configs = [''1''], rp_white_background = [True],
      rp_output_formats = [''jpeg'']\<rparr>"

definition default_consumer_profile :: "string \<Rightarrow> consumer_profile" where
  "default_consumer_profile cid =
     \<lparr>consumer_id = cid, active = True, cp_name = [], jwt_client_ids = [],
      callback = default_callback_config, allowed_redirect_origins = [],
      policy = default_request_policy, max_attempts = 10, watermark_spec = JNull\<rparr>"

definition matches_client_id :: "consumer_profile \<Rightarrow> string \<Rightarrow> bool" where
  "matches_client_id p client_id \<longleftrightarrow> client_id \<in> set (jwt_client_ids p)"

definition request_policy_allows ::
  "consumer_profile \<Rightarrow> bool \<Rightarrow> string \<Rightarrow> bool \<Rightarrow> string \<Rightarrow> bool" where
  "request_policy_allows p ocr_required camera_config white_background output_file_format \<longleftrightarrow>
     ocr_required \<in> set (rp_ocr_required (policy p))
     \<and> camera_config \<in> set (rp_camera_configs (policy p))
     \<and> white_background \<in> set (rp_white_background (policy p))
     \<and> output_file_format \<in> set (rp_output_formats (policy p))"

definition allows_redirect_origin :: "consumer_profile \<Rightarrow> string \<Rightarrow> bool" where
  "allows_redirect_origin p origin \<longleftrightarrow> origin \<in> set (allowed_redirect_origins p)"

definition validate_callback_auth :: "consumer_profile \<Rightarrow> app_environment \<Rightarrow> exn + unit" where
  "validate_callback_auth p env =
     (if env \<in> {Env_uat, Env_production} \<and> cb_auth_type (callback p) \<noteq> Auth_bearer_env
      then Inl ConsumerConfigError else Inr ())"

section \<open>Registry\<close>

text \<open>\<open>_by_id\<close>: a dict in insertion order; a later profile with the same id replaces the earlier one.\<close>

type_synonym consumer_registry = "(string \<times> consumer_profile) list"

definition registry_of :: "consumer_profile list \<Rightarrow> consumer_registry" where
  "registry_of ps = fold (\<lambda>p. AList.update (consumer_id p) p) ps []"

definition registry_get :: "consumer_registry \<Rightarrow> string \<Rightarrow> consumer_profile option" where
  "registry_get r cid = map_of r cid"

definition active_consumer :: "consumer_registry \<Rightarrow> string \<Rightarrow> consumer_profile option" where
  "active_consumer r cid = (case registry_get r cid of
     None \<Rightarrow> None
   | Some p \<Rightarrow> if \<not> active p then None else Some p)"

fun find_by_client_id :: "consumer_registry \<Rightarrow> string \<Rightarrow> consumer_profile option" where
  "find_by_client_id [] client_id = None"
| "find_by_client_id ((_, p) # r) client_id =
     (if matches_client_id p client_id then Some p else find_by_client_id r client_id)"

section \<open>Loading\<close>

fun consumers_list :: "json \<Rightarrow> json list option" where
  "consumers_list (JObj ob) = as_list (jget_n ob ''consumers'')"
| "consumers_list _ = None"

fun validate_entries ::
  "(json \<Rightarrow> consumer_profile option) \<Rightarrow> app_environment \<Rightarrow> json list \<Rightarrow> exn + consumer_profile list" where
  "validate_entries validate_profile env [] = Inr []"
| "validate_entries validate_profile env (j # js) =
     (case validate_profile j of
        None \<Rightarrow> Inl ValueErr
      | Some p \<Rightarrow>
          (case validate_callback_auth p env of
             Inl e \<Rightarrow> Inl e
           | Inr _ \<Rightarrow>
               (case validate_entries validate_profile env js of
                  Inl e \<Rightarrow> Inl e | Inr ps \<Rightarrow> Inr (p # ps))))"

text \<open>The file's contents are the argument: \<open>None\<close> when it cannot be read.\<close>

definition load_consumer_profiles ::
  "(json \<Rightarrow> consumer_profile option) \<Rightarrow> blob option \<Rightarrow> app_environment \<Rightarrow> exn + consumer_profile list" where
  "load_consumer_profiles validate_profile file env =
     (case file of
        None \<Rightarrow> Inl ConsumerConfigError
      | Some (Bin _) \<Rightarrow> Inl UnicodeErr
      | Some (Text _) \<Rightarrow> Inl ConsumerConfigError
      | Some (Json parsed) \<Rightarrow>
          (case consumers_list parsed of
             None \<Rightarrow> Inl ConsumerConfigError
           | Some entries \<Rightarrow> validate_entries validate_profile env entries))"

section \<open>Facts\<close>

lemma registry_of_append: "registry_of (ps @ [p]) = AList.update (consumer_id p) p (registry_of ps)"
  by (simp add: registry_of_def)

lemma registry_distinct: "distinct (map fst (registry_of ps))"
  by (induction ps rule: rev_induct) (simp_all add: registry_of_append distinct_update, simp add: registry_of_def)

text \<open>Every entry is a loaded profile filed under its own id.\<close>

lemma registry_get_id:
  "registry_get (registry_of ps) cid = Some p \<Longrightarrow> consumer_id p = cid \<and> p \<in> set ps"
proof (induction ps rule: rev_induct)
  case Nil
  then show ?case by (simp add: registry_of_def registry_get_def)
next
  case (snoc q qs)
  then show ?case by (auto simp: registry_get_def registry_of_append update_conv split: if_splits)
qed

lemma registry_entries: "(k, p) \<in> set (registry_of ps) \<Longrightarrow> k = consumer_id p \<and> p \<in> set ps"
  using registry_get_id[of ps k p] registry_distinct[of ps]
  by (simp add: registry_get_def map_of_eq_Some_iff)

lemma active_consumer_Some:
  "active_consumer (registry_of ps) cid = Some p \<Longrightarrow> active p \<and> consumer_id p = cid \<and> p \<in> set ps"
  by (auto simp: active_consumer_def dest: registry_get_id split: option.splits if_splits)

lemma find_by_client_id_Some:
  "find_by_client_id r c = Some p \<Longrightarrow> matches_client_id p c \<and> p \<in> snd ` set r"
  by (induction r c rule: find_by_client_id.induct) (auto split: if_splits)

lemma find_by_client_id_None:
  "find_by_client_id r c = None \<longleftrightarrow> (\<forall>p \<in> snd ` set r. \<not> matches_client_id p c)"
  by (induction r c rule: find_by_client_id.induct) auto

lemma validate_entries_auth:
  "validate_entries vp env js = Inr ps \<Longrightarrow> p \<in> set ps \<Longrightarrow>
     env \<in> {Env_uat, Env_production} \<Longrightarrow> cb_auth_type (callback p) = Auth_bearer_env"
  by (induction vp env js arbitrary: ps rule: validate_entries.induct)
     (auto simp: validate_callback_auth_def split: option.splits sum.splits if_splits)

lemma load_profiles_auth:
  assumes "load_consumer_profiles vp f env = Inr ps" "p \<in> set ps" "env \<in> {Env_uat, Env_production}"
  shows "cb_auth_type (callback p) = Auth_bearer_env"
  using assms validate_entries_auth
  by (fastforce simp: load_consumer_profiles_def split: option.splits blob.splits)

end
