(* ===== verification/Launch.thy ===== *)
theory Launch
  imports Tx_Ids Index_Store Consumers
begin

text \<open>
  Launch sessions (\<open>app/integrations/launch.py\<close>): a transaction is created before any capture, an
  opaque launch token is minted of which only the hash is stored, and a reissue revokes the tokens
  issued before.
\<close>

record launch_request =
  lr_transaction_id :: string
  lr_source :: string
  lr_ocr_required :: bool
  lr_camera_config :: string
  lr_white_background :: bool
  lr_output_file_format :: string
  lr_watermark :: string

text \<open>The field constraints of the request model, which its validation enforces.\<close>

definition launch_request_valid :: "launch_request \<Rightarrow> bool" where
  "launch_request_valid r \<longleftrightarrow> 1 \<le> length (lr_transaction_id r) \<and> length (lr_transaction_id r) \<le> 128
     \<and> 1 \<le> length (lr_source r) \<and> length (lr_source r) \<le> 128"

record launch_result =
  l_internal_transaction_id :: string
  l_external_transaction_id :: string
  l_launch_session_id :: string
  l_launch_url :: string
  l_expires_at :: int
  l_expires_in_seconds :: int

definition external_id_char :: "char \<Rightarrow> bool" where
  "external_id_char c \<longleftrightarrow> is_alnum c \<or> c \<in> set ''._:-''"

definition is_valid_external_id :: "string \<Rightarrow> bool" where
  "is_valid_external_id v \<longleftrightarrow> 1 \<le> length v \<and> length v \<le> 128 \<and> list_all external_id_char v"

definition public_base_url :: "settings \<Rightarrow> string M" where
  "public_base_url s =
     (if public_livephoto_base_url s = [] then raise ValueErr
      else ret (rstrip_if (\<lambda>c. c = CHR ''/'') (public_livephoto_base_url s)))"

definition build_launch_token_and_url :: "runtime \<Rightarrow> settings \<Rightarrow> (string \<times> string \<times> string) M" where
  "build_launch_token_and_url rt s =
     bnd (draw_token rt) (\<lambda>raw_token.
     (let token_hash = sha256_hex rt raw_token in
     bnd (public_base_url s) (\<lambda>base.
       ret (raw_token, token_hash, base @ ''/xbiz/live_photo/l/'' @ raw_token))))"

definition transaction_metadata ::
  "settings \<Rightarrow> string \<Rightarrow> consumer_profile \<Rightarrow> launch_request \<Rightarrow> string \<Rightarrow> int \<Rightarrow> obj" where
  "transaction_metadata s internal_tx_id p req status created_at =
     [(''transaction_id'', JStr internal_tx_id),
      (''external_transaction_id'', JStr (lr_transaction_id req)),
      (''consumer_id'', JStr (consumer_id p)), (''source'', JStr (lr_source req)),
      (''ocr_required'', JBool (lr_ocr_required req)), (''camera_config'', JStr (lr_camera_config req)),
      (''white_background'', JBool (lr_white_background req)),
      (''output_file_format'', JStr (lr_output_file_format req)), (''status'', JStr status),
      (''created_at'', JTime created_at), (''app_version'', JStr (app_version s))]"

section \<open>Active launch tokens of a transaction\<close>

definition ACTIVE_LAUNCHES_PATH :: string where
  "ACTIVE_LAUNCHES_PATH = ''launch/active-launches.json''"

definition read_active_launches :: "string \<Rightarrow> json list M" where
  "read_active_launches t =
     bnd (artifact_exists t ACTIVE_LAUNCHES_PATH) (\<lambda>present.
       if \<not> present then ret []
       else catch
         (bnd (read_json t ACTIVE_LAUNCHES_PATH) (\<lambda>data.
            ret (case as_list (jget_d data ''active'' (JArr [])) of None \<Rightarrow> [] | Some a \<Rightarrow> a)))
         (\<lambda>_. ret []))"

text \<open>\<open>entry.get(''token_hash'')\<close>, and the deletion when it is a text.\<close>

fun revoke_entry :: "runtime \<Rightarrow> json \<Rightarrow> unit M" where
  "revoke_entry rt (JObj e) = (case str_text rt (jget_n e ''token_hash'') of
     Some h \<Rightarrow> delete_launch_token h | None \<Rightarrow> ret ())"
| "revoke_entry rt _ = raise AttributeErr"

definition revoke_active_launch_tokens :: "runtime \<Rightarrow> string \<Rightarrow> unit M" where
  "revoke_active_launch_tokens rt t =
     bnd (read_active_launches t) (\<lambda>entries.
     andthen (for_each entries (revoke_entry rt))
     (write_json t ACTIVE_LAUNCHES_PATH [(''active'', JArr [])]))"

definition seconds :: "int \<Rightarrow> int" where "seconds n = n * 1000000"

definition launch_entry :: "string \<Rightarrow> string \<Rightarrow> int \<Rightarrow> int \<Rightarrow> json" where
  "launch_entry launch_session_id token_hash now expires =
     JObj [(''launch_session_id'', JStr launch_session_id), (''token_hash'', JStr token_hash),
           (''created_at'', JTime now), (''expires_at'', JTime expires)]"

definition store_launch_token ::
  "runtime \<Rightarrow> settings \<Rightarrow> string \<Rightarrow> string \<Rightarrow> string \<Rightarrow> string \<Rightarrow> launch_result M" where
  "store_launch_token rt s internal_tx_id external_tx_id token_hash launch_url =
     bnd (gets clock) (\<lambda>now.
     (let ttl = launch_token_ttl_seconds s; expires = now + seconds ttl in
     andthen (put_launch_token token_hash
       [(''transaction_id'', JStr internal_tx_id), (''created_at'', JTime now), (''expires_at'', JTime expires)])
     (bnd (draw_token rt) (\<lambda>launch_session_id.
     bnd (read_active_launches internal_tx_id) (\<lambda>active.
     andthen (write_json internal_tx_id ACTIVE_LAUNCHES_PATH
       [(''active'', JArr (active @ [launch_entry launch_session_id token_hash now expires]))])
     (ret \<lparr>l_internal_transaction_id = internal_tx_id, l_external_transaction_id = external_tx_id,
           l_launch_session_id = launch_session_id, l_launch_url = launch_url,
           l_expires_at = expires, l_expires_in_seconds = ttl\<rparr>))))))"

section \<open>Create and reissue\<close>

definition create_launch ::
  "runtime \<Rightarrow> settings \<Rightarrow> consumer_profile \<Rightarrow> launch_request \<Rightarrow> launch_result M" where
  "create_launch rt s p req =
     (if \<not> is_valid_external_id (lr_transaction_id req) then raise PathError
      else
      (let key_hash = external_key_hash rt (consumer_id p) (lr_transaction_id req) in
      bnd (lock_external key_hash
        (bnd (get_external key_hash) (\<lambda>existing.
          if existing \<noteq> None then raise TxExistsError
          else
          bnd (gets clock) (\<lambda>created_at.
          bnd (create_transaction_with_generated_id rt
                 (\<lambda>internal_tx_id. transaction_metadata s internal_tx_id p req (status_value LAUNCHED) created_at)
                 (Some (Aware created_at)) None DEFAULT_MAX_ATTEMPTS) (\<lambda>internal_tx_id.
          andthen (put_external key_hash
            [(''internal_transaction_id'', JStr internal_tx_id),
             (''external_transaction_id'', JStr (lr_transaction_id req)),
             (''consumer_id'', JStr (consumer_id p)), (''created_at'', JTime created_at)])
          (ret internal_tx_id)))))) (\<lambda>internal_tx_id.
      bnd (build_launch_token_and_url rt s) (\<lambda>(raw_token, token_hash, launch_url).
      store_launch_token rt s internal_tx_id (lr_transaction_id req) token_hash launch_url))))"

definition reissue_launch ::
  "runtime \<Rightarrow> settings \<Rightarrow> consumer_profile \<Rightarrow> string \<Rightarrow> launch_result M" where
  "reissue_launch rt s p external_transaction_id =
     (if \<not> is_valid_external_id external_transaction_id then raise PathError
      else
      bnd (get_external (external_key_hash rt (consumer_id p) external_transaction_id)) (\<lambda>mapping.
      case mapping of
        None \<Rightarrow> raise ArtifactNotFound
      | Some m \<Rightarrow>
          bnd (getitem m ''internal_transaction_id'') (\<lambda>v.
          bnd (need_str rt v) (\<lambda>internal_tx_id.
          lock_transaction internal_tx_id
            (andthen (revoke_active_launch_tokens rt internal_tx_id)
            (bnd (build_launch_token_and_url rt s) (\<lambda>(raw_token, token_hash, launch_url).
             store_launch_token rt s internal_tx_id external_transaction_id token_hash launch_url)))))))"

section \<open>Equations\<close>

definition active_launches_of :: "world \<Rightarrow> string \<Rightarrow> json list" where
  "active_launches_of w t = (case file_at w t ACTIVE_LAUNCHES_PATH of
     Some (Json (JObj ob)) \<Rightarrow> (case as_list (jget_d ob ''active'' (JArr [])) of None \<Rightarrow> [] | Some a \<Rightarrow> a)
   | _ \<Rightarrow> [])"

lemma rel_ok_active_launches [path_simps]: "rel_ok ACTIVE_LAUNCHES_PATH"
  by (simp add: ACTIVE_LAUNCHES_PATH_def path_simps)

lemma wp_read_active_launches [wp_simps]:
  "wp (read_active_launches t) Q E w =
     (if is_valid_transaction_id t then Q (active_launches_of w t) w else E PathError w)"
  by (auto simp: read_active_launches_def wp_simps path_simps active_launches_of_def parse_object_Inr
      split: option.splits sum.splits blob.splits json.splits)

lemma wp_build_launch [wp_simps]:
  "wp (build_launch_token_and_url rt s) Q E w =
     (let tok = opaque_token rt (rng w); w' = w\<lparr>rng := Suc (rng w)\<rparr>
      in if public_livephoto_base_url s = [] then E ValueErr w'
         else Q (tok, sha256_hex rt tok,
             rstrip_if (\<lambda>c. c = CHR ''/'') (public_livephoto_base_url s) @ ''/xbiz/live_photo/l/'' @ tok) w')"
  by (simp add: build_launch_token_and_url_def public_base_url_def wp_simps Let_def)

text \<open>The entries the code writes carry the hash as a text; the tokens they name.\<close>

fun entry_hash :: "runtime \<Rightarrow> json \<Rightarrow> string option" where
  "entry_hash rt (JObj e) = str_text rt (jget_n e ''token_hash'')"
| "entry_hash rt _ = None"

definition entry_hashes :: "runtime \<Rightarrow> json list \<Rightarrow> string list" where
  "entry_hashes rt es = List.map_filter (entry_hash rt) es"

fun is_jobj :: "json \<Rightarrow> bool" where
  "is_jobj (JObj _) = True"
| "is_jobj _ = False"

lemma entry_hashes_simps [simp]:
  "entry_hashes rt [] = []"
  "entry_hashes rt (e # es) = (case entry_hash rt e of None \<Rightarrow> entry_hashes rt es | Some h \<Rightarrow> h # entry_hashes rt es)"
  by (simp_all add: entry_hashes_def map_filter_simps split: option.splits)

lemma entry_hashes_append: "entry_hashes rt (es @ fs) = entry_hashes rt es @ entry_hashes rt fs"
  by (induction es) (simp_all split: option.splits)

lemma wp_revoke_entries:
  assumes "list_all is_jobj es"
  shows "wp (for_each es (revoke_entry rt)) Q E w = Q () (fold drop_launch (entry_hashes rt es) w)"
  using assms
proof (induction es arbitrary: w)
  case Nil
  then show ?case by (simp add: wp_simps)
next
  case (Cons e es)
  from Cons.prems obtain ob where e: "e = JObj ob" and es: "list_all is_jobj es" by (cases e) auto
  show ?case
    by (cases "str_text rt (jget_n ob ''token_hash'')") (simp_all add: e wp_simps Cons.IH[OF es])
qed

lemma drop_all_launch:
  "launch_ix (fold drop_launch hs w) h = (if h \<in> set hs then None else launch_ix w h)"
  by (induction hs arbitrary: w) auto

lemma drop_all_frame [simp]:
  "txs (fold drop_launch hs w) = txs w" "clock (fold drop_launch hs w) = clock w"
  "rng (fold drop_launch hs w) = rng w" "session_ix (fold drop_launch hs w) = session_ix w"
  "external_ix (fold drop_launch hs w) = external_ix w"
  by (induction hs arbitrary: w) auto

lemma active_launches_put:
  "active_launches_of (put_file t ACTIVE_LAUNCHES_PATH (Json (JObj [(''active'', JArr es)])) w) t = es"
  by (simp add: active_launches_of_def file_at_put jget_d_def)

lemma active_launches_txs: "txs w = txs w' \<Longrightarrow> active_launches_of w t = active_launches_of w' t"
  by (simp add: active_launches_of_def file_at_def)

section \<open>Specifications\<close>

definition launch_record :: "string \<Rightarrow> int \<Rightarrow> int \<Rightarrow> obj" where
  "launch_record t now ttl =
     [(''transaction_id'', JStr t), (''created_at'', JTime now), (''expires_at'', JTime (now + seconds ttl))]"

text \<open>
  Storing a token: the index gets its record under the hash, the transaction one more active entry
  that names the hash, and nothing else changes but the token counter.
\<close>

lemma wp_store_launch_token [wp_simps]:
  "wp (store_launch_token rt s t ext h url) Q E w =
     (if is_valid_transaction_id t then
        Q \<lparr>l_internal_transaction_id = t, l_external_transaction_id = ext,
           l_launch_session_id = opaque_token rt (rng w), l_launch_url = url,
           l_expires_at = clock w + seconds (launch_token_ttl_seconds s),
           l_expires_in_seconds = launch_token_ttl_seconds s\<rparr>
          (put_file t ACTIVE_LAUNCHES_PATH
            (Json (JObj [(''active'', JArr (active_launches_of w t @
               [launch_entry (opaque_token rt (rng w)) h (clock w)
                  (clock w + seconds (launch_token_ttl_seconds s))]))]))
            ((set_launch h (launch_record t (clock w) (launch_token_ttl_seconds s)) w)\<lparr>rng := Suc (rng w)\<rparr>))
      else E PathError ((set_launch h (launch_record t (clock w) (launch_token_ttl_seconds s)) w)\<lparr>rng := Suc (rng w)\<rparr>))"
proof -
  have "active_launches_of (set_launch h ob w\<lparr>rng := n\<rparr>) t = active_launches_of w t" for ob n
    by (rule active_launches_txs) simp
  then show ?thesis
    by (simp add: store_launch_token_def wp_simps path_simps Let_def launch_record_def)
qed

lemma entry_hash_launch_entry [simp]: "entry_hash rt (launch_entry i h n e) = Some h"
  by (simp add: launch_entry_def)

lemma is_jobj_launch_entry [simp]: "is_jobj (launch_entry i h n e)"
  by (simp add: launch_entry_def)

lemma wp_revoke_active [wp_simps]:
  assumes "list_all is_jobj (active_launches_of w t)"
  shows "wp (revoke_active_launch_tokens rt t) Q E w =
     (if is_valid_transaction_id t
      then Q () (put_file t ACTIVE_LAUNCHES_PATH (Json (JObj [(''active'', JArr [])]))
             (fold drop_launch (entry_hashes rt (active_launches_of w t)) w))
      else E PathError w)"
  using wp_revoke_entries[OF assms]
  by (simp add: revoke_active_launch_tokens_def wp_bnd wp_andthen wp_read_active_launches
      wp_write_json path_simps)

text \<open>
  What the index and the active list of a transaction owe each other: the entries are objects, and
  every launch token of the index that leads to the transaction is listed as active.
\<close>

definition launches_listed :: "runtime \<Rightarrow> world \<Rightarrow> string \<Rightarrow> bool" where
  "launches_listed rt w t \<longleftrightarrow> list_all is_jobj (active_launches_of w t)
     \<and> (\<forall>h ob. launch_ix w h = Some (Json (JObj ob)) \<longrightarrow> jget_n ob ''transaction_id'' = JStr t
          \<longrightarrow> h \<in> set (entry_hashes rt (active_launches_of w t)))"

lemma launch_record_tx [simp]: "jget_n (launch_record t n l) ''transaction_id'' = JStr t"
  by (simp add: launch_record_def)

lemma store_keeps_listed:
  assumes "launches_listed rt w t"
  shows "launches_listed rt (put_file t ACTIVE_LAUNCHES_PATH
      (Json (JObj [(''active'', JArr (active_launches_of w t @ [launch_entry i h n e]))]))
      ((set_launch h (launch_record t n l) w)\<lparr>rng := k\<rparr>)) t"
  using assms
  by (auto simp: launches_listed_def active_launches_put entry_hashes_append split: if_splits)

text \<open>
  After a reissue exactly one launch token leads to the transaction: the one in the returned URL.
\<close>

lemma reissue_launch_spec:
  assumes ext: "is_valid_external_id e" and id: "is_valid_transaction_id t"
    and mapping: "external_ix w (external_key_hash rt (consumer_id p) e) = Some (Json (JObj m))"
    and m: "jget m ''internal_transaction_id'' = Some (JStr t)"
    and base: "public_livephoto_base_url s \<noteq> []"
    and listed: "launches_listed rt w t"
  shows "wp (reissue_launch rt s p e)
    (\<lambda>r w'. l_internal_transaction_id r = t
        \<and> l_launch_url r = rstrip_if (\<lambda>c. c = CHR ''/'') (public_livephoto_base_url s)
             @ ''/xbiz/live_photo/l/'' @ opaque_token rt (rng w)
        \<and> (\<forall>h ob. launch_ix w' h = Some (Json (JObj ob)) \<and> jget_n ob ''transaction_id'' = JStr t
              \<longleftrightarrow> h = sha256_hex rt (opaque_token rt (rng w))
                \<and> ob = launch_record t (clock w) (launch_token_ttl_seconds s))
        \<and> launches_listed rt w' t)
    (\<lambda>_ _. False) w"
proof -
  let ?h = "sha256_hex rt (opaque_token rt (rng w))"
  let ?hs = "entry_hashes rt (active_launches_of w t)"
  let ?w1 = "make_dir t w"
  have al: "active_launches_of ?w1 t = active_launches_of w t"
    by (simp add: active_launches_of_def)
  have objs: "list_all is_jobj (active_launches_of ?w1 t)"
    using listed by (simp add: al launches_listed_def)
  let ?w2 = "put_file t ACTIVE_LAUNCHES_PATH (Json (JObj [(''active'', JArr [])])) (fold drop_launch ?hs ?w1)"
  let ?w3 = "?w2\<lparr>rng := Suc (rng w)\<rparr>"
  have al3: "active_launches_of ?w3 t = []"
    using active_launches_put[of t "[]"] by (simp add: active_launches_txs[of ?w3 ?w2])
  have listed3: "launches_listed rt ?w3 t"
    using listed by (auto simp: launches_listed_def al3 drop_all_launch split: if_splits)
  have none: "launch_ix ?w3 h = Some (Json (JObj ob)) \<Longrightarrow> jget_n ob ''transaction_id'' \<noteq> JStr t" for h ob
    using listed by (auto simp: launches_listed_def drop_all_launch split: if_splits)
  have run: "wp (reissue_launch rt s p e) Q E w = wp (store_launch_token rt s t e ?h
      (rstrip_if (\<lambda>c. c = CHR ''/'') (public_livephoto_base_url s) @ ''/xbiz/live_photo/l/''
        @ opaque_token rt (rng w))) Q E ?w3" for Q E
    using ext id mapping m base
    by (simp add: reissue_launch_def wp_bnd wp_andthen wp_lock_transaction wp_index_gets wp_getitem
        wp_need_str wp_build_launch wp_revoke_active[OF objs] al Let_def)
  show ?thesis
    unfolding run wp_store_launch_token
    using id listed3 store_keeps_listed[OF listed3] none by (auto simp: al3 split: if_splits)
qed

text \<open>
  A created launch. On success the external id was free for the consumer and now leads to a new
  transaction, whose metadata is the request's with status LAUNCHED; one launch token leads to it. On
  a refusal after the id check nothing changed but the random counter, unless the public URL is not
  configured.
\<close>

definition frame_of :: "world \<Rightarrow> world \<Rightarrow> bool" where
  "frame_of w v \<longleftrightarrow> launch_ix v = launch_ix w \<and> external_ix v = external_ix w
     \<and> session_ix v = session_ix w \<and> clock v = clock w"

lemma create_generated_spec:
  "wp (create_transaction_with_generated_id rt mf (Some (Aware n)) None k)
     (\<lambda>c w'. is_valid_transaction_id c \<and> txs w c = None
        \<and> txs w' = (txs w)(c \<mapsto> [''transaction.json'' \<mapsto> Json (JObj (mf c))]) \<and> frame_of w w')
     (\<lambda>e w'. txs w' = txs w \<and> frame_of w w') w"
  unfolding create_transaction_with_generated_id_def option.case
  by (rule wp_mono[OF allocate_transaction_spec[where T = "txs w" and G = "frame_of w"]])
     (auto simp: wp_simps frame_of_def)

definition external_record :: "string \<Rightarrow> string \<Rightarrow> string \<Rightarrow> int \<Rightarrow> obj" where
  "external_record t e c now =
     [(''internal_transaction_id'', JStr t), (''external_transaction_id'', JStr e),
      (''consumer_id'', JStr c), (''created_at'', JTime now)]"

lemma create_launch_spec:
  assumes ext: "is_valid_external_id (lr_transaction_id req)"
    and base: "public_livephoto_base_url s \<noteq> []"
    and readable: "index_read (external_ix w (external_key_hash rt (consumer_id p) (lr_transaction_id req))) \<in> range Inr"
  defines "k \<equiv> external_key_hash rt (consumer_id p) (lr_transaction_id req)"
  shows "wp (create_launch rt s p req)
    (\<lambda>r w'. external_ix w k = None
       \<and> (let t = l_internal_transaction_id r in
          is_valid_transaction_id t \<and> txs w t = None
          \<and> metadata_of w' t = Some (transaction_metadata s t p req (status_value LAUNCHED) (clock w))
          \<and> external_ix w' = (external_ix w)(k \<mapsto> Json (JObj
               (external_record t (lr_transaction_id req) (consumer_id p) (clock w))))
          \<and> (\<exists>n. launch_ix w' = (launch_ix w)(sha256_hex rt (opaque_token rt n) \<mapsto>
                Json (JObj (launch_record t (clock w) (launch_token_ttl_seconds s)))))
          \<and> (\<forall>t'. t' \<noteq> t \<longrightarrow> txs w' t' = txs w t')))
    (\<lambda>e w'. frame_of w w' \<and> txs w' = txs w \<and> (external_ix w k \<noteq> None \<longrightarrow> e = TxExistsError \<and> w' = w)) w"
proof -
  from readable consider (free) "external_ix w k = None" | (taken) ob where "index_read (external_ix w k) = Inr (Some ob)"
    unfolding k_def by (metis index_read_Inr(2) not_None_eq rangeE)
  then show ?thesis
  proof cases
    case taken
    then show ?thesis
      using ext by (simp add: create_launch_def wp_simps Let_def k_def[symmetric] frame_of_def index_read_Inr)
  next
    case free
    have tail: "wp (bnd (build_launch_token_and_url rt s) (\<lambda>(raw_token, token_hash, launch_url).
        store_launch_token rt s t (lr_transaction_id req) token_hash launch_url))
      (\<lambda>r w'. l_internal_transaction_id r = t
          \<and> metadata_of w' t = Some (transaction_metadata s t p req (status_value LAUNCHED) (clock w))
          \<and> external_ix w' = external_ix v
          \<and> (\<exists>n. launch_ix w' = (launch_ix w)(sha256_hex rt (opaque_token rt n) \<mapsto>
                Json (JObj (launch_record t (clock w) (launch_token_ttl_seconds s)))))
          \<and> (\<forall>t'. t' \<noteq> t \<longrightarrow> txs w' t' = txs w t'))
      (\<lambda>_ _. False) v"
      if "is_valid_transaction_id t" "txs v = (txs w)(t \<mapsto> [''transaction.json'' \<mapsto>
            Json (JObj (transaction_metadata s t p req (status_value LAUNCHED) (clock w)))])"
        "launch_ix v = launch_ix w" "clock v = clock w" for t v
      using that base
      by (auto simp: wp_simps Let_def metadata_of_Some file_at_put ACTIVE_LAUNCHES_PATH_def)
         (auto simp: file_at_def put_file_def tx_files_def)
    have free': "index_read (external_ix w k) = Inr None" using free by (simp add: index_read_Inr)
    have run: "wp (create_launch rt s p req) Q E w \<longleftrightarrow>
      wp (create_transaction_with_generated_id rt
            (\<lambda>t. transaction_metadata s t p req (status_value LAUNCHED) (clock w))
            (Some (Aware (clock w))) None DEFAULT_MAX_ATTEMPTS)
        (\<lambda>t v. wp (bnd (build_launch_token_and_url rt s) (\<lambda>(raw_token, token_hash, launch_url).
            store_launch_token rt s t (lr_transaction_id req) token_hash launch_url)) Q E
          (set_external k (external_record t (lr_transaction_id req) (consumer_id p) (clock w)) v)) E w" for Q E
      unfolding create_launch_def k_def[symmetric] Let_def wp_if wp_bnd wp_index_ops wp_index_gets free' wp_gets
      using ext by (simp add: wp_funs put_external_def external_record_def)
    show ?thesis
      unfolding run
    proof (rule wp_mono[OF create_generated_spec], goal_cases)
      case (1 t v)
      then have v: "is_valid_transaction_id t" "txs w t = None" "frame_of w v"
        "txs v = (txs w)(t \<mapsto> [''transaction.json'' \<mapsto>
            Json (JObj (transaction_metadata s t p req (status_value LAUNCHED) (clock w)))])" by simp_all
      show ?case
        by (rule wp_mono[OF tail[of t]]) (use v free in \<open>simp_all add: frame_of_def Let_def\<close>)
    next
      case (2 e w')
      then show ?case using free by simp
    qed
  qed
qed

end
