(* ===== verification/Browser_Session.thy ===== *)
theory Browser_Session
  imports Launch
begin

text \<open>
  Launch redemption and browser sessions (\<open>app/integrations/browser_session.py\<close>), the dependencies
  that authenticate a browser request (\<open>app/api/deps.py\<close>) and the redemption route
  (\<open>app/api/xbiz.py\<close>).
\<close>

datatype redemption_mode = RM_ACTIVE | RM_TERMINAL | RM_INVALID | RM_EXPIRED

fun redemption_mode_value :: "redemption_mode \<Rightarrow> string" where
  "redemption_mode_value RM_ACTIVE = ''ACTIVE''"
| "redemption_mode_value RM_TERMINAL = ''TERMINAL''"
| "redemption_mode_value RM_INVALID = ''INVALID''"
| "redemption_mode_value RM_EXPIRED = ''EXPIRED''"

record redemption_result =
  rr_mode :: redemption_mode
  rr_internal_transaction_id :: "string option"
  rr_session_token :: "string option"
  rr_csrf_token :: "string option"
  rr_terminal_state :: "json option"

definition ACTIVE_SESSION_PATH :: string where
  "ACTIVE_SESSION_PATH = ''browser/active-session.json''"

definition is_terminal_status :: "json \<Rightarrow> bool" where
  "is_terminal_status status \<longleftrightarrow>
     status \<in> {JStr (status_value COMPLETED), JStr (status_value ATTEMPT_LIMIT_EXCEEDED)}"

text \<open>
  \<open>_is_expired\<close>: what is not an ISO text counts as expired; comparing a datetime without a zone to
  the current instant is a \<open>TypeError\<close>.
\<close>

definition is_expired :: "runtime \<Rightarrow> json \<Rightarrow> bool M" where
  "is_expired rt expires_at =
     (case expires_at of
        JTime e \<Rightarrow> gets (\<lambda>w. clock w \<ge> e)
      | JStr s \<Rightarrow> (case from_iso rt s of
            IsoInvalid \<Rightarrow> ret True | IsoNaive \<Rightarrow> raise TypeErr | IsoInstant e \<Rightarrow> gets (\<lambda>w. clock w \<ge> e))
      | _ \<Rightarrow> ret True)"

section \<open>Redemption\<close>

definition invalidate_previous_active :: "runtime \<Rightarrow> string \<Rightarrow> unit M" where
  "invalidate_previous_active rt t =
     bnd (artifact_exists t ACTIVE_SESSION_PATH) (\<lambda>present.
       if \<not> present then ret ()
       else catch
         (bnd (read_json t ACTIVE_SESSION_PATH) (\<lambda>data.
            case str_text rt (jget_n data ''session_hash'') of
              Some prev_hash \<Rightarrow> delete_browser_session prev_hash
            | None \<Rightarrow> ret ()))
         (\<lambda>_. ret ()))"

definition session_record :: "string \<Rightarrow> redemption_mode \<Rightarrow> json \<Rightarrow> string \<Rightarrow> int \<Rightarrow> int \<Rightarrow> obj" where
  "session_record t mode terminal_state csrf_hash now expires =
     [(''transaction_id'', JStr t), (''mode'', JStr (redemption_mode_value mode)),
      (''terminal_state'', terminal_state), (''csrf_hash'', JStr csrf_hash),
      (''created_at'', JTime now), (''expires_at'', JTime expires), (''revoked'', JBool False)]"

definition create_session ::
  "runtime \<Rightarrow> settings \<Rightarrow> string \<Rightarrow> redemption_mode \<Rightarrow> json option \<Rightarrow> redemption_result M" where
  "create_session rt s t mode terminal_state =
     bnd (draw_token rt) (\<lambda>session_token.
     bnd (draw_token rt) (\<lambda>csrf_token.
     (let session_hash = sha256_hex rt session_token; csrf_hash = sha256_hex rt csrf_token in
     bnd (gets clock) (\<lambda>now.
     (let expires = now + seconds (browser_session_ttl_seconds s) in
     andthen (lock_transaction t
       (andthen (when_do (mode = RM_ACTIVE) (invalidate_previous_active rt t))
       (andthen (put_browser_session session_hash
          (session_record t mode (case terminal_state of None \<Rightarrow> JNull | Some j \<Rightarrow> j) csrf_hash now expires))
       (when_do (mode = RM_ACTIVE)
         (write_json t ACTIVE_SESSION_PATH
           [(''session_hash'', JStr session_hash), (''created_at'', JTime now), (''expires_at'', JTime expires)])))))
     (ret \<lparr>rr_mode = mode, rr_internal_transaction_id = Some t, rr_session_token = Some session_token,
           rr_csrf_token = Some csrf_token, rr_terminal_state = terminal_state\<rparr>))))))"

definition refused :: "redemption_mode \<Rightarrow> redemption_result" where
  "refused mode = \<lparr>rr_mode = mode, rr_internal_transaction_id = None, rr_session_token = None,
     rr_csrf_token = None, rr_terminal_state = None\<rparr>"

definition redeem_launch_token :: "runtime \<Rightarrow> settings \<Rightarrow> string \<Rightarrow> redemption_result M" where
  "redeem_launch_token rt s raw_token =
     (let token_hash = sha256_hex rt raw_token in
     bnd (get_launch_token token_hash) (\<lambda>rec.
     case rec of
       None \<Rightarrow> ret (refused RM_INVALID)
     | Some r \<Rightarrow>
         bnd (is_expired rt (jget_d r ''expires_at'' (JStr []))) (\<lambda>expired.
         if expired then andthen (delete_launch_token token_hash) (ret (refused RM_EXPIRED))
         else
         (case str_text rt (jget_n r ''transaction_id'') of
            None \<Rightarrow> ret (refused RM_INVALID)
          | Some t \<Rightarrow>
              bnd (read_transaction_json t) (\<lambda>md.
              (let status = jget_d md ''status'' (JStr (status_value LAUNCHED)) in
              if is_terminal_status status
              then create_session rt s t RM_TERMINAL (Some status)
              else create_session rt s t RM_ACTIVE None))))))"

section \<open>Resolution\<close>

definition resolve_browser_session :: "runtime \<Rightarrow> string \<Rightarrow> obj option M" where
  "resolve_browser_session rt session_token =
     (if session_token = [] then ret None
      else
      (let session_hash = sha256_hex rt session_token in
      bnd (get_browser_session session_hash) (\<lambda>rec.
      case rec of
        None \<Rightarrow> ret None
      | Some r \<Rightarrow>
          if jget_n r ''revoked'' = JBool True then ret None
          else
          bnd (is_expired rt (jget_d r ''expires_at'' (JStr []))) (\<lambda>expired.
          if expired then andthen (delete_browser_session session_hash) (ret None)
          else ret (Some r)))))"

definition is_ascii :: "string \<Rightarrow> bool" where
  "is_ascii s \<longleftrightarrow> list_all (\<lambda>c. (of_char c :: nat) < 128) s"

text \<open>\<open>hmac.compare_digest\<close> refuses a text outside ASCII with a \<open>TypeError\<close>.\<close>

definition verify_csrf :: "runtime \<Rightarrow> obj \<Rightarrow> string \<Rightarrow> bool M" where
  "verify_csrf rt r csrf_token =
     (let presented = sha256_hex rt csrf_token in
      case str_text rt (jget_d r ''csrf_hash'' (JStr [])) of
        None \<Rightarrow> ret False
      | Some stored \<Rightarrow>
          if stored = [] then ret False
          else if \<not> is_ascii stored then raise TypeErr
          else ret (presented = stored))"

text \<open>What a request carries for authentication: the cookies and the CSRF header ([] when absent).\<close>

record browser_request =
  rq_session_cookie :: string
  rq_launch_outcome_cookie :: string
  rq_csrf_header :: string

definition resolve_session_record :: "runtime \<Rightarrow> browser_request \<Rightarrow> obj option M" where
  "resolve_session_record rt rq = resolve_browser_session rt (rq_session_cookie rq)"

definition require_active_session :: "runtime \<Rightarrow> browser_request \<Rightarrow> obj M" where
  "require_active_session rt rq =
     bnd (resolve_session_record rt rq) (\<lambda>rec.
     case rec of
       None \<Rightarrow> raise (BrowserAuthError ''SESSION_INVALID'' ''No active browser session'' 401)
     | Some r \<Rightarrow>
         if jget_n r ''mode'' \<noteq> JStr (redemption_mode_value RM_ACTIVE)
         then raise (BrowserAuthError ''SESSION_TERMINAL'' ''Session is in a terminal state'' 409)
         else ret r)"

definition require_csrf :: "runtime \<Rightarrow> browser_request \<Rightarrow> obj \<Rightarrow> unit M" where
  "require_csrf rt rq r =
     bnd (verify_csrf rt r (rq_csrf_header rq)) (\<lambda>ok.
     if \<not> ok then raise (BrowserAuthError ''CSRF_INVALID'' ''CSRF validation failed'' 403) else ret ())"

section \<open>The redemption route\<close>

record set_cookie =
  sc_name :: string
  sc_value :: string
  sc_httponly :: bool
  sc_secure :: bool
  sc_samesite :: samesite
  sc_path :: string
  sc_max_age :: int

record redirect_response =
  rd_location :: string
  rd_status :: nat
  rd_cookies :: "set_cookie list"

definition CLEAN_URL :: string where "CLEAN_URL = ''/xbiz/live_photo/''"
definition LAUNCH_OUTCOME_TTL_SECONDS :: int where "LAUNCH_OUTCOME_TTL_SECONDS = 60"
definition SESSION_COOKIE :: string where "SESSION_COOKIE = ''lp_session''"
definition CSRF_COOKIE :: string where "CSRF_COOKIE = ''lp_csrf''"
definition launch_outcome_cookie_name :: string where "launch_outcome_cookie_name = ''lp_launch_outcome''"

definition cookie :: "settings \<Rightarrow> string \<Rightarrow> string \<Rightarrow> bool \<Rightarrow> int \<Rightarrow> set_cookie" where
  "cookie s name v httponly max_age =
     \<lparr>sc_name = name, sc_value = v, sc_httponly = httponly, sc_secure = browser_cookie_secure s,
      sc_samesite = browser_cookie_samesite s, sc_path = ''/'', sc_max_age = max_age\<rparr>"

definition redeem :: "runtime \<Rightarrow> settings \<Rightarrow> string \<Rightarrow> redirect_response M" where
  "redeem rt s opaque =
     bnd (redeem_launch_token rt s opaque) (\<lambda>result.
       ret \<lparr>rd_location = CLEAN_URL, rd_status = 302, rd_cookies =
         (if rr_mode result = RM_ACTIVE \<or> rr_mode result = RM_TERMINAL then
            [cookie s SESSION_COOKIE (case rr_session_token result of None \<Rightarrow> [] | Some x \<Rightarrow> x) True
               (browser_session_ttl_seconds s),
             cookie s CSRF_COOKIE (case rr_csrf_token result of None \<Rightarrow> [] | Some x \<Rightarrow> x) False
               (browser_session_ttl_seconds s)]
          else
            [cookie s launch_outcome_cookie_name (redemption_mode_value (rr_mode result)) True
               LAUNCH_OUTCOME_TTL_SECONDS])\<rparr>)"

section \<open>Equations\<close>

definition active_session_of :: "runtime \<Rightarrow> world \<Rightarrow> string \<Rightarrow> string option" where
  "active_session_of rt w t = (case file_at w t ACTIVE_SESSION_PATH of
     Some (Json (JObj ob)) \<Rightarrow> str_text rt (jget_n ob ''session_hash'') | _ \<Rightarrow> None)"

lemma rel_ok_active_session [path_simps]: "rel_ok ACTIVE_SESSION_PATH"
  by (simp add: ACTIVE_SESSION_PATH_def path_simps)

definition drop_opt :: "string option \<Rightarrow> world \<Rightarrow> world" where
  "drop_opt h w = (case h of None \<Rightarrow> w | Some x \<Rightarrow> drop_session x w)"

lemma drop_opt_frame [simp]:
  "txs (drop_opt h w) = txs w" "clock (drop_opt h w) = clock w" "rng (drop_opt h w) = rng w"
  "launch_ix (drop_opt h w) = launch_ix w" "file_at (drop_opt h w) t p = file_at w t p"
  by (simp_all add: drop_opt_def split: option.splits)

lemma session_ix_drop_opt: "session_ix (drop_opt h w) k = (if h = Some k then None else session_ix w k)"
  by (simp add: drop_opt_def split: option.splits)

lemma wp_invalidate_previous [wp_simps]:
  "wp (invalidate_previous_active rt t) Q E w =
     (if is_valid_transaction_id t then Q () (drop_opt (active_session_of rt w t) w) else E PathError w)"
  by (auto simp: invalidate_previous_active_def wp_simps path_simps active_session_of_def drop_opt_def
      parse_object_Inr split: option.splits sum.splits blob.splits json.splits)

lemma wp_is_expired_time [wp_simps]: "wp (is_expired rt (JTime e)) Q E w = Q (clock w \<ge> e) w"
  by (simp add: is_expired_def wp_simps)

definition session_file :: "string \<Rightarrow> int \<Rightarrow> int \<Rightarrow> obj" where
  "session_file h now expires =
     [(''session_hash'', JStr h), (''created_at'', JTime now), (''expires_at'', JTime expires)]"

definition new_session_world ::
  "runtime \<Rightarrow> settings \<Rightarrow> string \<Rightarrow> redemption_mode \<Rightarrow> json option \<Rightarrow> world \<Rightarrow> world" where
  "new_session_world rt s t mode ts w =
     (let h = sha256_hex rt (opaque_token rt (rng w));
          c = sha256_hex rt (opaque_token rt (Suc (rng w)));
          expires = clock w + seconds (browser_session_ttl_seconds s);
          w1 = make_dir t (w\<lparr>rng := rng w + 2\<rparr>);
          w2 = (if mode = RM_ACTIVE then drop_opt (active_session_of rt w t) w1 else w1);
          w3 = set_session h (session_record t mode (case ts of None \<Rightarrow> JNull | Some j \<Rightarrow> j) c (clock w) expires) w2
      in if mode = RM_ACTIVE
         then put_file t ACTIVE_SESSION_PATH (Json (JObj (session_file h (clock w) expires))) w3 else w3)"

lemma wp_create_session [wp_simps]:
  assumes "is_valid_transaction_id t"
  shows "wp (create_session rt s t mode ts) Q E w =
     Q \<lparr>rr_mode = mode, rr_internal_transaction_id = Some t,
        rr_session_token = Some (opaque_token rt (rng w)),
        rr_csrf_token = Some (opaque_token rt (Suc (rng w))), rr_terminal_state = ts\<rparr>
       (new_session_world rt s t mode ts w)"
proof -
  have "active_session_of rt (make_dir t (w\<lparr>rng := n\<rparr>)) t = active_session_of rt w t" for n
    by (simp add: active_session_of_def)
  then show ?thesis
    using assms by (simp add: create_session_def wp_simps path_simps Let_def new_session_world_def session_file_def)
qed

text \<open>
  What the sessions of a transaction owe its active-session file: an ACTIVE session of the index that
  belongs to the transaction is the one the file names. So at most one is active.
\<close>

definition sessions_single :: "runtime \<Rightarrow> world \<Rightarrow> string \<Rightarrow> bool" where
  "sessions_single rt w t \<longleftrightarrow>
     (\<forall>h ob. session_ix w h = Some (Json (JObj ob)) \<longrightarrow> jget_n ob ''transaction_id'' = JStr t
        \<longrightarrow> jget_n ob ''mode'' = JStr (redemption_mode_value RM_ACTIVE) \<longrightarrow> active_session_of rt w t = Some h)"

lemma session_record_fields [simp]:
  "jget_n (session_record t m ts c n e) ''transaction_id'' = JStr t"
  "jget_n (session_record t m ts c n e) ''mode'' = JStr (redemption_mode_value m)"
  "jget_n (session_record t m ts c n e) ''revoked'' = JBool False"
  "jget_d (session_record t m ts c n e) ''expires_at'' d = JTime e"
  "jget_d (session_record t m ts c n e) ''csrf_hash'' d = JStr c"
  by (simp_all add: session_record_def)

lemma new_session_index:
  "session_ix (new_session_world rt s t mode ts w) h =
     (if h = sha256_hex rt (opaque_token rt (rng w))
      then Some (Json (JObj (session_record t mode (case ts of None \<Rightarrow> JNull | Some j \<Rightarrow> j)
          (sha256_hex rt (opaque_token rt (Suc (rng w)))) (clock w)
          (clock w + seconds (browser_session_ttl_seconds s)))))
      else if mode = RM_ACTIVE \<and> active_session_of rt w t = Some h then None
      else session_ix w h)"
  by (simp add: new_session_world_def Let_def session_ix_drop_opt)

lemma new_session_active:
  "active_session_of rt (new_session_world rt s t mode ts w) t' =
     (if mode = RM_ACTIVE \<and> t = t' then Some (sha256_hex rt (opaque_token rt (rng w)))
      else active_session_of rt w t')"
  by (simp add: new_session_world_def Let_def active_session_of_def file_at_put session_file_def)

text \<open>
  A new session of a transaction keeps that, also for every other transaction: the hash of the new
  token is used by no session yet, as a fresh token's is.
\<close>

lemma create_session_single:
  assumes "sessions_single rt w t'"
    and "\<And>h. active_session_of rt w t = Some h \<Longrightarrow> active_session_of rt w t' = Some h \<Longrightarrow> t = t'"
    and "session_ix w (sha256_hex rt (opaque_token rt (rng w))) = None"
  shows "sessions_single rt (new_session_world rt s t mode ts w) t'"
  unfolding sessions_single_def new_session_index new_session_active
proof (intro allI impI)
  fix h ob
  assume *: "(if h = sha256_hex rt (opaque_token rt (rng w))
      then Some (Json (JObj (session_record t mode (case ts of None \<Rightarrow> JNull | Some j \<Rightarrow> j)
          (sha256_hex rt (opaque_token rt (Suc (rng w)))) (clock w)
          (clock w + seconds (browser_session_ttl_seconds s)))))
      else if mode = RM_ACTIVE \<and> active_session_of rt w t = Some h then None
      else session_ix w h) = Some (Json (JObj ob))"
    "jget_n ob ''transaction_id'' = JStr t'" "jget_n ob ''mode'' = JStr (redemption_mode_value RM_ACTIVE)"
  show "(if mode = RM_ACTIVE \<and> t = t' then Some (sha256_hex rt (opaque_token rt (rng w)))
      else active_session_of rt w t') = Some h"
  proof (cases "h = sha256_hex rt (opaque_token rt (rng w))")
    case True
    with * have "t = t'" "redemption_mode_value mode = redemption_mode_value RM_ACTIVE" by auto
    then show ?thesis using True by (cases mode) simp_all
  next
    case False
    with * assms(1) have "active_session_of rt w t' = Some h" "\<not> (mode = RM_ACTIVE \<and> active_session_of rt w t = Some h)"
      by (auto simp: sessions_single_def split: if_splits)
    then show ?thesis by auto
  qed
qed

text \<open>Redeeming a stored, unexpired launch token.\<close>

lemma wp_redeem_valid:
  assumes "launch_ix w (sha256_hex rt tok) = Some (Json (JObj r))"
    and "jget_d r ''expires_at'' (JStr []) = JTime e" and "clock w < e"
    and "jget_n r ''transaction_id'' = JStr t" and "is_valid_transaction_id t"
    and "metadata_of w t = Some md"
  defines "status \<equiv> jget_d md ''status'' (JStr (status_value LAUNCHED))"
  shows "wp (redeem_launch_token rt s tok) Q E w =
     wp (if is_terminal_status status then create_session rt s t RM_TERMINAL (Some status)
         else create_session rt s t RM_ACTIVE None) Q E w"
  using assms(1-6) by (simp add: redeem_launch_token_def wp_simps metadata_of_Some status_def Let_def)

lemma wp_redeem_unknown:
  "launch_ix w (sha256_hex rt tok) = None \<Longrightarrow>
     wp (redeem_launch_token rt s tok) Q E w = Q (refused RM_INVALID) w"
  by (simp add: redeem_launch_token_def wp_simps Let_def)

lemma wp_redeem_expired:
  assumes "launch_ix w (sha256_hex rt tok) = Some (Json (JObj r))"
    and "jget_d r ''expires_at'' (JStr []) = JTime e" and "clock w \<ge> e"
  shows "wp (redeem_launch_token rt s tok) Q E w = Q (refused RM_EXPIRED) (drop_launch (sha256_hex rt tok) w)"
  using assms by (simp add: redeem_launch_token_def wp_simps Let_def)

lemma wp_resolve_known:
  assumes "session_ix w (sha256_hex rt tok) = Some (Json (JObj r))" and "tok \<noteq> []"
    and "jget_n r ''revoked'' \<noteq> JBool True" and "jget_d r ''expires_at'' (JStr []) = JTime e"
  shows "wp (resolve_browser_session rt tok) Q E w =
     (if clock w \<ge> e then Q None (drop_session (sha256_hex rt tok) w) else Q (Some r) w)"
  using assms by (simp add: resolve_browser_session_def wp_simps Let_def)

lemma wp_resolve_unknown:
  "session_ix w (sha256_hex rt tok) = None \<Longrightarrow> wp (resolve_browser_session rt tok) Q E w = Q None w"
  by (simp add: resolve_browser_session_def wp_simps Let_def)

lemma ascii_hex: "hex_digest s \<Longrightarrow> is_ascii s"
  using hex_digest_chars[of s] by (fastforce simp: is_ascii_def list_all_iff is_alnum_def is_digit_def
      is_upper_def is_lower_def char_between_def)

lemma wp_verify_csrf:
  assumes "jget_d r ''csrf_hash'' (JStr []) = JStr (sha256_hex rt c)" and "hashes_hex rt"
  shows "wp (verify_csrf rt r tok) Q E w = Q (sha256_hex rt tok = sha256_hex rt c) w"
proof -
  have "hex_digest (sha256_hex rt c)" using assms(2) by (simp add: hashes_hex_def sha256_hex_def)
  then show ?thesis
    using assms(1) by (simp add: verify_csrf_def wp_simps Let_def ascii_hex hex_digest_nonempty)
qed

end
