(* ===== verification/S2S.thy ===== *)
theory S2S
  imports Launch Attempts Browser_Session
begin

text \<open>
  The consumers' server-to-server side: authentication (\<open>app/integrations/s2s_auth.py\<close>), the status
  service (\<open>app/integrations/status.py\<close>) and the integration API (\<open>app/api/v1/integration.py\<close>).
  PyJWT is a parameter: reading a key file, a token's key id, the signing key of a JWKS URL and the
  verified decoding of a token.
\<close>

section \<open>Authentication\<close>

text \<open>What a call of the JWT library gives: a result, a \<open>PyJWTError\<close>, or an \<open>OSError\<close>/\<open>ValueError\<close>.\<close>

datatype 'a lib_result = LibOk 'a | LibJwtError | LibOsOrValueError

record jwt_library =
  jwks_file :: "string \<Rightarrow> (json \<times> string) list lib_result"
  header_kid :: "string \<Rightarrow> json lib_result"
  signing_key :: "string \<Rightarrow> string \<Rightarrow> string lib_result"
  jwt_decode :: "string \<Rightarrow> string \<Rightarrow> string list \<Rightarrow> string \<Rightarrow> string \<Rightarrow> int \<Rightarrow> obj lib_result"

definition invalid_token :: exn where
  "invalid_token = S2SAuthError ''UNAUTHORIZED'' ''Invalid S2S token'' 401"

definition not_configured :: exn where
  "not_configured =
     S2SAuthError ''INTEGRATION_NOT_CONFIGURED'' ''S2S authentication is not configured'' 503"

definition lib_bind :: "'a lib_result \<Rightarrow> ('a \<Rightarrow> exn + 'b) \<Rightarrow> exn + 'b" where
  "lib_bind r f = (case r of LibOk x \<Rightarrow> f x | LibJwtError \<Rightarrow> Inl invalid_token
     | LibOsOrValueError \<Rightarrow> Inl not_configured)"

definition decode_jwt :: "jwt_library \<Rightarrow> settings \<Rightarrow> string \<Rightarrow> exn + obj" where
  "decode_jwt lib s token =
     (let decode = (\<lambda>key. lib_bind (jwt_decode lib token key (s2s_jwt_algorithms s) (s2s_jwt_audience s)
            (s2s_jwt_issuer s) (s2s_jwt_clock_skew_seconds s)) Inr)
      in if s2s_jwks_is_local_path s
         then lib_bind (jwks_file lib (s2s_jwt_jwks_url s)) (\<lambda>keys.
              lib_bind (header_kid lib token) (\<lambda>kid.
              case List.find (\<lambda>(k, _). k = kid) keys of
                None \<Rightarrow> Inl invalid_token
              | Some (_, key) \<Rightarrow> decode key))
         else lib_bind (signing_key lib (s2s_jwt_jwks_url s) token) decode)"

definition authenticate_s2s ::
  "runtime \<Rightarrow> jwt_library \<Rightarrow> settings \<Rightarrow> consumer_registry \<Rightarrow> string \<Rightarrow> string \<Rightarrow> string
    \<Rightarrow> exn + consumer_profile" where
  "authenticate_s2s rt lib s registry authorization_header dev_auth_header requested_source =
     (if s2s_auth_mode s = AuthLocalDev then
        (let expected = s2s_local_dev_token s;
             refused = S2SAuthError ''UNAUTHORIZED'' ''Invalid local development credentials'' 401
         in if expected = [] then Inl refused
            else if \<not> (is_ascii dev_auth_header \<and> is_ascii expected) then Inl TypeErr
            else if dev_auth_header \<noteq> expected then Inl refused
            else (case active_consumer registry requested_source of
                    None \<Rightarrow> Inl (S2SAuthError ''FORBIDDEN'' ''Unknown or inactive consumer'' 403)
                  | Some p \<Rightarrow> Inr p))
      else if s2s_auth_mode s = AuthJwt then
        (if \<not> starts_with ''bearer '' (str_lower authorization_header)
         then Inl (S2SAuthError ''UNAUTHORIZED'' ''Missing bearer token'' 401)
         else sum_bind (decode_jwt lib s (str_strip (drop 7 authorization_header))) (\<lambda>claims.
           let no_identity = S2SAuthError ''UNAUTHORIZED'' ''Missing client identity claim'' 401 in
           case str_text rt (jget_n claims (s2s_jwt_client_id_claim s)) of
             None \<Rightarrow> Inl no_identity
           | Some client_id \<Rightarrow>
               if client_id = [] then Inl no_identity
               else (case find_by_client_id registry client_id of
                       None \<Rightarrow> Inl (S2SAuthError ''FORBIDDEN'' ''Unknown or inactive consumer'' 403)
                     | Some p \<Rightarrow>
                         if \<not> active p
                         then Inl (S2SAuthError ''FORBIDDEN'' ''Unknown or inactive consumer'' 403)
                         else if requested_source \<noteq> [] \<and> requested_source \<noteq> consumer_id p
                         then Inl (S2SAuthError ''FORBIDDEN'' ''Source does not match consumer identity'' 403)
                         else Inr p)))
      else Inl (S2SAuthError ''INTEGRATION_NOT_CONFIGURED'' ''S2S integration is not configured'' 503))"

section \<open>Status\<close>

definition map_status :: "runtime \<Rightarrow> json \<Rightarrow> string" where
  "map_status rt status =
     (if status = JStr (status_value COMPLETED) then ''COMPLETED''
      else if status = JStr (status_value ATTEMPT_LIMIT_EXCEEDED) then ''ATTEMPT_LIMIT_EXCEEDED''
      else if status = JStr (status_value CALLBACK_FAILED) then ''CALLBACK_FAILED''
      else if status = JStr (status_value PORTRAIT_READY) \<or> status = JStr (status_value DECISION_READY)
      then ''READY''
      else if status = JStr (status_value CAPTURE_READY) then ''IN_PROGRESS''
      else ''RETRY_REQUIRED'')"

definition status_blank :: obj where
  "status_blank = [(''attempt_count'', JInt 0), (''reason_codes'', JArr [])]"

definition status_read_attempts :: "string \<Rightarrow> obj M" where
  "status_read_attempts t =
     bnd (artifact_exists t ''attempts.json'') (\<lambda>present.
       if \<not> present then ret status_blank
       else catch (read_json t ''attempts.json'') (\<lambda>_. ret status_blank))"

definition resolve_status :: "runtime \<Rightarrow> consumer_profile \<Rightarrow> string \<Rightarrow> obj option M" where
  "resolve_status rt p external_transaction_id =
     bnd (get_external (external_key_hash rt (consumer_id p) external_transaction_id)) (\<lambda>mapping.
     case mapping of
       None \<Rightarrow> ret None
     | Some m \<Rightarrow>
         bnd (getitem m ''internal_transaction_id'') (\<lambda>v.
         case str_text rt v of
           None \<Rightarrow> ret None
         | Some t \<Rightarrow>
             bnd (read_transaction_json t) (\<lambda>md.
             bnd (status_read_attempts t) (\<lambda>attempts.
             bnd (lift (py_list rt (jget_d attempts ''reason_codes'' (JArr [])))) (\<lambda>codes.
               ret (Some
                 [(''transaction_id'', JStr external_transaction_id),
                  (''source'', py_str rt (jget_d md ''source'' (JStr (consumer_id p)))),
                  (''status'', JStr (map_status rt (py_str rt (jget_d md ''status'' (JStr []))))),
                  (''attempt_count'', jget_d attempts ''attempt_count'' (JInt 0)),
                  (''max_attempts'', JInt (max_attempts p)),
                  (''reason_codes'', JArr codes),
                  (''created_at'', py_str rt (jget_d md ''created_at'' (JStr []))),
                  (''updated_at'', py_str rt (jget_d md ''updated_at'' (jget_d md ''created_at'' (JStr []))))]))))))"

section \<open>The integration API\<close>

record s2s_request =
  sr_authorization :: string
  sr_dev_auth :: string

definition authenticated_consumer ::
  "runtime \<Rightarrow> jwt_library \<Rightarrow> settings \<Rightarrow> consumer_registry \<Rightarrow> s2s_request \<Rightarrow> string \<Rightarrow> consumer_profile M" where
  "authenticated_consumer rt lib s registry rq source =
     lift (authenticate_s2s rt lib s registry (sr_authorization rq) (sr_dev_auth rq) source)"

definition launch_payload :: "launch_result \<Rightarrow> obj" where
  "launch_payload r =
     [(''transaction_id'', JStr (l_external_transaction_id r)),
      (''launch_session_id'', JStr (l_launch_session_id r)), (''launch_url'', JStr (l_launch_url r)),
      (''expires_at'', JTime (l_expires_at r)), (''expires_in_seconds'', JInt (l_expires_in_seconds r))]"

record json_response =
  jr_status :: nat
  jr_headers :: "(string \<times> string) list"
  jr_body :: obj

definition no_store_headers :: "(string \<times> string) list" where
  "no_store_headers = [(''Cache-Control'', ''no-store''), (''X-Content-Type-Options'', ''nosniff'')]"

definition no_store_response :: "obj \<Rightarrow> json_response" where
  "no_store_response ob = \<lparr>jr_status = 200, jr_headers = no_store_headers, jr_body = ob\<rparr>"

definition launch_session ::
  "runtime \<Rightarrow> jwt_library \<Rightarrow> settings \<Rightarrow> consumer_registry \<Rightarrow> s2s_request \<Rightarrow> launch_request
    \<Rightarrow> json_response M" where
  "launch_session rt lib s registry rq body =
     bnd (authenticated_consumer rt lib s registry rq (lr_source body)) (\<lambda>p.
     if \<not> request_policy_allows p (lr_ocr_required body) (lr_camera_config body)
          (lr_white_background body) (lr_output_file_format body)
     then andthen (record_launch_session (consumer_id p) ''policy_denied'')
       (raise (ApiError ''REQUEST_POLICY_VIOLATION''
          ''Requested options are not permitted by the consumer profile'' 400))
     else
     bnd (catch (create_launch rt s p body)
       (\<lambda>e. if e = TxExistsError
            then andthen (record_launch_session (consumer_id p) ''duplicate'')
              (raise (ApiError ''TRANSACTION_EXISTS''
                 ''A transaction already exists for this consumer and external id'' 409))
            else if e = ConsumerConfigError
            then raise (ApiError ''INTEGRATION_NOT_CONFIGURED'' [] 503)
            else raise e)) (\<lambda>result.
     andthen (record_launch_session (consumer_id p) ''created'')
     (ret (no_store_response (launch_payload result)))))"

definition reissue_launch_session ::
  "runtime \<Rightarrow> jwt_library \<Rightarrow> settings \<Rightarrow> consumer_registry \<Rightarrow> s2s_request \<Rightarrow> string \<Rightarrow> string
    \<Rightarrow> json_response M" where
  "reissue_launch_session rt lib s registry rq external_transaction_id source =
     bnd (authenticated_consumer rt lib s registry rq source) (\<lambda>p.
     bnd (catch (reissue_launch rt s p external_transaction_id)
       (\<lambda>e. if e = ArtifactNotFound
            then raise (ApiError ''NOT_FOUND'' ''Transaction not found'' 404)
            else raise e)) (\<lambda>result.
     andthen (record_launch_session (consumer_id p) ''reissued'')
     (ret (no_store_response (launch_payload result)))))"

definition transaction_status_route ::
  "runtime \<Rightarrow> jwt_library \<Rightarrow> settings \<Rightarrow> consumer_registry \<Rightarrow> s2s_request \<Rightarrow> string \<Rightarrow> string
    \<Rightarrow> json_response M" where
  "transaction_status_route rt lib s registry rq external_transaction_id source =
     bnd (authenticated_consumer rt lib s registry rq source) (\<lambda>p.
     bnd (resolve_status rt p external_transaction_id) (\<lambda>status.
     case status of
       None \<Rightarrow> andthen (record_status_read (consumer_id p))
                (raise (ApiError ''NOT_FOUND'' ''Transaction not found'' 404))
     | Some ob \<Rightarrow> andthen (record_status_read (consumer_id p)) (ret (no_store_response ob))))"

section \<open>Facts\<close>

text \<open>Whoever authenticates is an active consumer, and a supplied source is the consumer's own id.\<close>

lemma authenticate_active:
  assumes "authenticate_s2s rt lib s (registry_of ps) ah dh src = Inr p"
  shows "active p \<and> p \<in> set ps \<and> (src = [] \<or> src = consumer_id p)"
proof (cases "s2s_auth_mode s = AuthLocalDev")
  case True
  with assms have "active_consumer (registry_of ps) src = Some p"
    by (auto simp: authenticate_s2s_def Let_def split: if_splits option.splits)
  then show ?thesis by (auto dest: active_consumer_Some)
next
  case False
  with assms obtain c where "find_by_client_id (registry_of ps) c = Some p" "active p"
    "src = [] \<or> src = consumer_id p"
    by (auto simp: authenticate_s2s_def sum_bind_def Let_def split: if_splits option.splits sum.splits)
  then show ?thesis by (auto dest!: find_by_client_id_Some registry_entries)
qed

lemma authenticate_unconfigured:
  "s2s_auth_mode s = AuthUnconfigured \<Longrightarrow> authenticate_s2s rt lib s r ah dh src =
     Inl (S2SAuthError ''INTEGRATION_NOT_CONFIGURED'' ''S2S integration is not configured'' 503)"
  by (simp add: authenticate_s2s_def)

lemma authenticate_jwt_claim:
  assumes "s2s_auth_mode s = AuthJwt" and "authenticate_s2s rt lib s r ah dh src = Inr p"
  shows "\<exists>claims client. decode_jwt lib s (str_strip (drop 7 ah)) = Inr claims
    \<and> str_text rt (jget_n claims (s2s_jwt_client_id_claim s)) = Some client
    \<and> client \<in> set (jwt_client_ids p)"
  using assms
  by (auto simp: authenticate_s2s_def sum_bind_def Let_def matches_client_id_def
      split: if_splits option.splits sum.splits dest!: find_by_client_id_Some)

lemma wp_status_read_attempts [wp_simps]:
  "wp (status_read_attempts t) Q E w =
     (if is_valid_transaction_id t
      then Q (case file_at w t ''attempts.json'' of Some (Json (JObj ob)) \<Rightarrow> ob | _ \<Rightarrow> status_blank) w
      else E PathError w)"
  by (auto simp: status_read_attempts_def wp_simps path_simps parse_object_Inr
      split: option.splits sum.splits blob.splits json.splits)

text \<open>A status read does not change the state.\<close>

lemma resolve_status_pure: "wp (resolve_status rt p e) (\<lambda>_ w'. w' = w) (\<lambda>_ w'. w' = w) w"
  by (auto simp: resolve_status_def wp_simps split: option.splits sum.splits)

end
