(* ===== verification/Vision.thy ===== *)
theory Vision
  imports World Prompts
begin

text \<open>
  The vision providers' shared code: the strict result schema and its parser
  (\<open>app/providers/vision/models.py\<close>, \<open>base.py\<close>), the error taxonomy (\<open>errors.py\<close>), the retry loop
  and the OpenAI-compatible transport (\<open>openai_compatible.py\<close>). HTTP, the Gemini SDK and pydantic's
  coercion of numbers are parameters.
\<close>

section \<open>Requests and results\<close>

record image_input =
  im_bytes :: bytes
  im_mime_type :: string
  im_sequence :: "int option"

record vision_request =
  vr_images :: "image_input list"
  vr_prompt_id :: string
  vr_prompt_version :: string
  vr_schema_version :: string
  vr_temperature :: rat
  vr_provider_options :: "(string \<times> string) list"

record vlm_assessment =
  va_schema_version :: json
  va_classification :: vlm_classification
  va_attack_medium :: attack_medium
  va_confidence :: pyfloat
  va_evidence_codes :: "json list"
  va_subject_count :: subject_count
  va_secondary :: secondary_person_state

record token_usage =
  tu_input :: "int option"
  tu_output :: "int option"
  tu_total :: "int option"

record vision_response =
  vp_assessment :: vlm_assessment
  vp_provider :: string
  vp_model :: string
  vp_adapter_version :: string
  vp_frame_strategy :: "string option"
  vp_image_count :: nat
  vp_usage :: "token_usage option"
  vp_request_id :: "json option"

text \<open>
  Pydantic's lax coercions the models use: \<open>float\<close> with \<open>ge=0, le=1\<close>, and \<open>int\<close>. The first only
  yields numbers of the interval.
\<close>

record pydantic =
  unit_float :: "json \<Rightarrow> pyfloat option"
  lax_int :: "json \<Rightarrow> int option"

definition unit_float_ok :: "pydantic \<Rightarrow> bool" where
  "unit_float_ok pl \<longleftrightarrow> (\<forall>j x. unit_float pl j = Some x \<longrightarrow> (\<exists>q. x = Fin q \<and> 0 \<le> q \<and> q \<le> 1))"

section \<open>The strict parser\<close>

definition assessment_fields :: "string list" where
  "assessment_fields = [''schema_version'', ''classification'', ''attack_medium'',
     ''self_reported_confidence'', ''evidence_codes'', ''subject_count'', ''secondary_person_state'']"

definition enum_field :: "('a \<Rightarrow> string) \<Rightarrow> 'a list \<Rightarrow> json option \<Rightarrow> 'a option" where
  "enum_field val members v = (case v of Some (JStr s) \<Rightarrow> enum_parse val members s | _ \<Rightarrow> None)"

text \<open>\<open>VlmAssessment.model_validate\<close>: no extra fields, strict enumerations, at most 20 evidence codes.\<close>

definition validate_assessment :: "pydantic \<Rightarrow> obj \<Rightarrow> vlm_assessment option" where
  "validate_assessment pl ob =
     (if \<not> set (map fst ob) \<subseteq> set assessment_fields then None
      else
      (let sv = jget_d ob ''schema_version'' (JStr VLM_SCHEMA_VERSION) in
      Option.bind (enum_field vlm_classification_value vlm_classifications (jget ob ''classification'')) (\<lambda>c.
      Option.bind (enum_field attack_medium_value attack_media
        (Some (jget_d ob ''attack_medium'' (JStr ''NONE'')))) (\<lambda>m.
      Option.bind (Option.bind (jget ob ''self_reported_confidence'') (unit_float pl)) (\<lambda>q.
      Option.bind (as_list (jget_d ob ''evidence_codes'' (JArr []))) (\<lambda>es.
      Option.bind (enum_field subject_count_value subject_counts (jget ob ''subject_count'')) (\<lambda>n.
      Option.bind (enum_field secondary_person_state_value secondary_person_states
        (jget ob ''secondary_person_state'')) (\<lambda>p.
        if is_jstr sv \<and> list_all is_jstr es \<and> length es \<le> 20
        then Some \<lparr>va_schema_version = sv, va_classification = c, va_attack_medium = m,
                   va_confidence = q, va_evidence_codes = es, va_subject_count = n, va_secondary = p\<rparr>
        else None))))))))"

definition schema_error :: exn where
  "schema_error = VlmError SCHEMA_VALIDATION_ERROR ''provider output did not match schema''"

definition strip_fence :: "string \<Rightarrow> string" where
  "strip_fence text =
     (let stripped = str_strip text in
      if starts_with ''```'' stripped then
        (let s1 = rstrip_if (\<lambda>c. c = CHR ''`'') (dropWhile (\<lambda>c. c = CHR ''`'') stripped);
             s2 = (if starts_with ''json'' s1 then dropWhile is_space (drop 4 s1) else s1)
         in if ends_with ''```'' s2 then rstrip_if is_space (take (length s2 - 3) s2) else s2)
      else stripped)"

definition parse_assessment :: "runtime \<Rightarrow> pydantic \<Rightarrow> string \<Rightarrow> exn + vlm_assessment" where
  "parse_assessment rt pl text =
     (case json_loads rt (strip_fence text) of
        Some (JObj ob) \<Rightarrow>
          (case validate_assessment pl ob of Some a \<Rightarrow> Inr a | None \<Rightarrow> Inl schema_error)
      | _ \<Rightarrow> Inl schema_error)"

section \<open>Errors and retries\<close>

text \<open>What a transport call raises.\<close>

datatype transport_error =
  TimeoutException | HTTPStatusError nat | NetworkError | RaisedVlm vlm_error_code string | OtherError string

definition map_provider_http_error :: "transport_error \<Rightarrow> exn" where
  "map_provider_http_error err =
     (case err of
        TimeoutException \<Rightarrow> VlmError PROVIDER_TIMEOUT ''provider request timed out''
      | HTTPStatusError status \<Rightarrow>
          (if status \<in> {401, 403} then VlmError PROVIDER_AUTH_ERROR ''provider authentication failed''
           else if status = 429 then VlmError PROVIDER_RATE_LIMITED ''provider rate limited''
           else if status \<in> {408, 502, 503, 504} \<or> status \<ge> 500
           then VlmError PROVIDER_UNAVAILABLE ''provider unavailable''
           else if 400 \<le> status \<and> status < 500
           then VlmError PROVIDER_BAD_REQUEST ''provider rejected the request''
           else VlmError UNKNOWN_PROVIDER_ERROR [])
      | NetworkError \<Rightarrow> VlmError PROVIDER_UNAVAILABLE ''provider network error''
      | RaisedVlm code message \<Rightarrow> VlmError code message
      | OtherError message \<Rightarrow> VlmError UNKNOWN_PROVIDER_ERROR message)"

definition RETRYABLE_CODES :: "vlm_error_code list" where
  "RETRYABLE_CODES = [PROVIDER_RATE_LIMITED, PROVIDER_UNAVAILABLE, PROVIDER_TIMEOUT]"

fun is_retryable_error :: "exn \<Rightarrow> bool" where
  "is_retryable_error (VlmError code _) = (code \<in> set RETRYABLE_CODES)"
| "is_retryable_error _ = False"

text \<open>\<open>for attempt in range(attempts)\<close>; the pause between two attempts is not modelled.\<close>

primrec retry_loop :: "('w, exn, 'a) sm \<Rightarrow> int \<Rightarrow> int \<Rightarrow> nat \<Rightarrow> ('w, exn, 'a) sm" where
  "retry_loop operation max_retries attempt 0 =
     raise (VlmError PROVIDER_UNAVAILABLE ''provider retries exhausted'')"
| "retry_loop operation max_retries attempt (Suc n) =
     catch operation (\<lambda>e.
       if attempt \<ge> max_retries \<or> \<not> is_retryable_error e then raise e
       else retry_loop operation max_retries (attempt + 1) n)"

definition run_with_retries :: "('w, exn, 'a) sm \<Rightarrow> int \<Rightarrow> ('w, exn, 'a) sm" where
  "run_with_retries operation max_retries =
     retry_loop operation max_retries 0 (nat (max_retries + 1))"

section \<open>The OpenAI-compatible transport\<close>

definition base64_char :: "nat \<Rightarrow> char" where
  "base64_char n =
     ''ABCDEFGHIJKLMNOPQRSTUVWXYZabcdefghijklmnopqrstuvwxyz0123456789+/'' ! n"

fun b64encode :: "bytes \<Rightarrow> string" where
  "b64encode [] = []"
| "b64encode [a] = (let n = unat a * 16 in [base64_char (n div 64), base64_char (n mod 64), CHR ''='', CHR ''=''])"
| "b64encode [a, b] = (let n = (unat a * 256 + unat b) * 4 in
     [base64_char (n div 4096), base64_char (n div 64 mod 64), base64_char (n mod 64), CHR ''=''])"
| "b64encode (a # b # c # bs) = (let n = (unat a * 256 + unat b) * 256 + unat c in
     base64_char (n div 262144) # base64_char (n div 4096 mod 64) # base64_char (n div 64 mod 64)
       # base64_char (n mod 64) # b64encode bs)"

definition image_part :: "image_input \<Rightarrow> json" where
  "image_part im = JObj
     [(''type'', JStr ''image_url''),
      (''image_url'', JObj [(''url'', JStr (''data:'' @ im_mime_type im @ '';base64,'' @ b64encode (im_bytes im)))])]"

definition build_openai_messages :: "vision_request \<Rightarrow> json list" where
  "build_openai_messages rq =
     [JObj [(''role'', JStr ''system''), (''content'', JStr SYSTEM_PROMPT)],
      JObj [(''role'', JStr ''user''),
            (''content'', JArr (JObj [(''type'', JStr ''text''), (''text'', JStr USER_PROMPT)]
                               # map image_part (vr_images rq)))]]"

text \<open>\<open>v[k]\<close> and \<open>v[0]\<close> inside the \<open>try\<close>: \<open>None\<close> stands for the errors it catches.\<close>

fun index_key :: "string \<Rightarrow> json \<Rightarrow> json option" where
  "index_key k (JObj ob) = jget ob k"
| "index_key k _ = None"

fun index_zero :: "runtime \<Rightarrow> json \<Rightarrow> json option" where
  "index_zero rt (JArr (x # _)) = Some x"
| "index_zero rt (JStr (c # _)) = Some (JStr [c])"
| "index_zero rt (JTime t) = (case iso_text rt t of c # _ \<Rightarrow> Some (JStr [c]) | [] \<Rightarrow> None)"
| "index_zero rt _ = None"

definition token_field :: "pydantic \<Rightarrow> json \<Rightarrow> exn + int option" where
  "token_field pl v =
     (if v = JNull then Inr None else case lax_int pl v of None \<Rightarrow> Inl ValueErr | Some i \<Rightarrow> Inr (Some i))"

definition parse_usage :: "pydantic \<Rightarrow> obj \<Rightarrow> exn + token_usage" where
  "parse_usage pl u =
     sum_bind (token_field pl (jget_n u ''prompt_tokens'')) (\<lambda>i.
     sum_bind (token_field pl (jget_n u ''completion_tokens'')) (\<lambda>out.
     sum_bind (token_field pl (jget_n u ''total_tokens'')) (\<lambda>t.
       Inr \<lparr>tu_input = i, tu_output = out, tu_total = t\<rparr>)))"

definition parse_openai_response :: "runtime \<Rightarrow> pydantic \<Rightarrow> json \<Rightarrow> exn + string \<times> token_usage option" where
  "parse_openai_response rt pl body =
     (case Option.bind (index_key ''choices'' body) (\<lambda>cs. Option.bind (index_zero rt cs) (\<lambda>choice.
            Option.bind (index_key ''message'' choice) (index_key ''content''))) of
        None \<Rightarrow> Inl (VlmError PROVIDER_RESPONSE_ERROR ''malformed provider response'')
      | Some text \<Rightarrow>
          (case str_text rt text of
             None \<Rightarrow> Inl (VlmError PROVIDER_RESPONSE_ERROR ''empty provider response content'')
           | Some s \<Rightarrow>
               if str_strip s = [] then Inl (VlmError PROVIDER_RESPONSE_ERROR ''empty provider response content'')
               else
                 (case body of
                    JObj ob \<Rightarrow>
                      (case jget_n ob ''usage'' of
                         JObj u \<Rightarrow> sum_bind (parse_usage pl u) (\<lambda>x. Inr (s, Some x))
                       | _ \<Rightarrow> Inr (s, None))
                  | _ \<Rightarrow> Inr (s, None))))"

definition openai_payload :: "string \<Rightarrow> vision_request \<Rightarrow> obj" where
  "openai_payload model rq =
     [(''model'', JStr model), (''messages'', JArr (build_openai_messages rq)),
      (''temperature'', JFloat (Fin (vr_temperature rq))), (''max_tokens'', JInt 512),
      (''response_format'', JObj [(''type'', JStr ''json_object'')])]"

text \<open>The HTTP client: the outcome of the request with that number, as a JSON body or what it raised.\<close>

type_synonym http_client = "nat \<Rightarrow> string \<Rightarrow> (string \<times> string) list \<Rightarrow> obj \<Rightarrow> transport_error + json"

definition provider_post :: "http_client \<Rightarrow> string \<Rightarrow> (string \<times> string) list \<Rightarrow> obj \<Rightarrow> (transport_error + json) M" where
  "provider_post client url headers payload =
     bnd (gets (\<lambda>w. length (vlm_calls w))) (\<lambda>n.
     andthen (modify (\<lambda>w. w\<lparr>vlm_calls := vlm_calls w @ [url]\<rparr>))
     (ret (client n url headers payload)))"

definition call_openai_compatible ::
  "runtime \<Rightarrow> pydantic \<Rightarrow> http_client \<Rightarrow> string \<Rightarrow> string \<Rightarrow> string \<Rightarrow> string \<Rightarrow> string option
    \<Rightarrow> vision_request \<Rightarrow> vision_response M" where
  "call_openai_compatible rt pl client url api_key model provider_name frame_strategy rq =
     bnd (provider_post client url [(''Authorization'', ''Bearer '' @ api_key)] (openai_payload model rq)) (\<lambda>outcome.
     case outcome of
       Inl err \<Rightarrow> raise (map_provider_http_error err)
     | Inr body \<Rightarrow>
         bnd (lift (parse_openai_response rt pl body)) (\<lambda>(text, usage).
         bnd (lift (parse_assessment rt pl text)) (\<lambda>assessment.
           ret \<lparr>vp_assessment = assessment, vp_provider = provider_name, vp_model = model,
                vp_adapter_version = ''1.0.0'', vp_frame_strategy = frame_strategy,
                vp_image_count = length (vr_images rq), vp_usage = usage,
                vp_request_id = (let i = (case body of JObj ob \<Rightarrow> jget_n ob ''id'' | _ \<Rightarrow> JNull)
                                 in if truthy i then Some (py_str rt i) else None)\<rparr>)))"

section \<open>Facts\<close>

lemma sum_bind_Inl: "sum_bind r f = Inl e \<longleftrightarrow> r = Inl e \<or> (\<exists>x. r = Inr x \<and> f x = Inl e)"
  by (auto simp: sum_bind_def split: sum.splits)

lemma enum_field_Some: "enum_field val members v = Some x \<longleftrightarrow> (\<exists>s. v = Some (JStr s) \<and> enum_parse val members s = Some x)"
  by (auto simp: enum_field_def split: option.splits json.splits)

text \<open>A result has both person fields, a confidence of the unit interval and at most 20 codes.\<close>

lemma validate_assessment_fields:
  assumes "validate_assessment pl ob = Some a"
  shows "jget ob ''classification'' = Some (JStr (vlm_classification_value (va_classification a)))
    \<and> jget ob ''subject_count'' = Some (JStr (subject_count_value (va_subject_count a)))
    \<and> jget ob ''secondary_person_state'' = Some (JStr (secondary_person_state_value (va_secondary a)))
    \<and> length (va_evidence_codes a) \<le> 20 \<and> set (map fst ob) \<subseteq> set assessment_fields
    \<and> (\<exists>v. jget ob ''self_reported_confidence'' = Some v \<and> unit_float pl v = Some (va_confidence a))"
proof -
  from assms have f: "set (map fst ob) \<subseteq> set assessment_fields"
    by (simp add: validate_assessment_def split: if_splits)
  obtain c m q es n p where *: "enum_field vlm_classification_value vlm_classifications (jget ob ''classification'') = Some c"
    "Option.bind (jget ob ''self_reported_confidence'') (unit_float pl) = Some q"
    "enum_field subject_count_value subject_counts (jget ob ''subject_count'') = Some n"
    "enum_field secondary_person_state_value secondary_person_states (jget ob ''secondary_person_state'') = Some p"
    "length es \<le> 20" "a = \<lparr>va_schema_version = jget_d ob ''schema_version'' (JStr VLM_SCHEMA_VERSION), va_classification = c, va_attack_medium = m,
                   va_confidence = q, va_evidence_codes = es, va_subject_count = n, va_secondary = p\<rparr>"
    using assms f unfolding validate_assessment_def Let_def bind_eq_Some_conv
    by (simp only: if_not_P not_not simp_thms if_True if_False bind_eq_Some_conv split: if_splits) blast
  show ?thesis using f *(5) unfolding *(6)
    using *(1-4) by (simp add: bind_eq_Some_conv enum_field_Some classification_enum.parse_Some_iff
      subject_enum.parse_Some_iff secondary_enum.parse_Some_iff)
qed
lemma parse_assessment_Inr:
  "parse_assessment rt pl text = Inr a \<longleftrightarrow>
     (\<exists>ob. json_loads rt (strip_fence text) = Some (JObj ob) \<and> validate_assessment pl ob = Some a)"
  by (auto simp: parse_assessment_def split: option.splits json.splits)

lemma parse_assessment_Inl: "parse_assessment rt pl text = Inl e \<Longrightarrow> e = schema_error"
  by (auto simp: parse_assessment_def split: option.splits json.splits)

lemma map_provider_http_error_vlm: "\<exists>c m. map_provider_http_error err = VlmError c m"
  by (cases err) (auto simp: map_provider_http_error_def)

text \<open>
  The loop as a pure run: the operation's outcomes in call order and the number of calls. It satisfies
  the contract of a bounded retry.
\<close>

definition retry_run :: "(nat \<Rightarrow> exn + 'a) \<Rightarrow> nat \<Rightarrow> (exn + 'a) \<times> nat" where
  "retry_run op n = run_with_retries (\<lambda>k. (op k, Suc k)) (int n) 0"

definition retry_again :: "exn + 'a \<Rightarrow> bool" where
  "retry_again r = (case r of Inl e \<Rightarrow> is_retryable_error e | Inr _ \<Rightarrow> False)"

lemma retry_loop_step: "retry_loop (\<lambda>k. (op k, Suc k)) (int n) (int attempt) (Suc m) attempt =
    (if retry_again (op attempt) \<and> attempt < n
     then retry_loop (\<lambda>k. (op k, Suc k)) (int n) (int (Suc attempt)) m (Suc attempt)
     else (op attempt, Suc attempt))"
proof (cases "op attempt")
  case (Inl e)
  have "int attempt + 1 = int (Suc attempt)" by simp
  then show ?thesis using Inl
  unfolding retry_loop.simps(2) catch_def retry_again_def by (simp add: raise_def add.commute)
next
  case (Inr x)
  then show ?thesis
  unfolding retry_loop.simps(2) catch_def retry_again_def by (simp add: raise_def)
qed

lemma retry_loop_run:
  assumes "attempt + m = Suc n" and "m > 0"
    and "retry_loop (\<lambda>k. (op k, Suc k)) (int n) (int attempt) m attempt = (r, k)"
  shows "attempt < k \<and> k \<le> Suc n \<and> r = op (k - 1) \<and> (\<forall>i. attempt \<le> i \<and> i < k - 1 \<longrightarrow> retry_again (op i))
    \<and> (retry_again r \<longrightarrow> k = Suc n)"
  using assms
proof (induction m arbitrary: attempt)
  case (Suc m)
  show ?case
  proof (cases "retry_again (op attempt) \<and> attempt < n")
    case True
    have "m > 0" "Suc attempt + m = Suc n" using Suc.prems(1) True by auto
    moreover have "retry_loop (\<lambda>k. (op k, Suc k)) (int n) (int (Suc attempt)) m (Suc attempt) = (r, k)"
      using Suc.prems(3) True unfolding retry_loop_step by (simp del: of_nat_Suc)
    ultimately have IH: "Suc attempt < k \<and> k \<le> Suc n \<and> r = op (k - 1)
        \<and> (\<forall>i. Suc attempt \<le> i \<and> i < k - 1 \<longrightarrow> retry_again (op i)) \<and> (retry_again r \<longrightarrow> k = Suc n)"
      using Suc.IH by blast
    have "attempt \<le> i \<and> i < k - 1 \<longrightarrow> retry_again (op i)" for i
      using IH True by (metis le_antisym not_less_eq_eq)
    then show ?thesis using IH Suc_lessD by blast
  next
    case False
    then have "(op attempt, Suc attempt) = (r, k)" using Suc.prems(3) unfolding retry_loop_step by (simp only: if_False)
    then have "r = op attempt" "k = Suc attempt" by simp_all
    moreover have "attempt \<le> n" "retry_again (op attempt) \<longrightarrow> attempt = n" using Suc.prems(1) False by auto
    ultimately show ?thesis by (simp, meson leD)
  qed
qed simp

interpretation provider_retry: retrying retry_run retry_again
proof
  fix op :: "nat \<Rightarrow> exn + 'a" and n r k
  assume "retry_run op n = (r, k)"
  moreover have "nat (int n + 1) = Suc n" by simp
  ultimately have "retry_loop (\<lambda>k. (op k, Suc k)) (int n) (int 0) (Suc n) 0 = (r, k)"
    unfolding retry_run_def run_with_retries_def by simp
  note spec = retry_loop_run[OF add_0 zero_less_Suc this]
  from spec have bounds: "0 < k \<and> k \<le> Suc n" and val: "r = op (k - 1)"
    and prev: "\<forall>i. 0 \<le> i \<and> i < k - 1 \<longrightarrow> retry_again (op i)" and last: "retry_again r \<longrightarrow> k = Suc n"
    by blast+
  show "r = op j \<and> (\<forall>i<j. retry_again (op i))" if "k = Suc j" for j
    using val prev le0 unfolding that diff_Suc_1 by blast
  show "0 < k \<and> k \<le> Suc n" by (rule bounds)
  show "retry_again r \<Longrightarrow> k = Suc n" using last by blast
qed
end
