(* ===== verification/Callback.thy ===== *)
theory Callback
  imports Browser_Session Vision
begin

text \<open>
  The outbound callback (\<open>app/integrations/callback.py\<close>): its payload and idempotency key, the
  delivery with retries of transient failures only, and the validation of the redirect the consumer
  answers with. The HTTP client is a parameter: what the n-th request of the process is answered with.
  The pauses between attempts are not modelled.
\<close>

definition CALLBACK_EVENT_TYPE :: string where
  "CALLBACK_EVENT_TYPE = ''LIVEPHOTO.DECISION.CREATED''"

definition IDEMPOTENCY_HEADER :: string where "IDEMPOTENCY_HEADER = ''Idempotency-Key''"

record callback_delivery =
  cd_acknowledged :: bool
  cd_status_code :: "nat option"
  cd_redirect_url :: "string option"
  cd_latency_ms :: int

definition build_callback_event_id :: "runtime \<Rightarrow> string \<Rightarrow> string \<Rightarrow> string" where
  "build_callback_event_id rt cid external_transaction_id =
     sha_text rt (cid @ '':'' @ external_transaction_id @ '':'' @ CALLBACK_EVENT_TYPE)"

definition build_callback_payload ::
  "runtime \<Rightarrow> string \<Rightarrow> string \<Rightarrow> json \<Rightarrow> blob \<Rightarrow> int \<Rightarrow> obj" where
  "build_callback_payload rt event_id external_transaction_id decision_id processed_jpeg occurred_at =
     [(''event_id'', JStr event_id), (''transaction_id'', JStr external_transaction_id),
      (''decision_id'', decision_id), (''occurred_at'', JTime occurred_at),
      (''processed_jpeg_base64'', JStr (b64encode (blob_bytes rt processed_jpeg))),
      (''processed_jpeg_sha256'', JStr (sha_blob rt processed_jpeg))]"

text \<open>The environment: \<open>os.environ.get(name, '''')\<close>.\<close>

type_synonym environ = "string \<Rightarrow> string"

definition resolve_bearer :: "environ \<Rightarrow> consumer_profile \<Rightarrow> string" where
  "resolve_bearer env p = env (cb_secret_env (callback p))"

section \<open>Delivery\<close>

text \<open>
  What a request gives: an \<open>httpx.HTTPError\<close>, another exception of the client (an invalid URL), or a
  response with its status and its body, \<open>None\<close> when the body is not JSON.
\<close>

datatype callback_outcome = CbHttpError | CbOtherError | CbResponse nat "json option"

type_synonym callback_client = "nat \<Rightarrow> callback_post \<Rightarrow> callback_outcome"

definition post_callback :: "callback_client \<Rightarrow> callback_post \<Rightarrow> callback_outcome M" where
  "post_callback client post =
     bnd (gets (\<lambda>w. length (outbox w))) (\<lambda>n.
     andthen (modify (\<lambda>w. w\<lparr>outbox := outbox w @ [post]\<rparr>))
     (ret (client n post)))"

definition callback_headers :: "environ \<Rightarrow> consumer_profile \<Rightarrow> string \<Rightarrow> exn + (string \<times> string) list" where
  "callback_headers env p event_id =
     (let headers = [(''Content-Type'', ''application/json''), (IDEMPOTENCY_HEADER, event_id)] in
      if cb_auth_type (callback p) = Auth_bearer_env
      then (let token = resolve_bearer env p in
            if token = [] then Inl CallbackTransportError
            else Inr (headers @ [(''Authorization'', ''Bearer '' @ token)]))
      else Inr headers)"

definition transient_status :: "nat \<Rightarrow> bool" where
  "transient_status code \<longleftrightarrow> code = 429 \<or> code \<ge> 500"

fun body_redirect :: "json \<Rightarrow> string option" where
  "body_redirect (JObj ob) = (case jget_n ob ''redirect_url'' of JStr u \<Rightarrow> Some u | _ \<Rightarrow> None)"
| "body_redirect _ = None"

text \<open>The \<open>while True\<close> loop, from the number of the attempt that is made next, minus one.\<close>

function callback_loop :: "callback_client \<Rightarrow> int \<Rightarrow> callback_post \<Rightarrow> int \<Rightarrow> callback_delivery M" where
  "callback_loop client max_retries post made =
     (let attempt = made + 1 in
     bnd (gets clock) (\<lambda>started.
     bnd (post_callback client post) (\<lambda>outcome.
     bnd (gets clock) (\<lambda>now.
     case outcome of
       CbOtherError \<Rightarrow> raise LibraryErr
     | CbHttpError \<Rightarrow>
         if attempt > max_retries then raise CallbackTransportError
         else callback_loop client max_retries post attempt
     | CbResponse code body \<Rightarrow>
         if transient_status code then
           (if attempt > max_retries then raise CallbackTransportError
            else callback_loop client max_retries post attempt)
         else if code < 200 \<or> code \<ge> 300 then raise (CallbackTerminalError (Some code))
         else (case body of
             None \<Rightarrow> raise (CallbackTerminalError None)
           | Some b \<Rightarrow> ret \<lparr>cd_acknowledged = True, cd_status_code = Some code,
                           cd_redirect_url = body_redirect b,
                           cd_latency_ms = (now - started) div 1000\<rparr>)))))"
  by pat_completeness auto
termination
  by (relation "measure (\<lambda>(client, max_retries, post, made). nat (max_retries - made))") auto

declare callback_loop.simps [simp del]

definition send_callback ::
  "runtime \<Rightarrow> environ \<Rightarrow> callback_client \<Rightarrow> settings \<Rightarrow> consumer_profile \<Rightarrow> obj \<Rightarrow> callback_delivery M" where
  "send_callback rt env client s p payload =
     bnd (getitem payload ''event_id'') (\<lambda>event.
     (let event_id = (case str_text rt (py_str rt event) of Some x \<Rightarrow> x | None \<Rightarrow> []) in
     bnd (lift (callback_headers env p event_id)) (\<lambda>headers.
       callback_loop client (callback_max_retries s)
         \<lparr>cp_url = cb_url (callback p), cp_headers = headers, cp_payload = payload\<rparr> 0)))"

section \<open>The redirect\<close>

definition redirect_origin :: "url_parts \<Rightarrow> string \<Rightarrow> nat \<Rightarrow> string" where
  "redirect_origin u host port =
     u_scheme u @ ''://'' @ host @ (if port = 0 then [] else CHR '':'' # nat_digits port)"

definition validate_redirect_url :: "consumer_profile \<Rightarrow> string \<Rightarrow> bool \<Rightarrow> bool" where
  "validate_redirect_url p redirect_url allow_http \<longleftrightarrow>
     (if redirect_url = [] then False
      else (case urlsplit redirect_url of
        None \<Rightarrow> False
      | Some u \<Rightarrow>
          (case url_userinfo u of (username, password) \<Rightarrow>
            if username \<notin> {None, Some []} \<or> password \<notin> {None, Some []} \<or> u_fragment u \<noteq> [] then False
            else if u_scheme u \<noteq> ''https'' \<and> \<not> (allow_http \<and> u_scheme u = ''http'') then False
            else (case url_hostname u of
              None \<Rightarrow> False
            | Some host \<Rightarrow>
                (case url_port_of u of
                   BadPort \<Rightarrow> False
                 | NoPort \<Rightarrow> allows_redirect_origin p (redirect_origin u host 0)
                 | Port n \<Rightarrow> allows_redirect_origin p (redirect_origin u host n))))))"

section \<open>Facts\<close>

definition callback_again :: "callback_outcome \<Rightarrow> bool" where
  "callback_again r = (case r of CbHttpError \<Rightarrow> True | CbOtherError \<Rightarrow> False | CbResponse code _ \<Rightarrow> transient_status code)"

text \<open>What the last outcome turns into.\<close>

definition callback_verdict :: "callback_outcome \<Rightarrow> exn + callback_delivery" where
  "callback_verdict r =
     (if callback_again r then Inl CallbackTransportError
      else (case r of
        CbResponse code body \<Rightarrow>
          (if code < 200 \<or> code \<ge> 300 then Inl (CallbackTerminalError (Some code))
           else (case body of None \<Rightarrow> Inl (CallbackTerminalError None)
             | Some b \<Rightarrow> Inr \<lparr>cd_acknowledged = True, cd_status_code = Some code,
                             cd_redirect_url = body_redirect b, cd_latency_ms = 0\<rparr>))
      | _ \<Rightarrow> Inl LibraryErr))"

definition posted :: "callback_post \<Rightarrow> nat \<Rightarrow> world \<Rightarrow> world" where
  "posted post k w = w\<lparr>outbox := outbox w @ replicate k post\<rparr>"

lemma posted_simps [simp]:
  "length (outbox (posted post k w)) = length (outbox w) + k" "posted post 0 w = w"
  "posted post k (posted post j w) = posted post (j + k) w" "txs (posted post k w) = txs w"
  "clock (posted post k w) = clock w" "file_at (posted post k w) t q = file_at w t q"
  by (simp_all add: posted_def replicate_add)

lemma callback_step:
  "callback_loop client mr post made w =
     (let r = client (length (outbox w)) post; w' = posted post 1 w in
      if callback_again r \<and> made < mr then callback_loop client mr post (made + 1) w'
      else (callback_verdict r, w'))"
  by (subst callback_loop.simps)
     (auto simp: Let_def run_defs post_callback_def callback_again_def callback_verdict_def posted_def
       split: callback_outcome.splits option.splits)

text \<open>
  The calls made are those up to the first outcome that is not transient, at most the number of
  retries more than one; the last outcome decides, and only the outbox changes.
\<close>

lemma callback_loop_spec:
  "\<exists>k. callback_loop client mr post made w = (callback_verdict (client (length (outbox w) + k) post), posted post (Suc k) w)
     \<and> k \<le> nat (mr - made) \<and> (\<forall>i<k. callback_again (client (length (outbox w) + i) post))
     \<and> (callback_again (client (length (outbox w) + k) post) \<longrightarrow> k = nat (mr - made))"
proof (induction "nat (mr - made)" arbitrary: made w)
  case 0
  then show ?case by (intro exI[of _ 0]) (simp add: callback_step[of client mr post made] Let_def)
next
  case (Suc n)
  let ?r = "client (length (outbox w)) post"
  show ?case
  proof (cases "callback_again ?r")
    case False
    then show ?thesis by (intro exI[of _ 0]) (simp add: callback_step[of client mr post made] Let_def)
  next
    case True
    have n: "n = nat (mr - (made + 1))" and lt: "made < mr" using Suc.hyps(2) by auto
    from Suc.hyps(1)[OF n, of "posted post 1 w"] obtain k where
      k: "callback_loop client mr post (made + 1) (posted post 1 w)
            = (callback_verdict (client (length (outbox w) + Suc k) post), posted post (Suc (Suc k)) w)"
        "k \<le> nat (mr - (made + 1))" "\<forall>i<k. callback_again (client (length (outbox w) + Suc i) post)"
        "callback_again (client (length (outbox w) + Suc k) post) \<longrightarrow> k = nat (mr - (made + 1))"
      by auto
    have "\<forall>i<Suc k. callback_again (client (length (outbox w) + i) post)"
      using True k(3) by (auto simp: less_Suc_eq_0_disj)
    with k lt True show ?thesis
      by (intro exI[of _ "Suc k"]) (auto simp: callback_step[of client mr post made] Let_def)
  qed
qed

text \<open>The loop as a bounded retry over the outcomes of the calls: the last outcome and how many calls.\<close>

definition callback_run :: "(nat \<Rightarrow> callback_outcome) \<Rightarrow> nat \<Rightarrow> callback_outcome \<times> nat" where
  "callback_run op n =
     (let calls = length (outbox (snd (callback_loop (\<lambda>k _. op k) (int n)
         \<lparr>cp_url = [], cp_headers = [], cp_payload = []\<rparr> 0 empty_world)))
      in (op (calls - 1), calls))"

interpretation callback_retry: retrying callback_run callback_again
proof
  fix op :: "nat \<Rightarrow> callback_outcome" and n r k
  assume run: "callback_run op n = (r, k)"
  obtain m where m: "k = Suc m" "r = op m" "m \<le> n" "\<forall>i<m. callback_again (op i)" "callback_again (op m) \<longrightarrow> m = n"
    using run callback_loop_spec[of "\<lambda>k _. op k" "int n" "\<lparr>cp_url = [], cp_headers = [], cp_payload = []\<rparr>" 0 empty_world]
    by (auto simp: callback_run_def Let_def empty_world_def)
  show "r = op j \<and> (\<forall>i<j. callback_again (op i))" if "k = Suc j" for j using m that by simp
  show "0 < k \<and> k \<le> Suc n" using m by simp
  show "callback_again r \<Longrightarrow> k = Suc n" using m by simp
qed

text \<open>A successful delivery was acknowledged with a 2xx status.\<close>

lemma verdict_Inr: "callback_verdict r = Inr d \<Longrightarrow> \<exists>code b. r = CbResponse code (Some b) \<and> 200 \<le> code \<and> code < 300
    \<and> cd_redirect_url d = body_redirect b"
  by (auto simp: callback_verdict_def callback_again_def split: callback_outcome.splits if_splits option.splits)

lemma validated_redirect_parts:
  assumes "validate_redirect_url p u allow_http"
  shows "\<exists>parts host port. urlsplit u = Some parts \<and> u_fragment parts = [] \<and> url_hostname parts = Some host
    \<and> (u_scheme parts = ''https'' \<or> allow_http \<and> u_scheme parts = ''http'')
    \<and> set_option (fst (url_userinfo parts)) \<subseteq> {[]} \<and> set_option (snd (url_userinfo parts)) \<subseteq> {[]}
    \<and> redirect_origin parts host port \<in> set (allowed_redirect_origins p)"
  using assms
  by (fastforce simp: validate_redirect_url_def allows_redirect_origin_def split: if_splits option.splits prod.splits url_port.splits)

text \<open>A port of zero is dropped from the origin that is compared.\<close>

lemma port_zero_redirect_accepted:
  "validate_redirect_url ((default_consumer_profile ''acme'')\<lparr>allowed_redirect_origins := [''https://a.b'']\<rparr>)
     ''https://a.b:0/x'' False"
  by (simp add: validate_redirect_url_def allows_redirect_origin_def urlsplit_def partition_at_def rpartition_at_def
      url_userinfo_def url_hostname_def url_hostinfo_def url_port_of_def redirect_origin_def starts_with_def Let_def
      default_consumer_profile_def c0_or_space_def is_alpha_def is_lower_def is_upper_def char_between_def scheme_char_def
      is_alnum_def is_digit_def str_lower_def to_lower_def digits_value_def)

end
