(* ===== verification/Integration_Properties.thy ===== *)
theory Integration_Properties
  imports Transaction_Properties S2S Callback
begin

text \<open>
  The properties of launches, browser sessions, server-to-server authentication, consumer profiles and
  the outbound callback.
\<close>

section \<open>Launches\<close>

text \<open>A launch is created only for an external id the consumer does not use yet, and then leads to a
  new transaction in status LAUNCHED that carries the request; the id is recorded for the consumer, one
  launch token is added, and no other transaction changes. A second request for the same external id is
  refused and changes nothing.\<close>

theorem launch_created:
  assumes "is_valid_external_id (lr_transaction_id req)" and "public_livephoto_base_url s \<noteq> []"
    and "index_read (external_ix w (external_key_hash rt (consumer_id p) (lr_transaction_id req))) \<in> range Inr"
    and "k = external_key_hash rt (consumer_id p) (lr_transaction_id req)"
  shows "wp (create_launch rt s p req)
    (\<lambda>r w'. external_ix w k = None
       \<and> is_valid_transaction_id (l_internal_transaction_id r) \<and> txs w (l_internal_transaction_id r) = None
       \<and> metadata_of w' (l_internal_transaction_id r) =
            Some (transaction_metadata s (l_internal_transaction_id r) p req (status_value LAUNCHED) (clock w))
       \<and> external_ix w' = (external_ix w)(k \<mapsto> Json (JObj
            (external_record (l_internal_transaction_id r) (lr_transaction_id req) (consumer_id p) (clock w))))
       \<and> (\<exists>n. launch_ix w' = (launch_ix w)(sha256_hex rt (opaque_token rt n) \<mapsto>
             Json (JObj (launch_record (l_internal_transaction_id r) (clock w) (launch_token_ttl_seconds s)))))
       \<and> (\<forall>t. t \<noteq> l_internal_transaction_id r \<longrightarrow> txs w' t = txs w t))
    (\<lambda>e w'. txs w' = txs w \<and> external_ix w' = external_ix w \<and> launch_ix w' = launch_ix w
       \<and> (external_ix w k = None \<or> e = TxExistsError \<and> w' = w)) w"
  using create_launch_spec[OF assms(1-3)] unfolding assms(4)
  by (rule wp_mono) (auto simp: Let_def frame_of_def)

definition demo_profile :: consumer_profile where
  "demo_profile = default_consumer_profile ''acme''"

definition demo_request :: launch_request where
  "demo_request = \<lparr>lr_transaction_id = ''T-1'', lr_source = ''acme'', lr_ocr_required = False,
     lr_camera_config = ''1'', lr_white_background = True, lr_output_file_format = ''jpeg'', lr_watermark = []\<rparr>"

definition demo_settings :: settings where
  "demo_settings = default_settings\<lparr>public_livephoto_base_url := ''https://photo.example''\<rparr>"

lemma demo_settings_simps [simp]:
  "public_livephoto_base_url demo_settings = ''https://photo.example''"
  "browser_session_ttl_seconds demo_settings = 1800" "launch_token_ttl_seconds demo_settings = 600"
  by (simp_all add: demo_settings_def default_settings_def)

theorem launch_created_witness:
  "wp (create_launch demo_runtime demo_settings demo_profile demo_request)
    (\<lambda>r w'. is_valid_transaction_id (l_internal_transaction_id r)
       \<and> external_ix w' (external_key_hash demo_runtime ''acme'' ''T-1'') \<noteq> None) (\<lambda>e w'. txs w' = Map.empty) empty_world"
  by (rule wp_mono[OF launch_created[OF _ _ _ refl]])
     (auto simp: demo_request_def demo_profile_def default_consumer_profile_def is_valid_external_id_def
       external_id_char_def is_alnum_def is_digit_def is_upper_def is_lower_def char_between_def empty_world_def)

text \<open>After a reissue exactly one launch token leads to the transaction, the one in the returned URL;
  every token issued before is revoked.\<close>

theorem reissue_revokes_previous:
  assumes "is_valid_external_id e" and "is_valid_transaction_id t"
    and "external_ix w (external_key_hash rt (consumer_id p) e) = Some (Json (JObj m))"
    and "jget m ''internal_transaction_id'' = Some (JStr t)"
    and "public_livephoto_base_url s \<noteq> []" and "launches_listed rt w t"
  shows "wp (reissue_launch rt s p e)
    (\<lambda>r w'. l_internal_transaction_id r = t
        \<and> l_launch_url r = rstrip_if (\<lambda>c. c = CHR ''/'') (public_livephoto_base_url s)
             @ ''/xbiz/live_photo/l/'' @ opaque_token rt (rng w)
        \<and> (\<forall>h ob. launch_ix w' h = Some (Json (JObj ob)) \<and> jget_n ob ''transaction_id'' = JStr t
              \<longleftrightarrow> h = sha256_hex rt (opaque_token rt (rng w))
                \<and> ob = launch_record t (clock w) (launch_token_ttl_seconds s)))
    (\<lambda>_ _. False) w"
  by (rule wp_mono[OF reissue_launch_spec[OF assms]]) auto

definition demo_launched :: world where
  "demo_launched = (demo_world ''LAUNCHED'')\<lparr>external_ix := [external_key_hash demo_runtime ''acme'' ''T-1'' \<mapsto>
     Json (JObj (external_record demo_id ''T-1'' ''acme'' 0))]\<rparr>"

theorem reissue_revokes_previous_witness:
  "wp (reissue_launch demo_runtime demo_settings demo_profile ''T-1'')
    (\<lambda>r _. l_internal_transaction_id r = demo_id) (\<lambda>_ _. False) demo_launched"
proof -
  have "active_launches_of demo_launched demo_id = []"
    by (simp add: active_launches_of_def demo_launched_def demo_world_def file_at_put ACTIVE_LAUNCHES_PATH_def)
       (simp add: file_at_def empty_world_def)
  moreover have "launch_ix demo_launched = Map.empty"
    by (simp add: demo_launched_def demo_world_def empty_world_def)
  ultimately have "launches_listed demo_runtime demo_launched demo_id" by (simp add: launches_listed_def)
  then show ?thesis
    by (intro wp_mono[OF reissue_revokes_previous[where t = demo_id and m = "external_record demo_id ''T-1'' ''acme'' 0"]])
       (auto simp: is_valid_external_id_def external_id_char_def is_alnum_def is_digit_def is_upper_def is_lower_def
         char_between_def demo_launched_def demo_profile_def default_consumer_profile_def external_record_def)
qed

section \<open>Sessions\<close>

text \<open>An unexpired launch token of a transaction that is not over opens an ACTIVE session: the
  session token in the answer resolves to a record of that transaction, and the CSRF token in the answer
  verifies against it.\<close>

theorem launch_token_opens_session:
  assumes "launch_ix w (sha256_hex rt tok) = Some (Json (JObj (launch_record t now ttl)))"
    and "clock w < now + seconds ttl" and "0 < browser_session_ttl_seconds s"
    and "is_valid_transaction_id t" and "metadata_of w t = Some md"
    and "\<not> is_terminal_status (jget_d md ''status'' (JStr (status_value LAUNCHED)))"
    and "tokens_fresh rt" and "hashes_hex rt"
  shows "wp (redeem_launch_token rt s tok)
    (\<lambda>r w'. rr_mode r = RM_ACTIVE \<and> rr_internal_transaction_id r = Some t
       \<and> (\<exists>st ct. rr_session_token r = Some st \<and> rr_csrf_token r = Some ct
          \<and> wp (resolve_browser_session rt st)
              (\<lambda>rec _. \<exists>ob. rec = Some ob \<and> jget_n ob ''transaction_id'' = JStr t \<and> jget_n ob ''mode'' = JStr ''ACTIVE''
                 \<and> wp (verify_csrf rt ob ct) (\<lambda>ok _. ok) (\<lambda>_ _. False) w') (\<lambda>_ _. False) w'))
    (\<lambda>_ _. False) w"
proof -
  let ?st = "opaque_token rt (rng w)" and ?ct = "opaque_token rt (Suc (rng w))"
  let ?w' = "new_session_world rt s t RM_ACTIVE None w"
  let ?e = "clock w + seconds (browser_session_ttl_seconds s)"
  let ?ob = "session_record t RM_ACTIVE JNull (sha256_hex rt ?ct) (clock w) ?e"
  have ix: "session_ix ?w' (sha256_hex rt ?st) = Some (Json (JObj ?ob))" by (simp add: new_session_index)
  have "clock ?w' = clock w" by (simp add: new_session_world_def Let_def)
  then have live: "\<not> ?e \<le> clock ?w'" using assms(3) by (simp add: seconds_def)
  have "?st \<noteq> []" using assms(7) by (simp add: tokens_fresh_def)
  then have resolved: "wp (resolve_browser_session rt ?st) Q E ?w' = Q (Some ?ob) ?w'" for Q E
    by (subst wp_resolve_known[OF ix, where e = ?e]) (simp_all add: live)
  have "wp (verify_csrf rt ?ob ?ct) (\<lambda>ok _. ok) (\<lambda>_ _. False) ?w'"
    using assms(8) by (subst wp_verify_csrf) simp_all
  moreover have "jget_d (launch_record t now ttl) ''expires_at'' (JStr []) = JTime (now + seconds ttl)"
    by (simp add: launch_record_def)
  ultimately show ?thesis
    using assms(2,4,6) resolved
    by (subst wp_redeem_valid[OF assms(1) _ assms(2) _ assms(4,5)]) (simp_all add: wp_create_session)
qed

theorem launch_token_opens_session_witness:
  "wp (redeem_launch_token demo_runtime demo_settings ''tok'') (\<lambda>r _. rr_mode r = RM_ACTIVE) (\<lambda>_ _. False)
     (set_launch (sha256_hex demo_runtime ''tok'') (launch_record demo_id 0 600) (demo_world ''LAUNCHED''))"
proof -
  let ?w = "set_launch (sha256_hex demo_runtime ''tok'') (launch_record demo_id 0 600) (demo_world ''LAUNCHED'')"
  have "metadata_of ?w demo_id = Some [(''transaction_id'', JStr demo_id), (''status'', JStr ''LAUNCHED'')]"
    using demo_metadata[of "''LAUNCHED''"] by (simp add: metadata_of_def)
  moreover have "tokens_fresh demo_runtime"
    by (simp add: tokens_fresh_def demo_runtime_def inj_def)
  moreover have "clock ?w = 0" by (simp add: demo_world_def empty_world_def)
  ultimately show ?thesis
    by (intro wp_mono[OF launch_token_opens_session[where t = demo_id and now = 0 and ttl = 600]])
       (auto simp: seconds_def is_terminal_status_def)
qed

text \<open>The whole session index: every transaction has at most one active session, and no session is the
  active one of two transactions.\<close>

definition sessions_ok :: "runtime \<Rightarrow> world \<Rightarrow> bool" where
  "sessions_ok rt w \<longleftrightarrow> (\<forall>t. sessions_single rt w t)
     \<and> (\<forall>t t' h. active_session_of rt w t = Some h \<longrightarrow> active_session_of rt w t' = Some h \<longrightarrow> t = t')"

text \<open>C12: Opening a session keeps the index consistent: a transaction never has two ACTIVE sessions,
  because the one before is removed. The new token's hash is one that no session uses.\<close>

theorem one_active_session:
  assumes "sessions_ok rt w" and "is_valid_transaction_id t"
    and "session_ix w (sha256_hex rt (opaque_token rt (rng w))) = None"
    and "\<And>t'. active_session_of rt w t' \<noteq> Some (sha256_hex rt (opaque_token rt (rng w)))"
  shows "wp (create_session rt s t mode ts) (\<lambda>_ w'. sessions_ok rt w') (\<lambda>_ _. False) w"
proof -
  have "sessions_single rt (new_session_world rt s t mode ts w) t'" for t'
    using assms(1,3) by (intro create_session_single) (auto simp: sessions_ok_def)
  moreover have "active_session_of rt (new_session_world rt s t mode ts w) a = Some h \<Longrightarrow>
      active_session_of rt (new_session_world rt s t mode ts w) b = Some h \<Longrightarrow> a = b" for a b h
    using assms(1,4) by (auto simp: new_session_active sessions_ok_def split: if_splits)
  ultimately show ?thesis using assms(2) by (simp add: wp_create_session sessions_ok_def) blast
qed

theorem one_active_session_witness:
  "wp (create_session demo_runtime demo_settings demo_id RM_ACTIVE None) (\<lambda>_ w'. sessions_ok demo_runtime w')
     (\<lambda>_ _. False) (demo_world ''LAUNCHED'')"
proof -
  have none: "active_session_of demo_runtime (demo_world ''LAUNCHED'') t = None" for t
    by (simp add: active_session_of_def demo_world_def file_at_put ACTIVE_SESSION_PATH_def)
       (simp add: file_at_def empty_world_def)
  have ix: "session_ix (demo_world ''LAUNCHED'') = Map.empty"
    by (simp add: demo_world_def empty_world_def)
  have "sessions_ok demo_runtime (demo_world ''LAUNCHED'')"
    by (simp add: sessions_ok_def sessions_single_def none ix)
  then show ?thesis by (rule one_active_session) (simp_all add: none ix)
qed



section \<open>Consumers\<close>

text \<open>C26: Whoever authenticates on the server-to-server side is an active consumer of the loaded profiles,
  a source given in the request is the consumer's own id, and in JWT mode the verified token carries one of
  the consumer's client ids.\<close>

theorem s2s_authenticates_active_consumer:
  assumes "authenticate_s2s rt lib s (registry_of ps) ah dh src = Inr p"
  shows "active p \<and> p \<in> set ps \<and> (src = [] \<or> src = consumer_id p)
    \<and> (s2s_auth_mode s = AuthJwt \<longrightarrow> (\<exists>claims client. decode_jwt lib s (str_strip (drop 7 ah)) = Inr claims
         \<and> str_text rt (jget_n claims (s2s_jwt_client_id_claim s)) = Some client \<and> client \<in> set (jwt_client_ids p)))
    \<and> s2s_auth_mode s \<noteq> AuthUnconfigured"
  using authenticate_active[OF assms] authenticate_jwt_claim[OF _ assms] assms
    authenticate_unconfigured[of s rt lib "registry_of ps" ah dh src]
  by (metis Inl_Inr_False)

definition demo_jwt :: jwt_library where
  "demo_jwt = \<lparr>jwks_file = (\<lambda>_. LibOsOrValueError), header_kid = (\<lambda>_. LibJwtError),
     signing_key = (\<lambda>_ _. LibOk ''key''), jwt_decode = (\<lambda>_ _ _ _ _ _. LibOk [(''client_id'', JStr ''c1'')])\<rparr>"

theorem s2s_authenticates_active_consumer_witness:
  "active (demo_profile\<lparr>jwt_client_ids := [''c1'']\<rparr>)
   \<and> authenticate_s2s demo_runtime demo_jwt (demo_settings\<lparr>s2s_auth_mode := AuthJwt\<rparr>)
      (registry_of [demo_profile\<lparr>jwt_client_ids := [''c1'']\<rparr>]) ''bearer x'' [] [] = Inr (demo_profile\<lparr>jwt_client_ids := [''c1'']\<rparr>)"
proof -
  have run: "authenticate_s2s demo_runtime demo_jwt (demo_settings\<lparr>s2s_auth_mode := AuthJwt\<rparr>)
      (registry_of [demo_profile\<lparr>jwt_client_ids := [''c1'']\<rparr>]) ''bearer x'' [] [] = Inr (demo_profile\<lparr>jwt_client_ids := [''c1'']\<rparr>)"
    by (simp add: authenticate_s2s_def decode_jwt_def s2s_jwks_is_local_path_def Let_def demo_settings_def
        default_settings_def demo_jwt_def lib_bind_def sum_bind_def registry_of_def matches_client_id_def demo_profile_def
        default_consumer_profile_def starts_with_def str_lower_def to_lower_def is_upper_def char_between_def)
  then show ?thesis using s2s_authenticates_active_consumer[OF run] by simp
qed

text \<open>Two consumers never share an external key: equal keys mean equal consumer and external id, or a
  SHA-256 collision, as long as consumer ids contain no colon.\<close>

theorem consumers_isolated:
  assumes "CHR '':'' \<notin> set c" and "CHR '':'' \<notin> set c'"
    and "external_key_hash rt c e = external_key_hash rt c' e'"
  shows "c = c' \<and> e = e' \<or> (\<exists>x y. x \<noteq> y \<and> sha_text rt x = sha_text rt y)"
  using assms append_sep_inject[OF assms(1,2), of e e'] by (auto simp: external_key_hash_def sha256_hex_def)

theorem consumers_isolated_witness:
  "''acme'' = ''acme'' \<and> ''T-1'' = ''T-1'' \<or> (\<exists>x y. x \<noteq> y \<and> sha_text demo_runtime x = sha_text demo_runtime y)"
  by (rule consumers_isolated) simp_all

text \<open>A profile that a UAT or production process loads authenticates its callback with a bearer
  secret.\<close>

theorem deployed_callbacks_authenticated:
  assumes "load_consumer_profiles vp f env = Inr ps" and "p \<in> set ps" and "env \<in> {Env_uat, Env_production}"
  shows "cb_auth_type (callback p) = Auth_bearer_env"
  by (rule load_profiles_auth[OF assms])

theorem deployed_callbacks_authenticated_witness:
  "cb_auth_type (callback (demo_profile\<lparr>callback := \<lparr>cb_url = ''u'', cb_auth_type = Auth_bearer_env, cb_secret_env = ''S''\<rparr>\<rparr>))
     = Auth_bearer_env"
  by (rule deployed_callbacks_authenticated[where
      vp = "\<lambda>_. Some (demo_profile\<lparr>callback := \<lparr>cb_url = ''u'', cb_auth_type = Auth_bearer_env, cb_secret_env = ''S''\<rparr>\<rparr>)"
      and f = "Some (Json (JObj [(''consumers'', JArr [JNull])]))" and env = Env_uat])
     (auto simp: load_consumer_profiles_def validate_callback_auth_def)

section \<open>The callback\<close>

definition callback_request :: "consumer_profile \<Rightarrow> (string \<times> string) list \<Rightarrow> obj \<Rightarrow> callback_post" where
  "callback_request p hs payload = \<lparr>cp_url = cb_url (callback p), cp_headers = hs, cp_payload = payload\<rparr>"

text \<open>C19: A callback is delivered by at most one more call than the configured retries, each of them the
  same request with the same idempotency key; another call follows only a transient failure, the last
  answer decides the outcome, and nothing but the outbox changes.\<close>

theorem callback_delivery_bounded:
  assumes "jget payload ''event_id'' = Some (JStr ev)" and "callback_headers env p ev = Inr hs"
    and "post = callback_request p hs payload"
  shows "\<exists>k \<le> nat (callback_max_retries s).
     send_callback rt env client s p payload w = (callback_verdict (client (length (outbox w) + k) post), posted post (Suc k) w)
     \<and> (\<forall>i<k. callback_again (client (length (outbox w) + i) post))
     \<and> map_of hs ''Idempotency-Key'' = Some ev"
proof -
  have "send_callback rt env client s p payload w = callback_loop client (callback_max_retries s) post 0 w"
    using assms by (simp add: send_callback_def run_defs getitem_def callback_request_def Let_def)
  moreover have "map_of hs ''Idempotency-Key'' = Some ev"
    using assms(2) by (auto simp: callback_headers_def IDEMPOTENCY_HEADER_def Let_def split: if_splits)
  ultimately show ?thesis
    using callback_loop_spec[of client "callback_max_retries s" post 0 w] by auto
qed

theorem callback_delivery_bounded_witness:
  "\<exists>k \<le> nat (callback_max_retries demo_settings). fst (send_callback demo_runtime (\<lambda>_. []) (\<lambda>_ _. CbHttpError) demo_settings
      demo_profile [(''event_id'', JStr ''e'')] empty_world) = Inl CallbackTransportError"
proof -
  have "callback_headers (\<lambda>_. []) demo_profile ''e'' = Inr [(''Content-Type'', ''application/json''), (''Idempotency-Key'', ''e'')]"
    by (simp add: callback_headers_def demo_profile_def default_consumer_profile_def default_callback_config_def
        IDEMPOTENCY_HEADER_def Let_def)
  from callback_delivery_bounded[OF _ this refl, where rt = demo_runtime and s = demo_settings and w = empty_world
      and client = "\<lambda>_ _. CbHttpError" and payload = "[(''event_id'', JStr ''e'')]"]
  show ?thesis by (auto simp: callback_verdict_def callback_again_def)
qed

text \<open>A redirect the consumer answers with is accepted only when it has no user information and no
  fragment, an HTTPS scheme (plain HTTP only where the environment allows it), a host, and an origin that
  is literally one of the profile's allowed origins.\<close>

theorem redirect_origin_allowed:
  assumes "validate_redirect_url p u allow_http"
  shows "\<exists>parts host port. urlsplit u = Some parts \<and> u_fragment parts = [] \<and> url_hostname parts = Some host
    \<and> (u_scheme parts = ''https'' \<or> allow_http \<and> u_scheme parts = ''http'')
    \<and> set_option (fst (url_userinfo parts)) \<subseteq> {[]} \<and> set_option (snd (url_userinfo parts)) \<subseteq> {[]}
    \<and> redirect_origin parts host port \<in> set (allowed_redirect_origins p)"
  by (rule validated_redirect_parts[OF assms])

theorem redirect_origin_allowed_witness:
  "\<exists>parts host port. urlsplit ''https://a.b:0/x'' = Some parts \<and> redirect_origin parts host port \<in> {''https://a.b''}"
  using redirect_origin_allowed[OF port_zero_redirect_accepted] by auto

end
