(* ===== verification/Providers.thy ===== *)
theory Providers
  imports Vision
begin

text \<open>
  The vision providers: mock (\<open>mock_provider.py\<close>), Groq, OpenRouter and the self-hosted one on the
  OpenAI-compatible transport, Gemini on its SDK, and the registry that makes them
  (\<open>registry.py\<close>). Frame selection (\<open>app/experiments/vlm/frame_selection.py\<close>) is here too, because
  the service checks its frame counts.
\<close>

record provider_info =
  pi_provider_name :: string
  pi_model_id :: string
  pi_adapter_version :: string

record provider_capabilities =
  max_images_per_request :: int
  max_image_bytes :: int
  max_total_request_bytes :: int
  supports_structured_output :: bool
  supports_inline_images :: bool

record vision_provider =
  pv_info :: provider_info
  pv_capabilities :: provider_capabilities
  pv_evaluate :: "vision_request \<Rightarrow> vision_response M"

definition option_get :: "(string \<times> string) list \<Rightarrow> string \<Rightarrow> string option" where
  "option_get opts k = map_of opts k"

text \<open>\<open>if x\<close> for an optional text: present and not empty.\<close>

definition given :: "string option \<Rightarrow> string option" where
  "given x = (case x of Some [] \<Rightarrow> None | _ \<Rightarrow> x)"

section \<open>Mock\<close>

definition MOCK_MODEL_ID :: string where "MOCK_MODEL_ID = ''mock-vision-v1''"

definition mock_info :: provider_info where
  "mock_info = \<lparr>pi_provider_name = ''mock'', pi_model_id = MOCK_MODEL_ID, pi_adapter_version = ''1.0.0''\<rparr>"

definition mock_capabilities :: provider_capabilities where
  "mock_capabilities = \<lparr>max_images_per_request = 16, max_image_bytes = 50 * 1024 * 1024,
     max_total_request_bytes = 50 * 1024 * 1024, supports_structured_output = True, supports_inline_images = True\<rparr>"

definition mock_row ::
  "vlm_classification \<Rightarrow> attack_medium \<Rightarrow> rat \<Rightarrow> evidence_code list \<Rightarrow> subject_count
    \<Rightarrow> secondary_person_state \<Rightarrow> vlm_assessment" where
  "mock_row c m q es n p =
     \<lparr>va_schema_version = JStr VLM_SCHEMA_VERSION, va_classification = c, va_attack_medium = m,
      va_confidence = Fin q, va_evidence_codes = map (JStr \<circ> evidence_code_value) es,
      va_subject_count = n, va_secondary = p\<rparr>"

definition mock_live :: "subject_count \<Rightarrow> secondary_person_state \<Rightarrow> vlm_assessment" where
  "mock_live n p = mock_row C_LIVE M_NONE (95 / 100) [E_ENVIRONMENT_CONSISTENT_WITH_LIVE] n p"

definition mock_table :: "(string \<times> vlm_assessment) list" where
  "mock_table =
     [(''default'', mock_row C_SCREEN_REPLAY M_UNKNOWN (87 / 100)
         [E_DEVICE_BORDER_VISIBLE, E_DISPLAY_REFLECTION] N_ONE P_NONE),
      (''screen_replay'', mock_row C_SCREEN_REPLAY M_MOBILE_SCREEN (86 / 100)
         [E_DEVICE_BORDER_VISIBLE] N_ONE P_NONE),
      (''live'', mock_live N_ONE P_NONE),
      (''live_multiple'', mock_live N_MULTIPLE P_INTERFERING),
      (''live_multiple_background'', mock_live N_MULTIPLE P_BACKGROUND),
      (''live_multiple_uncertain'', mock_live N_MULTIPLE P_UNCERTAIN),
      (''live_one_background'', mock_live N_ONE P_BACKGROUND),
      (''live_multiple_none'', mock_live N_MULTIPLE P_NONE),
      (''live_uncertain_background'', mock_live N_UNCERTAIN P_BACKGROUND),
      (''live_zero'', mock_live N_ZERO P_NONE),
      (''live_subject_uncertain'', mock_live N_UNCERTAIN P_UNCERTAIN),
      (''print'', mock_row C_PRINT_ATTACK M_PRINT_PHOTO (82 / 100)
         [E_PAPER_TEXTURE, E_PRINT_HALFTONE_PATTERN] N_ONE P_NONE),
      (''uncertain'', mock_row C_UNCERTAIN M_UNKNOWN (4 / 10) [E_INSUFFICIENT_VISUAL_EVIDENCE]
         N_UNCERTAIN P_UNCERTAIN),
      (''quality_failure'', mock_row C_QUALITY_FAILURE M_NONE (9 / 10) [E_INSUFFICIENT_VISUAL_EVIDENCE]
         N_UNCERTAIN P_UNCERTAIN)]"

definition assessment_for :: "string \<Rightarrow> exn + vlm_assessment" where
  "assessment_for behavior = (case map_of mock_table behavior of None \<Rightarrow> Inl KeyErr | Some a \<Rightarrow> Inr a)"

definition bad_override :: exn where
  "bad_override = VlmError PROVIDER_BAD_REQUEST ''invalid mock subject_count/secondary_person_state override''"

definition mock_updates :: "(string \<times> string) list \<Rightarrow> vlm_assessment \<Rightarrow> exn + vlm_assessment" where
  "mock_updates opts a =
     sum_bind (case given (option_get opts ''mock_subject_count'') of
         None \<Rightarrow> Inr a
       | Some v \<Rightarrow> (case enum_parse subject_count_value subject_counts v of
             None \<Rightarrow> Inl bad_override | Some n \<Rightarrow> Inr (a\<lparr>va_subject_count := n\<rparr>))) (\<lambda>a1.
     case given (option_get opts ''mock_secondary_person_state'') of
       None \<Rightarrow> Inr a1
     | Some v \<Rightarrow> (case enum_parse secondary_person_state_value secondary_person_states v of
           None \<Rightarrow> Inl bad_override | Some p \<Rightarrow> Inr (a1\<lparr>va_secondary := p\<rparr>)))"

definition mock_evaluate :: "vision_request \<Rightarrow> vision_response M" where
  "mock_evaluate rq =
     (let opts = vr_provider_options rq;
          behavior = (case given (option_get opts ''mock_behavior'') of None \<Rightarrow> ''default'' | Some b \<Rightarrow> b) in
      if behavior = ''timeout'' then raise (VlmError PROVIDER_TIMEOUT ''mock timeout'')
      else if behavior = ''auth'' then raise (VlmError PROVIDER_AUTH_ERROR ''mock auth failure'')
      else if behavior = ''schema'' then raise (VlmError SCHEMA_VALIDATION_ERROR ''mock invalid schema output'')
      else if behavior = ''response_error''
      then raise (VlmError PROVIDER_RESPONSE_ERROR ''mock malformed response'')
      else
      bnd (lift (assessment_for behavior)) (\<lambda>a0.
      bnd (lift (mock_updates opts a0)) (\<lambda>a.
      ret \<lparr>vp_assessment = a, vp_provider = ''mock'', vp_model = MOCK_MODEL_ID,
           vp_adapter_version = ''1.0.0'', vp_frame_strategy = option_get opts ''frame_strategy'',
           vp_image_count = length (vr_images rq), vp_usage = None,
           vp_request_id = Some (JStr ''mock-request-id'')\<rparr>)))"

definition MockVisionProvider :: vision_provider where
  "MockVisionProvider = \<lparr>pv_info = mock_info, pv_capabilities = mock_capabilities, pv_evaluate = mock_evaluate\<rparr>"

section \<open>OpenAI-compatible providers\<close>

definition GROQ_URL :: string where "GROQ_URL = ''https://api.groq.com/openai/v1/chat/completions''"
definition OPENROUTER_URL :: string where "OPENROUTER_URL = ''https://openrouter.ai/api/v1/chat/completions''"

definition twenty_mib :: int where "twenty_mib = 20 * 1024 * 1024"

definition remote_capabilities :: "int \<Rightarrow> provider_capabilities" where
  "remote_capabilities n = \<lparr>max_images_per_request = n, max_image_bytes = twenty_mib,
     max_total_request_bytes = twenty_mib, supports_structured_output = True, supports_inline_images = True\<rparr>"

definition openai_evaluate_once ::
  "runtime \<Rightarrow> pydantic \<Rightarrow> http_client \<Rightarrow> string \<Rightarrow> string \<Rightarrow> string \<Rightarrow> string \<Rightarrow> vision_request
    \<Rightarrow> vision_response M" where
  "openai_evaluate_once rt pl client url api_key model name rq =
     call_openai_compatible rt pl client url api_key model name
       (option_get (vr_provider_options rq) ''frame_strategy'') rq"

definition GroqVisionProvider ::
  "runtime \<Rightarrow> pydantic \<Rightarrow> http_client \<Rightarrow> string \<Rightarrow> string \<Rightarrow> int \<Rightarrow> vision_provider" where
  "GroqVisionProvider rt pl client api_key model max_retries =
     \<lparr>pv_info = \<lparr>pi_provider_name = ''groq'', pi_model_id = model, pi_adapter_version = ''1.0.0''\<rparr>,
      pv_capabilities = remote_capabilities 8,
      pv_evaluate = (\<lambda>rq. run_with_retries
        (openai_evaluate_once rt pl client GROQ_URL api_key model ''groq'' rq) max_retries)\<rparr>"

definition OpenRouterVisionProvider ::
  "runtime \<Rightarrow> pydantic \<Rightarrow> http_client \<Rightarrow> string \<Rightarrow> string \<Rightarrow> int \<Rightarrow> vision_provider" where
  "OpenRouterVisionProvider rt pl client api_key model max_retries =
     \<lparr>pv_info = \<lparr>pi_provider_name = ''openrouter'', pi_model_id = model, pi_adapter_version = ''1.0.0''\<rparr>,
      pv_capabilities = remote_capabilities 16,
      pv_evaluate = (\<lambda>rq. run_with_retries
        (openai_evaluate_once rt pl client OPENROUTER_URL api_key model ''openrouter'' rq) max_retries)\<rparr>"

definition chat_url :: "string \<Rightarrow> string" where
  "chat_url base_url = rstrip_if (\<lambda>c. c = CHR ''/'') base_url @ ''/chat/completions''"

definition LocalVisionProvider ::
  "runtime \<Rightarrow> pydantic \<Rightarrow> http_client \<Rightarrow> string \<Rightarrow> string \<Rightarrow> string \<Rightarrow> int \<Rightarrow> int \<Rightarrow> vision_provider" where
  "LocalVisionProvider rt pl client base_url model api_key max_images max_retries =
     \<lparr>pv_info = \<lparr>pi_provider_name = ''local'', pi_model_id = model, pi_adapter_version = ''1.0.0''\<rparr>,
      pv_capabilities = remote_capabilities max_images,
      pv_evaluate = (\<lambda>rq. run_with_retries
        (openai_evaluate_once rt pl client (chat_url base_url) api_key model ''local'' rq) max_retries)\<rparr>"

section \<open>Gemini\<close>

text \<open>
  The response schema handed to the SDK: its properties and the enumerations of three of them, and the
  required ones.
\<close>

definition gemini_schema_properties :: "string list" where
  "gemini_schema_properties = [''schema_version'', ''classification'', ''attack_medium'',
     ''self_reported_confidence'', ''evidence_codes'']"

definition gemini_schema_required :: "string list" where
  "gemini_schema_required = [''classification'', ''attack_medium'', ''self_reported_confidence'', ''evidence_codes'']"

text \<open>
  What the SDK gives for the call with that number: the text of the response ([] for none) with its
  usage counters, or an exception with the status it carries.
\<close>

record gemini_call =
  gc_model :: string
  gc_parts :: "json list"
  gc_temperature :: rat

datatype gemini_outcome = GeminiText string "token_usage option" | GeminiRaised "int option" string

type_synonym gemini_client = "nat \<Rightarrow> gemini_call \<Rightarrow> gemini_outcome"

definition RETRYABLE_STATUS_CODES :: "int list" where
  "RETRYABLE_STATUS_CODES = [429, 408, 500, 502, 503, 504]"

definition map_gemini_error :: "int option \<Rightarrow> string \<Rightarrow> exn" where
  "map_gemini_error status message =
     (case status of
        Some n \<Rightarrow>
          (if n \<in> {401, 403} then VlmError PROVIDER_AUTH_ERROR ''gemini authentication failed''
           else if n = 429 then VlmError PROVIDER_RATE_LIMITED ''gemini rate limited''
           else if n \<in> set RETRYABLE_STATUS_CODES then VlmError PROVIDER_UNAVAILABLE ''gemini unavailable''
           else if 400 \<le> n \<and> n < 500 then VlmError PROVIDER_BAD_REQUEST ''gemini rejected the request''
           else VlmError UNKNOWN_PROVIDER_ERROR message)
      | None \<Rightarrow> VlmError UNKNOWN_PROVIDER_ERROR message)"

definition gemini_request :: "string \<Rightarrow> vision_request \<Rightarrow> gemini_call" where
  "gemini_request model rq =
     \<lparr>gc_model = model,
      gc_parts = map (\<lambda>im. JObj [(''mime_type'', JStr (im_mime_type im)),
                       (''data'', JStr (b64encode (im_bytes im)))]) (vr_images rq)
                 @ [JObj [(''text'', JStr USER_PROMPT)]],
      gc_temperature = vr_temperature rq\<rparr>"

definition gemini_evaluate_once ::
  "runtime \<Rightarrow> pydantic \<Rightarrow> gemini_client \<Rightarrow> string \<Rightarrow> vision_request \<Rightarrow> vision_response M" where
  "gemini_evaluate_once rt pl client model rq =
     bnd (gets (\<lambda>w. length (vlm_calls w))) (\<lambda>n.
     andthen (modify (\<lambda>w. w\<lparr>vlm_calls := vlm_calls w @ [''gemini'']\<rparr>))
     (case client n (gemini_request model rq) of
        GeminiRaised status message \<Rightarrow> raise (map_gemini_error status message)
      | GeminiText t usage \<Rightarrow>
          (let text = str_strip t in
           if text = [] then raise (VlmError PROVIDER_RESPONSE_ERROR ''empty gemini response'')
           else bnd (lift (parse_assessment rt pl text)) (\<lambda>assessment.
             ret \<lparr>vp_assessment = assessment, vp_provider = ''gemini'', vp_model = model,
                  vp_adapter_version = ''1.0.0'',
                  vp_frame_strategy = option_get (vr_provider_options rq) ''frame_strategy'',
                  vp_image_count = length (vr_images rq), vp_usage = usage, vp_request_id = None\<rparr>))))"

definition GeminiVisionProvider ::
  "runtime \<Rightarrow> pydantic \<Rightarrow> gemini_client \<Rightarrow> string \<Rightarrow> int \<Rightarrow> vision_provider" where
  "GeminiVisionProvider rt pl client model max_retries =
     \<lparr>pv_info = \<lparr>pi_provider_name = ''gemini'', pi_model_id = model, pi_adapter_version = ''1.0.0''\<rparr>,
      pv_capabilities = remote_capabilities 16,
      pv_evaluate = (\<lambda>rq. run_with_retries (gemini_evaluate_once rt pl client model rq) max_retries)\<rparr>"

end
