(* ===== verification/Vlm_Service.thy ===== *)
theory Vlm_Service
  imports Providers
begin

text \<open>
  The provider registry (\<open>app/providers/vision/registry.py\<close>), frame selection
  (\<open>app/experiments/vlm/frame_selection.py\<close>) and the evaluation service
  (\<open>app/experiments/vlm/service.py\<close>).
\<close>

section \<open>Registry\<close>

record provider_libraries =
  pl_pydantic :: pydantic
  pl_groq :: http_client
  pl_openrouter :: http_client
  pl_local :: http_client
  pl_gemini :: gemini_client

definition quoted :: "string \<Rightarrow> string" where "quoted s = CHR 0x27 # s @ [CHR 0x27]"

definition vlm_not_configured :: "string \<Rightarrow> exn" where
  "vlm_not_configured provider =
     VlmError PROVIDER_NOT_CONFIGURED (''provider '' @ quoted provider @ '' is not configured'')"

definition get_vision_provider ::
  "runtime \<Rightarrow> provider_libraries \<Rightarrow> settings \<Rightarrow> string \<Rightarrow> exn + vision_provider" where
  "get_vision_provider rt libs s name =
     (let provider = str_lower name; pl = pl_pydantic libs in
      if provider = ''mock'' then Inr MockVisionProvider
      else if provider = ''gemini'' then
        (if gemini_api_key s = [] \<or> gemini_model s = [] then Inl (vlm_not_configured ''gemini'')
         else Inr (GeminiVisionProvider rt pl (pl_gemini libs) (gemini_model s) (vlm_max_retries s)))
      else if provider = ''groq'' then
        (if groq_api_key s = [] \<or> groq_model s = [] then Inl (vlm_not_configured ''groq'')
         else Inr (GroqVisionProvider rt pl (pl_groq libs) (groq_api_key s) (groq_model s) (vlm_max_retries s)))
      else if provider = ''openrouter'' then
        (if openrouter_api_key s = [] \<or> openrouter_model s = [] then Inl (vlm_not_configured ''openrouter'')
         else Inr (OpenRouterVisionProvider rt pl (pl_openrouter libs) (openrouter_api_key s)
                     (openrouter_model s) (vlm_max_retries s)))
      else if provider = ''local'' then
        (if \<not> local_vlm_configured s then Inl (vlm_not_configured ''local'')
         else Inr (LocalVisionProvider rt pl (pl_local libs) (local_vlm_base_url s) (local_vlm_model s)
                     (local_vlm_api_key s) (local_vlm_max_images s) (vlm_max_retries s)))
      else Inl (VlmError UNKNOWN_PROVIDER_ERROR (''unknown VLM provider '' @ quoted name)))"

definition available_providers :: "settings \<Rightarrow> string list" where
  "available_providers s =
     (if app_env s \<notin> {Env_uat, Env_production} then
        (if gemini_api_key s \<noteq> [] \<and> gemini_model s \<noteq> [] then [''gemini''] else [])
        @ (if groq_api_key s \<noteq> [] \<and> groq_model s \<noteq> [] then [''groq''] else [])
        @ (if openrouter_api_key s \<noteq> [] \<and> openrouter_model s \<noteq> [] then [''openrouter''] else [])
      else [])
     @ (if app_env s \<noteq> Env_production \<and> local_vlm_configured s then [''local''] else [])
     @ (if app_env s \<in> {Env_local, Env_test, Env_development} then [''mock''] else [])"

section \<open>Frame selection\<close>

definition FRAME_STRATEGIES :: "(string \<times> nat) list" where
  "FRAME_STRATEGIES = [(''single-quality-v1'', 1), (''temporal-triad-v1'', 3)]"

definition is_supported_strategy :: "string \<Rightarrow> bool" where
  "is_supported_strategy strategy \<longleftrightarrow> map_of FRAME_STRATEGIES strategy \<noteq> None"

definition expected_frame_count :: "string \<Rightarrow> exn + nat" where
  "expected_frame_count strategy = (case map_of FRAME_STRATEGIES strategy of
     None \<Rightarrow> Inl KeyErr | Some n \<Rightarrow> Inr n)"

definition select_single_frame :: "'a list \<Rightarrow> 'a list" where
  "select_single_frame items = (if items = [] then [] else [items ! (length items div 2)])"

text \<open>
  \<open>round(k / 4)\<close> for the integers the targets give: halves go to the even neighbour. The products
  \<open>0.25 * (n - 1)\<close>, \<open>0.5 * (n - 1)\<close> and \<open>0.75 * (n - 1)\<close> are exact in binary64 for every list length.
\<close>

definition round_quarters :: "nat \<Rightarrow> nat" where
  "round_quarters k =
     (let q = k div 4; r = k mod 4
      in if r < 2 then q else if r = 3 then Suc q else if even q then q else Suc q)"

text \<open>\<open>while index in used: index = min(n - 1, index + 1)\<close>, which need not end in general.\<close>

partial_function (option) next_unused :: "nat \<Rightarrow> nat list \<Rightarrow> nat \<Rightarrow> nat option" where
  "next_unused n used index =
     (if index \<in> set used then next_unused n used (min (n - 1) (index + 1)) else Some index)"

fun pick_targets :: "nat \<Rightarrow> nat list \<Rightarrow> nat list \<Rightarrow> nat list option" where
  "pick_targets n used [] = Some used"
| "pick_targets n used (t # ts) =
     Option.bind (next_unused n used (round_quarters (t * (n - 1)))) (\<lambda>i. pick_targets n (i # used) ts)"

definition select_temporal_triad :: "'a list \<Rightarrow> 'a list option" where
  "select_temporal_triad items =
     (let n = length items in
      if n = 0 then Some []
      else if n < 3 then Some items
      else map_option (\<lambda>used. map (\<lambda>i. items ! i) (sort used)) (pick_targets n [] [1, 2, 3]))"

section \<open>Service\<close>

record experiment_request =
  er_strategy :: string
  er_provider :: string
  er_mock_behavior :: string
  er_frames :: "image_input list"

record experiment_result =
  xr_provider :: string
  xr_model :: string
  xr_prompt_version :: string
  xr_schema_version :: string
  xr_frame_strategy :: string
  xr_image_count :: nat
  xr_experiment_id :: string
  xr_classification :: "vlm_classification option"
  xr_attack_medium :: "attack_medium option"
  xr_confidence :: "pyfloat option"
  xr_evidence_codes :: "json list"
  xr_subject_count :: "subject_count option"
  xr_secondary :: "secondary_person_state option"
  xr_error :: "vlm_error_code option"

definition ensure_available :: "settings \<Rightarrow> exn + unit" where
  "ensure_available s =
     (if \<not> vlm_experiment_available s then Inl (VlmError VLM_DISABLED ''VLM experiment is not enabled'')
      else Inr ())"

definition validate_strategy :: "string \<Rightarrow> nat \<Rightarrow> exn + unit" where
  "validate_strategy strategy count =
     sum_bind (expected_frame_count strategy) (\<lambda>expected.
       if count \<noteq> expected then Inl (VlmError PROVIDER_BAD_REQUEST (''strategy '' @ quoted strategy @ '' requires ''
         @ nat_digits expected @ '' frame(s), got '' @ nat_digits count)) else Inr ())"

fun check_sizes :: "int \<Rightarrow> int \<Rightarrow> image_input list \<Rightarrow> exn + int" where
  "check_sizes max_image bytes_so_far [] = Inr bytes_so_far"
| "check_sizes max_image bytes_so_far (im # ims) =
     (if int (length (im_bytes im)) > max_image
      then Inl (VlmError REQUEST_TOO_LARGE ''single image exceeds the limit'')
      else check_sizes max_image (bytes_so_far + int (length (im_bytes im))) ims)"

definition check_capabilities :: "settings \<Rightarrow> vision_provider \<Rightarrow> image_input list \<Rightarrow> exn + unit" where
  "check_capabilities s p frames =
     (let caps = pv_capabilities p in
      if int (length frames) > min (max_images_per_request caps) (vlm_max_frames s)
      then Inl (VlmError TOO_MANY_IMAGES ''too many images for this provider/request'')
      else sum_bind (check_sizes (min (max_image_bytes caps) (vlm_max_single_image_bytes s)) 0 frames) (\<lambda>bytes_so_far.
        if bytes_so_far > min (max_total_request_bytes caps) (vlm_max_total_image_bytes s)
        then Inl (VlmError REQUEST_TOO_LARGE ''total image bytes exceed the limit'')
        else Inr ()))"

definition experiment_vision_request :: "experiment_request \<Rightarrow> vision_request" where
  "experiment_vision_request rq =
     \<lparr>vr_images = er_frames rq, vr_prompt_id = PROMPT_ID, vr_prompt_version = PROMPT_VERSION,
      vr_schema_version = VLM_SCHEMA_VERSION, vr_temperature = 0,
      vr_provider_options = [(''frame_strategy'', er_strategy rq), (''mock_behavior'', er_mock_behavior rq)]\<rparr>"

definition experiment_error :: "experiment_request \<Rightarrow> vision_provider \<Rightarrow> string \<Rightarrow> vlm_error_code \<Rightarrow> experiment_result" where
  "experiment_error rq p experiment_id code =
     \<lparr>xr_provider = er_provider rq, xr_model = pi_model_id (pv_info p), xr_prompt_version = PROMPT_VERSION,
      xr_schema_version = VLM_SCHEMA_VERSION, xr_frame_strategy = er_strategy rq,
      xr_image_count = length (er_frames rq), xr_experiment_id = experiment_id, xr_classification = None,
      xr_attack_medium = None, xr_confidence = None, xr_evidence_codes = [], xr_subject_count = None,
      xr_secondary = None, xr_error = Some code\<rparr>"

definition experiment_success :: "experiment_request \<Rightarrow> vision_provider \<Rightarrow> string \<Rightarrow> vlm_assessment \<Rightarrow> experiment_result" where
  "experiment_success rq p experiment_id a =
     \<lparr>xr_provider = er_provider rq, xr_model = pi_model_id (pv_info p), xr_prompt_version = PROMPT_VERSION,
      xr_schema_version = VLM_SCHEMA_VERSION, xr_frame_strategy = er_strategy rq,
      xr_image_count = length (er_frames rq), xr_experiment_id = experiment_id,
      xr_classification = Some (va_classification a), xr_attack_medium = Some (va_attack_medium a),
      xr_confidence = Some (va_confidence a), xr_evidence_codes = va_evidence_codes a,
      xr_subject_count = Some (va_subject_count a), xr_secondary = Some (va_secondary a), xr_error = None\<rparr>"

text \<open>The factory is an argument, as the constructor's; the log records are in Vlm_Logs.\<close>

definition service_evaluate ::
  "runtime \<Rightarrow> (settings \<Rightarrow> string \<Rightarrow> exn + vision_provider) \<Rightarrow> settings \<Rightarrow> experiment_request
    \<Rightarrow> experiment_result M" where
  "service_evaluate rt provider_factory s rq =
     bnd (lift (ensure_available s)) (\<lambda>_.
     bnd (lift (validate_strategy (er_strategy rq) (length (er_frames rq)))) (\<lambda>_.
     bnd (draw_token rt) (\<lambda>experiment_id.
     bnd (lift (provider_factory s (er_provider rq))) (\<lambda>p.
     bnd (lift (check_capabilities s p (er_frames rq))) (\<lambda>_.
     catch
       (bnd (pv_evaluate p (experiment_vision_request rq)) (\<lambda>response.
        let a = vp_assessment response in
        andthen (record_vlm_evaluation (er_provider rq) (vlm_classification_value (va_classification a)) None)
        (ret (experiment_success rq p experiment_id a))))
       (\<lambda>e. case e of
          VlmError code _ \<Rightarrow>
            andthen (record_vlm_evaluation (er_provider rq) ''error'' (Some (vlm_error_value code)))
            (ret (experiment_error rq p experiment_id code))
        | _ \<Rightarrow> raise e))))))"

section \<open>Facts\<close>

text \<open>Where no external provider may run, none is listed: only the self-hosted one under UAT.\<close>

lemma available_deployed:
  assumes "app_env s = Env_uat \<or> app_env s = Env_production"
  shows "set (available_providers s) \<subseteq> (if app_env s = Env_uat then {''local''} else {})"
  using assms by (auto simp: available_providers_def)

lemma available_constructible:
  assumes "name \<in> set (available_providers s)"
  shows "\<exists>p. get_vision_provider rt libs s name = Inr p \<and> pi_provider_name (pv_info p) = name"
proof -
  have low: "str_lower x = x" if "x \<in> {''gemini'', ''groq'', ''openrouter'', ''local'', ''mock''}" for x :: string
    using that by (auto simp: str_lower_def to_lower_def is_upper_def char_between_def)
  consider (gemini) "name = ''gemini''" "gemini_api_key s \<noteq> []" "gemini_model s \<noteq> []"
    | (groq) "name = ''groq''" "groq_api_key s \<noteq> []" "groq_model s \<noteq> []"
    | (openrouter) "name = ''openrouter''" "openrouter_api_key s \<noteq> []" "openrouter_model s \<noteq> []"
    | (local) "name = ''local''" "local_vlm_configured s" | (mock) "name = ''mock''"
    using assms by (auto simp: available_providers_def split: if_splits)
  then show ?thesis
    by cases (simp_all add: get_vision_provider_def Let_def low GeminiVisionProvider_def GroqVisionProvider_def
      OpenRouterVisionProvider_def LocalVisionProvider_def MockVisionProvider_def mock_info_def)
qed

lemma check_sizes_Inr:
  "check_sizes m acc ims = Inr n \<Longrightarrow>
     (\<forall>im \<in> set ims. int (length (im_bytes im)) \<le> m) \<and> n = acc + (\<Sum>im\<leftarrow>ims. int (length (im_bytes im)))"
  by (induction m acc ims rule: check_sizes.induct) (auto split: if_splits)

text \<open>What the capability check lets through is within the limits of the provider and of the settings.\<close>

lemma check_capabilities_ok:
  assumes "check_capabilities s p frames = Inr ()"
  defines "c \<equiv> pv_capabilities p"
  shows "int (length frames) \<le> max_images_per_request c \<and> int (length frames) \<le> vlm_max_frames s
    \<and> (\<forall>im \<in> set frames. int (length (im_bytes im)) \<le> max_image_bytes c
         \<and> int (length (im_bytes im)) \<le> vlm_max_single_image_bytes s)
    \<and> (\<Sum>im\<leftarrow>frames. int (length (im_bytes im))) \<le> max_total_request_bytes c
    \<and> (\<Sum>im\<leftarrow>frames. int (length (im_bytes im))) \<le> vlm_max_total_image_bytes s"
  using assms(1) unfolding check_capabilities_def Let_def c_def sum_bind_def
  by (auto split: if_splits sum.splits dest: check_sizes_Inr)

section \<open>The triad\<close>

lemma round_quarters_bounds: "4 * round_quarters k \<le> k + 2" "k \<le> 4 * round_quarters k + 2"
proof -
  obtain q r where k: "k = 4 * q + r" "r < 4" and qr: "k div 4 = q" "k mod 4 = r"
    by (metis mod_less_divisor mult_div_mod_eq zero_less_numeral)
  show "4 * round_quarters k \<le> k + 2" "k \<le> 4 * round_quarters k + 2"
    using k unfolding round_quarters_def Let_def qr by auto
qed

lemma next_unused_free: "index \<notin> set used \<Longrightarrow> next_unused n used index = Some index"
  by (simp add: next_unused.simps)

text \<open>
  With at least three frames the search ends and picks three positions of the list in increasing
  order, so three different frames in chronological order.
\<close>

lemma triad_indices:
  assumes "3 \<le> n"
  shows "\<exists>a b c. a < b \<and> b < c \<and> c < n \<and> pick_targets n [] [1, 2, 3] = Some [c, b, a]"
proof -
  define m where "m = n - 1"
  have n: "n = Suc m" and m: "2 \<le> m" using assms by (simp_all add: m_def)
  consider "m = 2" | "m = 3" | "m = 4" | "5 \<le> m" using m by linarith
  then show ?thesis
  proof cases
    case 4
    define a b c where "a = round_quarters m" and "b = round_quarters (2 * m)" and "c = round_quarters (3 * m)"
    have "a < b" "b < c" "c \<le> m"
      using 4 round_quarters_bounds[of m] round_quarters_bounds[of "2 * m"] round_quarters_bounds[of "3 * m"]
      unfolding a_def b_def c_def by linarith+
    then show ?thesis
      by (auto simp: n next_unused_free a_def[symmetric] b_def[symmetric] c_def[symmetric])
  qed (simp_all add: n numeral_3_eq_3[symmetric] round_quarters_def Let_def next_unused.simps)
qed

end
