(* ===== verification/Vision_Properties.thy ===== *)
theory Vision_Properties
  imports Integration_Properties Vlm_Service
begin

text \<open>
  The properties of the vision providers: the strict parser, the retries, the registry, the limits, the
  frame selection and the Base64 text of an image.
\<close>

section \<open>The parser\<close>

definition demo_pydantic :: pydantic where
  "demo_pydantic = \<lparr>unit_float = (\<lambda>j. if j = JInt 1 then Some (Fin 1) else None), lax_int = (\<lambda>_. None)\<rparr>"

definition demo_answer :: obj where
  "demo_answer = [(''classification'', JStr ''LIVE''), (''self_reported_confidence'', JInt 1),
     (''subject_count'', JStr ''ONE''), (''secondary_person_state'', JStr ''NONE'')]"

definition demo_parsing_runtime :: runtime where
  "demo_parsing_runtime = demo_runtime\<lparr>json_loads := (\<lambda>_. Some (JObj demo_answer))\<rparr>"

definition demo_assessment :: vlm_assessment where
  "demo_assessment = \<lparr>va_schema_version = JStr VLM_SCHEMA_VERSION, va_classification = C_LIVE,
     va_attack_medium = M_NONE, va_confidence = Fin 1, va_evidence_codes = [], va_subject_count = N_ONE,
     va_secondary = P_NONE\<rparr>"

lemma demo_answer_parses: "parse_assessment demo_parsing_runtime demo_pydantic [] = Inr demo_assessment"
  by (simp add: parse_assessment_def demo_parsing_runtime_def validate_assessment_def demo_answer_def
      assessment_fields_def enum_field_def enum_parse_def vlm_classifications_def attack_media_def subject_counts_def
      secondary_person_states_def demo_pydantic_def demo_assessment_def jget_d_def)

text \<open>C16: The parser never guesses: an assessment comes from a JSON object with no field but the known
  ones, whose classification, subject count and secondary-person state are literally the values of the
  assessment, with at most 20 evidence codes; every other answer of a provider is a schema error.\<close>

theorem parser_strict:
  "case parse_assessment rt pl text of
     Inl e \<Rightarrow> e = VlmError SCHEMA_VALIDATION_ERROR ''provider output did not match schema''
   | Inr a \<Rightarrow> \<exists>ob. json_loads rt (strip_fence text) = Some (JObj ob) \<and> set (map fst ob) \<subseteq> set assessment_fields
       \<and> jget ob ''classification'' = Some (JStr (vlm_classification_value (va_classification a)))
       \<and> jget ob ''subject_count'' = Some (JStr (subject_count_value (va_subject_count a)))
       \<and> jget ob ''secondary_person_state'' = Some (JStr (secondary_person_state_value (va_secondary a)))
       \<and> length (va_evidence_codes a) \<le> 20"
proof (cases "parse_assessment rt pl text")
  case (Inl e)
  then show ?thesis using parse_assessment_Inl[OF Inl] by (simp add: schema_error_def)
next
  case (Inr a)
  then obtain ob where l: "json_loads rt (strip_fence text) = Some (JObj ob)" and v: "validate_assessment pl ob = Some a"
    by (auto simp: parse_assessment_Inr)
  show ?thesis unfolding Inr sum.case using l validate_assessment_fields[OF v] by blast
qed

text \<open>C18: No answer that follows the response schema given to Gemini is accepted: the schema knows no
  subject count and no secondary-person state, which the parser requires.\<close>

theorem gemini_schema_never_validates:
  assumes "set (map fst ob) \<subseteq> set gemini_schema_properties"
  shows "validate_assessment pl ob = None"
proof (rule ccontr)
  assume "validate_assessment pl ob \<noteq> None"
  then obtain a where "validate_assessment pl ob = Some a" by blast
  then have "(''subject_count'', JStr (subject_count_value (va_subject_count a))) \<in> set ob"
    using validate_assessment_fields map_of_SomeD by metis
  then have "''subject_count'' \<in> set gemini_schema_properties" using assms by force
  then show False by (simp add: gemini_schema_properties_def)
qed

theorem gemini_schema_never_validates_witness:
  "validate_assessment demo_pydantic [(''classification'', JStr ''LIVE''), (''self_reported_confidence'', JInt 1)] = None"
  by (rule gemini_schema_never_validates) (simp add: gemini_schema_properties_def)

section \<open>Retries\<close>

text \<open>C17: A provider is called at most once more than the configured retries; every call but the last
  failed with a retryable error, the result is that of the last call, and a retryable error is returned
  only after all calls were made.\<close>

theorem provider_retries_bounded:
  assumes "retry_run op n = (r, k)"
  shows "0 < k \<and> k \<le> Suc n \<and> r = op (k - 1) \<and> (\<forall>i. i < k - 1 \<longrightarrow> retry_again (op i)) \<and> (retry_again r \<longrightarrow> k = Suc n)"
proof -
  obtain j where j: "k = Suc j" using provider_retry.run_calls[OF assms] by (cases k) auto
  note stops = provider_retry.run_stops[OF assms j] and calls = provider_retry.run_calls[OF assms]
  show ?thesis
  proof (intro conjI)
    show "r = op (k - 1)" "\<forall>i. i < k - 1 \<longrightarrow> retry_again (op i)"
      using stops unfolding j diff_Suc_1 by simp_all
    show "retry_again r \<longrightarrow> k = Suc n" by (rule impI) (rule provider_retry.run_exhausts[OF assms])
  qed (use calls in simp_all)
qed

theorem provider_retries_bounded_witness:
  "\<exists>r k. retry_run (\<lambda>i. if i = 0 then Inl (VlmError PROVIDER_TIMEOUT []) else Inr i) 1 = (r, k) \<and> 0 < k \<and> k \<le> 2"
proof -
  obtain r k where rk: "retry_run (\<lambda>i. if i = 0 then Inl (VlmError PROVIDER_TIMEOUT []) else Inr i) 1 = (r, k)" by fastforce
  note bounds = provider_retries_bounded[OF rk]
  have "0 < k" by (rule bounds[THEN conjunct1])
  moreover have "k \<le> 2" using bounds[THEN conjunct2, THEN conjunct1] by simp
  ultimately show ?thesis using rk by blast
qed

section \<open>Registry and limits\<close>

text \<open>UAT offers no provider but the self-hosted one and production offers none; every provider offered
  can be constructed and carries the name it is offered under.\<close>

theorem offered_providers:
  "(app_env s = Env_production \<longrightarrow> available_providers s = [])
   \<and> (app_env s = Env_uat \<longrightarrow> set (available_providers s) \<subseteq> {''local''})
   \<and> (\<forall>name \<in> set (available_providers s).
        \<exists>p. get_vision_provider rt libs s name = Inr p \<and> pi_provider_name (pv_info p) = name)"
  using available_deployed[of s] available_constructible by (auto split: if_splits)

definition demo_libraries :: provider_libraries where
  "demo_libraries = \<lparr>pl_pydantic = demo_pydantic, pl_groq = (\<lambda>_ _ _ _. Inl TimeoutException),
     pl_openrouter = (\<lambda>_ _ _ _. Inl TimeoutException), pl_local = (\<lambda>_ _ _ _. Inl TimeoutException),
     pl_gemini = (\<lambda>_ _. GeminiRaised None [])\<rparr>"

theorem offered_providers_witness:
  "''mock'' \<in> set (available_providers default_settings)
   \<and> (\<exists>p. get_vision_provider demo_runtime demo_libraries default_settings ''mock'' = Inr p
        \<and> pi_provider_name (pv_info p) = ''mock'')"
proof -
  have "''mock'' \<in> set (available_providers default_settings)"
    by (simp add: available_providers_def default_settings_def)
  then show ?thesis using offered_providers by blast
qed

text \<open>What passes the capability check is within the provider's and the settings' limits on the number
  of images, on each image and on their sum.\<close>

theorem capability_limits_hold:
  assumes "check_capabilities s p frames = Inr ()"
  shows "int (length frames) \<le> min (max_images_per_request (pv_capabilities p)) (vlm_max_frames s)
    \<and> (\<forall>im \<in> set frames. int (length (im_bytes im)) \<le> min (max_image_bytes (pv_capabilities p)) (vlm_max_single_image_bytes s))
    \<and> (\<Sum>im\<leftarrow>frames. int (length (im_bytes im))) \<le> min (max_total_request_bytes (pv_capabilities p)) (vlm_max_total_image_bytes s)"
  using check_capabilities_ok[OF assms] by auto

theorem capability_limits_hold_witness:
  "int (length [\<lparr>im_bytes = [0], im_mime_type = [], im_sequence = None\<rparr>])
     \<le> min (max_images_per_request (pv_capabilities MockVisionProvider)) (vlm_max_frames default_settings)"
proof -
  have "check_capabilities default_settings MockVisionProvider [\<lparr>im_bytes = [0], im_mime_type = [], im_sequence = None\<rparr>] = Inr ()"
    by (simp add: check_capabilities_def MockVisionProvider_def mock_capabilities_def default_settings_def Let_def sum_bind_def)
  from capability_limits_hold[OF this] show ?thesis by blast
qed

text \<open>The frame selection of the temporal strategy ends, and from three frames or more it takes three
  of them, in their order.\<close>

theorem temporal_triad_selects_three:
  assumes "3 \<le> length items"
  shows "\<exists>a b c. a < b \<and> b < c \<and> c < length items
    \<and> select_temporal_triad items = Some [items ! a, items ! b, items ! c]"
proof -
  obtain a b c where abc: "a < b" "b < c" "c < length items" "pick_targets (length items) [] [1, 2, 3] = Some [c, b, a]"
    using triad_indices[OF assms] by blast
  then have "sort [c, b, a] = [a, b, c]" by simp
  with abc assms have "select_temporal_triad items = Some [items ! a, items ! b, items ! c]"
    by (auto simp: select_temporal_triad_def Let_def)
  with abc show ?thesis by blast
qed

theorem temporal_triad_selects_three_witness:
  "\<exists>xs. select_temporal_triad ''abcde'' = Some xs \<and> length xs = 3"
  using temporal_triad_selects_three[of "''abcde''"] by fastforce

section \<open>Base64\<close>

definition b64_value :: "char \<Rightarrow> nat" where
  "b64_value c = length (takeWhile (\<lambda>d. d \<noteq> c) ''ABCDEFGHIJKLMNOPQRSTUVWXYZabcdefghijklmnopqrstuvwxyz0123456789+/'')"

text \<open>The standard decoding of a padded Base64 text.\<close>

fun b64decode :: "string \<Rightarrow> bytes" where
  "b64decode (a # b # c # d # cs) =
     (let n = ((b64_value a * 64 + b64_value b) * 64 + (if c = CHR ''='' then 0 else b64_value c)) * 64
              + (if d = CHR ''='' then 0 else b64_value d) in
      (if c = CHR ''='' then [of_nat (n div 65536)]
       else if d = CHR ''='' then [of_nat (n div 65536), of_nat (n div 256 mod 256)]
       else [of_nat (n div 65536), of_nat (n div 256 mod 256), of_nat (n mod 256)]) @ b64decode cs)"
| "b64decode _ = []"

lemma index_of_nth: "distinct xs \<Longrightarrow> n < length xs \<Longrightarrow> length (takeWhile (\<lambda>d. d \<noteq> xs ! n) xs) = n"
proof (induction xs arbitrary: n)
  case (Cons x xs)
  then show ?case by (cases n) (auto simp: nth_eq_iff_index_eq)
qed simp

lemma b64_value_char [simp]: "n < 64 \<Longrightarrow> b64_value (base64_char n) = n"
  unfolding b64_value_def base64_char_def by (rule index_of_nth) simp_all

lemma base64_char_not_pad [simp]: "n < 64 \<Longrightarrow> base64_char n \<noteq> CHR ''=''"
proof -
  assume "n < 64"
  then have "base64_char n \<in> set ''ABCDEFGHIJKLMNOPQRSTUVWXYZabcdefghijklmnopqrstuvwxyz0123456789+/''"
    unfolding base64_char_def by (intro nth_mem) simp
  then show ?thesis by auto
qed

lemma sextets: "((n div 262144 * 64 + n div 4096 mod 64) * 64 + n div 64 mod 64) * 64 + n mod 64 = (n :: nat)"
proof -
  have "m div 64 * 64 + m mod 64 = m" for m :: nat by simp
  from this[of "n div 4096"] this[of "n div 64"] this[of n] show ?thesis
    by (simp add: div_mult2_eq[symmetric])
qed

lemma bytes_of_word:
  assumes "b < 256" and "c < 256"
  shows "((a * 256 + b) * 256 + c) div 65536 = (a :: nat)" "((a * 256 + b) * 256 + c) div 256 mod 256 = b"
    "((a * 256 + b) * 256 + c) mod 256 = c"
proof -
  have low: "(m * 256 + c) div 256 = m" "(m * 256 + c) mod 256 = c" for m :: nat
    using assms(2) by (simp_all add: div_add1_eq mod_add_eq[symmetric])
  have high: "(a * 256 + b) div 256 = a" "(a * 256 + b) mod 256 = b"
    using assms(1) by (simp_all add: div_add1_eq mod_add_eq[symmetric])
  have "x div 65536 = x div 256 div 256" for x :: nat by (simp add: div_mult2_eq[symmetric])
  then show "((a * 256 + b) * 256 + c) div 65536 = a" by (simp only: low high)
  show "((a * 256 + b) * 256 + c) div 256 mod 256 = b" "((a * 256 + b) * 256 + c) mod 256 = c"
    by (simp_all only: low high)
qed

lemma unat_byte_less: "unat (a :: byte) < 256"
  using unsigned_less[of a, where 'a = nat] by simp

text \<open>The Base64 text of an image is decoded to exactly its bytes.\<close>

theorem base64_roundtrip: "b64decode (b64encode bs) = bs"
proof (induction bs rule: b64encode.induct)
  case (2 a)
  have "unat a * 16 div 64 < 64" "unat a * 16 mod 64 < 64" using unat_byte_less[of a] by auto
  moreover have "(unat a * 16 div 64 * 64 + unat a * 16 mod 64) * 64 * 64 div 65536 = unat a"
    unfolding div_mult_mod_eq by simp
  ultimately show ?case by (simp add: Let_def del: div_mult_self1 mult_mod_right)
next
  case (3 a b)
  let ?n = "(unat a * 256 + unat b) * 4"
  have lt: "?n div 4096 < 64" "?n div 64 mod 64 < 64" "?n mod 64 < 64"
    using unat_byte_less[of a] unat_byte_less[of b] by auto
  have "(?n div 4096 * 64 + ?n div 64 mod 64) * 64 + ?n mod 64 = ?n"
    using sextets[of ?n] lt by (simp add: div_mult2_eq[symmetric])
  moreover have "?n * 64 div 65536 = unat a" "?n * 64 div 256 mod 256 = unat b"
    using unat_byte_less[of b] by auto
  ultimately show ?case using lt by (simp add: Let_def)
next
  case (4 a b c bs)
  let ?n = "(unat a * 256 + unat b) * 256 + unat c"
  have lt: "?n div 262144 < 64" "?n div 4096 mod 64 < 64" "?n div 64 mod 64 < 64" "?n mod 64 < 64"
    using unat_byte_less[of a] unat_byte_less[of b] unat_byte_less[of c] by auto
  have "?n div 65536 = unat a" "?n div 256 mod 256 = unat b" "?n mod 256 = unat c"
    by (rule bytes_of_word; rule unat_byte_less)+
  then show ?case using lt 4 sextets[of ?n] by (simp add: Let_def)
qed simp

end
