(* ===== verification/Py_Float.thy ===== *)
theory Py_Float
  imports LP_Prelude
begin

text \<open>
  Floating-point arithmetic as the portrait code uses it: values are rationals, and each operation
  rounds its exact result to the nearest number of the format, ties to even (\<open>fl\<close> for Python's
  binary64, \<open>fl32\<close> for numpy's float32). Overflow and subnormal results are outside the ranges of
  this code and are not modelled.
\<close>

fun bit_count :: "nat \<Rightarrow> nat" where
  "bit_count n = (if n = 0 then 0 else Suc (bit_count (n div 2)))"

declare bit_count.simps [simp del]

text \<open>\<open>round(x)\<close> to an integer, ties to even; \<open>int(x)\<close> truncates towards zero.\<close>

definition round_half_even :: "rat \<Rightarrow> int" where
  "round_half_even q =
     (let f = \<lfloor>q\<rfloor>; r = q - of_int f
      in if r < 1 / 2 then f else if r > 1 / 2 then f + 1 else if even f then f else f + 1)"

definition py_trunc :: "rat \<Rightarrow> int" where
  "py_trunc q = (if q < 0 then - \<lfloor>- q\<rfloor> else \<lfloor>q\<rfloor>)"

definition pow2 :: "int \<Rightarrow> rat" where
  "pow2 e = (if e \<ge> 0 then 2 ^ nat e else 1 / 2 ^ nat (- e))"

definition round_to :: "nat \<Rightarrow> rat \<Rightarrow> rat" where
  "round_to p q =
     (let (a, b) = quotient_of q in
      if a = 0 then 0
      else
      (let e0 = int (bit_count (nat \<bar>a\<bar>)) - int (bit_count (nat b)) - int p;
           e = (if \<bar>q\<bar> / pow2 e0 \<ge> 2 ^ p then e0 + 1 else e0)
       in of_int (round_half_even (q / pow2 e)) * pow2 e))"

definition fl :: "rat \<Rightarrow> rat" where "fl q = round_to 53 q"
definition fl32 :: "rat \<Rightarrow> rat" where "fl32 q = round_to 24 q"

text \<open>\<open>round(x, 4)\<close>.\<close>

definition round4 :: "rat \<Rightarrow> rat" where
  "round4 q = fl (of_int (round_half_even (q * 10000)) / 10000)"

section \<open>Facts\<close>

lemma pow2_pos: "0 < pow2 e"
  by (simp add: pow2_def)

lemma round_half_even_nonneg: "0 \<le> q \<Longrightarrow> 0 \<le> round_half_even q"
  by (auto simp: round_half_even_def Let_def)

lemma round_half_even_int: "round_half_even (of_int i) = i"
  by (simp add: round_half_even_def)

lemma round_half_even_near: "\<bar>of_int (round_half_even q) - q\<bar> \<le> 1 / 2"
proof -
  have f: "of_int \<lfloor>q\<rfloor> \<le> q" "q < of_int \<lfloor>q\<rfloor> + 1" by linarith+
  then show ?thesis unfolding round_half_even_def Let_def by (simp split: if_splits)
qed

lemma round_half_even_mono: "x \<le> y \<Longrightarrow> round_half_even x \<le> round_half_even y"
proof -
  assume xy: "x \<le> y"
  show ?thesis
  proof (cases "\<lfloor>x\<rfloor> = \<lfloor>y\<rfloor>")
    case True
    then show ?thesis using xy by (auto simp: round_half_even_def Let_def)
  next
    case False
    with xy floor_mono[OF xy] have "\<lfloor>x\<rfloor> + 1 \<le> \<lfloor>y\<rfloor>" by simp
    moreover have "round_half_even x \<le> \<lfloor>x\<rfloor> + 1" "\<lfloor>y\<rfloor> \<le> round_half_even y"
      by (auto simp: round_half_even_def Let_def)
    ultimately show ?thesis by simp
  qed
qed

lemma round_to_0 [simp]: "round_to p 0 = 0"
  by (simp add: round_to_def)

lemma round_to_nonneg: "0 \<le> q \<Longrightarrow> 0 \<le> round_to p q"
  using pow2_pos by (auto simp: round_to_def Let_def intro!: mult_nonneg_nonneg round_half_even_nonneg
      divide_nonneg_pos less_imp_le[OF pow2_pos] split: prod.splits)

lemma py_trunc_nonneg: "0 \<le> q \<Longrightarrow> 0 \<le> py_trunc q"
  by (simp add: py_trunc_def)

lemma py_trunc_le: "0 \<le> q \<Longrightarrow> of_int (py_trunc q) \<le> q"
  by (simp add: py_trunc_def)

lemma fl_nonneg: "0 \<le> q \<Longrightarrow> 0 \<le> fl q"
  by (simp add: fl_def round_to_nonneg)

lemma fl_0 [simp]: "fl 0 = 0" "fl32 0 = 0"
  by (simp_all add: fl_def fl32_def)

text \<open>A quotient of the unit interval rounds to a number of the unit interval.\<close>

lemma bit_count_mono: "m \<le> n \<Longrightarrow> bit_count m \<le> bit_count n"
proof (induction m arbitrary: n rule: bit_count.induct)
  case (1 m)
  show ?case
  proof (cases "m = 0")
    case False
    with 1(2) have "bit_count (m div 2) \<le> bit_count (n div 2)" by (intro 1(1)) (auto intro: div_le_mono)
    then show ?thesis using False 1(2) by (simp add: bit_count.simps[of m] bit_count.simps[of n])
  qed (simp add: bit_count.simps)
qed

lemma round_to_le_1:
  assumes "0 \<le> q" and "q \<le> 1" and "p > 0"
  shows "round_to p q \<le> 1"
proof -
  obtain a b where ab: "quotient_of q = (a, b)" by fastforce
  have b: "b > 0" and q: "q = of_int a / of_int b"
    using quotient_of_denom_pos[OF ab] quotient_of_div[OF ab] by auto
  have a: "0 \<le> a" "a \<le> b" using assms(1,2) b unfolding q by (auto simp: zero_le_divide_iff divide_le_eq)
  show ?thesis
  proof (cases "a = 0")
    case True
    then show ?thesis by (simp add: round_to_def ab)
  next
    case False
    define e0 where "e0 = int (bit_count (nat \<bar>a\<bar>)) - int (bit_count (nat b)) - int p"
    define e where "e = (if \<bar>q\<bar> / pow2 e0 \<ge> 2 ^ p then e0 + 1 else e0)"
    have "bit_count (nat \<bar>a\<bar>) \<le> bit_count (nat b)" using a by (intro bit_count_mono) auto
    then have e: "e \<le> 0" using assms(3) by (auto simp: e_def e0_def)
    have r: "round_to p q = of_int (round_half_even (q / pow2 e)) * pow2 e"
      using False by (simp add: round_to_def ab Let_def e_def e0_def)
    have p2: "pow2 e = 1 / 2 ^ nat (- e)" using e by (cases "e = 0") (auto simp: pow2_def)
    have "q / pow2 e \<le> of_int (2 ^ nat (- e))" using assms(2) by (simp add: p2)
    then have "round_half_even (q / pow2 e) \<le> 2 ^ nat (- e)"
      using round_half_even_mono round_half_even_int by metis
    then have "(of_int (round_half_even (q / pow2 e)) :: rat) \<le> 2 ^ nat (- e)"
      by (metis of_int_le_iff of_int_numeral of_int_power)
    then show ?thesis unfolding r p2 by (simp add: divide_le_eq)
  qed
qed

lemma fl_le_1: "0 \<le> q \<Longrightarrow> q \<le> 1 \<Longrightarrow> fl q \<le> 1"
  by (simp add: fl_def round_to_le_1)

text \<open>A number of at least one rounds to one of at least one; a small integer is exact.\<close>

lemma bit_count_upper: "n < 2 ^ bit_count n"
proof (induction n rule: bit_count.induct)
  case (1 n)
  show ?case
  proof (cases "n = 0")
    case False
    with 1 have "n div 2 < 2 ^ bit_count (n div 2)" by simp
    then show ?thesis using False by (subst bit_count.simps) simp
  qed (simp add: bit_count.simps)
qed

lemma bit_count_lower: "n > 0 \<Longrightarrow> 2 ^ bit_count n \<le> 2 * n"
proof (induction n rule: bit_count.induct)
  case (1 n)
  show ?case
  proof (cases "n div 2 = 0")
    case True
    then have "n = 1" using 1(2) by linarith
    then show ?thesis by (simp add: bit_count.simps)
  next
    case False
    with 1 have "2 ^ bit_count (n div 2) \<le> 2 * (n div 2)" by simp
    also have "\<dots> \<le> n" by simp
    finally show ?thesis using 1(2) by (subst bit_count.simps) simp
  qed
qed

lemma pow2_add: "pow2 (i + j) = pow2 i * pow2 j"
proof -
  have "pow2 k = 2 powi k" for k by (simp add: pow2_def power_int_def field_simps)
  then show ?thesis by (simp add: power_int_add)
qed

lemma pow2_nat [simp]: "pow2 (int n) = 2 ^ n"
  by (simp add: pow2_def)

lemma pow2_mono: "i \<le> j \<Longrightarrow> pow2 i \<le> pow2 j"
proof -
  assume "i \<le> j"
  then have "pow2 j = pow2 i * 2 ^ nat (j - i)"
    using pow2_add[of i "j - i"] by (simp add: pow2_def[of "j - i"])
  then show ?thesis using pow2_pos[of i] by simp
qed

lemma round_to_ge_1:
  assumes "1 \<le> q" and "p \<ge> 2"
  shows "1 \<le> round_to p q"
proof -
  obtain a b where ab: "quotient_of q = (a, b)" by fastforce
  have b: "b > 0" and q: "q = of_int a / of_int b"
    using quotient_of_denom_pos[OF ab] quotient_of_div[OF ab] by auto
  have a: "a > 0" using assms(1) b unfolding q by (auto simp: le_divide_eq)
  define e0 where "e0 = int (bit_count (nat \<bar>a\<bar>)) - int (bit_count (nat b)) - int p"
  define e where "e = (if \<bar>q\<bar> / pow2 e0 \<ge> 2 ^ p then e0 + 1 else e0)"
  have r: "round_to p q = of_int (round_half_even (q / pow2 e)) * pow2 e"
    using a by (simp add: round_to_def ab Let_def e_def e0_def)
  have key: "q / pow2 e \<ge> of_int (if e \<le> 0 then 2 ^ nat (- e) else 1)"
  proof (cases "e \<le> 0")
    case True
    then have "pow2 e = 1 / 2 ^ nat (- e)" by (cases "e = 0") (auto simp: pow2_def)
    then show ?thesis using True assms(1) by simp
  next
    case False
    obtain k where k: "a = int k" "k > 0" using a by (metis pos_int_cases)
    obtain l where l: "b = int l" "l > 0" using b by (metis pos_int_cases)
    have "(of_nat (2 ^ bit_count k) :: rat) \<le> of_nat (2 * k)"
      using bit_count_lower[OF k(2)] by (simp only: of_nat_le_iff)
    then have "(2::rat) ^ bit_count (nat a) \<le> 2 * of_int a" by (simp add: k)
    moreover have "(of_nat l :: rat) \<le> of_nat (2 ^ bit_count l)"
      using bit_count_upper[of l] by (simp only: of_nat_le_iff)
    then have "(of_int b :: rat) \<le> 2 ^ bit_count (nat b)" by (simp add: l)
    ultimately have "(2::rat) ^ bit_count (nat a) * of_int b \<le> 2 * of_int a * 2 ^ bit_count (nat b)"
      using b a by (intro mult_mono) auto
    then have 1: "pow2 (int (bit_count (nat a))) \<le> 2 * q * pow2 (int (bit_count (nat b)))"
      using b unfolding q by (simp add: field_simps)
    have "e \<le> e0 + 1" by (simp add: e_def)
    then have "e + 1 + int (bit_count (nat b)) \<le> int (bit_count (nat a))"
      using assms(2) a by (simp add: e0_def)
    then have "pow2 (e + 1 + int (bit_count (nat b))) \<le> pow2 (int (bit_count (nat a)))" by (rule pow2_mono)
    then have "pow2 e * 2 * pow2 (int (bit_count (nat b))) \<le> pow2 (int (bit_count (nat a)))"
      unfolding pow2_add by (simp add: pow2_def[of 1])
    from order_trans[OF this 1] have "pow2 e \<le> q" by simp
    then show ?thesis using False pow2_pos[of e] by (simp add: le_divide_eq)
  qed
  then have "(if e \<le> 0 then 2 ^ nat (- e) else 1) \<le> round_half_even (q / pow2 e)"
    using round_half_even_mono round_half_even_int by metis
  then have *: "(if e \<le> 0 then 2 ^ nat (- e) else 1 :: rat) \<le> of_int (round_half_even (q / pow2 e))"
    by (metis (mono_tags, lifting) of_int_1 of_int_le_iff of_int_numeral of_int_power)
  show ?thesis
  proof (cases "e \<le> 0")
    case True
    then have "pow2 e = 1 / 2 ^ nat (- e)" by (cases "e = 0") (auto simp: pow2_def)
    then show ?thesis using * True unfolding r by (simp add: le_divide_eq)
  next
    case False
    then have "pow2 e \<ge> 1" by (simp add: pow2_def)
    then show ?thesis using * False unfolding r by (simp add: mult_le_cancel_left1 order_trans[OF _ mult_mono[of 1 _ 1]])
  qed
qed

lemma fl_ge_1: "1 \<le> q \<Longrightarrow> 1 \<le> fl q"
  by (simp add: fl_def round_to_ge_1)

lemma py_trunc_ge_1: "1 \<le> q \<Longrightarrow> 1 \<le> py_trunc q"
  by (simp add: py_trunc_def le_floor_iff)

lemma round_to_small_nat:
  assumes "n < 2 ^ p" shows "round_to p (of_nat n) = of_nat n"
proof (cases "n = 0")
  case False
  have qo: "quotient_of (of_nat n) = (int n, 1)"
    by (simp add: of_nat_rat quotient_of_Fract normalize_def)
  have "2 ^ bit_count n \<le> 2 * n" using bit_count_lower False by simp
  also have "\<dots> < 2 ^ Suc p" using assms by simp
  finally have "bit_count n < Suc p" using power_less_imp_less_exp one_less_numeral_iff by (metis Suc_1 lessI)
  then have bits: "bit_count n \<le> p" by simp
  define e0 where "e0 = int (bit_count (nat \<bar>int n\<bar>)) - int (bit_count (nat 1)) - int p"
  define e where "e = (if \<bar>of_nat n\<bar> / pow2 e0 \<ge> 2 ^ p then e0 + 1 else e0)"
  have "bit_count (nat 1) = 1" by (simp add: bit_count.simps)
  then have e: "e \<le> 0" using bits by (simp add: e_def e0_def)
  have "round_to p (of_nat n) = of_int (round_half_even (of_nat n / pow2 e)) * pow2 e"
    using False by (simp add: round_to_def qo Let_def e_def e0_def)
  moreover have p2: "pow2 e = 1 / 2 ^ nat (- e)" using e by (cases "e = 0") (auto simp: pow2_def)
  moreover have "of_nat n / pow2 e = (of_int (int n * 2 ^ nat (- e)) :: rat)" by (simp add: p2)
  ultimately have "round_to p (of_nat n) = of_int (int n * 2 ^ nat (- e)) * pow2 e"
    using round_half_even_int by metis
  then show ?thesis by (simp add: p2)
qed simp

lemma fl32_byte: "n < 16777216 \<Longrightarrow> fl32 (of_nat n) = of_nat n"
  by (simp add: fl32_def round_to_small_nat)

section \<open>Monotonicity\<close>

text \<open>Rounding is monotonic. The exponent of a positive number scales it to a significand of \<open>p\<close> bits.\<close>

lemma quotient_bits:
  assumes "quotient_of q = (a, b)" and "0 < q"
  shows "pow2 (int (bit_count (nat a)) - int (bit_count (nat b)) - 1) \<le> q"
    and "q < pow2 (int (bit_count (nat a)) - int (bit_count (nat b)) + 1)"
proof -
  have b: "b > 0" and q: "q = of_int a / of_int b"
    using quotient_of_denom_pos[OF assms(1)] quotient_of_div[OF assms(1)] by auto
  have "a > 0" using assms(2) b unfolding q by (simp add: zero_less_divide_iff)
  then obtain k l where k: "a = int k" "k > 0" and l: "b = int l" "l > 0" using b by (metis pos_int_cases)
  let ?A = "bit_count k" and ?B = "bit_count l"
  have A: "(2::rat) ^ ?A \<le> 2 * of_nat k" "of_nat k < (2::rat) ^ ?A"
    using bit_count_lower[OF k(2)] bit_count_upper[of k]
    by (metis of_nat_le_iff of_nat_mult of_nat_numeral of_nat_power, metis of_nat_less_iff of_nat_numeral of_nat_power)
  have B: "(2::rat) ^ ?B \<le> 2 * of_nat l" "of_nat l < (2::rat) ^ ?B"
    using bit_count_lower[OF l(2)] bit_count_upper[of l]
    by (metis of_nat_le_iff of_nat_mult of_nat_numeral of_nat_power, metis of_nat_less_iff of_nat_numeral of_nat_power)
  have q': "q = of_nat k / of_nat l" by (simp add: q k l)
  have pw: "pow2 (int ?A - int ?B + j) = 2 ^ ?A / 2 ^ ?B * pow2 j" for j
  proof -
    have "pow2 (int ?A - int ?B + j) * pow2 (int ?B) = pow2 (int ?A) * pow2 j"
      by (simp only: pow2_add[symmetric]) (simp add: algebra_simps)
    then show ?thesis by (simp add: field_simps)
  qed
  have "2 ^ ?A * of_nat l \<le> 2 * of_nat k * (2::rat) ^ ?B"
    using A(1) less_imp_le[OF B(2)] by (intro mult_mono) auto
  then have "2 ^ ?A / 2 ^ ?B / 2 \<le> q" using l(2) by (simp add: q' field_simps)
  then show "pow2 (int (bit_count (nat a)) - int (bit_count (nat b)) - 1) \<le> q"
    using pw[of "-1"] by (simp add: k l pow2_def[of "-1"])
  have "of_nat k * (2::rat) ^ ?B < 2 ^ ?A * (2 * of_nat l)"
    using A(2) B(1) l(2) by (intro mult_less_le_imp_less) auto
  then have "q < 2 ^ ?A / 2 ^ ?B * 2" using l(2) by (simp add: q' field_simps)
  then show "q < pow2 (int (bit_count (nat a)) - int (bit_count (nat b)) + 1)"
    using pw[of 1] by (simp add: k l pow2_def[of 1])
qed

lemma round_to_scaled:
  assumes "0 < q" and "0 < p"
  obtains e where "round_to p q = of_int (round_half_even (q / pow2 e)) * pow2 e"
    and "2 ^ (p - 1) \<le> q / pow2 e" and "q / pow2 e < 2 ^ p"
proof -
  obtain a b where ab: "quotient_of q = (a, b)" by fastforce
  have "b > 0" "q = of_int a / of_int b" using quotient_of_denom_pos[OF ab] quotient_of_div[OF ab] by auto
  then have a: "a > 0" using assms(1) by (simp add: zero_less_divide_iff)
  define d where "d = int (bit_count (nat a)) - int (bit_count (nat b))"
  define e0 where "e0 = d - int p"
  define e where "e = (if q / pow2 e0 \<ge> 2 ^ p then e0 + 1 else e0)"
  have r: "round_to p q = of_int (round_half_even (q / pow2 e)) * pow2 e"
    using a assms(1) by (simp add: round_to_def ab Let_def e_def e0_def d_def)
  have pp: "pow2 (x + int n) = pow2 x * 2 ^ n" for x n by (simp add: pow2_add)
  have lower: "pow2 e0 * 2 ^ p \<le> 2 * q" and upper: "q < pow2 e0 * 2 ^ p * 2"
  proof -
    have "pow2 (d - 1) * pow2 1 = pow2 e0 * 2 ^ p" "pow2 (d + 1) = pow2 e0 * 2 ^ p * pow2 1"
      by (simp_all only: pow2_add[symmetric] pow2_nat[symmetric]) (simp_all add: e0_def)
    moreover have "pow2 1 = 2" by (simp add: pow2_def)
    ultimately show "pow2 e0 * 2 ^ p \<le> 2 * q" "q < pow2 e0 * 2 ^ p * 2"
      using quotient_bits[OF ab assms(1)] by (simp_all add: d_def)
  qed
  have pos: "pow2 e0 > 0" by (rule pow2_pos)
  have e1: "pow2 (1 + e0) = 2 * pow2 e0" using pow2_add[of 1 e0] by (simp add: pow2_def[of 1])
  obtain p' where p': "p = Suc p'" using assms(2) by (cases p) auto
  have "2 ^ (p - 1) \<le> q / pow2 e \<and> q / pow2 e < 2 ^ p"
    using lower upper pos by (cases "q / pow2 e0 \<ge> 2 ^ p") (auto simp: e_def e1 p' field_simps add.commute[of e0 1])
  then show ?thesis using that r by blast
qed

lemma round_half_even_power_le: "q \<le> 2 ^ n \<Longrightarrow> round_half_even q \<le> 2 ^ n" "2 ^ n \<le> q \<Longrightarrow> 2 ^ n \<le> round_half_even q"
  using round_half_even_mono[of q "2 ^ n"] round_half_even_mono[of "2 ^ n" q] round_half_even_int[of "2 ^ n"] by simp_all

lemma round_to_mono:
  assumes "0 \<le> q" and "q \<le> r" and "0 < p"
  shows "round_to p q \<le> round_to p r"
proof (cases "q = 0")
  case True
  then show ?thesis using round_to_nonneg[of r p] assms by simp
next
  case False
  then have pos: "0 < q" "0 < r" using assms by auto
  obtain e where e: "round_to p q = of_int (round_half_even (q / pow2 e)) * pow2 e" "2 ^ (p - 1) \<le> q / pow2 e" "q / pow2 e < 2 ^ p"
    using round_to_scaled[OF pos(1) assms(3)] by blast
  obtain f where f: "round_to p r = of_int (round_half_even (r / pow2 f)) * pow2 f" "2 ^ (p - 1) \<le> r / pow2 f" "r / pow2 f < 2 ^ p"
    using round_to_scaled[OF pos(2) assms(3)] by blast
  obtain p' where p': "p = Suc p'" using assms(3) by (cases p) auto
  have half: "2 * 2 ^ (p - 1) = (2 ^ p :: rat)" by (simp add: p')
  show ?thesis
  proof (cases e f rule: linorder_cases)
    case less
    have "(of_int (round_half_even (q / pow2 e)) :: rat) \<le> 2 ^ p"
      using round_half_even_power_le(1)[of "q / pow2 e" p] e(3) by (metis less_imp_le of_int_le_iff of_int_numeral of_int_power)
    then have 1: "round_to p q \<le> 2 ^ p * pow2 e" unfolding e(1) using pow2_pos[of e] by simp
    have "2 ^ (p - 1) \<le> (of_int (round_half_even (r / pow2 f)) :: rat)"
      using round_half_even_power_le(2)[of "p - 1" "r / pow2 f"] f(2) by (metis of_int_le_iff of_int_numeral of_int_power)
    then have 2: "2 ^ (p - 1) * pow2 f \<le> round_to p r" unfolding f(1) using pow2_pos[of f] by simp
    have "pow2 (e + 1) \<le> pow2 f" using less by (intro pow2_mono) simp
    then have "2 * pow2 e \<le> pow2 f" using pow2_add[of e 1] by (simp add: pow2_def[of 1])
    then have "2 ^ p * pow2 e \<le> 2 ^ (p - 1) * pow2 f" unfolding half[symmetric] by simp
    then show ?thesis using 1 2 by simp
  next
    case equal
    have "q / pow2 e \<le> r / pow2 e" using assms(2) pow2_pos[of e] by (simp add: divide_right_mono)
    then have "round_half_even (q / pow2 e) \<le> round_half_even (r / pow2 e)" by (rule round_half_even_mono)
    then show ?thesis unfolding e(1) f(1) equal[symmetric] using pow2_pos[of e] by simp
  next
    case greater
    have "2 * pow2 f \<le> pow2 e" using pow2_mono[of "f + 1" e] greater pow2_add[of f 1] by (simp add: pow2_def[of 1])
    then have "2 ^ p * pow2 f \<le> 2 ^ (p - 1) * pow2 e" unfolding half[symmetric] by simp
    moreover have "r < 2 ^ p * pow2 f" using f(3) pow2_pos[of f] by (simp add: divide_less_eq)
    moreover have "2 ^ (p - 1) * pow2 e \<le> q" using e(2) pow2_pos[of e] by (simp add: le_divide_eq)
    ultimately have False using assms(2) by linarith
    then show ?thesis ..
  qed
qed

lemma fl_mono: "0 \<le> q \<Longrightarrow> q \<le> r \<Longrightarrow> fl q \<le> fl r"
  by (simp add: fl_def round_to_mono)

lemma fl_1 [simp]: "fl 1 = 1"
  using round_to_small_nat[of 1 53] by (simp add: fl_def)

lemma fl_nonpos:
  assumes "q \<le> 0" shows "fl q \<le> 0"
proof -
  have *: "round_half_even (q / pow2 e) \<le> 0" for e
  proof -
    have "q / pow2 e \<le> 0" using assms pow2_pos[of e] by (simp add: divide_nonpos_pos)
    then show ?thesis using round_half_even_mono[of "q / pow2 e" 0] round_half_even_int[of 0] by simp
  qed
  obtain a b where "quotient_of q = (a, b)" by fastforce
  then show ?thesis
    using pow2_pos * by (simp add: fl_def round_to_def Let_def mult_nonpos_nonneg less_imp_le)
qed

section \<open>Rounding twice\<close>

lemma round_to_idem:
  assumes "0 \<le> q" and "0 < p" shows "round_to p (round_to p q) = round_to p q"
proof (cases "q = 0 \<or> round_to p q = 0")
  case False
  then have q: "0 < q" using assms(1) by auto
  obtain e where e: "round_to p q = of_int (round_half_even (q / pow2 e)) * pow2 e" "q / pow2 e < 2 ^ p"
    using round_to_scaled[OF q assms(2)] by blast
  define k where "k = round_half_even (q / pow2 e)"
  have v: "round_to p q = of_int k * pow2 e" by (simp only: e(1) k_def)
  have "k \<le> 2 ^ p" unfolding k_def using e(2) by (intro round_half_even_power_le(1)) simp
  have "0 < round_to p q" using False round_to_nonneg[OF assms(1), of p] by simp
  then obtain f where f: "round_to p (round_to p q) = of_int (round_half_even (round_to p q / pow2 f)) * pow2 f"
      "2 ^ (p - 1) \<le> round_to p q / pow2 f"
    using round_to_scaled[OF _ assms(2)] by blast
  have "\<exists>n. round_to p q / pow2 f = of_int n"
  proof (cases "f \<le> e")
    case True
    then have "pow2 e = pow2 f * 2 ^ nat (e - f)" using pow2_add[of f "e - f"] by (simp add: pow2_def[of "e - f"])
    then have "round_to p q / pow2 f = of_int (k * 2 ^ nat (e - f))" using pow2_pos[of f] by (simp add: v)
    then show ?thesis by blast
  next
    case gt: False
    define d where "d = nat (f - e)"
    have d: "f = e + int d" "0 < d" using gt by (simp_all add: d_def)
    have pf: "pow2 f = pow2 e * 2 ^ d" by (simp add: d(1) pow2_add)
    have "2 ^ (p - 1) \<le> (of_int k :: rat) / 2 ^ d"
      using f(2) pow2_pos[of e] by (simp add: v pf)
    then have "2 ^ (p - 1) * 2 ^ d \<le> (of_int k :: rat)" by (simp add: le_divide_eq)
    then have "(of_int (2 ^ (p - 1) * 2 ^ d) :: rat) \<le> of_int k" by simp
    then have "2 ^ (p - 1) * 2 ^ d \<le> k" by (simp only: of_int_le_iff)
    then have up: "2 ^ (p - 1 + d) \<le> k" by (simp add: power_add)
    then have "(2::int) ^ (p - 1 + d) \<le> 2 ^ p" using \<open>k \<le> 2 ^ p\<close> by linarith
    then have "p - 1 + d \<le> p" by (rule power_le_imp_le_exp[rotated]) simp
    then have d1: "d = 1" using d(2) assms(2) by simp
    then have "k = 2 ^ p" using up \<open>k \<le> 2 ^ p\<close> assms(2) by simp
    moreover obtain p' where "p = Suc p'" using assms(2) by (cases p) auto
    ultimately have "(of_int k :: rat) / 2 ^ d = of_int (2 ^ p')" by (simp add: d1)
    moreover have "round_to p q / pow2 f = of_int k / 2 ^ d" using pow2_pos[of e] by (simp add: v pf)
    ultimately have "round_to p q / pow2 f = of_int (2 ^ p')" by simp
    then show ?thesis by blast
  qed
  then obtain n where n: "round_to p q / pow2 f = of_int n" by blast
  have "round_to p (round_to p q) = of_int n * pow2 f" by (simp only: f(1) n round_half_even_int)
  also have "\<dots> = round_to p q" using n pow2_pos[of f] by (simp add: field_simps)
  finally show ?thesis .
qed (auto simp: round_to_def)

lemma fl_idem: "0 \<le> q \<Longrightarrow> fl (fl q) = fl q"
  by (simp add: fl_def round_to_idem)

lemma fl_scaled_le:
  assumes "0 \<le> x" and "x \<le> 1" and "n < 2 ^ 53"
  shows "0 \<le> fl (x * of_nat n) \<and> fl (x * of_nat n) \<le> of_nat n"
proof -
  have "x * of_nat n \<le> of_nat n" using assms(1,2) by (simp add: mult_left_le_one_le)
  from fl_mono[OF _ this] have "fl (x * of_nat n) \<le> fl (of_nat n)" using assms(1) by simp
  moreover have "fl (of_nat n) = of_nat n" using assms(3) by (simp add: fl_def round_to_small_nat)
  ultimately show ?thesis using assms(1) by (simp add: fl_nonneg)
qed

section \<open>Square root\<close>

text \<open>\<open>math.sqrt\<close> of a binary64 number: the integer root of the scaled number, and a sticky bit below it.\<close>

fun int_root :: "nat \<Rightarrow> nat" where
  "int_root n = (if n < 2 then n else (let s = 2 * int_root (n div 4) in if (s + 1) * (s + 1) \<le> n then s + 1 else s))"

declare int_root.simps [simp del]

definition fl_sqrt :: "rat \<Rightarrow> rat" where
  "fl_sqrt q = (let (a, b) = quotient_of q; m = nat a * nat b * 4 ^ 64; r = int_root m in
     fl (of_nat (2 * r + (if r * r = m then 0 else 1)) / (2 * of_int b * 2 ^ 64)))"

end
