(* ===== verification/Matte.thy ===== *)
theory Matte
  imports Py_Float World
begin

text \<open>
  Matte geometry: regions of an alpha matrix and their integrity metrics
  (\<open>app/portrait/integrity.py\<close>) and the connected-component refinement
  (\<open>app/portrait/matte.py\<close>). A matrix is a list of rows of equal length; its entries are float32
  values, and the thresholds they are compared with are the float32 neighbours of the constants.
\<close>

type_synonym 'a grid = "'a list list"
type_synonym face_box = "rat \<times> rat \<times> rat \<times> rat"
type_synonym roi = "int \<times> int \<times> int \<times> int"

definition grid_height :: "'a grid \<Rightarrow> nat" where "grid_height g = length g"
definition grid_width :: "'a grid \<Rightarrow> nat" where "grid_width g = (case g of [] \<Rightarrow> 0 | r # _ \<Rightarrow> length r)"

definition is_grid :: "'a grid \<Rightarrow> bool" where
  "is_grid g \<longleftrightarrow> list_all (\<lambda>r. length r = grid_width g) g"

text \<open>\<open>mask[y, x]\<close> with the bounds test of the code.\<close>

definition in_mask :: "bool grid \<Rightarrow> int \<times> int \<Rightarrow> bool" where
  "in_mask m p = (case p of (y, x) \<Rightarrow>
     0 \<le> y \<and> y < int (grid_height m) \<and> 0 \<le> x \<and> x < int (grid_width m) \<and> m ! nat y ! nat x)"

definition tabulate :: "nat \<Rightarrow> nat \<Rightarrow> (int \<times> int \<Rightarrow> 'a) \<Rightarrow> 'a grid" where
  "tabulate h w f = map (\<lambda>y. map (\<lambda>x. f (int y, int x)) [0..<w]) [0..<h]"

definition map_grid :: "('a \<Rightarrow> 'b) \<Rightarrow> 'a grid \<Rightarrow> 'b grid" where
  "map_grid f g = map (map f) g"

text \<open>\<open>g[y0:y1, x0:x1]\<close> for a clipped region, as the list of its entries.\<close>

definition cells :: "'a grid \<Rightarrow> roi \<Rightarrow> 'a list" where
  "cells g r = (case r of (x0, y0, x1, y1) \<Rightarrow>
     concat (map (\<lambda>row. take (nat (x1 - x0)) (drop (nat x0) row)) (take (nat (y1 - y0)) (drop (nat y0) g))))"

definition count_true :: "bool list \<Rightarrow> nat" where "count_true bs = length (filter id bs)"

section \<open>Regions\<close>

definition HEAD_EXPAND_X :: rat where "HEAD_EXPAND_X = fl (30 / 100)"
definition HEAD_EXPAND_TOP :: rat where "HEAD_EXPAND_TOP = fl (45 / 100)"
definition HEAD_EXPAND_BOTTOM :: rat where "HEAD_EXPAND_BOTTOM = fl (20 / 100)"

definition clip_roi :: "rat \<Rightarrow> rat \<Rightarrow> rat \<Rightarrow> rat \<Rightarrow> int \<Rightarrow> int \<Rightarrow> roi" where
  "clip_roi x0 y0 x1 y1 width height =
     (let ix0 = max 0 (min width (round_half_even x0));
          iy0 = max 0 (min height (round_half_even y0));
          ix1 = max ix0 (min width (round_half_even x1));
          iy1 = max iy0 (min height (round_half_even y1))
      in (ix0, iy0, ix1, iy1))"

definition face_roi_px :: "face_box \<Rightarrow> int \<Rightarrow> int \<Rightarrow> roi" where
  "face_roi_px box width height = (case box of (fx, fy, fw, fh) \<Rightarrow>
     clip_roi (fl (fx * of_int width)) (fl (fy * of_int height)) (fl (fl (fx + fw) * of_int width))
       (fl (fl (fy + fh) * of_int height)) width height)"

definition head_roi_px :: "face_box \<Rightarrow> int \<Rightarrow> int \<Rightarrow> roi" where
  "head_roi_px box width height = (case box of (fx, fy, fw, fh) \<Rightarrow>
     clip_roi (fl (fl (fx - fl (HEAD_EXPAND_X * fw)) * of_int width))
       (fl (fl (fy - fl (HEAD_EXPAND_TOP * fh)) * of_int height))
       (fl (fl (fl (fx + fw) + fl (HEAD_EXPAND_X * fw)) * of_int width))
       (fl (fl (fl (fy + fh) + fl (HEAD_EXPAND_BOTTOM * fh)) * of_int height)) width height)"

definition roi_inside :: "roi \<Rightarrow> int \<Rightarrow> int \<Rightarrow> bool" where
  "roi_inside r width height = (case r of (x0, y0, x1, y1) \<Rightarrow>
     0 \<le> x0 \<and> x0 \<le> x1 \<and> x1 \<le> width \<and> 0 \<le> y0 \<and> y0 \<le> y1 \<and> y1 \<le> height)"

text \<open>A clipped region lies inside the image, whatever the rounding did.\<close>

lemma clip_roi_inside: "0 \<le> width \<Longrightarrow> 0 \<le> height \<Longrightarrow> roi_inside (clip_roi a b c d width height) width height"
  by (auto simp: clip_roi_def Let_def roi_inside_def)

lemma face_roi_inside: "0 \<le> width \<Longrightarrow> 0 \<le> height \<Longrightarrow> roi_inside (face_roi_px box width height) width height"
  by (simp add: face_roi_px_def clip_roi_inside split: prod.splits)

lemma head_roi_inside: "0 \<le> width \<Longrightarrow> 0 \<le> height \<Longrightarrow> roi_inside (head_roi_px box width height) width height"
  by (simp add: head_roi_px_def clip_roi_inside split: prod.splits)

section \<open>Metrics\<close>

definition ratio :: "nat \<Rightarrow> nat \<Rightarrow> rat" where
  "ratio a b = fl (of_nat a / of_nat b)"

definition retention :: "bool grid \<Rightarrow> roi \<Rightarrow> rat" where
  "retention foreground r =
     (let region = cells foreground r in
      if length region = 0 then 0 else ratio (count_true region) (length region))"

definition balance :: "rat \<Rightarrow> rat \<Rightarrow> rat" where
  "balance left right =
     (let high = max left right in if high \<le> 0 then 0 else fl (min left right / high))"

section \<open>Connected components\<close>

definition neighbours :: "int \<times> int \<Rightarrow> (int \<times> int) list" where
  "neighbours p = (case p of (y, x) \<Rightarrow> [(y - 1, x), (y + 1, x), (y, x - 1), (y, x + 1)])"

definition fresh_neighbours :: "bool grid \<Rightarrow> (int \<times> int) list \<Rightarrow> int \<times> int \<Rightarrow> (int \<times> int) list" where
  "fresh_neighbours m component p = filter (\<lambda>q. in_mask m q \<and> q \<notin> set component) (neighbours p)"

lemma in_mask_finite: "finite {q. in_mask m q}"
  by (rule finite_subset[of _ "{0..<int (grid_height m)} \<times> {0..<int (grid_width m)}"])
     (auto simp: in_mask_def)

text \<open>
  The loop on the stack (its head is the deque's right end): the four neighbours of the popped cell
  that are in the mask and not yet marked are marked and pushed. They are four different cells, so
  marking one does not change the test of the next.
\<close>

function flood :: "bool grid \<Rightarrow> (int \<times> int) list \<Rightarrow> (int \<times> int) list \<Rightarrow> (int \<times> int) list" where
  "flood m [] component = component"
| "flood m (p # stack) component =
     (let new = fresh_neighbours m component p in flood m (rev new @ stack) (new @ component))"
  by pat_completeness auto
termination
proof (relation "measure (\<lambda>(m, stack, component). 2 * card ({q. in_mask m q} - set component) + length stack)",
    goal_cases)
  case (2 m p stack component new)
  let ?M = "{q. in_mask m q}"
  have d: "distinct new" by (cases p) (simp add: 2 fresh_neighbours_def neighbours_def)
  have sub: "set new \<subseteq> ?M - set component" by (auto simp: 2 fresh_neighbours_def)
  have "?M - set (new @ component) = (?M - set component) - set new" by auto
  then have "card (?M - set (new @ component)) = card (?M - set component) - length new"
    using sub d in_mask_finite[of m] by (simp add: card_Diff_subset distinct_card)
  moreover have "length new \<le> card (?M - set component)"
    using sub d in_mask_finite[of m] by (metis card_mono distinct_card finite_Diff)
  ultimately show ?case by simp
qed simp

definition component_cells :: "bool grid \<Rightarrow> int \<times> int \<Rightarrow> (int \<times> int) list" where
  "component_cells m seed = (if \<not> in_mask m seed then [] else flood m [seed] [seed])"

definition connected_component_mask :: "bool grid \<Rightarrow> int \<times> int \<Rightarrow> bool grid" where
  "connected_component_mask m seed =
     (let component = component_cells m seed in
      tabulate (grid_height m) (grid_width m) (\<lambda>q. q \<in> set component))"

text \<open>The specification: the cells reachable from the seed through the mask, step by step.\<close>

definition mask_step :: "bool grid \<Rightarrow> ((int \<times> int) \<times> (int \<times> int)) set" where
  "mask_step m = {(p, q). in_mask m q \<and> q \<in> set (neighbours p)}"

lemma flood_closed:
  assumes "flood m stack component = c"
    and "set stack \<subseteq> set component"
    and "\<And>p q. p \<in> set component - set stack \<Longrightarrow> (p, q) \<in> mask_step m \<Longrightarrow> q \<in> set component"
  shows "set component \<subseteq> set c \<and> (\<forall>p q. p \<in> set c \<longrightarrow> (p, q) \<in> mask_step m \<longrightarrow> q \<in> set c)"
  using assms
proof (induction m stack component rule: flood.induct)
  case (1 m component)
  then show ?case by auto
next
  case (2 m p stack component)
  let ?new = "fresh_neighbours m component p"
  have "set (?new @ component) \<subseteq> set c \<and> (\<forall>p q. p \<in> set c \<longrightarrow> (p, q) \<in> mask_step m \<longrightarrow> q \<in> set c)"
  proof (rule 2(1)[OF refl])
    show "flood m (rev ?new @ stack) (?new @ component) = c" using 2(2) by (simp add: Let_def)
    show "set (rev ?new @ stack) \<subseteq> set (?new @ component)" using 2(3) by auto
  next
    fix r q assume r: "r \<in> set (?new @ component) - set (rev ?new @ stack)" and rq: "(r, q) \<in> mask_step m"
    show "q \<in> set (?new @ component)"
    proof (cases "r = p")
      case True
      then show ?thesis using rq by (auto simp: fresh_neighbours_def mask_step_def)
    next
      case False
      then show ?thesis using r rq 2(4)[of r q] by auto
    qed
  qed
  then show ?case by auto
qed

lemma flood_reachable:
  assumes "flood m stack component = c" and "set stack \<subseteq> set component"
    and "\<And>p. p \<in> set component \<Longrightarrow> (s, p) \<in> (mask_step m)\<^sup>*"
  shows "\<forall>p \<in> set c. (s, p) \<in> (mask_step m)\<^sup>*"
  using assms
proof (induction m stack component rule: flood.induct)
  case (1 m component)
  then show ?case by auto
next
  case (2 m p stack component)
  let ?new = "fresh_neighbours m component p"
  have "(s, q) \<in> (mask_step m)\<^sup>*" if "q \<in> set ?new" for q
  proof -
    have "(p, q) \<in> mask_step m" using that by (auto simp: fresh_neighbours_def mask_step_def)
    moreover have "(s, p) \<in> (mask_step m)\<^sup>*" using 2(3,4) by auto
    ultimately show ?thesis by (rule rtrancl_into_rtrancl[rotated])
  qed
  then show ?case using 2(2,3,4) by (intro 2(1)[OF refl]) (auto simp: Let_def)
qed

text \<open>The component is exactly the set of reachable cells.\<close>

lemma component_cells_reachable:
  assumes "in_mask m seed"
  shows "set (component_cells m seed) = {q. (seed, q) \<in> (mask_step m)\<^sup>*}"
proof -
  obtain c where c: "flood m [seed] [seed] = c" by simp
  have closed: "set [seed] \<subseteq> set c" "\<And>p q. p \<in> set c \<Longrightarrow> (p, q) \<in> mask_step m \<Longrightarrow> q \<in> set c"
    using flood_closed[OF c] by auto
  have "q \<in> set c" if "(seed, q) \<in> (mask_step m)\<^sup>*" for q
    using that by (induction rule: rtrancl_induct) (use closed in auto)
  moreover have "\<forall>p \<in> set c. (seed, p) \<in> (mask_step m)\<^sup>*" by (rule flood_reachable[OF c]) auto
  ultimately show ?thesis using assms c by (auto simp: component_cells_def)
qed

section \<open>Integrity of a matte\<close>

definition FOREGROUND_THRESHOLD :: rat where "FOREGROUND_THRESHOLD = 1 / 2"
definition MIN_FACE_RETENTION :: rat where "MIN_FACE_RETENTION = fl (55 / 100)"
definition MIN_HEAD_RETENTION :: rat where "MIN_HEAD_RETENTION = fl (45 / 100)"
definition MIN_LEFT_RIGHT_BALANCE :: rat where "MIN_LEFT_RIGHT_BALANCE = fl (35 / 100)"
definition MIN_COMPONENT_FACE_OVERLAP :: rat where "MIN_COMPONENT_FACE_OVERLAP = fl (55 / 100)"
definition MIN_GLOBAL_FOREGROUND :: rat where "MIN_GLOBAL_FOREGROUND = fl (2 / 100)"
definition MAX_REFINEMENT_RETENTION_DROP :: rat where "MAX_REFINEMENT_RETENTION_DROP = fl (15 / 100)"
definition MAX_REFINEMENT_BALANCE_DROP :: rat where "MAX_REFINEMENT_BALANCE_DROP = fl (25 / 100)"

datatype matte_reason = Empty_matte | Face_retention_low | Face_component_fragmented
  | Head_retention_low | Face_asymmetry

record matte_integrity =
  mi_ok :: bool
  mi_reason :: "matte_reason option"
  mi_has_face_box :: bool
  mi_face_retention :: rat
  mi_head_retention :: rat
  mi_left_retention :: rat
  mi_right_retention :: rat
  mi_balance :: rat
  mi_overlap :: rat
  mi_foreground_ratio :: rat

definition first_in :: "bool grid \<Rightarrow> roi \<Rightarrow> (int \<times> int) option" where
  "first_in g r = (case r of (x0, y0, x1, y1) \<Rightarrow>
     List.find (\<lambda>(y, x). g ! nat y ! nat x)
       (concat (map (\<lambda>y. map (\<lambda>x. (y, x)) [x0..x1 - 1]) [y0..y1 - 1])))"

definition pick_seed :: "bool grid \<Rightarrow> roi \<Rightarrow> (int \<times> int) option" where
  "pick_seed foreground r = (case r of (x0, y0, x1, y1) \<Rightarrow>
     if x1 \<le> x0 \<or> y1 \<le> y0 then None
     else
     (let cx = (x0 + x1) div 2; cy = (y0 + y1) div 2 in
      if foreground ! nat cy ! nat cx then Some (cy, cx) else first_in foreground r))"

definition component_face_overlap :: "bool grid \<Rightarrow> face_box \<Rightarrow> rat" where
  "component_face_overlap foreground box =
     (let r = face_roi_px box (int (grid_width foreground)) (int (grid_height foreground)) in
      case r of (x0, y0, x1, y1) \<Rightarrow>
        if x1 \<le> x0 \<or> y1 \<le> y0 then 0
        else (case pick_seed foreground r of
                None \<Rightarrow> 0
              | Some seed \<Rightarrow>
                  (let region = cells (connected_component_mask foreground seed) r
                   in ratio (count_true region) (length region))))"

definition validate_portrait_matte :: "rat grid \<Rightarrow> face_box option \<Rightarrow> matte_integrity" where
  "validate_portrait_matte alpha face_box =
     (let width = int (grid_width alpha); height = int (grid_height alpha);
          foreground = map_grid (\<lambda>a. a \<ge> FOREGROUND_THRESHOLD) alpha;
          size = length (concat foreground);
          foreground_ratio = ratio (count_true (concat foreground)) (if size = 0 then 1 else size) in
      case face_box of
        None \<Rightarrow>
          (let ok = foreground_ratio \<ge> MIN_GLOBAL_FOREGROUND in
           \<lparr>mi_ok = ok, mi_reason = (if ok then None else Some Empty_matte), mi_has_face_box = False,
            mi_face_retention = 0, mi_head_retention = 0, mi_left_retention = 0, mi_right_retention = 0,
            mi_balance = 0, mi_overlap = 0, mi_foreground_ratio = foreground_ratio\<rparr>)
      | Some box \<Rightarrow>
          (let face_roi = face_roi_px box width height;
               head_roi = head_roi_px box width height;
               face_retention = retention foreground face_roi;
               head_retention = retention foreground head_roi;
               (x0, y0, x1, y1) = face_roi;
               mid_x = (x0 + x1) div 2;
               left = retention foreground (x0, y0, mid_x, y1);
               right = retention foreground (mid_x, y0, x1, y1);
               bal = balance left right;
               overlap = component_face_overlap foreground box;
               reason =
                 (if face_retention < MIN_FACE_RETENTION then Some Face_retention_low
                  else if overlap < MIN_COMPONENT_FACE_OVERLAP then Some Face_component_fragmented
                  else if head_retention < MIN_HEAD_RETENTION then Some Head_retention_low
                  else if bal < MIN_LEFT_RIGHT_BALANCE then Some Face_asymmetry
                  else None) in
           \<lparr>mi_ok = (reason = None), mi_reason = reason, mi_has_face_box = True,
            mi_face_retention = face_retention, mi_head_retention = head_retention,
            mi_left_retention = left, mi_right_retention = right, mi_balance = bal,
            mi_overlap = overlap, mi_foreground_ratio = foreground_ratio\<rparr>))"

definition refinement_is_acceptable :: "matte_integrity \<Rightarrow> matte_integrity \<Rightarrow> bool" where
  "refinement_is_acceptable raw refined \<longleftrightarrow>
     mi_ok refined
     \<and> mi_face_retention refined \<ge> fl (mi_face_retention raw - MAX_REFINEMENT_RETENTION_DROP)
     \<and> mi_balance refined \<ge> fl (mi_balance raw - MAX_REFINEMENT_BALANCE_DROP)"

section \<open>Refinement\<close>

text \<open>The float32 values of 0.35, 0.6, 0.35 and 0.95.\<close>

definition SUPPORT_THRESHOLD :: rat where "SUPPORT_THRESHOLD = fl32 (35 / 100)"
definition REMOVE_HIGH_BACKGROUND_THRESHOLD :: rat where "REMOVE_HIGH_BACKGROUND_THRESHOLD = fl32 (6 / 10)"
definition BODY_REINFORCE_THRESHOLD :: rat where "BODY_REINFORCE_THRESHOLD = fl32 (35 / 100)"
definition BODY_REINFORCE_ALPHA :: rat where "BODY_REINFORCE_ALPHA = fl32 (95 / 100)"

text \<open>The indices of the rows, and of the columns, that hold a true entry.\<close>

definition true_rows :: "bool grid \<Rightarrow> nat list" where
  "true_rows m = filter (\<lambda>y. list_ex id (m ! y)) [0..<grid_height m]"

definition true_cols :: "bool grid \<Rightarrow> nat list" where
  "true_cols m = filter (\<lambda>x. list_ex (\<lambda>row. row ! x) m) [0..<grid_width m]"

definition seed_point :: "bool grid \<Rightarrow> face_box option \<Rightarrow> (int \<times> int) option" where
  "seed_point m face_box =
     (case face_box of
        Some (fx, fy, fw, fh) \<Rightarrow>
          Some (py_trunc (fl (fl (fy + fl (fh / 2)) * of_nat (grid_height m))),
                py_trunc (fl (fl (fx + fl (fw / 2)) * of_nat (grid_width m))))
      | None \<Rightarrow>
          if true_rows m = [] \<or> true_cols m = [] then None
          else Some (int ((hd (true_rows m) + last (true_rows m)) div 2),
                     int ((hd (true_cols m) + last (true_cols m)) div 2)))"

definition component_covers_face :: "bool grid \<Rightarrow> face_box \<Rightarrow> bool" where
  "component_covers_face support box =
     (let r = face_roi_px box (int (grid_width support)) (int (grid_height support)) in
      case r of (x0, y0, x1, y1) \<Rightarrow>
        if x1 \<le> x0 \<or> y1 \<le> y0 then True
        else (let region = cells support r
              in ratio (count_true region) (length region) \<ge> MIN_COMPONENT_FACE_OVERLAP))"

definition refine_cells :: "rat grid \<Rightarrow> bool grid \<Rightarrow> nat \<Rightarrow> rat grid" where
  "refine_cells alpha support face_top =
     tabulate (grid_height alpha) (grid_width alpha) (\<lambda>(y, x).
       let a = alpha ! nat y ! nat x; s = support ! nat y ! nat x;
           out = (if a > REMOVE_HIGH_BACKGROUND_THRESHOLD \<and> \<not> s then 0 else a)
       in if nat y \<ge> face_top \<and> s \<and> out \<ge> BODY_REINFORCE_THRESHOLD
          then max out BODY_REINFORCE_ALPHA else out)"

text \<open>
  A negative index or slice start counts from the end; an index outside the axis is an \<open>IndexError\<close>. A seed
  that is negative is looked up from the end, but its component is empty.
\<close>

definition from_end :: "int \<Rightarrow> nat \<Rightarrow> nat" where
  "from_end i n = nat (if i < 0 then i + int n else i)"

definition refine_matte :: "rat grid \<Rightarrow> face_box option \<Rightarrow> exn + rat grid" where
  "refine_matte alpha face_box =
     (let m = map_grid (\<lambda>a. a > SUPPORT_THRESHOLD) alpha; h = grid_height m; w = grid_width m in
      case seed_point m face_box of
        None \<Rightarrow> Inr alpha
      | Some (sy, sx) \<Rightarrow>
          if sy \<ge> int h \<or> sx \<ge> int w \<or> sy < - int h \<or> sx < - int w then Inl IndexErr
          else if \<not> m ! from_end sy h ! from_end sx w then Inr alpha
          else
          (let support = connected_component_mask m (sy, sx) in
           if (case face_box of None \<Rightarrow> False | Some box \<Rightarrow> \<not> component_covers_face support box)
           then Inr alpha
           else
           (let face_top = (case face_box of
                  Some (fx, fy, fw, fh) \<Rightarrow> from_end (py_trunc (fl (fy * of_nat (grid_height alpha)))) (grid_height alpha)
                | None \<Rightarrow> (case true_rows support of [] \<Rightarrow> 0 | y # _ \<Rightarrow> y))
            in Inr (refine_cells alpha support face_top))))"

section \<open>Face boxes\<close>

definition FACE_BOX_EPSILON :: rat where "FACE_BOX_EPSILON = fl (1 / 1000000000)"
definition MIN_FACE_BOX_DIM :: rat where "MIN_FACE_BOX_DIM = fl (3 / 100)"

text \<open>\<open>float(v)\<close> of a number; an integer that rounds past the largest binary64 overflows.\<close>

fun json_number :: "json \<Rightarrow> exn + pyfloat option" where
  "json_number (JInt i) = (if \<bar>fl (of_int i)\<bar> \<ge> 2 ^ 1024 then Inl OverflowErr else Inr (Some (Fin (fl (of_int i)))))"
| "json_number (JFloat x) = Inr (Some x)"
| "json_number _ = Inr None"

fun face_numbers :: "json list \<Rightarrow> exn + rat list option" where
  "face_numbers [] = Inr (Some [])"
| "face_numbers (v # vs) =
     (case json_number v of
        Inl e \<Rightarrow> Inl e
      | Inr (Some (Fin q)) \<Rightarrow>
          (case face_numbers vs of Inl e \<Rightarrow> Inl e | Inr None \<Rightarrow> Inr None | Inr (Some qs) \<Rightarrow> Inr (Some (q # qs)))
      | Inr _ \<Rightarrow> Inr None)"

definition face_box_in_range :: "face_box \<Rightarrow> bool" where
  "face_box_in_range box = (case box of (x, y, w, h) \<Rightarrow>
     \<not> (x < 0 \<or> y < 0 \<or> w \<le> 0 \<or> h \<le> 0)
     \<and> \<not> (fl (x + w) > fl (1 + FACE_BOX_EPSILON) \<or> fl (y + h) > fl (1 + FACE_BOX_EPSILON))
     \<and> \<not> (w < MIN_FACE_BOX_DIM \<or> h < MIN_FACE_BOX_DIM)
     \<and> \<not> (w > 1 \<or> h > 1))"

definition validated_face_box :: "json list \<Rightarrow> exn + face_box option" where
  "validated_face_box values =
     (if length values \<noteq> 4 then Inr None
      else case face_numbers values of
        Inl e \<Rightarrow> Inl e
      | Inr (Some [x, y, w, h]) \<Rightarrow>
          (if face_box_in_range (x, y, w, h) then Inr (Some (x, y, w, h)) else Inr None)
      | Inr _ \<Rightarrow> Inr None)"

text \<open>\<open>len\<close> of a number is a \<open>TypeError\<close>; the entries of a text and the keys of an object are texts.\<close>

fun validate_face_box_values :: "runtime \<Rightarrow> json \<Rightarrow> exn + face_box option" where
  "validate_face_box_values rt JNull = Inr None"
| "validate_face_box_values rt v =
     (case py_list rt v of Inl e \<Rightarrow> Inl e | Inr values \<Rightarrow> validated_face_box values)"

fun parse_floats :: "runtime \<Rightarrow> string list \<Rightarrow> json list option" where
  "parse_floats rt [] = Some []"
| "parse_floats rt (p # ps) = (case parse_float rt p of
     None \<Rightarrow> None | Some x \<Rightarrow> map_option (\<lambda>xs. JFloat x # xs) (parse_floats rt ps))"

definition parse_normalized_face_box :: "runtime \<Rightarrow> string option \<Rightarrow> exn + face_box option" where
  "parse_normalized_face_box rt value =
     (case value of
        None \<Rightarrow> Inr None
      | Some v \<Rightarrow>
          if str_strip v = [] then Inr None
          else (let parts = split_on CHR '','' v in
                if length parts \<noteq> 4 then Inr None
                else case parse_floats rt parts of None \<Rightarrow> Inr None | Some nums \<Rightarrow> validated_face_box nums))"

section \<open>Facts\<close>

lemma grid_size_tabulate [simp]:
  "grid_height (tabulate h w f) = h" "h > 0 \<Longrightarrow> grid_width (tabulate h w f) = w"
  by (cases h; simp add: tabulate_def grid_height_def grid_width_def upt_conv_Cons del: upt_Suc)+

lemma tabulate_nth: "y < h \<Longrightarrow> x < w \<Longrightarrow> tabulate h w f ! y ! x = f (int y, int x)"
  by (simp add: tabulate_def)

lemma grid_size_map [simp]: "grid_height (map_grid f g) = grid_height g" "grid_width (map_grid f g) = grid_width g"
  by (simp_all add: map_grid_def grid_height_def grid_width_def split: list.splits)

lemma in_mask_bounds: "in_mask m (y, x) \<Longrightarrow> 0 \<le> y \<and> nat y < grid_height m \<and> 0 \<le> x \<and> nat x < grid_width m"
  by (auto simp: in_mask_def)

text \<open>The component mask marks exactly the cells reachable from a seed in the mask.\<close>

lemma connected_component_mask_reachable:
  assumes "in_mask m seed" and "y < grid_height m" and "x < grid_width m"
  shows "connected_component_mask m seed ! y ! x \<longleftrightarrow> (seed, (int y, int x)) \<in> (mask_step m)\<^sup>*"
  using assms component_cells_reachable[OF assms(1)]
  by (simp add: connected_component_mask_def Let_def tabulate_nth)

lemma connected_component_mask_subset:
  assumes "y < grid_height m" and "x < grid_width m" and "connected_component_mask m seed ! y ! x"
  shows "m ! y ! x"
proof (cases "in_mask m seed")
  case True
  then have "(seed, (int y, int x)) \<in> (mask_step m)\<^sup>*"
    using assms by (simp add: connected_component_mask_reachable)
  then have "in_mask m (int y, int x)"
    by (cases rule: rtranclE) (use True in \<open>auto simp: mask_step_def\<close>)
  then show ?thesis by (simp add: in_mask_def)
next
  case False
  then show ?thesis using assms by (simp add: connected_component_mask_def component_cells_def Let_def tabulate_nth)
qed

lemma count_true_le: "count_true bs \<le> length bs"
  by (simp add: count_true_def)

lemma ratio_bounds:
  assumes "a \<le> b" shows "0 \<le> ratio a b \<and> ratio a b \<le> 1"
proof -
  have "(0::rat) \<le> of_nat a / of_nat b" "of_nat a / of_nat b \<le> (1::rat)"
    using assms by (simp_all add: divide_le_eq)
  then show ?thesis unfolding ratio_def by (simp add: fl_nonneg fl_le_1)
qed

lemma retention_bounds: "0 \<le> retention g r \<and> retention g r \<le> 1"
  by (simp add: retention_def Let_def ratio_bounds count_true_le)

lemma balance_bounds:
  assumes "0 \<le> l" and "0 \<le> r" shows "0 \<le> balance l r \<and> balance l r \<le> 1"
proof (cases "max l r \<le> 0")
  case False
  then have "0 < max l r" "min l r \<le> max l r" "0 \<le> min l r" using assms by auto
  then have "0 \<le> min l r / max l r" "min l r / max l r \<le> 1"
    by (simp_all only: divide_le_eq_1_pos divide_nonneg_pos)
  then have "0 \<le> fl (min l r / max l r)" "fl (min l r / max l r) \<le> 1"
    using fl_nonneg fl_le_1 by blast+
  then show ?thesis using False by (simp add: balance_def Let_def)
qed (simp add: balance_def Let_def)

lemma overlap_bounds: "0 \<le> component_face_overlap g b \<and> component_face_overlap g b \<le> 1"
  by (simp add: component_face_overlap_def Let_def ratio_bounds count_true_le split: prod.splits option.splits)

text \<open>
  Refinement inside the primary component never lowers an entry; outside it an entry is kept, or
  cleared when it was confident foreground.
\<close>

lemma refine_cells_nth:
  assumes "y < grid_height alpha" and "x < grid_width alpha"
  shows "refine_cells alpha support ft ! y ! x =
    (let a = alpha ! y ! x; s = support ! y ! x;
         out = (if a > REMOVE_HIGH_BACKGROUND_THRESHOLD \<and> \<not> s then 0 else a)
     in if y \<ge> ft \<and> s \<and> out \<ge> BODY_REINFORCE_THRESHOLD then max out BODY_REINFORCE_ALPHA else out)"
  using assms by (simp add: refine_cells_def tabulate_nth Let_def)

lemma refine_matte_cases:
  assumes "refine_matte alpha box = Inr out"
  shows "out = alpha \<or> (\<exists>seed ft. out = refine_cells alpha
     (connected_component_mask (map_grid (\<lambda>a. a > SUPPORT_THRESHOLD) alpha) seed) ft)"
  using assms by (auto simp: refine_matte_def Let_def split: option.splits prod.splits if_splits)

lemma refine_matte_entry:
  assumes "refine_matte alpha box = Inr out" and "y < grid_height alpha" and "x < grid_width alpha"
  shows "out ! y ! x \<ge> alpha ! y ! x \<or> out ! y ! x = 0 \<and> alpha ! y ! x > REMOVE_HIGH_BACKGROUND_THRESHOLD"
  using refine_matte_cases[OF assms(1)] assms(2,3)
  by (auto simp: refine_cells_nth Let_def split: if_splits)

text \<open>An accepted face box has four finite numbers in range.\<close>

lemma validated_face_box_range: "validated_face_box vs = Inr (Some b) \<Longrightarrow> face_box_in_range b"
  by (auto simp: validated_face_box_def split: sum.splits option.splits list.splits if_splits)

lemma validate_face_box_values_range: "validate_face_box_values rt v = Inr (Some b) \<Longrightarrow> face_box_in_range b"
  by (cases v) (auto split: sum.splits dest: validated_face_box_range)

lemma parse_normalized_face_box_range: "parse_normalized_face_box rt v = Inr (Some b) \<Longrightarrow> face_box_in_range b"
  by (auto simp: parse_normalized_face_box_def Let_def split: option.splits if_splits dest: validated_face_box_range)

end
