(* ===== verification/Crop.thy ===== *)
theory Crop
  imports Matte
begin

text \<open>
  The passport crop (\<open>app/portrait/crop.py\<close>) and the background composition
  (\<open>app/portrait/background.py\<close>). The crop works on pixel coordinates; the facts about its box hold
  whatever the floating-point steps return, because the code clamps integers.
\<close>

section \<open>Crop\<close>

definition PORTRAIT_ASPECT :: rat where "PORTRAIT_ASPECT = 3 / 4"
definition HEAD_HEIGHT_RATIO :: rat where "HEAD_HEIGHT_RATIO = fl (52 / 100)"
definition TOP_MARGIN_RATIO :: rat where "TOP_MARGIN_RATIO = fl (10 / 100)"
definition HAIR_PAD_RATIO :: rat where "HAIR_PAD_RATIO = fl (2 / 100)"
definition SHOULDER_WIDTH_RATIO :: rat where "SHOULDER_WIDTH_RATIO = fl (84 / 100)"
definition BOTTOM_MARGIN_RATIO :: rat where "BOTTOM_MARGIN_RATIO = fl (4 / 100)"
definition ALPHA_THRESHOLD :: rat where "ALPHA_THRESHOLD = 1 / 2"

record crop_box =
  cx0 :: int
  cy0 :: int
  cx1 :: int
  cy1 :: int
  cwidth :: int
  cheight :: int
  cnormalized :: "rat \<times> rat \<times> rat \<times> rat"

text \<open>\<open>int(c * n)\<close> and \<open>int(n * c)\<close> for an integer \<open>n\<close>.\<close>

definition scaled :: "rat \<Rightarrow> int \<Rightarrow> int" where
  "scaled c n = py_trunc (fl (c * of_int n))"

definition foreground_bbox :: "rat grid \<Rightarrow> exn + int \<times> int \<times> int \<times> int" where
  "foreground_bbox alpha =
     (let m = map_grid (\<lambda>a. a > ALPHA_THRESHOLD) alpha in
      if true_rows m = [] then Inl ValueErr
      else Inr (int (hd (true_cols m)), int (hd (true_rows m)),
                int (last (true_cols m)) + 1, int (last (true_rows m)) + 1))"

text \<open>The subject anchors: head centre, head top, head bottom.\<close>

definition head_anchors :: "face_box option \<Rightarrow> int \<Rightarrow> int \<Rightarrow> int \<times> int \<times> int \<times> int \<Rightarrow> int \<times> int \<times> int" where
  "head_anchors face_box width height fg =
     (case fg of (fg_x0, fg_y0, fg_x1, fg_y1) \<Rightarrow>
      case face_box of
        Some (fx, fy, fw, fh) \<Rightarrow>
          (scaled (fl (fx + fl (fw / 2))) width, scaled fy height, scaled (fl (fy + fh)) height)
      | None \<Rightarrow> ((fg_x0 + fg_x1) div 2, fg_y0, fg_y0 + scaled (fl (42 / 100)) (max 1 (fg_y1 - fg_y0))))"

text \<open>The desired 3:4 frame, from the head height and the shoulder width.\<close>

definition desired_size :: "int \<Rightarrow> int \<Rightarrow> int \<times> int" where
  "desired_size head_extent fg_width =
     (let height_from_head = fl (of_int head_extent / HEAD_HEIGHT_RATIO);
          width_from_shoulders = fl (of_int fg_width / SHOULDER_WIDTH_RATIO);
          width_needed = max (py_trunc (fl (3 / 4 * height_from_head))) (py_trunc width_from_shoulders);
          crop_height = max 16 (round_half_even (fl (of_int width_needed / PORTRAIT_ASPECT)))
      in (scaled PORTRAIT_ASPECT crop_height, crop_height))"

definition fit_size :: "int \<Rightarrow> int \<Rightarrow> int \<times> int \<Rightarrow> int \<times> int" where
  "fit_size width height wanted =
     (case wanted of (crop_width, crop_height) \<Rightarrow>
      let (cw, ch) =
        (if crop_width > width \<or> crop_height > height then
           (let fit_width = scaled PORTRAIT_ASPECT height;
                (fw, fh) = (if fit_width > width
                            then (width, round_half_even (fl (of_int width / PORTRAIT_ASPECT)))
                            else (fit_width, height))
            in (max 12 (min crop_width fw), max 12 (min crop_height fh)))
         else (crop_width, crop_height))
      in (min cw width, min ch height))"

text \<open>The vertical placement: above the head and the hair, then shifted down by the slack there is.\<close>

definition vertical_shift :: "int \<Rightarrow> int \<Rightarrow> int \<Rightarrow> int \<Rightarrow> int" where
  "vertical_shift hair_line crop_top crop_bottom needed_bottom =
     (if crop_bottom < needed_bottom
      then min (needed_bottom - crop_bottom) (max 0 (hair_line - crop_top)) else 0)"

definition place_vertical :: "int \<Rightarrow> int \<Rightarrow> int \<Rightarrow> int \<Rightarrow> int \<times> int" where
  "place_vertical head_top fg_y0 fg_y1 crop_height =
     (let hair_line = fg_y0 - max 2 (scaled HAIR_PAD_RATIO crop_height);
          crop_top = max 0 (min (head_top - scaled TOP_MARGIN_RATIO crop_height) hair_line);
          shift = vertical_shift hair_line crop_top (crop_top + crop_height)
            (fg_y1 + max 2 (scaled BOTTOM_MARGIN_RATIO crop_height))
      in (crop_top + shift, crop_top + crop_height + shift))"

text \<open>The left edge: face-centred, kept inside the feasible range of both margins when there is one.\<close>

definition left_edge :: "int \<Rightarrow> int \<Rightarrow> int \<Rightarrow> int \<Rightarrow> int \<Rightarrow> int" where
  "left_edge width crop_width lo hi centred =
     (let x0 = max 0 (if lo \<le> hi then max lo (min hi centred) else centred)
      in if x0 + crop_width > width then width - crop_width else x0)"

definition place_horizontal :: "int \<Rightarrow> int \<Rightarrow> int \<Rightarrow> int \<Rightarrow> int \<Rightarrow> int \<times> int" where
  "place_horizontal width face_center_x fg_x0 fg_x1 crop_width =
     (let matte_center_x = (fg_x0 + fg_x1) div 2;
          face_weight = fl (7 / 10);
          desired_center_x = round_half_even (fl (fl (face_weight * of_int face_center_x)
             + fl (fl (1 - face_weight) * of_int matte_center_x)));
          min_side = max 2 (scaled (fl (4 / 100)) crop_width);
          x0 = left_edge width crop_width (fg_x1 + min_side - crop_width) (fg_x0 - min_side)
            (desired_center_x - crop_width div 2)
      in (x0, x0 + crop_width))"

text \<open>The final clamping, in the order of the code.\<close>

definition clamp_horizontal :: "int \<Rightarrow> int \<Rightarrow> int \<times> int \<Rightarrow> int \<times> int" where
  "clamp_horizontal width crop_width xs =
     (let (x0, x1) = (if fst xs < 0 then (0, crop_width) else xs)
      in if x1 > width then (width - crop_width, width) else (x0, x1))"

definition clamp_vertical :: "int \<Rightarrow> int \<Rightarrow> int \<times> int \<Rightarrow> int \<times> int" where
  "clamp_vertical height crop_height ys =
     (let (y0, y1) = (if snd ys > height then (max 0 (height - crop_height), height) else ys)
      in if y0 < 0 then (0, min crop_height height) else (y0, y1))"

definition passport_crop :: "rat grid \<Rightarrow> int \<times> int \<Rightarrow> face_box option \<Rightarrow> exn + crop_box" where
  "passport_crop alpha image_size face_box =
     (case foreground_bbox alpha of
        Inl e \<Rightarrow> Inl e
      | Inr (fg_x0, fg_y0, fg_x1, fg_y1) \<Rightarrow>
          (let (width, height) = image_size;
               (head_center_x, head_top, head_bottom) =
                 head_anchors face_box width height (fg_x0, fg_y0, fg_x1, fg_y1);
               (crop_width, crop_height) = fit_size width height
                 (desired_size (max 8 (head_bottom - head_top)) (max 1 (fg_x1 - fg_x0)));
               (y0, y1) = clamp_vertical height crop_height
                 (place_vertical head_top fg_y0 fg_y1 crop_height);
               (x0, x1) = clamp_horizontal width crop_width
                 (place_horizontal width head_center_x fg_x0 fg_x1 crop_width)
           in if width = 0 \<or> height = 0 then Inl ValueErr
              else Inr \<lparr>cx0 = x0, cy0 = y0, cx1 = x1, cy1 = y1, cwidth = x1 - x0, cheight = y1 - y0,
                   cnormalized = (round4 (fl (of_int x0 / of_int width)), round4 (fl (of_int y0 / of_int height)),
                     round4 (fl (of_int x1 / of_int width)), round4 (fl (of_int y1 / of_int height)))\<rparr>))"

section \<open>Facts on the crop\<close>

lemma desired_size_pos: "desired_size a b = (cw, ch) \<Longrightarrow> 1 \<le> cw \<and> 16 \<le> ch"
proof -
  assume "desired_size a b = (cw, ch)"
  then have ch: "16 \<le> ch" and cw: "cw = scaled PORTRAIT_ASPECT ch"
    by (auto simp: desired_size_def Let_def)
  from ch have "(16 :: rat) \<le> of_int ch" by (metis of_int_le_iff of_int_numeral)
  then have "1 \<le> PORTRAIT_ASPECT * of_int ch" by (simp add: PORTRAIT_ASPECT_def)
  then show ?thesis using ch by (simp add: cw scaled_def fl_ge_1 py_trunc_ge_1)
qed

lemma fit_size_inside:
  assumes "fit_size width height (a, b) = (cw, ch)" and "1 \<le> a" "1 \<le> b" "1 \<le> width" "1 \<le> height"
  shows "1 \<le> cw \<and> cw \<le> width \<and> 1 \<le> ch \<and> ch \<le> height"
  using assms by (auto simp: fit_size_def Let_def split: if_splits prod.splits)

lemma vertical_shift_range: "0 \<le> vertical_shift h t b n \<and> vertical_shift h t b n \<le> max 0 (h - t)"
  by (auto simp: vertical_shift_def)

lemma place_vertical_top:
  assumes "place_vertical ht fy0 fy1 ch = (y0, y1)"
  shows "0 \<le> y0 \<and> y1 = y0 + ch \<and> y0 \<le> max 0 (fy0 - 2)"
proof -
  obtain pad q n where pad: "2 \<le> pad"
    and y: "(max 0 (min q (fy0 - pad)) + vertical_shift (fy0 - pad) (max 0 (min q (fy0 - pad)))
        (max 0 (min q (fy0 - pad)) + ch) n, max 0 (min q (fy0 - pad)) + ch
        + vertical_shift (fy0 - pad) (max 0 (min q (fy0 - pad))) (max 0 (min q (fy0 - pad)) + ch) n) = (y0, y1)"
    using assms unfolding place_vertical_def Let_def by (meson max.cobounded1)
  define t where "t = max 0 (min q (fy0 - pad))"
  have t: "0 \<le> t" "t \<le> max 0 (fy0 - pad)" by (auto simp: t_def)
  show ?thesis using y vertical_shift_range[of "fy0 - pad" t "t + ch" n] pad t
    unfolding t_def[symmetric] by auto
qed

lemma clamp_vertical_inside:
  assumes "clamp_vertical height ch (y0, y0 + ch) = (z0, z1)" and "0 \<le> y0" and "1 \<le> ch" "ch \<le> height"
  shows "0 \<le> z0 \<and> z1 = z0 + ch \<and> z1 \<le> height \<and> z0 \<le> y0"
  using assms by (auto simp: clamp_vertical_def split: if_splits)

lemma left_edge_range: "cw \<le> width \<Longrightarrow> 0 \<le> left_edge width cw lo hi c \<and> left_edge width cw lo hi c + cw \<le> width"
  by (auto simp: left_edge_def Let_def)

lemma place_horizontal_range:
  assumes "place_horizontal width c a b cw = (x0, x1)" and "cw \<le> width"
  shows "0 \<le> x0 \<and> x1 = x0 + cw \<and> x1 \<le> width"
  using assms left_edge_range unfolding place_horizontal_def Let_def by auto

lemma place_clamp_horizontal_inside:
  assumes "clamp_horizontal width cw (place_horizontal width c a b cw) = (x0, x1)" and "cw \<le> width"
  shows "0 \<le> x0 \<and> x1 = x0 + cw \<and> x1 \<le> width"
proof -
  obtain u v where p: "place_horizontal width c a b cw = (u, v)" by fastforce
  from place_horizontal_range[OF p assms(2)] assms(1) show ?thesis
    by (simp add: p clamp_horizontal_def)
qed

text \<open>The box is a non-empty part of the image, and its top edge never cuts the highest foreground row.\<close>

lemma passport_crop_inside:
  assumes crop: "passport_crop alpha (width, height) face_box = Inr c" and dims: "1 \<le> width" "1 \<le> height"
    and fg: "foreground_bbox alpha = Inr (fx0, fy0, fx1, fy1)" and "0 \<le> fy0"
  shows "0 \<le> cx0 c \<and> cx0 c < cx1 c \<and> cx1 c \<le> width \<and> 0 \<le> cy0 c \<and> cy0 c < cy1 c \<and> cy1 c \<le> height
    \<and> cwidth c = cx1 c - cx0 c \<and> cheight c = cy1 c - cy0 c \<and> cy0 c \<le> fy0"
proof -
  obtain hc ht hb where h: "head_anchors face_box width height (fx0, fy0, fx1, fy1) = (hc, ht, hb)"
    by (metis prod_cases3)
  obtain a b where d: "desired_size (max 8 (hb - ht)) (max 1 (fx1 - fx0)) = (a, b)" by fastforce
  obtain cw ch where s: "fit_size width height (a, b) = (cw, ch)" by fastforce
  obtain y0 y1 where v: "place_vertical ht fy0 fy1 ch = (y0, y1)" by fastforce
  obtain z0 z1 where z: "clamp_vertical height ch (y0, y1) = (z0, z1)" by fastforce
  obtain x0 x1 where x: "clamp_horizontal width cw (place_horizontal width hc fx0 fx1 cw) = (x0, x1)" by fastforce
  have size: "1 \<le> cw \<and> cw \<le> width \<and> 1 \<le> ch \<and> ch \<le> height"
    using desired_size_pos[OF d] by (intro fit_size_inside[OF s]) (use dims in auto)
  have y: "0 \<le> y0 \<and> y1 = y0 + ch \<and> y0 \<le> max 0 (fy0 - 2)" by (rule place_vertical_top[OF v])
  have zz: "0 \<le> z0 \<and> z1 = z0 + ch \<and> z1 \<le> height \<and> z0 \<le> y0"
    by (rule clamp_vertical_inside) (use z y size in auto)
  have xx: "0 \<le> x0 \<and> x1 = x0 + cw \<and> x1 \<le> width"
    by (rule place_clamp_horizontal_inside[OF x]) (use size in simp)
  have "cx0 c = x0 \<and> cx1 c = x1 \<and> cy0 c = z0 \<and> cy1 c = z1 \<and> cwidth c = x1 - x0 \<and> cheight c = z1 - z0"
    using crop dims by (auto simp: passport_crop_def fg h d s v z x)
  then show ?thesis using size y zz xx \<open>0 \<le> fy0\<close> by auto
qed

lemma foreground_bbox_nonneg: "foreground_bbox alpha = Inr (a, b, c, d) \<Longrightarrow> 0 \<le> b"
  by (auto simp: foreground_bbox_def Let_def split: if_splits)

section \<open>Background\<close>

type_synonym pixel = "byte \<times> byte \<times> byte"

definition hex_value :: "char \<Rightarrow> nat" where
  "hex_value c = (if is_digit c then of_char c - 48 else of_char (to_lower c) - 87)"

definition parse_background_color :: "string \<Rightarrow> exn + pixel" where
  "parse_background_color v =
     (if \<not> is_rrggbb v then Inl ValueErr
      else (let h = (\<lambda>i. word_of_nat (16 * hex_value (v ! i) + hex_value (v ! (i + 1))) :: byte)
            in Inr (h 1, h 3, h 5)))"

text \<open>One channel of the blend in float32, clipped and truncated to a byte.\<close>

definition clip_unit :: "rat \<Rightarrow> rat" where "clip_unit a = max 0 (min 1 a)"

definition blend_channel :: "byte \<Rightarrow> rat \<Rightarrow> byte \<Rightarrow> byte" where
  "blend_channel f alpha b =
     (let a = clip_unit alpha;
          v = fl32 (fl32 (of_nat (unat f) * a) + fl32 (of_nat (unat b) * fl32 (1 - a)))
      in word_of_int (py_trunc (max 0 (min 255 v))))"

definition blend_pixel :: "pixel \<Rightarrow> pixel \<Rightarrow> rat \<Rightarrow> pixel" where
  "blend_pixel bg fg a = (case (fg, bg) of ((r, g, b), (r', g', b')) \<Rightarrow>
     (blend_channel r a r', blend_channel g a g', blend_channel b a b'))"

definition composite_solid :: "pixel grid \<Rightarrow> rat grid \<Rightarrow> pixel \<Rightarrow> pixel grid" where
  "composite_solid foreground alpha bg = map2 (map2 (blend_pixel bg)) foreground alpha"

text \<open>Opaque pixels are kept bit for bit and transparent ones become the background colour.\<close>

lemma byte_bound: "(unsigned (f :: byte) :: rat) \<le> 255"
proof -
  have "unat f < 2 ^ LENGTH(8)" by (rule unsigned_less)
  then have "unat f \<le> 255" by simp
  then have "(of_nat (unat f) :: rat) \<le> of_nat 255" by (simp only: of_nat_le_iff)
  then show ?thesis by simp
qed

lemma byte_back: "word_of_int (py_trunc (max 0 (min 255 (unsigned (f :: byte))))) = f"
proof -
  have "(0 :: rat) \<le> of_nat (unat f)" by (rule of_nat_0_le_iff)
  then have "max 0 (min 255 (unsigned f)) = (of_nat (unat f) :: rat)" using byte_bound[of f] by simp
  moreover have "py_trunc (of_nat (unat f)) = int (unat f)" unfolding py_trunc_def
    by (metis floor_of_nat of_nat_less_0_iff)
  ultimately show ?thesis by simp
qed

lemma byte_exact: "fl32 (unsigned (f :: byte)) = unsigned f"
proof -
  have "unat f < 2 ^ LENGTH(8)" by (rule unsigned_less)
  then have "unat f < 16777216" by simp
  from fl32_byte[OF this] show ?thesis by simp
qed

lemma fl32_one [simp]: "fl32 1 = 1"
  using fl32_byte[of 1] by simp

lemma blend_channel_opaque: "1 \<le> a \<Longrightarrow> blend_channel f a b = f"
  by (simp add: blend_channel_def clip_unit_def byte_exact byte_back)

lemma blend_channel_transparent: "a \<le> 0 \<Longrightarrow> blend_channel f a b = b"
  by (simp add: blend_channel_def clip_unit_def byte_exact byte_back min.absorb2 max.absorb1)

lemma blend_pixel_ends:
  "1 \<le> a \<Longrightarrow> blend_pixel bg fg a = fg" "a \<le> 0 \<Longrightarrow> blend_pixel bg fg a = bg"
  by (simp_all add: blend_pixel_def blend_channel_opaque blend_channel_transparent split: prod.splits)

lemma composite_solid_nth:
  assumes "y < length fg" "y < length al" "x < length (fg ! y)" "x < length (al ! y)"
  shows "composite_solid fg al bg ! y ! x = blend_pixel bg (fg ! y ! x) (al ! y ! x)"
  using assms by (simp add: composite_solid_def)

end
