(* ===== verification/Portrait.thy ===== *)
theory Portrait
  imports Crop Tx_Store
begin

text \<open>
  The portrait processor (\<open>app/portrait/processor.py\<close>) with the model file check of
  \<open>app/portrait/segmentation.py\<close>. Pillow and ONNX Runtime are parameters: decoding, the Gaussian
  blur, JPEG encoding, the model file and its inference (which the theory Segmentation models).
\<close>

record rgb_image =
  ri_width :: nat
  ri_height :: nat
  ri_pixels :: "pixel grid"

record segmentation =
  sg_name :: string
  sg_sha256 :: string
  sg_predict :: "rgb_image \<Rightarrow> exn + rat grid"

text \<open>
  \<open>pil_decode\<close> is \<open>None\<close> when Pillow refuses the file; \<open>model_file\<close> is \<open>None\<close> when it cannot be
  read; \<open>onnx_session\<close> is the inference of a model file.
\<close>

record imaging =
  pil_decode :: "blob \<Rightarrow> rgb_image option"
  gaussian_blur :: "byte grid \<Rightarrow> byte grid"
  jpeg_encode :: "int \<Rightarrow> pixel grid \<Rightarrow> blob"
  model_file :: "string \<Rightarrow> blob option"
  onnx_session :: "blob \<Rightarrow> rgb_image \<Rightarrow> exn + rat grid"

definition PROCESSOR_VERSION :: string where "PROCESSOR_VERSION = ''portrait-processor-v5''"
definition CROP_VERSION :: string where "CROP_VERSION = ''passport-crop-v3''"
definition MATTE_REFINEMENT_VERSION :: string where "MATTE_REFINEMENT_VERSION = ''matte-refinement-v3''"

section \<open>The model\<close>

definition OnnxPortraitSegmentation :: "runtime \<Rightarrow> imaging \<Rightarrow> string \<Rightarrow> string \<Rightarrow> exn + segmentation" where
  "OnnxPortraitSegmentation rt im model_path expected_sha256 =
     (case model_file im model_path of
        None \<Rightarrow> Inl OsErr
      | Some raw \<Rightarrow>
          if expected_sha256 \<noteq> [] \<and> sha_blob rt raw \<noteq> str_lower expected_sha256
          then Inl (PortraitError PORTRAIT_MODEL_INTEGRITY ''portrait model SHA-256 mismatch'')
          else Inr \<lparr>sg_name = ''MODNet photographic portrait matting'',
                    sg_sha256 = (if expected_sha256 = [] then sha_blob rt raw else expected_sha256),
                    sg_predict = onnx_session im raw\<rparr>)"

definition segmentation_provider ::
  "runtime \<Rightarrow> imaging \<Rightarrow> settings \<Rightarrow> segmentation option \<Rightarrow> exn + segmentation" where
  "segmentation_provider rt im s injected =
     (case injected of
        Some p \<Rightarrow> Inr p
      | None \<Rightarrow>
          if portrait_model_path s = []
          then Inl (PortraitError PORTRAIT_MODEL_UNAVAILABLE
                      ''portrait model is not configured (PORTRAIT_MODEL_PATH)'')
          else OnnxPortraitSegmentation rt im (portrait_model_path s) (portrait_model_sha256 s))"

section \<open>Steps of the pipeline\<close>

definition decode_image :: "imaging \<Rightarrow> blob \<Rightarrow> exn + rgb_image" where
  "decode_image im data = (case pil_decode im data of
     None \<Rightarrow> Inl (PortraitError PORTRAIT_INVALID_SOURCE ''source image is corrupt or unsupported'')
   | Some i \<Rightarrow> Inr i)"

definition quality_failed :: exn where
  "quality_failed = PortraitError PORTRAIT_QUALITY_FAILED
     ''portrait matte is structurally unusable in the primary face/head region''"

definition resolve_matte :: "rat grid \<Rightarrow> rgb_image \<Rightarrow> face_box option \<Rightarrow> exn + rat grid" where
  "resolve_matte raw_alpha img face_box =
     (if (grid_height raw_alpha, grid_width raw_alpha) \<noteq> (ri_height img, ri_width img)
      then refine_matte raw_alpha face_box
      else
      (let raw_integrity = validate_portrait_matte raw_alpha face_box in
       if \<not> mi_ok raw_integrity then Inl quality_failed
       else sum_bind (refine_matte raw_alpha face_box) (\<lambda>refined.
         let refined_integrity = validate_portrait_matte refined face_box;
             reverted = \<not> refinement_is_acceptable raw_integrity refined_integrity
         in Inr (if reverted then raw_alpha else refined))))"

definition to_byte :: "rat \<Rightarrow> byte" where
  "to_byte a = word_of_int (py_trunc (fl32 (clip_unit a * 255)))"

definition refine_alpha :: "imaging \<Rightarrow> rat grid \<Rightarrow> rat grid" where
  "refine_alpha im alpha =
     map_grid (\<lambda>b. fl32 (of_nat (unat b) / 255)) (gaussian_blur im (map_grid to_byte alpha))"

text \<open>\<open>image.crop(box)\<close> and \<open>alpha[y0:y1, x0:x1]\<close> for a box inside the image.\<close>

definition crop_grid :: "'a grid \<Rightarrow> crop_box \<Rightarrow> 'a grid" where
  "crop_grid g c = map (\<lambda>row. take (nat (cx1 c - cx0 c)) (drop (nat (cx0 c)) row))
     (take (nat (cy1 c - cy0 c)) (drop (nat (cy0 c)) g))"

definition compose_portrait ::
  "imaging \<Rightarrow> settings \<Rightarrow> exn + segmentation \<Rightarrow> blob \<Rightarrow> face_box option \<Rightarrow> exn + pixel grid \<times> crop_box" where
  "compose_portrait im s provider image_bytes face_box =
     sum_bind (decode_image im image_bytes) (\<lambda>img.
     sum_bind provider (\<lambda>seg.
     sum_bind (sg_predict seg img) (\<lambda>raw_alpha.
     sum_bind (resolve_matte raw_alpha img face_box) (\<lambda>alpha0.
     (let alpha = refine_alpha im alpha0 in
     sum_bind (passport_crop alpha (int (ri_width img), int (ri_height img)) face_box) (\<lambda>crop_box.
     sum_bind (parse_background_color (portrait_background_color s)) (\<lambda>background.
     (let foreground = crop_grid (ri_pixels img) crop_box; crop_alpha = crop_grid alpha crop_box in
      if (grid_height foreground, grid_width foreground) \<noteq> (grid_height crop_alpha, grid_width crop_alpha)
      then Inl (PortraitError PORTRAIT_INVALID_SOURCE
                  ''portrait crop dimensions do not match the alpha matte'')
      else Inr (composite_solid foreground crop_alpha background, crop_box)))))))))"

definition json_rat :: "rat \<Rightarrow> json" where "json_rat q = JFloat (Fin q)"

definition build_metadata ::
  "settings \<Rightarrow> segmentation \<Rightarrow> string \<Rightarrow> artifact_reference \<Rightarrow> crop_box \<Rightarrow> int \<Rightarrow> int \<Rightarrow> int \<Rightarrow> int \<Rightarrow> obj" where
  "build_metadata s seg source_path output crop processing_ms w h now =
     (case cnormalized crop of (n0, n1, n2, n3) \<Rightarrow>
     [(''status'', JStr ''SUCCESS''), (''processor'', JStr ''portrait-processor''),
      (''processor_version'', JStr PROCESSOR_VERSION),
      (''matting_model'', JStr (sg_name seg)), (''matting_model_sha256'', JStr (sg_sha256 seg)),
      (''matte_refinement_version'', JStr MATTE_REFINEMENT_VERSION),
      (''model_name'', JStr (sg_name seg)), (''model_hash'', JStr (sg_sha256 seg)),
      (''source_artifact'', JStr source_path), (''output_artifact'', JStr (ref_relative_path output)),
      (''output_sha256'', JStr (ref_sha256 output)), (''crop_version'', JStr CROP_VERSION),
      (''crop_coordinates'', JObj [(''x0'', JInt (cx0 crop)), (''y0'', JInt (cy0 crop)),
         (''x1'', JInt (cx1 crop)), (''y1'', JInt (cy1 crop)),
         (''normalized'', JArr (map json_rat [n0, n1, n2, n3]))]),
      (''background_mode'', JStr (portrait_background_mode s)),
      (''background_color'', JStr (portrait_background_color s)),
      (''output_dimensions'', JObj [(''width'', JInt w), (''height'', JInt h)]),
      (''output_format'', JStr (portrait_output_format s)), (''jpeg_quality'', JInt (portrait_jpeg_quality s)),
      (''processing_ms'', JInt processing_ms), (''timestamp'', JTime now)])"

section \<open>The processor\<close>

record portrait_result =
  po_output :: artifact_reference
  po_width :: nat
  po_height :: nat
  po_model :: "string \<times> string"
  po_crop_box :: crop_box
  po_processing_ms :: int

definition PORTRAIT_PROCESSING_PATH :: string where
  "PORTRAIT_PROCESSING_PATH = ARTIFACT_RELATIVE_PATHS PORTRAIT_PROCESSING_RESULT"

text \<open>\<open>candidate\<close> is the staging path: with one, the run does not touch the transaction's status.\<close>

definition store_output ::
  "runtime \<Rightarrow> string \<Rightarrow> string option \<Rightarrow> blob \<Rightarrow> artifact_reference M" where
  "store_output rt t candidate encoded =
     (case candidate of
        Some p \<Rightarrow> andthen (write_bytes rt t p encoded)
          (ret \<lparr>ref_transaction_id = t, ref_artifact_type = PROCESSED_PORTRAIT, ref_relative_path = p,
                ref_content_type = ''image/jpeg'', ref_size_bytes = blob_size rt encoded,
                ref_sha256 = sha_blob rt encoded\<rparr>)
      | None \<Rightarrow> write_artifact rt t PROCESSED_PORTRAIT encoded ''image/jpeg'')"

text \<open>The body of the \<open>try\<close>.\<close>

definition run_pipeline ::
  "runtime \<Rightarrow> imaging \<Rightarrow> settings \<Rightarrow> segmentation option \<Rightarrow> segmentation \<Rightarrow> string \<Rightarrow> string
    \<Rightarrow> face_box option \<Rightarrow> string option \<Rightarrow> int \<Rightarrow> portrait_result M" where
  "run_pipeline rt im s injected model source_path t face_box candidate started =
     bnd (read_artifact t source_path) (\<lambda>image_bytes.
     bnd (lift (compose_portrait im s (segmentation_provider rt im s injected) image_bytes face_box)) (\<lambda>(composed, crop).
     (let encoded = jpeg_encode im (portrait_jpeg_quality s) composed;
          w = grid_width composed; h = grid_height composed in
     bnd (store_output rt t candidate encoded) (\<lambda>output.
     bnd (gets clock) (\<lambda>now.
     andthen (write_json t PORTRAIT_PROCESSING_PATH
       (build_metadata s model source_path output crop ((now - started) div 1000) (int w) (int h) now))
     (andthen (when_do (candidate = None) (update_transaction_status rt t ''PORTRAIT_READY''))
     (ret \<lparr>po_output = output, po_width = w, po_height = h, po_model = (sg_name model, sg_sha256 model),
           po_crop_box = crop, po_processing_ms = (now - started) div 1000\<rparr>)))))))"

definition record_failure :: "runtime \<Rightarrow> string \<Rightarrow> bool \<Rightarrow> bool \<Rightarrow> unit M" where
  "record_failure rt t candidate_mode set_technical_error =
     when_do (\<not> candidate_mode \<and> set_technical_error) (update_transaction_status rt t ''TECHNICAL_ERROR'')"

text \<open>The \<open>except Exception\<close> clause.\<close>

definition pipeline_failed :: "runtime \<Rightarrow> string \<Rightarrow> string option \<Rightarrow> string option \<Rightarrow> exn \<Rightarrow> 'a M" where
  "pipeline_failed rt t candidate previous_status e =
     (case e of
        PortraitError code _ \<Rightarrow>
          (let retryable_quality = code \<in> set RETRYABLE_PORTRAIT_CODES in
           andthen (record_failure rt t (candidate \<noteq> None) (\<not> retryable_quality))
           (andthen (case previous_status of
               Some p \<Rightarrow> when_do (retryable_quality \<and> candidate = None) (update_transaction_status rt t p)
             | None \<Rightarrow> ret ())
           (raise e)))
      | _ \<Rightarrow>
          andthen (record_failure rt t (candidate \<noteq> None) True)
          (raise (if e \<in> {OsErr, ValueErr, UnicodeErr}
                  then PortraitError PORTRAIT_INVALID_SOURCE ''portrait source image could not be processed''
                  else PortraitError PORTRAIT_PROCESSING_FAILED ''portrait processing failed'')))"

text \<open>\<open>str(metadata.get(''status'', '''')) or None\<close>.\<close>

definition previous_status_of :: "runtime \<Rightarrow> obj \<Rightarrow> string option" where
  "previous_status_of rt md = (case str_text rt (py_str rt (jget_d md ''status'' (JStr []))) of
     Some [] \<Rightarrow> None | v \<Rightarrow> v)"

definition process_portrait ::
  "runtime \<Rightarrow> imaging \<Rightarrow> settings \<Rightarrow> segmentation option \<Rightarrow> string \<Rightarrow> string \<Rightarrow> face_box option
    \<Rightarrow> string option \<Rightarrow> portrait_result M" where
  "process_portrait rt im s injected source_path t face_box candidate =
     (if \<not> portrait_processing_enabled s
      then raise (PortraitError PORTRAIT_PROCESSING_FAILED ''portrait processing is disabled'')
      else
      bnd (transaction_exists t) (\<lambda>present.
      if \<not> present then raise (PortraitError PORTRAIT_PROCESSING_FAILED ''transaction does not exist'')
      else
      bnd (if candidate \<noteq> None then ret None
           else bnd (read_transaction_json t) (\<lambda>md.
                andthen (update_transaction_status rt t ''PORTRAIT_PROCESSING'')
                (ret (previous_status_of rt md)))) (\<lambda>previous_status.
      bnd (gets clock) (\<lambda>started.
      bnd (lift (segmentation_provider rt im s injected)) (\<lambda>model.
        catch (run_pipeline rt im s injected model source_path t face_box candidate started)
              (pipeline_failed rt t candidate previous_status))))))"

section \<open>Facts\<close>

lemma rel_ok_processing [path_simps]: "rel_ok PORTRAIT_PROCESSING_PATH"
  by (simp add: PORTRAIT_PROCESSING_PATH_def path_simps)

text \<open>The matte that is composed passed the structural gate: itself, or the raw matte it falls back to.\<close>

lemma resolve_matte_gate:
  assumes "resolve_matte raw img box = Inr alpha"
    and "(grid_height raw, grid_width raw) = (ri_height img, ri_width img)"
  shows "mi_ok (validate_portrait_matte raw box)
    \<and> (alpha = raw \<or> refine_matte raw box = Inr alpha \<and> mi_ok (validate_portrait_matte alpha box))"
  using assms by (auto simp: resolve_matte_def Let_def sum_bind_Inr refinement_is_acceptable_def split: if_splits)

lemma resolve_matte_refused:
  assumes "(grid_height raw, grid_width raw) = (ri_height img, ri_width img)"
    and "\<not> mi_ok (validate_portrait_matte raw box)"
  shows "resolve_matte raw img box = Inl quality_failed"
  using assms by (simp add: resolve_matte_def Let_def)

text \<open>Every failure of the pipeline leaves as a portrait error.\<close>

lemma pipeline_failed_candidate:
  "wp (pipeline_failed rt t (Some p) prev e) Q (\<lambda>e' w'. (\<exists>c m. e' = PortraitError c m) \<and> w' = w) w"
  by (cases e) (auto simp: pipeline_failed_def record_failure_def wp_simps Let_def split: option.splits)

text \<open>
  A run on a staging path touches no file but the staged portrait and the processing record, and never
  the status of the transaction.
\<close>

definition only_files :: "string \<Rightarrow> string list \<Rightarrow> world \<Rightarrow> world \<Rightarrow> bool" where
  "only_files t ps w w' \<longleftrightarrow> (\<forall>t' p. \<not> (t' = t \<and> p \<in> set ps) \<longrightarrow> file_at w' t' p = file_at w t' p)
     \<and> launch_ix w' = launch_ix w \<and> session_ix w' = session_ix w \<and> external_ix w' = external_ix w
     \<and> clock w' = clock w \<and> rng w' = rng w \<and> outbox w' = outbox w"

lemma only_files_refl [simp]: "only_files t ps w w"
  by (simp add: only_files_def)

lemma only_files_put: "only_files t ps w v \<Longrightarrow> p \<in> set ps \<Longrightarrow> only_files t ps w (put_file t p b v)"
  by (auto simp: only_files_def file_at_put)

lemma run_pipeline_candidate:
  "wp (run_pipeline rt im s sg model src t box (Some p) started)
     (\<lambda>_. only_files t [p, PORTRAIT_PROCESSING_PATH] w) (\<lambda>_. only_files t [p, PORTRAIT_PROCESSING_PATH] w) w"
  by (auto simp: run_pipeline_def store_output_def wp_simps path_simps Let_def
      intro!: only_files_put split: option.splits sum.splits prod.splits)

lemma process_candidate_confined:
  "wp (process_portrait rt im s sg src t box (Some p))
     (\<lambda>_. only_files t [p, PORTRAIT_PROCESSING_PATH] w)
     (\<lambda>e w'. only_files t [p, PORTRAIT_PROCESSING_PATH] w w'
        \<and> (e = PathError \<or> e = OsErr \<or> (\<exists>c m. e = PortraitError c m))) w"
proof -
  have seg: "segmentation_provider rt im s sg = Inl e \<Longrightarrow> e = OsErr \<or> (\<exists>c m. e = PortraitError c m)" for e
    by (auto simp: segmentation_provider_def OnnxPortraitSegmentation_def split: option.splits if_splits)
  have run: "wp (catch (run_pipeline rt im s sg model src t box (Some p) st) (pipeline_failed rt t (Some p) prev))
      (\<lambda>_. only_files t [p, PORTRAIT_PROCESSING_PATH] w)
      (\<lambda>e w'. only_files t [p, PORTRAIT_PROCESSING_PATH] w w' \<and> (e = PathError \<or> e = OsErr \<or> (\<exists>c m. e = PortraitError c m))) w"
    for model st prev
    unfolding wp_catch
  proof (rule wp_mono[OF run_pipeline_candidate])
    fix e v assume v: "only_files t [p, PORTRAIT_PROCESSING_PATH] w v"
    show "wp (pipeline_failed rt t (Some p) prev e) (\<lambda>_. only_files t [p, PORTRAIT_PROCESSING_PATH] w)
      (\<lambda>e w'. only_files t [p, PORTRAIT_PROCESSING_PATH] w w' \<and> (e = PathError \<or> e = OsErr \<or> (\<exists>c m. e = PortraitError c m))) v"
      by (rule wp_mono[OF pipeline_failed_candidate[where Q = "\<lambda>_ _. False"]]) (use v in auto)
  qed
  show ?thesis
    using run seg by (auto simp: process_portrait_def wp_simps split: sum.splits)
qed

text \<open>
  Without a staging path the status is set before the model is looked up, outside the \<open>try\<close>: when the
  model is not available the error leaves the transaction in PORTRAIT_PROCESSING.
\<close>

lemma process_model_unavailable:
  assumes "portrait_processing_enabled s" and "is_valid_transaction_id t"
    and "metadata_of w t = Some md" and "\<not> is_terminal (metadata_status rt md)"
    and "segmentation_provider rt im s sg = Inl e"
  shows "wp (process_portrait rt im s sg src t box None) (\<lambda>_ _. False)
    (\<lambda>e' w'. e' = e \<and> status_of rt w' t = Some PORTRAIT_PROCESSING) w"
proof -
  have ex: "txs w t \<noteq> None" using assms(3) by (auto simp: metadata_of_Some file_at_def split: option.splits)
  have v: "status_from_value ''PORTRAIT_PROCESSING'' = PORTRAIT_PROCESSING"
    using status_from_value_value[of PORTRAIT_PROCESSING] by simp
  have f: "file_at w t ''transaction.json'' = Some (Json (JObj md))"
    using assms(3) by (simp add: metadata_of_Some)
  show ?thesis
    using assms(1,2,4,5) ex
    by (simp add: process_portrait_def wp_simps wp_funs f status_of_put metadata_status_put_text v)
qed

end
