(* ===== verification/Portrait_Properties.thy ===== *)
theory Portrait_Properties
  imports Vision_Properties Portrait
begin

text \<open>
  The properties of the portrait pipeline: the primary component, the integrity metrics, the matte that
  is composed, the crop, the compositing, the face box and the processor's effects.
\<close>

section \<open>Matte\<close>

text \<open>C20: The stack-based flood fill computes exactly the cells reachable from the seed through the mask
  by steps to the four neighbours.\<close>

theorem component_is_reachable_cells:
  assumes "in_mask m seed" and "y < grid_height m" and "x < grid_width m"
  shows "connected_component_mask m seed ! y ! x \<longleftrightarrow> (seed, (int y, int x)) \<in> (mask_step m)\<^sup>*"
  by (rule connected_component_mask_reachable[OF assms])

theorem component_is_reachable_cells_witness:
  "connected_component_mask [[True, True], [False, True]] (0, 0) ! 1 ! 1
     \<longleftrightarrow> ((0, 0), (int 1, int 1)) \<in> (mask_step [[True, True], [False, True]])\<^sup>*"
  by (rule component_is_reachable_cells) (simp_all add: in_mask_def grid_height_def grid_width_def)

lemma validate_gate:
  "mi_ok (validate_portrait_matte alpha box) \<longleftrightarrow> mi_reason (validate_portrait_matte alpha box) = None"
  by (simp add: validate_portrait_matte_def Let_def split: option.splits prod.splits)

text \<open>Every metric of the structural gate is a number between 0 and 1, and the gate accepts exactly
  when no reason against the matte was found.\<close>

theorem matte_metrics_bounded:
  "(let r = validate_portrait_matte alpha box in
    (mi_ok r \<longleftrightarrow> mi_reason r = None) \<and>
    list_all (\<lambda>q. 0 \<le> q \<and> q \<le> 1) [mi_face_retention r, mi_head_retention r, mi_left_retention r,
      mi_right_retention r, mi_balance r, mi_overlap r, mi_foreground_ratio r])"
proof -
  have ratio: "0 \<le> ratio (count_true bs) (if length bs = 0 then 1 else length bs)
      \<and> ratio (count_true bs) (if length bs = 0 then 1 else length bs) \<le> 1" for bs
    using ratio_bounds[of "count_true bs" "if length bs = 0 then 1 else length bs"] count_true_le[of bs]
    by (auto split: if_splits)
  have b: "0 \<le> balance (retention g r) (retention g r') \<and> balance (retention g r) (retention g r') \<le> 1" for g r r'
    using balance_bounds retention_bounds by blast
  show ?thesis
    unfolding Let_def
    by (intro conjI validate_gate)
       (simp add: validate_portrait_matte_def Let_def retention_bounds overlap_bounds b ratio
         del: One_nat_def length_0_conv concat_eq_Nil_conv split del: if_split split: option.splits prod.splits)
qed

text \<open>The matte that is composed passed the structural gate: it is the raw matte, which passed it, or
  its refinement, which passed it too; a raw matte that fails the gate is refused as a quality failure.\<close>

theorem composed_matte_gated:
  assumes "(grid_height raw, grid_width raw) = (ri_height img, ri_width img)"
  shows "case resolve_matte raw img box of
      Inr alpha \<Rightarrow> mi_ok (validate_portrait_matte raw box) \<and> mi_ok (validate_portrait_matte alpha box)
    | Inl e \<Rightarrow> mi_ok (validate_portrait_matte raw box) \<or> e = quality_failed"
proof (cases "resolve_matte raw img box")
  case (Inl e)
  then show ?thesis using resolve_matte_refused[OF assms, of box] by auto
next
  case (Inr alpha)
  then show ?thesis using resolve_matte_gate[OF Inr assms] by auto
qed

theorem composed_matte_gated_witness:
  "\<exists>e. resolve_matte [[0]] \<lparr>ri_width = 1, ri_height = 1, ri_pixels = [[(0, 0, 0)]]\<rparr> None = Inl e \<and> e = quality_failed"
proof -
  have bad: "\<not> mi_ok (validate_portrait_matte [[0]] None)" by code_simp
  have dims: "(grid_height [[0 :: rat]], grid_width [[0 :: rat]])
      = (ri_height \<lparr>ri_width = 1, ri_height = 1, ri_pixels = [[(0, 0, 0)]]\<rparr>, ri_width \<lparr>ri_width = 1, ri_height = 1, ri_pixels = [[(0, 0, 0)]]\<rparr>)"
    by (simp add: grid_height_def grid_width_def)
  from composed_matte_gated[OF dims, of None] bad show ?thesis by (auto split: sum.splits)
qed

text \<open>Refinement only removes confident foreground or strengthens a matte value: no other value goes
  down.\<close>

theorem refinement_only_removes_confident:
  assumes "refine_matte alpha box = Inr out" and "y < grid_height alpha" and "x < grid_width alpha"
  shows "out ! y ! x \<ge> alpha ! y ! x \<or> out ! y ! x = 0 \<and> alpha ! y ! x > REMOVE_HIGH_BACKGROUND_THRESHOLD"
  by (rule refine_matte_entry[OF assms])

theorem refinement_only_removes_confident_witness:
  "\<exists>out. refine_matte [[0 :: rat]] None = Inr out \<and> (out ! 0 ! 0 \<ge> 0 \<or> out ! 0 ! 0 = 0 \<and> 0 > REMOVE_HIGH_BACKGROUND_THRESHOLD)"
proof -
  have r: "refine_matte [[0]] None = Inr [[0]]" by code_simp
  from refinement_only_removes_confident[OF r, of 0 0] r show ?thesis
    by (simp add: grid_height_def grid_width_def)
qed

section \<open>Crop and compositing\<close>

text \<open>C22: The crop lies inside the source image, is not empty, reports its own width and height, and never
  starts below the top of the foreground.\<close>

theorem crop_inside_image:
  assumes "passport_crop alpha (width, height) box = Inr c" and "1 \<le> width" and "1 \<le> height"
    and "foreground_bbox alpha = Inr fg"
  shows "0 \<le> cx0 c \<and> cx0 c < cx1 c \<and> cx1 c \<le> width \<and> 0 \<le> cy0 c \<and> cy0 c < cy1 c \<and> cy1 c \<le> height
    \<and> cwidth c = cx1 c - cx0 c \<and> cheight c = cy1 c - cy0 c \<and> cy0 c \<le> fst (snd fg)"
proof -
  obtain a b d e where fg: "fg = (a, b, d, e)" by (cases fg) auto
  from passport_crop_inside[OF assms(1-3), of a b d e] foreground_bbox_nonneg assms(4) show ?thesis
    by (auto simp: fg)
qed

theorem crop_inside_image_witness:
  "\<exists>c. passport_crop [[1]] (40, 60) None = Inr c \<and> cx1 c \<le> 40 \<and> cy1 c \<le> 60"
proof -
  have fg: "foreground_bbox [[1]] = Inr (0, 0, 1, 1)" by code_simp
  moreover have "\<exists>c. passport_crop [[1]] (40, 60) None = Inr c"
    by (simp add: passport_crop_def fg split: prod.splits)
  ultimately show ?thesis using crop_inside_image[OF _ _ _ fg] by fastforce
qed

text \<open>Compositing keeps the foreground where the matte is opaque and shows the background colour where
  it is transparent.\<close>

theorem composite_ends:
  assumes "y < length fg" and "y < length al" and "x < length (fg ! y)" and "x < length (al ! y)"
  shows "(1 \<le> al ! y ! x \<longrightarrow> composite_solid fg al bg ! y ! x = fg ! y ! x)
    \<and> (al ! y ! x \<le> 0 \<longrightarrow> composite_solid fg al bg ! y ! x = bg)"
  unfolding composite_solid_nth[OF assms] using blend_pixel_ends by blast

theorem composite_ends_witness: "composite_solid [[(1, 2, 3)]] [[0]] (255, 255, 255) ! 0 ! 0 = (255, 255, 255)"
  using composite_ends[of 0 "[[(1, 2, 3)]]" "[[0]]" 0 "(255, 255, 255)"] by simp

text \<open>A face box that is accepted, from the capture's metadata or from a form, is in range: not
  negative, of a minimal size, and inside the frame up to the rounding tolerance.\<close>

theorem accepted_face_box_in_range:
  assumes "validate_face_box_values rt v = Inr (Some box) \<or> parse_normalized_face_box rt form = Inr (Some box)"
  shows "face_box_in_range box"
  using assms validate_face_box_values_range parse_normalized_face_box_range by blast

theorem accepted_face_box_in_range_witness: "face_box_in_range (0, 0, 1, 1)"
proof (rule accepted_face_box_in_range[OF disjI1])
  have "fl 1 \<le> fl (1 + FACE_BOX_EPSILON)"
    using fl_le_1[of 1] fl_ge_1[of "1 + FACE_BOX_EPSILON"] by (simp add: FACE_BOX_EPSILON_def fl_nonneg)
  moreover have "MIN_FACE_BOX_DIM \<le> 1" by (simp add: MIN_FACE_BOX_DIM_def fl_le_1)
  ultimately show "validate_face_box_values demo_runtime (JArr (map (JFloat \<circ> Fin) [0, 0, 1, 1]))
      = Inr (Some (0, 0, 1, 1))"
    by (simp add: validated_face_box_def face_box_in_range_def)
qed

section \<open>The processor\<close>

text \<open>A run on a staging path writes no file but the staged portrait and the processing record, leaves
  every other part of the state as it is, and fails with a portrait error, a path error or an unreadable
  model file only.\<close>

theorem staged_run_confined:
  "wp (process_portrait rt im s sg src t box (Some p))
     (\<lambda>_. only_files t [p, PORTRAIT_PROCESSING_PATH] w)
     (\<lambda>e w'. only_files t [p, PORTRAIT_PROCESSING_PATH] w w'
        \<and> (e = PathError \<or> e = OsErr \<or> (\<exists>c m. e = PortraitError c m))) w"
  by (rule process_candidate_confined)

text \<open>C23: Without a staging path the status becomes PORTRAIT_PROCESSING before the model is looked up, so a
  model that is not available leaves the transaction in that status.\<close>

theorem unavailable_model_leaves_processing:
  assumes "portrait_processing_enabled s" and "is_valid_transaction_id t"
    and "metadata_of w t = Some md" and "\<not> is_terminal (metadata_status rt md)"
    and "segmentation_provider rt im s sg = Inl e"
  shows "wp (process_portrait rt im s sg src t box None) (\<lambda>_ _. False)
    (\<lambda>e' w'. e' = e \<and> status_of rt w' t = Some PORTRAIT_PROCESSING) w"
  by (rule process_model_unavailable[OF assms])

definition demo_imaging :: imaging where
  "demo_imaging = \<lparr>pil_decode = (\<lambda>_. None), gaussian_blur = (\<lambda>g. g), jpeg_encode = (\<lambda>_ _. Bin jpeg_signature),
     model_file = (\<lambda>_. None), onnx_session = (\<lambda>_ _. Inl ValueErr)\<rparr>"

theorem unavailable_model_leaves_processing_witness:
  "wp (process_portrait demo_runtime demo_imaging (default_settings\<lparr>portrait_processing_enabled := True\<rparr>) None
      ''capture/selected-original.jpg'' demo_id None None) (\<lambda>_ _. False)
    (\<lambda>e w'. status_of demo_runtime w' demo_id = Some PORTRAIT_PROCESSING) (demo_world ''CAPTURE_READY'')"
proof -
  have st: "status_from_value ''CAPTURE_READY'' = CAPTURE_READY" using status_from_value_value[of CAPTURE_READY] by simp
  show ?thesis
    by (rule wp_mono[OF unavailable_model_leaves_processing[OF _ demo_id_valid demo_metadata]])
       (auto simp: metadata_status_def st is_terminal_def TERMINAL_TRANSACTION_STATUSES_def segmentation_provider_def
         default_settings_def)
qed

end
