(* ===== verification/Liveness.thy ===== *)
theory Liveness
  imports Vlm_Service Decisions Matte
begin

text \<open>
  The server-authoritative liveness evaluation (\<open>app/experiments/vlm/liveness.py\<close>): the mapping of a
  model result to a decision, the identity of a capture, single-flight claims, the evaluation cache,
  and the binding of decisions and portraits to the current capture.
\<close>

section \<open>The decision rule\<close>

definition COHERENT_PERSON_STATES :: "(string \<times> string) list" where
  "COHERENT_PERSON_STATES =
     [(''ZERO'', ''NONE''), (''ONE'', ''NONE''), (''MULTIPLE'', ''BACKGROUND''), (''MULTIPLE'', ''INTERFERING''),
      (''MULTIPLE'', ''UNCERTAIN''), (''UNCERTAIN'', ''UNCERTAIN'')]"

definition PORTRAIT_ELIGIBLE_PERSON_STATES :: "(string \<times> string) list" where
  "PORTRAIT_ELIGIBLE_PERSON_STATES = [(''ONE'', ''NONE''), (''MULTIPLE'', ''BACKGROUND'')]"

text \<open>
  The arguments come from model results, where they are texts, and from files, where they may be any
  JSON value; testing membership of a pair with a list or an object in it is a \<open>TypeError\<close>.
\<close>

fun unhashable :: "json \<Rightarrow> bool" where
  "unhashable (JArr _) = True"
| "unhashable (JObj _) = True"
| "unhashable _ = False"

definition pair_in :: "json \<Rightarrow> json \<Rightarrow> (string \<times> string) list \<Rightarrow> bool" where
  "pair_in a b S \<longleftrightarrow> (\<exists>(x, y) \<in> set S. a = JStr x \<and> b = JStr y)"

definition is_person_state_consistent :: "json \<Rightarrow> json \<Rightarrow> exn + bool" where
  "is_person_state_consistent subject_count secondary_person_state =
     (if subject_count = JNull \<or> secondary_person_state = JNull then Inr False
      else if unhashable subject_count \<or> unhashable secondary_person_state then Inl TypeErr
      else Inr (pair_in subject_count secondary_person_state COHERENT_PERSON_STATES))"

definition is_portrait_eligible_vlm_result :: "json \<Rightarrow> json \<Rightarrow> json \<Rightarrow> exn + bool" where
  "is_portrait_eligible_vlm_result classification subject_count secondary_person_state =
     (if classification \<noteq> JStr ''LIVE'' then Inr False
      else sum_bind (is_person_state_consistent subject_count secondary_person_state) (\<lambda>consistent.
        if \<not> consistent then Inr False
        else Inr (pair_in subject_count secondary_person_state PORTRAIT_ELIGIBLE_PERSON_STATES)))"

definition map_classification_to_outcome :: "json \<Rightarrow> json \<Rightarrow> json \<Rightarrow> exn + decision_outcome" where
  "map_classification_to_outcome classification subject_count secondary_person_state =
     (if classification \<in> {JStr ''SCREEN_REPLAY'', JStr ''PRINT_ATTACK''} then Inr FAIL
      else sum_bind (is_portrait_eligible_vlm_result classification subject_count secondary_person_state) (\<lambda>eligible.
        if eligible then Inr PASS else Inr RETRY))"

definition interference_reasons :: "json \<Rightarrow> json \<Rightarrow> string list" where
  "interference_reasons subject_count secondary_person_state =
     (if subject_count = JStr ''ZERO'' then [''NO_FACE'']
      else if secondary_person_state = JStr ''INTERFERING'' then [''MULTIPLE_FACES'']
      else [])"

definition portrait_allowed :: "decision_outcome \<Rightarrow> bool" where
  "portrait_allowed outcome \<longleftrightarrow> outcome = PASS"

definition LIVENESS_DECISION_SOURCE :: string where "LIVENESS_DECISION_SOURCE = ''vlm''"
definition LIVENESS_DECISION_VERSION :: string where "LIVENESS_DECISION_VERSION = ''liveness-v3''"

section \<open>The current capture\<close>

definition CAPTURE_META_PATH :: string where "CAPTURE_META_PATH = ''capture/capture.json''"
definition CAPTURE_PATH :: string where "CAPTURE_PATH = ''capture/selected-original.jpg''"
definition VLM_RESULT_PATH :: string where "VLM_RESULT_PATH = ''vlm/result.json''"
definition PORTRAIT_PATH :: string where "PORTRAIT_PATH = ''portrait/processed.jpg''"
definition PORTRAIT_AUTHORIZATION_PATH :: string where "PORTRAIT_AUTHORIZATION_PATH = ''portrait/authorization.json''"

definition AUTHORIZATION_ARTIFACTS :: "string list" where
  "AUTHORIZATION_ARTIFACTS =
     [DECISION_RELATIVE_PATH, PORTRAIT_PATH, ''portrait/processing.json'', PORTRAIT_AUTHORIZATION_PATH,
      VLM_RESULT_PATH]"

definition liveness_identity :: "runtime \<Rightarrow> string option \<Rightarrow> string \<Rightarrow> string" where
  "liveness_identity rt attempt_id selected_sha256 =
     sha_text rt ((case attempt_id of None \<Rightarrow> [] | Some a \<Rightarrow> a) @ '':'' @ selected_sha256)"

text \<open>The text of \<open>str(v)\<close>.\<close>

definition str_value :: "runtime \<Rightarrow> json \<Rightarrow> string" where
  "str_value rt v = (case str_text rt (py_str rt v) of Some s \<Rightarrow> s | None \<Rightarrow> [])"

definition capture_key :: "runtime \<Rightarrow> obj \<Rightarrow> (string \<times> string) option" where
  "capture_key rt meta =
     (let sha = str_value rt (jget_d meta ''sha256'' (JStr [])) in
      if sha = [] then None else Some (str_value rt (jget_d meta ''attempt_id'' (JStr [])), sha))"

definition current_capture_key :: "runtime \<Rightarrow> string \<Rightarrow> (string \<times> string) option M" where
  "current_capture_key rt t =
     bnd (artifact_exists t CAPTURE_META_PATH) (\<lambda>present.
       if \<not> present then ret None
       else catch (bnd (read_json t CAPTURE_META_PATH) (\<lambda>meta. ret (capture_key rt meta))) (\<lambda>_. ret None))"

definition expected_liveness_identity :: "runtime \<Rightarrow> string \<Rightarrow> string option M" where
  "expected_liveness_identity rt t =
     bnd (current_capture_key rt t) (\<lambda>key. ret (case key of None \<Rightarrow> None
       | Some (attempt_id, sha) \<Rightarrow> Some (liveness_identity rt (Some attempt_id) sha)))"

definition current_capture_face_box :: "runtime \<Rightarrow> string \<Rightarrow> face_box option M" where
  "current_capture_face_box rt t =
     bnd (artifact_exists t CAPTURE_META_PATH) (\<lambda>present.
       if \<not> present then ret None
       else bnd (catch (bnd (read_json t CAPTURE_META_PATH) (\<lambda>meta. ret (Some meta))) (\<lambda>_. ret None)) (\<lambda>meta.
         case meta of None \<Rightarrow> ret None
         | Some m \<Rightarrow> lift (validate_face_box_values rt (jget_n m ''face_box''))))"

definition invalidate_authorization :: "string \<Rightarrow> unit M" where
  "invalidate_authorization t =
     for_each AUTHORIZATION_ARTIFACTS (\<lambda>p.
       bnd (artifact_exists t p) (\<lambda>present.
         when_do present (catch (remove_artifact t p) (\<lambda>_. ret ()))))"

section \<open>Single flight\<close>

definition EVALUATION_CLAIM_PREFIX :: string where "EVALUATION_CLAIM_PREFIX = ''claim''"
definition PORTRAIT_CLAIM_PREFIX :: string where "PORTRAIT_CLAIM_PREFIX = ''portrait-claim''"

definition claim_path_for :: "string \<Rightarrow> string \<Rightarrow> string" where
  "claim_path_for identity prefix = ''liveness/'' @ prefix @ ''-'' @ identity @ ''.json''"

definition claim_timeout_seconds :: "settings \<Rightarrow> rat" where
  "claim_timeout_seconds s = fl (fl (vlm_timeout_seconds s * of_int (vlm_max_retries s + 2)) + 10)"

definition claim_age_stale :: "settings \<Rightarrow> int \<Rightarrow> int \<Rightarrow> bool" where
  "claim_age_stale s now started \<longleftrightarrow> fl (of_int (now - started) / 1000000) > claim_timeout_seconds s"

definition claim_is_stale :: "runtime \<Rightarrow> settings \<Rightarrow> int \<Rightarrow> obj \<Rightarrow> exn + bool" where
  "claim_is_stale rt s now claim =
     (case py_str rt (jget_d claim ''started_at'' (JStr [])) of
        JTime started \<Rightarrow> Inr (claim_age_stale s now started)
      | JStr x \<Rightarrow> (case from_iso rt x of
            IsoInvalid \<Rightarrow> Inr True | IsoNaive \<Rightarrow> Inl TypeErr
          | IsoInstant started \<Rightarrow> Inr (claim_age_stale s now started))
      | _ \<Rightarrow> Inr True)"

definition read_claim :: "string \<Rightarrow> string \<Rightarrow> string \<Rightarrow> obj option M" where
  "read_claim t identity prefix =
     bnd (artifact_exists t (claim_path_for identity prefix)) (\<lambda>present.
       if \<not> present then ret None
       else catch (bnd (read_json t (claim_path_for identity prefix)) (\<lambda>d. ret (Some d))) (\<lambda>_. ret None))"

definition claim_record :: "string \<Rightarrow> int \<Rightarrow> obj" where
  "claim_record identity now =
     [(''identity'', JStr identity), (''status'', JStr ''IN_PROGRESS''), (''started_at'', JTime now)]"

definition set_claim :: "string \<Rightarrow> string \<Rightarrow> string \<Rightarrow> unit M" where
  "set_claim t identity prefix =
     bnd (gets clock) (\<lambda>now. write_json t (claim_path_for identity prefix) (claim_record identity now))"

definition clear_claim :: "string \<Rightarrow> string \<Rightarrow> string \<Rightarrow> unit M" where
  "clear_claim t identity prefix =
     catch (remove_artifact t (claim_path_for identity prefix)) (\<lambda>_. ret ())"

definition is_claimed :: "string \<Rightarrow> string \<Rightarrow> string \<Rightarrow> bool M" where
  "is_claimed t identity prefix = artifact_exists t (claim_path_for identity prefix)"

definition claim_ready :: "runtime \<Rightarrow> settings \<Rightarrow> string \<Rightarrow> string \<Rightarrow> string \<Rightarrow> bool M" where
  "claim_ready rt s t identity prefix =
     bnd (is_claimed t identity prefix) (\<lambda>claimed.
       if \<not> claimed then ret True
       else bnd (read_claim t identity prefix) (\<lambda>claim.
         case claim of
           None \<Rightarrow> ret True
         | Some c \<Rightarrow> bnd (gets clock) (\<lambda>now. lift (claim_is_stale rt s now c))))"

section \<open>The evaluation cache\<close>

definition evaluation_relative_path :: "string \<Rightarrow> string" where
  "evaluation_relative_path identity = ''liveness/'' @ identity @ ''.json''"

definition value_in :: "json \<Rightarrow> string list \<Rightarrow> exn + bool" where
  "value_in v S = (if unhashable v then Inl TypeErr else Inr (v \<in> JStr ` set S))"

definition VALID_SUBJECT_COUNTS :: "string list" where
  "VALID_SUBJECT_COUNTS = map subject_count_value subject_counts"

definition VALID_SECONDARY_STATES :: "string list" where
  "VALID_SECONDARY_STATES = map secondary_person_state_value secondary_person_states"

definition is_current_evaluation :: "obj option \<Rightarrow> exn + bool" where
  "is_current_evaluation payload =
     (case payload of
        None \<Rightarrow> Inr False
      | Some p \<Rightarrow>
          if truthy (jget_n p ''error'') then Inr True
          else if jget_n p ''schema_version'' \<noteq> JStr VLM_SCHEMA_VERSION then Inr False
          else if jget_n p ''prompt_version'' \<noteq> JStr PROMPT_VERSION then Inr False
          else
          (let subject_count = jget_n p ''subject_count''; secondary = jget_n p ''secondary_person_state'' in
           sum_bind (value_in subject_count VALID_SUBJECT_COUNTS) (\<lambda>ok.
           if \<not> ok then Inr False
           else sum_bind (value_in secondary VALID_SECONDARY_STATES) (\<lambda>ok2.
             if \<not> ok2 then Inr False else is_person_state_consistent subject_count secondary))))"

definition read_evaluation :: "string \<Rightarrow> string \<Rightarrow> obj option M" where
  "read_evaluation t identity =
     bnd (artifact_exists t (evaluation_relative_path identity)) (\<lambda>present.
       if \<not> present then ret None
       else catch (bnd (read_json t (evaluation_relative_path identity)) (\<lambda>d. ret (Some d))) (\<lambda>_. ret None))"

definition persist_evaluation :: "string \<Rightarrow> string \<Rightarrow> obj \<Rightarrow> unit M" where
  "persist_evaluation t identity payload = write_json t (evaluation_relative_path identity) payload"

definition error_payload :: "string \<Rightarrow> string option \<Rightarrow> string \<Rightarrow> int \<Rightarrow> string option \<Rightarrow> string option \<Rightarrow> obj" where
  "error_payload error_code attempt_id selected_sha256 started_at provider model =
     [(''attempt_id'', jopt attempt_id), (''selected_sha256'', JStr selected_sha256),
      (''provider'', jopt provider), (''model'', jopt model), (''prompt_version'', JNull),
      (''schema_version'', JNull), (''classification'', JNull), (''attack_medium'', JNull),
      (''evidence_codes'', JArr []), (''subject_count'', JNull), (''secondary_person_state'', JNull),
      (''reason_codes'', JArr []), (''outcome'', JStr (decision_outcome_value RETRY)),
      (''portrait_allowed'', JBool False), (''latency_ms'', JNull), (''error'', JStr error_code),
      (''created_at'', JTime started_at)]"

definition persist_error_evaluation :: "string \<Rightarrow> string \<Rightarrow> string option \<Rightarrow> string \<Rightarrow> string \<Rightarrow> unit M" where
  "persist_error_evaluation t identity attempt_id selected_sha256 error_code =
     bnd (gets clock) (\<lambda>now.
       persist_evaluation t identity (error_payload error_code attempt_id selected_sha256 now None None))"

section \<open>The provider call\<close>

definition success_payload ::
  "experiment_result \<Rightarrow> decision_outcome \<Rightarrow> string option \<Rightarrow> string \<Rightarrow> json \<Rightarrow> json \<Rightarrow> json \<Rightarrow> int \<Rightarrow> int \<Rightarrow> obj" where
  "success_payload r outcome attempt_id selected_sha256 classification subject_count secondary latency started_at =
     [(''attempt_id'', jopt attempt_id), (''selected_sha256'', JStr selected_sha256),
      (''provider'', JStr (xr_provider r)), (''model'', JStr (xr_model r)),
      (''prompt_version'', JStr (xr_prompt_version r)), (''schema_version'', JStr (xr_schema_version r)),
      (''classification'', classification),
      (''attack_medium'', jopt (map_option attack_medium_value (xr_attack_medium r))),
      (''evidence_codes'', JArr (xr_evidence_codes r)), (''subject_count'', subject_count),
      (''secondary_person_state'', secondary),
      (''reason_codes'', JArr (map JStr (interference_reasons subject_count secondary))),
      (''outcome'', JStr (decision_outcome_value outcome)), (''portrait_allowed'', JBool (portrait_allowed outcome)),
      (''latency_ms'', JInt latency), (''error'', JNull), (''created_at'', JTime started_at)]"

definition evaluate_capture ::
  "runtime \<Rightarrow> provider_libraries \<Rightarrow> settings \<Rightarrow> string \<Rightarrow> string option \<Rightarrow> string \<Rightarrow> obj M" where
  "evaluate_capture rt libs s t attempt_id selected_sha256 =
     (let provider_name = str_lower (vlm_provider s) in
     bnd (read_artifact t CAPTURE_PATH) (\<lambda>image_bytes.
     bnd (gets clock) (\<lambda>started_at.
     if provider_name = []
     then ret (error_payload ''PROVIDER_NOT_CONFIGURED'' attempt_id selected_sha256 started_at None None)
     else
     bnd (service_evaluate rt (get_vision_provider rt libs) s
       \<lparr>er_strategy = ''single-quality-v1'', er_provider = provider_name,
        er_mock_behavior = (if provider_name = ''mock'' then vlm_mock_behavior s else []),
        er_frames = [\<lparr>im_bytes = blob_bytes rt image_bytes, im_mime_type = ''image/jpeg'', im_sequence = Some 0\<rparr>]\<rparr>) (\<lambda>r.
     case xr_error r of
       Some code \<Rightarrow> ret (error_payload (vlm_error_value code) attempt_id selected_sha256 started_at
                      (Some provider_name) (Some (xr_model r)))
     | None \<Rightarrow>
         (let classification = jopt (map_option vlm_classification_value (xr_classification r));
              subject_count = jopt (map_option subject_count_value (xr_subject_count r));
              secondary = jopt (map_option secondary_person_state_value (xr_secondary r)) in
         bnd (lift (map_classification_to_outcome classification subject_count secondary)) (\<lambda>outcome.
         bnd (gets clock) (\<lambda>now.
         ret (success_payload r outcome attempt_id selected_sha256 classification subject_count secondary
                ((now - started_at) div 1000) started_at))))))))"

section \<open>Binding to the current capture\<close>

definition eq_text :: "runtime \<Rightarrow> json \<Rightarrow> string \<Rightarrow> bool" where
  "eq_text rt v x \<longleftrightarrow> str_text rt v = Some x"

text \<open>The conjunction of the code, with its short circuit: the person state is looked at last.\<close>

definition decision_bound :: "runtime \<Rightarrow> decision_record option \<Rightarrow> (string \<times> string) option \<Rightarrow> exn + bool" where
  "decision_bound rt decision key =
     (case decision of
        None \<Rightarrow> Inr False
      | Some d \<Rightarrow>
          if d_outcome d \<noteq> PASS then Inr False
          else if d_decision_source d \<noteq> JStr LIVENESS_DECISION_SOURCE then Inr False
          else (case key of
            None \<Rightarrow> Inr False
          | Some (attempt_id, sha) \<Rightarrow>
              (let meta = d_metadata d in
               if eq_text rt (jget_n meta ''attempt_id'') attempt_id
                  \<and> eq_text rt (jget_n meta ''selected_sha256'') sha
                  \<and> eq_text rt (jget_n meta ''liveness_identity'') (liveness_identity rt (Some attempt_id) sha)
                  \<and> jget_n meta ''schema_version'' = JStr VLM_SCHEMA_VERSION
               then is_portrait_eligible_vlm_result (jget_n meta ''classification'')
                      (jget_n meta ''subject_count'') (jget_n meta ''secondary_person_state'')
               else Inr False)))"

definition has_current_canonical_pass :: "runtime \<Rightarrow> string \<Rightarrow> bool M" where
  "has_current_canonical_pass rt t =
     bnd (read_decision t) (\<lambda>decision.
     bnd (current_capture_key rt t) (\<lambda>key.
       lift (decision_bound rt decision key)))"

definition decision_metadata_for :: "obj \<Rightarrow> string \<Rightarrow> obj" where
  "decision_metadata_for evaluation identity =
     [(''attempt_id'', jget_n evaluation ''attempt_id''),
      (''selected_sha256'', jget_n evaluation ''selected_sha256''),
      (''liveness_identity'', JStr identity), (''provider'', jget_n evaluation ''provider''),
      (''model'', jget_n evaluation ''model''), (''classification'', jget_n evaluation ''classification''),
      (''subject_count'', jget_n evaluation ''subject_count''),
      (''secondary_person_state'', jget_n evaluation ''secondary_person_state''),
      (''prompt_version'', jget_n evaluation ''prompt_version''),
      (''schema_version'', jget_n evaluation ''schema_version'')]"

definition portrait_candidate_path :: "string \<Rightarrow> string" where
  "portrait_candidate_path identity = ''portrait/candidates/'' @ identity @ ''.jpg''"

record snapshot =
  sn_decision_id :: json
  sn_attempt_id :: string
  sn_selected_sha256 :: string
  sn_identity :: string

definition capture_snapshot :: "runtime \<Rightarrow> string \<Rightarrow> snapshot option M" where
  "capture_snapshot rt t =
     bnd (has_current_canonical_pass rt t) (\<lambda>pass.
     if \<not> pass then ret None
     else
     bnd (read_decision t) (\<lambda>decision.
     bnd (current_capture_key rt t) (\<lambda>key.
       ret (case (decision, key) of
         (Some d, Some (attempt_id, sha)) \<Rightarrow>
           Some \<lparr>sn_decision_id = d_decision_id d, sn_attempt_id = attempt_id, sn_selected_sha256 = sha,
                 sn_identity = liveness_identity rt (Some attempt_id) sha\<rparr>
       | _ \<Rightarrow> None))))"

definition snapshot_matches_current :: "runtime \<Rightarrow> string \<Rightarrow> snapshot \<Rightarrow> bool M" where
  "snapshot_matches_current rt t snap =
     bnd (has_current_canonical_pass rt t) (\<lambda>pass.
     if \<not> pass then ret False
     else
     bnd (read_decision t) (\<lambda>decision.
     bnd (current_capture_key rt t) (\<lambda>key.
       ret (case (decision, key) of
         (Some d, Some (attempt_id, sha)) \<Rightarrow>
           d_decision_id d = sn_decision_id snap \<and> attempt_id = sn_attempt_id snap
           \<and> sha = sn_selected_sha256 snap \<and> liveness_identity rt (Some attempt_id) sha = sn_identity snap
       | _ \<Rightarrow> False))))"

definition authorization_record :: "json \<Rightarrow> string \<Rightarrow> string \<Rightarrow> string \<Rightarrow> string \<Rightarrow> int \<Rightarrow> obj" where
  "authorization_record decision_id attempt_id selected_sha256 identity portrait_sha256 now =
     [(''decision_id'', decision_id), (''attempt_id'', JStr attempt_id),
      (''selected_sha256'', JStr selected_sha256), (''liveness_identity'', JStr identity),
      (''portrait_sha256'', JStr portrait_sha256), (''created_at'', JTime now)]"

definition write_portrait_authorization ::
  "string \<Rightarrow> json \<Rightarrow> string \<Rightarrow> string \<Rightarrow> string \<Rightarrow> string \<Rightarrow> unit M" where
  "write_portrait_authorization t decision_id attempt_id selected_sha256 identity portrait_sha256 =
     bnd (gets clock) (\<lambda>now. write_json t PORTRAIT_AUTHORIZATION_PATH
       (authorization_record decision_id attempt_id selected_sha256 identity portrait_sha256 now))"

definition sha256_of_artifact :: "runtime \<Rightarrow> string \<Rightarrow> string \<Rightarrow> string M" where
  "sha256_of_artifact rt t p = bnd (read_artifact t p) (\<lambda>d. ret (sha_blob rt d))"

definition authorization_matches ::
  "runtime \<Rightarrow> obj \<Rightarrow> decision_record \<Rightarrow> string \<times> string \<Rightarrow> string \<Rightarrow> bool" where
  "authorization_matches rt auth d key actual_sha =
     (case key of (attempt_id, sha) \<Rightarrow>
        jget_n auth ''decision_id'' = d_decision_id d
        \<and> eq_text rt (jget_n auth ''attempt_id'') attempt_id
        \<and> eq_text rt (jget_n auth ''selected_sha256'') sha
        \<and> eq_text rt (jget_n auth ''liveness_identity'') (liveness_identity rt (Some attempt_id) sha)
        \<and> eq_text rt (jget_n auth ''portrait_sha256'') actual_sha)"

definition portrait_authorization_current :: "runtime \<Rightarrow> string \<Rightarrow> bool M" where
  "portrait_authorization_current rt t =
     bnd (has_current_canonical_pass rt t) (\<lambda>pass.
     if \<not> pass then ret False
     else
     bnd (artifact_exists t PORTRAIT_AUTHORIZATION_PATH) (\<lambda>has_auth.
     if \<not> has_auth then ret False
     else
     bnd (catch (bnd (read_json t PORTRAIT_AUTHORIZATION_PATH) (\<lambda>a. ret (Some a))) (\<lambda>_. ret None)) (\<lambda>auth.
     case auth of
       None \<Rightarrow> ret False
     | Some a \<Rightarrow>
         bnd (artifact_exists t PORTRAIT_PATH) (\<lambda>has_portrait.
         if \<not> has_portrait then ret False
         else
         bnd (read_decision t) (\<lambda>decision.
         bnd (current_capture_key rt t) (\<lambda>key.
         case (decision, key) of
           (Some d, Some k) \<Rightarrow>
             bnd (sha256_of_artifact rt t PORTRAIT_PATH) (\<lambda>actual_sha.
               ret (authorization_matches rt a d k actual_sha))
         | _ \<Rightarrow> ret False))))))"

definition vlm_result_record :: "obj \<Rightarrow> json list \<Rightarrow> string \<Rightarrow> int \<Rightarrow> obj" where
  "vlm_result_record ev codes request_id now =
     [(''provider'', jget_n ev ''provider''), (''model'', jget_n ev ''model''),
      (''strategy'', JStr ''single-quality-v1''), (''classification'', jget_n ev ''classification''),
      (''attack_medium'', jget_n ev ''attack_medium''), (''self_reported_confidence'', JNull),
      (''evidence_codes'', JArr codes), (''subject_count'', jget_n ev ''subject_count''),
      (''secondary_person_state'', jget_n ev ''secondary_person_state''),
      (''latency_ms'', jget_n ev ''latency_ms''), (''request_id'', JStr request_id),
      (''prompt_version'', jget_n ev ''prompt_version''), (''schema_version'', jget_n ev ''schema_version''),
      (''timestamp'', JTime now), (''error'', jget_n ev ''error'')]"

definition persist_normalized_vlm_result :: "runtime \<Rightarrow> string \<Rightarrow> obj \<Rightarrow> string \<Rightarrow> unit M" where
  "persist_normalized_vlm_result rt t ev request_id =
     bnd (lift (py_list rt (jget_d ev ''evidence_codes'' (JArr [])))) (\<lambda>codes.
     bnd (gets clock) (\<lambda>now.
     bnd (write_artifact rt t VLM_RESULT (Json (JObj (vlm_result_record ev codes request_id now)))
            ''application/json'') (\<lambda>_.
     update_transaction_status rt t (status_value VLM_EVALUATED))))"

end
