(* ===== verification/Liveness_Facts.thy ===== *)
theory Liveness_Facts
  imports Liveness
begin

text \<open>
  Facts on the liveness evaluation: the decision rule, the identity, single flight (an interpretation of
  \<open>single_flight\<close>), the cache test, and what a current PASS and a portrait authorization mean.
\<close>

section \<open>The decision rule\<close>

lemma pair_in_texts: "pair_in (JStr a) (JStr b) S \<longleftrightarrow> (a, b) \<in> set S"
  by (auto simp: pair_in_def)

lemma eligible_iff:
  "is_portrait_eligible_vlm_result c n p = Inr True \<longleftrightarrow>
     c = JStr ''LIVE'' \<and> (n = JStr ''ONE'' \<and> p = JStr ''NONE'' \<or> n = JStr ''MULTIPLE'' \<and> p = JStr ''BACKGROUND'')"
  by (auto simp: is_portrait_eligible_vlm_result_def is_person_state_consistent_def sum_bind_def pair_in_def
      PORTRAIT_ELIGIBLE_PERSON_STATES_def COHERENT_PERSON_STATES_def split: if_splits sum.splits)

lemma outcome_PASS_iff:
  "map_classification_to_outcome c n p = Inr PASS \<longleftrightarrow> is_portrait_eligible_vlm_result c n p = Inr True"
proof -
  have "is_portrait_eligible_vlm_result (JStr ''SCREEN_REPLAY'') n p \<noteq> Inr True"
    "is_portrait_eligible_vlm_result (JStr ''PRINT_ATTACK'') n p \<noteq> Inr True"
    by (simp_all add: eligible_iff)
  then show ?thesis
    by (auto simp: map_classification_to_outcome_def sum_bind_def split: sum.splits if_splits)
qed

text \<open>The rule on every normalised result: no error, and the table of the module's header.\<close>

definition outcome_spec :: "vlm_classification \<Rightarrow> subject_count \<Rightarrow> secondary_person_state \<Rightarrow> decision_outcome" where
  "outcome_spec c n p =
     (case c of
        C_SCREEN_REPLAY \<Rightarrow> FAIL | C_PRINT_ATTACK \<Rightarrow> FAIL
      | C_LIVE \<Rightarrow> (if (n, p) \<in> {(N_ONE, P_NONE), (N_MULTIPLE, P_BACKGROUND)} then PASS else RETRY)
      | _ \<Rightarrow> RETRY)"

lemma map_outcome_typed:
  "map_classification_to_outcome (JStr (vlm_classification_value c)) (JStr (subject_count_value n))
     (JStr (secondary_person_state_value p)) = Inr (outcome_spec c n p)"
  by (cases c; cases n; cases p) (simp_all add: map_classification_to_outcome_def
      is_portrait_eligible_vlm_result_def is_person_state_consistent_def sum_bind_def pair_in_texts
      COHERENT_PERSON_STATES_def PORTRAIT_ELIGIBLE_PERSON_STATES_def outcome_spec_def)

lemma current_evaluation_eligible:
  assumes "is_current_evaluation (Some p) = Inr True" and "\<not> truthy (jget_n p ''error'')"
  shows "jget_n p ''schema_version'' = JStr VLM_SCHEMA_VERSION \<and> jget_n p ''prompt_version'' = JStr PROMPT_VERSION
    \<and> pair_in (jget_n p ''subject_count'') (jget_n p ''secondary_person_state'') COHERENT_PERSON_STATES"
  using assms by (auto simp: is_current_evaluation_def Let_def sum_bind_def is_person_state_consistent_def
      split: if_splits sum.splits)

section \<open>Identity\<close>

text \<open>A digest has no colon, so the identity determines the attempt and the capture.\<close>

lemma liveness_identity_inj:
  assumes "collision_free rt" and "CHR '':'' \<notin> set s" "CHR '':'' \<notin> set s'"
  shows "liveness_identity rt (Some a) s = liveness_identity rt (Some a') s' \<longleftrightarrow> a = a' \<and> s = s'"
  using assms append_sep_inject_right[of "CHR '':''" s s' a a']
  by (auto simp: liveness_identity_def collision_free_def inj_eq)

section \<open>Paths\<close>

text \<open>An alphanumeric name makes valid paths, so an identity, which is a digest, does.\<close>

lemma rel_ok_two:
  assumes "CHR ''/'' \<notin> set a" "CHR ''/'' \<notin> set b" "CHR 0x5C \<notin> set a" "CHR 0x5C \<notin> set b"
    and "path_part_kept a" "path_part_kept b"
  shows "rel_ok (a @ CHR ''/'' # b)"
proof -
  have "split_on CHR ''/'' (a @ CHR ''/'' # b) = [a, b]"
    using assms(1,2) by (simp add: split_on_append_absent split_on_absent)
  moreover have "a \<noteq> []" using assms(5) by (simp add: path_part_kept_def)
  moreover have "hd a \<noteq> CHR ''/''" using assms(1) \<open>a \<noteq> []\<close> hd_in_set by metis
  with \<open>a \<noteq> []\<close> have "\<not> starts_with ''/'' (a @ CHR ''/'' # b)" by (cases a) (auto simp: starts_with_def)
  ultimately show ?thesis using assms by (auto simp: rel_ok_def)
qed

lemma long_name_kept: "length p > 2 \<Longrightarrow> path_part_kept p"
  by (auto simp: path_part_kept_def)

lemma rel_ok_liveness_name:
  assumes "hex_digest i" and "CHR ''/'' \<notin> set p" "CHR 0x5C \<notin> set p"
  shows "rel_ok (''liveness/'' @ p @ i @ ''.json'')"
proof -
  have "rel_ok (''liveness'' @ CHR ''/'' # (p @ i @ ''.json''))"
    using assms hex_digest_no_slash[OF assms(1)] by (intro rel_ok_two) (auto intro: long_name_kept)
  then show ?thesis by simp
qed

lemma rel_ok_claim: "hex_digest i \<Longrightarrow> CHR ''/'' \<notin> set p \<Longrightarrow> CHR 0x5C \<notin> set p \<Longrightarrow> rel_ok (claim_path_for i p)"
  using rel_ok_liveness_name[of i "p @ ''-''"] by (simp add: claim_path_for_def)

lemma rel_ok_claims [path_simps]:
  "hex_digest i \<Longrightarrow> rel_ok (claim_path_for i EVALUATION_CLAIM_PREFIX)"
  "hex_digest i \<Longrightarrow> rel_ok (claim_path_for i PORTRAIT_CLAIM_PREFIX)"
  by (auto intro!: rel_ok_claim simp: EVALUATION_CLAIM_PREFIX_def PORTRAIT_CLAIM_PREFIX_def)

lemma rel_ok_evaluation [path_simps]: "hex_digest i \<Longrightarrow> rel_ok (evaluation_relative_path i)"
  using rel_ok_liveness_name[of i "[]"] by (simp add: evaluation_relative_path_def)

lemma rel_ok_candidate [path_simps]: "hex_digest i \<Longrightarrow> rel_ok (portrait_candidate_path i)"
proof -
  assume i: "hex_digest i"
  let ?n = "i @ ''.jpg''"
  have n: "CHR ''/'' \<notin> set ?n" "CHR 0x5C \<notin> set ?n" using hex_digest_no_slash[OF i] by auto
  have "split_on CHR ''/'' (portrait_candidate_path i) = [''portrait'', ''candidates'', ?n]"
    using n by (simp add: portrait_candidate_path_def split_on_absent)
  then show ?thesis using n by (auto simp: rel_ok_def portrait_candidate_path_def starts_with_def path_part_kept_def)
qed

lemma rel_ok_liveness [path_simps]:
  "rel_ok CAPTURE_META_PATH" "rel_ok CAPTURE_PATH" "rel_ok VLM_RESULT_PATH" "rel_ok PORTRAIT_PATH"
  "rel_ok PORTRAIT_AUTHORIZATION_PATH"
  by (simp_all add: CAPTURE_META_PATH_def CAPTURE_PATH_def VLM_RESULT_PATH_def PORTRAIT_PATH_def
      PORTRAIT_AUTHORIZATION_PATH_def path_simps)

section \<open>Single flight\<close>

definition claimed_at :: "string \<Rightarrow> string \<Rightarrow> world \<Rightarrow> string \<Rightarrow> bool" where
  "claimed_at t prefix w i \<longleftrightarrow> file_at w t (claim_path_for i prefix) \<noteq> None"

definition claim_ready_at :: "runtime \<Rightarrow> settings \<Rightarrow> string \<Rightarrow> string \<Rightarrow> world \<Rightarrow> string \<Rightarrow> bool" where
  "claim_ready_at rt s t prefix w i =
     (case file_at w t (claim_path_for i prefix) of
        None \<Rightarrow> True
      | Some (Json (JObj c)) \<Rightarrow> claim_is_stale rt s (clock w) c = Inr True
      | _ \<Rightarrow> True)"

definition put_claim :: "string \<Rightarrow> string \<Rightarrow> string \<Rightarrow> world \<Rightarrow> world" where
  "put_claim t prefix i w = put_file t (claim_path_for i prefix) (Json (JObj (claim_record i (clock w)))) w"

definition drop_claim :: "string \<Rightarrow> string \<Rightarrow> string \<Rightarrow> world \<Rightarrow> world" where
  "drop_claim t prefix i w = del_file t (claim_path_for i prefix) w"

lemma claim_path_inj: "claim_path_for i p = claim_path_for j p \<longleftrightarrow> i = j"
  by (simp add: claim_path_for_def)

lemma own_claim_stale: "claim_is_stale rt s n (claim_record i n) = Inr (claim_timeout_seconds s < 0)"
  by (simp add: claim_is_stale_def claim_record_def claim_age_stale_def)

text \<open>The claims of a transaction under any prefix, given a lifetime that is not negative.\<close>

interpretation claims: single_flight "claimed_at t prefix" "claim_ready_at rt s t prefix"
  "put_claim t prefix" "drop_claim t prefix" "\<lambda>_. 0 \<le> claim_timeout_seconds s" for rt s t prefix
proof (unfold_locales, goal_cases)
  case (1 i w j)
  then show ?case by (auto simp: claimed_at_def put_claim_def file_at_put claim_path_inj)
next
  case (2 i w j)
  then show ?case by (auto simp: claimed_at_def drop_claim_def file_at_del claim_path_inj)
next
  case (3 w i)
  then show ?case by (simp add: claimed_at_def claim_ready_at_def)
next
  case (4 w i)
  then show ?case by (simp add: claim_ready_at_def put_claim_def file_at_put own_claim_stale)
qed

lemma wp_set_claim [wp_simps]:
  "wp (set_claim t i p) Q E w = (if path_ok t (claim_path_for i p) then Q () (put_claim t p i w) else E PathError w)"
  by (simp add: set_claim_def put_claim_def wp_simps)

lemma wp_clear_claim [wp_simps]:
  "wp (clear_claim t i p) Q E w = Q () (if path_ok t (claim_path_for i p) then drop_claim t p i w else w)"
  by (simp add: clear_claim_def drop_claim_def wp_simps)

lemma wp_is_claimed [wp_simps]:
  "wp (is_claimed t i p) Q E w = (if path_ok t (claim_path_for i p) then Q (claimed_at t p w i) w else E PathError w)"
  by (simp add: is_claimed_def claimed_at_def wp_simps)

lemma wp_claim_ready:
  assumes "path_ok t (claim_path_for i p)"
    and "\<And>c. file_at w t (claim_path_for i p) = Some (Json (JObj c)) \<Longrightarrow> claim_is_stale rt s (clock w) c \<noteq> Inl TypeErr"
  shows "wp (claim_ready rt s t i p) Q E w = Q (claim_ready_at rt s t p w i) w"
  using assms
  by (auto simp: claim_ready_def read_claim_def wp_simps claimed_at_def claim_ready_at_def claim_is_stale_def
      split: option.splits sum.splits blob.splits json.splits iso_parse.splits)

section \<open>Binding\<close>

definition capture_key_of :: "runtime \<Rightarrow> world \<Rightarrow> string \<Rightarrow> (string \<times> string) option" where
  "capture_key_of rt w t = (case file_at w t CAPTURE_META_PATH of
     Some (Json (JObj meta)) \<Rightarrow> capture_key rt meta | _ \<Rightarrow> None)"

lemma wp_current_capture_key [wp_simps]:
  "wp (current_capture_key rt t) Q E w =
     (if is_valid_transaction_id t then Q (capture_key_of rt w t) w else E PathError w)"
  by (auto simp: current_capture_key_def wp_simps path_simps capture_key_of_def parse_object_Inr
      split: option.splits sum.splits blob.splits json.splits)

lemma wp_expected_identity [wp_simps]:
  "wp (expected_liveness_identity rt t) Q E w =
     (if is_valid_transaction_id t
      then Q (map_option (\<lambda>(a, s). liveness_identity rt (Some a) s) (capture_key_of rt w t)) w
      else E PathError w)"
  by (simp add: expected_liveness_identity_def wp_simps split: option.splits prod.splits)

text \<open>The test behind every authorization, as a function of the state.\<close>

definition current_pass :: "runtime \<Rightarrow> world \<Rightarrow> string \<Rightarrow> exn + bool" where
  "current_pass rt w t = decision_bound rt (decision_of w t) (capture_key_of rt w t)"

lemma wp_has_current_pass [wp_simps]:
  "wp (has_current_canonical_pass rt t) Q E w =
     (if is_valid_transaction_id t
      then (case current_pass rt w t of Inl e \<Rightarrow> E e w | Inr b \<Rightarrow> Q b w) else E PathError w)"
  by (simp add: has_current_canonical_pass_def wp_simps current_pass_def)

text \<open>
  What it means: a canonical PASS from the VLM source, produced under the current schema for a LIVE,
  eligible result of exactly the capture that is stored now.
\<close>

lemma current_pass_meaning:
  "current_pass rt w t = Inr True \<longleftrightarrow>
     (\<exists>d a sha. decision_of w t = Some d \<and> capture_key_of rt w t = Some (a, sha)
        \<and> d_outcome d = PASS \<and> d_decision_source d = JStr ''vlm''
        \<and> eq_text rt (jget_n (d_metadata d) ''attempt_id'') a
        \<and> eq_text rt (jget_n (d_metadata d) ''selected_sha256'') sha
        \<and> eq_text rt (jget_n (d_metadata d) ''liveness_identity'') (liveness_identity rt (Some a) sha)
        \<and> jget_n (d_metadata d) ''schema_version'' = JStr VLM_SCHEMA_VERSION
        \<and> is_portrait_eligible_vlm_result (jget_n (d_metadata d) ''classification'')
             (jget_n (d_metadata d) ''subject_count'') (jget_n (d_metadata d) ''secondary_person_state'') = Inr True)"
  by (auto simp: current_pass_def decision_bound_def Let_def LIVENESS_DECISION_SOURCE_def
      split: option.splits prod.splits if_splits)

lemma current_pass_cong:
  "file_at w t DECISION_RELATIVE_PATH = file_at w' t DECISION_RELATIVE_PATH \<Longrightarrow>
   file_at w t CAPTURE_META_PATH = file_at w' t CAPTURE_META_PATH \<Longrightarrow> current_pass rt w t = current_pass rt w' t"
  by (simp add: current_pass_def decision_of_def capture_key_of_def)

definition authorization_of :: "runtime \<Rightarrow> world \<Rightarrow> string \<Rightarrow> exn + bool" where
  "authorization_of rt w t =
     (case current_pass rt w t of
        Inl e \<Rightarrow> Inl e
      | Inr False \<Rightarrow> Inr False
      | Inr True \<Rightarrow>
          (case (file_at w t PORTRAIT_AUTHORIZATION_PATH, file_at w t PORTRAIT_PATH, decision_of w t,
                 capture_key_of rt w t) of
             (Some (Json (JObj a)), Some portrait, Some d, Some k) \<Rightarrow>
               Inr (authorization_matches rt a d k (sha_blob rt portrait))
           | _ \<Rightarrow> Inr False))"

lemma wp_portrait_authorization_current [wp_simps]:
  "wp (portrait_authorization_current rt t) Q E w =
     (if is_valid_transaction_id t
      then (case authorization_of rt w t of Inl e \<Rightarrow> E e w | Inr b \<Rightarrow> Q b w) else E PathError w)"
proof (cases "is_valid_transaction_id t \<and> current_pass rt w t = Inr True")
  case False
  then show ?thesis
    by (auto simp: portrait_authorization_current_def wp_simps authorization_of_def split: sum.splits bool.splits)
next
  case True
  then obtain d k where "decision_of w t = Some d" "capture_key_of rt w t = Some k"
    by (auto simp: current_pass_meaning)
  then show ?thesis using True
    by (simp add: portrait_authorization_current_def wp_simps path_simps authorization_of_def sha256_of_artifact_def
        parse_object_Inr split: option.splits sum.splits blob.splits json.splits)
       (auto simp: parse_object_Inr split: option.splits sum.splits blob.splits json.splits)
qed

text \<open>A new capture's invalidation removes every authorization artifact and nothing else.\<close>

definition drop_files :: "string \<Rightarrow> string list \<Rightarrow> world \<Rightarrow> world" where
  "drop_files t ps w = fold (del_file t) ps w"

lemma del_absent: "file_at w t p = None \<Longrightarrow> del_file t p w = w"
proof (cases "txs w t")
  case (Some fs)
  assume "file_at w t p = None"
  then have "fs(p := None) = fs" using Some by (auto simp: file_at_def)
  then have "(txs w)(t \<mapsto> fs(p := None)) = txs w" using Some by auto
  then show ?thesis using Some by (simp add: del_file_def)
qed (simp add: del_file_def)

lemma wp_invalidate_authorization [wp_simps]:
  "wp (invalidate_authorization t) Q E w =
     (if is_valid_transaction_id t then Q () (drop_files t AUTHORIZATION_ARTIFACTS w) else E PathError w)"
proof -
  have step: "wp (for_each ps (\<lambda>p. bnd (artifact_exists t p) (\<lambda>present.
         when_do present (catch (remove_artifact t p) (\<lambda>_. ret ()))))) Q E v = Q () (drop_files t ps v)"
    if "is_valid_transaction_id t" "list_all rel_ok ps" for ps v
    using that(2)
    by (induction ps arbitrary: v) (auto simp: wp_simps that(1) drop_files_def del_absent)
  have ok: "list_all rel_ok AUTHORIZATION_ARTIFACTS"
    by (simp add: AUTHORIZATION_ARTIFACTS_def path_simps)
  show ?thesis
  proof (cases "is_valid_transaction_id t")
    case True
    then show ?thesis by (simp add: invalidate_authorization_def step ok)
  next
    case False
    then show ?thesis by (simp add: invalidate_authorization_def AUTHORIZATION_ARTIFACTS_def wp_simps)
  qed
qed

lemma file_at_drop_files: "file_at (drop_files t ps w) t' p = (if t = t' \<and> p \<in> set ps then None else file_at w t' p)"
  unfolding drop_files_def by (induction ps arbitrary: w) (auto simp: file_at_del)

lemma drop_files_frame [simp]:
  "launch_ix (drop_files t ps w) = launch_ix w" "session_ix (drop_files t ps w) = session_ix w"
  "external_ix (drop_files t ps w) = external_ix w" "clock (drop_files t ps w) = clock w"
  "rng (drop_files t ps w) = rng w" "outbox (drop_files t ps w) = outbox w"
  unfolding drop_files_def by (induction ps arbitrary: w) simp_all

section \<open>Evaluation\<close>

text \<open>
  Whatever the provider did, a payload that says PASS has no error and a LIVE, eligible result under
  the current schema and prompt.
\<close>

lemma error_payload_fields [simp]:
  "jget_n (error_payload e a s n p m) ''outcome'' = JStr ''RETRY''"
  "jget_n (error_payload e a s n p m) ''error'' = JStr e"
  "jget_n (error_payload e a s n p m) ''selected_sha256'' = JStr s"
  by (simp_all add: error_payload_def)

lemma success_payload_fields [simp]:
  "jget_n (success_payload r oc a s c n p l st) ''outcome'' = JStr (decision_outcome_value oc)"
  "jget_n (success_payload r oc a s c n p l st) ''error'' = JNull"
  "jget_n (success_payload r oc a s c n p l st) ''classification'' = c"
  "jget_n (success_payload r oc a s c n p l st) ''subject_count'' = n"
  "jget_n (success_payload r oc a s c n p l st) ''secondary_person_state'' = p"
  "jget_n (success_payload r oc a s c n p l st) ''attempt_id'' = jopt a"
  "jget_n (success_payload r oc a s c n p l st) ''selected_sha256'' = JStr s"
  by (simp_all add: success_payload_def)

definition payload_sound :: "obj \<Rightarrow> bool" where
  "payload_sound p \<longleftrightarrow> (jget_n p ''outcome'' = JStr ''PASS'' \<longrightarrow>
     jget_n p ''error'' = JNull
     \<and> is_portrait_eligible_vlm_result (jget_n p ''classification'') (jget_n p ''subject_count'')
          (jget_n p ''secondary_person_state'') = Inr True)"

lemma wp_any: "(\<And>x v. Q x v) \<Longrightarrow> (\<And>e v. E e v) \<Longrightarrow> wp m Q E w"
  by (simp add: wp_def split: prod.splits sum.splits)

lemma success_payload_sound:
  assumes "map_classification_to_outcome c n p = Inr oc"
  shows "payload_sound (success_payload r oc a sha c n p l st)"
proof -
  have "decision_outcome_value oc = ''PASS'' \<longleftrightarrow> oc = PASS" by (cases oc) simp_all
  then show ?thesis using assms by (auto simp: payload_sound_def outcome_PASS_iff)
qed

lemma error_payload_sound: "payload_sound (error_payload e a s n p m)"
  by (simp add: payload_sound_def)

lemma evaluate_capture_sound:
  "wp (evaluate_capture rt libs s t a sha) (\<lambda>p _. payload_sound p) (\<lambda>_ _. True) w"
proof -
  have after: "wp (bnd m f) (\<lambda>p _. payload_sound p) (\<lambda>_ _. True) v"
    if "\<And>x u. wp (f x) (\<lambda>p _. payload_sound p) (\<lambda>_ _. True) u" for m :: "'a M" and f v
    unfolding wp_bnd by (rule wp_any) (simp_all add: that)
  show ?thesis
  proof (cases "str_lower (vlm_provider s) = []")
    case True
    show ?thesis
      unfolding evaluate_capture_def Let_def True
      by (intro after) (simp add: wp_ret error_payload_sound)
  next
    case False
    show ?thesis
      unfolding evaluate_capture_def Let_def if_not_P[OF False]
      by (intro after, split option.split, intro conjI allI impI)
         (auto simp: wp_ret wp_bnd wp_lift wp_gets error_payload_sound success_payload_sound
           split: sum.splits)
  qed
qed

end
