(* ===== verification/Browser_Api.thy ===== *)
theory Browser_Api
  imports Callback Portrait Liveness Attempts
begin

text \<open>
  The browser routes that need no slow call (\<open>app/api/v1/browser.py\<close>): the session, the portrait
  image, the attempt registration and the upload of a capture, with the image checks of
  \<open>app/api/v1/experiments.py\<close> that the upload shares.
\<close>

section \<open>The application and its responses\<close>

text \<open>
  \<open>app.state\<close> and the libraries behind it. \<open>ap_probe\<close> is what Pillow says of the bytes of an upload:
  opening fails, or gives the size and the outcome of \<open>verify\<close>.
\<close>

datatype decode_failure = Decode_bomb | Decode_refused | Decode_other
datatype image_probe = Open_fails decode_failure | Opened nat nat "decode_failure option"

record app =
  ap_settings :: settings
  ap_registry :: consumer_registry
  ap_segmentation :: "segmentation option"
  ap_libs :: provider_libraries
  ap_imaging :: imaging
  ap_probe :: "bytes \<Rightarrow> image_probe"
  ap_environ :: environ
  ap_client :: callback_client

datatype http_body = Json_body obj | Bytes_body blob

record http_response =
  hr_status :: nat
  hr_headers :: "(string \<times> string) list"
  hr_body :: http_body
  hr_deleted_cookies :: "string list"

definition json_reply :: "nat \<Rightarrow> obj \<Rightarrow> http_response" where
  "json_reply status ob = \<lparr>hr_status = status, hr_headers = [], hr_body = Json_body ob, hr_deleted_cookies = []\<rparr>"

section \<open>Helpers\<close>

definition consumer_for_tx :: "runtime \<Rightarrow> string \<Rightarrow> string M" where
  "consumer_for_tx rt t =
     catch (bnd (read_transaction_json t) (\<lambda>metadata.
              (let v = jget_d metadata ''consumer_id'' (JStr ''unknown'') in
               ret (if truthy v then str_value rt v else ''unknown''))))
           (\<lambda>_. ret ''unknown'')"

definition max_attempts_for_tx :: "runtime \<Rightarrow> app \<Rightarrow> string \<Rightarrow> int \<Rightarrow> int M" where
  "max_attempts_for_tx rt ap t fallback =
     bnd (consumer_for_tx rt t) (\<lambda>cid.
       ret (case registry_get (ap_registry ap) cid of
         Some p \<Rightarrow> if max_attempts p > 0 then max_attempts p else fallback
       | None \<Rightarrow> fallback))"

fun status_str :: "json \<Rightarrow> string" where
  "status_str JNull = []"
| "status_str (JStr v) = status_value (status_from_value v)"
| "status_str _ = status_value TECHNICAL_ERROR"

definition terminal_status_values :: "string list" where
  "terminal_status_values = map status_value TERMINAL_TRANSACTION_STATUSES"

definition terminal_blocked :: "string \<Rightarrow> unit M" where
  "terminal_blocked t =
     bnd (read_transaction_json t) (\<lambda>metadata.
       if status_str (jget_n metadata ''status'') \<in> set terminal_status_values
       then raise (ApiError ''TRANSACTION_TERMINAL'' ''This transaction is in a terminal state'' 409)
       else ret ())"

definition attempt_response :: "attempt_result \<Rightarrow> obj" where
  "attempt_response a =
     [(''attempt_count'', JInt (ar_attempt_count a)), (''max_attempts'', JInt (ar_max_attempts a)),
      (''warning'', JBool (ar_warning a)), (''terminal'', JBool (ar_terminal a)), (''status'', jopt (ar_status a))]"

text \<open>The session check every mutation starts with, giving the transaction of the session.\<close>

definition session_transaction :: "runtime \<Rightarrow> browser_request \<Rightarrow> string M" where
  "session_transaction rt rq =
     bnd (require_active_session rt rq) (\<lambda>record.
     andthen (require_csrf rt rq record)
     (bnd (getitem record ''transaction_id'') (need_str rt)))"

section \<open>Session and portrait image\<close>

definition browser_session :: "runtime \<Rightarrow> app \<Rightarrow> browser_request \<Rightarrow> http_response M" where
  "browser_session rt ap rq =
     (let s = ap_settings ap; outcome = rq_launch_outcome_cookie rq in
      if outcome \<in> {''INVALID'', ''EXPIRED''}
      then ret ((json_reply 200 [(''state'', JStr (str_lower outcome)), (''submission_ready'', JBool False)])
             \<lparr>hr_deleted_cookies := [launch_outcome_cookie_name]\<rparr>)
      else
      bnd (resolve_session_record rt rq) (\<lambda>rec.
      case rec of
        None \<Rightarrow> ret (json_reply 200 [(''state'', JStr ''invalid''), (''submission_ready'', JBool False)])
      | Some record \<Rightarrow>
          bnd (getitem record ''transaction_id'') (\<lambda>tv.
          if jget_n record ''mode'' = JStr (redemption_mode_value RM_TERMINAL)
          then (let terminal_state = jget_n record ''terminal_state'' in
                ret (json_reply 200
                  [(''state'', JStr (if terminal_state = JStr (status_value COMPLETED) then ''completed''
                                   else ''attempt_limit'')),
                   (''submission_ready'', JBool False), (''terminal_state'', terminal_state)]))
          else
          bnd (need_str rt tv) (\<lambda>t.
          bnd (read_attempt_summary rt t (capture_attempt_limit s)) (\<lambda>attempts.
          bnd (has_current_canonical_pass rt t) (\<lambda>pass.
          bnd (if pass then portrait_authorization_current rt t else ret False) (\<lambda>ready.
          bnd (max_attempts_for_tx rt ap t (capture_attempt_limit s)) (\<lambda>limit.
            ret (json_reply 200
              [(''state'', JStr ''active''), (''submission_ready'', JBool ready),
               (''attempt_count'', JInt (as_attempt_count attempts)), (''max_attempts'', JInt limit),
               (''reason_codes'', JArr (as_reason_codes attempts))])))))))))"

definition portrait_not_ready :: "string \<Rightarrow> nat \<Rightarrow> exn" where
  "portrait_not_ready message status = ApiError ''PORTRAIT_NOT_READY'' message status"

definition browser_portrait_image :: "runtime \<Rightarrow> browser_request \<Rightarrow> http_response M" where
  "browser_portrait_image rt rq =
     bnd (require_active_session rt rq) (\<lambda>record.
     bnd (bnd (getitem record ''transaction_id'') (need_str rt)) (\<lambda>t.
     bnd (artifact_exists t PORTRAIT_PATH) (\<lambda>present.
     if \<not> present then raise (portrait_not_ready ''Portrait is not ready'' 404)
     else
     bnd (portrait_authorization_current rt t) (\<lambda>current.
     if \<not> current then raise (portrait_not_ready ''Portrait is not ready for the current capture'' 404)
     else
     bnd (read_artifact t PORTRAIT_PATH) (\<lambda>data.
       ret \<lparr>hr_status = 200,
            hr_headers = [(''content-type'', ''image/jpeg''), (''Cache-Control'', ''no-store''),
                          (''X-Content-Type-Options'', ''nosniff'')],
            hr_body = Bytes_body data, hr_deleted_cookies = []\<rparr>)))))"

section \<open>Attempts\<close>

text \<open>A form field left empty is \<open>None\<close>.\<close>

definition form_opt :: "string \<Rightarrow> string option" where
  "form_opt v = (if v = [] then None else Some v)"

definition browser_attempts ::
  "runtime \<Rightarrow> app \<Rightarrow> browser_request \<Rightarrow> string \<Rightarrow> string \<Rightarrow> string \<Rightarrow> http_response M" where
  "browser_attempts rt ap rq attempt_id result reason_code =
     bnd (session_transaction rt rq) (\<lambda>t.
     andthen (terminal_blocked t)
     (bnd (max_attempts_for_tx rt ap t (capture_attempt_limit (ap_settings ap))) (\<lambda>limit.
      bnd (catch (register_attempt rt (ap_settings ap) t attempt_id (form_opt result) (form_opt reason_code)
                    (Some limit) False)
             (\<lambda>e. if e = AttemptValidationError
                  then raise (ApiError ''DISALLOWED_REASON'' ''Disallowed reason code'' 400)
                  else raise e)) (\<lambda>attempt.
      bnd (consumer_for_tx rt t) (\<lambda>cid.
      andthen (record_capture_attempt cid)
      (ret (json_reply 200 (attempt_response attempt))))))))"

section \<open>Uploads\<close>

record upload =
  up_bytes :: bytes
  up_content_type :: "string option"

definition MAX_IMAGE_DIMENSION :: nat where "MAX_IMAGE_DIMENSION = 4096"

definition decode_error :: "decode_failure \<Rightarrow> exn" where
  "decode_error f = (case f of
     Decode_bomb \<Rightarrow> VlmError REQUEST_TOO_LARGE ''image exceeds decompression limits''
   | Decode_refused \<Rightarrow> VlmError UNSUPPORTED_MEDIA_TYPE ''image could not be decoded''
   | Decode_other \<Rightarrow> LibraryErr)"

definition verify_decodeable :: "app \<Rightarrow> bytes \<Rightarrow> exn + unit" where
  "verify_decodeable ap data =
     (case ap_probe ap data of
        Open_fails f \<Rightarrow> Inl (decode_error f)
      | Opened width height verified \<Rightarrow>
          if width > MAX_IMAGE_DIMENSION \<or> height > MAX_IMAGE_DIMENSION
          then Inl (VlmError REQUEST_TOO_LARGE ''image dimensions exceed limit'')
          else (case verified of Some f \<Rightarrow> Inl (decode_error f) | None \<Rightarrow> Inr ()))"

definition validate_image :: "app \<Rightarrow> bytes \<Rightarrow> string \<Rightarrow> exn + string" where
  "validate_image ap data declared_mime =
     (if declared_mime \<noteq> ''image/jpeg'' then Inl (VlmError UNSUPPORTED_MEDIA_TYPE ''unsupported media type'')
      else if take 3 data \<noteq> jpeg_signature then Inl (VlmError UNSUPPORTED_MEDIA_TYPE ''not a valid JPEG'')
      else if data = [] then Inl (VlmError PROVIDER_BAD_REQUEST ''empty image'')
      else sum_bind (verify_decodeable ap data) (\<lambda>_. Inr declared_mime))"

definition read_bounded :: "upload \<Rightarrow> int \<Rightarrow> exn + bytes" where
  "read_bounded up limit =
     (let data = take (nat (limit + 1)) (up_bytes up) in
      if int (length data) > limit then Inl (VlmError REQUEST_TOO_LARGE ''image exceeds the size limit'')
      else Inr data)"

text \<open>\<open>upload.content_type or ''image/jpeg''\<close>.\<close>

definition declared_type :: "upload \<Rightarrow> string" where
  "declared_type up = (case up_content_type up of Some (c # cs) \<Rightarrow> c # cs | _ \<Rightarrow> ''image/jpeg'')"

definition face_box_json :: "face_box option \<Rightarrow> json" where
  "face_box_json box = (case box of None \<Rightarrow> JNull
     | Some (x, y, w, h) \<Rightarrow> JArr [JFloat (Fin x), JFloat (Fin y), JFloat (Fin w), JFloat (Fin h)])"

section \<open>Capture\<close>

definition capture_record ::
  "runtime \<Rightarrow> string \<Rightarrow> string \<Rightarrow> string \<Rightarrow> bytes \<Rightarrow> string \<Rightarrow> string \<Rightarrow> face_box option \<Rightarrow> obj" where
  "capture_record rt t attempt_id mime data capture_config quality_config box =
     [(''transaction_id'', JStr t), (''attempt_id'', JStr attempt_id), (''mime_type'', JStr mime),
      (''size_bytes'', JInt (int (length data))), (''sha256'', JStr (sha_blob rt (Bin data))),
      (''capture_config_version'', JStr capture_config), (''quality_config_version'', JStr quality_config),
      (''face_box'', face_box_json box)]"

text \<open>
  The body of the lock: registration, the limit, the new capture, the invalidation of what the
  previous one authorized, the status. \<open>Inl\<close> is the early response at the limit.
\<close>

definition store_capture ::
  "runtime \<Rightarrow> app \<Rightarrow> string \<Rightarrow> string \<Rightarrow> bytes \<Rightarrow> string \<Rightarrow> string \<Rightarrow> string \<Rightarrow> face_box option
    \<Rightarrow> (http_response + attempt_result) M" where
  "store_capture rt ap t attempt_id data mime capture_config quality_config box =
     lock_transaction t
       (bnd (max_attempts_for_tx rt ap t (capture_attempt_limit (ap_settings ap))) (\<lambda>limit.
        bnd (catch (register_attempt_locked rt (ap_settings ap) t attempt_id None None (Some limit) True)
               (\<lambda>e. if e = AttemptUploadRejected
                    then raise (ApiError ''UPLOAD_ALREADY_RECORDED''
                      ''This attempt already uploaded a selected original'' 409)
                    else raise e)) (\<lambda>attempt.
        if ar_terminal attempt then ret (Inl (json_reply 409 (attempt_response attempt)))
        else
        bnd (write_artifact rt t SELECTED_ORIGINAL_CAPTURE (Bin data) mime) (\<lambda>_.
        andthen (write_json t CAPTURE_META_PATH
          (capture_record rt t attempt_id mime data capture_config quality_config box))
        (andthen (invalidate_authorization t)
        (andthen (update_transaction_status rt t (status_value CAPTURE_READY))
        (ret (Inr attempt))))))))"

text \<open>The checks before the lock: the session, the transaction, the image and the face box.\<close>

definition capture_open ::
  "runtime \<Rightarrow> app \<Rightarrow> browser_request \<Rightarrow> upload \<Rightarrow> string \<Rightarrow> (string \<times> bytes \<times> string \<times> face_box option) M" where
  "capture_open rt ap rq selected_image face_box_form =
     bnd (session_transaction rt rq) (\<lambda>t.
     andthen (terminal_blocked t)
     (bnd (lift (read_bounded selected_image (vlm_max_single_image_bytes (ap_settings ap)))) (\<lambda>data.
      bnd (lift (validate_image ap data (declared_type selected_image))) (\<lambda>mime.
      bnd (lift (parse_normalized_face_box rt (Some face_box_form))) (\<lambda>box.
      ret (t, data, mime, box))))))"

definition capture_commit ::
  "runtime \<Rightarrow> app \<Rightarrow> string \<Rightarrow> string \<Rightarrow> bytes \<Rightarrow> string \<Rightarrow> string \<Rightarrow> string \<Rightarrow> face_box option
    \<Rightarrow> http_response M" where
  "capture_commit rt ap t attempt_id data mime capture_config quality_config box =
     bnd (store_capture rt ap t attempt_id data mime capture_config quality_config box) (\<lambda>r.
     case r of
       Inl response \<Rightarrow> ret response
     | Inr attempt \<Rightarrow>
         bnd (consumer_for_tx rt t) (\<lambda>cid.
         andthen (record_capture_attempt cid)
         (ret (json_reply 200 (attempt_response attempt)))))"

definition browser_capture ::
  "runtime \<Rightarrow> app \<Rightarrow> browser_request \<Rightarrow> string \<Rightarrow> upload \<Rightarrow> string \<Rightarrow> string \<Rightarrow> string \<Rightarrow> http_response M" where
  "browser_capture rt ap rq attempt_id selected_image capture_config quality_config face_box_form =
     bnd (capture_open rt ap rq selected_image face_box_form) (\<lambda>(t, data, mime, box).
       capture_commit rt ap t attempt_id data mime capture_config quality_config box)"

end
