(* ===== verification/Browser_Gate.thy ===== *)
theory Browser_Gate
  imports Browser_Api
begin

text \<open>
  The two browser routes with a slow call (\<open>app/api/v1/browser.py\<close>): the liveness evaluation and the
  portrait. Each is a first critical section that takes a claim, the call without a lock, and a second
  critical section that promotes the result if the capture is still the one the claim was taken for.
  The routes compose these phases, which other requests may interleave with.
\<close>

section \<open>Liveness\<close>

definition liveness_open :: "runtime \<Rightarrow> browser_request \<Rightarrow> (string \<times> string \<times> string) M" where
  "liveness_open rt rq =
     bnd (session_transaction rt rq) (\<lambda>t.
     andthen (terminal_blocked t)
     (bnd (current_capture_key rt t) (\<lambda>key.
      case key of
        None \<Rightarrow> raise (ApiError ''CAPTURE_NOT_READY'' ''No capture uploaded'' 409)
      | Some (attempt_id, sha) \<Rightarrow> ret (t, attempt_id, sha))))"

definition liveness_unavailable :: exn where
  "liveness_unavailable =
     ApiError ''LIVENESS_UNAVAILABLE'' (''We couldn'' @ CHR 0x27 # ''t verify your photo. Please try again.'') 502"

text \<open>\<open>DecisionOutcome(v)\<close>.\<close>

fun outcome_of_json :: "json \<Rightarrow> exn + decision_outcome" where
  "outcome_of_json (JStr v) = (case enum_parse decision_outcome_value decision_outcomes v of
     None \<Rightarrow> Inl ValueErr | Some oc \<Rightarrow> Inr oc)"
| "outcome_of_json _ = Inl ValueErr"

definition outcome_metric :: "decision_outcome \<Rightarrow> string" where
  "outcome_metric oc = (if oc = PASS then ''live'' else str_lower (decision_outcome_value oc))"

definition liveness_reply :: "json \<Rightarrow> decision_outcome \<Rightarrow> json \<Rightarrow> json list \<Rightarrow> http_response" where
  "liveness_reply classification oc allowed codes = json_reply 200
     [(''classification'', classification), (''outcome'', JStr (decision_outcome_value oc)),
      (''portrait_allowed'', allowed), (''reason_codes'', JArr codes)]"

text \<open>A cached evaluation of the current contract is answered from the cache, a failure included.\<close>

definition cached_reply :: "runtime \<Rightarrow> obj \<Rightarrow> http_response M" where
  "cached_reply rt cached =
     (if truthy (jget_n cached ''error'')
      then andthen (record_submit ''liveness_cached_error'') (raise liveness_unavailable)
      else
      bnd (getitem cached ''outcome'') (\<lambda>v.
      bnd (lift (outcome_of_json v)) (\<lambda>oc.
      andthen (record_submit (outcome_metric oc))
      (bnd (lift (py_list rt (jget_d cached ''reason_codes'' (JArr [])))) (\<lambda>codes.
       ret (liveness_reply (jget_n cached ''classification'') oc
              (jget_d cached ''portrait_allowed'' (JBool False)) codes))))))"

text \<open>Taking a claim: one that is held and not stale refuses with \<open>in_progress\<close>.\<close>

definition take_claim :: "runtime \<Rightarrow> settings \<Rightarrow> string \<Rightarrow> string \<Rightarrow> string \<Rightarrow> unit M \<Rightarrow> unit M" where
  "take_claim rt s t identity prefix in_progress =
     andthen
       (bnd (is_claimed t identity prefix) (\<lambda>claimed.
        if \<not> claimed then ret ()
        else bnd (claim_ready rt s t identity prefix) (\<lambda>ready.
          if ready then clear_claim t identity prefix else in_progress)))
       (set_claim t identity prefix)"

definition liveness_claim :: "runtime \<Rightarrow> app \<Rightarrow> string \<Rightarrow> string \<Rightarrow> http_response option M" where
  "liveness_claim rt ap t identity =
     lock_transaction t
       (bnd (read_evaluation t identity) (\<lambda>cached.
        bnd (if cached = None then ret False else lift (is_current_evaluation cached)) (\<lambda>current.
        case cached of
          Some c \<Rightarrow>
            if current then bnd (cached_reply rt c) (\<lambda>r. ret (Some r))
            else andthen (take_claim rt (ap_settings ap) t identity EVALUATION_CLAIM_PREFIX
                   (andthen (record_submit ''liveness_in_progress'')
                     (raise (ApiError ''LIVENESS_IN_PROGRESS'' ''Liveness evaluation is already in progress'' 202))))
                 (ret None)
        | None \<Rightarrow>
            andthen (take_claim rt (ap_settings ap) t identity EVALUATION_CLAIM_PREFIX
              (andthen (record_submit ''liveness_in_progress'')
                (raise (ApiError ''LIVENESS_IN_PROGRESS'' ''Liveness evaluation is already in progress'' 202))))
            (ret None))))"

text \<open>The \<open>except VlmError\<close> branch: the failure is cached for the capture if it is still current.\<close>

definition liveness_failed :: "runtime \<Rightarrow> string \<Rightarrow> string \<Rightarrow> exn \<Rightarrow> 'a M" where
  "liveness_failed rt t identity e =
     (case e of
        VlmError code m \<Rightarrow>
          andthen (lock_transaction t
            (bnd (current_capture_key rt t) (\<lambda>now_key.
             andthen (clear_claim t identity EVALUATION_CLAIM_PREFIX)
             (case now_key of
                None \<Rightarrow> ret ()
              | Some (attempt_id, sha) \<Rightarrow>
                  when_do (liveness_identity rt (Some attempt_id) sha = identity)
                    (persist_error_evaluation t identity (Some attempt_id) sha (vlm_error_value code))))))
          (andthen (record_submit ''liveness_error'') (raise e))
      | _ \<Rightarrow> raise e)"

definition write_liveness_decision_bound ::
  "runtime \<Rightarrow> string \<Rightarrow> decision_outcome \<Rightarrow> obj \<Rightarrow> string \<Rightarrow> unit M" where
  "write_liveness_decision_bound rt t oc evaluation identity =
     bnd (build_decision rt t oc LIVENESS_DECISION_SOURCE LIVENESS_DECISION_VERSION
            (Some (decision_metadata_for evaluation identity))
            (Some [JStr (evaluation_relative_path identity)])) (\<lambda>decision.
     andthen (write_decision t decision)
     (update_transaction_status rt t (status_value DECISION_READY)))"

definition liveness_settle :: "runtime \<Rightarrow> string \<Rightarrow> string \<Rightarrow> obj \<Rightarrow> http_response M" where
  "liveness_settle rt t identity evaluation =
     lock_transaction t
       (bnd (expected_liveness_identity rt t) (\<lambda>now_identity.
        andthen (clear_claim t identity EVALUATION_CLAIM_PREFIX)
        (if now_identity \<noteq> Some identity
         then andthen (persist_evaluation t identity
                (jput ''promoted'' (JBool False) (jput ''stale'' (JBool True) evaluation)))
              (andthen (record_submit ''liveness_stale'')
              (raise (ApiError ''STALE_EVALUATION''
                 ''The capture changed during evaluation; please try again.'' 409)))
         else
         andthen (persist_evaluation t identity evaluation)
         (if truthy (jget_n evaluation ''error'')
          then andthen (record_submit ''liveness_error'') (raise liveness_unavailable)
          else
          bnd (getitem evaluation ''outcome'') (\<lambda>v.
          bnd (lift (outcome_of_json v)) (\<lambda>oc.
          andthen (write_liveness_decision_bound rt t oc evaluation identity)
          (andthen (record_submit (outcome_metric oc))
          (bnd (getitem evaluation ''portrait_allowed'') (\<lambda>allowed.
           bnd (lift (py_list rt (jget_d evaluation ''reason_codes'' (JArr [])))) (\<lambda>codes.
           ret (liveness_reply (jget_n evaluation ''classification'') oc allowed codes)))))))))))"

definition browser_liveness :: "runtime \<Rightarrow> app \<Rightarrow> browser_request \<Rightarrow> http_response M" where
  "browser_liveness rt ap rq =
     bnd (liveness_open rt rq) (\<lambda>(t, attempt_id, sha).
     (let identity = liveness_identity rt (Some attempt_id) sha in
     bnd (liveness_claim rt ap t identity) (\<lambda>reply.
     case reply of
       Some r \<Rightarrow> ret r
     | None \<Rightarrow>
         bnd (catch (evaluate_capture rt (ap_libs ap) (ap_settings ap) t (Some attempt_id) sha)
                    (liveness_failed rt t identity)) (\<lambda>evaluation.
           liveness_settle rt t identity evaluation))))"

section \<open>Portrait\<close>

definition portrait_sha256 :: "runtime \<Rightarrow> string \<Rightarrow> string M" where
  "portrait_sha256 rt t = bnd (read_artifact t PORTRAIT_PATH) (\<lambda>data. ret (sha_blob rt data))"

definition clear_portrait_claim_locked :: "string \<Rightarrow> string \<Rightarrow> unit M" where
  "clear_portrait_claim_locked t identity =
     lock_transaction t (clear_claim t identity PORTRAIT_CLAIM_PREFIX)"

definition safe_remove :: "string \<Rightarrow> string \<Rightarrow> unit M" where
  "safe_remove t p = catch (remove_artifact t p) (\<lambda>_. ret ())"

text \<open>The checks before any claim: the transaction and the face box that is used.\<close>

definition portrait_open :: "runtime \<Rightarrow> app \<Rightarrow> browser_request \<Rightarrow> string \<Rightarrow> (string \<times> face_box) M" where
  "portrait_open rt ap rq face_box_form =
     bnd (session_transaction rt rq) (\<lambda>t.
     andthen (terminal_blocked t)
     (if \<not> portrait_processing_enabled (ap_settings ap)
      then raise (PortraitError PORTRAIT_PROCESSING_FAILED ''portrait processing is disabled'')
      else
      bnd (current_capture_face_box rt t) (\<lambda>captured.
      bnd (case captured of Some b \<Rightarrow> ret (Some b)
           | None \<Rightarrow> lift (parse_normalized_face_box rt (Some face_box_form))) (\<lambda>box.
      case box of
        None \<Rightarrow> raise (PortraitError PORTRAIT_QUALITY_FAILED
                  ''a valid primary face box is required for portrait processing'')
      | Some b \<Rightarrow> ret (t, b)))))"

text \<open>The first critical section: \<open>Inl\<close> reuses an authorized portrait, \<open>Inr\<close> is the snapshot claimed.\<close>

definition portrait_claim :: "runtime \<Rightarrow> app \<Rightarrow> string \<Rightarrow> (http_response + snapshot) M" where
  "portrait_claim rt ap t =
     lock_transaction t
       (bnd (portrait_authorization_current rt t) (\<lambda>current.
        if current
        then bnd (portrait_sha256 rt t) (\<lambda>existing_sha.
             ret (Inl (json_reply 200
               [(''status'', JStr ''SUCCESS''), (''output_artifact'', JStr PORTRAIT_PATH),
                (''sha256'', JStr existing_sha), (''reused'', JBool True)])))
        else
        bnd (capture_snapshot rt t) (\<lambda>snap.
        case snap of
          None \<Rightarrow> raise (ApiError ''NOT_READY'' ''A canonical decision is not yet available'' 412)
        | Some sn \<Rightarrow>
            andthen (take_claim rt (ap_settings ap) t (sn_identity sn) PORTRAIT_CLAIM_PREFIX
              (andthen (record_submit ''portrait_in_progress'')
                (raise (ApiError ''PORTRAIT_IN_PROGRESS'' ''Portrait processing is already in progress'' 202))))
            (ret (Inr sn)))))"

text \<open>The processing into the candidate; a failure releases the claim.\<close>

definition portrait_process :: "runtime \<Rightarrow> app \<Rightarrow> string \<Rightarrow> snapshot \<Rightarrow> face_box \<Rightarrow> unit M" where
  "portrait_process rt ap t snap box =
     catch
       (bnd (process_portrait rt (ap_imaging ap) (ap_settings ap) (ap_segmentation ap) CAPTURE_PATH t (Some box)
              (Some (portrait_candidate_path (sn_identity snap)))) (\<lambda>_. ret ()))
       (\<lambda>e. andthen (clear_portrait_claim_locked t (sn_identity snap)) (raise e))"

text \<open>The second critical section: the candidate becomes the portrait if the snapshot still holds.\<close>

definition portrait_promote :: "runtime \<Rightarrow> string \<Rightarrow> snapshot \<Rightarrow> artifact_reference M" where
  "portrait_promote rt t snap =
     lock_transaction t
       (andthen (clear_claim t (sn_identity snap) PORTRAIT_CLAIM_PREFIX)
       (bnd (snapshot_matches_current rt t snap) (\<lambda>same.
        if \<not> same
        then andthen (safe_remove t (portrait_candidate_path (sn_identity snap)))
             (andthen (record_submit ''stale_portrait'')
             (raise (ApiError ''STALE_PORTRAIT''
                ''The capture changed during portrait processing; please try again.'' 409)))
        else
        bnd (read_artifact t (portrait_candidate_path (sn_identity snap))) (\<lambda>candidate_bytes.
        bnd (write_artifact rt t PROCESSED_PORTRAIT candidate_bytes ''image/jpeg'') (\<lambda>ref.
        andthen (safe_remove t (portrait_candidate_path (sn_identity snap)))
        (andthen (write_portrait_authorization t (sn_decision_id snap) (sn_attempt_id snap)
                   (sn_selected_sha256 snap) (sn_identity snap) (ref_sha256 ref))
        (andthen (update_transaction_status rt t (status_value PORTRAIT_READY))
        (ret ref))))))))"

definition browser_portrait :: "runtime \<Rightarrow> app \<Rightarrow> browser_request \<Rightarrow> string \<Rightarrow> http_response M" where
  "browser_portrait rt ap rq face_box_form =
     bnd (portrait_open rt ap rq face_box_form) (\<lambda>(t, box).
     bnd (portrait_claim rt ap t) (\<lambda>claimed.
     case claimed of
       Inl reply \<Rightarrow> ret reply
     | Inr snap \<Rightarrow>
         andthen (portrait_process rt ap t snap box)
         (bnd (portrait_promote rt t snap) (\<lambda>ref.
          ret (json_reply 200
            [(''status'', JStr ''SUCCESS''), (''output_artifact'', JStr (ref_relative_path ref)),
             (''sha256'', JStr (ref_sha256 ref))])))))"

end
