(* ===== verification/Browser_Submit.thy ===== *)
theory Browser_Submit
  imports Browser_Gate
begin

text \<open>
  The submission of an authorized portrait to the consumer (\<open>app/api/v1/browser.py\<close>,
  \<open>browser_submit\<close>), which runs under the transaction's lock from its first check to its last write,
  the callback included, and the test-only decision writer of \<open>app/api/v1/dev.py\<close>.
\<close>

definition CALLBACK_STATE_PATH :: string where
  "CALLBACK_STATE_PATH = ''callback/decision-callback.json''"

definition read_portrait_with_integrity :: "runtime \<Rightarrow> string \<Rightarrow> blob M" where
  "read_portrait_with_integrity rt t =
     bnd (artifact_exists t PORTRAIT_PATH) (\<lambda>present.
     if \<not> present then raise (portrait_not_ready ''Portrait is not ready'' 412)
     else
     bnd (read_artifact t PORTRAIT_PATH) (\<lambda>data.
       if blob_bytes rt data = [] \<or> \<not> blob_starts_jpeg data
       then raise (ApiError ''PORTRAIT_INTEGRITY_FAILED'' ''Portrait integrity check failed'' 412)
       else ret data))"

definition read_callback_state :: "string \<Rightarrow> obj M" where
  "read_callback_state t =
     bnd (artifact_exists t CALLBACK_STATE_PATH) (\<lambda>present.
       if \<not> present then ret []
       else catch (read_json t CALLBACK_STATE_PATH) (\<lambda>_. ret []))"

definition write_callback_state :: "string \<Rightarrow> obj \<Rightarrow> unit M" where
  "write_callback_state t state = write_json t CALLBACK_STATE_PATH state"

definition revoke_after_completion :: "runtime \<Rightarrow> string \<Rightarrow> unit M" where
  "revoke_after_completion rt t =
     bnd (artifact_exists t ACTIVE_SESSION_PATH) (\<lambda>present.
       if \<not> present then ret ()
       else catch
         (bnd (read_json t ACTIVE_SESSION_PATH) (\<lambda>data.
            case str_text rt (jget_n data ''session_hash'') of
              Some prev \<Rightarrow> delete_browser_session prev
            | None \<Rightarrow> ret ()))
         (\<lambda>_. ret ()))"

definition failed_state :: "string \<Rightarrow> bool \<Rightarrow> int \<Rightarrow> obj" where
  "failed_state event_id retryable now =
     [(''event_id'', JStr event_id), (''state'', JStr ''FAILED''), (''retryable'', JBool retryable),
      (''updated_at'', JTime now)]"

definition acknowledged_state :: "string \<Rightarrow> string \<Rightarrow> int \<Rightarrow> obj" where
  "acknowledged_state event_id redirect_url now =
     [(''event_id'', JStr event_id), (''state'', JStr ''ACKNOWLEDGED''), (''redirect_url'', JStr redirect_url),
      (''updated_at'', JTime now)]"

text \<open>A delivery that failed: the state, the status, the counters, then the error to the browser.\<close>

definition delivery_failed ::
  "runtime \<Rightarrow> string \<Rightarrow> string \<Rightarrow> string \<Rightarrow> bool \<Rightarrow> string \<Rightarrow> string \<Rightarrow> exn \<Rightarrow> 'a M" where
  "delivery_failed rt t event_id cid retryable callback_result submit_result error =
     bnd (gets clock) (\<lambda>now.
     andthen (write_callback_state t (failed_state event_id retryable now))
     (andthen (update_transaction_status rt t (status_value CALLBACK_FAILED))
     (andthen (record_callback cid callback_result)
     (andthen (record_submit submit_result)
     (raise error)))))"

definition callback_failed :: "string \<Rightarrow> exn" where
  "callback_failed message = ApiError ''CALLBACK_FAILED'' message 502"

definition deliver ::
  "runtime \<Rightarrow> app \<Rightarrow> string \<Rightarrow> string \<Rightarrow> string \<Rightarrow> consumer_profile \<Rightarrow> obj \<Rightarrow> callback_delivery M" where
  "deliver rt ap t event_id cid profile payload =
     catch (send_callback rt (ap_environ ap) (ap_client ap) (ap_settings ap) profile payload)
       (\<lambda>e. case e of
          CallbackTransportError \<Rightarrow> delivery_failed rt t event_id cid True ''transient_failed'' ''callback_failed''
            (callback_failed ''Callback failed; please retry'')
        | CallbackTerminalError _ \<Rightarrow> delivery_failed rt t event_id cid False ''terminal_failed'' ''callback_failed''
            (callback_failed ''Callback failed'')
        | _ \<Rightarrow> raise e)"

definition is_local_env :: "settings \<Rightarrow> bool" where
  "is_local_env s \<longleftrightarrow> app_env s \<in> {Env_local, Env_test, Env_development}"

text \<open>From the delivery on: the redirect is checked, then the completion is recorded.\<close>

definition complete_submission ::
  "runtime \<Rightarrow> app \<Rightarrow> string \<Rightarrow> string \<Rightarrow> string \<Rightarrow> consumer_profile \<Rightarrow> callback_delivery \<Rightarrow> http_response M" where
  "complete_submission rt ap t event_id cid profile delivery =
     (case cd_redirect_url delivery of
        Some url \<Rightarrow>
          if validate_redirect_url profile url (is_local_env (ap_settings ap))
          then bnd (gets clock) (\<lambda>now.
               andthen (write_callback_state t (acknowledged_state event_id url now))
               (andthen (update_transaction_status rt t (status_value COMPLETED))
               (andthen (revoke_after_completion rt t)
               (andthen (record_callback cid ''acknowledged'')
               (andthen (record_submit ''ready'')
               (ret (json_reply 200 [(''redirect_url'', JStr url)])))))))
          else delivery_failed rt t event_id cid False ''terminal_failed'' ''invalid_redirect''
            (ApiError ''INVALID_REDIRECT'' ''Consumer redirect could not be validated'' 502)
      | None \<Rightarrow> delivery_failed rt t event_id cid False ''terminal_failed'' ''invalid_redirect''
            (ApiError ''INVALID_REDIRECT'' ''Consumer redirect could not be validated'' 502))"

definition not_ready :: "string \<Rightarrow> 'a M" where
  "not_ready message = andthen (record_submit ''not_ready'') (raise (ApiError ''NOT_READY'' message 412))"

text \<open>The checks: the status, the current PASS, the authorized portrait and its integrity.\<close>

definition submit_checks :: "runtime \<Rightarrow> string \<Rightarrow> (decision_record \<times> blob) M" where
  "submit_checks rt t =
     bnd (read_transaction_json t) (\<lambda>md.
     (let status = status_str (jget_n md ''status'') in
     if status = status_value COMPLETED
     then raise (ApiError ''TRANSACTION_COMPLETED'' ''Already completed'' 409)
     else if status \<in> set terminal_status_values
     then raise (ApiError ''TRANSACTION_TERMINAL'' ''Terminal state'' 409)
     else
     bnd (read_decision t) (\<lambda>decision.
     bnd (if decision = None then ret False else has_current_canonical_pass rt t) (\<lambda>pass.
     case decision of
       None \<Rightarrow> not_ready ''A canonical decision is not yet available''
     | Some d \<Rightarrow>
         if \<not> pass then not_ready ''A canonical decision is not yet available''
         else
         bnd (portrait_authorization_current rt t) (\<lambda>authorized.
         if \<not> authorized then not_ready ''The processed portrait is not ready for submission''
         else bnd (read_portrait_with_integrity rt t) (\<lambda>portrait. ret (d, portrait)))))))"

definition submit_locked :: "runtime \<Rightarrow> app \<Rightarrow> string \<Rightarrow> http_response M" where
  "submit_locked rt ap t =
     bnd (submit_checks rt t) (\<lambda>(d, portrait).
     bnd (read_transaction_json t) (\<lambda>md.
     (let cid = str_value rt (jget_d md ''consumer_id'' (JStr []));
          external_tx_id = str_value rt (jget_d md ''external_transaction_id'' (JStr [])) in
     case registry_get (ap_registry ap) cid of
       None \<Rightarrow> raise (ApiError ''INTEGRATION_NOT_CONFIGURED'' ''Consumer not configured'' 503)
     | Some profile \<Rightarrow>
         (let event_id = build_callback_event_id rt cid external_tx_id in
         bnd (read_callback_state t) (\<lambda>cb.
         if jget_n cb ''state'' = JStr ''ACKNOWLEDGED''
         then andthen (record_submit ''duplicate'')
              (ret (json_reply 200 [(''redirect_url'', jget_n cb ''redirect_url'')]))
         else
         bnd (gets clock) (\<lambda>now.
         (let payload = build_callback_payload rt event_id external_tx_id (d_decision_id d) portrait now in
         bnd (deliver rt ap t event_id cid profile payload) (\<lambda>delivery.
           complete_submission rt ap t event_id cid profile delivery))))))))"

definition browser_submit :: "runtime \<Rightarrow> app \<Rightarrow> browser_request \<Rightarrow> http_response M" where
  "browser_submit rt ap rq =
     bnd (session_transaction rt rq) (\<lambda>t. lock_transaction t (submit_locked rt ap t))"

section \<open>The test-only decision writer\<close>

definition test_decision :: "runtime \<Rightarrow> browser_request \<Rightarrow> http_response M" where
  "test_decision rt rq =
     bnd (session_transaction rt rq) (\<lambda>t.
     bnd (build_decision rt t PASS ''test-only'' ''m5.8-dev'' None None) (\<lambda>decision.
     andthen (write_decision t decision)
     (andthen (update_transaction_status rt t (status_value DECISION_READY))
     (ret (json_reply 200
       [(''decision_id'', d_decision_id decision), (''outcome'', JStr (decision_outcome_value (d_outcome decision))),
        (''submission_ready'', JBool True)])))))"

end
