(* ===== verification/Frames.thy ===== *)
theory Frames
  imports Browser_Submit Launch S2S Liveness_Facts
begin

text \<open>
  A calculus of effects: \<open>keeps R m\<close> says that every run of \<open>m\<close>, whether it returns or raises, relates
  the state before to the state after by \<open>R\<close>. The locale \<open>frame\<close> proves the rules of composition once
  for every reflexive and transitive \<open>R\<close>; it is interpreted for the relation \<open>effect\<close>, which bounds the
  files a call may change, the transactions it may complete and whether it may post a callback.
\<close>

section \<open>The calculus\<close>

definition keeps :: "('w \<Rightarrow> 'w \<Rightarrow> bool) \<Rightarrow> ('w, 'e, 'a) sm \<Rightarrow> bool" where
  "keeps R m \<longleftrightarrow> (\<forall>w. R w (snd (m w)))"

named_theorems keeps_intros \<open>effects of the operations\<close>

lemma keeps_wp: "keeps R m \<longleftrightarrow> (\<forall>w. wp m (\<lambda>_. R w) (\<lambda>_. R w) w)"
  by (auto simp: keeps_def wp_def split: prod.splits sum.splits)
     (metis snd_conv, metis Inl_Inr_False old.sum.exhaust snd_conv surj_pair)

lemma keeps_wpD: "keeps R m \<Longrightarrow> wp m (\<lambda>_. R w) (\<lambda>_. R w) w"
  by (simp add: keeps_wp)

lemma keeps_runD: "keeps R m \<Longrightarrow> m w = (r, w') \<Longrightarrow> R w w'"
  by (metis keeps_def snd_conv)

lemma keeps_mono: "keeps R m \<Longrightarrow> (\<And>w w'. R w w' \<Longrightarrow> R' w w') \<Longrightarrow> keeps R' m"
  by (simp add: keeps_def)

text \<open>Control structures that do not run anything themselves.\<close>

lemma keeps_if [keeps_intros]: "(b \<Longrightarrow> keeps R m) \<Longrightarrow> (\<not> b \<Longrightarrow> keeps R n) \<Longrightarrow> keeps R (if b then m else n)"
  by simp

lemma keeps_option [keeps_intros]:
  "(x = None \<Longrightarrow> keeps R m) \<Longrightarrow> (\<And>y. x = Some y \<Longrightarrow> keeps R (f y)) \<Longrightarrow> keeps R (case x of None \<Rightarrow> m | Some y \<Rightarrow> f y)"
  by (cases x) simp_all

lemma keeps_sum [keeps_intros]:
  "(\<And>y. x = Inl y \<Longrightarrow> keeps R (g y)) \<Longrightarrow> (\<And>y. x = Inr y \<Longrightarrow> keeps R (f y)) \<Longrightarrow>
     keeps R (case x of Inl y \<Rightarrow> g y | Inr y \<Rightarrow> f y)"
  by (cases x) simp_all

lemma keeps_prod [keeps_intros]: "(\<And>a b. keeps R (f a b)) \<Longrightarrow> keeps R (case x of (a, b) \<Rightarrow> f a b)"
  by (cases x) simp

lemma keeps_let [keeps_intros]: "keeps R (f x) \<Longrightarrow> keeps R (let y = x in f y)"
  by simp

locale frame =
  fixes R :: "'w \<Rightarrow> 'w \<Rightarrow> bool"
  assumes frame_refl: "R w w" and frame_trans: "R u v \<Longrightarrow> R v w \<Longrightarrow> R u w"
begin

lemma ret: "keeps R (ret x)"
  by (simp add: keeps_def ret_def frame_refl)

lemma raise: "keeps R (raise e)"
  by (simp add: keeps_def raise_def frame_refl)

lemma gets: "keeps R (gets f)"
  by (simp add: keeps_def gets_def frame_refl)

lemma lift: "keeps R (lift r)"
  by (simp add: keeps_def lift_def frame_refl)

lemma bnd: "keeps R m \<Longrightarrow> (\<And>x. keeps R (f x)) \<Longrightarrow> keeps R (bnd m f)"
  by (auto simp: keeps_def bnd_def split: prod.splits sum.splits) (metis frame_trans snd_conv)+

lemma andthen: "keeps R m \<Longrightarrow> keeps R n \<Longrightarrow> keeps R (andthen m n)"
  by (simp add: andthen_def bnd)

lemma catch: "keeps R m \<Longrightarrow> (\<And>e. keeps R (h e)) \<Longrightarrow> keeps R (catch m h)"
  by (auto simp: keeps_def catch_def split: prod.splits sum.splits) (metis frame_trans snd_conv)+

lemma when_do: "(b \<Longrightarrow> keeps R m) \<Longrightarrow> keeps R (when_do b m)"
  by (simp add: when_do_def ret)

lemma for_each: "(\<And>x. x \<in> set xs \<Longrightarrow> keeps R (f x)) \<Longrightarrow> keeps R (for_each xs f)"
  by (induction xs) (simp_all add: ret andthen)

lemma modify: "(\<And>w. R w (u w)) \<Longrightarrow> keeps R (modify u)"
  by (simp add: keeps_def modify_def)

end

section \<open>The effect of a call\<close>

text \<open>
  \<open>effect rt F C\<close>: no file outside \<open>F\<close> changes, no transaction outside \<open>C\<close> becomes COMPLETED, no
  transaction leaves the terminal statuses, and no callback is posted unless \<open>C\<close> has a transaction.
\<close>

definition completed :: "runtime \<Rightarrow> world \<Rightarrow> string \<Rightarrow> bool" where
  "completed rt w t \<longleftrightarrow> status_of rt w t = Some COMPLETED"

definition ended :: "runtime \<Rightarrow> world \<Rightarrow> string \<Rightarrow> bool" where
  "ended rt w t \<longleftrightarrow> (case status_of rt w t of None \<Rightarrow> False | Some s \<Rightarrow> is_terminal s)"

definition effect :: "runtime \<Rightarrow> (string \<times> string) set \<Rightarrow> string set \<Rightarrow> world \<Rightarrow> world \<Rightarrow> bool" where
  "effect rt F C w w' \<longleftrightarrow> (\<forall>t p. (t, p) \<notin> F \<longrightarrow> file_at w' t p = file_at w t p)
     \<and> (\<forall>t. t \<notin> C \<longrightarrow> completed rt w' t \<longrightarrow> completed rt w t)
     \<and> (\<forall>t. ended rt w t \<longrightarrow> ended rt w' t)
     \<and> (C = {} \<longrightarrow> outbox w' = outbox w)"

interpretation eff: frame "effect rt F C" for rt F C
  by unfold_locales (auto simp: effect_def)

lemmas eff_rules [keeps_intros] = eff.ret eff.raise eff.gets eff.lift eff.bnd eff.andthen eff.catch eff.when_do eff.for_each

lemma effect_mono: "effect rt F C w w' \<Longrightarrow> F \<subseteq> F' \<Longrightarrow> C \<subseteq> C' \<Longrightarrow> effect rt F' C' w w'"
  by (auto simp: effect_def)

lemma effect_weaken: "keeps (effect rt F C) m \<Longrightarrow> F \<subseteq> F' \<Longrightarrow> C \<subseteq> C' \<Longrightarrow> keeps (effect rt F' C') m"
  by (erule keeps_mono) (rule effect_mono)

lemma effect_fileD: "effect rt F C w w' \<Longrightarrow> (t, p) \<notin> F \<Longrightarrow> file_at w' t p = file_at w t p"
  by (simp add: effect_def)

lemma completed_cong:
  assumes "file_at w' t ''transaction.json'' = file_at w t ''transaction.json''"
  shows "completed rt w' t = completed rt w t" "ended rt w' t = ended rt w t"
  using assms by (simp_all add: completed_def ended_def status_of_def metadata_of_def)

lemma status_of_write:
  "status_of rt (put_file t ''transaction.json'' (Json (JObj md)) w) t'
     = (if t = t' then Some (metadata_status rt md) else status_of rt w t')"
  by (simp add: status_of_def metadata_of_put)

lemma status_of_make_dir [simp]: "status_of rt (make_dir t w) t' = status_of rt w t'"
  by (simp add: status_of_def metadata_of_def)

text \<open>A file written: the metadata file only by the status update, which has its own rule.\<close>

lemma effect_put:
  assumes "(t, p) \<in> F" and "p \<noteq> ''transaction.json''"
  shows "effect rt F C w (put_file t p b w)"
proof -
  have "completed rt (put_file t p b w) t' = completed rt w t'" "ended rt (put_file t p b w) t' = ended rt w t'" for t'
    using assms(2) by (intro completed_cong; simp add: file_at_put)+
  then show ?thesis using assms(1) by (auto simp: effect_def file_at_put)
qed

lemma effect_del:
  assumes "(t, p) \<in> F" and "p \<noteq> ''transaction.json''"
  shows "effect rt F C w (del_file t p w)"
proof -
  have "completed rt (del_file t p w) t' = completed rt w t'" "ended rt (del_file t p w) t' = ended rt w t'" for t'
    using assms(2) by (intro completed_cong; simp add: file_at_del)+
  then show ?thesis using assms(1) by (auto simp: effect_def file_at_del)
qed

lemma effect_no_files: "txs w' = txs w \<Longrightarrow> outbox w' = outbox w \<Longrightarrow> effect rt F C w w'"
  by (simp add: effect_def file_at_def completed_def ended_def status_of_def metadata_of_def)

lemma effect_make_dir: "effect rt F C w (make_dir t w)"
  by (simp add: effect_def completed_def ended_def status_of_def metadata_of_def)

section \<open>The store\<close>

lemma keeps_lock [keeps_intros]: "keeps (effect rt F C) m \<Longrightarrow> keeps (effect rt F C) (lock_transaction t m)"
  unfolding lock_transaction_def by (intro keeps_intros eff.modify effect_make_dir)

lemma keeps_reads [keeps_intros]:
  "keeps (effect rt F C) (read_artifact t p)" "keeps (effect rt F C) (artifact_exists t p)"
  "keeps (effect rt F C) (read_json t p)" "keeps (effect rt F C) (read_transaction_json t)"
  "keeps (effect rt F C) (transaction_exists t)"
  by (simp_all add: keeps_wp wp_simps eff.frame_refl split: option.splits sum.splits)

lemma keeps_write_json [keeps_intros]:
  "(t, p) \<in> F \<Longrightarrow> p \<noteq> ''transaction.json'' \<Longrightarrow> keeps (effect rt F C) (write_json t p ob)"
  by (simp add: keeps_wp wp_simps eff.frame_refl effect_put)

lemma keeps_write_bytes [keeps_intros]:
  "(t, p) \<in> F \<Longrightarrow> p \<noteq> ''transaction.json'' \<Longrightarrow> keeps (effect rt F C) (write_bytes rt' t p b)"
  by (simp add: keeps_wp wp_simps eff.frame_refl effect_put)

lemma artifact_not_metadata: "ARTIFACT_RELATIVE_PATHS k \<noteq> ''transaction.json''"
  by (cases k) simp_all

lemma keeps_write_artifact [keeps_intros]:
  "(t, ARTIFACT_RELATIVE_PATHS k) \<in> F \<Longrightarrow> keeps (effect rt F C) (write_artifact rt' t k b c)"
  by (simp add: keeps_wp wp_simps eff.frame_refl effect_put artifact_not_metadata)

lemma keeps_remove_artifact [keeps_intros]:
  "(t, p) \<in> F \<Longrightarrow> p \<noteq> ''transaction.json'' \<Longrightarrow> keeps (effect rt F C) (remove_artifact t p)"
  by (simp add: keeps_wp wp_simps eff.frame_refl effect_del)

text \<open>A status update completes a transaction only if COMPLETED is what it writes.\<close>

lemma keeps_update_status [keeps_intros]:
  assumes "(t, ''transaction.json'') \<in> F" and "status_from_value s = COMPLETED \<Longrightarrow> t \<in> C"
  shows "keeps (effect rt F C) (update_transaction_status rt t s)"
proof -
  have "effect rt F C w (put_file t ''transaction.json''
      (Json (JObj (jput ''updated_at'' (JTime n) (jput ''status'' (JStr s) md)))) w)"
    if "file_at w t ''transaction.json'' = Some b" "parse_object b = Inr md"
      "is_terminal (metadata_status rt md) \<Longrightarrow> is_terminal (status_from_value s)" for w n b md
  proof -
    have "status_of rt w t = Some (metadata_status rt md)"
      using that(1,2) by (auto simp: status_of_def metadata_of_def parse_object_Inr)
    then show ?thesis
      using assms that(3) by (auto simp: effect_def file_at_put completed_def ended_def status_of_write metadata_status_put_text)
  qed
  then show ?thesis
    by (simp add: keeps_wp wp_simps eff.frame_refl split: option.splits sum.splits)
qed

lemma keeps_record [keeps_intros]:
  "keeps (effect rt F C) (record_metric m)" "keeps (effect rt F C) (draw_token rt')"
  by (simp_all add: keeps_wp wp_simps effect_no_files)

lemma keeps_records [keeps_intros]:
  "keeps (effect rt F C) (record_launch_session c r)" "keeps (effect rt F C) (record_capture_attempt c)"
  "keeps (effect rt F C) (record_submit c)" "keeps (effect rt F C) (record_callback c r)"
  "keeps (effect rt F C) (record_status_read c)" "keeps (effect rt F C) (record_vlm_evaluation c r x)"
  by (simp_all add: record_defs keeps_record)

lemma keeps_getters [keeps_intros]:
  "keeps (effect rt F C) (getitem ob k)" "keeps (effect rt F C) (need_str rt' v)"
  by (simp_all add: getitem_def need_str_def eff.lift)

end
