(* ===== verification/Effects.thy ===== *)
theory Effects
  imports Frames
begin

text \<open>
  The effects of the operations the routes are made of: what reads leave alone, which files each
  writer may change, and that no operation but a submission completes a transaction or posts a callback.
\<close>

section \<open>Indices and sessions\<close>

lemma keeps_index [keeps_intros]:
  "keeps (effect rt F C) (put_launch_token h ob)" "keeps (effect rt F C) (get_launch_token h)"
  "keeps (effect rt F C) (delete_launch_token h)" "keeps (effect rt F C) (put_browser_session h ob)"
  "keeps (effect rt F C) (get_browser_session h)" "keeps (effect rt F C) (delete_browser_session h)"
  "keeps (effect rt F C) (put_external h ob)" "keeps (effect rt F C) (get_external h)"
  by (auto simp: put_launch_token_def get_launch_token_def delete_launch_token_def put_browser_session_def
      get_browser_session_def delete_browser_session_def put_external_def get_external_def
      set_launch_def drop_launch_def set_session_def drop_session_def set_external_def
      intro!: keeps_intros eff.modify effect_no_files)

lemma keeps_is_expired [keeps_intros]: "keeps (effect rt F C) (is_expired rt' v)"
  by (cases v) (auto simp: is_expired_def intro: keeps_intros split: iso_parse.split)

lemma keeps_sessions [keeps_intros]:
  "keeps (effect rt F C) (require_active_session rt' rq)" "keeps (effect rt F C) (resolve_session_record rt' rq)"
  "keeps (effect rt F C) (require_csrf rt' rq r)"
  unfolding require_active_session_def resolve_session_record_def resolve_browser_session_def require_csrf_def
    verify_csrf_def
  by (intro keeps_intros)+

lemma keeps_session_transaction [keeps_intros]: "keeps (effect rt F C) (session_transaction rt' rq)"
  unfolding session_transaction_def by (intro keeps_intros)

lemma keeps_invalidate_previous [keeps_intros]: "keeps (effect rt F C) (invalidate_previous_active rt' t)"
  unfolding invalidate_previous_active_def by (intro keeps_intros)

lemma keeps_create_session [keeps_intros]:
  "(t, ACTIVE_SESSION_PATH) \<in> F \<Longrightarrow> keeps (effect rt F C) (create_session rt' s t mode ts)"
  unfolding create_session_def by (intro keeps_intros) (simp_all add: ACTIVE_SESSION_PATH_def)

lemma keeps_redeem [keeps_intros]:
  "\<forall>t. (t, ACTIVE_SESSION_PATH) \<in> F \<Longrightarrow> keeps (effect rt F C) (redeem rt' s opaque)"
  unfolding redeem_def redeem_launch_token_def by (intro keeps_intros) simp_all

section \<open>Reads\<close>

lemma keeps_transaction_reads [keeps_intros]:
  "keeps (effect rt F C) (consumer_for_tx rt' t)" "keeps (effect rt F C) (terminal_blocked t)"
  "keeps (effect rt F C) (read_attempts t n)" "keeps (effect rt F C) (read_decision t)"
  "keeps (effect rt F C) (current_capture_key rt' t)" "keeps (effect rt F C) (current_capture_face_box rt' t)"
  "keeps (effect rt F C) (read_evaluation t i)" "keeps (effect rt F C) (read_claim t i p)"
  "keeps (effect rt F C) (is_claimed t i p)" "keeps (effect rt F C) (portrait_sha256 rt' t)"
  "keeps (effect rt F C) (read_portrait_with_integrity rt' t)" "keeps (effect rt F C) (read_callback_state t)"
  "keeps (effect rt F C) (sha256_of_artifact rt' t p)"
  unfolding consumer_for_tx_def terminal_blocked_def read_attempts_def read_decision_def current_capture_key_def
    current_capture_face_box_def read_evaluation_def read_claim_def is_claimed_def portrait_sha256_def
    read_portrait_with_integrity_def read_callback_state_def sha256_of_artifact_def
  by (intro keeps_intros)+

lemma keeps_derived_reads [keeps_intros]:
  "keeps (effect rt F C) (max_attempts_for_tx rt' ap t n)" "keeps (effect rt F C) (read_attempt_summary rt' t n)"
  "keeps (effect rt F C) (has_current_canonical_pass rt' t)" "keeps (effect rt F C) (expected_liveness_identity rt' t)"
  "keeps (effect rt F C) (claim_ready rt' s t i p)"
  unfolding max_attempts_for_tx_def read_attempt_summary_def has_current_canonical_pass_def
    expected_liveness_identity_def claim_ready_def
  by (intro keeps_intros)+

lemma keeps_binding_reads [keeps_intros]:
  "keeps (effect rt F C) (capture_snapshot rt' t)" "keeps (effect rt F C) (snapshot_matches_current rt' t sn)"
  "keeps (effect rt F C) (portrait_authorization_current rt' t)"
  unfolding capture_snapshot_def snapshot_matches_current_def portrait_authorization_current_def
  by (intro keeps_intros)+

section \<open>Writes of the components\<close>

abbreviation metadata_file :: "string \<Rightarrow> string \<times> string" where
  "metadata_file t \<equiv> (t, ''transaction.json'')"

lemma path_not_metadata [simp]:
  "ATTEMPTS_PATH \<noteq> ''transaction.json''" "CAPTURE_META_PATH \<noteq> ''transaction.json''" "CAPTURE_PATH \<noteq> ''transaction.json''"
  "DECISION_RELATIVE_PATH \<noteq> ''transaction.json''" "PORTRAIT_PATH \<noteq> ''transaction.json''"
  "PORTRAIT_AUTHORIZATION_PATH \<noteq> ''transaction.json''" "CALLBACK_STATE_PATH \<noteq> ''transaction.json''"
  "ACTIVE_SESSION_PATH \<noteq> ''transaction.json''" "PORTRAIT_PROCESSING_PATH \<noteq> ''transaction.json''"
  "ACTIVE_LAUNCHES_PATH \<noteq> ''transaction.json''" "claim_path_for i p \<noteq> ''transaction.json''"
  "VLM_RESULT_PATH \<noteq> ''transaction.json''"
  "evaluation_relative_path i \<noteq> ''transaction.json''" "portrait_candidate_path i \<noteq> ''transaction.json''"
  by (simp_all add: ATTEMPTS_PATH_def CAPTURE_META_PATH_def CAPTURE_PATH_def DECISION_RELATIVE_PATH_def PORTRAIT_PATH_def
      PORTRAIT_AUTHORIZATION_PATH_def CALLBACK_STATE_PATH_def ACTIVE_SESSION_PATH_def PORTRAIT_PROCESSING_PATH_def
      ACTIVE_LAUNCHES_PATH_def claim_path_for_def evaluation_relative_path_def portrait_candidate_path_def
      VLM_RESULT_PATH_def)

lemmas metadata_not_path [simp] = path_not_metadata[symmetric]

lemma status_never_completed [simp]:
  "status_from_value (status_value s) = COMPLETED \<longleftrightarrow> s = COMPLETED"
  by simp

lemma keeps_register_locked [keeps_intros]:
  "{(t, ATTEMPTS_PATH), metadata_file t} \<subseteq> F \<Longrightarrow> keeps (effect rt F C) (register_attempt_locked rt s t a r c m mark)"
  unfolding register_attempt_locked_def settle_attempt_def
  by (intro keeps_intros) (simp_all del: status_value.simps)

lemma keeps_register [keeps_intros]:
  "{(t, ATTEMPTS_PATH), metadata_file t} \<subseteq> F \<Longrightarrow> keeps (effect rt F C) (register_attempt rt s t a r c m mark)"
  unfolding register_attempt_def by (intro keeps_intros)

lemma keeps_invalidate [keeps_intros]:
  "{t} \<times> set AUTHORIZATION_ARTIFACTS \<subseteq> F \<Longrightarrow> keeps (effect rt F C) (invalidate_authorization t)"
  unfolding invalidate_authorization_def
  by (intro keeps_intros) (auto simp: AUTHORIZATION_ARTIFACTS_def)

lemma keeps_claims [keeps_intros]:
  "(t, claim_path_for i p) \<in> F \<Longrightarrow> keeps (effect rt F C) (set_claim t i p)"
  "(t, claim_path_for i p) \<in> F \<Longrightarrow> keeps (effect rt F C) (clear_claim t i p)"
  unfolding set_claim_def clear_claim_def by (intro keeps_intros; simp)+

lemma keeps_take_claim [keeps_intros]:
  "(t, claim_path_for i p) \<in> F \<Longrightarrow> keeps (effect rt F C) busy \<Longrightarrow> keeps (effect rt F C) (take_claim rt' s t i p busy)"
  unfolding take_claim_def by (intro keeps_intros)

lemma keeps_persist [keeps_intros]:
  "(t, evaluation_relative_path i) \<in> F \<Longrightarrow> keeps (effect rt F C) (persist_evaluation t i ob)"
  "(t, evaluation_relative_path i) \<in> F \<Longrightarrow> keeps (effect rt F C) (persist_error_evaluation t i a sha e)"
  unfolding persist_error_evaluation_def persist_evaluation_def by (intro keeps_intros; simp)+

lemma keeps_decision [keeps_intros]:
  "keeps (effect rt F C) (build_decision rt' t oc src v md refs)"
  "(t, DECISION_RELATIVE_PATH) \<in> F \<Longrightarrow> keeps (effect rt F C) (write_decision t d)"
  unfolding build_decision_def write_decision_def by (intro keeps_intros; simp)+

lemma keeps_safe_remove [keeps_intros]:
  "(t, p) \<in> F \<Longrightarrow> p \<noteq> ''transaction.json'' \<Longrightarrow> keeps (effect rt F C) (safe_remove t p)"
  unfolding safe_remove_def by (intro keeps_intros)

lemma keeps_write_authorization [keeps_intros]:
  "(t, PORTRAIT_AUTHORIZATION_PATH) \<in> F \<Longrightarrow> keeps (effect rt F C) (write_portrait_authorization t d a sha i psha)"
  unfolding write_portrait_authorization_def by (intro keeps_intros) simp_all

section \<open>The evaluation\<close>

lemma keeps_bnd_lift: "(\<And>x. r = Inr x \<Longrightarrow> keeps (effect rt F C) (f x)) \<Longrightarrow> keeps (effect rt F C) (bnd (lift r) f)"
  by (cases r) (simp_all add: keeps_def bnd_def lift_def eff.frame_refl)

lemma keeps_retry_loop: "keeps (effect rt F C) m \<Longrightarrow> keeps (effect rt F C) (retry_loop m n k fuel)"
  by (induction fuel arbitrary: k) (auto intro!: keeps_intros)

lemma keeps_with_retries [keeps_intros]: "keeps (effect rt F C) m \<Longrightarrow> keeps (effect rt F C) (run_with_retries m n)"
  by (simp add: run_with_retries_def keeps_retry_loop)

lemma keeps_gemini_outcome [keeps_intros]:
  "(\<And>st m. keeps R (f st m)) \<Longrightarrow> (\<And>x u. keeps R (g x u)) \<Longrightarrow>
     keeps R (case out of GeminiText x u \<Rightarrow> g x u | GeminiRaised st m \<Rightarrow> f st m)"
  by (cases out) simp_all

lemma keeps_provider_calls [keeps_intros]:
  "keeps (effect rt F C) (openai_evaluate_once rt' pl client url key model name rq)"
  "keeps (effect rt F C) (gemini_evaluate_once rt' pl gclient model rq)" "keeps (effect rt F C) (mock_evaluate rq)"
  unfolding openai_evaluate_once_def call_openai_compatible_def provider_post_def gemini_evaluate_once_def mock_evaluate_def
  by (intro keeps_intros eff.modify effect_no_files; simp)+

lemma keeps_provider:
  assumes "get_vision_provider rt' libs s name = Inr p"
  shows "keeps (effect rt F C) (pv_evaluate p rq)"
  using assms
  by (auto simp: get_vision_provider_def Let_def GeminiVisionProvider_def GroqVisionProvider_def OpenRouterVisionProvider_def
      LocalVisionProvider_def MockVisionProvider_def split: if_splits intro!: keeps_intros)

lemma keeps_service [keeps_intros]: "keeps (effect rt F C) (service_evaluate rt' (get_vision_provider rt' libs) s rq)"
proof -
  have handler: "keeps (effect rt F C) (case e of VlmError code m \<Rightarrow> f code m | _ \<Rightarrow> raise e)"
    if "\<And>code m. keeps (effect rt F C) (f code m)" for e and f :: "vlm_error_code \<Rightarrow> string \<Rightarrow> experiment_result M"
    using that by (cases e) (simp_all add: eff.raise)
  show ?thesis
    unfolding service_evaluate_def
    by (intro keeps_bnd_lift handler keeps_intros | erule keeps_provider)+
qed

lemma keeps_evaluate_capture [keeps_intros]: "keeps (effect rt F C) (evaluate_capture rt' libs s t a sha)"
  unfolding evaluate_capture_def by (intro keeps_intros)

section \<open>The portrait run\<close>

lemma keeps_run_pipeline:
  "{(t, p), (t, PORTRAIT_PROCESSING_PATH)} \<subseteq> F \<Longrightarrow> p \<noteq> ''transaction.json'' \<Longrightarrow>
     keeps (effect rt F C) (run_pipeline rt' im s sg model src t box (Some p) st)"
  unfolding run_pipeline_def store_output_def by (intro keeps_intros) simp_all

lemma keeps_pipeline_failed: "keeps (effect rt F C) (pipeline_failed rt' t (Some p) prev e)"
  by (cases e) (simp_all add: pipeline_failed_def record_failure_def Let_def; intro keeps_intros; simp?)+

lemma keeps_candidate [keeps_intros]:
  assumes "{(t, p), (t, PORTRAIT_PROCESSING_PATH)} \<subseteq> F" and "p \<noteq> ''transaction.json''"
  shows "keeps (effect rt F C) (process_portrait rt' im s sg src t box (Some p))"
  unfolding process_portrait_def using assms
  by (intro keeps_intros keeps_run_pipeline keeps_pipeline_failed) simp_all

end
