(* ===== verification/Route_Effects.thy ===== *)
theory Route_Effects
  imports Effects
begin

text \<open>
  The effects of the phases of the browser routes and of the integration routes, and what a request
  without a valid session is answered.
\<close>

section \<open>Phases of the browser routes\<close>

lemma keeps_attempts_route [keeps_intros]:
  "UNIV \<times> {ATTEMPTS_PATH, ''transaction.json''} \<subseteq> F \<Longrightarrow> keeps (effect rt F C) (browser_attempts rt ap rq a r c)"
  unfolding browser_attempts_def by (intro keeps_intros) auto

lemma keeps_session_route [keeps_intros]:
  "keeps (effect rt F C) (browser_session rt' ap rq)" "keeps (effect rt F C) (browser_portrait_image rt' rq)"
  unfolding browser_session_def browser_portrait_image_def by (intro keeps_intros)+

definition capture_files :: "string list" where
  "capture_files = [ATTEMPTS_PATH, ''transaction.json'', CAPTURE_PATH, CAPTURE_META_PATH] @ AUTHORIZATION_ARTIFACTS"

lemma capture_artifact: "ARTIFACT_RELATIVE_PATHS SELECTED_ORIGINAL_CAPTURE = CAPTURE_PATH"
  "ARTIFACT_RELATIVE_PATHS PROCESSED_PORTRAIT = PORTRAIT_PATH"
  by (simp_all add: CAPTURE_PATH_def PORTRAIT_PATH_def)

lemma keeps_store_capture [keeps_intros]:
  assumes "{t} \<times> set capture_files \<subseteq> F"
  shows "keeps (effect rt F C) (store_capture rt ap t a data mime cc qc box)"
  unfolding store_capture_def using assms
  by (intro keeps_intros) (auto simp: capture_files_def capture_artifact simp del: status_value.simps ARTIFACT_RELATIVE_PATHS.simps)

lemma keeps_capture_open [keeps_intros]: "keeps (effect rt F C) (capture_open rt' ap rq up form)"
  unfolding capture_open_def by (intro keeps_intros)

lemma keeps_capture_commit [keeps_intros]:
  "{t} \<times> set capture_files \<subseteq> F \<Longrightarrow> keeps (effect rt F C) (capture_commit rt ap t a data mime cc qc box)"
  unfolding capture_commit_def by (intro keeps_intros)

lemma keeps_opens [keeps_intros]:
  "keeps (effect rt F C) (liveness_open rt' rq)" "keeps (effect rt F C) (portrait_open rt' ap rq form)"
  unfolding liveness_open_def portrait_open_def by (intro keeps_intros)+

lemma keeps_cached_reply [keeps_intros]: "keeps (effect rt F C) (cached_reply rt' c)"
  unfolding cached_reply_def by (intro keeps_intros)

lemma keeps_liveness_claim [keeps_intros]:
  "(t, claim_path_for i EVALUATION_CLAIM_PREFIX) \<in> F \<Longrightarrow> keeps (effect rt F C) (liveness_claim rt' ap t i)"
  unfolding liveness_claim_def by (intro keeps_intros)

lemma keeps_liveness_failed [keeps_intros]:
  "{(t, claim_path_for i EVALUATION_CLAIM_PREFIX), (t, evaluation_relative_path i)} \<subseteq> F \<Longrightarrow>
     keeps (effect rt F C) (liveness_failed rt' t i e)"
  by (cases e) (simp_all add: liveness_failed_def; intro keeps_intros; simp?)+

lemma keeps_write_bound [keeps_intros]:
  "{(t, DECISION_RELATIVE_PATH), metadata_file t} \<subseteq> F \<Longrightarrow>
     keeps (effect rt F C) (write_liveness_decision_bound rt t oc ev i)"
  unfolding write_liveness_decision_bound_def by (intro keeps_intros) (simp_all del: status_value.simps)

lemma keeps_settle [keeps_intros]:
  "{(t, claim_path_for i EVALUATION_CLAIM_PREFIX), (t, evaluation_relative_path i), (t, DECISION_RELATIVE_PATH),
      metadata_file t} \<subseteq> F \<Longrightarrow> keeps (effect rt F C) (liveness_settle rt t i ev)"
  unfolding liveness_settle_def by (intro keeps_intros) simp_all

lemma keeps_portrait_claim [keeps_intros]:
  "\<forall>i. (t, claim_path_for i PORTRAIT_CLAIM_PREFIX) \<in> F \<Longrightarrow> keeps (effect rt F C) (portrait_claim rt' ap t)"
  unfolding portrait_claim_def by (intro keeps_intros) simp

lemma keeps_portrait_process [keeps_intros]:
  "{(t, portrait_candidate_path (sn_identity sn)), (t, PORTRAIT_PROCESSING_PATH),
      (t, claim_path_for (sn_identity sn) PORTRAIT_CLAIM_PREFIX)} \<subseteq> F \<Longrightarrow>
     keeps (effect rt F C) (portrait_process rt' ap t sn box)"
  unfolding portrait_process_def clear_portrait_claim_locked_def by (intro keeps_intros) simp_all

lemma keeps_portrait_promote [keeps_intros]:
  "{(t, portrait_candidate_path (sn_identity sn)), (t, PORTRAIT_PATH), (t, PORTRAIT_AUTHORIZATION_PATH),
      (t, claim_path_for (sn_identity sn) PORTRAIT_CLAIM_PREFIX), metadata_file t} \<subseteq> F \<Longrightarrow>
     keeps (effect rt F C) (portrait_promote rt t sn)"
  unfolding portrait_promote_def
  by (intro keeps_intros) (simp_all add: capture_artifact del: status_value.simps ARTIFACT_RELATIVE_PATHS.simps)

section \<open>Submission\<close>

lemma keeps_submit_checks [keeps_intros]: "keeps (effect rt F C) (submit_checks rt' t)"
  unfolding submit_checks_def not_ready_def by (intro keeps_intros)

lemma keeps_revoke [keeps_intros]: "keeps (effect rt F C) (revoke_after_completion rt' t)"
  unfolding revoke_after_completion_def by (intro keeps_intros)

lemma keeps_delivery_failed [keeps_intros]:
  "{(t, CALLBACK_STATE_PATH), metadata_file t} \<subseteq> F \<Longrightarrow>
     keeps (effect rt F C) (delivery_failed rt t ev cid retryable cr sr e)"
  unfolding delivery_failed_def write_callback_state_def
  by (intro keeps_intros) (simp_all del: status_value.simps)

lemma keeps_complete [keeps_intros]:
  "{(t, CALLBACK_STATE_PATH), metadata_file t} \<subseteq> F \<Longrightarrow> t \<in> C \<Longrightarrow>
     keeps (effect rt F C) (complete_submission rt ap t ev cid p d)"
  unfolding complete_submission_def write_callback_state_def by (intro keeps_intros) simp_all

lemma effect_outbox: "C \<noteq> {} \<Longrightarrow> effect rt F C w (w\<lparr>outbox := ps\<rparr>)"
  by (simp add: effect_def completed_def ended_def status_of_def metadata_of_def)

lemma keeps_send_callback [keeps_intros]:
  assumes "C \<noteq> {}" shows "keeps (effect rt F C) (send_callback rt' env client s p payload)"
proof -
  have "effect rt F C w (snd (callback_loop client mr post made w))" for mr post made w
    using callback_loop_spec[of client mr post made w] effect_outbox[OF assms] by (auto simp: posted_def)
  then have "keeps (effect rt F C) (callback_loop client mr post made)" for mr post made
    by (simp add: keeps_def)
  then show ?thesis unfolding send_callback_def by (intro keeps_intros)
qed

lemma keeps_deliver [keeps_intros]:
  assumes "{(t, CALLBACK_STATE_PATH), metadata_file t} \<subseteq> F" and "C \<noteq> {}"
  shows "keeps (effect rt F C) (deliver rt ap t ev cid p payload)"
proof -
  have "keeps (effect rt F C) (case e of
      CallbackTransportError \<Rightarrow> delivery_failed rt t ev cid True x y z
    | CallbackTerminalError c \<Rightarrow> delivery_failed rt t ev cid False x' y' z'
    | _ \<Rightarrow> (raise e :: callback_delivery M))" for e x y z x' y' z'
    using assms(1) by (cases e) (simp_all add: eff.raise keeps_delivery_failed)
  then show ?thesis unfolding deliver_def using assms(2) by (intro keeps_intros)
qed

lemma keeps_submit_locked [keeps_intros]:
  "{(t, CALLBACK_STATE_PATH), metadata_file t} \<subseteq> F \<Longrightarrow> t \<in> C \<Longrightarrow> keeps (effect rt F C) (submit_locked rt ap t)"
  unfolding submit_locked_def by (intro keeps_intros) auto

lemma keeps_test_decision:
  "UNIV \<times> {DECISION_RELATIVE_PATH, ''transaction.json''} \<subseteq> F \<Longrightarrow> keeps (effect rt F C) (test_decision rt rq)"
  unfolding test_decision_def by (intro keeps_intros) (auto simp del: status_value.simps)

section \<open>Integration routes\<close>

lemma keeps_status_route: "keeps (effect rt F C) (transaction_status_route rt' lib s registry rq ext src)"
  unfolding transaction_status_route_def authenticated_consumer_def resolve_status_def status_read_attempts_def
  by (intro keeps_intros)

lemma keeps_revoke_entry [keeps_intros]: "keeps (effect rt F C) (revoke_entry rt' e)"
  by (cases "(rt', e)" rule: revoke_entry.cases) (simp_all; intro keeps_intros)+

lemma keeps_launch_parts [keeps_intros]:
  "keeps (effect rt F C) (read_active_launches t)"
  "(t, ACTIVE_LAUNCHES_PATH) \<in> F \<Longrightarrow> keeps (effect rt F C) (revoke_active_launch_tokens rt' t)"
  unfolding read_active_launches_def revoke_active_launch_tokens_def by (intro keeps_intros; simp?)+

lemma keeps_token_url [keeps_intros]: "keeps (effect rt F C) (build_launch_token_and_url rt' s)"
  unfolding build_launch_token_and_url_def public_base_url_def by (intro keeps_intros)

lemma keeps_store_token [keeps_intros]:
  "(t, ACTIVE_LAUNCHES_PATH) \<in> F \<Longrightarrow> keeps (effect rt F C) (store_launch_token rt' s t ext h url)"
  unfolding store_launch_token_def by (intro keeps_intros) simp_all

lemma keeps_reissue_route:
  assumes "\<forall>t. (t, ACTIVE_LAUNCHES_PATH) \<in> F"
  shows "keeps (effect rt F C) (reissue_launch_session rt' lib s registry rq ext src)"
  unfolding reissue_launch_session_def authenticated_consumer_def reissue_launch_def using assms
  by (intro keeps_intros) auto

lemma keeps_create_transaction:
  assumes "(t, ''transaction.json'') \<in> F" and "metadata_status rt md \<noteq> COMPLETED"
  shows "keeps (effect rt F C) (create_transaction t md)"
proof -
  have "effect rt F C w (put_file t ''transaction.json'' (Json (JObj md)) (make_dir t w))" if "txs w t = None" for w
  proof -
    have "status_of rt w t = None" using that by (simp add: status_of_def metadata_of_def file_at_def)
    then show ?thesis using assms by (auto simp: effect_def file_at_put completed_def ended_def status_of_write)
  qed
  then show ?thesis by (simp add: keeps_wp wp_simps eff.frame_refl)
qed

lemma keeps_allocate:
  assumes "\<forall>t. (t, ''transaction.json'') \<in> F" and "\<And>t. metadata_status rt (mf t) \<noteq> COMPLETED"
    and "keeps (effect rt F C) generate"
  shows "keeps (effect rt F C) (allocate_transaction generate mf n)"
  using assms by (induction n) (auto intro!: keeps_intros keeps_create_transaction)

lemma keeps_generate [keeps_intros]: "keeps (effect rt F C) (generate_internal_transaction_id rt' now)"
proof -
  have "keeps (effect rt F C) (draw_suffix rt')"
    by (simp add: draw_suffix_def keeps_wp wp_simps effect_no_files)
  then have "keeps (effect rt F C) (case m of Naive x \<Rightarrow> raise ValueErr
      | Aware t \<Rightarrow> bnd (draw_suffix rt') (\<lambda>hex. ret (f t hex)))" for m :: py_datetime and f :: "int \<Rightarrow> string \<Rightarrow> string"
    by (cases m) (simp_all add: eff.raise eff.bnd eff.ret)
  then show ?thesis unfolding generate_internal_transaction_id_def by (intro eff.bnd eff.gets)
qed

lemma keeps_launch_route:
  assumes "UNIV \<times> {ACTIVE_LAUNCHES_PATH, ''transaction.json''} \<subseteq> F"
  shows "keeps (effect rt F C) (launch_session rt' lib s registry rq body)"
proof -
  have status: "metadata_status rt (transaction_metadata s t p body (status_value LAUNCHED) n) \<noteq> COMPLETED" for t p n
    by (simp add: metadata_status_def transaction_metadata_def del: status_value.simps)
  show ?thesis
    unfolding launch_session_def authenticated_consumer_def create_launch_def lock_external_def
      create_transaction_with_generated_id_def option.case
    using assms by (intro keeps_intros keeps_allocate status) auto
qed

end
