(* ===== verification/Phase_Specs.thy ===== *)
theory Phase_Specs
  imports Route_Effects
begin

text \<open>
  What each phase of the browser routes establishes about the transaction it works on: the upload of
  an attempt is recorded once, a capture is stored whole and revokes what the previous one authorized,
  an evaluation is promoted only for the capture it was made of, and so is a portrait.
\<close>

section \<open>Uploads recorded\<close>

definition uploaded :: "world \<Rightarrow> string \<Rightarrow> json set" where
  "uploaded w t = set (list_field (attempts_of w t 0) ''uploaded_attempt_ids'')"

lemma uploaded_limit: "set (list_field (attempts_of w t n) ''uploaded_attempt_ids'') = uploaded w t"
  by (auto simp: uploaded_def attempts_of_def blank_attempts_def list_field_def split: option.splits blob.splits json.splits)

lemma uploaded_cong: "file_at w' t ATTEMPTS_PATH = file_at w t ATTEMPTS_PATH \<Longrightarrow> uploaded w' t = uploaded w t"
  by (auto simp: uploaded_def attempts_of_def blank_attempts_def list_field_def split: option.splits blob.splits json.splits)

lemma uploaded_put:
  "uploaded (put_file t ATTEMPTS_PATH (Json (JObj ob)) w) t = set (list_field ob ''uploaded_attempt_ids'')"
  by (simp add: uploaded_def attempts_of_def file_at_put)

lemma list_field_put [simp]:
  "list_field (jput k v ob) k' = (if k = k' then (case as_list v of None \<Rightarrow> [] | Some xs \<Rightarrow> xs) else list_field ob k')"
  by (simp add: list_field_def)

lemma consume_keeps_uploads: "list_field (consume_attempt now h r n ob) ''uploaded_attempt_ids'' = list_field ob ''uploaded_attempt_ids''"
  by (simp add: consume_attempt_def Let_def split: option.splits)

text \<open>Registering keeps every upload; with the upload mark it needs a new one, and records it.\<close>

lemma settle_uploads:
  "wp (settle_attempt rt s t limit ob)
     (\<lambda>_ w'. uploaded w' t = set (list_field ob ''uploaded_attempt_ids''))
     (\<lambda>_ w'. uploaded w' t = uploaded w t) w"
  by (auto simp: settle_attempt_def wp_simps path_simps Let_def uploaded_put
      split: option.splits sum.splits intro!: uploaded_cong simp: file_at_put simp del: status_value.simps)

lemma register_uploads:
  "wp (register_attempt_locked rt s t a r c m mark)
     (\<lambda>_ w'. uploaded w t \<subseteq> uploaded w' t
        \<and> (mark \<longrightarrow> JStr (attempt_id_hash rt a) \<notin> uploaded w t \<and> JStr (attempt_id_hash rt a) \<in> uploaded w' t))
     (\<lambda>_ w'. uploaded w t \<subseteq> uploaded w' t) w"
proof -
  let ?h = "JStr (attempt_id_hash rt a)"
  let ?u = "\<lambda>ob. list_field ob ''uploaded_attempt_ids''"
  define Q where "Q w' \<longleftrightarrow> uploaded w t \<subseteq> uploaded w' t \<and> (mark \<longrightarrow> ?h \<notin> uploaded w t \<and> ?h \<in> uploaded w' t)" for w'
  define E where "E w' \<longleftrightarrow> uploaded w t \<subseteq> uploaded w' t" for w'
  have E_w: "E w" by (simp add: E_def)
  have settle: "wp (settle_attempt rt s t limit ob) (\<lambda>_. Q) (\<lambda>_. E) w"
    if "mark \<longrightarrow> ?h \<notin> uploaded w t" "set (?u ob) = (if mark then insert ?h (uploaded w t) else uploaded w t)" for limit ob
    by (rule wp_mono[OF settle_uploads]) (use that in \<open>auto simp: Q_def E_def\<close>)
  have "wp (register_attempt_locked rt s t a r c m mark) (\<lambda>_. Q) (\<lambda>_. E) w"
    unfolding register_attempt_locked_def Let_def
    by (auto simp: wp_simps uploaded_limit consume_keeps_uploads E_w split: sum.splits intro!: settle)
  then show ?thesis unfolding Q_def E_def .
qed

section \<open>Captures\<close>

text \<open>The files that say what the capture of a transaction is and what it authorizes.\<close>

definition binding_files :: "string set" where
  "binding_files = {CAPTURE_META_PATH, CAPTURE_PATH, DECISION_RELATIVE_PATH, PORTRAIT_PATH, PORTRAIT_AUTHORIZATION_PATH}"

definition bindings_kept :: "string \<Rightarrow> world \<Rightarrow> world \<Rightarrow> bool" where
  "bindings_kept t w w' \<longleftrightarrow> (\<forall>p \<in> binding_files. file_at w' t p = file_at w t p)"

definition newly_captured :: "runtime \<Rightarrow> string \<Rightarrow> string \<Rightarrow> bytes \<Rightarrow> world \<Rightarrow> world \<Rightarrow> bool" where
  "newly_captured rt t a data w w' \<longleftrightarrow>
     JStr (attempt_id_hash rt a) \<notin> uploaded w t \<and> JStr (attempt_id_hash rt a) \<in> uploaded w' t
     \<and> file_at w' t CAPTURE_PATH = Some (Bin data)
     \<and> (\<exists>mime cc qc box. file_at w' t CAPTURE_META_PATH = Some (Json (JObj (capture_record rt t a mime data cc qc box))))
     \<and> file_at w' t DECISION_RELATIVE_PATH = None \<and> file_at w' t PORTRAIT_PATH = None
     \<and> file_at w' t PORTRAIT_AUTHORIZATION_PATH = None"

lemma path_distinct [simp]:
  "CAPTURE_META_PATH \<noteq> CAPTURE_PATH" "CAPTURE_PATH \<noteq> CAPTURE_META_PATH" "ATTEMPTS_PATH \<notin> binding_files"
  "CAPTURE_META_PATH \<notin> set AUTHORIZATION_ARTIFACTS" "CAPTURE_PATH \<notin> set AUTHORIZATION_ARTIFACTS"
  "ATTEMPTS_PATH \<notin> set AUTHORIZATION_ARTIFACTS" "''transaction.json'' \<notin> binding_files"
  "ATTEMPTS_PATH \<noteq> CAPTURE_PATH" "ATTEMPTS_PATH \<noteq> CAPTURE_META_PATH" "CAPTURE_PATH \<noteq> ATTEMPTS_PATH" "CAPTURE_META_PATH \<noteq> ATTEMPTS_PATH"
  by (simp_all add: CAPTURE_META_PATH_def CAPTURE_PATH_def ATTEMPTS_PATH_def binding_files_def AUTHORIZATION_ARTIFACTS_def
      DECISION_RELATIVE_PATH_def PORTRAIT_PATH_def PORTRAIT_AUTHORIZATION_PATH_def VLM_RESULT_PATH_def)

lemma artifacts_revoked [simp]:
  "DECISION_RELATIVE_PATH \<in> set AUTHORIZATION_ARTIFACTS" "PORTRAIT_PATH \<in> set AUTHORIZATION_ARTIFACTS"
  "PORTRAIT_AUTHORIZATION_PATH \<in> set AUTHORIZATION_ARTIFACTS"
  by (simp_all add: AUTHORIZATION_ARTIFACTS_def)

lemma effect_bindings_kept:
  "effect rt F C w w' \<Longrightarrow> F \<inter> {t} \<times> binding_files = {} \<Longrightarrow> bindings_kept t w w'"
  by (auto simp: effect_def bindings_kept_def)

text \<open>
  The critical section of an upload either leaves the bindings as they were or stores the whole new
  capture under an attempt that never uploaded before, and revokes decision, portrait and
  authorization; it never forgets an upload.
\<close>

lemma store_capture_spec:
  "wp (store_capture rt ap t a data mime cc qc box)
     (\<lambda>_ w'. uploaded w t \<subseteq> uploaded w' t \<and> (bindings_kept t w w' \<or> newly_captured rt t a data w w'))
     (\<lambda>_ w'. uploaded w t \<subseteq> uploaded w' t \<and> (bindings_kept t w w' \<or> newly_captured rt t a data w w')) w"
proof -
  define good where "good w' \<longleftrightarrow> uploaded w t \<subseteq> uploaded w' t \<and> (bindings_kept t w w' \<or> newly_captured rt t a data w w')" for w'
  let ?h = "JStr (attempt_id_hash rt a)"
  let ?rest = "\<lambda>attempt :: attempt_result. if ar_terminal attempt then ret (Inl (json_reply 409 (attempt_response attempt)))
        else bnd (write_artifact rt t SELECTED_ORIGINAL_CAPTURE (Bin data) mime) (\<lambda>_.
        andthen (write_json t CAPTURE_META_PATH (capture_record rt t a mime data cc qc box))
        (andthen (invalidate_authorization t)
        (andthen (update_transaction_status rt t (status_value CAPTURE_READY)) (ret (Inr attempt)))))"
  have rest: "wp (?rest attempt) (\<lambda>_. good) (\<lambda>_. good) v"
    if v: "bindings_kept t w v" "uploaded w t \<subseteq> uploaded v t" "?h \<notin> uploaded w t" "?h \<in> uploaded v t" for v and attempt
  proof -
    have kept: "good v" using v by (simp add: good_def)
    let ?v = "drop_files t AUTHORIZATION_ARTIFACTS (put_file t CAPTURE_META_PATH
        (Json (JObj (capture_record rt t a mime data cc qc box))) (put_file t CAPTURE_PATH (Bin data) v))"
    have up: "uploaded (put_file t ''transaction.json'' b ?v) t = uploaded v t" "uploaded ?v t = uploaded v t" for b
      by (intro uploaded_cong; simp add: file_at_put file_at_drop_files)+
    have "\<exists>mime' cc' qc' box'. capture_record rt t a mime data cc qc box = capture_record rt t a mime' data cc' qc' box'"
      by blast
    then have new: "good ?v" "good (put_file t ''transaction.json'' b ?v)" for b
      using v by (simp_all add: good_def newly_captured_def up file_at_put file_at_drop_files)
    show ?thesis
      using kept new
      by (simp add: wp_simps path_simps capture_artifact del: status_value.simps ARTIFACT_RELATIVE_PATHS.simps
          split: option.splits sum.splits)
  qed
  have register: "wp (register_attempt_locked rt s t a None None m True)
      (\<lambda>_ v. bindings_kept t w v \<and> uploaded w t \<subseteq> uploaded v t \<and> ?h \<notin> uploaded w t \<and> ?h \<in> uploaded v t)
      (\<lambda>_ v. good v) (make_dir t w)" for s m
  proof -
    have "keeps (effect rt {(t, ATTEMPTS_PATH), metadata_file t} {}) (register_attempt_locked rt s t a None None m True)"
      by (intro keeps_intros) simp
    then have "wp (register_attempt_locked rt s t a None None m True) (\<lambda>_. bindings_kept t (make_dir t w)) (\<lambda>_. bindings_kept t (make_dir t w)) (make_dir t w)"
      by (rule wp_mono[OF keeps_wpD]) (auto intro!: effect_bindings_kept)
    moreover have "uploaded (make_dir t w) t = uploaded w t" by (rule uploaded_cong) simp
    ultimately show ?thesis
      using register_uploads[of rt s t a None None m True "make_dir t w"]
      unfolding good_def bindings_kept_def
      by (simp add: wp_def split: prod.splits sum.splits)
  qed
  have pure: "wp (max_attempts_for_tx rt ap t n) (\<lambda>_ v. v = u) (\<lambda>_ _. False) u" if "is_valid_transaction_id t" for n u
    using that by (simp add: max_attempts_for_tx_def consumer_for_tx_def wp_simps Let_def split: option.splits sum.splits)
  show ?thesis
    unfolding good_def[symmetric]
  proof (cases "is_valid_transaction_id t")
    case False
    have "good w" by (simp add: good_def bindings_kept_def)
    then show "wp (store_capture rt ap t a data mime cc qc box) (\<lambda>_. good) (\<lambda>_. good) w"
      using False by (simp add: store_capture_def wp_simps)
  next
    case True
    have "wp (bnd (catch (register_attempt_locked rt (ap_settings ap) t a None None (Some limit) True)
               (\<lambda>e. if e = AttemptUploadRejected
                    then raise (ApiError ''UPLOAD_ALREADY_RECORDED'' ''This attempt already uploaded a selected original'' 409)
                    else raise e)) ?rest) (\<lambda>_. good) (\<lambda>_. good) (make_dir t w)" for limit
      unfolding wp_bnd wp_catch
    proof (rule wp_mono[OF register], goal_cases)
      case (1 attempt v)
      then show ?case by (intro rest) simp_all
    next
      case (2 e v)
      then show ?case by (simp add: wp_raise)
    qed
    then show "wp (store_capture rt ap t a data mime cc qc box) (\<lambda>_. good) (\<lambda>_. good) w"
      unfolding store_capture_def wp_lock_transaction wp_bnd if_P[OF True]
      by (intro wp_mono[OF pure[OF True]]) (simp_all add: wp_bnd)
  qed
qed

section \<open>Keys\<close>

text \<open>
  \<open>bound\<close>: attempt \<open>a\<close> of the transaction has uploaded, and if it is the one the current capture belongs
  to then the digest is that capture's. \<open>bound_image\<close> says in addition that the image is then the current one.
  Both survive every step of the system, because an attempt that has uploaded never uploads again.
\<close>

definition bound :: "runtime \<Rightarrow> world \<Rightarrow> string \<Rightarrow> string \<Rightarrow> string \<Rightarrow> bool" where
  "bound rt w t a sha \<longleftrightarrow> JStr (attempt_id_hash rt a) \<in> uploaded w t \<and> (\<exists>b. sha = sha_blob rt b)
     \<and> (\<forall>sha'. capture_key_of rt w t = Some (a, sha') \<longrightarrow> sha' = sha)"

definition bound_image :: "runtime \<Rightarrow> world \<Rightarrow> string \<Rightarrow> string \<Rightarrow> string \<Rightarrow> blob \<Rightarrow> bool" where
  "bound_image rt w t a sha img \<longleftrightarrow> bound rt w t a sha
     \<and> (\<forall>sha'. capture_key_of rt w t = Some (a, sha') \<longrightarrow> file_at w t CAPTURE_PATH = Some img)"

text \<open>The record of the current capture describes the image that is stored, from an attempt that has uploaded.\<close>

definition capture_coherent :: "runtime \<Rightarrow> world \<Rightarrow> string \<Rightarrow> bool" where
  "capture_coherent rt w t \<longleftrightarrow> (\<forall>a sha. capture_key_of rt w t = Some (a, sha) \<longrightarrow>
     JStr (attempt_id_hash rt a) \<in> uploaded w t
     \<and> (\<exists>img. file_at w t CAPTURE_PATH = Some img \<and> sha = sha_blob rt img))"

lemma capture_key_cong:
  "file_at w' t CAPTURE_META_PATH = file_at w t CAPTURE_META_PATH \<Longrightarrow> capture_key_of rt w' t = capture_key_of rt w t"
  by (simp add: capture_key_of_def)

lemma binding_members [simp]:
  "CAPTURE_META_PATH \<in> binding_files" "CAPTURE_PATH \<in> binding_files" "DECISION_RELATIVE_PATH \<in> binding_files"
  "PORTRAIT_PATH \<in> binding_files" "PORTRAIT_AUTHORIZATION_PATH \<in> binding_files"
  by (simp_all add: binding_files_def)

definition capture_kept :: "string \<Rightarrow> world \<Rightarrow> world \<Rightarrow> bool" where
  "capture_kept t w w' \<longleftrightarrow> file_at w' t CAPTURE_META_PATH = file_at w t CAPTURE_META_PATH
     \<and> file_at w' t CAPTURE_PATH = file_at w t CAPTURE_PATH"

lemma bindings_capture_kept: "bindings_kept t w w' \<Longrightarrow> capture_kept t w w'"
  by (simp add: bindings_kept_def capture_kept_def)

lemma kept_key: "capture_kept t w w' \<Longrightarrow> capture_key_of rt w' t = capture_key_of rt w t"
  by (rule capture_key_cong) (simp add: capture_kept_def)

lemma kept_image: "capture_kept t w w' \<Longrightarrow> file_at w' t CAPTURE_PATH = file_at w t CAPTURE_PATH"
  by (simp add: capture_kept_def)

lemma captured_key:
  assumes "newly_captured rt t a data w w'" and "\<forall>b. sha_blob rt b \<noteq> []"
  shows "capture_key_of rt w' t = Some (a, sha_blob rt (Bin data))"
  using assms by (auto simp: newly_captured_def capture_key_of_def capture_key_def capture_record_def str_value_def)

lemma bound_stable:
  assumes "bound rt w t a sha" and "uploaded w t \<subseteq> uploaded w' t" and "\<forall>b. sha_blob rt b \<noteq> []"
    and "capture_kept t w w' \<or> newly_captured rt t a' data w w'"
  shows "bound rt w' t a sha"
  using assms(4)
proof
  assume "capture_kept t w w'"
  then show ?thesis using assms(1,2) by (auto simp: bound_def kept_key)
next
  assume new: "newly_captured rt t a' data w w'"
  then have "a' \<noteq> a" using assms(1) by (auto simp: newly_captured_def bound_def)
  then show ?thesis using assms(1,2) captured_key[OF new assms(3)] by (auto simp: bound_def)
qed

lemma bound_image_stable:
  assumes "bound_image rt w t a sha img" and "uploaded w t \<subseteq> uploaded w' t" and "\<forall>b. sha_blob rt b \<noteq> []"
    and "capture_kept t w w' \<or> newly_captured rt t a' data w w'"
  shows "bound_image rt w' t a sha img"
proof -
  have b: "bound rt w' t a sha"
    by (rule bound_stable[OF _ assms(2-4)]) (use assms(1) in \<open>simp add: bound_image_def\<close>)
  from assms(4) show ?thesis
  proof
    assume "capture_kept t w w'"
    then show ?thesis using assms(1) b by (auto simp: bound_image_def kept_key kept_image)
  next
    assume new: "newly_captured rt t a' data w w'"
    then have "a' \<noteq> a" using assms(1) by (auto simp: newly_captured_def bound_image_def bound_def)
    then show ?thesis using b captured_key[OF new assms(3)] by (auto simp: bound_image_def)
  qed
qed

lemma coherent_stable:
  assumes "capture_coherent rt w t" and "uploaded w t \<subseteq> uploaded w' t" and "\<forall>b. sha_blob rt b \<noteq> []"
    and "capture_kept t w w' \<or> newly_captured rt t a' data w w'"
  shows "capture_coherent rt w' t"
  using assms(4)
proof
  assume "capture_kept t w w'"
  then show ?thesis using assms(1,2) by (auto simp: capture_coherent_def kept_key kept_image)
next
  assume new: "newly_captured rt t a' data w w'"
  then show ?thesis using captured_key[OF new assms(3)] by (auto simp: capture_coherent_def newly_captured_def)
qed

lemma coherent_bound: "capture_coherent rt w t \<Longrightarrow> capture_key_of rt w t = Some (a, sha) \<Longrightarrow> bound rt w t a sha"
  by (auto simp: capture_coherent_def bound_def)

lemma bound_current_image:
  "capture_coherent rt w t \<Longrightarrow> bound rt w t a sha \<Longrightarrow> file_at w t CAPTURE_PATH = Some img \<Longrightarrow> bound_image rt w t a sha img"
  by (simp add: bound_image_def)

section \<open>Promotion of an evaluation\<close>

definition decision_promoted :: "runtime \<Rightarrow> string \<Rightarrow> string \<Rightarrow> obj \<Rightarrow> world \<Rightarrow> world \<Rightarrow> bool" where
  "decision_promoted rt t i ev w w' \<longleftrightarrow>
     (\<forall>p \<in> binding_files - {DECISION_RELATIVE_PATH}. file_at w' t p = file_at w t p)
     \<and> (\<exists>a sha. capture_key_of rt w t = Some (a, sha) \<and> liveness_identity rt (Some a) sha = i)
     \<and> \<not> truthy (jget_n ev ''error'')
     \<and> (\<exists>d. decision_of w' t = Some d \<and> d_metadata d = decision_metadata_for ev i
          \<and> outcome_of_json (jget_n ev ''outcome'') = Inr (d_outcome d))"

lemma kept_trans: "bindings_kept t u v \<Longrightarrow> bindings_kept t v w \<Longrightarrow> bindings_kept t u w"
  by (simp add: bindings_kept_def)

text \<open>A call that touches no binding file, in the middle of a proof that they are kept.\<close>

lemma wp_kept:
  assumes "keeps (effect rt F {}) m" and "F \<inter> {t} \<times> binding_files = {}" and "bindings_kept t w v"
    and "\<And>x u. bindings_kept t w u \<Longrightarrow> Q x u" and "\<And>e u. bindings_kept t w u \<Longrightarrow> E e u"
  shows "wp m Q E v"
proof (rule wp_mono[OF keeps_wpD[OF assms(1)]])
  fix x u assume "effect rt F {} v u"
  then show "Q x u" using effect_bindings_kept[OF _ assms(2)] assms(3,4) kept_trans by blast
next
  fix e u assume "effect rt F {} v u"
  then show "E e u" using effect_bindings_kept[OF _ assms(2)] assms(3,5) kept_trans by blast
qed

lemma liveness_path_not_binding [simp]:
  "claim_path_for i p \<notin> binding_files" "evaluation_relative_path i \<notin> binding_files"
  "portrait_candidate_path i \<notin> binding_files" "PORTRAIT_PROCESSING_PATH \<notin> binding_files"
  by (simp_all add: binding_files_def claim_path_for_def evaluation_relative_path_def CAPTURE_META_PATH_def CAPTURE_PATH_def
      DECISION_RELATIVE_PATH_def PORTRAIT_PATH_def PORTRAIT_AUTHORIZATION_PATH_def portrait_candidate_path_def
      PORTRAIT_PROCESSING_PATH_def)

lemma write_bound_spec:
  assumes "bindings_kept t w v" and "\<exists>a sha. capture_key_of rt w t = Some (a, sha) \<and> liveness_identity rt (Some a) sha = i"
    and "\<not> truthy (jget_n ev ''error'')" and "outcome_of_json (jget_n ev ''outcome'') = Inr oc"
  shows "wp (write_liveness_decision_bound rt t oc ev i)
     (\<lambda>_. decision_promoted rt t i ev w) (\<lambda>_ u. bindings_kept t w u \<or> decision_promoted rt t i ev w u) v"
proof -
  let ?d = "\<lambda>uid n. \<lparr>d_decision_id = JStr uid, d_transaction_id = JStr t, d_outcome = oc, d_decided_at = JTime n,
     d_decision_source = JStr LIVENESS_DECISION_SOURCE, d_decision_version = JStr LIVENESS_DECISION_VERSION,
     d_evidence_refs = [JStr (evaluation_relative_path i)], d_metadata = decision_metadata_for ev i\<rparr>"
  have wf: "decode_decision (encode_decision (?d uid n)) = Some (?d uid n)" if "uid \<noteq> []" "t \<noteq> []" for uid n
    using that by (intro decode_encode_decision) (simp add: decision_wf_def)
  have promoted: "decision_promoted rt t i ev w (put_file t DECISION_RELATIVE_PATH (Json (JObj (encode_decision (?d uid n)))) (v\<lparr>rng := k\<rparr>))"
      "decision_promoted rt t i ev w (put_file t ''transaction.json'' b
         (put_file t DECISION_RELATIVE_PATH (Json (JObj (encode_decision (?d uid n)))) (v\<lparr>rng := k\<rparr>)))"
    if "uid \<noteq> []" "t \<noteq> []" for uid n k b
    using assms that
    by (auto simp: decision_promoted_def bindings_kept_def file_at_put decision_of_put wf)
  have "bindings_kept t w (v\<lparr>rng := k\<rparr>)" for k using assms(1) by (simp add: bindings_kept_def)
  then show ?thesis
    using promoted
    by (simp add: write_liveness_decision_bound_def build_decision_def wp_simps del: status_value.simps
        split: option.splits sum.splits)
qed

lemma settle_spec:
  "wp (liveness_settle rt t i ev)
     (\<lambda>_ w'. bindings_kept t w w' \<or> decision_promoted rt t i ev w w')
     (\<lambda>_ w'. bindings_kept t w w' \<or> decision_promoted rt t i ev w w') w"
proof (cases "is_valid_transaction_id t")
  case False
  then show ?thesis by (simp add: liveness_settle_def wp_simps bindings_kept_def)
next
  case True
  define good where "good u \<longleftrightarrow> bindings_kept t w u \<or> decision_promoted rt t i ev w u" for u
  have files: "{(t, claim_path_for i EVALUATION_CLAIM_PREFIX), (t, evaluation_relative_path i)} \<inter> {t} \<times> binding_files = {}"
    by auto
  have quiet: "wp m (\<lambda>_. good) (\<lambda>_. good) u"
    if "keeps (effect rt {(t, claim_path_for i EVALUATION_CLAIM_PREFIX), (t, evaluation_relative_path i)} {}) m" "bindings_kept t w u"
    for m :: "http_response M" and u
    by (rule wp_kept[OF that(1) files that(2)]) (simp_all add: good_def)
  have after: "wp n (\<lambda>_. good) (\<lambda>_. good) u" if "good u" "keeps (effect rt {} {}) n" for n :: "http_response M" and u
  proof -
    have same_good: "good v" if "effect rt {} {} u v" for v
    proof -
      have same: "file_at v t p = file_at u t p" for p using that by (simp add: effect_def)
      then have "decision_of v t = decision_of u t" by (simp add: decision_of_def)
      then show ?thesis using \<open>good u\<close> same by (auto simp: good_def bindings_kept_def decision_promoted_def)
    qed
    show ?thesis by (rule wp_mono[OF keeps_wpD[OF that(2)]]; erule same_good)
  qed
  have tail: "wp (bnd (getitem ev ''outcome'') (\<lambda>v. bnd (lift (outcome_of_json v)) (\<lambda>oc.
        andthen (write_liveness_decision_bound rt t oc ev i) (rest oc)))) (\<lambda>_. good) (\<lambda>_. good) u"
    if u: "bindings_kept t w u" "\<exists>a sha. capture_key_of rt w t = Some (a, sha) \<and> liveness_identity rt (Some a) sha = i"
      "\<not> truthy (jget_n ev ''error'')" and rest: "\<And>oc. keeps (effect rt {} {}) (rest oc)"
    for u and rest :: "decision_outcome \<Rightarrow> http_response M"
  proof -
    have step: "wp (andthen (write_liveness_decision_bound rt t oc ev i) (rest oc)) (\<lambda>_. good) (\<lambda>_. good) u"
      if "outcome_of_json (jget_n ev ''outcome'') = Inr oc" for oc
      unfolding wp_andthen
    proof (rule wp_mono[OF write_bound_spec[OF u that]], goal_cases)
      case (1 x v)
      then show ?case by (intro after rest) (simp add: good_def)
    next
      case (2 e v)
      then show ?case by (simp add: good_def)
    qed
    have "good u" using u(1) by (simp add: good_def)
    then show ?thesis
      by (auto simp: wp_bnd wp_getitem wp_lift jget_n_def jget_d_def split: option.splits sum.splits
          intro!: step[unfolded jget_n_def jget_d_def])
  qed
  have base: "bindings_kept t w (make_dir t w)" by (simp add: bindings_kept_def)
  have key: "capture_key_of rt (make_dir t w) t = capture_key_of rt w t" by (rule kept_key[OF bindings_capture_kept[OF base]])
  have cleared: "keeps (effect rt {(t, claim_path_for i EVALUATION_CLAIM_PREFIX), (t, evaluation_relative_path i)} {})
      (clear_claim t i EVALUATION_CLAIM_PREFIX)"
    "keeps (effect rt {(t, claim_path_for i EVALUATION_CLAIM_PREFIX), (t, evaluation_relative_path i)} {}) (persist_evaluation t i ob)" for ob
    by (intro keeps_intros; simp)+
  show ?thesis
    unfolding good_def[symmetric] liveness_settle_def wp_lock_transaction if_P[OF True] wp_bnd[of "expected_liveness_identity rt t"]
      wp_expected_identity key wp_andthen[of "clear_claim t i EVALUATION_CLAIM_PREFIX"]
  proof (rule wp_kept[OF cleared(1) files base], goal_cases)
    case (1 x u)
    show ?case
    proof (cases "map_option (\<lambda>(a, s). liveness_identity rt (Some a) s) (capture_key_of rt w t) = Some i")
      case False
      then show ?thesis
        by (simp only: if_P not_False_eq_True) (intro quiet keeps_intros 1; simp)
    next
      case same: True
      then have k: "\<exists>a sha. capture_key_of rt w t = Some (a, sha) \<and> liveness_identity rt (Some a) sha = i" by auto
      show ?thesis
        unfolding same simp_thms if_False wp_andthen[of "persist_evaluation t i ev"]
      proof (rule wp_kept[OF cleared(2) files 1], goal_cases)
        case (1 y v)
        show ?case
          by (cases "truthy (jget_n ev ''error'')"; simp only: if_True if_False)
             (intro quiet keeps_intros 1 tail k; simp?)+
      next
        case (2 e v)
        then show ?case by (simp add: good_def)
      qed
    qed
  next
    case (2 e u)
    then show ?case by (simp add: good_def)
  qed
qed

end
