(* ===== verification/Portrait_Specs.thy ===== *)
theory Portrait_Specs
  imports Phase_Specs
begin

text \<open>
  What the phases of the portrait route establish: the snapshot a claim is taken for is the current
  capture, a candidate is the composition of the image read, and only a candidate whose snapshot still
  holds becomes the portrait.
\<close>

lemma wp_then_ret: "(\<And>u. Q x u) \<Longrightarrow> (\<And>e u. E e u) \<Longrightarrow> wp (andthen m (ret x)) Q E w"
  unfolding wp_andthen by (rule wp_any) (simp_all add: wp_ret)

lemma make_dir_key [simp]: "capture_key_of rt (make_dir t w) t' = capture_key_of rt w t'"
  by (simp add: capture_key_of_def)

lemma make_dir_decision [simp]: "decision_of (make_dir t w) t' = decision_of w t'"
  by (simp add: decision_of_def)

definition snapshot_of :: "runtime \<Rightarrow> world \<Rightarrow> string \<Rightarrow> snapshot \<Rightarrow> bool" where
  "snapshot_of rt w t sn \<longleftrightarrow> capture_key_of rt w t = Some (sn_attempt_id sn, sn_selected_sha256 sn)
     \<and> sn_identity sn = liveness_identity rt (Some (sn_attempt_id sn)) (sn_selected_sha256 sn)"

lemma capture_snapshot_spec:
  "wp (capture_snapshot rt t) (\<lambda>r w'. w' = w \<and> (\<forall>sn. r = Some sn \<longrightarrow> snapshot_of rt w t sn)) (\<lambda>_ w'. w' = w) w"
  by (auto simp: capture_snapshot_def wp_simps snapshot_of_def split: option.splits sum.splits)

lemma portrait_claim_spec:
  "wp (portrait_claim rt ap t) (\<lambda>r _. \<forall>sn. r = Inr sn \<longrightarrow> snapshot_of rt w t sn) (\<lambda>_ _. True) w"
proof -
  have snap: "wp (bnd (capture_snapshot rt t) (\<lambda>s. case s of None \<Rightarrow> raise e
       | Some sn \<Rightarrow> andthen (take_claim rt s' t (sn_identity sn) p b) (ret (Inr sn))))
      (\<lambda>r _. \<forall>sn. r = Inr sn \<longrightarrow> snapshot_of rt w t sn) (\<lambda>_ _. True) (make_dir t w)"
    for s' p b e
    unfolding wp_bnd
    by (rule wp_mono[OF capture_snapshot_spec])
       (auto simp: wp_raise snapshot_of_def intro!: wp_then_ret split: option.split)
  show ?thesis
    using snap by (auto simp: portrait_claim_def portrait_sha256_def wp_simps split: sum.splits option.splits bool.splits)
qed

section \<open>Candidates\<close>

text \<open>\<open>made\<close>: the file is the encoded composition of the image under some face box.\<close>

definition made :: "runtime \<Rightarrow> app \<Rightarrow> blob \<Rightarrow> blob \<Rightarrow> bool" where
  "made rt ap img c \<longleftrightarrow> (\<exists>box composed crop.
     compose_portrait (ap_imaging ap) (ap_settings ap)
       (segmentation_provider rt (ap_imaging ap) (ap_settings ap) (ap_segmentation ap)) img box = Inr (composed, crop)
     \<and> c = jpeg_encode (ap_imaging ap) (portrait_jpeg_quality (ap_settings ap)) composed)"

lemma candidate_not_processing [simp]: "PORTRAIT_PROCESSING_PATH \<noteq> portrait_candidate_path i"
  "portrait_candidate_path i \<noteq> PORTRAIT_PROCESSING_PATH" "portrait_candidate_path i \<noteq> claim_path_for j p"
  "claim_path_for j p \<noteq> portrait_candidate_path i"
  by (simp_all add: PORTRAIT_PROCESSING_PATH_def portrait_candidate_path_def claim_path_for_def)

lemma candidate_inj [simp]: "portrait_candidate_path i = portrait_candidate_path j \<longleftrightarrow> i = j"
  by (simp add: portrait_candidate_path_def)

lemma run_pipeline_spec:
  assumes "p \<noteq> PORTRAIT_PROCESSING_PATH"
  shows "wp (run_pipeline rt (ap_imaging ap) (ap_settings ap) (ap_segmentation ap) model src t box (Some p) st)
     (\<lambda>_ w'. \<exists>img c. file_at w t src = Some img \<and> made rt ap img c \<and> file_at w' t p = Some c)
     (\<lambda>_ w'. file_at w' t p = file_at w t p) w"
  using assms
  by (auto simp: run_pipeline_def store_output_def wp_simps path_simps Let_def file_at_put made_def
      split: option.splits sum.splits prod.splits)

text \<open>The processing of a claimed snapshot writes such a candidate of the current image, or none.\<close>

lemma portrait_process_spec:
  fixes sn :: snapshot and rt :: runtime and ap :: app and t :: string
  defines "p \<equiv> portrait_candidate_path (sn_identity sn)"
  defines "good \<equiv> \<lambda>w w'. \<exists>img c. file_at w t CAPTURE_PATH = Some img \<and> made rt ap img c \<and> file_at w' t p = Some c"
  shows "wp (portrait_process rt ap t sn box) (\<lambda>_. good w) (\<lambda>_ w'. file_at w' t p = file_at w t p \<or> good w w') w"
proof -
  have failed: "wp (pipeline_failed rt t (Some p) prev e) (\<lambda>_ _. False) (\<lambda>_ w'. w' = v) v" for prev e v
    by (rule wp_mono[OF pipeline_failed_candidate]) simp_all
  have run: "wp (catch (run_pipeline rt (ap_imaging ap) (ap_settings ap) (ap_segmentation ap) model CAPTURE_PATH t box (Some p) st)
        (pipeline_failed rt t (Some p) prev)) (\<lambda>_. good w) (\<lambda>_ w'. file_at w' t p = file_at w t p) w" for model st prev box
    unfolding wp_catch
  proof (rule wp_mono[OF run_pipeline_spec], goal_cases)
    case (3 e v)
    then show ?case by (intro wp_mono[OF failed]) simp_all
  qed (auto simp: good_def p_def)
  have process: "wp (process_portrait rt (ap_imaging ap) (ap_settings ap) (ap_segmentation ap) CAPTURE_PATH t box (Some p))
      (\<lambda>_. good w) (\<lambda>_ w'. file_at w' t p = file_at w t p) w" for box
    using run by (auto simp: process_portrait_def wp_simps split: sum.splits)
  show ?thesis
    unfolding portrait_process_def wp_catch wp_bnd p_def[symmetric]
  proof (rule wp_mono[OF process], goal_cases)
    case (1 x v)
    then show ?case by (simp add: wp_ret)
  next
    case (2 e v)
    then show ?case
      by (auto simp: wp_simps clear_portrait_claim_locked_def drop_claim_def file_at_del p_def)
  qed
qed

section \<open>Promotion\<close>

definition portrait_promoted :: "runtime \<Rightarrow> string \<Rightarrow> snapshot \<Rightarrow> world \<Rightarrow> world \<Rightarrow> bool" where
  "portrait_promoted rt t sn w w' \<longleftrightarrow>
     (\<forall>p \<in> binding_files - {PORTRAIT_PATH, PORTRAIT_AUTHORIZATION_PATH}. file_at w' t p = file_at w t p)
     \<and> snapshot_of rt w t sn
     \<and> (\<exists>c. file_at w t (portrait_candidate_path (sn_identity sn)) = Some c \<and> file_at w' t PORTRAIT_PATH = Some c)"

lemma portrait_not_candidate [simp]: "PORTRAIT_PATH \<noteq> portrait_candidate_path i" "portrait_candidate_path i \<noteq> PORTRAIT_PATH"
  "PORTRAIT_AUTHORIZATION_PATH \<noteq> portrait_candidate_path i" "portrait_candidate_path i \<noteq> PORTRAIT_AUTHORIZATION_PATH"
  "PORTRAIT_PATH \<noteq> PORTRAIT_AUTHORIZATION_PATH" "PORTRAIT_AUTHORIZATION_PATH \<noteq> PORTRAIT_PATH"
  by (simp_all add: PORTRAIT_PATH_def PORTRAIT_AUTHORIZATION_PATH_def portrait_candidate_path_def)

lemma snapshot_matches_spec:
  "wp (snapshot_matches_current rt t sn) (\<lambda>r w'. w' = w \<and> (r \<longrightarrow> snapshot_of rt w t sn)) (\<lambda>_ w'. w' = w) w"
  by (cases "decision_of w t"; cases "capture_key_of rt w t")
     (auto simp: snapshot_matches_current_def wp_simps snapshot_of_def split: sum.splits)

lemma wp_safe_remove [wp_simps]:
  "wp (safe_remove t p) Q E w = Q () (if is_valid_transaction_id t \<and> rel_ok p then del_file t p w else w)"
  by (simp add: safe_remove_def wp_simps)

lemma kept_del: "p \<notin> binding_files \<Longrightarrow> bindings_kept t w v \<Longrightarrow> bindings_kept t w (del_file t p v)"
  by (auto simp: bindings_kept_def file_at_del)

lemma kept_fields [simp]: "bindings_kept t w (v\<lparr>metrics := m\<rparr>) = bindings_kept t w v"
  by (simp add: bindings_kept_def)

lemma promote_spec:
  "wp (portrait_promote rt t sn)
     (\<lambda>_ w'. bindings_kept t w w' \<or> portrait_promoted rt t sn w w')
     (\<lambda>_ w'. bindings_kept t w w' \<or> portrait_promoted rt t sn w w') w"
proof (cases "is_valid_transaction_id t")
  case False
  then show ?thesis by (simp add: portrait_promote_def wp_simps bindings_kept_def)
next
  case True
  define good where "good u \<longleftrightarrow> bindings_kept t w u \<or> portrait_promoted rt t sn w u" for u
  let ?i = "sn_identity sn"
  let ?c = "portrait_candidate_path ?i"
  define v where "v = (if rel_ok (claim_path_for ?i PORTRAIT_CLAIM_PREFIX) then drop_claim t PORTRAIT_CLAIM_PREFIX ?i (make_dir t w)
    else make_dir t w)"
  have kept: "bindings_kept t w v" and cand: "file_at v t ?c = file_at w t ?c"
    by (simp_all add: v_def bindings_kept_def drop_claim_def file_at_del)
  have stale: "wp (andthen (safe_remove t ?c) (andthen (record_submit ''stale_portrait'') (raise e))) (\<lambda>_. good) (\<lambda>_. good) v" for e
    using kept by (simp add: wp_simps good_def kept_del)
  have promoted: "good (put_file t PORTRAIT_PATH b u)"
      "good (put_file t PORTRAIT_AUTHORIZATION_PATH a (put_file t PORTRAIT_PATH b u))"
      "good (put_file t ''transaction.json'' m (put_file t PORTRAIT_AUTHORIZATION_PATH a (put_file t PORTRAIT_PATH b u)))"
      "good (put_file t PORTRAIT_AUTHORIZATION_PATH a (del_file t ?c (put_file t PORTRAIT_PATH b u)))"
      "good (put_file t ''transaction.json'' m (put_file t PORTRAIT_AUTHORIZATION_PATH a (del_file t ?c (put_file t PORTRAIT_PATH b u))))"
    if "bindings_kept t w u" "snapshot_of rt w t sn" "file_at w t ?c = Some b" for u a b m
    using that
    by (auto simp: good_def portrait_promoted_def bindings_kept_def file_at_put file_at_del)
  have fresh: "wp (bnd (read_artifact t ?c) (\<lambda>candidate_bytes.
        bnd (write_artifact rt t PROCESSED_PORTRAIT candidate_bytes ''image/jpeg'') (\<lambda>ref.
        andthen (safe_remove t ?c)
        (andthen (write_portrait_authorization t (sn_decision_id sn) (sn_attempt_id sn) (sn_selected_sha256 sn) ?i (ref_sha256 ref))
        (andthen (update_transaction_status rt t (status_value PORTRAIT_READY)) (ret ref)))))) (\<lambda>_. good) (\<lambda>_. good) v"
    if "snapshot_of rt w t sn"
    using promoted[OF kept that] kept cand True
    by (auto simp: wp_simps path_simps write_portrait_authorization_def good_def capture_artifact
        simp del: status_value.simps ARTIFACT_RELATIVE_PATHS.simps split: option.splits sum.splits)
  have key: "snapshot_of rt v t sn \<longleftrightarrow> snapshot_of rt w t sn" using kept by (simp add: snapshot_of_def kept_key[OF bindings_capture_kept])
  show ?thesis
    unfolding good_def[symmetric] portrait_promote_def wp_lock_transaction if_P[OF True] wp_andthen[of "clear_claim t ?i PORTRAIT_CLAIM_PREFIX"]
      wp_clear_claim
  proof (simp only: True simp_thms v_def[symmetric] wp_bnd[of "snapshot_matches_current rt t sn"], rule wp_mono[OF snapshot_matches_spec], goal_cases)
    case (1 same u)
    then show ?case using stale fresh key by (cases same) simp_all
  next
    case (2 e u)
    then show ?case using kept by (simp add: good_def)
  qed
qed

end
