(* ===== verification/System.thy ===== *)
theory System
  imports Portrait_Specs
begin

text \<open>
  The backend as a whole: a pool of requests over the shared state. A request runs its routes's phases
  one at a time, and between two phases any other request, a later clock or a crash may come. The
  relation \<open>step\<close> is over arbitrarily many concurrent requests; \<open>reachable\<close> are the states it leads to
  from a backend without transactions.
\<close>

section \<open>Requests and phases\<close>

datatype call =
    Call_session browser_request
  | Call_portrait_image browser_request
  | Call_attempts browser_request string string string
  | Call_capture browser_request string upload string string string
  | Call_liveness browser_request
  | Call_portrait browser_request string
  | Call_submit browser_request
  | Call_test_decision browser_request
  | Call_redeem string
  | Call_launch s2s_request launch_request
  | Call_reissue s2s_request string string
  | Call_status s2s_request string string

text \<open>Where a request is: before its next phase, with what it carries from the phases before.\<close>

datatype phase =
    Idle
  | At_capture string string bytes string string string "face_box option"
  | At_liveness string string string
  | At_evaluation string string string
  | At_settlement string string string obj
  | At_portrait string face_box
  | At_processing string snapshot face_box
  | At_promotion string snapshot
  | At_submission string

record backend =
  be_runtime :: runtime
  be_app :: app
  be_jwt :: jwt_library

definition next_phase :: "('a \<Rightarrow> phase) \<Rightarrow> (exn + 'a) \<times> world \<Rightarrow> phase \<times> world" where
  "next_phase f r = (case r of (Inl _, w) \<Rightarrow> (Idle, w) | (Inr x, w) \<Rightarrow> (f x, w))"

abbreviation finish :: "(exn + 'a) \<times> world \<Rightarrow> phase \<times> world" where
  "finish \<equiv> next_phase (\<lambda>_. Idle)"

text \<open>The test-only decision route is registered only in these settings (\<open>app/factory.py\<close>).\<close>

definition dev_router_registered :: "settings \<Rightarrow> bool" where
  "dev_router_registered s \<longleftrightarrow> is_local_env s \<and> decision_test_writer_enabled s"

fun start :: "backend \<Rightarrow> call \<Rightarrow> world \<Rightarrow> phase \<times> world" where
  "start b (Call_session rq) w = finish (browser_session (be_runtime b) (be_app b) rq w)"
| "start b (Call_portrait_image rq) w = finish (browser_portrait_image (be_runtime b) rq w)"
| "start b (Call_attempts rq a r c) w = finish (browser_attempts (be_runtime b) (be_app b) rq a r c w)"
| "start b (Call_capture rq a up cc qc form) w =
     next_phase (\<lambda>(t, data, mime, box). At_capture t a data mime cc qc box)
       (capture_open (be_runtime b) (be_app b) rq up form w)"
| "start b (Call_liveness rq) w =
     next_phase (\<lambda>(t, a, sha). At_liveness t a sha) (liveness_open (be_runtime b) rq w)"
| "start b (Call_portrait rq form) w =
     next_phase (\<lambda>(t, box). At_portrait t box) (portrait_open (be_runtime b) (be_app b) rq form w)"
| "start b (Call_submit rq) w = next_phase At_submission (session_transaction (be_runtime b) rq w)"
| "start b (Call_test_decision rq) w =
     (if dev_router_registered (ap_settings (be_app b)) then finish (test_decision (be_runtime b) rq w) else (Idle, w))"
| "start b (Call_redeem opaque) w = finish (redeem (be_runtime b) (ap_settings (be_app b)) opaque w)"
| "start b (Call_launch rq body) w =
     finish (launch_session (be_runtime b) (be_jwt b) (ap_settings (be_app b)) (ap_registry (be_app b)) rq body w)"
| "start b (Call_reissue rq ext src) w =
     finish (reissue_launch_session (be_runtime b) (be_jwt b) (ap_settings (be_app b)) (ap_registry (be_app b)) rq ext src w)"
| "start b (Call_status rq ext src) w =
     finish (transaction_status_route (be_runtime b) (be_jwt b) (ap_settings (be_app b)) (ap_registry (be_app b)) rq ext src w)"

definition evaluation_call :: "backend \<Rightarrow> string \<Rightarrow> string \<Rightarrow> string \<Rightarrow> obj M" where
  "evaluation_call b t a sha =
     catch (evaluate_capture (be_runtime b) (ap_libs (be_app b)) (ap_settings (be_app b)) t (Some a) sha)
           (liveness_failed (be_runtime b) t (liveness_identity (be_runtime b) (Some a) sha))"

fun run_phase :: "backend \<Rightarrow> phase \<Rightarrow> world \<Rightarrow> phase \<times> world" where
  "run_phase b Idle w = (Idle, w)"
| "run_phase b (At_capture t a data mime cc qc box) w =
     finish (capture_commit (be_runtime b) (be_app b) t a data mime cc qc box w)"
| "run_phase b (At_liveness t a sha) w =
     next_phase (\<lambda>r. case r of None \<Rightarrow> At_evaluation t a sha | Some _ \<Rightarrow> Idle)
       (liveness_claim (be_runtime b) (be_app b) t (liveness_identity (be_runtime b) (Some a) sha) w)"
| "run_phase b (At_evaluation t a sha) w = next_phase (At_settlement t a sha) (evaluation_call b t a sha w)"
| "run_phase b (At_settlement t a sha ev) w =
     finish (liveness_settle (be_runtime b) t (liveness_identity (be_runtime b) (Some a) sha) ev w)"
| "run_phase b (At_portrait t box) w =
     next_phase (\<lambda>r. case r of Inl _ \<Rightarrow> Idle | Inr sn \<Rightarrow> At_processing t sn box)
       (portrait_claim (be_runtime b) (be_app b) t w)"
| "run_phase b (At_processing t sn box) w =
     next_phase (\<lambda>_. At_promotion t sn) (portrait_process (be_runtime b) (be_app b) t sn box w)"
| "run_phase b (At_promotion t sn) w = finish (portrait_promote (be_runtime b) t sn w)"
| "run_phase b (At_submission t) w =
     finish (lock_transaction t (submit_locked (be_runtime b) (be_app b) t) w)"

section \<open>The phases are the routes\<close>

text \<open>Running a request's phases with nothing in between is the route itself.\<close>

primrec run_phases :: "backend \<Rightarrow> nat \<Rightarrow> phase \<times> world \<Rightarrow> phase \<times> world" where
  "run_phases b 0 pw = pw"
| "run_phases b (Suc n) pw = run_phases b n (run_phase b (fst pw) (snd pw))"

lemma run_phases_Idle: "run_phases b n (Idle, w) = (Idle, w)"
  by (induction n) simp_all

lemmas phase_simps = next_phase_def run_defs run_phases_Idle

lemma liveness_phases:
  "run_phases b 3 (start b (Call_liveness rq) w) = (Idle, snd (browser_liveness (be_runtime b) (be_app b) rq w))"
  by (simp add: eval_nat_numeral browser_liveness_def evaluation_call_def phase_simps Let_def
      split: prod.splits sum.splits option.splits)

lemma portrait_phases:
  "run_phases b 3 (start b (Call_portrait rq form) w) = (Idle, snd (browser_portrait (be_runtime b) (be_app b) rq form w))"
  by (simp add: eval_nat_numeral browser_portrait_def phase_simps split: prod.splits sum.splits)

lemma capture_phases:
  "run_phases b 1 (start b (Call_capture rq a up cc qc form) w)
     = (Idle, snd (browser_capture (be_runtime b) (be_app b) rq a up cc qc form w))"
  by (simp add: browser_capture_def phase_simps split: prod.splits sum.splits)

lemma submit_phases:
  "run_phases b 1 (start b (Call_submit rq) w) = (Idle, snd (browser_submit (be_runtime b) (be_app b) rq w))"
  by (simp add: browser_submit_def phase_simps split: prod.splits sum.splits)

section \<open>Steps\<close>

text \<open>
  The history is a ghost: the evaluations that returned (the transaction, the attempt and the digest the
  evaluation was claimed for, the image that was sent to the provider, and the evaluation), and the
  captures stored, by transaction, attempt and digest.
\<close>

type_synonym evaluation = "string \<times> string \<times> string \<times> blob \<times> obj"

record history =
  hi_evaluations :: "evaluation list"
  hi_captures :: "(string \<times> string \<times> string) list"

record system =
  sy_world :: world
  sy_pool :: "nat \<Rightarrow> phase"
  sy_history :: history

definition evaluated :: "world \<Rightarrow> phase \<Rightarrow> phase \<Rightarrow> evaluation list" where
  "evaluated w ph ph' = (case (ph, ph') of
     (At_evaluation t a sha, At_settlement _ _ _ ev) \<Rightarrow>
       (case file_at w t CAPTURE_PATH of Some img \<Rightarrow> [(t, a, sha, img, ev)] | None \<Rightarrow> [])
   | _ \<Rightarrow> [])"

definition captured :: "runtime \<Rightarrow> phase \<Rightarrow> world \<Rightarrow> (string \<times> string \<times> string) list" where
  "captured rt ph w' = (case ph of
     At_capture t _ _ _ _ _ _ \<Rightarrow> (case capture_key_of rt w' t of Some (a, sha) \<Rightarrow> [(t, a, sha)] | None \<Rightarrow> [])
   | _ \<Rightarrow> [])"

definition remembered :: "runtime \<Rightarrow> world \<Rightarrow> phase \<Rightarrow> phase \<Rightarrow> world \<Rightarrow> history \<Rightarrow> history" where
  "remembered rt w ph ph' w' h = \<lparr>hi_evaluations = evaluated w ph ph' @ hi_evaluations h,
     hi_captures = captured rt ph w' @ hi_captures h\<rparr>"

inductive step :: "backend \<Rightarrow> system \<Rightarrow> system \<Rightarrow> bool" for b where
  arrive: "sy_pool s i = Idle \<Longrightarrow> start b c (sy_world s) = (ph, w) \<Longrightarrow>
     step b s (s\<lparr>sy_world := w, sy_pool := (sy_pool s)(i := ph)\<rparr>)"
| resume: "run_phase b (sy_pool s i) (sy_world s) = (ph, w) \<Longrightarrow>
     step b s (s\<lparr>sy_world := w, sy_pool := (sy_pool s)(i := ph),
                 sy_history := remembered (be_runtime b) (sy_world s) (sy_pool s i) ph w (sy_history s)\<rparr>)"
| abandon: "step b s (s\<lparr>sy_pool := (sy_pool s)(i := Idle)\<rparr>)"
| tick: "step b s (s\<lparr>sy_world := (sy_world s)\<lparr>clock := clock (sy_world s) + int n\<rparr>\<rparr>)"

inductive_cases stepE: "step b s s'"

text \<open>A start: transactions may have been launched, but nothing has been captured or decided.\<close>

definition gate_files :: "string set" where
  "gate_files = {ATTEMPTS_PATH, CAPTURE_META_PATH, CAPTURE_PATH, DECISION_RELATIVE_PATH, PORTRAIT_PATH,
     PORTRAIT_AUTHORIZATION_PATH} \<union> range portrait_candidate_path"

definition initial :: "system \<Rightarrow> bool" where
  "initial s \<longleftrightarrow> (\<forall>t. \<forall>p \<in> gate_files. file_at (sy_world s) t p = None) \<and> (\<forall>i. sy_pool s i = Idle)
     \<and> sy_history s = \<lparr>hi_evaluations = [], hi_captures = []\<rparr>"

inductive reachable :: "backend \<Rightarrow> system \<Rightarrow> bool" for b where
  reach_init: "initial s \<Longrightarrow> reachable b s"
| reach_step: "reachable b s \<Longrightarrow> step b s s' \<Longrightarrow> reachable b s'"

section \<open>Executable steps\<close>

text \<open>The steps as actions a scheduler may take; the relation is what they do.\<close>

datatype action = Arrive nat call | Resume nat | Abandon nat | Tick nat

fun exec :: "backend \<Rightarrow> action \<Rightarrow> system \<Rightarrow> system option" where
  "exec b (Arrive i c) s =
     (if sy_pool s i = Idle
      then (case start b c (sy_world s) of (ph, w) \<Rightarrow> Some (s\<lparr>sy_world := w, sy_pool := (sy_pool s)(i := ph)\<rparr>))
      else None)"
| "exec b (Resume i) s =
     (case run_phase b (sy_pool s i) (sy_world s) of (ph, w) \<Rightarrow>
        Some (s\<lparr>sy_world := w, sy_pool := (sy_pool s)(i := ph),
                sy_history := remembered (be_runtime b) (sy_world s) (sy_pool s i) ph w (sy_history s)\<rparr>))"
| "exec b (Abandon i) s = Some (s\<lparr>sy_pool := (sy_pool s)(i := Idle)\<rparr>)"
| "exec b (Tick n) s = Some (s\<lparr>sy_world := (sy_world s)\<lparr>clock := clock (sy_world s) + int n\<rparr>\<rparr>)"

lemma step_iff_exec: "step b s s' \<longleftrightarrow> (\<exists>act. exec b act s = Some s')"
proof
  assume "step b s s'"
  then show "\<exists>act. exec b act s = Some s'"
  proof cases
    case (arrive i c ph w)
    then show ?thesis by (intro exI[of _ "Arrive i c"]) simp
  next
    case (resume i ph w)
    then show ?thesis by (intro exI[of _ "Resume i"]) simp
  next
    case (abandon i)
    then show ?thesis by (intro exI[of _ "Abandon i"]) simp
  next
    case (tick n)
    then show ?thesis by (intro exI[of _ "Tick n"]) simp
  qed
next
  assume "\<exists>act. exec b act s = Some s'"
  then obtain act where "exec b act s = Some s'" by blast
  then show "step b s s'" by (cases act) (auto split: prod.splits if_splits intro: step.intros)
qed

fun exec_all :: "backend \<Rightarrow> action list \<Rightarrow> system \<Rightarrow> system option" where
  "exec_all b [] s = Some s"
| "exec_all b (act # acts) s = (case exec b act s of None \<Rightarrow> None | Some s' \<Rightarrow> exec_all b acts s')"

lemma exec_all_reachable: "reachable b s \<Longrightarrow> exec_all b acts s = Some s' \<Longrightarrow> reachable b s'"
proof (induction acts arbitrary: s)
  case (Cons act acts)
  then obtain u where u: "exec b act s = Some u" "exec_all b acts u = Some s'" by (auto split: option.splits)
  then have "step b s u" unfolding step_iff_exec by blast
  then show ?case using Cons.IH[OF _ u(2)] Cons.prems(1) by (blast intro: reach_step)
qed simp

end
