(* ===== verification/System_Invariants.thy ===== *)
theory System_Invariants
  imports System
begin

text \<open>
  The invariant of the reachable states: captures are coherent, requests in flight are bound to a
  capture by an attempt that has uploaded, and decisions, candidates and portraits are accounted for by
  the evaluations and images they came from.
\<close>

section \<open>What is accounted for\<close>

definition decision_justified :: "runtime \<Rightarrow> history \<Rightarrow> world \<Rightarrow> string \<Rightarrow> bool" where
  "decision_justified rt h w t \<longleftrightarrow>
     (\<forall>d. decision_of w t = Some d \<and> d_decision_source d = JStr LIVENESS_DECISION_SOURCE \<longrightarrow>
       (\<exists>a sha img ev. (t, a, sha, img, ev) \<in> set (hi_evaluations h)
          \<and> d_metadata d = decision_metadata_for ev (liveness_identity rt (Some a) sha)
          \<and> outcome_of_json (jget_n ev ''outcome'') = Inr (d_outcome d) \<and> \<not> truthy (jget_n ev ''error'')))"

text \<open>A capture the history knows, its attempt bound to the digest and to the image.\<close>

definition known :: "runtime \<Rightarrow> history \<Rightarrow> world \<Rightarrow> string \<Rightarrow> string \<Rightarrow> string \<Rightarrow> bool" where
  "known rt h w t a sha \<longleftrightarrow> bound rt w t a sha \<and> (t, a, sha) \<in> set (hi_captures h)"

definition known_image :: "runtime \<Rightarrow> history \<Rightarrow> world \<Rightarrow> string \<Rightarrow> string \<Rightarrow> string \<Rightarrow> blob \<Rightarrow> bool" where
  "known_image rt h w t a sha img \<longleftrightarrow> bound_image rt w t a sha img \<and> (t, a, sha) \<in> set (hi_captures h)"

definition coherent :: "runtime \<Rightarrow> history \<Rightarrow> world \<Rightarrow> string \<Rightarrow> bool" where
  "coherent rt h w t \<longleftrightarrow> capture_coherent rt w t
     \<and> (\<forall>a sha. capture_key_of rt w t = Some (a, sha) \<longrightarrow> (t, a, sha) \<in> set (hi_captures h))"

definition candidate_justified :: "runtime \<Rightarrow> app \<Rightarrow> history \<Rightarrow> world \<Rightarrow> string \<Rightarrow> bool" where
  "candidate_justified rt ap h w t \<longleftrightarrow>
     (\<forall>i c. file_at w t (portrait_candidate_path i) = Some c \<longrightarrow>
       (\<exists>a sha img. i = liveness_identity rt (Some a) sha \<and> known_image rt h w t a sha img \<and> made rt ap img c))"

definition portrait_justified :: "runtime \<Rightarrow> app \<Rightarrow> world \<Rightarrow> string \<Rightarrow> bool" where
  "portrait_justified rt ap w t \<longleftrightarrow>
     (\<forall>c. file_at w t PORTRAIT_PATH = Some c \<longrightarrow>
       (\<exists>a sha img. capture_key_of rt w t = Some (a, sha) \<and> file_at w t CAPTURE_PATH = Some img \<and> made rt ap img c))"

definition snapshot_bound :: "runtime \<Rightarrow> history \<Rightarrow> world \<Rightarrow> string \<Rightarrow> snapshot \<Rightarrow> bool" where
  "snapshot_bound rt h w t sn \<longleftrightarrow> known rt h w t (sn_attempt_id sn) (sn_selected_sha256 sn)
     \<and> sn_identity sn = liveness_identity rt (Some (sn_attempt_id sn)) (sn_selected_sha256 sn)"

fun phase_ok :: "runtime \<Rightarrow> history \<Rightarrow> world \<Rightarrow> phase \<Rightarrow> bool" where
  "phase_ok rt h w (At_liveness t a sha) = known rt h w t a sha"
| "phase_ok rt h w (At_evaluation t a sha) = known rt h w t a sha"
| "phase_ok rt h w (At_settlement t a sha ev) = (\<exists>img. (t, a, sha, img, ev) \<in> set (hi_evaluations h))"
| "phase_ok rt h w (At_processing t sn box) = snapshot_bound rt h w t sn"
| "phase_ok rt h w (At_promotion t sn) = snapshot_bound rt h w t sn"
| "phase_ok rt h w _ = True"

text \<open>An evaluation names the attempt and the digest it was made for.\<close>

definition payload_keyed :: "string \<Rightarrow> string \<Rightarrow> obj \<Rightarrow> bool" where
  "payload_keyed a sha ev \<longleftrightarrow> jget_n ev ''attempt_id'' = JStr a \<and> jget_n ev ''selected_sha256'' = JStr sha"

definition evaluation_ok :: "runtime \<Rightarrow> world \<Rightarrow> evaluation \<Rightarrow> bool" where
  "evaluation_ok rt w e = (case e of (t, a, sha, img, ev) \<Rightarrow>
     bound_image rt w t a sha img \<and> payload_sound ev \<and> payload_keyed a sha ev)"

text \<open>No two captures of a transaction in the history share an identity, which is a digest of their keys.\<close>

definition unique_captures :: "runtime \<Rightarrow> history \<Rightarrow> bool" where
  "unique_captures rt h \<longleftrightarrow> (\<forall>t a sha a' sha'. (t, a, sha) \<in> set (hi_captures h) \<longrightarrow> (t, a', sha') \<in> set (hi_captures h) \<longrightarrow>
     liveness_identity rt (Some a) sha = liveness_identity rt (Some a') sha' \<longrightarrow> a = a' \<and> sha = sha')"

definition world_ok :: "runtime \<Rightarrow> app \<Rightarrow> history \<Rightarrow> world \<Rightarrow> bool" where
  "world_ok rt ap h w \<longleftrightarrow>
     (\<forall>t. coherent rt h w t \<and> decision_justified rt h w t \<and> candidate_justified rt ap h w t
        \<and> (unique_captures rt h \<longrightarrow> portrait_justified rt ap w t))
     \<and> (\<forall>e \<in> set (hi_evaluations h). evaluation_ok rt w e)"

definition system_ok :: "backend \<Rightarrow> system \<Rightarrow> bool" where
  "system_ok b s \<longleftrightarrow> world_ok (be_runtime b) (be_app b) (sy_history s) (sy_world s)
     \<and> (\<forall>i. phase_ok (be_runtime b) (sy_history s) (sy_world s) (sy_pool s i))"

definition extends :: "history \<Rightarrow> history \<Rightarrow> bool" where
  "extends h h' \<longleftrightarrow> set (hi_evaluations h) \<subseteq> set (hi_evaluations h') \<and> set (hi_captures h) \<subseteq> set (hi_captures h')"

section \<open>Proper changes\<close>

definition watched :: "string set" where
  "watched = insert ATTEMPTS_PATH binding_files \<union> range portrait_candidate_path"

definition untouched :: "string \<Rightarrow> world \<Rightarrow> world \<Rightarrow> bool" where
  "untouched t w w' \<longleftrightarrow> (\<forall>p \<in> watched. file_at w' t p = file_at w t p)"

text \<open>What a step may do to one transaction.\<close>

definition evolves :: "runtime \<Rightarrow> history \<Rightarrow> string \<Rightarrow> world \<Rightarrow> world \<Rightarrow> bool" where
  "evolves rt h t w w' \<longleftrightarrow> uploaded w t \<subseteq> uploaded w' t
     \<and> (capture_kept t w w'
        \<or> (\<exists>a data. newly_captured rt t a data w w' \<and> (t, a, sha_blob rt (Bin data)) \<in> set (hi_captures h)))"

definition proper_at :: "runtime \<Rightarrow> app \<Rightarrow> history \<Rightarrow> string \<Rightarrow> world \<Rightarrow> world \<Rightarrow> bool" where
  "proper_at rt ap h t w w' \<longleftrightarrow> evolves rt h t w w'
     \<and> (decision_of w' t = decision_of w t \<or> decision_justified rt h w' t)
     \<and> (\<forall>i. file_at w' t (portrait_candidate_path i) = file_at w t (portrait_candidate_path i)
          \<or> file_at w' t (portrait_candidate_path i) = None
          \<or> (\<exists>a sha img c. i = liveness_identity rt (Some a) sha \<and> known rt h w t a sha \<and> capture_kept t w w'
               \<and> file_at w t CAPTURE_PATH = Some img \<and> made rt ap img c
               \<and> file_at w' t (portrait_candidate_path i) = Some c))
     \<and> (file_at w' t PORTRAIT_PATH = file_at w t PORTRAIT_PATH \<and> capture_kept t w w'
        \<or> file_at w' t PORTRAIT_PATH = None \<or> (\<exists>sn. portrait_promoted rt t sn w w'))"

definition proper :: "runtime \<Rightarrow> app \<Rightarrow> history \<Rightarrow> world \<Rightarrow> world \<Rightarrow> bool" where
  "proper rt ap h w w' \<longleftrightarrow> (\<forall>t. proper_at rt ap h t w w')"

lemma untouched_proper: "untouched t w w' \<Longrightarrow> proper_at rt ap h t w w'"
proof -
  assume u: "untouched t w w'"
  then have f: "file_at w' t p = file_at w t p" if "p \<in> watched" for p using that by (simp add: untouched_def)
  have "uploaded w' t = uploaded w t" by (rule uploaded_cong, rule f) (simp add: watched_def)
  moreover have "capture_kept t w w'" by (simp add: capture_kept_def f watched_def)
  moreover have "decision_of w' t = decision_of w t" by (simp add: decision_of_def f watched_def)
  ultimately show ?thesis by (simp add: proper_at_def evolves_def f watched_def)
qed

section \<open>Proper changes keep the invariant\<close>

definition hashes_nonempty :: "runtime \<Rightarrow> bool" where
  "hashes_nonempty rt \<longleftrightarrow> (\<forall>b. sha_blob rt b \<noteq> [] \<and> CHR '':'' \<notin> set (sha_blob rt b))"

lemma unique_captures_anti: "unique_captures rt h' \<Longrightarrow> extends h h' \<Longrightarrow> unique_captures rt h"
  unfolding unique_captures_def extends_def by blast

lemma evolvesE:
  assumes "evolves rt h t w w'" and "hashes_nonempty rt"
  obtains a' data where "uploaded w t \<subseteq> uploaded w' t" "\<forall>b. sha_blob rt b \<noteq> []"
    "capture_kept t w w' \<or> newly_captured rt t a' data w w'"
proof -
  from assms(1) obtain a' data where "capture_kept t w w' \<or> newly_captured rt t a' data w w'"
    unfolding evolves_def by blast
  then show ?thesis using assms that[of a' data] by (simp add: evolves_def hashes_nonempty_def)
qed

lemma evolves_bound:
  "bound rt w t a sha \<Longrightarrow> evolves rt h t w w' \<Longrightarrow> hashes_nonempty rt \<Longrightarrow> bound rt w' t a sha"
  by (erule evolvesE, assumption, rule bound_stable)

lemma evolves_bound_image:
  "bound_image rt w t a sha img \<Longrightarrow> evolves rt h t w w' \<Longrightarrow> hashes_nonempty rt \<Longrightarrow> bound_image rt w' t a sha img"
  by (erule evolvesE, assumption, rule bound_image_stable)

lemma evolves_known:
  "known rt h w t a sha \<Longrightarrow> evolves rt h' t w w' \<Longrightarrow> extends h h' \<Longrightarrow> hashes_nonempty rt \<Longrightarrow> known rt h' w' t a sha"
  by (auto simp: known_def extends_def intro: evolves_bound)

lemma evolves_known_image:
  "known_image rt h w t a sha img \<Longrightarrow> evolves rt h' t w w' \<Longrightarrow> extends h h' \<Longrightarrow> hashes_nonempty rt
     \<Longrightarrow> known_image rt h' w' t a sha img"
  by (auto simp: known_image_def extends_def intro: evolves_bound_image)

lemma evolves_coherent:
  assumes "coherent rt h w t" and ev: "evolves rt h' t w w'" and "extends h h'" and hash: "hashes_nonempty rt"
  shows "coherent rt h' w' t"
proof -
  have "capture_coherent rt w' t"
    by (rule evolvesE[OF ev hash], rule coherent_stable) (use assms(1) in \<open>simp_all add: coherent_def\<close>)
  moreover have "(t, a, sha) \<in> set (hi_captures h')" if "capture_key_of rt w' t = Some (a, sha)" for a sha
    using ev assms(1,3) that hash captured_key[of rt t]
    by (auto simp: evolves_def coherent_def extends_def kept_key hashes_nonempty_def)
  ultimately show ?thesis by (simp add: coherent_def)
qed

lemma capture_not_portrait [simp]:
  "CAPTURE_META_PATH \<noteq> PORTRAIT_PATH" "CAPTURE_META_PATH \<noteq> PORTRAIT_AUTHORIZATION_PATH"
  "CAPTURE_PATH \<noteq> PORTRAIT_PATH" "CAPTURE_PATH \<noteq> PORTRAIT_AUTHORIZATION_PATH"
  "CAPTURE_META_PATH \<noteq> DECISION_RELATIVE_PATH" "CAPTURE_PATH \<noteq> DECISION_RELATIVE_PATH"
  "DECISION_RELATIVE_PATH \<noteq> PORTRAIT_PATH" "DECISION_RELATIVE_PATH \<noteq> PORTRAIT_AUTHORIZATION_PATH"
  "PORTRAIT_PATH \<noteq> DECISION_RELATIVE_PATH" "PORTRAIT_AUTHORIZATION_PATH \<noteq> DECISION_RELATIVE_PATH"
  by (simp_all add: CAPTURE_META_PATH_def CAPTURE_PATH_def PORTRAIT_PATH_def PORTRAIT_AUTHORIZATION_PATH_def DECISION_RELATIVE_PATH_def)

lemma decision_justified_mono: "decision_justified rt h w t \<Longrightarrow> extends h h' \<Longrightarrow> decision_justified rt h' w t"
  unfolding decision_justified_def extends_def by blast

lemma coherent_known: "coherent rt h w t \<Longrightarrow> capture_key_of rt w t = Some (a, sha) \<Longrightarrow> known rt h w t a sha"
  by (simp add: coherent_def known_def coherent_bound)

lemma known_current_image: "coherent rt h w t \<Longrightarrow> known rt h' w t a sha \<Longrightarrow> file_at w t CAPTURE_PATH = Some img
    \<Longrightarrow> known_image rt h' w t a sha img"
  by (simp add: known_def known_image_def coherent_def bound_current_image)

lemma proper_world:
  assumes "world_ok rt ap h w" and proper: "proper rt ap h' w w'" and hash: "hashes_nonempty rt"
    and sub: "extends h h'" and new: "\<forall>e \<in> set (hi_evaluations h') - set (hi_evaluations h). evaluation_ok rt w e"
  shows "world_ok rt ap h' w'"
proof -
  have ok: "coherent rt h w t" "decision_justified rt h w t" "candidate_justified rt ap h w t"
      "unique_captures rt h \<Longrightarrow> portrait_justified rt ap w t" for t
    using assms(1) by (auto simp: world_ok_def)
  have at: "proper_at rt ap h' t w w'" for t using proper by (simp add: proper_def)
  then have ev: "evolves rt h' t w w'" for t by (simp add: proper_at_def)
  have coherent: "coherent rt h' w' t" for t by (rule evolves_coherent[OF ok(1) ev sub hash])
  have decision: "decision_justified rt h' w' t" for t
    using at[of t] decision_justified_mono[OF ok(2) sub, of t] by (auto simp: proper_at_def decision_justified_def)
  have candidate: "candidate_justified rt ap h' w' t" for t
    unfolding candidate_justified_def
  proof (intro allI impI)
    fix i c assume c: "file_at w' t (portrait_candidate_path i) = Some c"
    consider (same) "file_at w t (portrait_candidate_path i) = Some c"
      | (new) a sha img where "i = liveness_identity rt (Some a) sha" "known rt h' w t a sha" "capture_kept t w w'"
          "file_at w t CAPTURE_PATH = Some img" "made rt ap img c"
      using at[of t] c unfolding proper_at_def by (metis option.distinct(1) option.inject)
    then show "\<exists>a sha img. i = liveness_identity rt (Some a) sha \<and> known_image rt h' w' t a sha img \<and> made rt ap img c"
    proof cases
      case same
      then obtain a sha img where *: "i = liveness_identity rt (Some a) sha" "known_image rt h w t a sha img" "made rt ap img c"
        using ok(3)[of t] unfolding candidate_justified_def by blast
      with evolves_known_image[OF *(2) ev sub hash] show ?thesis by blast
    next
      case new
      have "known_image rt h' w t a sha img" by (rule known_current_image[OF ok(1) new(2,4)])
      then have "known_image rt h' w' t a sha img"
        using evolves_bound_image[OF _ ev hash] by (auto simp: known_image_def)
      with new show ?thesis by blast
    qed
  qed
  have portrait: "portrait_justified rt ap w' t" if unique: "unique_captures rt h'" for t
    unfolding portrait_justified_def
  proof (intro allI impI)
    fix c assume c: "file_at w' t PORTRAIT_PATH = Some c"
    consider (same) "file_at w t PORTRAIT_PATH = Some c" "capture_kept t w w'" | (promoted) sn where "portrait_promoted rt t sn w w'"
      using at[of t] c unfolding proper_at_def by fastforce
    then show "\<exists>a sha img. capture_key_of rt w' t = Some (a, sha) \<and> file_at w' t CAPTURE_PATH = Some img \<and> made rt ap img c"
    proof cases
      case same
      then show ?thesis using ok(4)[OF unique_captures_anti[OF unique sub], of t] by (auto simp: portrait_justified_def kept_key kept_image)
    next
      case promoted
      have kept: "capture_kept t w w'" using promoted by (auto simp: portrait_promoted_def capture_kept_def)
      from promoted c have sn: "snapshot_of rt w t sn" and cand: "file_at w t (portrait_candidate_path (sn_identity sn)) = Some c"
        by (auto simp: portrait_promoted_def)
      from ok(3)[of t] cand obtain a sha img where
        *: "sn_identity sn = liveness_identity rt (Some a) sha" "known_image rt h w t a sha img" "made rt ap img c"
        unfolding candidate_justified_def by blast
      have "(t, sn_attempt_id sn, sn_selected_sha256 sn) \<in> set (hi_captures h)"
        using sn ok(1)[of t] by (auto simp: snapshot_of_def coherent_def)
      moreover have "(t, a, sha) \<in> set (hi_captures h)" using *(2) by (simp add: known_image_def)
      ultimately have "sn_attempt_id sn = a \<and> sn_selected_sha256 sn = sha"
        using unique_captures_anti[OF unique sub] *(1) sn unfolding unique_captures_def snapshot_of_def by metis
      then have "file_at w t CAPTURE_PATH = Some img" using *(2) sn by (auto simp: known_image_def bound_image_def snapshot_of_def)
      then show ?thesis using sn *(3) kept by (auto simp: snapshot_of_def kept_key kept_image)
    qed
  qed
  have "evaluation_ok rt w e" if "e \<in> set (hi_evaluations h')" for e
    using assms(1) new that by (cases "e \<in> set (hi_evaluations h)") (auto simp: world_ok_def)
  then have "evaluation_ok rt w' e" if "e \<in> set (hi_evaluations h')" for e
    using that evolves_bound_image[OF _ ev hash] by (fastforce simp: evaluation_ok_def)
  then show ?thesis using coherent decision candidate portrait by (simp add: world_ok_def)
qed

lemma proper_phase:
  assumes "phase_ok rt h w ph" and "proper rt ap h' w w'" and "hashes_nonempty rt" and "extends h h'"
  shows "phase_ok rt h' w' ph"
proof -
  have ev: "evolves rt h' t w w'" for t using assms(2) by (simp add: proper_def proper_at_def)
  show ?thesis
    using assms(1,4) evolves_known[OF _ ev assms(4,3)]
    by (cases ph) (auto simp: snapshot_bound_def extends_def)
qed

section \<open>Every phase is proper\<close>

definition unwatched_files :: "(string \<times> string) set" where
  "unwatched_files = {(t, p). p \<notin> watched}"

lemma unwatched_path [simp]:
  "''transaction.json'' \<notin> watched" "ACTIVE_SESSION_PATH \<notin> watched" "ACTIVE_LAUNCHES_PATH \<notin> watched"
  "CALLBACK_STATE_PATH \<notin> watched" "PORTRAIT_PROCESSING_PATH \<notin> watched" "claim_path_for i p \<notin> watched"
  "evaluation_relative_path i \<notin> watched"
  by (auto simp: watched_def binding_files_def ATTEMPTS_PATH_def ACTIVE_SESSION_PATH_def ACTIVE_LAUNCHES_PATH_def
      CALLBACK_STATE_PATH_def PORTRAIT_PROCESSING_PATH_def claim_path_for_def evaluation_relative_path_def portrait_candidate_path_def
      CAPTURE_META_PATH_def CAPTURE_PATH_def DECISION_RELATIVE_PATH_def PORTRAIT_PATH_def PORTRAIT_AUTHORIZATION_PATH_def)

lemma in_unwatched [simp]: "(t, p) \<in> unwatched_files \<longleftrightarrow> p \<notin> watched"
  by (simp add: unwatched_files_def)

lemma quiet_proper:
  assumes "effect rt' unwatched_files UNIV w w'"
  shows "proper rt ap h w w'"
  using assms untouched_proper by (auto simp: proper_def effect_def untouched_def)

text \<open>A call that only concerns one transaction is proper when it is for that one.\<close>

lemma local_proper:
  assumes "effect rt' ({t} \<times> UNIV) UNIV w w'" and "proper_at rt ap h t w w'"
  shows "proper rt ap h w w'"
  unfolding proper_def
proof
  fix t'
  show "proper_at rt ap h t' w w'"
  proof (cases "t' = t")
    case False
    then have "untouched t' w w'" using assms(1) by (simp add: effect_def untouched_def)
    then show ?thesis by (rule untouched_proper)
  qed (use assms(2) in simp)
qed

lemma wp_run: "wp m (\<lambda>_. P) (\<lambda>_. P) w \<Longrightarrow> m w = (r, w') \<Longrightarrow> P w'"
  by (cases r) (auto dest: wp_InlD wp_InrD)

text \<open>The candidates and the portrait are as before.\<close>

lemma proper_at_bindings:
  assumes "bindings_kept t w w'" and "uploaded w t \<subseteq> uploaded w' t"
    and "\<forall>i. file_at w' t (portrait_candidate_path i) = file_at w t (portrait_candidate_path i)"
  shows "proper_at rt ap h t w w'"
  using assms bindings_capture_kept[OF assms(1)]
  by (auto simp: proper_at_def evolves_def bindings_kept_def decision_of_def)

lemma capture_commit_store:
  assumes "wp (store_capture rt ap t a data mime cc qc box) (\<lambda>_. P) (\<lambda>_. P) w" and "\<And>v m. P v \<Longrightarrow> P (v\<lparr>metrics := m\<rparr>)"
  shows "wp (capture_commit rt ap t a data mime cc qc box) (\<lambda>_. P) (\<lambda>_. P) w"
proof -
  have tail: "wp (bnd (consumer_for_tx rt t) (\<lambda>cid. andthen (record_capture_attempt cid) (ret x))) (\<lambda>_. P) (\<lambda>_. P) v"
    if "P v" for x :: http_response and v
    using that assms(2) by (auto simp: consumer_for_tx_def wp_simps Let_def split: option.splits sum.splits)
  show ?thesis
    unfolding capture_commit_def wp_bnd[of "store_capture rt ap t a data mime cc qc box"]
    by (rule wp_mono[OF assms(1)]) (auto simp: wp_ret intro: tail split: sum.split)
qed

lemma metrics_views [simp]:
  "uploaded (w\<lparr>metrics := m\<rparr>) t = uploaded w t"
  "newly_captured rt t a data w (v\<lparr>metrics := m\<rparr>) = newly_captured rt t a data w v"
proof -
  show "uploaded (w\<lparr>metrics := m\<rparr>) t = uploaded w t" for w by (rule uploaded_cong) simp
  then show "newly_captured rt t a data w (v\<lparr>metrics := m\<rparr>) = newly_captured rt t a data w v"
    by (simp add: newly_captured_def)
qed

lemma capture_commit_proper:
  assumes "capture_commit rt ap t a data mime cc qc box w = (r, w')"
    and known: "\<And>sha. capture_key_of rt w' t = Some (a, sha) \<Longrightarrow> (t, a, sha) \<in> set (hi_captures h)"
    and hash: "hashes_nonempty rt"
  shows "proper rt ap' h w w'"
proof (rule local_proper)
  have "keeps (effect rt ({t} \<times> set capture_files) UNIV) (capture_commit rt ap t a data mime cc qc box)"
    by (intro keeps_intros) simp
  then have eff: "effect rt ({t} \<times> set capture_files) UNIV w w'" using assms(1) by (rule keeps_runD)
  then show "effect rt ({t} \<times> UNIV) UNIV w w'" by (rule effect_mono) auto
  have "portrait_candidate_path i \<notin> set capture_files" for i
    by (simp add: capture_files_def AUTHORIZATION_ARTIFACTS_def ATTEMPTS_PATH_def CAPTURE_META_PATH_def CAPTURE_PATH_def
        DECISION_RELATIVE_PATH_def PORTRAIT_PATH_def PORTRAIT_AUTHORIZATION_PATH_def VLM_RESULT_PATH_def portrait_candidate_path_def)
  then have cand: "\<forall>i. file_at w' t (portrait_candidate_path i) = file_at w t (portrait_candidate_path i)"
    using eff by (simp add: effect_def)
  have "uploaded w t \<subseteq> uploaded w' t \<and> (bindings_kept t w w' \<or> newly_captured rt t a data w w')"
    by (rule wp_run[OF capture_commit_store[OF store_capture_spec] assms(1)]) simp
  then show "proper_at rt ap' h t w w'"
  proof (elim conjE disjE)
    assume new: "newly_captured rt t a data w w'" and "uploaded w t \<subseteq> uploaded w' t"
    moreover from new have "decision_of w' t = None" "file_at w' t PORTRAIT_PATH = None"
      by (simp_all add: newly_captured_def decision_of_def)
    moreover have "(t, a, sha_blob rt (Bin data)) \<in> set (hi_captures h)"
      using known captured_key[OF new] hash by (simp add: hashes_nonempty_def)
    ultimately show ?thesis using cand by (auto simp: proper_at_def evolves_def decision_justified_def)
  qed (intro proper_at_bindings cand)
qed

lemma promoted_justified:
  "decision_promoted rt t (liveness_identity rt (Some a) sha) ev w w' \<Longrightarrow> (t, a, sha, img, ev) \<in> set (hi_evaluations h)
     \<Longrightarrow> decision_justified rt h w' t"
  unfolding decision_promoted_def decision_justified_def by fastforce

lemma settle_proper:
  assumes "liveness_settle rt t (liveness_identity rt (Some a) sha) ev w = (r, w')" and "(t, a, sha, img, ev) \<in> set (hi_evaluations h)"
  shows "proper rt ap h w w'"
proof (rule local_proper)
  let ?i = "liveness_identity rt (Some a) sha"
  let ?F = "{t} \<times> {claim_path_for ?i EVALUATION_CLAIM_PREFIX, evaluation_relative_path ?i, DECISION_RELATIVE_PATH, ''transaction.json''}"
  have "keeps (effect rt ?F UNIV) (liveness_settle rt t ?i ev)" by (intro keeps_intros) simp
  then have eff: "effect rt ?F UNIV w w'" using assms(1) by (rule keeps_runD)
  then show "effect rt ({t} \<times> UNIV) UNIV w w'" by (rule effect_mono) auto
  have other: "p \<notin> {claim_path_for ?i EVALUATION_CLAIM_PREFIX, evaluation_relative_path ?i, DECISION_RELATIVE_PATH, ''transaction.json''}"
    if "p \<in> watched" "p \<noteq> DECISION_RELATIVE_PATH" for p using that by (metis insert_iff singletonD unwatched_path(1,6,7))
  have same: "file_at w' t p = file_at w t p" if "p \<in> watched" "p \<noteq> DECISION_RELATIVE_PATH" for p
    using eff other[OF that] by (simp add: effect_def)
  have cand: "\<forall>i. file_at w' t (portrait_candidate_path i) = file_at w t (portrait_candidate_path i)"
    by (intro allI same) (simp_all add: watched_def portrait_candidate_path_def DECISION_RELATIVE_PATH_def)
  have up: "uploaded w' t = uploaded w t"
    by (intro uploaded_cong same) (simp_all add: watched_def ATTEMPTS_PATH_def DECISION_RELATIVE_PATH_def)
  have "bindings_kept t w w' \<or> decision_promoted rt t ?i ev w w'" by (rule wp_run[OF settle_spec assms(1)])
  then show "proper_at rt ap h t w w'"
  proof
    assume promoted: "decision_promoted rt t ?i ev w w'"
    then have "decision_justified rt h w' t"
      using assms(2) by (intro promoted_justified)
    moreover have "capture_kept t w w'" unfolding capture_kept_def by (intro conjI same) (simp_all add: watched_def binding_files_def)
    moreover have "file_at w' t PORTRAIT_PATH = file_at w t PORTRAIT_PATH" by (intro same) (simp_all add: watched_def binding_files_def)
    ultimately show ?thesis using cand up by (simp add: proper_at_def evolves_def)
  qed (intro proper_at_bindings cand, auto simp: up)
qed

section \<open>Uploads and test decisions\<close>

text \<open>
  Two relations that bound what the remaining routes do to any transaction: uploads are never
  forgotten, and a decision that changes is not a liveness decision.
\<close>

definition grows :: "world \<Rightarrow> world \<Rightarrow> bool" where
  "grows w w' \<longleftrightarrow> (\<forall>t. uploaded w t \<subseteq> uploaded w' t)"

definition tested :: "world \<Rightarrow> world \<Rightarrow> bool" where
  "tested w w' \<longleftrightarrow> (\<forall>t. decision_of w' t = decision_of w t
     \<or> (\<forall>d. decision_of w' t = Some d \<longrightarrow> d_decision_source d \<noteq> JStr LIVENESS_DECISION_SOURCE))"

interpretation grow: frame grows
  by unfold_locales (auto simp: grows_def)

interpretation test: frame tested
  by unfold_locales (auto simp: tested_def, metis)

lemmas grow_rules = grow.bnd grow.andthen grow.catch grow.raise grow.ret grow.lift

lemmas test_rules = test.bnd test.andthen test.ret

lemma keeps_grows: "keeps (effect rt {} {}) m \<Longrightarrow> keeps grows m"
  by (erule keeps_mono) (auto simp: grows_def effect_def intro!: equalityD2 uploaded_cong[symmetric])

lemma keeps_tested: "keeps (effect rt {} {}) m \<Longrightarrow> keeps tested m"
  by (erule keeps_mono) (simp add: tested_def effect_def decision_of_def)

lemma register_grows: "keeps grows (register_attempt rt s t a r c m False)"
proof -
  have "keeps grows (register_attempt_locked rt s t a r c m False)"
    unfolding keeps_wp
  proof
    fix w
    have "keeps (effect rt {(t, ATTEMPTS_PATH), metadata_file t} {}) (register_attempt_locked rt s t a r c m False)"
      by (intro keeps_intros) simp
    then have "keeps (\<lambda>w w'. \<forall>t'. t' \<noteq> t \<longrightarrow> uploaded w' t' = uploaded w t') (register_attempt_locked rt s t a r c m False)"
      by (rule keeps_mono) (auto simp: effect_def intro!: uploaded_cong)
    from keeps_wpD[OF this, of w] show "wp (register_attempt_locked rt s t a r c m False) (\<lambda>_. grows w) (\<lambda>_. grows w) w"
      using register_uploads[of rt s t a r c m False w]
      by (auto simp: wp_def grows_def split: prod.splits sum.splits)
  qed
  moreover have "grows w (make_dir t w)" for w by (simp add: grows_def, intro allI equalityD2 uploaded_cong[symmetric]) simp
  ultimately show ?thesis unfolding register_attempt_def lock_transaction_def
    by (intro keeps_if grow_rules grow.modify)
qed

lemma attempts_grows: "keeps grows (browser_attempts rt ap rq a r c)"
  unfolding browser_attempts_def
  by (intro grow_rules keeps_if register_grows; (rule keeps_grows, intro keeps_intros))

lemma watched_members [simp]:
  "ATTEMPTS_PATH \<in> watched" "p \<in> binding_files \<Longrightarrow> p \<in> watched" "portrait_candidate_path i \<in> watched"
  by (simp_all add: watched_def)

lemma watched_distinct [simp]:
  "portrait_candidate_path i \<noteq> ATTEMPTS_PATH" "ATTEMPTS_PATH \<noteq> portrait_candidate_path i" "portrait_candidate_path i \<noteq> DECISION_RELATIVE_PATH"
  "ATTEMPTS_PATH \<noteq> DECISION_RELATIVE_PATH" "DECISION_RELATIVE_PATH \<noteq> ATTEMPTS_PATH" "ATTEMPTS_PATH \<noteq> PORTRAIT_PATH"
  "PORTRAIT_PATH \<noteq> ATTEMPTS_PATH"
  by (simp_all add: portrait_candidate_path_def DECISION_RELATIVE_PATH_def ATTEMPTS_PATH_def PORTRAIT_PATH_def)

lemma grown_proper:
  assumes "effect rt' F UNIV w w'" and "F \<inter> UNIV \<times> (watched - {ATTEMPTS_PATH}) = {}" and "grows w w'"
  shows "proper rt ap h w w'"
proof -
  have same: "file_at w' t p = file_at w t p" if "p \<in> watched" "p \<noteq> ATTEMPTS_PATH" for t p
    using assms(1,2) that by (intro effect_fileD) auto
  have "bindings_kept t w w'" for t
    unfolding bindings_kept_def by (intro ballI same) (auto simp: watched_def)
  then show ?thesis unfolding proper_def
    by (intro allI proper_at_bindings) (use assms(3) same in \<open>simp_all add: grows_def\<close>)
qed

lemma tested_proper:
  assumes "effect rt' F UNIV w w'" and "F \<inter> UNIV \<times> (watched - {DECISION_RELATIVE_PATH}) = {}" and "tested w w'"
  shows "proper rt ap h w w'"
  unfolding proper_def
proof
  fix t
  have same: "file_at w' t p = file_at w t p" if "p \<in> watched" "p \<noteq> DECISION_RELATIVE_PATH" for p
    using assms(1,2) that by (intro effect_fileD) auto
  have "capture_kept t w w'" "uploaded w' t = uploaded w t"
    by (simp add: capture_kept_def same) (intro uploaded_cong same; simp)
  moreover have "decision_of w' t = decision_of w t \<or> decision_justified rt h w' t"
    using assms(3) by (auto simp: tested_def decision_justified_def)
  ultimately show "proper_at rt ap h t w w'" by (simp add: proper_at_def evolves_def same)
qed

lemma attempts_proper:
  assumes "browser_attempts rt ap rq a r c w = (res, w')"
  shows "proper rt' ap' h w w'"
proof (rule grown_proper)
  have "keeps (effect rt (UNIV \<times> {ATTEMPTS_PATH, ''transaction.json''}) UNIV) (browser_attempts rt ap rq a r c)"
    by (intro keeps_intros) simp
  then show "effect rt (UNIV \<times> {ATTEMPTS_PATH, ''transaction.json''}) UNIV w w'" using assms by (rule keeps_runD)
  show "grows w w'" by (rule keeps_runD[OF attempts_grows assms])
qed (auto simp: unwatched_path)

lemma test_decision_tested: "keeps tested (test_decision rt rq)"
proof -
  have tail: "keeps tested (bnd (build_decision rt t PASS ''test-only'' v None None) (\<lambda>d.
      andthen (write_decision t d) (andthen (update_transaction_status rt t s) (ret (x d)))))" for t v s and x :: "_ \<Rightarrow> http_response"
    unfolding keeps_wp
  proof
    fix w
    let ?d = "\<lambda>uid n. \<lparr>d_decision_id = JStr uid, d_transaction_id = JStr t, d_outcome = PASS, d_decided_at = JTime n,
      d_decision_source = JStr ''test-only'', d_decision_version = JStr v, d_evidence_refs = [], d_metadata = []\<rparr>"
    have wf: "decode_decision (encode_decision (?d uid n)) = Some (?d uid n)" if "uid \<noteq> []" "t \<noteq> []" for uid n
      using that by (intro decode_encode_decision) (simp add: decision_wf_def)
    have no: "''test-only'' \<noteq> LIVENESS_DECISION_SOURCE" by (simp add: LIVENESS_DECISION_SOURCE_def)
    have "tested w (w\<lparr>rng := k\<rparr>)"
      "uid \<noteq> [] \<Longrightarrow> t \<noteq> [] \<Longrightarrow> tested w (put_file t DECISION_RELATIVE_PATH (Json (JObj (encode_decision (?d uid n)))) (w\<lparr>rng := k\<rparr>))"
      "uid \<noteq> [] \<Longrightarrow> t \<noteq> [] \<Longrightarrow> tested w (put_file t ''transaction.json'' b (put_file t DECISION_RELATIVE_PATH
         (Json (JObj (encode_decision (?d uid n)))) (w\<lparr>rng := k\<rparr>)))" for uid n k b
      using no by (auto simp: tested_def decision_of_put wf) (simp_all add: decision_of_def)
    then show "wp (bnd (build_decision rt t PASS ''test-only'' v None None) (\<lambda>d.
        andthen (write_decision t d) (andthen (update_transaction_status rt t s) (ret (x d))))) (\<lambda>_. tested w) (\<lambda>_. tested w) w"
      by (simp add: build_decision_def wp_simps split: option.splits sum.splits)
  qed
  show ?thesis unfolding test_decision_def
    by (rule test.bnd[OF keeps_tested[OF keeps_session_transaction]], rule tail)
qed

lemma test_decision_proper:
  assumes "test_decision rt rq w = (res, w')"
  shows "proper rt' ap' h w w'"
proof (rule tested_proper)
  have "keeps (effect rt (UNIV \<times> {DECISION_RELATIVE_PATH, ''transaction.json''}) UNIV) (test_decision rt rq)"
    by (rule keeps_test_decision) simp
  then show "effect rt (UNIV \<times> {DECISION_RELATIVE_PATH, ''transaction.json''}) UNIV w w'" using assms by (rule keeps_runD)
  show "tested w w'" by (rule keeps_runD[OF test_decision_tested assms])
qed (auto simp: unwatched_path)

section \<open>Starting a request\<close>

lemma next_phaseE:
  assumes "next_phase f (m w) = (ph, w')"
  obtains r where "m w = (r, w')" "ph = (case r of Inl _ \<Rightarrow> Idle | Inr x \<Rightarrow> f x)"
  using assms by (cases "m w") (auto simp: next_phase_def split: sum.splits)

lemma quiet_runs:
  assumes "next_phase f (m w) = (ph, w')" and "keeps (effect rt unwatched_files UNIV) m"
  shows "proper rt' ap h w w'"
  using assms by (elim next_phaseE) (rule quiet_proper, rule keeps_runD)

lemma start_proper:
  assumes "start b c w = (ph, w')"
  shows "proper rt ap h w w'"
proof (cases c)
  case (Call_attempts rq a r cc)
  then show ?thesis using assms by (auto elim!: next_phaseE intro: attempts_proper)
next
  case (Call_test_decision rq)
  then show ?thesis using assms
    by (auto split: if_splits elim!: next_phaseE intro: test_decision_proper quiet_proper[OF eff.frame_refl])
qed (use assms in \<open>auto elim!: quiet_runs intro!: keeps_intros keeps_launch_route keeps_reissue_route keeps_status_route\<close>)

lemma liveness_open_key:
  "wp (liveness_open rt rq) (\<lambda>(t, a, sha) w'. capture_key_of rt w' t = Some (a, sha)) (\<lambda>_ _. True) w"
  unfolding liveness_open_def wp_bnd wp_andthen
  by (rule wp_any, rule wp_any) (auto simp: wp_simps split: option.splits)

lemma start_phase_ok:
  assumes "start b c w = (ph, w')" and "\<forall>t. coherent (be_runtime b) h w' t"
  shows "phase_ok (be_runtime b) h w' ph"
proof (cases c)
  case (Call_liveness rq)
  with assms(1) obtain r where r: "liveness_open (be_runtime b) rq w = (r, w')"
      "ph = (case r of Inl _ \<Rightarrow> Idle | Inr (t, a, sha) \<Rightarrow> At_liveness t a sha)"
    by (auto elim!: next_phaseE)
  then show ?thesis
    using wp_InrD[OF liveness_open_key] coherent_known[OF assms(2)[rule_format]] by (fastforce split: sum.splits)
qed (use assms(1) in \<open>auto elim!: next_phaseE split: if_splits sum.splits\<close>)

section \<open>Resuming a request\<close>

lemma process_proper:
  assumes "portrait_process rt ap t sn box w = (r, w')" and sn: "snapshot_bound rt h w t sn"
  shows "proper rt ap h w w'"
proof (rule local_proper)
  let ?c = "portrait_candidate_path (sn_identity sn)"
  let ?F = "{(t, ?c), (t, PORTRAIT_PROCESSING_PATH), (t, claim_path_for (sn_identity sn) PORTRAIT_CLAIM_PREFIX)}"
  have "keeps (effect rt ?F UNIV) (portrait_process rt ap t sn box)" by (intro keeps_intros) simp
  then have eff: "effect rt ?F UNIV w w'" using assms(1) by (rule keeps_runD)
  then show "effect rt ({t} \<times> UNIV) UNIV w w'" by (rule effect_mono) auto
  have same: "file_at w' t p = file_at w t p" if "p \<in> watched" "p \<noteq> ?c" for p
    by (rule effect_fileD[OF eff]) (use that in auto)
  have bindings: "bindings_kept t w w'" unfolding bindings_kept_def by (intro ballI same) (auto simp: watched_def)
  have up: "uploaded w' t = uploaded w t" by (intro uploaded_cong same) (simp_all add: watched_def)
  have cand: "file_at w' t ?c = file_at w t ?c
      \<or> (\<exists>img c. file_at w t CAPTURE_PATH = Some img \<and> made rt ap img c \<and> file_at w' t ?c = Some c)"
    by (rule wp_run[OF wp_mono[OF portrait_process_spec] assms(1)]) auto
  have "file_at w' t (portrait_candidate_path i) = file_at w t (portrait_candidate_path i)
      \<or> (\<exists>a sha img c. i = liveness_identity rt (Some a) sha \<and> known rt h w t a sha \<and> capture_kept t w w'
           \<and> file_at w t CAPTURE_PATH = Some img \<and> made rt ap img c \<and> file_at w' t (portrait_candidate_path i) = Some c)" for i
    using cand same[of "portrait_candidate_path i"] sn bindings_capture_kept[OF bindings]
    by (cases "i = sn_identity sn") (auto simp: snapshot_bound_def)
  then show "proper_at rt ap h t w w'"
    using bindings bindings_capture_kept[OF bindings] up
    by (simp add: proper_at_def evolves_def decision_of_def bindings_kept_def) blast
qed

text \<open>A candidate is only ever removed by the promotion.\<close>

definition fades :: "world \<Rightarrow> world \<Rightarrow> bool" where
  "fades w w' \<longleftrightarrow> (\<forall>t i. file_at w' t (portrait_candidate_path i) = file_at w t (portrait_candidate_path i)
     \<or> file_at w' t (portrait_candidate_path i) = None)"

interpretation fade: frame fades
proof unfold_locales
  fix u v w assume "fades u v" "fades v w"
  then show "fades u w" unfolding fades_def by metis
qed (simp add: fades_def)

lemma keeps_fades: "keeps (effect rt (UNIV \<times> - range portrait_candidate_path) UNIV) m \<Longrightarrow> keeps fades m"
  by (erule keeps_mono) (auto simp: fades_def effect_def)

lemma removal_fades: "keeps fades (safe_remove t p)"
  by (auto simp: keeps_wp wp_safe_remove fades_def file_at_del)

lemma not_candidate [simp]:
  "claim_path_for j p \<notin> range portrait_candidate_path" "PORTRAIT_PATH \<notin> range portrait_candidate_path"
  "PORTRAIT_AUTHORIZATION_PATH \<notin> range portrait_candidate_path" "''transaction.json'' \<notin> range portrait_candidate_path"
  by (auto simp: portrait_candidate_path_def PORTRAIT_PATH_def claim_path_for_def PORTRAIT_AUTHORIZATION_PATH_def)

lemma promote_fades: "keeps fades (portrait_promote rt t sn)"
proof -
  have lock: "keeps fades m \<Longrightarrow> keeps fades (lock_transaction t m)" for m :: "artifact_reference M"
    unfolding lock_transaction_def by (intro keeps_if fade.andthen fade.bnd fade.lift fade.modify) (simp add: fades_def)
  have status: "keeps fades (update_transaction_status rt t s)" for s
    by (rule keeps_fades, rule keeps_update_status) simp_all
  show ?thesis unfolding portrait_promote_def
    by (intro lock status fade.bnd fade.andthen fade.raise fade.ret keeps_if removal_fades;
        (rule keeps_fades, intro keeps_intros; simp add: capture_artifact del: ARTIFACT_RELATIVE_PATHS.simps status_value.simps)?)
qed

lemma promote_proper:
  assumes "portrait_promote rt t sn w = (r, w')"
  shows "proper rt ap h w w'"
proof (rule local_proper)
  let ?F = "{t} \<times> ({PORTRAIT_PATH, PORTRAIT_AUTHORIZATION_PATH, claim_path_for (sn_identity sn) PORTRAIT_CLAIM_PREFIX,
      ''transaction.json'', portrait_candidate_path (sn_identity sn)})"
  have "keeps (effect rt ?F UNIV) (portrait_promote rt t sn)" by (intro keeps_intros) simp
  then have eff: "effect rt ?F UNIV w w'" using assms(1) by (rule keeps_runD)
  then show "effect rt ({t} \<times> UNIV) UNIV w w'" by (rule effect_mono) auto
  have "file_at w' t ATTEMPTS_PATH = file_at w t ATTEMPTS_PATH"
    by (rule effect_fileD[OF eff]) (auto simp: ATTEMPTS_PATH_def PORTRAIT_AUTHORIZATION_PATH_def PORTRAIT_PATH_def
        portrait_candidate_path_def claim_path_for_def)
  then have up: "uploaded w' t = uploaded w t" by (rule uploaded_cong)
  have fades: "fades w w'" by (rule keeps_runD[OF promote_fades assms])
  have "bindings_kept t w w' \<or> portrait_promoted rt t sn w w'" by (rule wp_run[OF promote_spec assms])
  then have "capture_kept t w w'" "decision_of w' t = decision_of w t"
    by (auto simp: bindings_kept_def portrait_promoted_def capture_kept_def decision_of_def)
  then show "proper_at rt ap h t w w'"
    using up fades \<open>bindings_kept t w w' \<or> portrait_promoted rt t sn w w'\<close>
    by (auto simp: proper_at_def evolves_def fades_def bindings_kept_def)
qed

lemma failed_never_returns: "wp (liveness_failed rt t i e :: 'a M) (\<lambda>_ _. False) (\<lambda>_ _. True) w"
proof -
  have raised: "wp (andthen m (raise e) :: 'b M) (\<lambda>_ _. False) (\<lambda>_ _. True) v" for m :: "'c M" and v and e
    unfolding wp_andthen by (rule wp_any) (simp_all add: wp_raise)
  show ?thesis
    unfolding liveness_failed_def
    by (cases e) (simp_all add: wp_raise, unfold wp_andthen, (rule wp_any, rule wp_any; simp add: wp_raise)+)
qed

text \<open>An evaluation that returns is sound, and is of the image that is stored when it starts.\<close>

lemma wp_both:
  "wp m Q (\<lambda>_ _. True) w \<Longrightarrow> wp m Q' (\<lambda>_ _. True) w \<Longrightarrow> wp m (\<lambda>x v. Q x v \<and> Q' x v) (\<lambda>_ _. True) w"
  by (simp add: wp_def split: prod.splits sum.splits)

lemma evaluate_capture_keyed:
  "wp (evaluate_capture rt libs s t (Some a) sha)
     (\<lambda>ev _. payload_sound ev \<and> payload_keyed a sha ev \<and> (\<exists>img. file_at w t CAPTURE_PATH = Some img)) (\<lambda>_ _. True) w"
proof -
  let ?m = "evaluate_capture rt libs s t (Some a) sha"
  have after: "wp (bnd m f) (\<lambda>p _. payload_keyed a sha p) (\<lambda>_ _. True) v"
    if "\<And>x u. wp (f x) (\<lambda>p _. payload_keyed a sha p) (\<lambda>_ _. True) u" for m :: "'a M" and f v
    unfolding wp_bnd by (rule wp_any) (simp_all add: that)
  have keyed: "wp ?m (\<lambda>p _. payload_keyed a sha p) (\<lambda>_ _. True) w"
  proof (cases "str_lower (vlm_provider s) = []")
    case True
    show ?thesis
      unfolding evaluate_capture_def Let_def True
      by (intro after) (simp add: wp_ret payload_keyed_def error_payload_def)
  next
    case False
    show ?thesis
      unfolding evaluate_capture_def Let_def if_not_P[OF False]
      by (intro after, split option.split, intro conjI allI impI)
         (auto simp: wp_ret wp_bnd wp_lift wp_gets payload_keyed_def error_payload_def success_payload_def split: sum.splits)
  qed
  have "wp ?m (\<lambda>_ _. \<exists>img. file_at w t CAPTURE_PATH = Some img) (\<lambda>_ _. True) w"
    unfolding evaluate_capture_def Let_def wp_bnd wp_read_artifact
    by (auto split: option.splits intro!: wp_any)
  from wp_both[OF evaluate_capture_sound wp_both[OF keyed this]] show ?thesis .
qed

lemma evaluation_call_spec:
  "wp (evaluation_call b t a sha)
     (\<lambda>ev _. payload_sound ev \<and> payload_keyed a sha ev \<and> (\<exists>img. file_at w t CAPTURE_PATH = Some img)) (\<lambda>_ _. True) w"
  unfolding evaluation_call_def wp_catch
  by (rule wp_mono[OF evaluate_capture_keyed]) (simp, rule wp_mono[OF failed_never_returns], simp_all)

lemma keeps_evaluation_call: "keeps (effect rt unwatched_files UNIV) (evaluation_call b t a sha)"
  unfolding evaluation_call_def by (intro keeps_intros) simp

lemma resume_proper:
  assumes "run_phase b ph w = (ph', w')" and "phase_ok (be_runtime b) h w ph" and "hashes_nonempty (be_runtime b)"
    and known: "set (captured (be_runtime b) ph w') \<subseteq> set (hi_captures h)"
  shows "proper (be_runtime b) (be_app b) h w w'"
  using assms
proof (cases ph)
  case (At_capture t a data mime cc qc box)
  then have "(t, a, sha) \<in> set (hi_captures h)" if "capture_key_of (be_runtime b) w' t = Some (a, sha)" for sha
    using known that by (simp add: captured_def)
  then show ?thesis using assms(1,3) At_capture by (auto elim!: next_phaseE intro: capture_commit_proper)
next
  case (At_evaluation t a sha)
  then show ?thesis using assms(1) by (auto elim!: quiet_runs intro!: keeps_evaluation_call)
next
  case (At_settlement t a sha ev)
  then show ?thesis using assms by (auto elim!: next_phaseE intro: settle_proper)
next
  case (At_processing t sn box)
  then show ?thesis using assms by (auto elim!: next_phaseE intro: process_proper)
next
  case (At_promotion t sn)
  then show ?thesis using assms(1) by (auto elim!: next_phaseE intro: promote_proper)
qed (auto elim!: quiet_runs intro!: keeps_intros quiet_proper[OF eff.frame_refl])

lemma known_more: "known rt h w t a sha \<Longrightarrow> extends h h' \<Longrightarrow> known rt h' w t a sha"
  by (auto simp: known_def extends_def)

lemma phase_ok_more: "phase_ok rt h w ph \<Longrightarrow> extends h h' \<Longrightarrow> phase_ok rt h' w ph"
  by (cases ph) (auto simp: snapshot_bound_def extends_def intro: known_more)

lemma remembered_extends [simp]: "extends h (remembered rt w ph ph' w' h)"
  by (simp add: extends_def remembered_def)

lemma extends_refl [simp]: "extends h h"
  by (simp add: extends_def)

lemma evaluated_cases:
  assumes "e \<in> set (evaluated w ph ph')"
  obtains t a sha t' a' sha' ev img where "ph = At_evaluation t a sha" "ph' = At_settlement t' a' sha' ev"
    "Some img = file_at w t CAPTURE_PATH" "e = (t, a, sha, img, ev)"
  using assms by (auto simp: evaluated_def split: phase.splits option.splits)

lemma evaluated_ok:
  assumes "run_phase b ph w = (ph', w')" and "phase_ok (be_runtime b) h w ph"
    and "\<forall>t. coherent (be_runtime b) h w t" and "e \<in> set (evaluated w ph ph')"
  shows "evaluation_ok (be_runtime b) w e"
  using assms(4)
proof (cases rule: evaluated_cases)
  case (1 u a sha t' a' sha' ev img)
  then have "payload_sound ev \<and> payload_keyed a sha ev"
    using assms(1) wp_InrD[OF evaluation_call_spec] by (fastforce elim!: next_phaseE split: sum.splits)
  moreover have "bound_image (be_runtime b) w u a sha img"
    by (rule bound_current_image) (use 1 assms(2,3) in \<open>simp_all add: known_def coherent_def\<close>)
  ultimately show ?thesis using 1 by (simp add: evaluation_ok_def)
qed

lemma resume_phase_ok:
  assumes run: "run_phase b ph w = (ph', w')" and ok: "phase_ok (be_runtime b) h w ph"
    and coherent: "\<forall>t. coherent (be_runtime b) h w t" and hash: "hashes_nonempty (be_runtime b)"
  shows "phase_ok (be_runtime b) (remembered (be_runtime b) w ph ph' w' h) w' ph'"
proof -
  let ?h = "remembered (be_runtime b) w ph ph' w' h"
  have "proper (be_runtime b) (be_app b) ?h w w'"
    by (rule resume_proper[OF run phase_ok_more[OF ok remembered_extends] hash]) (simp add: remembered_def)
  then have ev: "evolves (be_runtime b) ?h t w w'" for t by (simp add: proper_def proper_at_def)
  note kept = evolves_known[OF _ ev remembered_extends hash]
  show ?thesis
  proof (cases ph)
    case (At_liveness t a sha)
    then show ?thesis using run ok kept by (auto elim!: next_phaseE split: sum.splits option.splits)
  next
    case (At_evaluation t a sha)
    then show ?thesis using run wp_InrD[OF evaluation_call_spec]
      by (fastforce elim!: next_phaseE split: sum.splits simp: evaluated_def remembered_def)
  next
    case (At_portrait t box)
    then obtain r where r: "portrait_claim (be_runtime b) (be_app b) t w = (r, w')"
        "ph' = (case r of Inl _ \<Rightarrow> Idle | Inr (Inl _) \<Rightarrow> Idle | Inr (Inr sn) \<Rightarrow> At_processing t sn box)"
      using run by (auto elim!: next_phaseE)
    have "snapshot_bound (be_runtime b) ?h w' t sn" if "r = Inr (Inr sn)" for sn
    proof -
      have "snapshot_of (be_runtime b) w t sn" using wp_InrD[OF portrait_claim_spec] r(1) that by blast
      then show ?thesis using kept[OF coherent_known[OF coherent[rule_format]]]
        by (auto simp: snapshot_of_def snapshot_bound_def)
    qed
    then show ?thesis using r(2) by (auto split: sum.splits)
  next
    case (At_processing t sn box)
    then show ?thesis using run ok kept by (auto elim!: next_phaseE split: sum.splits simp: snapshot_bound_def)
  qed (use run in \<open>auto elim!: next_phaseE split: sum.splits\<close>)
qed

section \<open>The invariant\<close>

lemma watched_gate: "watched = gate_files"
  by (auto simp: watched_def gate_files_def binding_files_def)

lemma initial_ok:
  assumes "initial s" shows "system_ok b s"
proof -
  have no: "file_at (sy_world s) t p = None" if "p \<in> watched" for t p
    using assms that by (simp add: initial_def watched_gate)
  have "capture_key_of rt (sy_world s) t = None" for rt t by (simp add: capture_key_of_def no watched_def)
  moreover have "decision_of (sy_world s) t = None" for t by (simp add: decision_of_def no watched_def)
  ultimately show ?thesis
    using assms no by (auto simp: initial_def system_ok_def world_ok_def coherent_def capture_coherent_def decision_justified_def
        candidate_justified_def portrait_justified_def watched_def)
qed

lemma file_at_clock [simp]: "file_at (w\<lparr>clock := n\<rparr>) t p = file_at w t p"
  by (simp add: file_at_def)

lemma step_cases:
  assumes "step b s s'"
  obtains (arrive) i c ph w where "s' = s\<lparr>sy_world := w, sy_pool := (sy_pool s)(i := ph)\<rparr>" "sy_pool s i = Idle"
      "start b c (sy_world s) = (ph, w)"
    | (resume) i ph w where "s' = s\<lparr>sy_world := w, sy_pool := (sy_pool s)(i := ph),
        sy_history := remembered (be_runtime b) (sy_world s) (sy_pool s i) ph w (sy_history s)\<rparr>"
      "run_phase b (sy_pool s i) (sy_world s) = (ph, w)"
    | (abandon) i where "s' = s\<lparr>sy_pool := (sy_pool s)(i := Idle)\<rparr>"
    | (tick) n where "s' = s\<lparr>sy_world := (sy_world s)\<lparr>clock := clock (sy_world s) + int n\<rparr>\<rparr>"
  using assms by (elim stepE) (rule that; assumption)+

lemma step_ok:
  assumes "step b s s'" and "system_ok b s" and hash: "hashes_nonempty (be_runtime b)"
  shows "system_ok b s'"
proof -
  let ?rt = "be_runtime b"
  have w: "world_ok ?rt (be_app b) (sy_history s) (sy_world s)"
    and ph: "phase_ok ?rt (sy_history s) (sy_world s) (sy_pool s i)" for i
    using assms(2) by (auto simp: system_ok_def)
  have coherent: "\<forall>t. coherent ?rt (sy_history s) (sy_world s) t" using w by (simp add: world_ok_def)
  have quiet: "world_ok ?rt (be_app b) (sy_history s) v \<and> (\<forall>j. phase_ok ?rt (sy_history s) v (sy_pool s j))"
    if "proper ?rt (be_app b) (sy_history s) (sy_world s) v" for v
    using proper_world[OF w that hash] proper_phase[OF ph that hash] by simp
  from assms(1) show ?thesis
  proof (cases rule: step_cases)
    case (arrive i c ph' w')
    have q: "world_ok ?rt (be_app b) (sy_history s) w' \<and> (\<forall>j. phase_ok ?rt (sy_history s) w' (sy_pool s j))"
      by (rule quiet[OF start_proper[OF arrive(3)]])
    then have "phase_ok ?rt (sy_history s) w' ph'"
      by (intro start_phase_ok[OF arrive(3)]) (simp add: world_ok_def)
    then show ?thesis using arrive(1) q by (simp add: system_ok_def)
  next
    case (resume i ph' w')
    let ?h = "remembered ?rt (sy_world s) (sy_pool s i) ph' w' (sy_history s)"
    have p: "proper ?rt (be_app b) ?h (sy_world s) w'"
      by (rule resume_proper[OF resume(2) phase_ok_more[OF ph remembered_extends] hash]) (simp add: remembered_def)
    have "\<forall>e \<in> set (hi_evaluations ?h) - set (hi_evaluations (sy_history s)). evaluation_ok ?rt (sy_world s) e"
      using evaluated_ok[OF resume(2) ph coherent] by (auto simp: remembered_def)
    then have w': "world_ok ?rt (be_app b) ?h w'"
      by (intro proper_world[OF w p hash]) simp_all
    then show ?thesis
      using resume(1) resume_phase_ok[OF resume(2) ph coherent hash] proper_phase[OF ph p hash remembered_extends]
      by (simp add: system_ok_def)
  next
    case (abandon i)
    then show ?thesis using assms(2) by (simp add: system_ok_def)
  next
    case (tick n)
    have "proper ?rt (be_app b) (sy_history s) (sy_world s) ((sy_world s)\<lparr>clock := clock (sy_world s) + int n\<rparr>)"
      using untouched_proper by (simp add: proper_def untouched_def)
    then show ?thesis using tick quiet by (simp add: system_ok_def)
  qed
qed

lemma step_extends: "step b s s' \<Longrightarrow> extends (sy_history s) (sy_history s')"
  by (erule step_cases) simp_all

lemma reachable_ok:
  assumes "reachable b s" and "hashes_nonempty (be_runtime b)"
  shows "system_ok b s"
  using assms(1)
  by (induction rule: reachable.induct) (blast intro: initial_ok step_ok[OF _ _ assms(2)])+

end
