(* ===== verification/Submit_Specs.thy ===== *)
theory Submit_Specs
  imports System_Invariants
begin

text \<open>
  What the submission establishes: a callback is posted only for an authorized portrait that is a JPEG,
  carries that portrait, and a transaction completes only on an acknowledgement with an allowed redirect.
\<close>

section \<open>Callbacks\<close>

definition callback_of :: "runtime \<Rightarrow> app \<Rightarrow> world \<Rightarrow> string \<Rightarrow> callback_post \<Rightarrow> bool" where
  "callback_of rt ap w t post \<longleftrightarrow> authorization_of rt w t = Inr True
     \<and> (\<exists>portrait d cid profile. file_at w t PORTRAIT_PATH = Some portrait \<and> blob_starts_jpeg portrait
          \<and> decision_of w t = Some d \<and> registry_get (ap_registry ap) cid = Some profile
          \<and> cp_url post = cb_url (callback profile)
          \<and> jget_n (cp_payload post) ''decision_id'' = d_decision_id d
          \<and> jget_n (cp_payload post) ''processed_jpeg_base64'' = JStr (b64encode (blob_bytes rt portrait))
          \<and> jget_n (cp_payload post) ''processed_jpeg_sha256'' = JStr (sha_blob rt portrait))"

text \<open>The post number \<open>n\<close> was acknowledged with a redirect that its consumer allows.\<close>

definition acknowledged :: "app \<Rightarrow> callback_post \<Rightarrow> nat \<Rightarrow> bool" where
  "acknowledged ap post n \<longleftrightarrow> (\<exists>code body url cid profile.
     ap_client ap n post = CbResponse code (Some body) \<and> 200 \<le> code \<and> code < 300 \<and> body_redirect body = Some url
     \<and> registry_get (ap_registry ap) cid = Some profile \<and> cp_url post = cb_url (callback profile)
     \<and> validate_redirect_url profile url (is_local_env (ap_settings ap)))"

definition submitted :: "runtime \<Rightarrow> app \<Rightarrow> string \<Rightarrow> world \<Rightarrow> world \<Rightarrow> bool" where
  "submitted rt ap t w w' \<longleftrightarrow> (\<exists>ps. outbox w' = outbox w @ ps \<and> (\<forall>p \<in> set ps. callback_of rt ap w t p)
     \<and> (completed rt w' t \<longrightarrow> completed rt w t \<or>
          ps \<noteq> [] \<and> acknowledged ap (last ps) (length (outbox w') - 1)))"

lemma submitted_quiet: "effect rt F {} w w' \<Longrightarrow> submitted rt ap t w w'"
  by (auto simp: submitted_def effect_def)

text \<open>What is only recorded afterwards does not complete anything.\<close>

lemma submitted_later: "submitted rt ap t w v \<Longrightarrow> effect rt F {} v w' \<Longrightarrow> submitted rt ap t w w'"
  by (fastforce simp: submitted_def effect_def)

lemma submitted_then:
  assumes "submitted rt ap t w v" and "keeps (effect rt F {}) m"
  shows "wp m (\<lambda>_. submitted rt ap t w) (\<lambda>_. submitted rt ap t w) v"
  by (rule wp_mono[OF keeps_wpD[OF assms(2)]]) (erule submitted_later[OF assms(1)])+

section \<open>The checks\<close>

lemma submit_checks_spec:
  "wp (submit_checks rt t)
     (\<lambda>(d, portrait) w'. effect rt {} {} w w' \<and> authorization_of rt w t = Inr True
        \<and> file_at w t PORTRAIT_PATH = Some portrait \<and> blob_starts_jpeg portrait \<and> decision_of w t = Some d)
     (\<lambda>_ w'. effect rt {} {} w w') w"
  by (auto simp: submit_checks_def not_ready_def read_portrait_with_integrity_def wp_simps path_simps Let_def
      effect_no_files eff.frame_refl simp del: status_value.simps split: option.splits sum.splits)

section \<open>Delivery\<close>

definition sent :: "consumer_profile \<Rightarrow> obj \<Rightarrow> world \<Rightarrow> callback_post list \<Rightarrow> world \<Rightarrow> bool" where
  "sent profile payload w ps w' \<longleftrightarrow> outbox w' = outbox w @ ps \<and> txs w' = txs w
     \<and> (\<forall>p \<in> set ps. cp_url p = cb_url (callback profile) \<and> cp_payload p = payload)"

lemma send_callback_spec:
  "wp (send_callback rt env client s profile payload)
     (\<lambda>d w'. \<exists>ps code body. sent profile payload w ps w' \<and> ps \<noteq> []
        \<and> client (length (outbox w') - 1) (last ps) = CbResponse code (Some body) \<and> 200 \<le> code \<and> code < 300
        \<and> cd_redirect_url d = body_redirect body)
     (\<lambda>_ w'. \<exists>ps. sent profile payload w ps w') w"
proof -
  have none: "sent profile payload w [] w" by (simp add: sent_def)
  have some: "wp (callback_loop client mr post 0)
       (\<lambda>d w'. \<exists>ps code body. sent profile payload w ps w' \<and> ps \<noteq> []
          \<and> client (length (outbox w') - 1) (last ps) = CbResponse code (Some body) \<and> 200 \<le> code \<and> code < 300
          \<and> cd_redirect_url d = body_redirect body)
       (\<lambda>_ w'. \<exists>ps. sent profile payload w ps w') w"
    if "cp_url post = cb_url (callback profile)" "cp_payload post = payload" for mr post
  proof -
    obtain k where k: "callback_loop client mr post 0 w
        = (callback_verdict (client (length (outbox w) + k) post), posted post (Suc k) w)"
      using callback_loop_spec[of client mr post 0 w] by blast
    let ?w = "posted post (Suc k) w"
    have ps: "sent profile payload w (replicate (Suc k) post) ?w" using that by (auto simp: sent_def posted_def)
    have n: "length (outbox ?w) - 1 = length (outbox w) + k" "last (replicate (Suc k) post) = post" "replicate (Suc k) post \<noteq> []"
      by simp_all
    show ?thesis
    proof (cases "callback_verdict (client (length (outbox w) + k) post)")
      case (Inl e)
      then show ?thesis using ps unfolding wp_def k by auto
    next
      case (Inr d)
      then obtain code body where "client (length (outbox ?w) - 1) (last (replicate (Suc k) post)) = CbResponse code (Some body)"
          "200 \<le> code" "code < 300" "cd_redirect_url d = body_redirect body"
        unfolding n using verdict_Inr by blast
      then show ?thesis using ps n(3) unfolding wp_def k prod.case Inr sum.case by blast
    qed
  qed
  show ?thesis
    unfolding send_callback_def getitem_def
    using none some by (auto simp: wp_simps Let_def split: option.splits sum.splits)
qed

text \<open>The outbox is left alone by everything else.\<close>

definition same_outbox :: "world \<Rightarrow> world \<Rightarrow> bool" where
  "same_outbox w w' \<longleftrightarrow> outbox w' = outbox w"

interpretation box: frame same_outbox
  by unfold_locales (simp_all add: same_outbox_def)

lemma keeps_outbox: "keeps (effect rt F {}) m \<Longrightarrow> keeps same_outbox m"
  by (erule keeps_mono) (simp add: effect_def same_outbox_def)

lemma status_outbox: "keeps same_outbox (update_transaction_status rt t s)"
  by (simp add: keeps_wp wp_simps same_outbox_def split: option.splits sum.splits)

section \<open>Submission\<close>

lemma sent_callbacks:
  assumes "sent profile (build_callback_payload rt eid ext (d_decision_id d) portrait now) w ps w'"
    and "authorization_of rt w t = Inr True" "file_at w t PORTRAIT_PATH = Some portrait" "blob_starts_jpeg portrait"
      "decision_of w t = Some d" "registry_get (ap_registry ap) cid = Some profile"
  shows "\<forall>p \<in> set ps. callback_of rt ap w t p"
  using assms unfolding sent_def callback_of_def
  by (fastforce simp: build_callback_payload_def)

lemma sent_status: "sent profile payload w ps w' \<Longrightarrow> completed rt w' t = completed rt w t"
  by (simp add: sent_def completed_def status_of_def metadata_of_def file_at_def)

lemma json_outbox: "keeps same_outbox (write_json t p ob)"
  by (simp add: keeps_wp wp_simps same_outbox_def)

lemma complete_keeps_outbox: "keeps same_outbox (complete_submission rt ap t eid cid profile d)"
proof -
  have failed: "keeps same_outbox (delivery_failed rt t eid cid r x y e :: http_response M)" for r x y e
    by (rule keeps_outbox, rule keeps_delivery_failed[of t "{(t, CALLBACK_STATE_PATH), metadata_file t}"]) simp
  show ?thesis
    unfolding complete_submission_def write_callback_state_def
    by (intro keeps_option keeps_if failed box.bnd box.andthen status_outbox json_outbox box.ret; rule keeps_outbox; intro keeps_intros)
qed

lemma submitted_delivered:
  assumes "outbox v = outbox w @ ps" "\<forall>p \<in> set ps. callback_of rt ap w t p" "ps \<noteq> []" "acknowledged ap (last ps) (length (outbox v) - 1)"
  shows "submitted rt ap t w v"
  using assms by (auto simp: submitted_def)

lemma complete_spec:
  assumes v: "outbox v = outbox w @ ps" "\<forall>p \<in> set ps. callback_of rt ap w t p" "ps \<noteq> []" "completed rt v t \<longrightarrow> completed rt w t"
    and client: "ap_client ap (length (outbox v) - 1) (last ps) = CbResponse code (Some body)" "200 \<le> code" "code < 300"
      "cd_redirect_url d = body_redirect body"
    and profile: "registry_get (ap_registry ap) cid = Some profile" "cp_url (last ps) = cb_url (callback profile)"
  shows "wp (complete_submission rt ap t eid cid profile d) (\<lambda>_. submitted rt ap t w) (\<lambda>_. submitted rt ap t w) v"
proof (cases "\<exists>url. cd_redirect_url d = Some url \<and> validate_redirect_url profile url (is_local_env (ap_settings ap))")
  case True
  then have "acknowledged ap (last ps) (length (outbox v) - 1)"
    using client profile unfolding acknowledged_def by metis
  then have "submitted rt ap t w u" if "same_outbox v u" for u
    using submitted_delivered[of u w ps] v that by (simp add: same_outbox_def)
  then show ?thesis by (intro wp_mono[OF keeps_wpD[OF complete_keeps_outbox]]) blast+
next
  case False
  have quiet: "submitted rt ap t w v" using v by (auto simp: submitted_def)
  have "complete_submission rt ap t eid cid profile d = delivery_failed rt t eid cid False ''terminal_failed'' ''invalid_redirect''
            (ApiError ''INVALID_REDIRECT'' ''Consumer redirect could not be validated'' 502)"
    using False by (auto simp: complete_submission_def split: option.split)
  then show ?thesis
    using submitted_then[OF quiet keeps_delivery_failed[of t "{(t, CALLBACK_STATE_PATH), metadata_file t}"]] by simp
qed

lemma delivery_failed_raises: "wp (delivery_failed rt t eid cid r x y z :: 'a M) (\<lambda>_ _. False) (\<lambda>_ _. True) v"
proof -
  have after: "wp (andthen m n) (\<lambda>_ _. False) (\<lambda>_ _. True) u" if "\<And>v. wp n (\<lambda>_ _. False) (\<lambda>_ _. True) v"
    for m :: "unit M" and n :: "'a M" and u
    unfolding wp_andthen by (rule wp_any) (simp_all add: that)
  show ?thesis
    unfolding delivery_failed_def wp_bnd wp_gets by (intro after) (simp add: wp_raise)
qed

lemma deliver_spec:
  assumes ok: "authorization_of rt w t = Inr True" "file_at w t PORTRAIT_PATH = Some portrait" "blob_starts_jpeg portrait"
      "decision_of w t = Some d" "registry_get (ap_registry ap) cid = Some profile"
  shows "wp (bnd (deliver rt ap t eid cid profile (build_callback_payload rt eid ext (d_decision_id d) portrait now))
        (complete_submission rt ap t eid cid profile))
      (\<lambda>_. submitted rt ap t w) (\<lambda>_. submitted rt ap t w) w"
  unfolding wp_bnd deliver_def wp_catch
proof (rule wp_mono[OF send_callback_spec], goal_cases)
  case (1 x v)
  then obtain ps code body where ps: "sent profile (build_callback_payload rt eid ext (d_decision_id d) portrait now) w ps v" "ps \<noteq> []"
      "ap_client ap (length (outbox v) - 1) (last ps) = CbResponse code (Some body)" "200 \<le> code" "code < 300"
      "cd_redirect_url x = body_redirect body" by blast
  have url: "cp_url (last ps) = cb_url (callback profile)" using ps(1,2) by (simp add: sent_def)
  show ?case
    by (rule complete_spec[OF _ sent_callbacks[OF ps(1) ok] ps(2) _ ps(3-6) _ url])
       (use ps(1) sent_status[OF ps(1)] ok(5) in \<open>auto simp: sent_def\<close>)
next
  case (2 e v)
  then obtain ps where ps: "sent profile (build_callback_payload rt eid ext (d_decision_id d) portrait now) w ps v" by blast
  have quiet: "submitted rt ap t w v"
    using ps sent_callbacks[OF ps ok] sent_status[OF ps] by (auto simp: submitted_def sent_def)
  have failed: "wp (delivery_failed rt t eid cid r x y z :: callback_delivery M) Q (\<lambda>_. submitted rt ap t w) v" for r x y z Q
  proof -
    have "wp (delivery_failed rt t eid cid r x y z :: callback_delivery M) (\<lambda>_. submitted rt ap t w) (\<lambda>_. submitted rt ap t w) v"
      by (rule submitted_then[OF quiet keeps_delivery_failed[of t "{(t, CALLBACK_STATE_PATH), metadata_file t}"]]) simp
    with delivery_failed_raises
    have "wp (delivery_failed rt t eid cid r x y z :: callback_delivery M) (\<lambda>_ u. False \<and> submitted rt ap t w u)
        (\<lambda>_ u. True \<and> submitted rt ap t w u) v"
      unfolding wp_conj by blast
    then show ?thesis by (rule wp_mono) simp_all
  qed
  show ?case
    using failed quiet by (cases e) (simp_all add: wp_raise)
qed

lemma authorization_cong:
  assumes "\<And>p. file_at v t p = file_at w t p"
  shows "authorization_of rt v t = authorization_of rt w t" "decision_of v t = decision_of w t"
proof -
  show d: "decision_of v t = decision_of w t" by (simp add: decision_of_def assms)
  have k: "capture_key_of rt v t = capture_key_of rt w t" by (simp add: capture_key_of_def assms)
  then have "current_pass rt v t = current_pass rt w t" by (simp add: current_pass_def d)
  then show "authorization_of rt v t = authorization_of rt w t" unfolding authorization_of_def assms d k by simp
qed

lemma submitted_before:
  assumes "effect rt {} {} w v" and "submitted rt ap t v u"
  shows "submitted rt ap t w u"
proof -
  have same: "file_at v t p = file_at w t p" for p using assms(1) by (simp add: effect_def)
  have "callback_of rt ap v t post = callback_of rt ap w t post" for post
    by (simp add: callback_of_def authorization_cong[OF same] same)
  then show ?thesis using assms by (fastforce simp: submitted_def effect_def)
qed

lemma submit_spec: "wp (submit_locked rt ap t) (\<lambda>_. submitted rt ap t w) (\<lambda>_. submitted rt ap t w) w"
proof -
  define good where "good = submitted rt ap t w"
  show ?thesis
    unfolding good_def[symmetric] submit_locked_def wp_bnd[of "submit_checks rt t"]
  proof (rule wp_mono[OF submit_checks_spec], goal_cases)
    case (1 x v)
    then obtain d portrait where x: "x = (d, portrait)" and eff: "effect rt {} {} w v" and
        ok: "authorization_of rt w t = Inr True" "file_at w t PORTRAIT_PATH = Some portrait" "blob_starts_jpeg portrait"
          "decision_of w t = Some d" by (cases x) auto
    have same: "file_at v t p = file_at w t p" for p using eff by (simp add: effect_def)
    have good: "good v" unfolding good_def by (rule submitted_quiet[OF eff])
    have after: "wp m (\<lambda>_. good) (\<lambda>_. good) v" if "keeps (effect rt {} {}) m" for m :: "http_response M"
      using submitted_then[OF good[unfolded good_def] that] by (simp add: good_def)
    have deliver: "wp (bnd (deliver rt ap t eid cid profile (build_callback_payload rt eid ext (d_decision_id d) portrait now))
        (complete_submission rt ap t eid cid profile)) (\<lambda>_. good) (\<lambda>_. good) v"
      if "registry_get (ap_registry ap) cid = Some profile" for eid cid ext now profile
      unfolding good_def
      by (rule wp_mono[OF deliver_spec[OF _ _ _ _ that]])
         (use ok same authorization_cong[OF same] submitted_before[OF eff] in auto)
    have state: "wp (bnd (read_callback_state t) f) (\<lambda>_. good) (\<lambda>_. good) v"
      if "\<And>cb. wp (f cb) (\<lambda>_. good) (\<lambda>_. good) v" for f :: "obj \<Rightarrow> http_response M"
      using that good by (auto simp: read_callback_state_def wp_simps split: option.splits sum.splits)
    have rest: "wp (case registry_get (ap_registry ap) cid of None \<Rightarrow> raise e
        | Some profile \<Rightarrow> bnd (read_callback_state t) (\<lambda>cb.
            if jget_n cb ''state'' = JStr ''ACKNOWLEDGED'' then andthen (record_submit ''duplicate'') (ret (y cb))
            else bnd (gets clock) (\<lambda>now.
              bnd (deliver rt ap t eid cid profile (build_callback_payload rt eid ext (d_decision_id d) portrait now))
                (complete_submission rt ap t eid cid profile)))) (\<lambda>_. good) (\<lambda>_. good) v" for cid e y eid ext
    proof (cases "registry_get (ap_registry ap) cid")
      case (Some profile)
      have "keeps (effect rt {} {}) (andthen (record_submit ''duplicate'') (ret (y cb)))" for cb by (intro keeps_intros)
      then show ?thesis unfolding Some option.case
        by (intro state) (auto intro!: after deliver Some simp: wp_bnd[of "gets clock"] wp_gets)
    qed (simp add: wp_raise good)
    have read: "wp (bnd (read_transaction_json t) f) (\<lambda>_. good) (\<lambda>_. good) v" if "\<And>md. wp (f md) (\<lambda>_. good) (\<lambda>_. good) v" for f
      using that good by (simp add: wp_bnd wp_read_transaction_json split: option.splits sum.splits)
    show ?case
      unfolding x prod.case Let_def by (rule read, rule rest)
  next
    case (2 e v)
    then show ?case unfolding good_def by (rule submitted_quiet)
  qed
qed

end
