(* ===== verification/Session_Specs.thy ===== *)
theory Session_Specs
  imports Submit_Specs
begin

text \<open>
  What a session allows: a browser request that changes anything carries the cookie of an unexpired
  ACTIVE session and its CSRF token, and reaches no transaction but the session's.
\<close>

section \<open>Authentication\<close>

definition unexpired :: "runtime \<Rightarrow> world \<Rightarrow> json \<Rightarrow> bool" where
  "unexpired rt w v \<longleftrightarrow> (case v of
     JTime e \<Rightarrow> clock w < e
   | JStr s \<Rightarrow> (case from_iso rt s of IsoInstant e \<Rightarrow> clock w < e | _ \<Rightarrow> False)
   | _ \<Rightarrow> False)"

definition authenticates :: "runtime \<Rightarrow> world \<Rightarrow> browser_request \<Rightarrow> string \<Rightarrow> bool" where
  "authenticates rt w rq t \<longleftrightarrow> rq_session_cookie rq \<noteq> []
     \<and> (\<exists>r. session_ix w (sha256_hex rt (rq_session_cookie rq)) = Some (Json (JObj r))
          \<and> jget_n r ''revoked'' \<noteq> JBool True \<and> unexpired rt w (jget_d r ''expires_at'' (JStr []))
          \<and> jget_n r ''mode'' = JStr (redemption_mode_value RM_ACTIVE)
          \<and> str_text rt (jget_d r ''csrf_hash'' (JStr [])) = Some (sha256_hex rt (rq_csrf_header rq))
          \<and> str_text rt (jget_n r ''transaction_id'') = Some t)"

lemma index_read_Some: "index_read x = Inr (Some r) \<longleftrightarrow> x = Some (Json (JObj r))"
  by (cases x rule: index_read.cases) auto

lemma resolve_spec:
  "wp (resolve_browser_session rt tok)
     (\<lambda>res w'. \<forall>r. res = Some r \<longrightarrow> w' = w \<and> tok \<noteq> [] \<and> session_ix w (sha256_hex rt tok) = Some (Json (JObj r))
        \<and> jget_n r ''revoked'' \<noteq> JBool True \<and> unexpired rt w (jget_d r ''expires_at'' (JStr [])))
     (\<lambda>_ _. True) w"
  by (auto simp: resolve_browser_session_def wp_simps Let_def index_read_Some is_expired_def unexpired_def
      split: option.splits sum.splits json.splits iso_parse.splits)

lemma csrf_spec:
  "wp (require_csrf rt rq r)
     (\<lambda>_ _. str_text rt (jget_d r ''csrf_hash'' (JStr [])) = Some (sha256_hex rt (rq_csrf_header rq))) (\<lambda>_ _. True) w"
  by (auto simp: require_csrf_def verify_csrf_def wp_simps Let_def split: option.splits)

lemma session_spec:
  "wp (session_transaction rt rq) (\<lambda>t _. authenticates rt w rq t) (\<lambda>_ _. True) w"
proof -
  have tail: "wp (andthen (require_csrf rt rq r) (bnd (getitem r ''transaction_id'') (need_str rt)))
      (\<lambda>t _. authenticates rt w rq t) (\<lambda>_ _. True) v"
    if "session_ix w (sha256_hex rt (rq_session_cookie rq)) = Some (Json (JObj r))" "rq_session_cookie rq \<noteq> []"
      "jget_n r ''revoked'' \<noteq> JBool True" "unexpired rt w (jget_d r ''expires_at'' (JStr []))"
      "jget_n r ''mode'' = JStr (redemption_mode_value RM_ACTIVE)" for r v
    unfolding wp_andthen
    by (rule wp_mono[OF csrf_spec])
       (use that in \<open>auto simp: wp_simps authenticates_def jget_n_def jget_d_def split: option.splits\<close>)
  show ?thesis
    unfolding session_transaction_def require_active_session_def resolve_session_record_def wp_bnd[of "bnd _ _"]
      wp_bnd[of "resolve_browser_session rt _"]
    by (rule wp_mono[OF resolve_spec]) (auto simp: wp_raise wp_ret wp_bnd intro!: tail[unfolded wp_bnd] split: option.split)
qed

section \<open>Confinement\<close>

text \<open>A route that starts with the session reaches only what the session allows.\<close>

lemma session_bound:
  assumes run: "bnd (session_transaction rt rq) f w = (r, w')"
    and local: "\<And>t. keeps (effect rt' ({t} \<times> UNIV) UNIV) (f t)"
  shows "(\<exists>e. r = Inl e) \<and> (\<forall>t p. file_at w' t p = file_at w t p)
    \<or> (\<exists>t v. authenticates rt w rq t \<and> f t v = (r, w') \<and> (\<forall>t' p. t' \<noteq> t \<longrightarrow> file_at w' t' p = file_at w t' p))"
proof -
  obtain x v where x: "session_transaction rt rq w = (x, v)" by (cases "session_transaction rt rq w")
  have eff: "effect rt' {} {} w v" by (rule keeps_runD[OF keeps_session_transaction x])
  show ?thesis
  proof (cases x)
    case (Inl e)
    then show ?thesis using run x eff by (auto simp: run_defs effect_def)
  next
    case (Inr t)
    then have "f t v = (r, w')" using run x by (simp add: run_defs)
    moreover have "authenticates rt w rq t" using wp_InrD[OF session_spec] x Inr by blast
    moreover have "file_at w' t' p = file_at w t' p" if "t' \<noteq> t" for t' p
      using keeps_runD[OF local \<open>f t v = (r, w')\<close>] eff that by (simp add: effect_def)
    ultimately show ?thesis by blast
  qed
qed

text \<open>The transaction a phase works on.\<close>

fun phase_transaction :: "phase \<Rightarrow> string option" where
  "phase_transaction Idle = None"
| "phase_transaction (At_capture t _ _ _ _ _ _) = Some t"
| "phase_transaction (At_liveness t _ _) = Some t"
| "phase_transaction (At_evaluation t _ _) = Some t"
| "phase_transaction (At_settlement t _ _ _) = Some t"
| "phase_transaction (At_portrait t _) = Some t"
| "phase_transaction (At_processing t _ _) = Some t"
| "phase_transaction (At_promotion t _) = Some t"
| "phase_transaction (At_submission t) = Some t"

text \<open>The browser requests that may change something.\<close>

fun mutation_request :: "call \<Rightarrow> browser_request option" where
  "mutation_request (Call_attempts rq _ _ _) = Some rq"
| "mutation_request (Call_capture rq _ _ _ _ _) = Some rq"
| "mutation_request (Call_liveness rq) = Some rq"
| "mutation_request (Call_portrait rq _) = Some rq"
| "mutation_request (Call_submit rq) = Some rq"
| "mutation_request (Call_test_decision rq) = Some rq"
| "mutation_request _ = None"

definition allowed :: "backend \<Rightarrow> browser_request \<Rightarrow> world \<Rightarrow> phase \<times> world \<Rightarrow> bool" where
  "allowed b rq w pw \<longleftrightarrow> (\<forall>t. (\<exists>p. file_at (snd pw) t p \<noteq> file_at w t p) \<or> phase_transaction (fst pw) = Some t \<longrightarrow>
     authenticates (be_runtime b) w rq t)"

lemma allowed_next:
  assumes local: "\<And>t. keeps (effect rt' ({t} \<times> UNIV) UNIV) (m t)"
    and phase: "\<And>t x v v'. m t v = (Inr x, v') \<Longrightarrow> phase_transaction (f x) \<in> {None, Some t}"
  shows "allowed b rq w (next_phase f (bnd (session_transaction (be_runtime b) rq) m w))"
proof -
  obtain r w' where run: "bnd (session_transaction (be_runtime b) rq) m w = (r, w')" by fastforce
  from session_bound[OF run local] show ?thesis
  proof (elim disjE conjE exE)
    fix e assume "r = Inl e" "\<forall>t p. file_at w' t p = file_at w t p"
    then show ?thesis by (simp add: run allowed_def next_phase_def)
  next
    fix t v assume "authenticates (be_runtime b) w rq t" "m t v = (r, w')" "\<forall>t' p. t' \<noteq> t \<longrightarrow> file_at w' t' p = file_at w t' p"
    then show ?thesis using phase by (fastforce simp: run allowed_def next_phase_def split: sum.splits)
  qed
qed

lemma bnd_ret: "bnd m ret = m"
  by (auto simp: bnd_def ret_def fun_eq_iff split: prod.splits sum.splits)

lemma wp_after: "(\<And>x u. wp (f x) Q (\<lambda>_ _. True) u) \<Longrightarrow> wp (bnd m f) Q (\<lambda>_ _. True) w"
  "(\<And>u. wp n Q (\<lambda>_ _. True) u) \<Longrightarrow> wp (andthen m' n) Q (\<lambda>_ _. True) w"
  unfolding wp_bnd wp_andthen by (rule wp_any; simp)+

lemma start_allowed:
  assumes "mutation_request c = Some rq"
  shows "allowed b rq w (start b c w)"
proof -
  let ?rt = "be_runtime b"
  show ?thesis
  proof (cases c)
    case (Call_attempts rq' a r cc)
    then show ?thesis using assms
      by (simp add: browser_attempts_def, intro allowed_next[where rt' = "be_runtime b"] keeps_intros) auto
  next
    case (Call_capture rq' a up cc qc form)
    have "wp (andthen (terminal_blocked t) (bnd (lift r1) (\<lambda>data. bnd (lift (r2 data)) (\<lambda>mime. bnd (lift r3) (\<lambda>box.
        ret (t, data, mime, box)))))) (\<lambda>x _. fst x = t) (\<lambda>_ _. True) v" for t v and r1 :: "exn + bytes" and r2 r3
      by (intro wp_after) (simp add: wp_ret)
    from wp_InrD[OF this] show ?thesis using assms Call_capture
      by (simp add: capture_open_def, intro allowed_next[where rt' = "be_runtime b"] keeps_intros) fastforce
  next
    case (Call_liveness rq')
    have "wp (andthen (terminal_blocked t) (bnd m (\<lambda>key. case key of None \<Rightarrow> raise e | Some (a, sha) \<Rightarrow> ret (t, a, sha))))
        (\<lambda>x _. fst x = t) (\<lambda>_ _. True) v" for t v e and m :: "(string \<times> string) option M"
      by (intro wp_after) (simp add: wp_ret wp_raise split: option.split)
    from wp_InrD[OF this] show ?thesis using assms Call_liveness
      by (simp add: liveness_open_def, intro allowed_next[where rt' = "be_runtime b"] keeps_intros) fastforce
  next
    case (Call_portrait rq' form)
    have "wp (andthen (terminal_blocked t) (if q then raise e else bnd m (\<lambda>captured. bnd (m' captured) (\<lambda>box.
        case box of None \<Rightarrow> raise e' | Some bx \<Rightarrow> ret (t, bx)))))
        (\<lambda>x _. fst x = t) (\<lambda>_ _. True) v" for t v e e' q and m :: "face_box option M" and m'
      by (cases q) (intro wp_after, simp add: wp_ret wp_raise wp_after split: option.split)+
    from wp_InrD[OF this] show ?thesis using assms Call_portrait
      by (simp add: portrait_open_def, intro allowed_next[where rt' = "be_runtime b"] keeps_intros) fastforce
  next
    case (Call_submit rq')
    have "allowed b rq' w (next_phase At_submission (bnd (session_transaction ?rt rq') ret w))"
      by (intro allowed_next[where rt' = "be_runtime b"] keeps_intros) (simp add: ret_def)
    then show ?thesis using assms Call_submit by (simp add: bnd_ret)
  next
    case (Call_test_decision rq')
    then show ?thesis using assms
      by (simp add: test_decision_def allowed_def[of b rq w "(Idle, w)"], intro impI allowed_next[where rt' = "be_runtime b"] keeps_intros)
        (auto simp del: status_value.simps)
  qed (use assms in simp_all)
qed

section \<open>Effects of the phases\<close>

text \<open>The transactions a phase may complete: the one it submits.\<close>

fun submits :: "phase \<Rightarrow> string set" where
  "submits (At_submission t) = {t}"
| "submits _ = {}"

lemma next_effect:
  assumes "next_phase f (m w) = (ph, w')" and "keeps (effect rt F C) m"
  shows "effect rt F C w w'"
  using assms by (elim next_phaseE) (rule keeps_runD)

lemma run_effect:
  assumes "run_phase b ph w = (ph', w')"
  shows "effect (be_runtime b) ({t. phase_transaction ph = Some t} \<times> UNIV) (submits ph) w w'"
proof (cases ph)
  case (At_submission t)
  then show ?thesis using assms
    by (simp, elim next_effect) (intro keeps_intros; simp)
next
  case (At_evaluation t a sha)
  then show ?thesis using assms
    by (simp add: evaluation_call_def[abs_def], elim next_effect) (simp add: evaluation_call_def, intro keeps_intros, simp)
qed (use assms in \<open>auto elim!: next_effect intro!: keeps_intros eff.frame_refl\<close>)

lemma run_same_transaction:
  assumes "run_phase b ph w = (ph', w')"
  shows "phase_transaction ph' \<in> {None, phase_transaction ph}"
  using assms by (cases ph) (auto elim!: next_phaseE split: sum.splits option.splits)

lemma start_effect:
  assumes "start b c w = (ph, w')"
  shows "effect (be_runtime b) UNIV {} w w'"
proof (cases c)
  case (Call_test_decision rq)
  then show ?thesis using assms
    by (auto split: if_splits elim!: next_effect intro: keeps_test_decision eff.frame_refl)
qed (use assms in \<open>auto elim!: next_effect intro!: keeps_intros keeps_launch_route keeps_reissue_route keeps_status_route\<close>)

end
