(* ===== verification/Lifecycle.thy ===== *)
theory Lifecycle
  imports Session_Specs
begin

text \<open>
  What the gate promises of one transaction, as an abstract machine: which attempts have uploaded, the
  current capture, whether it passed, whether its portrait is authorized, and whether the transaction is
  completed or ended. Every step of the system is a sequence of steps of this machine for every
  transaction.
\<close>

section \<open>The machine\<close>

record gate =
  g_uploads :: "json set"
  g_capture :: "(string \<times> string) option"
  g_pass :: bool
  g_portrait :: bool
  g_done :: bool
  g_ended :: bool

inductive lifecycle :: "runtime \<Rightarrow> gate \<Rightarrow> gate \<Rightarrow> bool" for rt where
  upload: "g_uploads g \<subseteq> U \<Longrightarrow> lifecycle rt g (g\<lparr>g_uploads := U\<rparr>)"
| recapture: "JStr (attempt_id_hash rt a) \<notin> g_uploads g \<Longrightarrow> JStr (attempt_id_hash rt a) \<in> U \<Longrightarrow> g_uploads g \<subseteq> U \<Longrightarrow>
     lifecycle rt g (g\<lparr>g_uploads := U, g_capture := Some (a, sha), g_pass := False, g_portrait := False\<rparr>)"
| decide: "g_capture g \<noteq> None \<Longrightarrow> lifecycle rt g (g\<lparr>g_pass := True\<rparr>)"
| authorize: "g_pass g \<Longrightarrow> lifecycle rt g (g\<lparr>g_portrait := True\<rparr>)"
| revoke: "lifecycle rt g (g\<lparr>g_pass := False, g_portrait := False\<rparr>)"
| revoke_portrait: "lifecycle rt g (g\<lparr>g_portrait := False\<rparr>)"
| complete: "g_pass g \<Longrightarrow> g_portrait g \<Longrightarrow> lifecycle rt g (g\<lparr>g_done := True, g_ended := True\<rparr>)"
| finish: "lifecycle rt g (g\<lparr>g_ended := True\<rparr>)"
| supersede: "g_ended g \<Longrightarrow> lifecycle rt g (g\<lparr>g_done := False\<rparr>)"

definition gate_ok :: "gate \<Rightarrow> bool" where
  "gate_ok g \<longleftrightarrow> (g_pass g \<longrightarrow> g_capture g \<noteq> None) \<and> (g_portrait g \<longrightarrow> g_pass g) \<and> (g_done g \<longrightarrow> g_ended g)"

lemma lifecycle_ok: "lifecycle rt g g' \<Longrightarrow> gate_ok g \<Longrightarrow> gate_ok g'"
  by (induction rule: lifecycle.induct) (auto simp: gate_ok_def)

text \<open>Where the machine can go, in one condition.\<close>

definition recaptured :: "runtime \<Rightarrow> gate \<Rightarrow> gate \<Rightarrow> bool" where
  "recaptured rt g g' \<longleftrightarrow> (\<exists>a. JStr (attempt_id_hash rt a) \<notin> g_uploads g \<and> JStr (attempt_id_hash rt a) \<in> g_uploads g'
     \<and> (\<exists>sha. g_capture g' = Some (a, sha)) \<and> \<not> g_pass g' \<and> \<not> g_portrait g')"

definition follows :: "runtime \<Rightarrow> gate \<Rightarrow> gate \<Rightarrow> bool" where
  "follows rt g g' \<longleftrightarrow> g_uploads g \<subseteq> g_uploads g' \<and> (g_capture g' = g_capture g \<or> recaptured rt g g')
     \<and> (g_done g' \<longrightarrow> g_done g \<or> g_pass g \<and> g_portrait g) \<and> (g_ended g \<longrightarrow> g_ended g')"

lemma follows_lifecycle:
  assumes "follows rt g g'" and "gate_ok g" and "gate_ok g'"
  shows "(lifecycle rt)\<^sup>*\<^sup>* g g'"
proof -
  let ?L = "(lifecycle rt)\<^sup>*\<^sup>*"
  define g1 where "g1 = (if g_done g' \<and> \<not> g_done g then g\<lparr>g_done := True, g_ended := True\<rparr> else g)"
  have 1: "?L g g1" using assms by (auto simp: g1_def follows_def intro: r_into_rtranclp complete)
  have same: "g_uploads g1 = g_uploads g" "g_capture g1 = g_capture g" "g_pass g1 = g_pass g" "g_portrait g1 = g_portrait g"
    by (simp_all add: g1_def)
  define g2 where "g2 = g1\<lparr>g_uploads := g_uploads g', g_capture := g_capture g', g_pass := g_pass g', g_portrait := g_portrait g'\<rparr>"
  have 2: "?L g1 g2"
  proof (cases "g_capture g' = g_capture g")
    case True
    define u where "u = g1\<lparr>g_uploads := g_uploads g'\<rparr>"
    define p where "p = (if g_pass g' then u\<lparr>g_pass := True\<rparr> else u\<lparr>g_pass := False, g_portrait := False\<rparr>)"
    have "?L g1 u" unfolding u_def using assms(1) same by (intro r_into_rtranclp upload) (simp add: follows_def)
    moreover have "?L u p"
      using assms(3) True same by (auto simp: p_def u_def gate_ok_def intro!: r_into_rtranclp decide revoke)
    moreover have "?L p g2"
    proof (cases "g_portrait g'")
      case on: True
      then have "g_pass g'" using assms(3) by (simp add: gate_ok_def)
      then have "g2 = p\<lparr>g_portrait := True\<rparr>" using on True same by (simp add: g2_def p_def u_def)
      moreover have "g_pass p" using \<open>g_pass g'\<close> by (simp add: p_def)
      ultimately show ?thesis using authorize[of p rt] by (metis r_into_rtranclp)
    next
      case False
      then have "g2 = p\<lparr>g_portrait := False\<rparr>" using True same by (simp add: g2_def p_def u_def)
      then show ?thesis by (auto intro: r_into_rtranclp revoke_portrait)
    qed
    ultimately show ?thesis by (meson rtranclp_trans)
  next
    case False
    then obtain a sha where a: "JStr (attempt_id_hash rt a) \<notin> g_uploads g" "JStr (attempt_id_hash rt a) \<in> g_uploads g'"
      "g_capture g' = Some (a, sha)" "\<not> g_pass g'" "\<not> g_portrait g'"
      using assms(1) by (auto simp: follows_def recaptured_def)
    have "lifecycle rt g1 (g1\<lparr>g_uploads := g_uploads g', g_capture := Some (a, sha), g_pass := False, g_portrait := False\<rparr>)"
      using a assms(1) by (intro recapture) (auto simp: same follows_def)
    then show ?thesis using a by (auto simp: g2_def)
  qed
  define g3 where "g3 = (if g_ended g' then g2\<lparr>g_ended := True\<rparr> else g2)"
  have 3: "?L g2 g3" by (auto simp: g3_def intro: r_into_rtranclp finish)
  have "?L g3 g'"
  proof (cases "g_done g' = g_done g1")
    case True
    then have "g3 = g'" using assms by (auto simp: g3_def g2_def g1_def follows_def gate_ok_def intro!: gate.equality split: if_splits)
    then show ?thesis by simp
  next
    case False
    then have "\<not> g_done g'" "g_ended g'" using assms by (auto simp: g1_def follows_def gate_ok_def split: if_splits)
    moreover from this have "g' = g3\<lparr>g_done := False\<rparr>" by (simp add: g3_def g2_def)
    moreover have "g_ended g3" using \<open>g_ended g'\<close> by (simp add: g3_def)
    ultimately show ?thesis by (metis r_into_rtranclp supersede)
  qed
  with 1 2 3 show ?thesis by (meson rtranclp_trans)
qed

section \<open>The system refines it\<close>

definition gate_of :: "runtime \<Rightarrow> world \<Rightarrow> string \<Rightarrow> gate" where
  "gate_of rt w t = \<lparr>g_uploads = uploaded w t, g_capture = capture_key_of rt w t, g_pass = (current_pass rt w t = Inr True),
     g_portrait = (authorization_of rt w t = Inr True), g_done = completed rt w t, g_ended = ended rt w t\<rparr>"

lemma gate_of_ok: "gate_ok (gate_of rt w t)"
proof -
  have "current_pass rt w t = Inr True \<longrightarrow> capture_key_of rt w t \<noteq> None" by (auto simp: current_pass_meaning)
  moreover have "authorization_of rt w t = Inr True \<longrightarrow> current_pass rt w t = Inr True"
    by (auto simp: authorization_of_def split: sum.splits bool.splits)
  moreover have "completed rt w t \<longrightarrow> ended rt w t"
    by (simp add: completed_def ended_def is_terminal_def TERMINAL_TRANSACTION_STATUSES_def)
  ultimately show ?thesis by (simp add: gate_ok_def gate_of_def)
qed

lemma step_proper:
  assumes "step b s s'" and "system_ok b s" and hash: "hashes_nonempty (be_runtime b)"
  shows "proper (be_runtime b) (be_app b) (sy_history s') (sy_world s) (sy_world s')"
  using assms(1)
proof (cases rule: step_cases)
  case (arrive i c ph w)
  then show ?thesis using start_proper[OF arrive(3)] by simp
next
  case (resume i ph w)
  have "phase_ok (be_runtime b) (sy_history s) (sy_world s) (sy_pool s i)" using assms(2) by (simp add: system_ok_def)
  then show ?thesis
    using resume resume_proper[OF resume(2) phase_ok_more[OF _ remembered_extends] hash] by (simp add: remembered_def)
next
  case (abandon i)
  then show ?thesis using untouched_proper by (simp add: proper_def untouched_def)
next
  case (tick n)
  then show ?thesis using untouched_proper by (simp add: proper_def untouched_def)
qed

lemma step_ended:
  assumes "step b s s'" and "ended (be_runtime b) (sy_world s) t"
  shows "ended (be_runtime b) (sy_world s') t"
  using assms(1)
proof (cases rule: step_cases)
  case (arrive i c ph w)
  then show ?thesis using start_effect[OF arrive(3)] assms(2) by (simp add: effect_def)
next
  case (resume i ph w)
  then show ?thesis using run_effect[OF resume(2)] assms(2) by (simp add: effect_def)
qed (use assms(2) in \<open>simp_all add: ended_def status_of_def metadata_of_def\<close>)

lemma step_submits:
  assumes "step b s s'"
  obtains (quiet) "outbox (sy_world s') = outbox (sy_world s)"
      "\<forall>t. completed (be_runtime b) (sy_world s') t \<longrightarrow> completed (be_runtime b) (sy_world s) t"
    | (submit) i t where "sy_pool s i = At_submission t" "submitted (be_runtime b) (be_app b) t (sy_world s) (sy_world s')"
      "\<forall>t'. t' \<noteq> t \<longrightarrow> completed (be_runtime b) (sy_world s') t' \<longrightarrow> completed (be_runtime b) (sy_world s) t'"
  using assms
proof (cases rule: step_cases)
  case (arrive i c ph w)
  then show thesis using start_effect[OF arrive(3)] by (intro quiet) (auto simp: effect_def)
next
  case (resume i ph w)
  have eff: "effect (be_runtime b) ({t. phase_transaction (sy_pool s i) = Some t} \<times> UNIV) (submits (sy_pool s i)) (sy_world s) w"
    by (rule run_effect[OF resume(2)])
  show thesis
  proof (cases "sy_pool s i")
    case (At_submission t)
    have "wp (lock_transaction t (submit_locked (be_runtime b) (be_app b) t))
        (\<lambda>_. submitted (be_runtime b) (be_app b) t (sy_world s)) (\<lambda>_. submitted (be_runtime b) (be_app b) t (sy_world s)) (sy_world s)"
    proof -
      have "wp (submit_locked (be_runtime b) (be_app b) t) (\<lambda>_. submitted (be_runtime b) (be_app b) t (sy_world s))
          (\<lambda>_. submitted (be_runtime b) (be_app b) t (sy_world s)) (make_dir t (sy_world s))"
        by (rule wp_mono[OF submit_spec]) (rule submitted_before[OF effect_make_dir], assumption)+
      then show ?thesis
        by (simp add: wp_lock_transaction submitted_quiet[OF eff.frame_refl])
    qed
    then have "submitted (be_runtime b) (be_app b) t (sy_world s) w"
      using resume(2) At_submission by (auto elim!: next_phaseE dest: wp_run)
    then show thesis using resume(1) At_submission eff by (intro submit[of i t]) (auto simp: effect_def)
  qed (use resume(1) eff in \<open>auto intro!: quiet simp: effect_def\<close>)
qed (auto intro!: quiet simp: completed_def status_of_def metadata_of_def)

lemma step_follows:
  assumes "step b s s'" and "system_ok b s" and "hashes_nonempty (be_runtime b)"
  shows "follows (be_runtime b) (gate_of (be_runtime b) (sy_world s) t) (gate_of (be_runtime b) (sy_world s') t)"
proof -
  let ?rt = "be_runtime b" and ?w = "sy_world s" and ?w' = "sy_world s'"
  have "evolves ?rt (sy_history s') t ?w ?w'"
    using step_proper[OF assms] by (simp add: proper_def proper_at_def)
  then have up: "uploaded ?w t \<subseteq> uploaded ?w' t" and cap: "capture_kept t ?w ?w' \<or> (\<exists>a data. newly_captured ?rt t a data ?w ?w')"
    by (auto simp: evolves_def)
  have "capture_key_of ?rt ?w' t = capture_key_of ?rt ?w t \<or> recaptured ?rt (gate_of ?rt ?w t) (gate_of ?rt ?w' t)"
    using cap
  proof (elim disjE exE)
    fix a data assume new: "newly_captured ?rt t a data ?w ?w'"
    then have "decision_of ?w' t = None" by (simp add: newly_captured_def decision_of_def)
    then have "current_pass ?rt ?w' t = Inr False" by (simp add: current_pass_def decision_bound_def)
    then show ?thesis using new captured_key[OF new] assms(3)
      by (auto simp: recaptured_def gate_of_def newly_captured_def authorization_of_def hashes_nonempty_def)
  qed (simp add: kept_key)
  moreover have "completed ?rt ?w' t \<longrightarrow> completed ?rt ?w t \<or> authorization_of ?rt ?w t = Inr True"
    using assms(1)
  proof (cases rule: step_submits)
    case (submit i u)
    then show ?thesis by (cases "u = t") (auto simp: submitted_def callback_of_def dest: last_in_set)
  qed simp
  moreover have "authorization_of ?rt ?w t = Inr True \<longrightarrow> current_pass ?rt ?w t = Inr True"
    by (auto simp: authorization_of_def split: sum.splits bool.splits)
  ultimately show ?thesis using up step_ended[OF assms(1)] by (auto simp: follows_def gate_of_def)
qed

lemma step_lifecycle:
  assumes "reachable b s" and "hashes_nonempty (be_runtime b)" and "step b s s'"
  shows "(lifecycle (be_runtime b))\<^sup>*\<^sup>* (gate_of (be_runtime b) (sy_world s) t) (gate_of (be_runtime b) (sy_world s') t)"
  using follows_lifecycle[OF step_follows[OF assms(3) reachable_ok[OF assms(1,2)] assms(2)] gate_of_ok gate_of_ok] .

end
