(* ===== verification/Evaluation.thy ===== *)
theory Evaluation
  imports Session_Specs
begin

text \<open>
  Evaluation of the operations on a concrete state by rewriting: \<open>run m w\<close> is \<open>m w\<close>, and its equations
  follow the control flow, so that the simplifier computes an operation in the order the code runs it.
  The collection \<open>runs\<close> holds the equations.
\<close>

definition run :: "('w, 'e, 'a) sm \<Rightarrow> 'w \<Rightarrow> ('e + 'a) \<times> 'w" where
  "run m w = m w"

named_theorems runs \<open>equations of the evaluation\<close>

text \<open>The operation is not looked into before the equation of its outermost symbol applies.\<close>

lemma run_cong: "w = w' \<Longrightarrow> run m w = run m w'"
  by simp

lemma run_control [runs]:
  "run (ret x) w = (Inr x, w)" "run (raise e) w = (Inl e, w)" "run (gets g) w = (Inr (g w), w)"
  "run (modify u) w = (Inr (), u w)" "run (lift r) w = (r, w)"
  "run (bnd m f) w = (case run m w of (r, v) \<Rightarrow> (case r of Inl e \<Rightarrow> (Inl e, v) | Inr x \<Rightarrow> run (f x) v))"
  "run (andthen m n) w = (case run m w of (r, v) \<Rightarrow> (case r of Inl e \<Rightarrow> (Inl e, v) | Inr _ \<Rightarrow> run n v))"
  "run (catch m h) w = (case run m w of (r, v) \<Rightarrow> (case r of Inl e \<Rightarrow> run (h e) v | Inr x \<Rightarrow> (Inr x, v)))"
  by (simp_all add: run_def run_defs split: prod.split sum.split)

lemma run_branches [runs]:
  "run (if b then m else n) w = (if b then run m w else run n w)"
  "run (case x of None \<Rightarrow> m | Some y \<Rightarrow> f y) w = (case x of None \<Rightarrow> run m w | Some y \<Rightarrow> run (f y) w)"
  "run (case s of Inl a \<Rightarrow> g a | Inr y \<Rightarrow> k y) w = (case s of Inl a \<Rightarrow> run (g a) w | Inr y \<Rightarrow> run (k y) w)"
  "run (case p of (a, c) \<Rightarrow> q a c) w = (case p of (a, c) \<Rightarrow> run (q a c) w)"
  "run (let y = z in l y) w = run (l z) w"
  "run (when_do b u) w = (if b then run u w else (Inr (), w))"
  for f :: "'y \<Rightarrow> ('w, 'e, 'a) sm"
  by (simp_all add: when_do_def run_def run_defs split: option.split sum.split prod.split)

lemma run_of_wp:
  assumes "\<And>Q E. wp m Q E w = (case r of (x, v) \<Rightarrow> (case x of Inl e \<Rightarrow> E e v | Inr y \<Rightarrow> Q y v))"
  shows "run m w = r"
proof -
  have "wp m (\<lambda>y v. (Inr y, v) = r) (\<lambda>e v. (Inl e, v) = r) w"
    unfolding assms by (simp split: prod.split sum.split)
  then show ?thesis by (simp add: run_def wp_def split: prod.splits sum.splits)
qed

lemma run_store [runs]:
  "run (read_artifact t p) w = ((if path_ok t p then (case file_at w t p of None \<Rightarrow> Inl ArtifactNotFound | Some b \<Rightarrow> Inr b)
     else Inl PathError), w)"
  "run (artifact_exists t p) w = ((if path_ok t p then Inr (file_at w t p \<noteq> None) else Inl PathError), w)"
  "run (read_json t p) w = ((if path_ok t p then (case file_at w t p of None \<Rightarrow> Inl ArtifactNotFound | Some b \<Rightarrow> parse_object b)
     else Inl PathError), w)"
  "run (read_transaction_json t) w = ((if is_valid_transaction_id t
     then (case file_at w t ''transaction.json'' of None \<Rightarrow> Inl ArtifactNotFound | Some b \<Rightarrow> parse_object b)
     else Inl PathError), w)"
  "run (write_json t p ob) w = (if path_ok t p then (Inr (), put_file t p (Json (JObj ob)) w) else (Inl PathError, w))"
  "run (write_bytes rt t p b) w = (if blob_size rt b > MAX_ARTIFACT_BYTES then (Inl StorageError, w)
     else if path_ok t p then (Inr (), put_file t p b w) else (Inl PathError, w))"
  "run (remove_artifact t p) w = (if path_ok t p then (Inr (), del_file t p w) else (Inl PathError, w))"
  "run (write_artifact rt t k b c) w = (if blob_size rt b > MAX_ARTIFACT_BYTES then (Inl StorageError, w)
     else if is_valid_transaction_id t then
       (Inr \<lparr>ref_transaction_id = t, ref_artifact_type = k, ref_relative_path = ARTIFACT_RELATIVE_PATHS k,
           ref_content_type = c, ref_size_bytes = blob_size rt b, ref_sha256 = sha_blob rt b\<rparr>,
         put_file t (ARTIFACT_RELATIVE_PATHS k) b w)
     else (Inl PathError, w))"
  "run (transaction_exists t) w = ((if is_valid_transaction_id t then Inr (txs w t \<noteq> None) else Inl PathError), w)"
  by (rule run_of_wp; simp add: wp_simps split: option.splits sum.splits)+

lemma run_lock [runs]:
  "run (lock_transaction t m) w = (if is_valid_transaction_id t then run m (make_dir t w) else (Inl PathError, w))"
  by (simp add: lock_transaction_def transaction_dir_def run_def run_defs split: prod.split sum.split)

lemma run_state [runs]:
  "run (draw_token rt) w = (Inr (opaque_token rt (rng w)), w\<lparr>rng := Suc (rng w)\<rparr>)"
  "run (record_metric x) w = (Inr (), w\<lparr>metrics := metrics w @ [x]\<rparr>)"
  "run (getitem ob k) w = ((case jget ob k of None \<Rightarrow> Inl KeyErr | Some v \<Rightarrow> Inr v), w)"
  "run (need_str rt v) w = ((case str_text rt v of None \<Rightarrow> Inl TypeErr | Some s \<Rightarrow> Inr s), w)"
  "run (get_browser_session h) w = (index_read (session_ix w h), w)"
  "run (delete_browser_session h) w = (Inr (), drop_session h w)"
  by (rule run_of_wp; simp add: wp_simps split: option.splits sum.splits)+

lemma run_update [runs]:
  "run (update_transaction_status rt t s) w = (if is_valid_transaction_id t
     then (case file_at w t ''transaction.json'' of None \<Rightarrow> (Inl ArtifactNotFound, w)
       | Some b \<Rightarrow> (case parse_object b of Inl e \<Rightarrow> (Inl e, w)
         | Inr md \<Rightarrow> if is_terminal (metadata_status rt md) \<and> \<not> is_terminal (status_from_value s) then (Inr (), w)
            else (Inr (), put_file t ''transaction.json''
              (Json (JObj (jput ''updated_at'' (JTime (clock w)) (jput ''status'' (JStr s) md)))) w)))
     else (Inl PathError, w))"
  by (rule run_of_wp) (auto simp: wp_simps split: option.splits sum.splits)

lemma run_invalidate [runs]:
  "run (invalidate_authorization t) w = (if is_valid_transaction_id t
     then (Inr (), drop_files t AUTHORIZATION_ARTIFACTS w) else (Inl PathError, w))"
  by (rule run_of_wp; simp add: wp_simps)

text \<open>The reads that have a view of their own.\<close>

lemma run_views [runs]:
  "run (current_capture_key rt t) w = ((if is_valid_transaction_id t then Inr (capture_key_of rt w t) else Inl PathError), w)"
  "run (expected_liveness_identity rt t) w = ((if is_valid_transaction_id t
     then Inr (map_option (\<lambda>(a, s). liveness_identity rt (Some a) s) (capture_key_of rt w t)) else Inl PathError), w)"
  "run (read_decision t) w = ((if is_valid_transaction_id t then Inr (decision_of w t) else Inl PathError), w)"
  "run (has_current_canonical_pass rt t) w = ((if is_valid_transaction_id t then current_pass rt w t else Inl PathError), w)"
  "run (portrait_authorization_current rt t) w
     = ((if is_valid_transaction_id t then authorization_of rt w t else Inl PathError), w)"
  by (rule run_of_wp; simp add: wp_simps split: sum.splits)+

lemma run_writes [runs]:
  "run (write_decision t d) w = (if is_valid_transaction_id t
     then (Inr (), put_file t DECISION_RELATIVE_PATH (Json (JObj (encode_decision d))) w) else (Inl PathError, w))"
  "run (clear_claim t i p) w = (Inr (), if path_ok t (claim_path_for i p) then del_file t (claim_path_for i p) w else w)"
  "run (safe_remove t p) w = (Inr (), if path_ok t p then del_file t p w else w)"
  by (rule run_of_wp; simp add: wp_simps drop_claim_def)+

lemmas run_ops = run_control run_branches run_store run_lock run_state run_update run_invalidate run_views run_writes

lemma run_unfold: "m = n \<Longrightarrow> run m w = run n w"
  by simp

end
