(* ===== verification/Sample_Image.thy ===== *)
theory Sample_Image
  imports Portrait_Properties
begin
lemma fl_ints: "fl 1 = 1" "fl 2 = 2" "fl32 255 = 255"
  using round_to_small_nat[of 1 53] round_to_small_nat[of 2 53] round_to_small_nat[of 255 24] by (simp_all add: fl_def fl32_def)

lemma fl_half: "fl (1 / 2) = 1 / 2"
proof -
  have q: "quotient_of (1 / 2) = (1, 2)" by code_simp
  have r: "round_half_even 4503599627370496 = 4503599627370496" using round_half_even_int[of 4503599627370496] by simp
  have "bit_count 2 = 2" "bit_count (Suc 0) = 1" by (simp_all add: bit_count.simps)
  then show ?thesis by (simp add: fl_def round_to_def q pow2_def r)
qed

definition white_pair :: rgb_image where
  "white_pair = \<lparr>ri_width = 2, ri_height = 1, ri_pixels = [[(0, 0, 0), (0, 0, 0)]]\<rparr>"

lemma pair_components: "connected_component_mask [[True, True]] (0, 1) = [[True, True]]" by code_simp

lemma round_ints: "round_half_even 2 = 2" "round_half_even 0 = 0" "round_half_even 1 = 1"
  using round_half_even_int[of 2] round_half_even_int[of 0] round_half_even_int[of 1] by simp_all

lemma face_region: "face_roi_px (0, 0, 1, 1) 2 1 = (0, 0, 2, 1)"
  by (simp add: face_roi_px_def fl_ints clip_roi_def round_ints)

lemma head_region: "head_roi_px (0, 0, 1, 1) 2 1 = (0, 0, 1, 1) \<or> head_roi_px (0, 0, 1, 1) 2 1 = (0, 0, 2, 1)"
proof -
  have pos: "0 \<le> HEAD_EXPAND_X" "0 \<le> HEAD_EXPAND_TOP" "0 \<le> HEAD_EXPAND_BOTTOM"
    by (simp_all add: HEAD_EXPAND_X_def HEAD_EXPAND_TOP_def HEAD_EXPAND_BOTTOM_def fl_nonneg)
  have lo: "round_half_even (fl (fl (- fl r) * k)) \<le> 0" if "0 \<le> r" "0 \<le> k" for r k
  proof -
    have "fl (- fl r) \<le> 0" by (rule fl_nonpos) (simp add: fl_nonneg that)
    then have "fl (fl (- fl r) * k) \<le> 0" using that by (intro fl_nonpos) (simp add: mult_nonpos_nonneg)
    then show ?thesis using round_half_even_mono round_ints(2) by metis
  qed
  have hi: "1 \<le> round_half_even (fl (fl (1 + fl r) * k))" if "0 \<le> r" "1 \<le> k" for r k
  proof -
    have "1 \<le> fl (1 + fl r)" by (rule fl_ge_1) (simp add: fl_nonneg that)
    then have "1 \<le> fl (1 + fl r) * k" using that mult_mono[of 1 "fl (1 + fl r)" 1 k] by simp
    then show ?thesis using round_half_even_mono[OF fl_ge_1] round_ints(3) by metis
  qed
  show ?thesis
    using lo[OF pos(1), of 2] lo[OF pos(2), of 1] hi[OF pos(1), of 2] hi[OF pos(3), of 1]
    by (auto simp: head_roi_px_def fl_ints clip_roi_def Let_def max_def min_def)
qed

lemma all_ratio: "count_true bs = length bs \<Longrightarrow> bs \<noteq> [] \<Longrightarrow> ratio (count_true bs) (length bs) = 1"
  by (simp add: ratio_def fl_ints)

lemma pair_cells: "cells [[True, True]] (0, 0, 2, 1) = [True, True]" "cells [[True, True]] (0, 0, 1, 1) = [True]"
  "cells [[True, True]] (1, 0, 2, 1) = [True]" by code_simp+

lemma thresholds_le: "MIN_FACE_RETENTION \<le> 1" "MIN_HEAD_RETENTION \<le> 1" "MIN_LEFT_RIGHT_BALANCE \<le> 1" "MIN_COMPONENT_FACE_OVERLAP \<le> 1"
  by (simp_all add: MIN_FACE_RETENTION_def MIN_HEAD_RETENTION_def MIN_LEFT_RIGHT_BALANCE_def MIN_COMPONENT_FACE_OVERLAP_def fl_le_1)

lemma pair_ratio: "ratio 2 2 = 1" "ratio 1 1 = 1" "ratio (Suc 0) (Suc 0) = 1" "ratio (Suc (Suc 0)) (Suc (Suc 0)) = 1"
 by (simp_all add: ratio_def fl_ints)

lemma pair_gate: "mi_ok (validate_portrait_matte [[1, 1]] (Some (0, 0, 1, 1)))"
  using thresholds_le head_region by (auto simp add: validate_portrait_matte_def map_grid_def grid_height_def grid_width_def face_region retention_def pair_cells
     Let_def FOREGROUND_THRESHOLD_def count_true_def pair_ratio balance_def fl_ints component_face_overlap_def pick_seed_def pair_components)

lemma support_low: "SUPPORT_THRESHOLD < 1"
proof -
  have q: "quotient_of (7 / 20) = (7, 20)" by code_simp
  have "bit_count 7 = 3" "bit_count 20 = 5" by (simp_all add: bit_count.simps)
  moreover have f: "\<lfloor>58720256 / 5 :: rat\<rfloor> = 11744051" by (rule floor_unique) simp_all
  moreover have "round_half_even (58720256 / 5) = 11744051" by (simp add: round_half_even_def Let_def f)
  ultimately show ?thesis apply (simp add: SUPPORT_THRESHOLD_def fl32_def round_to_def q pow2_def)
  done
qed

lemma pair_refined: "refine_matte [[1, 1]] (Some (0, 0, 1, 1)) = Inr [[1, 1]]"
proof -
  have seed: "\<lfloor>1 / 2 :: rat\<rfloor> = 0" by (rule floor_unique) simp_all
  have "BODY_REINFORCE_ALPHA \<le> 1" by (simp add: BODY_REINFORCE_ALPHA_def fl32_def round_to_le_1)
  then have "refine_cells [[1, 1]] [[True, True]] 0 = [[1, 1]]"
    by (simp add: refine_cells_def tabulate_def grid_height_def grid_width_def)
  then show ?thesis
    using thresholds_le support_low
    by (simp add: refine_matte_def from_end_def Let_def map_grid_def grid_height_def grid_width_def seed_point_def fl_ints fl_half py_trunc_def
      component_covers_face_def face_region pair_components pair_cells count_true_def pair_ratio seed)
qed

lemma pair_resolved: "resolve_matte [[1, 1]] white_pair (Some (0, 0, 1, 1)) = Inr [[1, 1]]"
  using pair_gate by (simp add: resolve_matte_def pair_refined sum_bind_def white_pair_def grid_height_def grid_width_def Let_def)

definition pair_imaging :: imaging where
  "pair_imaging = \<lparr>pil_decode = (\<lambda>_. Some white_pair), gaussian_blur = (\<lambda>g. g),
     jpeg_encode = (\<lambda>_ _. Bin jpeg_signature), model_file = (\<lambda>_. None), onnx_session = (\<lambda>_ _. Inl ValueErr)\<rparr>"

definition pair_segmentation :: segmentation where
  "pair_segmentation = \<lparr>sg_name = ''m'', sg_sha256 = ''h'', sg_predict = (\<lambda>_. Inr [[1, 1]])\<rparr>"

lemma pair_refine_alpha_by: "gaussian_blur im = (\<lambda>g. g) \<Longrightarrow> refine_alpha im [[1, 1]] = [[1, 1]]"
  by (simp add: refine_alpha_def map_grid_def to_byte_def clip_unit_def fl_ints py_trunc_def)

lemma crop_grid_height: "grid_height (crop_grid g c) = grid_height (crop_grid h c)" if "length g = length h"
  using that by (simp add: grid_height_def crop_grid_def)

lemma pair_foreground: "foreground_bbox [[1, 1]] = Inr (0, 0, 2, 1)" by code_simp

lemma pair_cropped: "\<exists>c. passport_crop [[1, 1]] (2, 1) (Some (0, 0, 1, 1)) = Inr c"
  by (simp add: passport_crop_def pair_foreground split: prod.splits)

lemma pair_background: "parse_background_color ''#FFFFFF'' = Inr (255, 255, 255)" by code_simp

lemma pair_composed_by:
  assumes "portrait_background_color s = ''#FFFFFF''" and "pil_decode im = (\<lambda>b. Some white_pair)"
    and "gaussian_blur im = (\<lambda>g. g)" and "sg_predict seg white_pair = Inr [[1, 1]]"
  shows "\<exists>x c. compose_portrait im s (Inr seg) b (Some (0, 0, 1, 1)) = Inr (x, c)"
proof -
  obtain c where c: "passport_crop [[1, 1]] (2, 1) (Some (0, 0, 1, 1)) = Inr c" using pair_cropped by blast
  have same: "grid_width (crop_grid (ri_pixels white_pair) c) = grid_width (crop_grid [[1, 1 :: rat]] c)"
     "grid_height (crop_grid (ri_pixels white_pair) c) = grid_height (crop_grid [[1, 1 :: rat]] c)"
    by (simp_all add: crop_grid_def grid_width_def grid_height_def white_pair_def take_Cons' drop_Cons')
  have "ri_width white_pair = 2" "ri_height white_pair = 1" by (simp_all add: white_pair_def)
  then show ?thesis
    by (simp add: compose_portrait_def decode_image_def sum_bind_def pair_resolved pair_refine_alpha_by c
      pair_background assms same)
qed

lemma pair_composed:
  assumes "portrait_background_color s = ''#FFFFFF''"
  shows "\<exists>x c. compose_portrait pair_imaging s (segmentation_provider rt pair_imaging s (Some pair_segmentation)) b (Some (0, 0, 1, 1)) = Inr (x, c)"
  using pair_composed_by[OF assms, of pair_imaging pair_segmentation]
  by (simp add: segmentation_provider_def pair_imaging_def pair_segmentation_def)

end
