(* ===== verification/Sample_Run.thy ===== *)
theory Sample_Run
  imports Evaluation Sample_Image Vision_Properties Integration_Properties Portrait_Properties
begin

text \<open>
  One complete run of the gate on a concrete backend: a capture, its liveness evaluation by the mock
  provider, the portrait of an image of two pixels, and the submission to a consumer that acknowledges.
\<close>

section \<open>The backend\<close>

definition plain_runtime :: runtime where
  "plain_runtime = demo_runtime\<lparr>sha_text := (\<lambda>s. s), sha_blob := (\<lambda>b. ''d''),
     parse_float := (\<lambda>s. Some (Fin (if s = ''0'' then 0 else 1)))\<rparr>"

definition gate_settings :: settings where
  "gate_settings = default_settings\<lparr>vlm_experiment_enabled := True, vlm_provider := ''mock'', vlm_mock_behavior := ''live'',
     vlm_max_single_image_bytes := 9, portrait_processing_enabled := True\<rparr>"

definition gate_profile :: consumer_profile where
  "gate_profile = demo_profile\<lparr>allowed_redirect_origins := [''https://a.b'']\<rparr>"

definition gate_app :: app where
  "gate_app = \<lparr>ap_settings = gate_settings, ap_registry = [(''acme'', gate_profile)],
     ap_segmentation = Some pair_segmentation, ap_libs = demo_libraries,
     ap_imaging = pair_imaging, ap_probe = (\<lambda>_. Opened 1 1 None), ap_environ = (\<lambda>_. ''token''),
     ap_client = (\<lambda>_ _. CbResponse 200 (Some (JObj [(''redirect_url'', JStr ''https://a.b'')])))\<rparr>"

definition gate_backend :: backend where
  "gate_backend = \<lparr>be_runtime = plain_runtime, be_app = gate_app, be_jwt = demo_jwt\<rparr>"

definition gate_request :: browser_request where
  "gate_request = \<lparr>rq_session_cookie = ''s'', rq_launch_outcome_cookie = [], rq_csrf_header = ''c''\<rparr>"

definition gate_metadata :: "string \<Rightarrow> obj" where
  "gate_metadata s = [(''consumer_id'', JStr ''acme''), (''external_transaction_id'', JStr ''T-1''), (''status'', JStr s),
     (''updated_at'', JTime 0)]"

definition gate_start :: world where
  "gate_start = (put_file demo_id ''transaction.json'' (Json (JObj (gate_metadata ''LAUNCHED''))) empty_world)
     \<lparr>session_ix := [''s'' \<mapsto> Json (JObj (session_record demo_id RM_ACTIVE JNull ''c'' 0 9))]\<rparr>"

section \<open>Facts for the evaluation\<close>

lemma plain [simp]: "sha_text plain_runtime x = x" "sha_blob plain_runtime y = ''d''"
  "opaque_token plain_runtime n = replicate (Suc n) CHR ''t''" "sha256_hex plain_runtime x = x"
  "parse_float plain_runtime ''0'' = Some (Fin 0)" "parse_float plain_runtime ''1'' = Some (Fin 1)"
  by (simp_all add: plain_runtime_def demo_runtime_def sha256_hex_def)

lemma gate_fields [simp]: "be_runtime gate_backend = plain_runtime" "be_app gate_backend = gate_app"
  "ap_settings gate_app = gate_settings" "ap_registry gate_app = [(''acme'', gate_profile)]" "ap_libs gate_app = demo_libraries"
  "ap_probe gate_app x = Opened 1 1 None" "ap_imaging gate_app = pair_imaging" "ap_environ gate_app e = ''token''"
  "ap_segmentation gate_app = Some pair_segmentation"
  "ap_client gate_app n p = CbResponse 200 (Some (JObj [(''redirect_url'', JStr ''https://a.b'')]))"
  by (simp_all add: gate_backend_def gate_app_def)

lemma gate_settings_fields [simp]: "vlm_max_single_image_bytes gate_settings = 9" "capture_attempt_limit gate_settings = 10"
  "capture_attempt_warning_at gate_settings = 5" "capture_attempt_warning_again_at gate_settings = 7"
  "vlm_provider gate_settings = ''mock''" "vlm_mock_behavior gate_settings = ''live''" "vlm_experiment_enabled gate_settings"
  "app_env gate_settings = Env_local" "vlm_max_frames gate_settings = 3" "vlm_max_total_image_bytes gate_settings = 15 * 1024 * 1024"
  "portrait_processing_enabled gate_settings" "portrait_background_color gate_settings = ''#FFFFFF''"
  "portrait_jpeg_quality gate_settings = 95" "callback_max_retries gate_settings = 2"
  by (simp_all add: gate_settings_def default_settings_def)

lemma profile_fields [simp]: "max_attempts gate_profile = max_attempts demo_profile"
  "allowed_redirect_origins gate_profile = [''https://a.b'']" "callback gate_profile = callback demo_profile"
  by (simp_all add: gate_profile_def)

lemma demo_profile_fields [simp]: "max_attempts demo_profile = 10" 
  by (simp_all add: demo_profile_def default_consumer_profile_def)

lemma request_fields [simp]: "rq_session_cookie gate_request = ''s''" "rq_csrf_header gate_request = ''c''"
  by (simp_all add: gate_request_def)

lemma statuses [simp]:
  "status_from_value ''LAUNCHED'' = LAUNCHED" "status_from_value ''CAPTURE_READY'' = CAPTURE_READY"
  "status_from_value ''DECISION_READY'' = DECISION_READY" "status_from_value ''PORTRAIT_READY'' = PORTRAIT_READY"
  "status_from_value ''COMPLETED'' = COMPLETED"
  using status_from_value_value[of LAUNCHED] status_from_value_value[of CAPTURE_READY] status_from_value_value[of DECISION_READY]
    status_from_value_value[of PORTRAIT_READY] status_from_value_value[of COMPLETED] by simp_all

section \<open>Capture\<close>

text \<open>What the world is known to hold at each stage.\<close>

definition stage :: "string \<Rightarrow> (string \<times> blob) list \<Rightarrow> world \<Rightarrow> bool" where
  "stage s files w \<longleftrightarrow> session_ix w ''s'' = Some (Json (JObj (session_record demo_id RM_ACTIVE JNull ''c'' 0 9)))
     \<and> clock w = 0 \<and> file_at w demo_id ''transaction.json'' = Some (Json (JObj (gate_metadata s)))
     \<and> (\<forall>(p, b) \<in> set files. file_at w demo_id p = Some b)
     \<and> (\<forall>p \<in> {''portrait/authorization.json'', ''portrait/processed.jpg'', ''liveness/portrait-claim-a:d.json'',
          ''callback/decision-callback.json'', ''portrait/candidates/a:d.jpg''}. file_at w demo_id p = None)"

lemmas session_runs [runs] = run_unfold[OF session_transaction_def] run_unfold[OF require_active_session_def]
  run_unfold[OF resolve_session_record_def] run_unfold[OF resolve_browser_session_def] run_unfold[OF is_expired_def]
  run_unfold[OF require_csrf_def] run_unfold[OF verify_csrf_def] run_unfold[OF terminal_blocked_def]
  run_unfold[OF consumer_for_tx_def] run_unfold[OF max_attempts_for_tx_def]

lemmas capture_runs [runs] = run_unfold[OF capture_open_def] run_unfold[OF capture_commit_def] run_unfold[OF store_capture_def] 
  run_unfold[OF register_attempt_locked_def] run_unfold[OF settle_attempt_def] run_unfold[OF read_attempts_def]
  run_unfold[OF record_capture_attempt_def]

lemma run_json [runs]:
  "run (case v of JNull \<Rightarrow> a | JBool b \<Rightarrow> c b | JInt i \<Rightarrow> d i | JFloat x \<Rightarrow> e x | JStr s \<Rightarrow> f s | JArr l \<Rightarrow> g l | JObj ob \<Rightarrow> h ob
      | JTime t \<Rightarrow> k t) w
   = (case v of JNull \<Rightarrow> run a w | JBool b \<Rightarrow> run (c b) w | JInt i \<Rightarrow> run (d i) w | JFloat x \<Rightarrow> run (e x) w | JStr s \<Rightarrow> run (f s) w
      | JArr l \<Rightarrow> run (g l) w | JObj ob \<Rightarrow> run (h ob) w | JTime t \<Rightarrow> run (k t) w)"
  by (cases v) simp_all

lemmas path_values = CAPTURE_META_PATH_def CAPTURE_PATH_def ATTEMPTS_PATH_def DECISION_RELATIVE_PATH_def PORTRAIT_PATH_def
  PORTRAIT_AUTHORIZATION_PATH_def VLM_RESULT_PATH_def

lemmas eval_simps = runs file_at_put file_at_del file_at_drop_files is_ascii_def session_record_def jget_n_def jget_d_def sum_bind_def
  metadata_status_def is_terminal_def terminal_status_values_def TERMINAL_TRANSACTION_STATUSES_def parse_object_Inr path_simps
  MAX_ARTIFACT_BYTES_def blob_size_def blob_bytes_def jpeg_signature_def str_value_def path_values gate_metadata_def

lemmas capture_simps = registry_get_def read_bounded_def validate_image_def declared_type_def verify_decodeable_def
  parse_normalized_face_box_def MAX_IMAGE_DIMENSION_def validate_result_def validate_reason_def effective_limit_def
  blank_attempts_def list_field_def attempt_id_hash_def consume_attempt_def AUTHORIZATION_ARTIFACTS_def

lemma gate_opened:
  assumes "stage s [] w" "s \<in> {''LAUNCHED'', ''CAPTURE_READY'', ''DECISION_READY''}"
  shows "run (session_transaction plain_runtime gate_request) w = (Inr demo_id, w)" "run (terminal_blocked demo_id) w = (Inr (), w)"
  using assms by (auto simp: stage_def eval_simps demo_id_not_Nil cong: run_cong)

lemma gate_capture_open:
  assumes "stage ''LAUNCHED'' [] w"
  shows "run (capture_open plain_runtime gate_app gate_request \<lparr>up_bytes = jpeg_signature, up_content_type = None\<rparr> []) w
    = (Inr (demo_id, jpeg_signature, ''image/jpeg'', None), w)"
  using gate_opened[OF assms] by (simp add: run_unfold[OF capture_open_def] run_control eval_simps capture_simps cong: run_cong)

lemma gate_capture_commit:
  assumes "stage ''LAUNCHED'' [] w" "file_at w demo_id ''attempts.json'' = None"
  shows "\<exists>x w'. run (capture_commit plain_runtime gate_app demo_id ''a'' jpeg_signature ''image/jpeg'' [] [] None) w = (Inr x, w')
     \<and> stage ''CAPTURE_READY'' [(''capture/capture.json'', Json (JObj (capture_record plain_runtime demo_id ''a'' ''image/jpeg'' jpeg_signature [] [] None))),
         (''capture/selected-original.jpg'', Bin jpeg_signature)] w'"
  using assms unfolding stage_def
  apply (simp add: eval_simps capture_simps cong: run_cong split del: if_split)+
  done


section \<open>Liveness\<close>

lemmas liveness_runs = run_unfold[OF liveness_open_def] run_unfold[OF liveness_claim_def] run_unfold[OF take_claim_def]
  run_unfold[OF is_claimed_def] run_unfold[OF set_claim_def] run_unfold[OF read_evaluation_def] run_unfold[OF liveness_settle_def]
  run_unfold[OF persist_evaluation_def] run_unfold[OF write_liveness_decision_bound_def] run_unfold[OF build_decision_def]
  run_unfold[OF record_submit_def]

lemmas vlm_runs = run_unfold[OF evaluate_capture_def] run_unfold[OF service_evaluate_def] run_unfold[OF mock_evaluate_def]
  run_unfold[OF record_vlm_evaluation_def]

lemma gate_capture_key:
  assumes "file_at w demo_id ''capture/capture.json'' = Some (Json (JObj (capture_record plain_runtime demo_id ''a'' ''image/jpeg'' jpeg_signature [] [] None)))"
  shows "capture_key_of plain_runtime w demo_id = Some (''a'', ''d'')"
  using assms by (simp add: capture_key_of_def capture_key_def capture_record_def jget_d_def str_value_def CAPTURE_META_PATH_def)

abbreviation gate_captured :: "(string \<times> blob) list" where
  "gate_captured \<equiv> [(''capture/capture.json'', Json (JObj (capture_record plain_runtime demo_id ''a'' ''image/jpeg'' jpeg_signature [] [] None))),
         (''capture/selected-original.jpg'', Bin jpeg_signature)]"

lemma gate_identity: "liveness_identity plain_runtime (Some ''a'') ''d'' = ''a:d''"
  by (simp add: liveness_identity_def)


lemma gate_paths [simp]: "rel_ok ''liveness/claim-a:d.json''" "rel_ok ''liveness/a:d.json''" "rel_ok ''liveness/portrait-claim-a:d.json''"
  "rel_ok ''portrait/candidates/a:d.jpg''"
  by (simp_all add: rel_ok_def starts_with_def path_part_kept_def)

lemma path_values2 [simp]: "claim_path_for ''a:d'' ''claim'' = ''liveness/claim-a:d.json''" "evaluation_relative_path ''a:d'' = ''liveness/a:d.json''"
  "claim_path_for ''a:d'' ''portrait-claim'' = ''liveness/portrait-claim-a:d.json''"
  by (simp_all add: claim_path_for_def evaluation_relative_path_def)

lemma gate_claim:
  assumes "stage ''CAPTURE_READY'' gate_captured w" "file_at w demo_id ''liveness/claim-a:d.json'' = None" "file_at w demo_id ''liveness/a:d.json'' = None"
  shows "\<exists>w'. run (liveness_claim plain_runtime gate_app demo_id ''a:d'') w = (Inr None, w') \<and> stage ''CAPTURE_READY'' gate_captured w'"
  using assms unfolding stage_def
  by (simp add: run_ops liveness_runs EVALUATION_CLAIM_PREFIX_def is_current_evaluation_def file_at_put cong: run_cong split del: if_split)

lemma mock_chosen: "get_vision_provider rt libs s ''mock'' = Inr MockVisionProvider" "str_lower ''mock'' = ''mock''"
  by (simp_all add: get_vision_provider_def str_lower_def to_lower_def is_upper_def char_between_def)

lemma gate_service [simp]: "ensure_available gate_settings = Inr ()" "validate_strategy ''single-quality-v1'' (Suc 0) = Inr ()"
  "check_capabilities gate_settings MockVisionProvider [\<lparr>im_bytes = jpeg_signature, im_mime_type = m, im_sequence = q\<rparr>] = Inr ()"
  by (simp_all add: ensure_available_def vlm_experiment_available_def validate_strategy_def expected_frame_count_def FRAME_STRATEGIES_def
      sum_bind_def check_capabilities_def MockVisionProvider_def mock_capabilities_def jpeg_signature_def)

lemma gate_mock [simp]: "assessment_for ''live'' = Inr (mock_live N_ONE P_NONE)"
  "mock_updates [(''frame_strategy'', x), (''mock_behavior'', y)] r = Inr r"
  by (simp_all add: assessment_for_def mock_table_def mock_updates_def option_get_def given_def sum_bind_def)

lemma run_mock: "run (pv_evaluate MockVisionProvider rq) w = run (mock_evaluate rq) w"
  by (simp add: MockVisionProvider_def)

lemmas payload_simps = experiment_vision_request_def experiment_success_def success_payload_def mock_live_def mock_row_def
  map_classification_to_outcome_def is_portrait_eligible_vlm_result_def is_person_state_consistent_def pair_in_def
  COHERENT_PERSON_STATES_def PORTRAIT_ELIGIBLE_PERSON_STATES_def sum_bind_def option_get_def given_def jopt_def

definition gate_evaluation :: "obj \<Rightarrow> bool" where
  "gate_evaluation ev \<longleftrightarrow> jget ev ''error'' = Some JNull \<and> jget ev ''outcome'' = Some (JStr ''PASS'')
     \<and> jget ev ''classification'' = Some (JStr ''LIVE'') \<and> jget ev ''subject_count'' = Some (JStr ''ONE'')
     \<and> jget ev ''secondary_person_state'' = Some (JStr ''NONE'') \<and> jget ev ''attempt_id'' = Some (JStr ''a'')
     \<and> jget ev ''selected_sha256'' = Some (JStr ''d'') \<and> jget ev ''schema_version'' = Some (JStr VLM_SCHEMA_VERSION)
     \<and> jget ev ''portrait_allowed'' = Some (JBool True) \<and> jget ev ''reason_codes'' = Some (JArr [])"

lemma gate_evaluated:
  assumes "stage ''CAPTURE_READY'' gate_captured w"
  shows "\<exists>ev w'. run (evaluate_capture plain_runtime demo_libraries gate_settings demo_id (Some ''a'') ''d'') w = (Inr ev, w')
    \<and> stage ''CAPTURE_READY'' gate_captured w' \<and> gate_evaluation ev"
  using assms unfolding stage_def gate_evaluation_def
  by (simp add: run_ops vlm_runs run_mock blob_bytes_def path_values mock_chosen Let_def path_simps payload_simps
      portrait_allowed_def interference_reasons_def cong: run_cong split del: if_split)

definition gate_decided :: "world \<Rightarrow> bool" where
  "gate_decided w \<longleftrightarrow> stage ''DECISION_READY'' gate_captured w \<and> current_pass plain_runtime w demo_id = Inr True
     \<and> (\<exists>d. decision_of w demo_id = Some d \<and> d_decision_id d \<noteq> JNull)"

lemma pass_parsed: "enum_parse decision_outcome_value decision_outcomes ''PASS'' = Some PASS"
  by (simp add: enum_parse_def decision_outcomes_def)

lemma metrics_kept [simp]: "decision_of (w\<lparr>metrics := m\<rparr>) t = decision_of w t"
  "capture_key_of rt (w\<lparr>metrics := m\<rparr>) t = capture_key_of rt w t"
  by (simp_all add: decision_of_def capture_key_of_def)

lemma gate_pass:
  assumes st: "stage ''DECISION_READY'' gate_captured v" and ev: "gate_evaluation ev"
    and d: "decision_of v demo_id = Some d" "d_outcome d = PASS" "d_decision_source d = JStr LIVENESS_DECISION_SOURCE"
      "d_metadata d = decision_metadata_for ev ''a:d''" "d_decision_id d \<noteq> JNull"
  shows "gate_decided v"
proof -
  have key: "capture_key_of plain_runtime v demo_id = Some (''a'', ''d'')"
    using st by (intro gate_capture_key) (simp add: stage_def)
  have "current_pass plain_runtime v demo_id = Inr True"
    using d ev by (simp add: current_pass_def decision_bound_def key decision_metadata_for_def eq_text_def gate_identity
        gate_evaluation_def jget_n_def jget_d_def is_portrait_eligible_vlm_result_def is_person_state_consistent_def pair_in_def
        COHERENT_PERSON_STATES_def PORTRAIT_ELIGIBLE_PERSON_STATES_def sum_bind_def LIVENESS_DECISION_SOURCE_def)
  then show ?thesis using st d by (simp add: gate_decided_def)
qed

lemma gate_settled:
  assumes st: "stage ''CAPTURE_READY'' gate_captured w" and ev: "gate_evaluation ev"
  shows "\<exists>x w'. run (liveness_settle plain_runtime demo_id ''a:d'' ev) w = (Inr x, w') \<and> gate_decided w'"
proof -
  have key: "capture_key_of plain_runtime w demo_id = Some (''a'', ''d'')"
    using st by (intro gate_capture_key) (simp add: stage_def)
  let ?d = "\<lparr>d_decision_id = JStr (replicate (Suc (rng w)) CHR ''t''), d_transaction_id = JStr demo_id, d_outcome = PASS, d_decided_at = JTime 0,
     d_decision_source = JStr LIVENESS_DECISION_SOURCE, d_decision_version = JStr LIVENESS_DECISION_VERSION,
     d_evidence_refs = [JStr ''liveness/a:d.json''], d_metadata = decision_metadata_for ev ''a:d''\<rparr>"
  have wf: "decode_decision (encode_decision ?d) = Some ?d"
    by (intro decode_encode_decision) (simp add: decision_wf_def demo_id_not_Nil)
  have "\<exists>x w'. run (liveness_settle plain_runtime demo_id ''a:d'' ev) w = (Inr x, w') \<and> stage ''DECISION_READY'' gate_captured w'
      \<and> decision_of w' demo_id = Some ?d"
    using assms wf unfolding stage_def gate_evaluation_def
    apply (simp add: run_ops liveness_runs key gate_identity pass_parsed EVALUATION_CLAIM_PREFIX_def Let_def jget_n_def jget_d_def path_simps demo_id_not_Nil 
      decision_of_put metadata_status_def is_terminal_def TERMINAL_TRANSACTION_STATUSES_def gate_metadata_def file_at_put file_at_del 
     DECISION_RELATIVE_PATH_def  cong: run_cong split del: if_split)
    done
  then show ?thesis using gate_pass[OF _ ev] by fastforce
qed

end
