(* ===== verification/Submit_Progress.thy ===== *)
theory Submit_Progress
  imports Evaluation
begin

text \<open>
  The submission gets there: with an authorized portrait, a consumer that acknowledges with an allowed
  redirect, and nothing acknowledged before, it completes the transaction.
\<close>

lemma revoke_keeps_files:
  assumes "is_valid_transaction_id t"
  shows "\<exists>v. run (revoke_after_completion rt t) w = (Inr (), v) \<and> outbox v = outbox w \<and> (\<forall>u p. file_at v u p = file_at w u p)"
proof -
  have "wp (revoke_after_completion rt t) (\<lambda>_ v. outbox v = outbox w \<and> (\<forall>u p. file_at v u p = file_at w u p)) (\<lambda>_ _. False) w"
    using assms by (auto simp: revoke_after_completion_def wp_simps path_simps drop_session_def split: option.splits sum.splits)
  then show ?thesis by (auto simp: wp_def run_def split: prod.splits sum.splits)
qed

lemma rel_ok_callback [simp]: "rel_ok CALLBACK_STATE_PATH" "CALLBACK_STATE_PATH \<noteq> ''transaction.json''"
  by (simp_all add: CALLBACK_STATE_PATH_def path_simps)

text \<open>The delivery that is acknowledged at once.\<close>

definition delivered :: "string \<Rightarrow> nat \<Rightarrow> callback_delivery" where
  "delivered url code = \<lparr>cd_acknowledged = True, cd_status_code = Some code, cd_redirect_url = Some url, cd_latency_ms = 0\<rparr>"

lemma complete_acknowledged:
  assumes "is_valid_transaction_id t" and "file_at w t ''transaction.json'' = Some (Json (JObj md))"
    and "validate_redirect_url profile url (is_local_env (ap_settings ap))"
  shows "\<exists>w'. run (complete_submission rt ap t e cid profile (delivered url code)) w = (Inr (json_reply 200 [(''redirect_url'', JStr url)]), w')
     \<and> completed rt w' t \<and> outbox w' = outbox w"
proof -
  let ?done = "jput ''updated_at'' (JTime (clock w)) (jput ''status'' (JStr (status_value COMPLETED)) md)"
  define w1 where "w1 = put_file t ''transaction.json'' (Json (JObj ?done))
     (put_file t CALLBACK_STATE_PATH (Json (JObj (acknowledged_state e url (clock w)))) w)"
  obtain w2 where w2: "run (revoke_after_completion rt t) w1 = (Inr (), w2)" "outbox w2 = outbox w1"
    "\<forall>u p. file_at w2 u p = file_at w1 u p"
    using revoke_keeps_files[OF assms(1), of rt w1] by auto
  have w1: "outbox w1 = outbox w" "status_of rt w1 t = Some COMPLETED"
    by (simp_all add: w1_def status_of_def metadata_of_def file_at_put del: status_value.simps)
  have "completed rt (w2\<lparr>metrics := m\<rparr>) t" for m
    using w1(2) w2(3) by (simp add: completed_def status_of_def metadata_of_def)
  then show ?thesis
    using assms w2(1,2) w1(1)
    apply (simp add: run_ops run_unfold[OF complete_submission_def] run_unfold[OF write_callback_state_def] run_unfold[OF record_callback_def]
      run_unfold[OF record_submit_def] delivered_def path_simps is_terminal_def TERMINAL_TRANSACTION_STATUSES_def
      file_at_put w1_def[symmetric] del: status_value.simps cong: run_cong split del: if_split)
  done
qed

lemma send_acknowledged:
  assumes "jget payload ''event_id'' = Some (JStr e)" and "callback_headers env profile e = Inr hs"
    and "client (length (outbox w)) \<lparr>cp_url = cb_url (callback profile), cp_headers = hs, cp_payload = payload\<rparr> = CbResponse code (Some body)"
    and "200 \<le> code" "code < 300" "body_redirect body = Some url"
  shows "run (send_callback rt env client s profile payload) w
    = (Inr (delivered url code), posted \<lparr>cp_url = cb_url (callback profile), cp_headers = hs, cp_payload = payload\<rparr> 1 w)"
  using assms
  apply (simp add: run_ops run_unfold[OF send_callback_def] Let_def)
  apply (simp add: run_def callback_step callback_again_def callback_verdict_def transient_status_def delivered_def)
  done

text \<open>What the submission needs, and the one callback it then posts.\<close>

definition ready_to_submit :: "runtime \<Rightarrow> app \<Rightarrow> world \<Rightarrow> string \<Rightarrow> obj \<Rightarrow> decision_record \<Rightarrow> blob \<Rightarrow> consumer_profile \<Rightarrow> bool" where
  "ready_to_submit rt ap w t md d portrait profile \<longleftrightarrow> is_valid_transaction_id t
     \<and> file_at w t ''transaction.json'' = Some (Json (JObj md)) \<and> status_str (jget_n md ''status'') \<notin> set terminal_status_values
     \<and> decision_of w t = Some d \<and> authorization_of rt w t = Inr True
     \<and> file_at w t PORTRAIT_PATH = Some portrait \<and> blob_starts_jpeg portrait
     \<and> registry_get (ap_registry ap) (str_value rt (jget_d md ''consumer_id'' (JStr []))) = Some profile
     \<and> file_at w t CALLBACK_STATE_PATH = None"

definition submission_post :: "runtime \<Rightarrow> world \<Rightarrow> obj \<Rightarrow> decision_record \<Rightarrow> blob \<Rightarrow> consumer_profile \<Rightarrow> (string \<times> string) list \<Rightarrow> callback_post" where
  "submission_post rt w md d portrait profile hs =
     (let external = str_value rt (jget_d md ''external_transaction_id'' (JStr []));
          e = build_callback_event_id rt (str_value rt (jget_d md ''consumer_id'' (JStr []))) external in
      \<lparr>cp_url = cb_url (callback profile), cp_headers = hs,
       cp_payload = build_callback_payload rt e external (d_decision_id d) portrait (clock w)\<rparr>)"

lemma submission_completes:
  assumes ready: "ready_to_submit rt ap w t md d portrait profile"
    and headers: "callback_headers (ap_environ ap) profile (build_callback_event_id rt (str_value rt (jget_d md ''consumer_id'' (JStr [])))
        (str_value rt (jget_d md ''external_transaction_id'' (JStr [])))) = Inr hs"
    and answer: "ap_client ap (length (outbox w)) (submission_post rt w md d portrait profile hs) = CbResponse code (Some body)"
      "200 \<le> code" "code < 300" "body_redirect body = Some url"
    and redirect: "validate_redirect_url profile url (is_local_env (ap_settings ap))"
  shows "\<exists>w'. submit_locked rt ap t w = (Inr (json_reply 200 [(''redirect_url'', JStr url)]), w')
     \<and> completed rt w' t \<and> outbox w' = outbox w @ [submission_post rt w md d portrait profile hs]"
proof -
  let ?post = "submission_post rt w md d portrait profile hs"
  let ?cid = "str_value rt (jget_d md ''consumer_id'' (JStr []))"
  let ?ext = "str_value rt (jget_d md ''external_transaction_id'' (JStr []))"
  let ?e = "build_callback_event_id rt ?cid ?ext"
  let ?payload = "build_callback_payload rt ?e ?ext (d_decision_id d) portrait (clock w)"
  have pass: "current_pass rt w t = Inr True"
    using ready by (auto simp: ready_to_submit_def authorization_of_def split: sum.splits bool.splits)
  have jpeg: "blob_bytes rt portrait \<noteq> []"
    using ready by (cases portrait) (auto simp: ready_to_submit_def blob_bytes_def jpeg_signature_def)
  have send: "run (send_callback rt (ap_environ ap) (ap_client ap) (ap_settings ap) profile ?payload) w
      = (Inr (delivered url code), posted ?post 1 w)"
    using send_acknowledged[of ?payload ?e "ap_environ ap" profile hs "ap_client ap" w code body url rt "ap_settings ap"] headers answer
    by (simp add: submission_post_def Let_def build_callback_payload_def)
  have not_done: "status_str (jget_n md ''status'') \<noteq> status_value COMPLETED"
    using ready by (auto simp: ready_to_submit_def terminal_status_values_def TERMINAL_TRANSACTION_STATUSES_def simp del: status_value.simps)
  have "run (submit_locked rt ap t) w = run (complete_submission rt ap t ?e ?cid profile (delivered url code)) (posted ?post 1 w)"
    using ready pass jpeg not_done send unfolding ready_to_submit_def
    by (simp add: run_ops run_unfold[OF submit_locked_def] run_unfold[OF submit_checks_def] run_unfold[OF deliver_def]
       run_unfold[OF read_portrait_with_integrity_def] run_unfold[OF read_callback_state_def] path_simps jget_n_def[of "[]"]
       del: status_value.simps cong: run_cong split del: if_split)
  moreover have "file_at (posted ?post 1 w) t ''transaction.json'' = Some (Json (JObj md))" "is_valid_transaction_id t"
    using ready by (simp_all add: ready_to_submit_def)
  moreover have "outbox (posted ?post 1 w) = outbox w @ [?post]" by (simp add: posted_def)
  ultimately show ?thesis
    using complete_acknowledged[of t "posted ?post 1 w" md profile url ap rt ?e ?cid code] redirect by (auto simp: run_def)
qed

end
