(* ===== verification/Sample_Submission.thy ===== *)
theory Sample_Submission
  imports Sample_Run Submit_Progress
begin

text \<open>
  The second half of the run: the portrait of the evaluated capture, and the submission that the
  consumer acknowledges.
\<close>

section \<open>Portrait\<close>

lemma gate_box: "parse_normalized_face_box plain_runtime (Some ''0,0,1,1'') = Inr (Some (0, 0, 1, 1))"
proof -
  have strip: "str_strip ''0,0,1,1'' = ''0,0,1,1''" by code_simp
  have "1 \<le> fl (1 + FACE_BOX_EPSILON)" by (rule fl_ge_1) (simp add: FACE_BOX_EPSILON_def fl_nonneg)
  moreover have "MIN_FACE_BOX_DIM \<le> 1" by (simp add: MIN_FACE_BOX_DIM_def fl_le_1)
  ultimately have "validated_face_box [JFloat (Fin 0), JFloat (Fin 0), JFloat (Fin 1), JFloat (Fin 1)] = Inr (Some (0, 0, 1, 1))"
    by (simp add: validated_face_box_def face_box_in_range_def fl_ints)
  then show ?thesis by (simp add: parse_normalized_face_box_def strip)
qed

lemmas portrait_runs = run_unfold[OF portrait_open_def] run_unfold[OF portrait_claim_def] run_unfold[OF portrait_process_def]
  run_unfold[OF portrait_promote_def] run_unfold[OF take_claim_def] run_unfold[OF is_claimed_def] run_unfold[OF set_claim_def]
  run_unfold[OF process_portrait_def] run_unfold[OF run_pipeline_def] run_unfold[OF store_output_def]
  run_unfold[OF capture_snapshot_def] run_unfold[OF snapshot_matches_current_def] run_unfold[OF current_capture_face_box_def]
  run_unfold[OF write_portrait_authorization_def]

lemma gate_portrait_open:
  assumes "gate_decided w"
  shows "run (portrait_open plain_runtime gate_app gate_request ''0,0,1,1'') w = (Inr (demo_id, (0, 0, 1, 1)), w)"
  using assms gate_opened[of "''DECISION_READY''" w] unfolding gate_decided_def stage_def
  by (simp add: run_ops portrait_runs gate_box capture_record_def face_box_json_def jget_n_def jget_d_def path_simps path_values
      cong: run_cong split del: if_split)

definition gate_snapshot :: "json \<Rightarrow> snapshot" where
  "gate_snapshot i = \<lparr>sn_decision_id = i, sn_attempt_id = ''a'', sn_selected_sha256 = ''d'', sn_identity = ''a:d''\<rparr>"

text \<open>The stages keep the decision.\<close>

definition gate_passed :: "string \<Rightarrow> json \<Rightarrow> (string \<times> blob) list \<Rightarrow> world \<Rightarrow> bool" where
  "gate_passed s i files w \<longleftrightarrow> session_ix w ''s'' = Some (Json (JObj (session_record demo_id RM_ACTIVE JNull ''c'' 0 9)))
     \<and> clock w = 0 \<and> file_at w demo_id ''transaction.json'' = Some (Json (JObj (gate_metadata s)))
     \<and> (\<forall>(p, b) \<in> set (gate_captured @ files). file_at w demo_id p = Some b)
     \<and> current_pass plain_runtime w demo_id = Inr True
     \<and> (\<exists>d. decision_of w demo_id = Some d \<and> d_decision_id d = i) \<and> i \<noteq> JNull
     \<and> file_at w demo_id ''callback/decision-callback.json'' = None"

text \<open>Writing another file changes none of the views.\<close>

lemma views_put [simp]:
  "p \<noteq> CAPTURE_META_PATH \<Longrightarrow> capture_key_of rt (put_file t p b w) t = capture_key_of rt w t"
  "p \<noteq> DECISION_RELATIVE_PATH \<Longrightarrow> decision_of (put_file t p b w) t = decision_of w t"
  "p \<noteq> DECISION_RELATIVE_PATH \<Longrightarrow> p \<noteq> CAPTURE_META_PATH \<Longrightarrow> current_pass rt (put_file t p b w) t = current_pass rt w t"
  by (simp_all add: capture_key_of_def decision_of_def current_pass_def file_at_put)

lemma views_del [simp]:
  "p \<noteq> CAPTURE_META_PATH \<Longrightarrow> capture_key_of rt (del_file t p w) t = capture_key_of rt w t"
  "p \<noteq> DECISION_RELATIVE_PATH \<Longrightarrow> decision_of (del_file t p w) t = decision_of w t"
  "p \<noteq> DECISION_RELATIVE_PATH \<Longrightarrow> p \<noteq> CAPTURE_META_PATH \<Longrightarrow> current_pass rt (del_file t p w) t = current_pass rt w t"
  by (simp_all add: capture_key_of_def decision_of_def current_pass_def file_at_del)

lemma views_dir [simp]:
  "capture_key_of rt (make_dir t w) u = capture_key_of rt w u" "decision_of (make_dir t w) u = decision_of w u"
  "current_pass rt (make_dir t w) u = current_pass rt w u" "status_of rt (w\<lparr>metrics := m\<rparr>) u = status_of rt w u"
  "capture_key_of rt (w\<lparr>metrics := m\<rparr>) u = capture_key_of rt w u" "current_pass rt (w\<lparr>metrics := m\<rparr>) u = current_pass rt w u"
  by (simp_all add: capture_key_of_def decision_of_def current_pass_def status_of_def metadata_of_def)

lemma gate_portrait_claim:
  assumes "gate_decided w"
  shows "\<exists>i w'. run (portrait_claim plain_runtime gate_app demo_id) w = (Inr (Inr (gate_snapshot i)), w')
    \<and> gate_passed ''DECISION_READY'' i [] w' \<and> file_at w' demo_id ''portrait/candidates/a:d.jpg'' = None"
proof -
  have key: "capture_key_of plain_runtime w demo_id = Some (''a'', ''d'')"
    using assms by (intro gate_capture_key) (simp add: gate_decided_def stage_def)
  obtain d where d: "decision_of w demo_id = Some d" using assms by (auto simp: gate_decided_def)
  show ?thesis
    using assms d unfolding gate_decided_def stage_def gate_passed_def gate_snapshot_def
    by (simp add: run_ops portrait_runs key gate_identity authorization_of_def PORTRAIT_CLAIM_PREFIX_def path_simps path_values
      file_at_put cong: run_cong split del: if_split)
qed

lemma gate_portrait_process:
  assumes "gate_passed ''DECISION_READY'' i [] w" and "file_at w demo_id ''portrait/candidates/a:d.jpg'' = None"
  shows "\<exists>w'. run (portrait_process plain_runtime gate_app demo_id (gate_snapshot i) (0, 0, 1, 1)) w = (Inr (), w')
    \<and> gate_passed ''DECISION_READY'' i [(''portrait/candidates/a:d.jpg'', Bin jpeg_signature)] w'"
proof -
  have key: "capture_key_of plain_runtime w demo_id = Some (''a'', ''d'')"
    using assms by (intro gate_capture_key) (simp add: gate_passed_def)
  obtain x c where comp: "compose_portrait pair_imaging gate_settings
      (segmentation_provider plain_runtime pair_imaging gate_settings (Some pair_segmentation)) (Bin jpeg_signature)
      (Some (0, 0, 1, 1)) = Inr (x, c)"
    using pair_composed[of gate_settings plain_runtime "Bin jpeg_signature"] by auto
  have seg: "segmentation_provider plain_runtime pair_imaging gate_settings (Some pair_segmentation) = Inr pair_segmentation"
    by (simp add: segmentation_provider_def)
  have enc: "jpeg_encode pair_imaging q g = Bin jpeg_signature" for q g by (simp add: pair_imaging_def)
  have tx: "txs w demo_id \<noteq> None" using assms by (auto simp: gate_passed_def file_at_def split: option.splits)
  show ?thesis
    using assms tx unfolding gate_passed_def
    apply (simp add: run_ops portrait_runs comp[unfolded seg jpeg_signature_def] seg enc gate_snapshot_def portrait_candidate_path_def path_simps path_values
      PORTRAIT_PROCESSING_PATH_def blob_size_def blob_bytes_def jpeg_signature_def MAX_ARTIFACT_BYTES_def Let_def
      file_at_put cong: run_cong split del: if_split)
    done
qed

abbreviation gate_portrait :: "json \<Rightarrow> (string \<times> blob) list" where
  "gate_portrait i \<equiv> [(''portrait/processed.jpg'', Bin jpeg_signature),
     (''portrait/authorization.json'', Json (JObj (authorization_record i ''a'' ''d'' ''a:d'' ''d'' 0)))]"

lemma gate_portrait_promote:
  assumes "gate_passed ''DECISION_READY'' i [(''portrait/candidates/a:d.jpg'', Bin jpeg_signature)] w"
  shows "\<exists>x w'. run (portrait_promote plain_runtime demo_id (gate_snapshot i)) w = (Inr x, w')
    \<and> gate_passed ''PORTRAIT_READY'' i (gate_portrait i) w'"
proof -
  have key: "capture_key_of plain_runtime w demo_id = Some (''a'', ''d'')"
    using assms by (intro gate_capture_key) (simp add: gate_passed_def)
  obtain d where d: "decision_of w demo_id = Some d" "i = d_decision_id d" using assms by (auto simp: gate_passed_def)
  show ?thesis
    using assms d unfolding gate_passed_def
    apply (simp add: run_ops portrait_runs key gate_identity gate_snapshot_def portrait_candidate_path_def path_simps path_values
      PORTRAIT_CLAIM_PREFIX_def blob_size_def blob_bytes_def jpeg_signature_def MAX_ARTIFACT_BYTES_def Let_def
      metadata_status_def is_terminal_def TERMINAL_TRANSACTION_STATUSES_def gate_metadata_def
      file_at_put file_at_del cong: run_cong split del: if_split)
    done
qed

section \<open>Submission\<close>

lemma gate_authorized:
  assumes "gate_passed s i (gate_portrait i) w"
  shows "authorization_of plain_runtime w demo_id = Inr True"
proof -
  have key: "capture_key_of plain_runtime w demo_id = Some (''a'', ''d'')"
    using assms by (intro gate_capture_key) (simp add: gate_passed_def)
  show ?thesis using assms unfolding gate_passed_def
    by (auto simp: authorization_of_def key path_values authorization_matches_def authorization_record_def gate_identity jget_n_def jget_d_def eq_text_def)
qed

lemma gate_redirect: "validate_redirect_url gate_profile ''https://a.b'' True" by code_simp

lemma gate_metadata_fields [simp]: "jget_n (gate_metadata s) ''status'' = JStr s"
  "jget_d (gate_metadata s) ''consumer_id'' v = JStr ''acme''" "jget_d (gate_metadata s) ''external_transaction_id'' v = JStr ''T-1''"
  "jget (gate_metadata s) ''status'' = Some (JStr s)"
  by (simp_all add: gate_metadata_def jget_n_def jget_d_def)

definition gate_headers :: "(string \<times> string) list" where
  "gate_headers = [(''Content-Type'', ''application/json''), (IDEMPOTENCY_HEADER, ''acme:T-1:LIVEPHOTO.DECISION.CREATED'')]"

lemma gate_event: "build_callback_event_id plain_runtime ''acme'' ''T-1'' = ''acme:T-1:LIVEPHOTO.DECISION.CREATED''"
  by (simp add: build_callback_event_id_def CALLBACK_EVENT_TYPE_def)

lemma gate_ready:
  assumes "gate_passed ''PORTRAIT_READY'' i (gate_portrait i) w" and "decision_of w demo_id = Some d"
  shows "ready_to_submit plain_runtime gate_app w demo_id (gate_metadata ''PORTRAIT_READY'') d (Bin jpeg_signature) gate_profile"
proof -
  have nt: "status_str (JStr ''PORTRAIT_READY'') \<notin> set terminal_status_values"
    by (simp add: terminal_status_values_def TERMINAL_TRANSACTION_STATUSES_def)
  have "length jpeg_signature \<le> 3" by (simp add: jpeg_signature_def)
  then show ?thesis
    using assms gate_authorized[OF assms(1)] nt
    by (simp add: ready_to_submit_def gate_passed_def path_values CALLBACK_STATE_PATH_def str_value_def registry_get_def
        del: status_str.simps)
qed

lemma gate_called_back: "callback_headers (ap_environ gate_app) gate_profile (build_callback_event_id plain_runtime ''acme'' ''T-1'') = Inr gate_headers"
  by (simp add: gate_event callback_headers_def gate_headers_def demo_profile_def default_consumer_profile_def default_callback_config_def)

lemma gate_submitted:
  assumes "gate_passed ''PORTRAIT_READY'' i (gate_portrait i) w"
  shows "\<exists>x w' p. submit_locked plain_runtime gate_app demo_id w = (Inr x, w') \<and> completed plain_runtime w' demo_id
    \<and> outbox w' = outbox w @ [p]"
proof -
  obtain d where "decision_of w demo_id = Some d" using assms by (auto simp: gate_passed_def)
  from submission_completes[OF gate_ready[OF assms this], of gate_headers 200 "JObj [(''redirect_url'', JStr ''https://a.b'')]" "''https://a.b''"]
  show ?thesis using gate_called_back gate_redirect by (auto simp: str_value_def jget_n_def is_local_env_def)
qed

section \<open>The run\<close>

lemma arrive_reachable:
  assumes "reachable b s" "sy_pool s i = Idle" "start b c (sy_world s) = (ph, w)"
  shows "\<exists>s'. reachable b s' \<and> sy_world s' = w \<and> sy_pool s' i = ph \<and> sy_history s' = sy_history s"
  using reach_step[OF assms(1) step.arrive[of s i b c ph w]] assms(2,3) by force

lemma resume_reachable:
  assumes "reachable b s" "run_phase b (sy_pool s i) (sy_world s) = (ph, w)"
  shows "\<exists>s'. reachable b s' \<and> sy_world s' = w \<and> sy_pool s' i = ph
    \<and> sy_history s' = remembered (be_runtime b) (sy_world s) (sy_pool s i) ph w (sy_history s)"
  using reach_step[OF assms(1) step.resume[OF assms(2)]] by force

lemma empty_files [simp]: "file_at empty_world t p = None" "clock empty_world = 0"
  by (simp_all add: file_at_def empty_world_def)

abbreviation gate_system :: system where
  "gate_system \<equiv> \<lparr>sy_world = gate_start, sy_pool = (\<lambda>_. Idle), sy_history = \<lparr>hi_evaluations = [], hi_captures = []\<rparr>\<rparr>"

lemma gate_initial: "initial gate_system"
  by (auto simp: initial_def gate_files_def gate_start_def file_at_put path_values portrait_candidate_path_def)

lemma gate_start_stage: "stage ''LAUNCHED'' [] gate_start" "file_at gate_start demo_id ''attempts.json'' = None"
  "file_at gate_start demo_id ''liveness/claim-a:d.json'' = None" "file_at gate_start demo_id ''liveness/a:d.json'' = None"
  by (simp_all add: stage_def gate_start_def file_at_put)

text \<open>A reachable system whose request 0 is at a phase, and which knows the one capture.\<close>

definition at_stage :: "phase \<Rightarrow> (world \<Rightarrow> bool) \<Rightarrow> system \<Rightarrow> bool" where
  "at_stage ph P s \<longleftrightarrow> reachable gate_backend s \<and> sy_pool s 0 = ph \<and> P (sy_world s)
     \<and> set (hi_captures (sy_history s)) \<subseteq> {(demo_id, ''a'', ''d'')}"

lemma at_arrive:
  assumes "at_stage Idle P s" "\<And>w. P w \<Longrightarrow> start gate_backend c w = (ph, w)"
  shows "\<exists>s'. at_stage ph P s'"
  using assms arrive_reachable[of gate_backend s 0 c ph "sy_world s"] unfolding at_stage_def by metis

lemma at_resume:
  assumes "at_stage ph P s" "\<And>w. P w \<Longrightarrow> \<exists>ph' w'. run_phase gate_backend ph w = (ph', w') \<and> Q ph' w'
      \<and> set (captured plain_runtime ph w') \<subseteq> {(demo_id, ''a'', ''d'')}"
  shows "\<exists>ph' s'. at_stage ph' (Q ph') s'"
proof -
  obtain ph' w' where w': "run_phase gate_backend (sy_pool s 0) (sy_world s) = (ph', w')" "Q ph' w'"
    "set (captured plain_runtime ph w') \<subseteq> {(demo_id, ''a'', ''d'')}"
    using assms unfolding at_stage_def by metis
  obtain s' where "reachable gate_backend s'" "sy_world s' = w'" "sy_pool s' 0 = ph'"
    "sy_history s' = remembered (be_runtime gate_backend) (sy_world s) (sy_pool s 0) ph' w' (sy_history s)"
    using resume_reachable[OF _ w'(1)] assms(1) unfolding at_stage_def by blast
  then show ?thesis using w' assms(1) by (intro exI[of _ ph'] exI[of _ s']) (auto simp: at_stage_def remembered_def)
qed

text \<open>One phase that succeeds.\<close>

lemma at_next:
  assumes "at_stage ph P s" "\<And>w. captured plain_runtime ph w = []" "\<And>w. P w \<Longrightarrow> \<exists>w'. run_phase gate_backend ph w = (ph', w') \<and> Q w'"
  shows "\<exists>s'. at_stage ph' Q s'"
proof -
  have "\<exists>ph'' s'. at_stage ph'' (\<lambda>w. ph'' = ph' \<and> Q w) s'"
    by (rule at_resume[OF assms(1)]) (use assms(2,3) in fastforce)
  then show ?thesis unfolding at_stage_def by metis
qed

text \<open>The capture, the liveness evaluation, the portrait and the submission, one phase after the other.\<close>

definition fresh_capture :: "world \<Rightarrow> bool" where
  "fresh_capture w \<longleftrightarrow> stage ''CAPTURE_READY'' gate_captured w
     \<and> file_at w demo_id ''liveness/claim-a:d.json'' = None \<and> file_at w demo_id ''liveness/a:d.json'' = None"

lemma gate_captures: "\<exists>s. at_stage Idle fresh_capture s"
proof -
  let ?c = "Call_capture gate_request ''a'' \<lparr>up_bytes = jpeg_signature, up_content_type = None\<rparr> [] [] []"
  let ?ph = "At_capture demo_id ''a'' jpeg_signature ''image/jpeg'' [] [] None"
  have "at_stage Idle (\<lambda>w. w = gate_start) gate_system"
    using reach_init[OF gate_initial] by (simp add: at_stage_def)
  moreover have "start gate_backend ?c gate_start = (?ph, gate_start)"
    using gate_capture_open[OF gate_start_stage(1)] by (simp add: next_phase_def run_def)
  ultimately obtain s where s: "at_stage ?ph (\<lambda>w. w = gate_start) s" using at_arrive[of _ gate_system ?c] by auto
  obtain x w where w: "run (capture_commit plain_runtime gate_app demo_id ''a'' jpeg_signature ''image/jpeg'' [] [] None) gate_start = (Inr x, w)"
    "stage ''CAPTURE_READY'' gate_captured w"
    using gate_capture_commit[OF gate_start_stage(1,2)] by blast
  have "keeps (effect plain_runtime ({demo_id} \<times> set capture_files) UNIV) (capture_commit plain_runtime gate_app demo_id ''a'' jpeg_signature ''image/jpeg'' [] [] None)"
    by (intro keeps_intros) simp
  then have eff: "effect plain_runtime ({demo_id} \<times> set capture_files) UNIV gate_start w"
    using w(1) unfolding run_def by (rule keeps_runD)
  have other: "''liveness/claim-a:d.json'' \<notin> set capture_files" "''liveness/a:d.json'' \<notin> set capture_files"
    by (simp_all add: capture_files_def AUTHORIZATION_ARTIFACTS_def path_values)
  then have "fresh_capture w" using eff w(2) gate_start_stage(3,4) by (simp add: fresh_capture_def effect_def)
  moreover have "capture_key_of plain_runtime w demo_id = Some (''a'', ''d'')" using w(2) by (intro gate_capture_key) (simp add: stage_def)
  moreover have "run_phase gate_backend ?ph gate_start = (Idle, w)" using w(1) by (simp add: next_phase_def run_def)
  ultimately have "\<exists>ph s'. at_stage ph (\<lambda>w. ph = Idle \<and> fresh_capture w) s'"
    by (intro at_resume[OF s]) (auto simp: captured_def)
  then show ?thesis unfolding at_stage_def by metis
qed

lemma stage_less: "stage s files w \<Longrightarrow> stage s [] w"
  by (simp add: stage_def)

lemma gate_liveness_open:
  assumes "stage ''CAPTURE_READY'' gate_captured w"
  shows "run (liveness_open plain_runtime gate_request) w = (Inr (demo_id, ''a'', ''d''), w)"
proof -
  have "capture_key_of plain_runtime w demo_id = Some (''a'', ''d'')" using assms by (intro gate_capture_key) (simp add: stage_def)
  then show ?thesis using gate_opened[OF stage_less[OF assms]]
    by (simp add: run_ops run_unfold[OF liveness_open_def] cong: run_cong)
qed

lemma gate_decides: "\<exists>s. at_stage Idle gate_decided s"
proof -
  let ?ready = "stage ''CAPTURE_READY'' gate_captured"
  have ready: "fresh_capture w \<Longrightarrow> ?ready w" for w by (simp add: fresh_capture_def)
  obtain s0 where "at_stage Idle fresh_capture s0" using gate_captures by blast
  then obtain s1 where "at_stage (At_liveness demo_id ''a'' ''d'') fresh_capture s1"
    using at_arrive[of fresh_capture s0 "Call_liveness gate_request"] gate_liveness_open[OF ready]
    by (auto simp: next_phase_def run_def)
  then have "\<exists>s. at_stage (At_evaluation demo_id ''a'' ''d'') ?ready s"
    by (rule at_next) (use gate_claim in \<open>fastforce simp: captured_def fresh_capture_def gate_identity next_phase_def run_def\<close>)+
  then obtain s2 where "at_stage (At_evaluation demo_id ''a'' ''d'') ?ready s2" by blast
  then have "\<exists>ph s. at_stage ph (\<lambda>w. \<exists>ev. ph = At_settlement demo_id ''a'' ''d'' ev \<and> ?ready w \<and> gate_evaluation ev) s"
    by (rule at_resume) (use gate_evaluated in \<open>fastforce simp: captured_def evaluation_call_def next_phase_def run_def run_defs\<close>)
  then obtain ev s3 where ev: "gate_evaluation ev" and s3: "at_stage (At_settlement demo_id ''a'' ''d'' ev) ?ready s3"
    by (auto simp: at_stage_def)
  from s3 show ?thesis
    by (rule at_next) (use gate_settled[OF _ ev] in \<open>fastforce simp: captured_def gate_identity next_phase_def run_def\<close>)+
qed

lemma gate_authorizes: "\<exists>s i. at_stage Idle (gate_passed ''PORTRAIT_READY'' i (gate_portrait i)) s"
proof -
  obtain s0 where "at_stage Idle gate_decided s0" using gate_decides by blast
  then obtain s1 where "at_stage (At_portrait demo_id (0, 0, 1, 1)) gate_decided s1"
    using at_arrive[of gate_decided s0 "Call_portrait gate_request ''0,0,1,1''"] gate_portrait_open
    by (auto simp: next_phase_def run_def)
  then have "\<exists>ph s. at_stage ph (\<lambda>w. \<exists>i. ph = At_processing demo_id (gate_snapshot i) (0, 0, 1, 1)
      \<and> gate_passed ''DECISION_READY'' i [] w \<and> file_at w demo_id ''portrait/candidates/a:d.jpg'' = None) s"
    by (rule at_resume) (use gate_portrait_claim in \<open>fastforce simp: captured_def next_phase_def run_def\<close>)
  then obtain i s2 where "at_stage (At_processing demo_id (gate_snapshot i) (0, 0, 1, 1))
      (\<lambda>w. gate_passed ''DECISION_READY'' i [] w \<and> file_at w demo_id ''portrait/candidates/a:d.jpg'' = None) s2"
    by (auto simp: at_stage_def)
  then have "\<exists>s. at_stage (At_promotion demo_id (gate_snapshot i))
      (gate_passed ''DECISION_READY'' i [(''portrait/candidates/a:d.jpg'', Bin jpeg_signature)]) s"
    by (rule at_next) (use gate_portrait_process in \<open>fastforce simp: captured_def next_phase_def run_def\<close>)+
  then obtain s3 where "at_stage (At_promotion demo_id (gate_snapshot i))
      (gate_passed ''DECISION_READY'' i [(''portrait/candidates/a:d.jpg'', Bin jpeg_signature)]) s3" by blast
  then have "\<exists>s. at_stage Idle (gate_passed ''PORTRAIT_READY'' i (gate_portrait i)) s"
    by (rule at_next) (use gate_portrait_promote in \<open>fastforce simp: captured_def next_phase_def run_def\<close>)+
  then show ?thesis by blast
qed

lemma gate_submit_open:
  assumes "gate_passed s i files w"
  shows "run (session_transaction plain_runtime gate_request) w = (Inr demo_id, w)"
  using assms by (auto simp: gate_passed_def eval_simps demo_id_not_Nil cong: run_cong)

lemma gate_reaches_submission:
  "\<exists>s i. at_stage (At_submission demo_id) (gate_passed ''PORTRAIT_READY'' i (gate_portrait i)) s"
proof -
  obtain s0 i where "at_stage Idle (gate_passed ''PORTRAIT_READY'' i (gate_portrait i)) s0" using gate_authorizes by blast
  then show ?thesis
    using at_arrive[of "gate_passed ''PORTRAIT_READY'' i (gate_portrait i)" s0 "Call_submit gate_request" "At_submission demo_id"] gate_submit_open
    by (fastforce simp: next_phase_def run_def)
qed

end
