(* ===== verification/System_Properties.thy ===== *)
theory System_Properties
  imports Lifecycle Sample_Submission
begin

text \<open>
  The properties of the whole system: what has happened in every reachable state in which a transaction
  passes, holds an authorized portrait, or is reported to its consumer, whichever requests interleaved.
\<close>

section \<open>Evaluations\<close>

text \<open>Every evaluation of the history is what \<open>evaluate_capture\<close> returned for the image it names.\<close>

definition evaluation_result :: "backend \<Rightarrow> evaluation \<Rightarrow> bool" where
  "evaluation_result b e \<longleftrightarrow> (case e of (t, a, sha, img, ev) \<Rightarrow> \<exists>w w'. file_at w t CAPTURE_PATH = Some img
     \<and> evaluate_capture (be_runtime b) (ap_libs (be_app b)) (ap_settings (be_app b)) t (Some a) sha w = (Inr ev, w'))"

lemma evaluation_call_Inr:
  assumes "evaluation_call b t a sha w = (Inr ev, w')"
  shows "evaluate_capture (be_runtime b) (ap_libs (be_app b)) (ap_settings (be_app b)) t (Some a) sha w = (Inr ev, w')"
proof -
  have "liveness_failed rt t i e v \<noteq> (Inr ev, w')" for rt i e v
    by (auto dest: wp_InrD[OF failed_never_returns])
  with assms show ?thesis unfolding evaluation_call_def
    by (auto simp: run_defs split: prod.splits sum.splits)
qed

lemma evaluated_results:
  assumes "run_phase b ph w = (ph', w')" and "e \<in> set (evaluated w ph ph')"
  shows "evaluation_result b e"
  using assms(2)
proof (cases rule: evaluated_cases)
  case (1 t a sha t' a' sha' ev img)
  then have "evaluation_call b t a sha w = (Inr ev, w')"
    using assms(1) by (auto elim!: next_phaseE split: sum.splits)
  then show ?thesis using 1 evaluation_call_Inr by (fastforce simp: evaluation_result_def)
qed

lemma reachable_evaluations:
  assumes "reachable b s" and "e \<in> set (hi_evaluations (sy_history s))"
  shows "evaluation_result b e"
  using assms
proof (induction rule: reachable.induct)
  case (reach_step s s')
  from reach_step.hyps(2) show ?case
  proof (cases rule: step_cases)
    case (resume i ph w)
    then consider "e \<in> set (evaluated (sy_world s) (sy_pool s i) ph)" | "e \<in> set (hi_evaluations (sy_history s))"
      using reach_step.prems by (auto simp: remembered_def)
    then show ?thesis using evaluated_results[OF resume(2)] reach_step.IH by blast
  qed (use reach_step in auto)
qed (simp add: initial_def)

section \<open>Passes\<close>

definition passed_evaluation :: "backend \<Rightarrow> system \<Rightarrow> string \<Rightarrow> string \<Rightarrow> blob \<Rightarrow> obj \<Rightarrow> bool" where
  "passed_evaluation b s t a img ev \<longleftrightarrow>
     (t, a, sha_blob (be_runtime b) img, img, ev) \<in> set (hi_evaluations (sy_history s))
     \<and> evaluation_result b (t, a, sha_blob (be_runtime b) img, img, ev)
     \<and> jget_n ev ''outcome'' = JStr ''PASS'' \<and> jget_n ev ''error'' = JNull
     \<and> is_portrait_eligible_vlm_result (jget_n ev ''classification'') (jget_n ev ''subject_count'')
         (jget_n ev ''secondary_person_state'') = Inr True"

lemma outcome_PASS_json: "outcome_of_json v = Inr PASS \<longleftrightarrow> v = JStr ''PASS''"
proof (cases v)
  case (JStr x)
  have "enum_parse decision_outcome_value decision_outcomes x = Some PASS \<longleftrightarrow> x = ''PASS''"
    by (auto simp: enum_parse_def decision_outcomes_def)
  then show ?thesis using JStr by (auto split: option.splits)
qed simp_all

lemma pass_evaluated:
  assumes "reachable b s" and "hashes_nonempty (be_runtime b)"
    and "current_pass (be_runtime b) (sy_world s) t = Inr True"
  shows "\<exists>a img ev. capture_key_of (be_runtime b) (sy_world s) t = Some (a, sha_blob (be_runtime b) img)
    \<and> file_at (sy_world s) t CAPTURE_PATH = Some img \<and> passed_evaluation b s t a img ev"
proof -
  let ?rt = "be_runtime b" and ?w = "sy_world s" and ?h = "sy_history s"
  have ok: "coherent ?rt ?h ?w t" "decision_justified ?rt ?h ?w t" "\<forall>e \<in> set (hi_evaluations ?h). evaluation_ok ?rt ?w e"
    using reachable_ok[OF assms(1,2)] by (auto simp: system_ok_def world_ok_def)
  obtain d a sha where d: "decision_of ?w t = Some d" "d_outcome d = PASS" "d_decision_source d = JStr LIVENESS_DECISION_SOURCE"
    and key: "capture_key_of ?rt ?w t = Some (a, sha)"
    and bound: "eq_text ?rt (jget_n (d_metadata d) ''attempt_id'') a" "eq_text ?rt (jget_n (d_metadata d) ''selected_sha256'') sha"
    using assms(3) by (auto simp: current_pass_meaning LIVENESS_DECISION_SOURCE_def)
  from ok(2) d obtain a' sha' img ev where ev: "(t, a', sha', img, ev) \<in> set (hi_evaluations ?h)"
      "d_metadata d = decision_metadata_for ev (liveness_identity ?rt (Some a') sha')"
      "outcome_of_json (jget_n ev ''outcome'') = Inr PASS"
    unfolding decision_justified_def by metis
  with ok(3) have *: "bound_image ?rt ?w t a' sha' img" "payload_sound ev" "payload_keyed a' sha' ev"
    by (auto simp: evaluation_ok_def)
  have same: "a' = a" "sha' = sha"
    using bound *(3) by (simp_all add: ev(2) decision_metadata_for_def eq_text_def payload_keyed_def jget_n_def)
  have img: "file_at ?w t CAPTURE_PATH = Some img" "sha = sha_blob ?rt img"
    using *(1) key ok(1) by (auto simp: same bound_image_def coherent_def capture_coherent_def)
  have "jget_n ev ''outcome'' = JStr ''PASS''" using ev(3) by (simp add: outcome_PASS_json)
  then have "passed_evaluation b s t a img ev"
    using ev(1) *(2) reachable_evaluations[OF assms(1)] by (simp add: passed_evaluation_def payload_sound_def same img(2))
  then show ?thesis using key img by blast
qed


lemma plain_hashes: "hashes_nonempty plain_runtime"
  by (simp add: hashes_nonempty_def)


section \<open>Portraits\<close>

lemma authorized_portrait:
  assumes "reachable b s" and "hashes_nonempty (be_runtime b)" and "unique_captures (be_runtime b) (sy_history s)"
    and "authorization_of (be_runtime b) (sy_world s) t = Inr True"
  shows "\<exists>a img ev portrait. file_at (sy_world s) t CAPTURE_PATH = Some img \<and> passed_evaluation b s t a img ev
    \<and> file_at (sy_world s) t PORTRAIT_PATH = Some portrait \<and> made (be_runtime b) (be_app b) img portrait"
proof -
  have pass: "current_pass (be_runtime b) (sy_world s) t = Inr True"
    and portrait: "file_at (sy_world s) t PORTRAIT_PATH \<noteq> None"
    using assms(4) by (auto simp: authorization_of_def split: sum.splits bool.splits option.splits blob.splits json.splits)
  have "portrait_justified (be_runtime b) (be_app b) (sy_world s) t"
    using reachable_ok[OF assms(1,2)] assms(3) by (simp add: system_ok_def world_ok_def)
  with pass_evaluated[OF assms(1,2) pass] portrait show ?thesis
    by (fastforce simp: portrait_justified_def)
qed

text \<open>C2: An authorized portrait was composed from the image that is stored now, and that image is the one
  that passed. Two captures of one transaction are told apart by their identities (a digest of attempt
  and image), which is assumed of the captures that were made.\<close>

theorem authorized_portrait_provenance:
  assumes "reachable b s" and "hashes_nonempty (be_runtime b)" and "unique_captures (be_runtime b) (sy_history s)"
    and "authorization_of (be_runtime b) (sy_world s) t = Inr True"
  shows "\<exists>a img ev portrait. file_at (sy_world s) t CAPTURE_PATH = Some img \<and> passed_evaluation b s t a img ev
    \<and> file_at (sy_world s) t PORTRAIT_PATH = Some portrait \<and> made (be_runtime b) (be_app b) img portrait"
  by (rule authorized_portrait[OF assms])

lemma one_capture_unique: "set (hi_captures h) \<subseteq> {k} \<Longrightarrow> unique_captures rt h"
  unfolding unique_captures_def by blast

theorem authorized_portrait_provenance_witness:
  "\<exists>s a img ev portrait. reachable gate_backend s \<and> passed_evaluation gate_backend s demo_id a img ev
     \<and> file_at (sy_world s) demo_id PORTRAIT_PATH = Some portrait \<and> made plain_runtime gate_app img portrait"
proof -
  obtain s i where s: "at_stage Idle (gate_passed ''PORTRAIT_READY'' i (gate_portrait i)) s" using gate_authorizes by blast
  then have "reachable gate_backend s" "unique_captures plain_runtime (sy_history s)"
    "authorization_of plain_runtime (sy_world s) demo_id = Inr True"
    by (auto simp: at_stage_def intro: one_capture_unique gate_authorized)
  then show ?thesis using authorized_portrait_provenance[of gate_backend s demo_id] plain_hashes by auto
qed

section \<open>Callbacks\<close>

text \<open>A callback for a transaction, with everything behind it.\<close>

definition vetted_callback :: "backend \<Rightarrow> system \<Rightarrow> string \<Rightarrow> callback_post \<Rightarrow> bool" where
  "vetted_callback b s t post \<longleftrightarrow> authorization_of (be_runtime b) (sy_world s) t = Inr True
     \<and> (\<exists>a img ev portrait cid profile. passed_evaluation b s t a img ev \<and> made (be_runtime b) (be_app b) img portrait
          \<and> file_at (sy_world s) t CAPTURE_PATH = Some img \<and> file_at (sy_world s) t PORTRAIT_PATH = Some portrait
          \<and> registry_get (ap_registry (be_app b)) cid = Some profile \<and> cp_url post = cb_url (callback profile)
          \<and> jget_n (cp_payload post) ''processed_jpeg_base64'' = JStr (b64encode (blob_bytes (be_runtime b) portrait))
          \<and> jget_n (cp_payload post) ''processed_jpeg_sha256'' = JStr (sha_blob (be_runtime b) portrait))"

lemma callback_vetted:
  assumes "reachable b s" "hashes_nonempty (be_runtime b)" "unique_captures (be_runtime b) (sy_history s)"
    and "callback_of (be_runtime b) (be_app b) (sy_world s) t post"
  shows "vetted_callback b s t post"
proof -
  have "authorization_of (be_runtime b) (sy_world s) t = Inr True" using assms(4) by (simp add: callback_of_def)
  from authorized_portrait[OF assms(1-3) this] assms(4) show ?thesis
    unfolding vetted_callback_def callback_of_def by (metis option.inject)
qed

text \<open>C3: A step posts nothing but vetted callbacks: each carries, base64-encoded and with its digest, an
  authorized portrait composed from the current image, which passed its liveness evaluation, to the
  callback URL of a registered consumer. And a transaction becomes COMPLETED only in a step that posted a
  callback for it whose last delivery was answered with a 2xx and a redirect the consumer allows.\<close>

theorem callbacks_and_completions_vetted:
  assumes "reachable b s" and "hashes_nonempty (be_runtime b)" and "unique_captures (be_runtime b) (sy_history s)"
    and "step b s s'"
  shows "\<exists>ps. outbox (sy_world s') = outbox (sy_world s) @ ps \<and> (\<forall>p \<in> set ps. \<exists>t. vetted_callback b s t p)
    \<and> (\<forall>t. completed (be_runtime b) (sy_world s') t \<and> \<not> completed (be_runtime b) (sy_world s) t \<longrightarrow>
         ps \<noteq> [] \<and> vetted_callback b s t (last ps) \<and> acknowledged (be_app b) (last ps) (length (outbox (sy_world s')) - 1))"
  using assms(4)
proof (cases rule: step_submits)
  case quiet
  then show ?thesis by (intro exI[of _ "[]"]) simp
next
  case (submit i t)
  then obtain ps where ps: "outbox (sy_world s') = outbox (sy_world s) @ ps"
      "\<forall>p \<in> set ps. callback_of (be_runtime b) (be_app b) (sy_world s) t p"
      "completed (be_runtime b) (sy_world s') t \<longrightarrow> completed (be_runtime b) (sy_world s) t \<or>
         ps \<noteq> [] \<and> acknowledged (be_app b) (last ps) (length (outbox (sy_world s')) - 1)"
    unfolding submitted_def by blast
  have "\<forall>p \<in> set ps. vetted_callback b s t p" using callback_vetted[OF assms(1-3)] ps(2) by blast
  then show ?thesis using ps(1,3) submit(3) by (intro exI[of _ ps]) (metis last_in_set)
qed

theorem callbacks_and_completions_vetted_witness:
  "\<exists>s s' p. reachable gate_backend s \<and> step gate_backend s s' \<and> \<not> completed plain_runtime (sy_world s) demo_id
     \<and> completed plain_runtime (sy_world s') demo_id \<and> outbox (sy_world s') = outbox (sy_world s) @ [p]
     \<and> vetted_callback gate_backend s demo_id p"
proof -
  obtain s i where s: "at_stage (At_submission demo_id) (gate_passed ''PORTRAIT_READY'' i (gate_portrait i)) s"
    using gate_reaches_submission by blast
  then have r: "reachable gate_backend s" and u: "unique_captures plain_runtime (sy_history s)"
    and pool: "sy_pool s 0 = At_submission demo_id" and g: "gate_passed ''PORTRAIT_READY'' i (gate_portrait i) (sy_world s)"
    by (auto simp: at_stage_def intro: one_capture_unique)
  have "gate_passed ''PORTRAIT_READY'' i (gate_portrait i) (make_dir demo_id (sy_world s))" using g by (simp add: gate_passed_def)
  from gate_submitted[OF this] obtain x w' p where w': "submit_locked plain_runtime gate_app demo_id (make_dir demo_id (sy_world s)) = (Inr x, w')"
    "completed plain_runtime w' demo_id" "outbox w' = outbox (sy_world s) @ [p]"
    by auto
  then have "run_phase gate_backend (sy_pool s 0) (sy_world s) = (Idle, w')"
    using run_lock[of demo_id "submit_locked plain_runtime gate_app demo_id" "sy_world s"] by (simp add: pool next_phase_def run_def)
  from step.resume[OF this] obtain s' where s': "step gate_backend s s'" "sy_world s' = w'" by fastforce
  have n: "\<not> completed plain_runtime (sy_world s) demo_id"
    using g by (simp add: gate_passed_def completed_def status_of_def metadata_of_def metadata_status_def gate_metadata_def jget_d_def)
  from callbacks_and_completions_vetted[OF r _ _ s'(1)] plain_hashes u obtain ps where
    "outbox w' = outbox (sy_world s) @ ps" "vetted_callback gate_backend s demo_id (last ps)"
    using n w'(2) by (auto simp: s'(2))
  then show ?thesis using r s' n w' by (intro exI[of _ s] exI[of _ s'] exI[of _ p]) (auto simp: w'(3))
qed

section \<open>Sessions\<close>

lemma phases_confined:
  "run_phases b n (ph, w) = (ph', w') \<Longrightarrow> file_at w' t p \<noteq> file_at w t p \<Longrightarrow> phase_transaction ph = Some t"
proof (induction n arbitrary: ph w)
  case (Suc n)
  obtain ph1 w1 where run: "run_phase b ph w = (ph1, w1)" by fastforce
  show ?case
  proof (cases "file_at w1 t p = file_at w t p")
    case True
    then have "phase_transaction ph1 = Some t" using Suc.IH[of ph1 w1] Suc.prems run by simp
    then show ?thesis using run_same_transaction[OF run] by auto
  next
    case False
    then show ?thesis using run_effect[OF run] by (auto simp: effect_def)
  qed
qed simp

text \<open>C4: A browser request that may change something, through all its phases, changes no file of a
  transaction unless its cookie names an unexpired, unrevoked ACTIVE session of that transaction and its
  header carries the CSRF token of that session.\<close>

theorem session_confines_request:
  assumes "mutation_request c = Some rq" and "run_phases b n (start b c w) = (ph, w')"
    and "file_at w' t p \<noteq> file_at w t p"
  shows "authenticates (be_runtime b) w rq t"
proof -
  obtain ph1 w1 where start: "start b c w = (ph1, w1)" by fastforce
  have "allowed b rq w (ph1, w1)" using start_allowed[OF assms(1), of b w] start by simp
  moreover have "file_at w1 t p \<noteq> file_at w t p \<or> phase_transaction ph1 = Some t"
    using phases_confined[of b n ph1 w1 ph w' t p] assms(2,3) start by metis
  ultimately show ?thesis by (auto simp: allowed_def)
qed

theorem session_confines_request_witness:
  "\<exists>w w' ph. run_phases gate_backend 1 (start gate_backend (Call_liveness gate_request) w) = (ph, w')
     \<and> file_at w' demo_id ''liveness/claim-a:d.json'' \<noteq> file_at w demo_id ''liveness/claim-a:d.json''
     \<and> authenticates plain_runtime w gate_request demo_id"
proof -
  obtain s where "at_stage Idle fresh_capture s" using gate_captures by blast
  then have f: "fresh_capture (sy_world s)" by (simp add: at_stage_def)
  let ?w = "sy_world s"
  have "\<exists>w'. run (liveness_claim plain_runtime gate_app demo_id ''a:d'') ?w = (Inr None, w')
      \<and> file_at w' demo_id ''liveness/claim-a:d.json'' \<noteq> None"
    using f unfolding fresh_capture_def stage_def
    by (simp add: run_ops liveness_runs EVALUATION_CLAIM_PREFIX_def is_current_evaluation_def file_at_put cong: run_cong split del: if_split)
  then obtain w' where w': "liveness_claim plain_runtime gate_app demo_id ''a:d'' ?w = (Inr None, w')"
    "file_at w' demo_id ''liveness/claim-a:d.json'' \<noteq> None"
    unfolding run_def by blast
  then have run: "run_phases gate_backend 1 (start gate_backend (Call_liveness gate_request) ?w) = (At_evaluation demo_id ''a'' ''d'', w')"
    using f gate_liveness_open[of ?w] by (simp add: fresh_capture_def gate_identity next_phase_def run_def)
  have change: "file_at w' demo_id ''liveness/claim-a:d.json'' \<noteq> file_at ?w demo_id ''liveness/claim-a:d.json''"
    using f w'(2) by (simp add: fresh_capture_def)
  have "mutation_request (Call_liveness gate_request) = Some gate_request" by simp
  from session_confines_request[OF this run change] run change show ?thesis by auto
qed

section \<open>Where no evaluation may run\<close>

lemma unavailable_service:
  assumes "\<not> vlm_experiment_available s"
  shows "wp (bnd (service_evaluate rt f s rq) g) Q (\<lambda>_ _. True) w"
  using assms by (simp add: service_evaluate_def ensure_available_def wp_bnd wp_lift)

lemma unavailable_evaluation:
  assumes "\<not> vlm_experiment_available s"
  shows "wp (evaluate_capture rt libs s t a sha) (\<lambda>p _. jget_n p ''outcome'' \<noteq> JStr ''PASS'') (\<lambda>_ _. True) w"
proof -
  have after: "wp (bnd m f) (\<lambda>p _. jget_n p ''outcome'' \<noteq> JStr ''PASS'') (\<lambda>_ _. True) v"
    if "\<And>x u. wp (f x) (\<lambda>p _. jget_n p ''outcome'' \<noteq> JStr ''PASS'') (\<lambda>_ _. True) u" for m :: "'a M" and f v
    unfolding wp_bnd by (rule wp_any) (simp_all add: that)
  show ?thesis
    unfolding evaluate_capture_def Let_def
    by (intro after) (simp add: wp_ret error_payload_def jget_n_def unavailable_service[OF assms])
qed

text \<open>C5: Where the vision experiment is not available - in production, or when it is not switched on -
  no transaction ever passes, no callback is ever posted and no transaction is ever completed.\<close>

theorem unavailable_never_passes:
  assumes "reachable b s" and "hashes_nonempty (be_runtime b)" and "\<not> vlm_experiment_available (ap_settings (be_app b))"
  shows "current_pass (be_runtime b) (sy_world s) t \<noteq> Inr True
    \<and> (\<forall>s'. step b s s' \<longrightarrow> outbox (sy_world s') = outbox (sy_world s)
        \<and> (completed (be_runtime b) (sy_world s') t \<longrightarrow> completed (be_runtime b) (sy_world s) t))"
proof -
  have no: "current_pass (be_runtime b) (sy_world s) t \<noteq> Inr True" for t
  proof
    assume "current_pass (be_runtime b) (sy_world s) t = Inr True"
    from pass_evaluated[OF assms(1,2) this] show False
      using wp_InrD[OF unavailable_evaluation[OF assms(3)]]
      by (fastforce simp: passed_evaluation_def evaluation_result_def)
  qed
  then have none: "authorization_of (be_runtime b) (sy_world s) t \<noteq> Inr True" for t
    by (auto simp: authorization_of_def split: sum.splits bool.splits)
  have "outbox (sy_world s') = outbox (sy_world s) \<and> (completed (be_runtime b) (sy_world s') t \<longrightarrow> completed (be_runtime b) (sy_world s) t)"
    if "step b s s'" for s'
    using that
  proof (cases rule: step_submits)
    case (submit i u)
    then show ?thesis using none by (cases "t = u") (auto simp: submitted_def callback_of_def)
  qed simp
  then show ?thesis using no by simp
qed

definition production_backend :: backend where
  "production_backend = \<lparr>be_runtime = plain_runtime, be_app = gate_app\<lparr>ap_settings := gate_settings\<lparr>app_env := Env_production\<rparr>\<rparr>, be_jwt = demo_jwt\<rparr>"

theorem unavailable_never_passes_witness: "current_pass plain_runtime gate_start demo_id \<noteq> Inr True"
  using unavailable_never_passes[of production_backend gate_system demo_id] reach_init[OF gate_initial] plain_hashes
  by (simp add: production_backend_def vlm_experiment_available_def)

section \<open>Ends\<close>



section \<open>Routes\<close>


section \<open>The lifecycle\<close>



section \<open>Progress\<close>



end
