(* ===== verification/Tx_Api.thy ===== *)
theory Tx_Api
  imports Browser_Gate
begin

text \<open>
  The transaction routes of the experiment (\<open>app/api/v1/transactions.py\<close>): creation with an upload, the
  artifact read, the liveness evaluation and the portrait of a stored capture. They need no session; the
  guard restricts them to where the experiment is available. \<open>app.state.transaction_store\<close> is set by the
  application's start, so the branch without a store is not modelled.
\<close>

section \<open>Guards\<close>

definition guard_experiment :: "app \<Rightarrow> unit M" where
  "guard_experiment ap =
     (if \<not> vlm_experiment_available (ap_settings ap) then raise (VlmError VLM_DISABLED ''VLM experiment is not enabled'')
      else ret ())"

definition tx_id_or_error :: "string \<Rightarrow> string M" where
  "tx_id_or_error t = (if \<not> is_valid_transaction_id t then raise PathError else ret t)"

fun CONTENT_TYPES :: "artifact_type \<Rightarrow> string" where
  "CONTENT_TYPES SELECTED_ORIGINAL_CAPTURE = ''image/jpeg''"
| "CONTENT_TYPES VLM_RESULT = ''application/json''"
| "CONTENT_TYPES PROCESSED_PORTRAIT = ''image/jpeg''"
| "CONTENT_TYPES PORTRAIT_PROCESSING_RESULT = ''application/json''"

section \<open>Creation\<close>

definition experiment_metadata :: "settings \<Rightarrow> string \<Rightarrow> string \<Rightarrow> int \<Rightarrow> string \<Rightarrow> obj" where
  "experiment_metadata s capture_config quality_config created_at tid =
     [(''transaction_id'', JStr tid), (''created_at'', JTime created_at), (''app_version'', JStr (app_version s)),
      (''capture_config_version'', JStr capture_config), (''quality_config_version'', JStr quality_config),
      (''status'', JStr ''CREATED'')]"

definition experiment_capture_record ::
  "string \<Rightarrow> artifact_reference \<Rightarrow> string \<Rightarrow> bytes \<Rightarrow> string \<Rightarrow> string \<Rightarrow> face_box option \<Rightarrow> obj" where
  "experiment_capture_record t ref mime data capture_config quality_config box =
     [(''transaction_id'', JStr t), (''capture_artifact'', JStr (ref_relative_path ref)), (''mime_type'', JStr mime),
      (''size_bytes'', JInt (int (length data))), (''sha256'', JStr (ref_sha256 ref)),
      (''capture_config_version'', JStr capture_config), (''quality_config_version'', JStr quality_config),
      (''face_box'', face_box_json box)]"

definition artifact_json :: "artifact_reference \<Rightarrow> json" where
  "artifact_json ref = JObj
     [(''relative_path'', JStr (ref_relative_path ref)), (''content_type'', JStr (ref_content_type ref)),
      (''size_bytes'', JInt (int (ref_size_bytes ref))), (''sha256'', JStr (ref_sha256 ref))]"

definition create_transaction_route ::
  "runtime \<Rightarrow> app \<Rightarrow> upload \<Rightarrow> string \<Rightarrow> string \<Rightarrow> string \<Rightarrow> http_response M" where
  "create_transaction_route rt ap up capture_config quality_config face_box_form =
     (let s = ap_settings ap in
     andthen (guard_experiment ap)
     (bnd (lift (read_bounded up (vlm_max_single_image_bytes s))) (\<lambda>data.
      bnd (lift (validate_image ap data (declared_type up))) (\<lambda>mime.
      bnd (lift (parse_normalized_face_box rt (Some face_box_form))) (\<lambda>box.
      bnd (gets clock) (\<lambda>created_at.
      bnd (create_transaction_with_generated_id rt (experiment_metadata s capture_config quality_config created_at)
             (Some (Aware created_at)) None DEFAULT_MAX_ATTEMPTS) (\<lambda>t.
      bnd (write_artifact rt t SELECTED_ORIGINAL_CAPTURE (Bin data) mime) (\<lambda>ref.
      andthen (write_json t CAPTURE_META_PATH
        (experiment_capture_record t ref mime data capture_config quality_config box))
      (andthen (update_transaction_status rt t ''CAPTURE_READY'')
      (ret (json_reply 200
        [(''transaction_id'', JStr t), (''status'', JStr ''CAPTURE_READY''), (''capture_artifact'', artifact_json ref)])))))))))))"

section \<open>Artifacts\<close>

text \<open>\<open>ArtifactType(artifact_type.upper())\<close>.\<close>

definition artifact_kind :: "string \<Rightarrow> artifact_type M" where
  "artifact_kind name = (case enum_parse artifact_type_value artifact_types (str_upper name) of
     None \<Rightarrow> raise PathError | Some k \<Rightarrow> ret k)"

definition get_artifact :: "app \<Rightarrow> string \<Rightarrow> string \<Rightarrow> http_response M" where
  "get_artifact ap t name =
     andthen (guard_experiment ap)
     (bnd (tx_id_or_error t) (\<lambda>_.
      bnd (artifact_kind name) (\<lambda>k.
      bnd (transaction_exists t) (\<lambda>present.
      if \<not> present then raise ArtifactNotFound
      else
      bnd (read_artifact t (ARTIFACT_RELATIVE_PATHS k)) (\<lambda>data.
        ret \<lparr>hr_status = 200,
             hr_headers = [(''Cache-Control'', ''no-store''), (''X-Content-Type-Options'', ''nosniff''),
                           (''Content-Type'', CONTENT_TYPES k)],
             hr_body = Bytes_body data, hr_deleted_cookies = []\<rparr>)))))"

section \<open>Liveness of the stored capture\<close>

definition liveness_safe_response :: "runtime \<Rightarrow> obj \<Rightarrow> http_response M" where
  "liveness_safe_response rt evaluation =
     bnd (lift (py_list rt (jget_d evaluation ''reason_codes'' (JArr [])))) (\<lambda>codes.
     ret (json_reply 200
       [(''classification'', jget_n evaluation ''classification''), (''outcome'', jget_n evaluation ''outcome''),
        (''portrait_allowed'', jget_d evaluation ''portrait_allowed'' (JBool False)), (''reason_codes'', JArr codes)]))"

definition experiment_transaction :: "app \<Rightarrow> string \<Rightarrow> unit M" where
  "experiment_transaction ap t =
     andthen (guard_experiment ap)
     (bnd (tx_id_or_error t) (\<lambda>_.
      bnd (transaction_exists t) (\<lambda>present.
      if \<not> present then raise ArtifactNotFound else ret ())))"

definition tx_liveness_open :: "runtime \<Rightarrow> app \<Rightarrow> string \<Rightarrow> (string \<times> string) M" where
  "tx_liveness_open rt ap t =
     andthen (experiment_transaction ap t)
     (bnd (current_capture_key rt t) (\<lambda>key.
      case key of None \<Rightarrow> raise ArtifactNotFound | Some k \<Rightarrow> ret k))"

definition tx_liveness_claim :: "runtime \<Rightarrow> app \<Rightarrow> string \<Rightarrow> string \<Rightarrow> http_response option M" where
  "tx_liveness_claim rt ap t identity =
     lock_transaction t
       (bnd (read_evaluation t identity) (\<lambda>cached.
        bnd (if cached = None then ret False else lift (is_current_evaluation cached)) (\<lambda>current.
        case (cached, current) of
          (Some c, True) \<Rightarrow> bnd (liveness_safe_response rt c) (\<lambda>r. ret (Some r))
        | _ \<Rightarrow>
            andthen (take_claim rt (ap_settings ap) t identity EVALUATION_CLAIM_PREFIX
              (raise (ApiError ''LIVENESS_IN_PROGRESS'' ''Liveness evaluation is already in progress'' 202)))
            (ret None))))"

text \<open>The \<open>except VlmError\<close> branch, which counts no metric here.\<close>

definition tx_liveness_failed :: "runtime \<Rightarrow> string \<Rightarrow> string \<Rightarrow> exn \<Rightarrow> 'a M" where
  "tx_liveness_failed rt t identity e =
     (case e of
        VlmError code m \<Rightarrow>
          andthen (lock_transaction t
            (bnd (current_capture_key rt t) (\<lambda>now_key.
             andthen (clear_claim t identity EVALUATION_CLAIM_PREFIX)
             (case now_key of
                None \<Rightarrow> ret ()
              | Some (attempt_id, sha) \<Rightarrow>
                  when_do (liveness_identity rt (Some attempt_id) sha = identity)
                    (persist_error_evaluation t identity (Some attempt_id) sha (vlm_error_value code))))))
          (raise e)
      | _ \<Rightarrow> raise e)"

definition tx_liveness_settle :: "runtime \<Rightarrow> string \<Rightarrow> string \<Rightarrow> obj \<Rightarrow> string \<Rightarrow> http_response M" where
  "tx_liveness_settle rt t identity evaluation request_id =
     lock_transaction t
       (bnd (expected_liveness_identity rt t) (\<lambda>now_identity.
        andthen (clear_claim t identity EVALUATION_CLAIM_PREFIX)
        (if now_identity \<noteq> Some identity
         then andthen (persist_evaluation t identity
                (jput ''promoted'' (JBool False) (jput ''stale'' (JBool True) evaluation)))
              (raise (ApiError ''STALE_EVALUATION''
                 ''The capture changed during evaluation; please try again.'' 409))
         else
         andthen (persist_evaluation t identity evaluation)
         (if truthy (jget_n evaluation ''error'') then raise liveness_unavailable
          else andthen (persist_normalized_vlm_result rt t evaluation request_id)
               (liveness_safe_response rt evaluation)))))"

definition evaluate_liveness :: "runtime \<Rightarrow> app \<Rightarrow> string \<Rightarrow> string \<Rightarrow> http_response M" where
  "evaluate_liveness rt ap t request_id =
     bnd (tx_liveness_open rt ap t) (\<lambda>(attempt_id, sha).
     (let identity = liveness_identity rt (Some attempt_id) sha in
     bnd (tx_liveness_claim rt ap t identity) (\<lambda>reply.
     case reply of
       Some r \<Rightarrow> ret r
     | None \<Rightarrow>
         bnd (catch (evaluate_capture rt (ap_libs ap) (ap_settings ap) t (Some attempt_id) sha)
                    (tx_liveness_failed rt t identity)) (\<lambda>evaluation.
           tx_liveness_settle rt t identity evaluation request_id))))"

section \<open>Portrait of the stored capture\<close>

definition portrait_refused :: "string \<Rightarrow> exn" where
  "portrait_refused message = PortraitError PORTRAIT_PROCESSING_FAILED message"

definition run_portrait_processing :: "runtime \<Rightarrow> app \<Rightarrow> string \<Rightarrow> string \<Rightarrow> http_response M" where
  "run_portrait_processing rt ap t face_box_form =
     (let s = ap_settings ap in
     if \<not> portrait_processing_enabled s then raise (portrait_refused ''portrait processing is disabled'')
     else
     bnd (current_capture_face_box rt t) (\<lambda>captured.
     bnd (case captured of Some b \<Rightarrow> ret (Some b)
          | None \<Rightarrow> lift (parse_normalized_face_box rt (Some face_box_form))) (\<lambda>box.
     case box of
       None \<Rightarrow> raise (PortraitError PORTRAIT_QUALITY_FAILED
                 ''a valid primary face box is required for portrait processing'')
     | Some b \<Rightarrow>
         bnd (process_portrait rt (ap_imaging ap) s (ap_segmentation ap) CAPTURE_PATH t (Some b) None) (\<lambda>result.
         ret (json_reply 200
           [(''status'', JStr ''SUCCESS''), (''transaction_id'', JStr t),
            (''output_artifact'', artifact_json (po_output result)),
            (''processor_version'', JStr PROCESSOR_VERSION), (''crop_version'', JStr CROP_VERSION),
            (''background_mode'', JStr (portrait_background_mode s)),
            (''background_color'', JStr (portrait_background_color s)), (''width'', JInt (int (po_width result))),
            (''height'', JInt (int (po_height result))), (''processing_ms'', JInt (po_processing_ms result))])))))"

definition process_portrait_route :: "runtime \<Rightarrow> app \<Rightarrow> string \<Rightarrow> string \<Rightarrow> http_response M" where
  "process_portrait_route rt ap t face_box_form =
     andthen (experiment_transaction ap t)
     (bnd (artifact_exists t (ARTIFACT_RELATIVE_PATHS VLM_RESULT)) (\<lambda>present.
      if \<not> present then raise (portrait_refused ''no VLM result stored for this transaction'')
      else
      bnd (read_json t (ARTIFACT_RELATIVE_PATHS VLM_RESULT)) (\<lambda>vlm_result.
      bnd (lift (is_portrait_eligible_vlm_result (jget_n vlm_result ''classification'')
             (jget_n vlm_result ''subject_count'') (jget_n vlm_result ''secondary_person_state''))) (\<lambda>eligible.
      if \<not> eligible
      then raise (portrait_refused ''portrait processing requires a LIVE coherent non-interfering-person result'')
      else run_portrait_processing rt ap t face_box_form))))"

end
