(* ===== verification/Experiment_Api.thy ===== *)
theory Experiment_Api
  imports Tx_Api
begin

text \<open>
  The experiment routes (\<open>app/api/v1/experiments.py\<close>): the list of providers, and the evaluation of
  uploaded frames with an optional record under a transaction.
\<close>

section \<open>Providers\<close>

definition provider_entry :: "vision_provider \<Rightarrow> json" where
  "provider_entry p = JObj
     [(''name'', JStr (pi_provider_name (pv_info p))), (''model'', JStr (pi_model_id (pv_info p))),
      (''provider_adapter_version'', JStr (pi_adapter_version (pv_info p))),
      (''max_images'', JInt (max_images_per_request (pv_capabilities p))),
      (''supports_structured_output'', JBool (supports_structured_output (pv_capabilities p))),
      (''supports_inline_images'', JBool (supports_inline_images (pv_capabilities p)))]"

fun providers_named :: "(string \<Rightarrow> exn + vision_provider) \<Rightarrow> string list \<Rightarrow> exn + vision_provider list" where
  "providers_named get [] = Inr []"
| "providers_named get (n # ns) = sum_bind (get n) (\<lambda>p. sum_bind (providers_named get ns) (\<lambda>ps. Inr (p # ps)))"

definition list_providers :: "runtime \<Rightarrow> app \<Rightarrow> http_response M" where
  "list_providers rt ap =
     andthen (guard_experiment ap)
     (bnd (lift (providers_named (get_vision_provider rt (ap_libs ap) (ap_settings ap))
                   (available_providers (ap_settings ap)))) (\<lambda>ps.
      ret (json_reply 200
        [(''experiment_enabled'', JBool True), (''environment'', JStr (app_env_text (app_env (ap_settings ap)))),
         (''providers'', JArr (map provider_entry ps)),
         (''default_provider'', case ps of [] \<Rightarrow> JNull | p # _ \<Rightarrow> JStr (pi_provider_name (pv_info p)))])))"

section \<open>Evaluation\<close>

text \<open>The frames in order: each is bounded, the running total too, and each is a JPEG that decodes.\<close>

fun read_frames :: "app \<Rightarrow> nat \<Rightarrow> int \<Rightarrow> upload list \<Rightarrow> exn + image_input list" where
  "read_frames ap index total_bytes [] = Inr []"
| "read_frames ap index total_bytes (up # ups) =
     sum_bind (read_bounded up (vlm_max_single_image_bytes (ap_settings ap))) (\<lambda>data.
     (let total_now = total_bytes + int (length data) in
      if total_now > vlm_max_total_image_bytes (ap_settings ap)
      then Inl (VlmError REQUEST_TOO_LARGE ''total image bytes exceed the limit'')
      else
      sum_bind (validate_image ap data (declared_type up)) (\<lambda>mime.
      sum_bind (read_frames ap (Suc index) total_now ups) (\<lambda>rest.
        Inr (\<lparr>im_bytes = data, im_mime_type = mime, im_sequence = Some (int index)\<rparr> # rest)))))"

definition check_frame_count :: "settings \<Rightarrow> string \<Rightarrow> nat \<Rightarrow> exn + unit" where
  "check_frame_count s strategy n =
     (case map_of FRAME_STRATEGIES strategy of
        None \<Rightarrow> Inl (VlmError PROVIDER_BAD_REQUEST (''unsupported strategy '' @ quoted strategy))
      | Some expected \<Rightarrow>
          if n \<noteq> expected
          then Inl (VlmError PROVIDER_BAD_REQUEST (''strategy '' @ quoted strategy @ '' requires ''
                 @ nat_digits expected @ '' frame(s), got '' @ nat_digits n))
          else if int n > vlm_max_frames s then Inl (VlmError TOO_MANY_IMAGES ''too many images'')
          else Inr ())"

text \<open>\<open>result.model_dump()\<close>; the latency is missing in the result of a failure.\<close>

definition latency_json :: "experiment_result \<Rightarrow> int \<Rightarrow> json" where
  "latency_json r latency = (case xr_error r of None \<Rightarrow> JInt latency | Some _ \<Rightarrow> JNull)"

definition experiment_payload :: "experiment_result \<Rightarrow> int \<Rightarrow> obj" where
  "experiment_payload r latency =
     [(''experiment'', JBool True), (''provider'', JStr (xr_provider r)), (''model'', JStr (xr_model r)),
      (''prompt_version'', JStr (xr_prompt_version r)), (''schema_version'', JStr (xr_schema_version r)),
      (''frame_strategy'', JStr (xr_frame_strategy r)), (''image_count'', JInt (int (xr_image_count r))),
      (''experiment_id'', JStr (xr_experiment_id r)),
      (''classification'', jopt (map_option vlm_classification_value (xr_classification r))),
      (''attack_medium'', jopt (map_option attack_medium_value (xr_attack_medium r))),
      (''self_reported_confidence'', case xr_confidence r of None \<Rightarrow> JNull | Some q \<Rightarrow> JFloat q),
      (''evidence_codes'', JArr (xr_evidence_codes r)),
      (''subject_count'', jopt (map_option subject_count_value (xr_subject_count r))),
      (''secondary_person_state'', jopt (map_option secondary_person_state_value (xr_secondary r))),
      (''latency_ms'', latency_json r latency), (''error'', jopt (map_option vlm_error_value (xr_error r)))]"

definition normalized_result :: "experiment_result \<Rightarrow> int \<Rightarrow> string \<Rightarrow> int \<Rightarrow> obj" where
  "normalized_result r latency request_id now =
     [(''provider'', JStr (xr_provider r)), (''model'', JStr (xr_model r)), (''strategy'', JStr (xr_frame_strategy r)),
      (''classification'', jopt (map_option vlm_classification_value (xr_classification r))),
      (''attack_medium'', jopt (map_option attack_medium_value (xr_attack_medium r))),
      (''self_reported_confidence'', case xr_confidence r of None \<Rightarrow> JNull | Some q \<Rightarrow> JFloat q),
      (''evidence_codes'', JArr (xr_evidence_codes r)),
      (''subject_count'', jopt (map_option subject_count_value (xr_subject_count r))),
      (''secondary_person_state'', jopt (map_option secondary_person_state_value (xr_secondary r))),
      (''latency_ms'', latency_json r latency), (''experiment_id'', JStr (xr_experiment_id r)),
      (''request_id'', JStr request_id), (''prompt_version'', JStr (xr_prompt_version r)),
      (''schema_version'', JStr (xr_schema_version r)), (''timestamp'', JTime now),
      (''error'', jopt (map_option vlm_error_value (xr_error r)))]"

definition persist_vlm_result :: "runtime \<Rightarrow> string \<Rightarrow> experiment_result \<Rightarrow> int \<Rightarrow> string \<Rightarrow> unit M" where
  "persist_vlm_result rt t r latency request_id =
     (if \<not> is_valid_transaction_id t then raise StorageError
      else
      bnd (transaction_exists t) (\<lambda>present.
      if \<not> present then raise ArtifactNotFound
      else
      bnd (gets clock) (\<lambda>now.
      bnd (write_artifact rt t VLM_RESULT (Json (JObj (normalized_result r latency request_id now)))
             ''application/json'') (\<lambda>_.
      update_transaction_status rt t ''VLM_EVALUATED''))))"

text \<open>The service's latency is the time its provider call takes; nothing else it does takes time here.\<close>

definition evaluate_vlm ::
  "runtime \<Rightarrow> app \<Rightarrow> string \<Rightarrow> string \<Rightarrow> string \<Rightarrow> string \<Rightarrow> upload list \<Rightarrow> string \<Rightarrow> http_response M" where
  "evaluate_vlm rt ap strategy provider mock_behavior t frames request_id =
     (let s = ap_settings ap in
     andthen (guard_experiment ap)
     (bnd (lift (check_frame_count s strategy (length frames))) (\<lambda>_.
      bnd (lift (read_frames ap 0 0 frames)) (\<lambda>image_inputs.
      bnd (gets clock) (\<lambda>started.
      bnd (service_evaluate rt (get_vision_provider rt (ap_libs ap)) s
             \<lparr>er_strategy = strategy, er_provider = provider, er_mock_behavior = mock_behavior,
              er_frames = image_inputs\<rparr>) (\<lambda>r.
      bnd (gets clock) (\<lambda>now.
      (let latency = (now - started) div 1000 in
       if t = [] then ret (json_reply 200 (experiment_payload r latency))
       else andthen (persist_vlm_result rt t r latency request_id)
            (ret (json_reply 200 (experiment_payload r latency @ [(''transaction_id'', JStr t)])))))))))))"

section \<open>The routes\<close>

text \<open>Every route of the two routers; none looks at a session or a consumer's token.\<close>

datatype experiment_call =
    X_create upload string string string
  | X_artifact string string
  | X_liveness string string
  | X_portrait string string
  | X_providers
  | X_evaluate string string string string "upload list" string

fun experiment_route :: "runtime \<Rightarrow> app \<Rightarrow> experiment_call \<Rightarrow> http_response M" where
  "experiment_route rt ap (X_create up cc qc form) = create_transaction_route rt ap up cc qc form"
| "experiment_route rt ap (X_artifact t name) = get_artifact ap t name"
| "experiment_route rt ap (X_liveness t rid) = evaluate_liveness rt ap t rid"
| "experiment_route rt ap (X_portrait t form) = process_portrait_route rt ap t form"
| "experiment_route rt ap X_providers = list_providers rt ap"
| "experiment_route rt ap (X_evaluate st pv mb t fs rid) = evaluate_vlm rt ap st pv mb t fs rid"

end
