(* ===== verification/Log_Redaction.thy ===== *)
theory Log_Redaction
  imports LP_Prelude
begin

text \<open>
  The redaction of log records (\<open>app/core/logging.py\<close>): by key, at the top level and one mapping deep,
  and by content in raw model text. The three regular expressions are matchers that return what \<open>re\<close>
  would match at a position; they are deterministic but for the last, which gives back characters until
  it ends on a word boundary.
\<close>

section \<open>Keys\<close>

definition SENSITIVE_KEY_PARTS :: "string list" where
  "SENSITIVE_KEY_PARTS = [''token'', ''secret'', ''password'', ''passwd'', ''api_key'', ''apikey'', ''base64'', ''csrf'',
     ''callback_secret'', ''signature'', ''launch_token'', ''lp_session'', ''lp_csrf'', ''x-livephoto-dev-auth'']"

definition SENSITIVE_HEADERS :: "string list" where
  "SENSITIVE_HEADERS = [''authorization'', ''cookie'', ''set-cookie'', ''proxy-authorization'', ''x-goog-api-key'',
     ''x-livephoto-dev-auth'', ''x-csrf-token'']"

text \<open>\<open>part in text\<close>.\<close>

fun substring_of :: "string \<Rightarrow> string \<Rightarrow> bool" where
  "substring_of part [] = (part = [])"
| "substring_of part (c # cs) = (starts_with part (c # cs) \<or> substring_of part cs)"

definition is_sensitive_key :: "string \<Rightarrow> bool" where
  "is_sensitive_key key =
     (let normalized = str_lower (str_strip key) in
      normalized \<in> set SENSITIVE_HEADERS \<or> (\<exists>part \<in> set SENSITIVE_KEY_PARTS. substring_of part normalized))"

definition REDACTED :: json where "REDACTED = JStr ''[REDACTED]''"

definition redact_value :: "string \<Rightarrow> json \<Rightarrow> json" where
  "redact_value key v = (if is_sensitive_key key then REDACTED else v)"

definition redact_mapping :: "obj \<Rightarrow> obj" where
  "redact_mapping mapping = map (\<lambda>(k, v). (k, redact_value k v)) mapping"

definition redact_processor :: "obj \<Rightarrow> obj" where
  "redact_processor event = map (\<lambda>(k, v). (k,
     if is_sensitive_key k then REDACTED
     else (case v of JObj mapping \<Rightarrow> JObj (redact_mapping mapping) | _ \<Rightarrow> v))) event"

definition safe_headers :: "(string \<times> string) list \<Rightarrow> (string \<times> string) list" where
  "safe_headers headers = filter (\<lambda>(k, v). \<not> is_sensitive_key k) headers"

section \<open>Raw model text\<close>

definition RAW_MODEL_TEXT_MAX_CHARS :: nat where "RAW_MODEL_TEXT_MAX_CHARS = 8192"

text \<open>A match at a position: the text of its group and what is left after the match.\<close>

type_synonym match = "(string \<times> string) option"

text \<open>A literal, regardless of case.\<close>

fun literal_ci :: "string \<Rightarrow> string \<Rightarrow> match" where
  "literal_ci [] s = Some ([], s)"
| "literal_ci (p # ps) [] = None"
| "literal_ci (p # ps) (c # cs) =
     (if to_lower c = p then map_option (\<lambda>(g, r). (c # g, r)) (literal_ci ps cs) else None)"

definition spaces :: "string \<Rightarrow> string \<times> string" where
  "spaces s = (takeWhile is_space s, dropWhile is_space s)"

text \<open>\<open>\<close>\\\<open>S+\<close> after a group.\<close>

definition nonspace_run :: "string \<Rightarrow> string \<Rightarrow> match" where
  "nonspace_run g s = (case takeWhile (\<lambda>c. \<not> is_space c) s of [] \<Rightarrow> None | _ \<Rightarrow> Some (g, dropWhile (\<lambda>c. \<not> is_space c) s))"

text \<open>\<open>(?i)(api[_-]?key\s*[:=]\s*)\S+\<close>\<close>

definition match_api_key :: "string \<Rightarrow> match" where
  "match_api_key s =
     (case literal_ci ''api'' s of None \<Rightarrow> None | Some (a, s1) \<Rightarrow>
     (let (m, s2) = (case s1 of c # cs \<Rightarrow> if c = CHR ''_'' \<or> c = CHR ''-'' then ([c], cs) else ([], s1) | [] \<Rightarrow> ([], s1)) in
     (case literal_ci ''key'' s2 of None \<Rightarrow> None | Some (k, s3) \<Rightarrow>
     (let (w1, s4) = spaces s3 in
     (case s4 of [] \<Rightarrow> None | c # s5 \<Rightarrow>
        if c = CHR '':'' \<or> c = CHR ''='' then
          (let (w2, s6) = spaces s5 in nonspace_run (a @ m @ k @ w1 @ [c] @ w2) s6)
        else None)))))"

text \<open>\<open>(?i)(bearer\s+)\S+\<close>\<close>

definition match_bearer :: "string \<Rightarrow> match" where
  "match_bearer s =
     (case literal_ci ''bearer'' s of None \<Rightarrow> None | Some (b, s1) \<Rightarrow>
     (let (w, s2) = spaces s1 in if w = [] then None else nonspace_run (b @ w) s2))"

text \<open>A word character, as \<open>re\<close> has it below 256.\<close>

definition word_char :: "char \<Rightarrow> bool" where
  "word_char c \<longleftrightarrow> is_alnum c \<or> c = CHR ''_'' \<or>
     (let n = (of_char c :: nat) in n \<in> {170, 178, 179, 181, 185, 186, 188, 189, 190} \<or> (192 \<le> n \<and> n \<noteq> 215 \<and> n \<noteq> 247))"

definition boundary :: "char option \<Rightarrow> char option \<Rightarrow> bool" where
  "boundary a b \<longleftrightarrow> (case a of None \<Rightarrow> False | Some c \<Rightarrow> word_char c) \<noteq> (case b of None \<Rightarrow> False | Some c \<Rightarrow> word_char c)"

definition key_char :: "char \<Rightarrow> bool" where
  "key_char c \<longleftrightarrow> is_alnum c \<or> c = CHR ''_'' \<or> c = CHR ''-''"

definition next_char :: "string \<Rightarrow> char option" where
  "next_char s = (case s of [] \<Rightarrow> None | c # _ \<Rightarrow> Some c)"

text \<open>The longest prefix of at least eight key characters that ends on a boundary.\<close>

fun longest_key :: "string \<Rightarrow> nat \<Rightarrow> match" where
  "longest_key s n =
     (if n < 8 then None
      else if boundary (Some (s ! (n - 1))) (next_char (drop n s)) then Some (take n s, drop n s)
      else longest_key s (n - 1))"

declare longest_key.simps [simp del]

text \<open>\<open>(?i)\b(sk-[A-Za-z0-9_-]{8,})\b\<close>\<close>

definition match_secret_key :: "char option \<Rightarrow> string \<Rightarrow> match" where
  "match_secret_key before s =
     (if \<not> boundary before (next_char s) then None
      else (case literal_ci ''sk-'' s of None \<Rightarrow> None | Some (p, s1) \<Rightarrow>
        map_option (\<lambda>(k, r). (p @ k, r)) (longest_key s1 (length (takeWhile key_char s1)))))"

text \<open>
  \<open>pattern.sub\<close>: from left to right, each match is replaced by its group and \<open>[REDACTED]\<close>; the
  character before a position is what \<open>\b\<close> looks at.
\<close>

function sub :: "(char option \<Rightarrow> string \<Rightarrow> match) \<Rightarrow> char option \<Rightarrow> string \<Rightarrow> string" where
  "sub m before [] = []"
| "sub m before (c # cs) =
     (case m before (c # cs) of
        Some (g, r) \<Rightarrow>
          if length r < length (c # cs)
          then g @ ''[REDACTED]'' @ sub m (Some (last (take (length (c # cs) - length r) (c # cs)))) r
          else c # sub m (Some c) cs
      | None \<Rightarrow> c # sub m (Some c) cs)"
  by pat_completeness auto
termination by (relation "measure (\<lambda>(m, b, s). length s)") auto

definition redact_raw_text :: "string \<Rightarrow> string" where
  "redact_raw_text txt =
     take RAW_MODEL_TEXT_MAX_CHARS
       (sub match_secret_key None (sub (\<lambda>_. match_bearer) None (sub (\<lambda>_. match_api_key) None txt)))"

section \<open>Facts\<close>

text \<open>Keys and order are kept; a sensitive key has its value replaced, at the top and one mapping deep.\<close>

lemma redact_keys: "map fst (redact_processor event) = map fst event"
  by (simp add: redact_processor_def case_prod_unfold comp_def)

lemma redact_mapping_value: "(k, v) \<in> set (redact_mapping m) \<Longrightarrow> is_sensitive_key k \<Longrightarrow> v = REDACTED"
  by (auto simp: redact_mapping_def redact_value_def)

lemma redact_value_idem [simp]: "redact_value k (redact_value k v) = redact_value k v"
  by (simp add: redact_value_def)

lemma redact_mapping_idem [simp]: "redact_mapping (redact_mapping m) = redact_mapping m"
  by (auto simp: redact_mapping_def)

lemma redact_idem: "redact_processor (redact_processor event) = redact_processor event"
  by (auto simp: redact_processor_def REDACTED_def split: json.splits)

lemma literal_rest: "literal_ci p s = Some (g, r) \<Longrightarrow> set r \<subseteq> set s"
  by (induction p s arbitrary: g rule: literal_ci.induct) (auto split: if_splits)

lemma match_api_separator: "match_api_key s = Some x \<Longrightarrow> CHR '':'' \<in> set s \<or> CHR ''='' \<in> set s"
proof -
  have sp: "spaces s = (w, r) \<Longrightarrow> set r \<subseteq> set s" for s w r
    by (auto simp: spaces_def dest: set_dropWhileD)
  assume m: "match_api_key s = Some x"
  then obtain a s1 where 1: "literal_ci ''api'' s = Some (a, s1)" by (auto simp: match_api_key_def split: option.splits)
  define s2 where "s2 = snd (case s1 of c # cs \<Rightarrow> if c = CHR ''_'' \<or> c = CHR ''-'' then ([c], cs) else ([], s1) | [] \<Rightarrow> ([], s1))"
  have 2: "set s2 \<subseteq> set s1" by (auto simp: s2_def split: list.splits)
  obtain k s3 where 3: "literal_ci ''key'' s2 = Some (k, s3)" and
    rest: "\<exists>c s5. snd (spaces s3) = c # s5 \<and> (c = CHR '':'' \<or> c = CHR ''='')"
    using m 1 by (auto simp: match_api_key_def s2_def Let_def split: option.splits prod.splits list.splits if_splits)
  then obtain c s5 where c: "snd (spaces s3) = c # s5" "c = CHR '':'' \<or> c = CHR ''=''" by blast
  have "c \<in> set s3" using sp[of s3] c(1) by (metis list.set_intros(1) prod.collapse subset_iff)
  then have "c \<in> set s" using literal_rest[OF 1] 2 literal_rest[OF 3] by blast
  then show ?thesis using c(2) by blast
qed

lemma match_bearer_space: "match_bearer s = Some x \<Longrightarrow> \<exists>c \<in> set s. is_space c"
proof -
  assume "match_bearer s = Some x"
  then obtain b s1 where "literal_ci ''bearer'' s = Some (b, s1)" "takeWhile is_space s1 \<noteq> []"
    by (auto simp: match_bearer_def spaces_def Let_def split: option.splits if_splits)
  then show ?thesis using literal_rest[of "''bearer''" s b s1] by (cases s1) (auto split: if_splits)
qed

lemma sub_nothing:
  "(\<And>b d. d \<noteq> [] \<Longrightarrow> set d \<subseteq> set s \<Longrightarrow> m b d = None) \<Longrightarrow> sub m before s = s"
proof (induction s arbitrary: before)
  case (Cons c cs)
  have "m before (c # cs) = None" by (rule Cons.prems) auto
  moreover have "sub m (Some c) cs = cs" by (rule Cons.IH, rule Cons.prems) auto
  ultimately show ?case by simp
qed simp

lemma alnum_plain: "is_alnum c \<Longrightarrow> \<not> is_space c \<and> c \<noteq> CHR '':'' \<and> c \<noteq> CHR ''='' \<and> word_char c \<and> key_char c"
  by (auto simp: is_alnum_def is_digit_def is_upper_def is_lower_def char_between_def is_space_def Let_def word_char_def key_char_def)

text \<open>The third pattern's group is the whole match, so a key of its shape is kept and only marked.\<close>

lemma secret_key_kept:
  assumes "list_all is_alnum k" and "8 \<le> length k"
  shows "redact_raw_text (''sk-'' @ k) = take RAW_MODEL_TEXT_MAX_CHARS (''sk-'' @ k @ ''[REDACTED]'')"
proof -
  have k: "\<And>c. c \<in> set k \<Longrightarrow> is_alnum c" using assms(1) by (simp add: list_all_iff)
  let ?s = "''sk-'' @ k"
  have plain: "CHR '':'' \<notin> set ?s" "CHR ''='' \<notin> set ?s" "\<not> (\<exists>c \<in> set ?s. is_space c)"
    using k alnum_plain by (auto simp: is_space_def)
  have 1: "sub (\<lambda>_. match_api_key) None ?s = ?s"
  proof (rule sub_nothing)
    fix d assume "set d \<subseteq> set ?s"
    then show "match_api_key d = None" using plain(1,2) match_api_separator[of d] by (cases "match_api_key d") blast+
  qed
  have 2: "sub (\<lambda>_. match_bearer) None ?s = ?s"
  proof (rule sub_nothing)
    fix d assume "set d \<subseteq> set ?s"
    then show "match_bearer d = None" using plain(3) match_bearer_space[of d] by (cases "match_bearer d") blast+
  qed
  have tw: "takeWhile key_char k = k" using k alnum_plain by (simp add: takeWhile_eq_all_conv)
  have "k ! (length k - 1) \<in> set k" using assms(2) by (intro nth_mem) simp
  then have "word_char (k ! (length k - 1))" using k alnum_plain by blast
  then have lk: "longest_key k (length k) = Some (k, [])"
    using assms(2) by (simp add: longest_key.simps[of k "length k"] boundary_def next_char_def)
  have sk: "literal_ci ''sk-'' ?s = Some (''sk-'', k)"
    by (simp add: to_lower_def is_upper_def char_between_def)
  have "word_char CHR ''s''"
    by (rule alnum_plain[THEN conjunct2, THEN conjunct2, THEN conjunct2, THEN conjunct1])
       (simp add: is_alnum_def is_lower_def char_between_def)
  then have "boundary None (next_char ?s)" by (simp add: boundary_def next_char_def)
  then have "match_secret_key None ?s = Some (?s, [])"
    by (simp only: match_secret_key_def sk tw lk option.case prod.case option.map if_False not_True_eq_False simp_thms)
  then have "sub match_secret_key None ?s = ?s @ ''[REDACTED]''" by simp
  then show ?thesis by (simp only: redact_raw_text_def 1 2 append.assoc)
qed

end
