(* ===== verification/Http_Shell.thy ===== *)
theory Http_Shell
  imports Experiment_Api Log_Redaction
begin

text \<open>
  What surrounds the routes: the error envelope and the handlers of \<open>app/core/errors.py\<close>, the
  middlewares of \<open>app/core/middleware.py\<close> in the order of \<open>app/factory.py\<close>, the readiness probe
  (\<open>app/core/health.py\<close>, \<open>app/api/health.py\<close>), the browser-support policy
  (\<open>app/core/browser_policy.py\<close>) and the start of the application. Starlette runs the handler of
  \<open>Exception\<close> outside all middlewares and the other handlers inside them, as it documents. The order of
  the middlewares, the routers and tracing are in App_Factory.
\<close>

section \<open>The error envelope\<close>

fun VLM_ERROR_STATUS :: "vlm_error_code \<Rightarrow> nat" where
  "VLM_ERROR_STATUS VLM_DISABLED = 403"
| "VLM_ERROR_STATUS PROVIDER_NOT_CONFIGURED = 503"
| "VLM_ERROR_STATUS PROVIDER_AUTH_ERROR = 502"
| "VLM_ERROR_STATUS PROVIDER_TIMEOUT = 503"
| "VLM_ERROR_STATUS PROVIDER_RATE_LIMITED = 503"
| "VLM_ERROR_STATUS PROVIDER_UNAVAILABLE = 503"
| "VLM_ERROR_STATUS PROVIDER_BAD_REQUEST = 400"
| "VLM_ERROR_STATUS REQUEST_TOO_LARGE = 413"
| "VLM_ERROR_STATUS TOO_MANY_IMAGES = 400"
| "VLM_ERROR_STATUS UNSUPPORTED_MEDIA_TYPE = 415"
| "VLM_ERROR_STATUS SCHEMA_VALIDATION_ERROR = 502"
| "VLM_ERROR_STATUS PROVIDER_RESPONSE_ERROR = 502"
| "VLM_ERROR_STATUS UNKNOWN_PROVIDER_ERROR = 502"

definition default_code :: "nat \<Rightarrow> string" where
  "default_code status = (case map_of
     [(400, ''BAD_REQUEST''), (401, ''UNAUTHORIZED''), (403, ''FORBIDDEN''), (404, ''NOT_FOUND''),
      (405, ''METHOD_NOT_ALLOWED''), (409, ''CONFLICT''), (410, ''GONE''), (413, ''PAYLOAD_TOO_LARGE''),
      (422, ''VALIDATION_ERROR''), (429, ''RATE_LIMITED'')] status of None \<Rightarrow> ''HTTP_ERROR'' | Some c \<Rightarrow> c)"

definition envelope :: "string \<Rightarrow> string \<Rightarrow> string \<Rightarrow> obj" where
  "envelope request_id code message =
     [(''error'', JObj [(''code'', JStr code), (''message'', JStr message), (''request_id'', JStr request_id)])]"

definition error_response :: "string \<Rightarrow> nat \<Rightarrow> string \<Rightarrow> string \<Rightarrow> http_response" where
  "error_response request_id status code message = json_reply status (envelope request_id code message)"

definition portrait_error_message :: "portrait_error_code \<Rightarrow> string" where
  "portrait_error_message code =
     (if portrait_error_status code = 422
      then ''We couldn'' @ CHR 0x27 # ''t prepare this photo clearly. Please try again.''
      else ''We couldn'' @ CHR 0x27 # ''t prepare your photo.'')"

text \<open>The registered handlers; a subclass has its own before its base class.\<close>

fun handled_error :: "string \<Rightarrow> exn \<Rightarrow> http_response option" where
  "handled_error rid (ApiError code message status) = Some (error_response rid status code message)"
| "handled_error rid (VlmError code message) =
     Some (error_response rid (VLM_ERROR_STATUS code) (vlm_error_value code) message)"
| "handled_error rid PathError = Some (error_response rid 400 ''INVALID_TRANSACTION'' ''Invalid transaction reference'')"
| "handled_error rid ArtifactNotFound = Some (error_response rid 404 ''ARTIFACT_NOT_FOUND'' ''Artifact not found'')"
| "handled_error rid TxExistsError = Some (error_response rid 409 ''TRANSACTION_EXISTS'' ''Transaction already exists'')"
| "handled_error rid StorageError = Some (error_response rid 500 ''TECHNICAL_ERROR'' ''Transaction storage error'')"
| "handled_error rid (PortraitError code message) =
     Some (error_response rid (portrait_error_status code) (portrait_error_value code) (portrait_error_message code))"
| "handled_error rid (S2SAuthError code message status) = Some (error_response rid status code message)"
| "handled_error rid (BrowserAuthError code message status) = Some (error_response rid status code message)"
| "handled_error rid _ = None"

definition unhandled_error :: "string \<Rightarrow> http_response" where
  "unhandled_error rid = error_response rid 500 ''INTERNAL_ERROR'' ''Internal server error''"

text \<open>The framework's own errors: an unknown route or method, and a request that does not validate.\<close>

definition http_error :: "string \<Rightarrow> nat \<Rightarrow> string option \<Rightarrow> http_response" where
  "http_error rid status detail = error_response rid status (default_code status)
     (case detail of Some d \<Rightarrow> d | None \<Rightarrow> ''Request failed'')"

definition validation_error :: "string \<Rightarrow> http_response" where
  "validation_error rid = error_response rid 422 ''VALIDATION_ERROR'' ''Request validation failed''"

section \<open>Middlewares\<close>

type_synonym headers = "(string \<times> string) list"

definition header_value :: "headers \<Rightarrow> string \<Rightarrow> string option" where
  "header_value hs name = map_option snd (List.find (\<lambda>(k, _). str_lower k = name) hs)"

definition request_id_char :: "char \<Rightarrow> bool" where
  "request_id_char c \<longleftrightarrow> is_alnum c \<or> c \<in> set ''._:-''"

text \<open>\<open>^[A-Za-z0-9._:-]{1,64}$\<close>, matched in full.\<close>

definition REQUEST_ID_PATTERN :: "string \<Rightarrow> bool" where
  "REQUEST_ID_PATTERN s \<longleftrightarrow> 1 \<le> length s \<and> length s \<le> 64 \<and> list_all request_id_char s"

text \<open>\<open>fresh\<close> is what \<open>secrets.token_hex(16)\<close> gives.\<close>

definition request_id_for :: "string \<Rightarrow> headers \<Rightarrow> string" where
  "request_id_for fresh hs = (case header_value hs ''x-request-id'' of
     Some incoming \<Rightarrow> if REQUEST_ID_PATTERN incoming then incoming else fresh
   | None \<Rightarrow> fresh)"

definition LAUNCH_REDEMPTION_PREFIX :: string where "LAUNCH_REDEMPTION_PREFIX = ''/xbiz/live_photo/l/''"
definition LAUNCH_REDEMPTION_TEMPLATE :: string where "LAUNCH_REDEMPTION_TEMPLATE = ''/xbiz/live_photo/l/{token}''"

text \<open>The route's template where one is matched, else the path with the launch token left out.\<close>

definition safe_request_path :: "string option \<Rightarrow> string \<Rightarrow> string" where
  "safe_request_path template path = (case template of
     Some (c # cs) \<Rightarrow> c # cs
   | _ \<Rightarrow> if starts_with LAUNCH_REDEMPTION_PREFIX path then LAUNCH_REDEMPTION_TEMPLATE else path)"

definition CSP :: string where
  "CSP = ''default-src '' @ CHR 0x27 # ''none'' @ CHR 0x27 # ''; frame-ancestors '' @ CHR 0x27 # ''none'' @ [CHR 0x27]"

definition DOCS_PATHS :: "string list" where "DOCS_PATHS = [''/docs'', ''/redoc'', ''/openapi.json'']"

definition security_headers :: "settings \<Rightarrow> string \<Rightarrow> headers" where
  "security_headers s path =
     [(''x-content-type-options'', ''nosniff''), (''referrer-policy'', ''no-referrer''), (''x-frame-options'', ''DENY''),
      (''permissions-policy'', ''camera=(self), microphone=(), geolocation=(), payment=(), usb=()'')]
     @ (if path \<in> set DOCS_PATHS then [] else [(''content-security-policy'', CSP)])
     @ (if hsts_enabled s then [(''strict-transport-security'', ''max-age=31536000; includeSubDomains'')] else [])"

definition add_headers :: "headers \<Rightarrow> http_response \<Rightarrow> http_response" where
  "add_headers hs r = r\<lparr>hr_headers := hr_headers r @ hs\<rparr>"

text \<open>
  One exchange: the response, the request metric (method, route, status) if one is counted, and the path
  that is logged. The route is given the request id; its error goes to the handlers within the
  middlewares, or past all of them to the outermost one.
\<close>

record exchange =
  ex_response :: http_response
  ex_metric :: "(string \<times> string \<times> nat) option"
  ex_logged_path :: string

definition route_label :: "string option \<Rightarrow> string" where
  "route_label template = (case template of Some (c # cs) \<Rightarrow> c # cs | _ \<Rightarrow> ''unmatched'')"

definition exchange_for ::
  "settings \<Rightarrow> string \<Rightarrow> string \<Rightarrow> string \<Rightarrow> headers \<Rightarrow> string option
    \<Rightarrow> (string \<Rightarrow> http_response M) \<Rightarrow> world \<Rightarrow> exchange \<times> world" where
  "exchange_for s fresh verb path hs template route w =
     (let rid = request_id_for fresh hs;
          logged = safe_request_path template path;
          answered = (\<lambda>r. \<lparr>ex_response = add_headers [(''x-request-id'', rid)] (add_headers (security_headers s path) r),
             ex_metric = (if prometheus_enabled s then Some (verb, route_label template, hr_status r) else None),
             ex_logged_path = logged\<rparr>)
      in case route rid w of
           (Inr r, w') \<Rightarrow> (answered r, w')
         | (Inl e, w') \<Rightarrow>
             (case handled_error rid e of
                Some r \<Rightarrow> (answered r, w')
              | None \<Rightarrow> (\<lparr>ex_response = unhandled_error rid, ex_metric = None, ex_logged_path = logged\<rparr>, w')))"

section \<open>The browser-support policy\<close>

record policy_entry =
  pe_minimum_major :: int
  pe_enabled :: bool

record browser_support_policy =
  bp_policy_version :: json
  bp_browsers :: "(string \<times> policy_entry) list"

definition browser_families :: "string list" where
  "browser_families = [''chrome'', ''edge'', ''firefox'', ''safari'', ''ios_safari'', ''android_chrome'']"

definition only_keys :: "string list \<Rightarrow> obj \<Rightarrow> bool" where
  "only_keys ks ob \<longleftrightarrow> set (map fst ob) \<subseteq> set ks"

fun parse_policy_entry :: "json option \<Rightarrow> policy_entry option" where
  "parse_policy_entry (Some (JObj ob)) =
     (case (jget ob ''minimum_major'', jget ob ''enabled'') of
        (Some (JInt n), Some (JBool b)) \<Rightarrow>
          if 0 < n \<and> only_keys [''minimum_major'', ''enabled''] ob
          then Some \<lparr>pe_minimum_major = n, pe_enabled = b\<rparr> else None
      | _ \<Rightarrow> None)"
| "parse_policy_entry _ = None"

fun parse_families :: "obj \<Rightarrow> string list \<Rightarrow> (string \<times> policy_entry) list option" where
  "parse_families ob [] = Some []"
| "parse_families ob (f # fs) =
     (case (parse_policy_entry (jget ob f), parse_families ob fs) of
        (Some e, Some es) \<Rightarrow> Some ((f, e) # es) | _ \<Rightarrow> None)"

definition validate_policy :: "obj \<Rightarrow> browser_support_policy option" where
  "validate_policy ob =
     (case (jget ob ''policy_version'', jget ob ''browsers'') of
        (Some v, Some (JObj bs)) \<Rightarrow>
          if is_jstr v \<and> v \<noteq> JStr [] \<and> only_keys [''policy_version'', ''browsers''] ob \<and> only_keys browser_families bs
          then map_option (\<lambda>es. \<lparr>bp_policy_version = v, bp_browsers = es\<rparr>) (parse_families bs browser_families)
          else None
      | _ \<Rightarrow> None)"

text \<open>
  The result of loading: a policy, a \<open>BrowserPolicyConfigError\<close> (\<open>Policy_refused\<close>), or the
  \<open>UnicodeDecodeError\<close> of bytes that are not UTF-8, which nothing catches.
\<close>

datatype policy_load = Policy_loaded browser_support_policy | Policy_refused | Policy_crash

definition load_browser_support_policy :: "blob option \<Rightarrow> policy_load" where
  "load_browser_support_policy file =
     (case file of
        Some (Json (JObj ob)) \<Rightarrow> (case validate_policy ob of None \<Rightarrow> Policy_refused | Some p \<Rightarrow> Policy_loaded p)
      | Some (Bin _) \<Rightarrow> Policy_crash
      | _ \<Rightarrow> Policy_refused)"

section \<open>Start and readiness\<close>

record app_state =
  st_registry :: consumer_registry
  st_registry_ok :: bool
  st_policy :: "browser_support_policy option"
  st_policy_ok :: bool
  st_fake_segmentation :: bool

text \<open>The start up to \<open>yield\<close>; an error that is not a configuration error ends it.\<close>

definition start_app ::
  "(json \<Rightarrow> consumer_profile option) \<Rightarrow> settings \<Rightarrow> blob option \<Rightarrow> blob option \<Rightarrow> exn + app_state" where
  "start_app validate_profile s profiles_file policy_file =
     (let fake = portrait_segmentation_provider s = ''fake'' \<and> app_env s \<noteq> Env_production;
          started = (\<lambda>registry ok.
            case load_browser_support_policy policy_file of
              Policy_crash \<Rightarrow> Inl UnicodeErr
            | Policy_refused \<Rightarrow> Inr \<lparr>st_registry = registry, st_registry_ok = ok, st_policy = None,
                st_policy_ok = False, st_fake_segmentation = fake\<rparr>
            | Policy_loaded p \<Rightarrow> Inr \<lparr>st_registry = registry, st_registry_ok = ok, st_policy = Some p,
                st_policy_ok = True, st_fake_segmentation = fake\<rparr>)
      in case load_consumer_profiles validate_profile profiles_file (app_env s) of
           Inr ps \<Rightarrow> started (registry_of ps) True
         | Inl e \<Rightarrow> if e = ConsumerConfigError then started (registry_of []) False else Inl e)"

record readiness =
  rd_name :: string
  rd_ok :: bool
  rd_detail :: "string option"

definition database_readiness_check :: "bool \<Rightarrow> readiness" where
  "database_readiness_check answers =
     \<lparr>rd_name = ''database'', rd_ok = answers, rd_detail = (if answers then None else Some ''database unreachable'')\<rparr>"

text \<open>\<open>check_health\<close> writes and removes a probe file; \<open>failure\<close> is the text of the error, if there is one.\<close>

definition storage_readiness_check :: "string option \<Rightarrow> readiness" where
  "storage_readiness_check failure = (case failure of
     None \<Rightarrow> \<lparr>rd_name = ''file_storage'', rd_ok = True, rd_detail = Some ''filesystem storage ready''\<rparr>
   | Some e \<Rightarrow> \<lparr>rd_name = ''file_storage'', rd_ok = False, rd_detail = Some (''storage not writable: '' @ e)\<rparr>)"

definition configured_check :: "settings \<Rightarrow> string \<Rightarrow> string \<Rightarrow> bool \<Rightarrow> readiness" where
  "configured_check s name missing ok =
     (if is_deployed (app_env s)
      then (if ok then \<lparr>rd_name = name, rd_ok = True, rd_detail = None\<rparr>
            else \<lparr>rd_name = name, rd_ok = False, rd_detail = Some missing\<rparr>)
      else \<lparr>rd_name = name, rd_ok = True, rd_detail = Some (if ok then ''configured'' else ''optional'')\<rparr>)"

definition integration_readiness_check :: "settings \<Rightarrow> app_state \<Rightarrow> readiness" where
  "integration_readiness_check s st =
     configured_check s ''integration'' ''consumer integration is not configured'' (st_registry_ok st)"

definition browser_policy_readiness_check :: "settings \<Rightarrow> app_state \<Rightarrow> readiness" where
  "browser_policy_readiness_check s st =
     configured_check s ''browser_policy'' ''browser support policy is not configured'' (st_policy_ok st)"

text \<open>\<open>database\<close>: \<open>None\<close> without an engine, else whether it answers.\<close>

definition ready_checks :: "settings \<Rightarrow> app_state \<Rightarrow> bool option \<Rightarrow> string option \<Rightarrow> readiness list" where
  "ready_checks s st database storage_failure =
     (case database of None \<Rightarrow> [] | Some up \<Rightarrow> [database_readiness_check up])
     @ [storage_readiness_check storage_failure, integration_readiness_check s st, browser_policy_readiness_check s st]"

definition readiness_json :: "readiness \<Rightarrow> json" where
  "readiness_json c = JObj [(''name'', JStr (rd_name c)), (''status'', JStr (if rd_ok c then ''ok'' else ''unavailable'')),
     (''detail'', jopt (rd_detail c))]"

definition health_live :: http_response where
  "health_live = json_reply 200 [(''status'', JStr ''ok'')]"

definition health_ready :: "readiness list \<Rightarrow> http_response" where
  "health_ready checks =
     (let ready = (\<forall>c \<in> set checks. rd_ok c);
          body = [(''status'', JStr (if ready then ''ready'' else ''not_ready'')), (''checks'', JArr (map readiness_json checks))]
      in json_reply (if ready then 200 else 503) body)"

definition policy_json :: "browser_support_policy option \<Rightarrow> json" where
  "policy_json p = (case p of None \<Rightarrow> JNull
   | Some p \<Rightarrow> JObj [(''policy_version'', bp_policy_version p), (''browsers'', JObj (map (\<lambda>(f, e).
       (f, JObj [(''minimum_major'', JInt (pe_minimum_major e)), (''enabled'', JBool (pe_enabled e))])) (bp_browsers p)))])"

definition get_info :: "settings \<Rightarrow> app_state \<Rightarrow> http_response" where
  "get_info s st = json_reply 200
     [(''name'', JStr (app_name s)), (''version'', JStr (app_version s)),
      (''environment'', JStr (app_env_text (app_env s))), (''browser_policy'', policy_json (st_policy st))]"

end
