(* ===== verification/Experiment_Properties.thy ===== *)
theory Experiment_Properties
  imports Experiment_Api System_Properties
begin

text \<open>
  The properties of the experiment's routes: they refuse where the experiment is not available, they
  cannot open the gate of a transaction, and the portrait route needs an eligible stored result.
\<close>

section \<open>Effects\<close>

lemma keeps_guards [keeps_intros]:
  "keeps (effect rt F C) (guard_experiment ap)" "keeps (effect rt F C) (tx_id_or_error t)"
  "keeps (effect rt F C) (experiment_transaction ap t)" "keeps (effect rt F C) (artifact_kind name)"
  unfolding guard_experiment_def tx_id_or_error_def experiment_transaction_def artifact_kind_def
  by (intro keeps_intros)+

lemma keeps_experiment_reads [keeps_intros]:
  "keeps (effect rt F C) (get_artifact ap t name)" "keeps (effect rt F C) (liveness_safe_response rt' ev)"
  "keeps (effect rt F C) (tx_liveness_open rt' ap t)" "keeps (effect rt F C) (list_providers rt' ap)"
  unfolding get_artifact_def liveness_safe_response_def tx_liveness_open_def list_providers_def
  by (intro keeps_intros)+

lemma keeps_tx_claim [keeps_intros]:
  assumes "(t, claim_path_for i EVALUATION_CLAIM_PREFIX) \<in> F"
  shows "keeps (effect rt F C) (tx_liveness_claim rt' ap t i)"
proof -
  have "keeps (effect rt F C) (case (c, b) of (Some x, True) \<Rightarrow> f x | _ \<Rightarrow> g)"
    if "\<And>x. keeps (effect rt F C) (f x)" "keeps (effect rt F C) g" for c b and f :: "obj \<Rightarrow> 'x M" and g
    using that by (cases c; cases b) simp_all
  note split = this
  show ?thesis unfolding tx_liveness_claim_def using assms by (intro keeps_intros split)
qed

lemma keeps_tx_failed [keeps_intros]:
  "{(t, claim_path_for i EVALUATION_CLAIM_PREFIX), (t, evaluation_relative_path i)} \<subseteq> F \<Longrightarrow>
     keeps (effect rt F C) (tx_liveness_failed rt' t i e)"
  by (cases e) (simp_all add: tx_liveness_failed_def; intro keeps_intros; simp?)+

lemma vlm_path: "ARTIFACT_RELATIVE_PATHS VLM_RESULT = VLM_RESULT_PATH"
  by (simp add: VLM_RESULT_PATH_def)

lemma keeps_normalized [keeps_intros]:
  "{(t, VLM_RESULT_PATH), metadata_file t} \<subseteq> F \<Longrightarrow> keeps (effect rt F C) (persist_normalized_vlm_result rt t ev rid)"
  unfolding persist_normalized_vlm_result_def
  by (intro keeps_intros) (simp_all add: vlm_path del: status_value.simps ARTIFACT_RELATIVE_PATHS.simps)

lemma keeps_tx_settle [keeps_intros]:
  "{(t, claim_path_for i EVALUATION_CLAIM_PREFIX), (t, evaluation_relative_path i), (t, VLM_RESULT_PATH),
      metadata_file t} \<subseteq> F \<Longrightarrow> keeps (effect rt F C) (tx_liveness_settle rt t i ev rid)"
  unfolding tx_liveness_settle_def by (intro keeps_intros) simp_all

text \<open>What the experiment's evaluations may write: claims, evaluations, the stored result, the status.\<close>

definition evaluation_files :: "string \<Rightarrow> (string \<times> string) set" where
  "evaluation_files t = {t} \<times> (range (\<lambda>i. claim_path_for i EVALUATION_CLAIM_PREFIX) \<union> range evaluation_relative_path
     \<union> {VLM_RESULT_PATH, ''transaction.json''})"

lemma keeps_evaluate_liveness: "keeps (effect rt (evaluation_files t) {}) (evaluate_liveness rt ap t rid)"
  unfolding evaluate_liveness_def by (intro keeps_intros) (auto simp: evaluation_files_def)

lemma constant_status: "status_from_value ''VLM_EVALUATED'' \<noteq> COMPLETED" "status_from_value ''CAPTURE_READY'' \<noteq> COMPLETED"
  "status_from_value ''PORTRAIT_PROCESSING'' \<noteq> COMPLETED" "status_from_value ''PORTRAIT_READY'' \<noteq> COMPLETED"
  "status_from_value ''TECHNICAL_ERROR'' \<noteq> COMPLETED"
  using status_from_value_value[of VLM_EVALUATED] status_from_value_value[of CAPTURE_READY]
    status_from_value_value[of PORTRAIT_PROCESSING] status_from_value_value[of PORTRAIT_READY]
    status_from_value_value[of TECHNICAL_ERROR] by simp_all

lemma keeps_evaluate_vlm: "keeps (effect rt (evaluation_files t) {}) (evaluate_vlm rt ap st pv mb t fs rid)"
  unfolding evaluate_vlm_def persist_vlm_result_def
  by (intro keeps_intros) (auto simp: evaluation_files_def vlm_path constant_status simp del: ARTIFACT_RELATIVE_PATHS.simps)

text \<open>The portrait route: the portrait, its record, the status.\<close>

definition portrait_files :: "string \<Rightarrow> (string \<times> string) set" where
  "portrait_files t = {t} \<times> {PORTRAIT_PATH, PORTRAIT_PROCESSING_PATH, ''transaction.json''}"

lemma keeps_full_pipeline:
  "keeps (effect rt (portrait_files t) {t}) (run_pipeline rt im s sg model src t box None st)"
  unfolding run_pipeline_def store_output_def
  by (intro keeps_intros) (simp_all add: portrait_files_def capture_artifact del: status_value.simps ARTIFACT_RELATIVE_PATHS.simps)

lemma keeps_full_failed: "keeps (effect rt (portrait_files t) {t}) (pipeline_failed rt t None prev e)"
proof -
  have retried: "keeps (effect rt (portrait_files t) {t}) (record_failure rt t m b)"
    "keeps (effect rt (portrait_files t) {t}) (update_transaction_status rt t x)" for m b x
    unfolding record_failure_def by (intro keeps_intros; simp add: portrait_files_def)+
  show ?thesis by (cases e) (simp_all add: pipeline_failed_def Let_def; intro keeps_intros retried)+
qed

lemma keeps_full_process:
  "keeps (effect rt (portrait_files t) {t}) (process_portrait rt im s sg src t box None)"
  unfolding process_portrait_def
  by (intro keeps_intros keeps_full_pipeline keeps_full_failed) (simp_all add: portrait_files_def)

lemma keeps_portrait_route: "keeps (effect rt (portrait_files t) {t}) (process_portrait_route rt ap t form)"
  unfolding process_portrait_route_def run_portrait_processing_def Let_def
  by (intro keeps_intros keeps_full_process)

lemma outbox_pieces:
  "keeps same_outbox (read_artifact t p)" "keeps same_outbox (artifact_exists t p)" "keeps same_outbox (read_json t p)"
  "keeps same_outbox (read_transaction_json t)" "keeps same_outbox (transaction_exists t)"
  "keeps same_outbox (write_artifact rt t k b c)" "keeps same_outbox (current_capture_face_box rt t)"
  "keeps same_outbox (experiment_transaction ap t)"
  by (rule keeps_outbox[where F = UNIV]; intro keeps_intros; simp)+

lemma outbox_portrait: "keeps same_outbox (process_portrait_route rt ap t form)"
proof -
  note rules = keeps_if keeps_option keeps_prod keeps_let box.ret box.raise box.gets box.lift box.bnd box.andthen box.catch
    box.when_do outbox_pieces status_outbox json_outbox
  have failed: "keeps same_outbox (pipeline_failed rt t None prev e)" for prev e
    by (cases e) (simp_all add: pipeline_failed_def record_failure_def Let_def; intro rules)+
  have pipeline: "keeps same_outbox (run_pipeline rt im s sg model src t box None st)" for im s sg model src box st
    unfolding run_pipeline_def store_output_def option.case by (intro rules)
  show ?thesis
    unfolding process_portrait_route_def run_portrait_processing_def process_portrait_def Let_def
    by (intro rules failed pipeline)
qed

section \<open>Creation\<close>

text \<open>A transaction is only ever added: every other one is as before.\<close>

definition others_kept :: "world \<Rightarrow> world \<Rightarrow> bool" where
  "others_kept w w' \<longleftrightarrow> (\<forall>t. txs w t \<noteq> None \<longrightarrow> txs w' t = txs w t) \<and> outbox w' = outbox w"

definition holds_upload :: "runtime \<Rightarrow> world \<Rightarrow> world \<Rightarrow> bytes \<Rightarrow> http_response \<Rightarrow> bool" where
  "holds_upload rt w w' data resp \<longleftrightarrow> (\<exists>t ref. hr_body resp = Json_body
       [(''transaction_id'', JStr t), (''status'', JStr ''CAPTURE_READY''), (''capture_artifact'', artifact_json ref)]
     \<and> is_valid_transaction_id t \<and> txs w t = None \<and> file_at w' t CAPTURE_PATH = Some (Bin data)
     \<and> ref_sha256 ref = sha_blob rt (Bin data) \<and> ref_size_bytes ref = length data
     \<and> capture_key_of rt w' t = Some ([], sha_blob rt (Bin data))
     \<and> status_of rt w' t = Some CAPTURE_READY \<and> current_pass rt w' t = Inr False)"

lemma allocation:
  assumes "clock w = c"
  shows "wp (create_transaction_with_generated_id rt mf (Some (Aware c)) None n)
    (\<lambda>t w'. is_valid_transaction_id t \<and> txs w t = None \<and> txs w' = (txs w)(t \<mapsto> [''transaction.json'' \<mapsto> Json (JObj (mf t))])
       \<and> outbox w' = outbox w)
    (\<lambda>_ w'. txs w' = txs w \<and> outbox w' = outbox w) w"
  unfolding create_transaction_with_generated_id_def option.case
  by (rule wp_mono[OF allocate_transaction_spec[where G = "\<lambda>v. outbox v = outbox w" and w = w and T = "txs w"]])
     (simp_all add: wp_simps)

lemma creation:
  assumes "hashes_nonempty rt"
  shows "wp (create_transaction_route rt ap up cc qc form)
    (\<lambda>resp w'. others_kept w w' \<and> (\<exists>data. read_bounded up (vlm_max_single_image_bytes (ap_settings ap)) = Inr data
        \<and> take 3 data = jpeg_signature \<and> holds_upload rt w w' data resp))
    (\<lambda>_. others_kept w) w"
proof -
  define Q where "Q resp w' \<longleftrightarrow> others_kept w w' \<and> (\<exists>data. read_bounded up (vlm_max_single_image_bytes (ap_settings ap)) = Inr data
        \<and> take 3 data = jpeg_signature \<and> holds_upload rt w w' data resp)" for resp w'
  have same: "others_kept w w" by (simp add: others_kept_def)
  have jpeg: "take 3 data = jpeg_signature" if "validate_image ap data m = Inr mime" for data m mime
    using that by (simp add: validate_image_def split: if_splits)
  have stored: "wp (bnd (write_artifact rt t SELECTED_ORIGINAL_CAPTURE (Bin data) mime) (\<lambda>ref.
      andthen (write_json t CAPTURE_META_PATH (experiment_capture_record t ref mime data cc qc box))
      (andthen (update_transaction_status rt t ''CAPTURE_READY'')
      (ret (json_reply 200 [(''transaction_id'', JStr t), (''status'', JStr ''CAPTURE_READY''),
         (''capture_artifact'', artifact_json ref)]))))) Q (\<lambda>_. others_kept w) v"
    if t: "is_valid_transaction_id t" "txs w t = None" and v: "txs v = (txs w)(t \<mapsto> [''transaction.json'' \<mapsto> Json (JObj (experiment_metadata s cc qc n t))])"
      and ob: "outbox v = outbox w"
      and data: "read_bounded up (vlm_max_single_image_bytes (ap_settings ap)) = Inr data" "take 3 data = jpeg_signature"
    for t v mime data box s n
  proof -
    have kept: "others_kept w (put_file t p b u)" if "others_kept w u" for p b u
      using that t(2) by (auto simp: others_kept_def put_file_def)
    have v0: "others_kept w v" using t v ob by (simp add: others_kept_def)
    have f: "file_at v t p = (if p = ''transaction.json'' then Some (Json (JObj (experiment_metadata s cc qc n t))) else None)" for p
      by (simp add: v file_at_def)
    let ?md = "experiment_metadata s cc qc n t"
    let ?c = "put_file t CAPTURE_PATH (Bin data) v"
    have final: "Q (json_reply 200 [(''transaction_id'', JStr t), (''status'', JStr ''CAPTURE_READY''), (''capture_artifact'', artifact_json ref)])
        (put_file t ''transaction.json'' (Json (JObj (jput ''updated_at'' (JTime m) (jput ''status'' (JStr ''CAPTURE_READY'') ?md))))
          (put_file t CAPTURE_META_PATH (Json (JObj (experiment_capture_record t ref mime data cc qc box))) ?c))" (is "Q _ ?u")
      if ref: "ref_sha256 ref = sha_blob rt (Bin data)" "ref_size_bytes ref = length data" for ref m
    proof -
      have "capture_key_of rt ?u t = Some ([], sha_blob rt (Bin data))"
        using assms ref by (simp add: capture_key_of_def file_at_put capture_key_def experiment_capture_record_def
            jget_d_def str_value_def hashes_nonempty_def)
      moreover have "status_of rt ?u t = Some CAPTURE_READY"
        using status_from_value_value[of CAPTURE_READY] by (simp add: status_of_put metadata_status_put_text)
      moreover have "current_pass rt ?u t = Inr False"
        by (simp add: current_pass_def decision_of_def file_at_put f decision_bound_def)
      ultimately show ?thesis
        using t data ref kept v0 by (auto simp: Q_def holds_upload_def file_at_put json_reply_def)
    qed
    have status: "\<not> is_terminal (metadata_status rt ?md)"
      using status_from_value_value[of CREATED]
      by (simp add: metadata_status_def experiment_metadata_def jget_d_def is_terminal_def TERMINAL_TRANSACTION_STATUSES_def)
    show ?thesis
      using t kept v0 final status
      by (simp add: wp_simps path_simps f file_at_put capture_artifact blob_size_def blob_bytes_def parse_object.simps(1)
          del: ARTIFACT_RELATIVE_PATHS.simps)
  qed
  have "wp (create_transaction_route rt ap up cc qc form) Q (\<lambda>_. others_kept w) w"
    unfolding create_transaction_route_def guard_experiment_def Let_def
    using same jpeg
    by (auto simp: wp_simps others_kept_def split: sum.splits intro!: wp_mono[OF allocation] stored)
  then show ?thesis unfolding Q_def .
qed

section \<open>The properties\<close>

text \<open>Where the experiment is not available, every experiment route is refused as disabled before it
  reads or writes anything.\<close>

theorem experiment_routes_guarded:
  assumes "\<not> vlm_experiment_available (ap_settings ap)"
  shows "experiment_route rt ap c w = (Inl (VlmError VLM_DISABLED ''VLM experiment is not enabled''), w)"
  using assms
  by (cases c) (simp_all add: create_transaction_route_def get_artifact_def evaluate_liveness_def tx_liveness_open_def
      process_portrait_route_def list_providers_def evaluate_vlm_def experiment_transaction_def guard_experiment_def
      run_defs Let_def)

theorem experiment_routes_guarded_witness:
  "experiment_route plain_runtime (gate_app\<lparr>ap_settings := default_settings\<rparr>) X_providers empty_world
     = (Inl (VlmError VLM_DISABLED ''VLM experiment is not enabled''), empty_world)"
  by (rule experiment_routes_guarded) (simp add: vlm_experiment_available_def default_settings_def)

lemma evaluation_files_gate:
  "(t, CAPTURE_PATH) \<notin> evaluation_files t'" "(t, CAPTURE_META_PATH) \<notin> evaluation_files t'"
  "(t, DECISION_RELATIVE_PATH) \<notin> evaluation_files t'" "(t, ATTEMPTS_PATH) \<notin> evaluation_files t'"
  "(t, PORTRAIT_AUTHORIZATION_PATH) \<notin> evaluation_files t'"
  by (auto simp: evaluation_files_def claim_path_for_def evaluation_relative_path_def path_values)

lemma portrait_files_gate:
  "(t, CAPTURE_PATH) \<notin> portrait_files t'" "(t, CAPTURE_META_PATH) \<notin> portrait_files t'"
  "(t, DECISION_RELATIVE_PATH) \<notin> portrait_files t'" "(t, ATTEMPTS_PATH) \<notin> portrait_files t'"
  "(t, PORTRAIT_AUTHORIZATION_PATH) \<notin> portrait_files t'"
  by (auto simp: portrait_files_def path_values PORTRAIT_PROCESSING_PATH_def)

definition gate_untouched :: "runtime \<Rightarrow> string \<Rightarrow> world \<Rightarrow> world \<Rightarrow> bool" where
  "gate_untouched rt t w w' \<longleftrightarrow>
     (\<forall>p \<in> {CAPTURE_PATH, CAPTURE_META_PATH, DECISION_RELATIVE_PATH, ATTEMPTS_PATH, PORTRAIT_AUTHORIZATION_PATH}.
        file_at w' t p = file_at w t p)
     \<and> current_pass rt w' t = current_pass rt w t \<and> (ended rt w t \<longrightarrow> ended rt w' t) \<and> outbox w' = outbox w"

lemma untouched_effect:
  assumes "effect rt F C w w'" and "same_outbox w w'"
    and "\<And>p. p \<in> {CAPTURE_PATH, CAPTURE_META_PATH, DECISION_RELATIVE_PATH, ATTEMPTS_PATH, PORTRAIT_AUTHORIZATION_PATH} \<Longrightarrow> (t, p) \<notin> F"
  shows "gate_untouched rt t w w'"
proof -
  have "current_pass rt w' t = current_pass rt w t"
    using assms(1,3) by (intro current_pass_cong) (auto simp: effect_def)
  then show ?thesis using assms by (auto simp: gate_untouched_def effect_def same_outbox_def)
qed

lemma untouched_kept:
  assumes "others_kept w w'" and "txs w t \<noteq> None"
  shows "gate_untouched rt t w w'"
proof -
  have f: "file_at w' t p = file_at w t p" for p using assms by (auto simp: others_kept_def file_at_def)
  then have "current_pass rt w' t = current_pass rt w t" by (intro current_pass_cong)
  moreover have "ended rt w' t = ended rt w t" using f by (intro completed_cong)
  ultimately show ?thesis using f assms(1) by (simp add: gate_untouched_def others_kept_def)
qed

text \<open>C27: An experiment route cannot open the gate of a transaction that exists: its capture, its decision,
  its attempts and the authorization of its portrait are left alone, it passes exactly if it passed
  before, an ended transaction stays ended, and no callback is posted.\<close>

theorem experiment_cannot_open_gate:
  assumes "experiment_route rt ap c w = (r, w')" and "txs w t \<noteq> None" and "hashes_nonempty rt"
  shows "gate_untouched rt t w w'"
proof -
  note run = assms(1)
  have none: "gate_untouched rt t w w'" if "keeps (effect rt {} {}) (experiment_route rt ap c)"
    using that run by (intro untouched_effect[OF keeps_runD[OF that run] keeps_runD[OF keeps_outbox[OF that] run]]) simp
  have evaluation: "gate_untouched rt t w w'" if k: "keeps (effect rt (evaluation_files u) {}) (experiment_route rt ap c)" for u
    by (rule untouched_effect[OF keeps_runD[OF k run] keeps_runD[OF keeps_outbox[OF k] run]])
       (auto simp: evaluation_files_gate)
  show ?thesis
  proof (cases c)
    case (X_create up cc qc form)
    then have "others_kept w w'"
      using wp_InrD[OF creation[OF assms(3)], of ap up cc qc form w] wp_InlD[OF creation[OF assms(3)], of ap up cc qc form w] run
      by (cases r) auto
    then show ?thesis using assms(2) by (rule untouched_kept)
  next
    case (X_portrait u form)
    then show ?thesis
      using untouched_effect[OF keeps_runD[OF keeps_portrait_route] keeps_runD[OF outbox_portrait]] run
      by (fastforce simp: portrait_files_gate)
  next
    case (X_liveness u rid)
    then show ?thesis using evaluation[of u] keeps_evaluate_liveness by simp
  next
    case (X_evaluate st pv mb u fs rid)
    then show ?thesis using evaluation[of u] keeps_evaluate_vlm by simp
  qed (use none keeps_experiment_reads in simp_all)
qed

lemma routes_run:
  "experiment_route rt ap c w = (fst (experiment_route rt ap c w), snd (experiment_route rt ap c w))"
  by simp

theorem experiment_cannot_open_gate_witness:
  "gate_untouched plain_runtime demo_id gate_start (snd (experiment_route plain_runtime gate_app X_providers gate_start))"
  by (rule experiment_cannot_open_gate[OF routes_run]) (simp_all add: gate_start_def put_file_def hashes_nonempty_def)

definition eligible_result_stored :: "world \<Rightarrow> string \<Rightarrow> bool" where
  "eligible_result_stored w t \<longleftrightarrow> (\<exists>ob. file_at w t VLM_RESULT_PATH = Some (Json (JObj ob))
     \<and> is_portrait_eligible_vlm_result (jget_n ob ''classification'') (jget_n ob ''subject_count'')
         (jget_n ob ''secondary_person_state'') = Inr True)"

lemma portrait_route_refuses:
  assumes "\<not> eligible_result_stored w t"
  shows "wp (process_portrait_route rt ap t form) (\<lambda>_ _. False) (\<lambda>_ w'. w' = w) w"
proof -
  have no: "is_portrait_eligible_vlm_result (jget_n ob ''classification'') (jget_n ob ''subject_count'')
      (jget_n ob ''secondary_person_state'') \<noteq> Inr True" if "file_at w t VLM_RESULT_PATH = Some (Json (JObj ob))" for ob
    using assms that by (auto simp: eligible_result_stored_def)
  show ?thesis
    using no
    by (auto simp: process_portrait_route_def experiment_transaction_def guard_experiment_def tx_id_or_error_def wp_simps
        vlm_path path_simps parse_object_Inr split: option.splits sum.splits blob.splits json.splits
        simp del: ARTIFACT_RELATIVE_PATHS.simps)
qed

text \<open>The portrait route of the experiment changes no file unless the result stored for that very
  transaction is LIVE with a person state that is eligible for a portrait, and then only the portrait, the
  record of the processing and the status.\<close>

theorem experiment_portrait_needs_eligible_result:
  assumes "process_portrait_route rt ap t form w = (r, w')" and "file_at w' u p \<noteq> file_at w u p"
  shows "eligible_result_stored w t \<and> u = t \<and> p \<in> {PORTRAIT_PATH, PORTRAIT_PROCESSING_PATH, ''transaction.json''}"
proof -
  have "eligible_result_stored w t"
    using portrait_route_refuses[of w t rt ap form] assms by (cases r) (fastforce dest: wp_InrD wp_InlD)+
  moreover have "(u, p) \<in> portrait_files t"
    using keeps_runD[OF keeps_portrait_route assms(1)] assms(2) by (auto simp: effect_def)
  ultimately show ?thesis by (auto simp: portrait_files_def)
qed

definition result_world :: world where
  "result_world = put_file demo_id VLM_RESULT_PATH (Json (JObj [(''classification'', JStr ''LIVE''),
     (''subject_count'', JStr ''ONE''), (''secondary_person_state'', JStr ''NONE'')])) gate_start"

lemma result_eligible: "is_portrait_eligible_vlm_result (JStr ''LIVE'') (JStr ''ONE'') (JStr ''NONE'') = Inr True"
  by code_simp

lemma no_files: "file_at empty_world t p = None"
  by (simp add: file_at_def empty_world_def)

text \<open>Without a segmentation model, the route gets as far as the status.\<close>

definition modelless_app :: app where "modelless_app = gate_app\<lparr>ap_segmentation := None\<rparr>"

lemma result_route_changes:
  "wp (process_portrait_route plain_runtime modelless_app demo_id ''0,0,1,1'') (\<lambda>_ _. False)
     (\<lambda>_ w'. status_of plain_runtime w' demo_id = Some PORTRAIT_PROCESSING) result_world"
proof -
  have exists: "txs result_world demo_id \<noteq> None" by (simp add: result_world_def put_file_def)
  have files: "file_at result_world demo_id VLM_RESULT_PATH = Some (Json (JObj [(''classification'', JStr ''LIVE''),
      (''subject_count'', JStr ''ONE''), (''secondary_person_state'', JStr ''NONE'')]))"
    "file_at result_world demo_id CAPTURE_META_PATH = None"
    by (simp_all add: result_world_def gate_start_def file_at_put path_values no_files)
  have md: "metadata_of result_world demo_id = Some (gate_metadata ''LAUNCHED'')"
    by (simp add: metadata_of_def result_world_def gate_start_def file_at_put path_values)
  have process: "wp (process_portrait plain_runtime pair_imaging gate_settings None CAPTURE_PATH demo_id (Some (0, 0, 1, 1)) None)
      (\<lambda>_ _. False) (\<lambda>_ w'. status_of plain_runtime w' demo_id = Some PORTRAIT_PROCESSING) result_world"
    by (rule wp_mono[OF process_model_unavailable[OF _ _ md]])
       (auto simp: metadata_status_def gate_metadata_def jget_d_def is_terminal_def TERMINAL_TRANSACTION_STATUSES_def
        segmentation_provider_def gate_settings_def default_settings_def)
  show ?thesis
    unfolding process_portrait_route_def run_portrait_processing_def experiment_transaction_def guard_experiment_def
      tx_id_or_error_def Let_def modelless_app_def
    using exists
    by (simp add: wp_simps vlm_path path_simps files result_eligible jget_n_def vlm_experiment_available_def gate_box
        current_capture_face_box_def wp_mono[OF process] del: ARTIFACT_RELATIVE_PATHS.simps)
qed

theorem experiment_portrait_needs_eligible_result_witness:
  "eligible_result_stored result_world demo_id"
proof -
  obtain r w' where run: "process_portrait_route plain_runtime modelless_app demo_id ''0,0,1,1'' result_world = (r, w')" by fastforce
  have "status_of plain_runtime w' demo_id = Some PORTRAIT_PROCESSING"
    using result_route_changes run by (cases r) (auto simp: wp_def)
  moreover have "status_of plain_runtime result_world demo_id = Some LAUNCHED"
    by (simp add: status_of_def metadata_of_def result_world_def gate_start_def file_at_put path_values metadata_status_def
        gate_metadata_def jget_d_def)
  ultimately have "file_at w' demo_id ''transaction.json'' \<noteq> file_at result_world demo_id ''transaction.json''"
    by (auto simp: status_of_def metadata_of_def)
  then show ?thesis using experiment_portrait_needs_eligible_result[OF run] by blast
qed

text \<open>A transaction the experiment creates is new, holds exactly the uploaded JPEG with its digest, is
  ready for the evaluation of that image, and has not passed; every other transaction is as before.\<close>

theorem created_transaction_holds_upload:
  assumes "create_transaction_route rt ap up cc qc form w = (Inr resp, w')" and "hashes_nonempty rt"
  shows "others_kept w w' \<and> (\<exists>data. read_bounded up (vlm_max_single_image_bytes (ap_settings ap)) = Inr data
    \<and> take 3 data = jpeg_signature \<and> holds_upload rt w w' data resp)"
  using wp_InrD[OF creation[OF assms(2)] assms(1)] .

lemma creation_succeeds:
  "wp (create_transaction_route plain_runtime gate_app \<lparr>up_bytes = jpeg_signature, up_content_type = None\<rparr> [] [] [])
     (\<lambda>_ _. True) (\<lambda>_ _. False) empty_world"
proof -
  define t where "t = PREFIX @ ''-'' @ strftime_timestamp (utc_fields_of 0) @ ''-'' @ str_upper ''00abcd''"
  have valid: "is_valid_transaction_id t"
    using pattern_valid_id[OF generated_id_matches[of plain_runtime "utc_fields_of 0" 0]]
    by (simp add: t_def suffix_hex_def plain_runtime_def demo_runtime_def hex_chars_def)
  have hex: "token_hex plain_runtime n = ''00abcd''" for n
    by (simp add: plain_runtime_def demo_runtime_def)
  have five: "(5 :: nat) = Suc 4" by simp
  have start: "clock empty_world = 0" "rng empty_world = 0" "txs empty_world t = None" by (simp_all add: empty_world_def)
  let ?mf = "experiment_metadata gate_settings [] [] 0"
  let ?w = "put_file t ''transaction.json'' (Json (JObj (?mf t))) (make_dir t (empty_world\<lparr>rng := Suc 0\<rparr>))"
  have gen: "wp (generate_internal_transaction_id plain_runtime (Some (Aware 0))) Q E w = Q t (w\<lparr>rng := Suc (rng w)\<rparr>)" for Q E w
    by (simp only: wp_generate_now hex t_def)
  note wp_control = wp_bnd wp_catch wp_andthen wp_ret wp_raise wp_create_transaction
  have alloc: "wp (create_transaction_with_generated_id plain_runtime ?mf (Some (Aware 0)) None DEFAULT_MAX_ATTEMPTS) Q E empty_world = Q t ?w"
    for Q E
    unfolding create_transaction_with_generated_id_def DEFAULT_MAX_ATTEMPTS_def five option.case allocate_transaction.simps(2)
    using valid start by (simp add: wp_control gen)
  have read: "file_at ?w t ''transaction.json'' = Some (Json (JObj (?mf t)))" by (simp add: file_at_put)
  have valid_image: "read_bounded \<lparr>up_bytes = jpeg_signature, up_content_type = None\<rparr> 9 = Inr jpeg_signature"
    "validate_image gate_app jpeg_signature (declared_type \<lparr>up_bytes = jpeg_signature, up_content_type = None\<rparr>) = Inr ''image/jpeg''"
    "parse_normalized_face_box plain_runtime (Some []) = Inr None"
    by (simp_all add: capture_simps jpeg_signature_def sum_bind_def)
  have size: "blob_size plain_runtime (Bin jpeg_signature) \<le> MAX_ARTIFACT_BYTES"
    by (simp add: blob_size_def blob_bytes_def jpeg_signature_def MAX_ARTIFACT_BYTES_def)
  show ?thesis
    unfolding create_transaction_route_def guard_experiment_def Let_def
    using valid size
    by (simp add: wp_simps vlm_experiment_available_def valid_image alloc start path_simps capture_artifact file_at_put
        del: ARTIFACT_RELATIVE_PATHS.simps)
qed

theorem created_transaction_holds_upload_witness:
  "\<exists>resp w'. holds_upload plain_runtime empty_world w' jpeg_signature resp"
proof -
  let ?up = "\<lparr>up_bytes = jpeg_signature, up_content_type = None\<rparr>"
  obtain resp w' where "create_transaction_route plain_runtime gate_app ?up [] [] [] empty_world = (Inr resp, w')"
    using creation_succeeds by (auto simp: wp_def split: prod.splits sum.splits)
  from created_transaction_holds_upload[OF this] show ?thesis
    by (auto simp: hashes_nonempty_def read_bounded_def jpeg_signature_def)
qed

text \<open>C28: An evaluation that is already stored for a capture is answered from the store, and the decision
  it calls for is not written: the browser's liveness request leaves every file as it is. An evaluation
  stored without its decision, by the experiment's route or by a crash between the two writes, therefore
  leaves its capture unable to pass.\<close>

theorem cached_evaluation_never_decides:
  assumes "liveness_claim rt ap t i w = (r, w')" and "is_valid_transaction_id t" and "rel_ok (evaluation_relative_path i)"
    and "file_at w t (evaluation_relative_path i) = Some (Json (JObj ev))" and "is_current_evaluation (Some ev) = Inr True"
  shows "r \<noteq> Inr None \<and> file_at w' t p = file_at w t p \<and> current_pass rt w' t = current_pass rt w t"
proof -
  have k: "keeps (effect rt {} {}) (cached_reply rt ev)" by (intro keeps_intros)
  have "wp (liveness_claim rt ap t i) (\<lambda>x w'. x \<noteq> None \<and> effect rt {} {} (make_dir t w) w') (\<lambda>_. effect rt {} {} (make_dir t w)) w"
    using assms(2-5) keeps_wpD[OF k, of "make_dir t w"]
    by (simp add: liveness_claim_def read_evaluation_def wp_simps wp_bnd_fun wp_ret_fun)
  then have "r \<noteq> Inr None \<and> effect rt {} {} (make_dir t w) w'"
    using assms(1) by (cases r) (auto dest: wp_InrD wp_InlD)
  then show ?thesis
    by (auto simp: effect_def intro!: current_pass_cong)
qed

definition stored_pass :: obj where
  "stored_pass = [(''schema_version'', JStr VLM_SCHEMA_VERSION), (''prompt_version'', JStr PROMPT_VERSION),
     (''outcome'', JStr ''PASS''), (''subject_count'', JStr ''ONE''), (''secondary_person_state'', JStr ''NONE'')]"

theorem cached_evaluation_never_decides_witness:
  "\<exists>r w'. liveness_claim plain_runtime gate_app demo_id ''a:d''
      (put_file demo_id (evaluation_relative_path ''a:d'') (Json (JObj stored_pass)) gate_start) = (r, w')
    \<and> current_pass plain_runtime w' demo_id = Inr False"
proof -
  let ?w = "put_file demo_id (evaluation_relative_path ''a:d'') (Json (JObj stored_pass)) gate_start"
  obtain r w' where run: "liveness_claim plain_runtime gate_app demo_id ''a:d'' ?w = (r, w')" by fastforce
  have ok: "rel_ok (evaluation_relative_path ''a:d'')"
    by (simp add: evaluation_relative_path_def rel_ok_def starts_with_def path_part_kept_def)
  have current: "is_current_evaluation (Some stored_pass) = Inr True"
    by (simp add: is_current_evaluation_def stored_pass_def jget_n_def value_in_def VALID_SUBJECT_COUNTS_def
        VALID_SECONDARY_STATES_def subject_counts_def secondary_person_states_def is_person_state_consistent_def
        pair_in_def COHERENT_PERSON_STATES_def sum_bind_def)
  have "current_pass plain_runtime ?w demo_id = Inr False"
    by (simp add: current_pass_def decision_of_def file_at_put gate_start_def no_files path_values evaluation_relative_path_def
        decision_bound_def)
  then show ?thesis
    using cached_evaluation_never_decides[OF run _ ok _ current] run by (auto simp: file_at_put)
qed

end
