(* ===== verification/Http_Properties.thy ===== *)
theory Http_Properties
  imports Http_Shell Experiment_Properties
begin

text \<open>
  The properties of what surrounds the routes: error replies, request ids, logged paths, readiness and
  the redaction of log records.
\<close>

section \<open>Error replies\<close>











section \<open>Headers\<close>

definition framed :: "settings \<Rightarrow> string \<Rightarrow> headers \<Rightarrow> string \<Rightarrow> http_response \<Rightarrow> bool" where
  "framed s path hs fresh r \<longleftrightarrow> (''x-request-id'', request_id_for fresh hs) \<in> set (hr_headers r)
     \<and> set (security_headers s path) \<subseteq> set (hr_headers r)"

lemma request_id_pattern: "REQUEST_ID_PATTERN fresh \<Longrightarrow> REQUEST_ID_PATTERN (request_id_for fresh hs)"
  by (simp add: request_id_for_def split: option.split)

lemma request_id_chars: "REQUEST_ID_PATTERN s \<Longrightarrow> CHR 0x0D \<notin> set s \<and> CHR 0x0A \<notin> set s"
  by (auto simp: REQUEST_ID_PATTERN_def list_all_iff request_id_char_def is_alnum_def is_digit_def is_upper_def is_lower_def
      char_between_def)

text \<open>Every exchange that is answered within the middlewares carries the request id and the security
  headers, and the id is a word of at most 64 letters, digits and \<open>._:-\<close> whatever the client sent, so it
  cannot break out of its header. An error no handler is registered for is answered without any of them,
  and is not counted.\<close>

theorem headers_within_middlewares:
  assumes "REQUEST_ID_PATTERN fresh" and "exchange_for s fresh verb path hs template route w = (x, w')"
  shows "REQUEST_ID_PATTERN (request_id_for fresh hs)
    \<and> (case route (request_id_for fresh hs) w of
         (Inl e, _) \<Rightarrow> if handled_error (request_id_for fresh hs) e = None
           then hr_headers (ex_response x) = [] \<and> ex_metric x = None else framed s path hs fresh (ex_response x)
       | (Inr _, _) \<Rightarrow> framed s path hs fresh (ex_response x))"
  using request_id_pattern[OF assms(1)] assms(2)
  by (auto simp: exchange_for_def Let_def framed_def add_headers_def unhandled_error_def error_response_def json_reply_def
      split: prod.splits sum.splits option.splits)

theorem headers_within_middlewares_witness:
  "hr_headers (ex_response (fst (exchange_for gate_settings (replicate 32 CHR ''0'') ''GET'' ''/'' [] None (\<lambda>_. raise OsErr) empty_world))) = []"
proof -
  have "REQUEST_ID_PATTERN (replicate 32 CHR ''0'')"
    by (simp add: REQUEST_ID_PATTERN_def list_all_iff request_id_char_def is_alnum_def is_digit_def char_between_def)
  from headers_within_middlewares[OF this surjective_pairing, where s = gate_settings and verb = "''GET''" and path = "''/''" and hs = "[]"
      and template = None and route = "\<lambda>_. raise OsErr" and w = empty_world]
  show ?thesis by (simp add: raise_def)
qed

text \<open>The path that is logged does not depend on the launch token in the address: with no route
  matched, all redemption addresses are logged alike, and with one matched its template is.\<close>

theorem launch_token_not_logged:
  assumes "starts_with LAUNCH_REDEMPTION_PREFIX p" and "starts_with LAUNCH_REDEMPTION_PREFIX q"
  shows "ex_logged_path (fst (exchange_for s fresh verb p hs template route w))
    = ex_logged_path (fst (exchange_for s fresh' verb' q hs' template route' w'))"
  using assms
  by (simp add: exchange_for_def Let_def safe_request_path_def split: prod.splits sum.splits option.splits list.splits)

theorem launch_token_not_logged_witness:
  "ex_logged_path (fst (exchange_for gate_settings ''f'' ''GET'' ''/xbiz/live_photo/l/abc'' [] None (\<lambda>_. raise OsErr) empty_world))
   = ex_logged_path (fst (exchange_for gate_settings ''f'' ''GET'' ''/xbiz/live_photo/l/xyz'' [] None (\<lambda>_. raise OsErr) empty_world))"
  by (rule launch_token_not_logged) (simp_all add: starts_with_def LAUNCH_REDEMPTION_PREFIX_def)

section \<open>Readiness\<close>









section \<open>Redaction\<close>

text \<open>In a redacted log record, whatever stands under a sensitive key, at the top or in a mapping below it,
  is the mark; keys and order are kept, and redacting again changes nothing.\<close>

theorem log_records_redacted:
  "map fst (redact_processor event) = map fst event
   \<and> (\<forall>k v. (k, v) \<in> set (redact_processor event) \<and> is_sensitive_key k \<longrightarrow> v = REDACTED)
   \<and> (\<forall>k m k' v. (k, JObj m) \<in> set (redact_processor event) \<and> (k', v) \<in> set m \<and> is_sensitive_key k' \<longrightarrow> v = REDACTED)
   \<and> redact_processor (redact_processor event) = redact_processor event"
proof -
  have top: "v = REDACTED" if "(k, v) \<in> set (redact_processor event)" "is_sensitive_key k" for k v
    using that by (auto simp: redact_processor_def)
  have nested: "v = REDACTED" if "(k, JObj m) \<in> set (redact_processor event)" "(k', v) \<in> set m" "is_sensitive_key k'" for k m k' v
  proof -
    obtain u where "JObj m = (if is_sensitive_key k then REDACTED else (case u of JObj mp \<Rightarrow> JObj (redact_mapping mp) | _ \<Rightarrow> u))"
    proof -
      obtain kv where kv: "(k, JObj m) = (case kv of (k, v) \<Rightarrow> (k,
          if is_sensitive_key k then REDACTED else (case v of JObj mp \<Rightarrow> JObj (redact_mapping mp) | _ \<Rightarrow> v)))"
        using \<open>(k, JObj m) \<in> set (redact_processor event)\<close> unfolding redact_processor_def set_map by (elim imageE) blast
      obtain k0 u where "kv = (k0, u)" by fastforce
      then show thesis using kv that[of u] by simp
    qed
    then obtain mp where "m = redact_mapping mp" by (cases u) (auto simp: REDACTED_def split: if_splits)
    then show ?thesis using that(2,3) redact_mapping_value by blast
  qed
  show ?thesis using redact_keys redact_idem top nested by blast
qed

text \<open>A secret key of the OpenAI shape is not masked in the raw text that is logged: the pattern's group is
  the key itself, so the key is kept and the mark is put behind it.\<close>

theorem secret_keys_survive:
  assumes "list_all is_alnum k" and "8 \<le> length k" and "length k \<le> 8000"
  shows "redact_raw_text (''sk-'' @ k) = ''sk-'' @ k @ ''[REDACTED]''"
  using secret_key_kept[OF assms(1,2)] assms(3) by (simp add: RAW_MODEL_TEXT_MAX_CHARS_def)

theorem secret_keys_survive_witness: "redact_raw_text ''sk-abcd1234'' = ''sk-abcd1234[REDACTED]''"
  using secret_keys_survive[of "''abcd1234''"] by (simp add: is_alnum_def is_digit_def is_lower_def char_between_def)

end
