(* ===== verification/Vlm_Metrics.thy ===== *)
theory Vlm_Metrics
  imports Vlm_Service Py_Float "HOL-Library.Char_ord" "HOL-Library.List_Lexorder"
begin

text \<open>
  The evaluation metrics of the offline runs (\<open>app/experiments/vlm/metrics.py\<close>). Reports are
  dictionaries, as in the code; numbers are rounded where the code rounds them. A ground truth that is
  not a known label is a \<open>KeyError\<close>.
\<close>

section \<open>Wilson interval\<close>

definition wilson_z :: rat where "wilson_z = fl (196 / 100)"

definition wilson_interval :: "nat \<Rightarrow> nat \<Rightarrow> (rat \<times> rat) option" where
  "wilson_interval k n =
     (if n = 0 then None
      else
      (let z = wilson_z; m = of_nat n; p = fl (of_nat k / m); zz = fl (z * z);
           denominator = fl (1 + fl (zz / m));
           centre = fl (fl (p + fl (zz / (2 * m))) / denominator);
           margin = fl (fl (z * fl_sqrt (fl (fl (fl (p * fl (1 - p)) + fl (zz / (4 * m))) / m))) / denominator)
       in Some (round4 (max 0 (fl (centre - margin))), round4 (min 1 (fl (centre + margin))))))"

section \<open>Records\<close>

definition LABEL_TO_CLASSIFICATION :: "(string \<times> vlm_classification) list" where
  "LABEL_TO_CLASSIFICATION =
     [(''LIVE'', C_LIVE), (''SCREEN_MOBILE'', C_SCREEN_REPLAY), (''SCREEN_TABLET'', C_SCREEN_REPLAY),
      (''SCREEN_LAPTOP'', C_SCREEN_REPLAY), (''SCREEN_MONITOR'', C_SCREEN_REPLAY), (''SCREEN_DISPLAY'', C_SCREEN_REPLAY),
      (''PRINT_PHOTO'', C_PRINT_ATTACK), (''PRINT_NEWSPAPER'', C_PRINT_ATTACK), (''PRINT_MAGAZINE'', C_PRINT_ATTACK)]"

record result_record =
  rr_sample_id :: string
  rr_ground_truth :: string
  rr_predicted :: "string option"
  rr_attack_medium :: "string option"
  rr_provider :: string
  rr_model :: string
  rr_prompt_version :: string
  rr_frame_strategy :: string
  rr_confidence :: "pyfloat option"
  rr_latency_ms :: "int option"
  rr_error :: "string option"
  rr_repetition :: "int option"

definition record_dump :: "result_record \<Rightarrow> obj" where
  "record_dump r =
     [(''sample_id'', JStr (rr_sample_id r)), (''ground_truth'', JStr (rr_ground_truth r)),
      (''predicted'', jopt (rr_predicted r)), (''attack_medium_predicted'', jopt (rr_attack_medium r)),
      (''provider'', JStr (rr_provider r)), (''model'', JStr (rr_model r)),
      (''prompt_version'', JStr (rr_prompt_version r)), (''frame_strategy'', JStr (rr_frame_strategy r)),
      (''self_reported_confidence'', case rr_confidence r of None \<Rightarrow> JNull | Some q \<Rightarrow> JFloat q),
      (''latency_ms'', case rr_latency_ms r of None \<Rightarrow> JNull | Some i \<Rightarrow> JInt i), (''error'', jopt (rr_error r)),
      (''repetition'', case rr_repetition r of None \<Rightarrow> JNull | Some i \<Rightarrow> JInt i)]"

definition classify_for :: "string \<Rightarrow> exn + vlm_classification" where
  "classify_for label = (case map_of LABEL_TO_CLASSIFICATION label of None \<Rightarrow> Inl KeyErr | Some c \<Rightarrow> Inr c)"

abbreviation predicts :: "result_record \<Rightarrow> vlm_classification \<Rightarrow> bool" where
  "predicts r c \<equiv> rr_predicted r = Some (vlm_classification_value c)"

definition is_error :: "result_record \<Rightarrow> bool" where
  "is_error r \<longleftrightarrow> rr_error r \<noteq> None"

definition is_uncertain :: "result_record \<Rightarrow> bool" where
  "is_uncertain r \<longleftrightarrow> \<not> is_error r \<and> predicts r C_UNCERTAIN"

definition is_correct :: "result_record \<Rightarrow> exn + bool" where
  "is_correct r =
     (if is_error r \<or> is_uncertain r \<or> rr_predicted r = None then Inr False
      else sum_bind (classify_for (rr_ground_truth r)) (\<lambda>c. Inr (predicts r c)))"

definition spoof_accepted :: "result_record \<Rightarrow> exn + bool" where
  "spoof_accepted r = sum_bind (classify_for (rr_ground_truth r)) (\<lambda>c. Inr (c \<noteq> C_LIVE \<and> predicts r C_LIVE))"

section \<open>Counting and grouping\<close>

definition count_where :: "('a \<Rightarrow> bool) \<Rightarrow> 'a list \<Rightarrow> nat" where
  "count_where p xs = length (filter p xs)"

text \<open>\<open>sum(1 for x in xs if p(x))\<close> where the condition may raise.\<close>

fun count_checked :: "('a \<Rightarrow> exn + bool) \<Rightarrow> 'a list \<Rightarrow> exn + nat" where
  "count_checked p [] = Inr 0"
| "count_checked p (x # xs) =
     sum_bind (p x) (\<lambda>b. sum_bind (count_checked p xs) (\<lambda>n. Inr (if b then Suc n else n)))"

fun traverse :: "('a \<Rightarrow> exn + 'b) \<Rightarrow> 'a list \<Rightarrow> exn + 'b list" where
  "traverse f [] = Inr []"
| "traverse f (x # xs) = sum_bind (f x) (\<lambda>y. sum_bind (traverse f xs) (\<lambda>ys. Inr (y # ys)))"

text \<open>A \<open>defaultdict(list)\<close> filled in order: the keys in the order they first occur.\<close>

fun add_to_group :: "'k \<Rightarrow> 'a \<Rightarrow> ('k \<times> 'a list) list \<Rightarrow> ('k \<times> 'a list) list" where
  "add_to_group k x [] = [(k, [x])]"
| "add_to_group k x ((k', xs) # gs) = (if k = k' then (k', xs @ [x]) # gs else (k', xs) # add_to_group k x gs)"

definition group_on :: "('a \<Rightarrow> 'k) \<Rightarrow> 'a list \<Rightarrow> ('k \<times> 'a list) list" where
  "group_on f xs = foldl (\<lambda>gs x. add_to_group (f x) x gs) [] xs"

definition group_of :: "('k \<times> 'a list) list \<Rightarrow> 'k \<Rightarrow> 'a list" where
  "group_of gs k = (case map_of gs k of None \<Rightarrow> [] | Some xs \<Rightarrow> xs)"

section \<open>Latencies\<close>

definition round1 :: "rat \<Rightarrow> rat" where
  "round1 q = fl (of_int (round_half_even (q * 10)) / 10)"

text \<open>\<open>(len - 1) * percentile\<close> in binary64; not an integer means the mean of its neighbours.\<close>

definition percentile :: "rat list \<Rightarrow> rat \<Rightarrow> rat" where
  "percentile values share =
     (if values = [] then 0
      else
      (let ordered = sort values; index = fl (of_nat (length ordered - 1) * share);
           lower = ordered ! nat \<lfloor>index\<rfloor>; upper = ordered ! nat \<lceil>index\<rceil>
       in if of_int \<lfloor>index\<rfloor> = index then lower else fl (fl (lower + upper) / 2)))"

definition median :: "rat list \<Rightarrow> rat" where
  "median values =
     (let ordered = sort values; n = length ordered in
      if odd n then ordered ! (n div 2) else fl (fl (ordered ! (n div 2 - 1) + ordered ! (n div 2)) / 2))"

definition latency_stats :: "rat list \<Rightarrow> obj" where
  "latency_stats values =
     (if values = [] then map (\<lambda>k. (k, JFloat (Fin 0))) [''mean'', ''median'', ''p90'', ''p95'', ''max'']
      else
      [(''mean'', JFloat (Fin (round1 (fl (sum_list values / of_nat (length values)))))),
       (''median'', JFloat (Fin (round1 (median values)))),
       (''p90'', JFloat (Fin (round1 (percentile values (fl (90 / 100)))))),
       (''p95'', JFloat (Fin (round1 (percentile values (fl (95 / 100)))))),
       (''max'', JFloat (Fin (round1 (fold max values (hd values)))))])"

section \<open>Metrics\<close>

definition rate :: "nat \<Rightarrow> nat \<Rightarrow> json" where
  "rate k n = JFloat (Fin (round4 (fl (of_nat k / of_nat n))))"

definition interval_json :: "(rat \<times> rat) option \<Rightarrow> json" where
  "interval_json i = (case i of None \<Rightarrow> JNull | Some (lo, hi) \<Rightarrow> JArr [JFloat (Fin lo), JFloat (Fin hi)])"

definition share_json :: "nat \<Rightarrow> nat \<Rightarrow> json \<Rightarrow> json" where
  "share_json k n v = JObj [(''numerator'', jnat k), (''denominator'', jnat n), (''value'', v)]"

definition spoof_to_live :: "string \<Rightarrow> result_record list \<Rightarrow> nat" where
  "spoof_to_live label rs = count_where (\<lambda>r. label \<noteq> ''LIVE'' \<and> predicts r C_LIVE) rs"

definition class_row :: "string \<Rightarrow> result_record list \<Rightarrow> exn + obj" where
  "class_row label rs =
     (let n = length rs; s2l = spoof_to_live label rs in
      sum_bind (count_checked is_correct rs) (\<lambda>correct.
      Inr ([(''class'', JStr label), (''n'', jnat n), (''correct'', jnat correct),
            (''uncertain'', jnat (count_where is_uncertain rs)), (''error'', jnat (count_where is_error rs)),
            (''spoof_to_live'', jnat s2l)]
           @ (if label \<noteq> ''LIVE'' \<and> n \<noteq> 0
              then [(''apcer_style_estimate'', share_json s2l n (rate s2l n)),
                    (''apcer_style_wilson_ci'', interval_json (wilson_interval s2l n))]
              else []))))"

definition CONFIDENCE_BUCKETS :: "(string \<times> rat \<times> rat) list" where
  "CONFIDENCE_BUCKETS = [(''0.0-0.2'', 0, fl (2 / 10)), (''0.2-0.4'', fl (2 / 10), fl (4 / 10)),
     (''0.4-0.6'', fl (4 / 10), fl (6 / 10)), (''0.6-0.8'', fl (6 / 10), fl (8 / 10)), (''0.8-1.0'', fl (8 / 10), 1)]"

fun in_bucket :: "rat \<Rightarrow> rat \<Rightarrow> pyfloat option \<Rightarrow> bool" where
  "in_bucket lower upper (Some (Fin q)) \<longleftrightarrow> lower \<le> q \<and> q < upper"
| "in_bucket lower upper _ \<longleftrightarrow> False"

definition is_incorrect :: "result_record \<Rightarrow> exn + bool" where
  "is_incorrect r = sum_bind (is_correct r) (\<lambda>ok. Inr (\<not> ok \<and> \<not> is_uncertain r \<and> \<not> is_error r))"

definition bucket_json :: "result_record list \<Rightarrow> exn + json" where
  "bucket_json rs =
     sum_bind (count_checked is_correct rs) (\<lambda>correct.
     sum_bind (count_checked is_incorrect rs) (\<lambda>incorrect.
     sum_bind (count_checked spoof_accepted rs) (\<lambda>s2l.
       Inr (JObj [(''n'', jnat (length rs)), (''correct'', jnat correct), (''incorrect'', jnat incorrect),
                  (''spoof_to_live'', jnat s2l)]))))"

definition confidence_buckets :: "result_record list \<Rightarrow> exn + obj" where
  "confidence_buckets rs =
     traverse (\<lambda>(name, lower, upper).
       sum_bind (bucket_json (filter (\<lambda>r. in_bucket lower upper (rr_confidence r)) rs)) (\<lambda>j. Inr (name, j)))
     CONFIDENCE_BUCKETS"

definition is_conclusive :: "result_record \<Rightarrow> bool" where
  "is_conclusive r \<longleftrightarrow> \<not> is_error r \<and> \<not> predicts r C_UNCERTAIN"

definition compute_metrics :: "result_record list \<Rightarrow> exn + obj" where
  "compute_metrics rs =
     (let by_class = group_on rr_ground_truth rs;
          live = group_of by_class ''LIVE''; live_total = length live;
          live_accept = count_where (\<lambda>r. \<not> is_error r \<and> predicts r C_LIVE) live;
          spoof = concat (map snd (filter (\<lambda>(label, _). label \<noteq> ''LIVE'') by_class));
          spoof_total = length spoof; accepted = count_where (\<lambda>r. predicts r C_LIVE) spoof;
          n = length rs; of_all = (\<lambda>k. if n = 0 then JNull else rate k n);
          non_accept = (if live_total = 0 then 0 else live_total - live_accept);
          bpcer = (if live_total = 0 then JNull else rate non_accept live_total) in
      sum_bind (traverse (\<lambda>(label, rows). class_row label rows) (sort_key fst by_class)) (\<lambda>class_rows.
      sum_bind (confidence_buckets rs) (\<lambda>buckets.
      Inr [(''sample_count'', jnat n), (''class_rows'', JArr (map JObj class_rows)),
           (''spoof_to_live_total'', jnat accepted), (''spoof_total'', jnat spoof_total),
           (''apcer_style_overall'', share_json accepted spoof_total (if spoof_total = 0 then JNull else rate accepted spoof_total)),
           (''apcer_style_overall_wilson_ci'', interval_json (wilson_interval accepted spoof_total)),
           (''bpcer_style'', bpcer), (''bpcer_style_wilson_ci'', interval_json (wilson_interval non_accept live_total)),
           (''genuine_non_accept_rate'', share_json non_accept live_total bpcer),
           (''live_precision'', rate live_accept (max 1 (count_where (\<lambda>r. predicts r C_LIVE) rs))),
           (''live_recall'', if live_total = 0 then JNull else rate live_accept live_total),
           (''conclusive_rate'', of_all (count_where is_conclusive rs)),
           (''uncertain_rate'', of_all (count_where is_uncertain rs)),
           (''technical_error_rate'', of_all (count_where is_error rs)),
           (''latency_ms'', JObj (latency_stats (map (\<lambda>i. fl (of_int i)) (List.map_filter rr_latency_ms rs)))),
           (''confidence_buckets'', JObj buckets)])))"

section \<open>Breakdowns\<close>

fun at_least :: "rat \<Rightarrow> pyfloat option \<Rightarrow> bool" where
  "at_least t (Some (Fin q)) \<longleftrightarrow> t \<le> q"
| "at_least t (Some PosInf) \<longleftrightarrow> True"
| "at_least t _ \<longleftrightarrow> False"

fun filter_checked :: "('a \<Rightarrow> exn + bool) \<Rightarrow> 'a list \<Rightarrow> exn + 'a list" where
  "filter_checked p [] = Inr []"
| "filter_checked p (x # xs) = sum_bind (p x) (\<lambda>b. sum_bind (filter_checked p xs) (\<lambda>ys. Inr (if b then x # ys else ys)))"

definition high_confidence_errors :: "rat \<Rightarrow> result_record list \<Rightarrow> exn + result_record list" where
  "high_confidence_errors threshold rs =
     filter_checked (\<lambda>r. if at_least threshold (rr_confidence r) \<and> \<not> is_uncertain r \<and> \<not> is_error r
       then sum_bind (is_correct r) (\<lambda>ok. Inr (\<not> ok)) else Inr False) rs"

definition error_counts :: "result_record list \<Rightarrow> (string \<times> nat) list" where
  "error_counts rs =
     map (\<lambda>(e, xs). (e, length xs))
       (sort_key fst (group_on id (filter (\<lambda>e. e \<noteq> []) (List.map_filter rr_error rs))))"

definition named_errors :: "string list" where
  "named_errors = [''PROVIDER_TIMEOUT'', ''PROVIDER_RATE_LIMITED'', ''PROVIDER_AUTH_ERROR'', ''SCHEMA_VALIDATION_ERROR'']"

definition provider_reliability :: "result_record list \<Rightarrow> obj" where
  "provider_reliability rs =
     (let errors = error_counts rs; number = (\<lambda>e. jnat (case map_of errors e of None \<Rightarrow> 0 | Some n \<Rightarrow> n)) in
      [(''successful_requests'', jnat (count_where (\<lambda>r. \<not> is_error r) rs)), (''total_requests'', jnat (length rs)),
       (''timeouts'', number ''PROVIDER_TIMEOUT''), (''rate_limited'', number ''PROVIDER_RATE_LIMITED''),
       (''auth_errors'', number ''PROVIDER_AUTH_ERROR''), (''schema_failures'', number ''SCHEMA_VALIDATION_ERROR''),
       (''other_provider_errors'', JObj (map (\<lambda>(e, n). (e, jnat n)) (filter (\<lambda>(e, _). e \<notin> set named_errors) errors)))])"

text \<open>One sample under both strategies: the count it adds to, and whether each accepted a spoof.\<close>

definition last_with :: "string \<Rightarrow> result_record list \<Rightarrow> result_record option" where
  "last_with strategy rs = List.find (\<lambda>r. rr_frame_strategy r = strategy) (rev rs)"

definition pair_verdict :: "result_record list \<Rightarrow> exn + (string \<times> bool \<times> bool)" where
  "pair_verdict rs =
     (case (last_with ''single-quality-v1'' rs, last_with ''temporal-triad-v1'' rs) of
        (Some single, Some triad) \<Rightarrow>
          sum_bind (is_correct single) (\<lambda>s_ok.
          sum_bind (is_correct triad) (\<lambda>t_ok.
          sum_bind (spoof_accepted single) (\<lambda>s_spoof.
          sum_bind (spoof_accepted triad) (\<lambda>t_spoof.
            Inr (if s_ok \<and> t_ok then ''both_correct'' else if s_ok then ''single_correct_triad_wrong''
                 else if t_ok then ''single_wrong_triad_correct'' else ''both_wrong'', s_spoof, t_spoof)))))
      | _ \<Rightarrow> Inr (''not_paired'', False, False))"

definition paired_strategy_comparison :: "result_record list \<Rightarrow> exn + obj" where
  "paired_strategy_comparison rs =
     sum_bind (traverse pair_verdict (map snd (group_on (\<lambda>r. (rr_sample_id r, rr_provider r, rr_model r)) rs))) (\<lambda>vs.
       Inr [(''counts'', JObj (map (\<lambda>k. (k, jnat (count_where (\<lambda>v. fst v = k) vs)))
              [''both_correct'', ''single_correct_triad_wrong'', ''single_wrong_triad_correct'', ''both_wrong'', ''not_paired''])),
            (''paired_spoof_to_live'', JObj [(''single'', jnat (count_where (fst \<circ> snd) vs)),
              (''triad'', jnat (count_where (snd \<circ> snd) vs))])])"

definition metrics_of_groups :: "(string \<times> result_record list) list \<Rightarrow> exn + obj" where
  "metrics_of_groups gs = traverse (\<lambda>(k, rs). sum_bind (compute_metrics rs) (\<lambda>m. Inr (k, JObj m))) gs"

definition group_by_strategy :: "result_record list \<Rightarrow> exn + obj" where
  "group_by_strategy rs = metrics_of_groups (group_on rr_frame_strategy rs)"

definition group_by_provider :: "result_record list \<Rightarrow> exn + obj" where
  "group_by_provider rs = metrics_of_groups (sort_key fst (group_on (\<lambda>r. rr_provider r @ '':'' @ rr_model r) rs))"

definition group_by_class_and_strategy :: "result_record list \<Rightarrow> exn + obj" where
  "group_by_class_and_strategy rs =
     traverse (\<lambda>(strategy, rows).
       sum_bind (traverse (\<lambda>(label, xs). class_row label xs) (sort_key fst (group_on rr_ground_truth rows))) (\<lambda>cs.
         Inr (strategy, JArr (map JObj cs)))) (group_on rr_frame_strategy rs)"

end
