(* ===== verification/Vlm_Datasets.thy ===== *)
theory Vlm_Datasets
  imports Vlm_Metrics "HOL-Library.Multiset"
begin

text \<open>
  The datasets of the offline evaluation: manifests (\<open>app/experiments/vlm/manifest.py\<close>,
  \<open>validate_dataset.py\<close>) and their construction (\<open>app/experiments/vlm/datasets\<close>: label mapping, licence
  decision, sampling and splits, bootstrap). What is on disk comes in as arguments: the parsed lines of a
  file, whether a path is inside the root, exists and is a JPEG that decodes, and its digest. So do the
  generator of \<open>random.Random\<close> and the frames \<open>ffmpeg\<close> writes.
\<close>

section \<open>Labels\<close>

definition GROUND_TRUTH_LABELS :: "string list" where
  "GROUND_TRUTH_LABELS = [''LIVE'', ''SCREEN_MOBILE'', ''SCREEN_TABLET'', ''SCREEN_LAPTOP'', ''SCREEN_MONITOR'',
     ''SCREEN_DISPLAY'', ''PRINT_PHOTO'', ''PRINT_NEWSPAPER'', ''PRINT_MAGAZINE'']"

definition LABEL_MAPPING :: "(string \<times> string) list" where
  "LABEL_MAPPING =
     [(''live'', ''LIVE''), (''genuine'', ''LIVE''), (''real'', ''LIVE''), (''phone'', ''SCREEN_MOBILE''),
      (''mobile'', ''SCREEN_MOBILE''), (''mobile_replay'', ''SCREEN_MOBILE''), (''phone_replay'', ''SCREEN_MOBILE''),
      (''laptop'', ''SCREEN_LAPTOP''), (''pc'', ''SCREEN_LAPTOP''), (''laptop_replay'', ''SCREEN_LAPTOP''),
      (''pc_replay'', ''SCREEN_LAPTOP''), (''tablet'', ''SCREEN_TABLET''), (''pad'', ''SCREEN_TABLET''),
      (''tablet_replay'', ''SCREEN_TABLET''), (''monitor'', ''SCREEN_MONITOR''), (''monitor_replay'', ''SCREEN_MONITOR''),
      (''screen'', ''SCREEN_DISPLAY''), (''display'', ''SCREEN_DISPLAY''), (''screen_display'', ''SCREEN_DISPLAY''),
      (''display_replay'', ''SCREEN_DISPLAY''), (''screen_replay'', ''SCREEN_DISPLAY''), (''photo'', ''PRINT_PHOTO''),
      (''a4'', ''PRINT_PHOTO''), (''print'', ''PRINT_PHOTO''), (''print_photo'', ''PRINT_PHOTO''),
      (''newspaper'', ''PRINT_NEWSPAPER''), (''magazine'', ''PRINT_MAGAZINE'')]"

definition AMBIGUOUS_LABELS :: "string list" where
  "AMBIGUOUS_LABELS = [''screen_monitor_or_laptop'', ''monitor_or_laptop'', ''screen_or_print'']"

definition normalized_label :: "string \<Rightarrow> string" where
  "normalized_label s = map (\<lambda>c. if c = CHR '' '' \<or> c = CHR ''-'' then CHR ''_'' else c) (str_lower (str_strip s))"

definition map_label :: "string \<Rightarrow> string option \<times> bool" where
  "map_label source_label =
     (let n = normalized_label source_label in
      if n \<in> set AMBIGUOUS_LABELS then (None, True)
      else (map_of LABEL_MAPPING n, map_of LABEL_MAPPING n = None))"

section \<open>Licences\<close>

datatype license_state = ALLOWED_FOR_POC | ALLOWED_FOR_LOCAL_ONLY | REQUIRES_APPROVAL | NOT_ALLOWED | UNCLEAR

datatype external_processing = Ext_allowed | Ext_not_allowed | Ext_unclear

text \<open>The fields the code decides by; the descriptive texts are left out.\<close>

record dataset_descriptor =
  ds_name :: string
  ds_license_state :: license_state
  ds_external_vlm_processing :: external_processing
  ds_usage_purpose :: string

definition USAGE_PURPOSE :: string where "USAGE_PURPOSE = ''NON_COMMERCIAL_POC_RESEARCH''"

definition dataset :: "string \<Rightarrow> license_state \<Rightarrow> external_processing \<Rightarrow> dataset_descriptor" where
  "dataset name st ext = \<lparr>ds_name = name, ds_license_state = st, ds_external_vlm_processing = ext,
     ds_usage_purpose = USAGE_PURPOSE\<rparr>"

definition KNOWN_DATASETS :: "dataset_descriptor list" where
  "KNOWN_DATASETS =
     [dataset ''axon-face-anti-spoofing-sample'' ALLOWED_FOR_POC Ext_allowed,
      dataset ''celebA-spoof'' ALLOWED_FOR_LOCAL_ONLY Ext_not_allowed,
      dataset ''replay-attack'' REQUIRES_APPROVAL Ext_not_allowed, dataset ''replay-mobile'' REQUIRES_APPROVAL Ext_not_allowed,
      dataset ''oulu-npu'' REQUIRES_APPROVAL Ext_not_allowed, dataset ''siw'' REQUIRES_APPROVAL Ext_not_allowed]"

definition find_dataset :: "string \<Rightarrow> dataset_descriptor option" where
  "find_dataset name = map_of (map (\<lambda>d. (ds_name d, d)) (rev KNOWN_DATASETS)) name"

definition is_usable_for_external_vlm :: "dataset_descriptor \<Rightarrow> bool" where
  "is_usable_for_external_vlm d \<longleftrightarrow> ds_license_state d = ALLOWED_FOR_POC \<and> ds_external_vlm_processing d = Ext_allowed"

definition is_usable_for_local_only :: "dataset_descriptor \<Rightarrow> bool" where
  "is_usable_for_local_only d \<longleftrightarrow> ds_license_state d \<in> {ALLOWED_FOR_POC, ALLOWED_FOR_LOCAL_ONLY}"

definition review_required :: "dataset_descriptor \<Rightarrow> bool" where
  "review_required d \<longleftrightarrow> ds_license_state d \<in> {UNCLEAR, REQUIRES_APPROVAL}"

text \<open>The decision by its kind, in the place of its text.\<close>

datatype license_decision = Review_required | Compatible | Local_only | Needs_approval | Prohibited | Insufficient

definition evaluate_dataset :: "string \<Rightarrow> dataset_descriptor \<times> license_decision" where
  "evaluate_dataset name = (case find_dataset name of
     None \<Rightarrow> (dataset name UNCLEAR Ext_unclear, Review_required)
   | Some d \<Rightarrow> (d,
       if is_usable_for_external_vlm d then Compatible
       else if ds_license_state d = ALLOWED_FOR_LOCAL_ONLY then Local_only
       else if ds_license_state d = REQUIRES_APPROVAL then Needs_approval
       else if ds_license_state d = NOT_ALLOWED then Prohibited else Insufficient))"

definition require_usable_dataset :: "string \<Rightarrow> dataset_descriptor option" where
  "require_usable_dataset name =
     (let d = fst (evaluate_dataset name) in if is_usable_for_external_vlm d then Some d else None)"

section \<open>Sampling\<close>

text \<open>\<open>random.Random(seed)\<close> and \<open>shuffle\<close>, which also advances the generator.\<close>

record ('rng, 'a) generator =
  gn_seeded :: "int \<Rightarrow> 'rng"
  gn_shuffle :: "'rng \<Rightarrow> 'a list \<Rightarrow> 'a list \<times> 'rng"

definition shuffles :: "('rng, 'a) generator \<Rightarrow> bool" where
  "shuffles g \<longleftrightarrow> (\<forall>r xs. mset (fst (gn_shuffle g r xs)) = mset xs)"

definition sorted_groups :: "('a \<Rightarrow> string) \<Rightarrow> 'a list \<Rightarrow> (string \<times> 'a list) list" where
  "sorted_groups key items = sort_key fst (group_on key items)"

fun shuffle_groups :: "('rng, 'a) generator \<Rightarrow> 'rng \<Rightarrow> 'a list list \<Rightarrow> 'a list list" where
  "shuffle_groups g r [] = []"
| "shuffle_groups g r (xs # xss) = (case gn_shuffle g r xs of (ys, r') \<Rightarrow> ys # shuffle_groups g r' xss)"

text \<open>One round takes the item at \<open>index\<close> of every group that has one.\<close>

definition round_at :: "nat \<Rightarrow> 'a list list \<Rightarrow> 'a list" where
  "round_at index groups = map (\<lambda>xs. xs ! index) (filter (\<lambda>xs. index < length xs) groups)"

function rounds :: "nat \<Rightarrow> 'a list list \<Rightarrow> nat \<Rightarrow> 'a list \<Rightarrow> 'a list" where
  "rounds k groups index result =
     (if k \<le> length result then result
      else if round_at index groups = [] then result
      else rounds k groups (Suc index) (take k (result @ round_at index groups)))"
  by pat_completeness auto
termination
  by (relation "measure (\<lambda>(k, groups, index, result). k - length result)") (auto simp: min_def length_greater_0_conv[symmetric]
      simp del: length_greater_0_conv)

declare rounds.simps [simp del]

definition diverse_sample :: "('rng, 'a) generator \<Rightarrow> ('a \<Rightarrow> string) \<Rightarrow> int \<Rightarrow> int \<Rightarrow> 'a list \<Rightarrow> 'a list" where
  "diverse_sample g key k seed items =
     (if k \<le> 0 \<or> items = [] then []
      else rounds (nat k) (shuffle_groups g (gn_seeded g seed) (map snd (sorted_groups key items))) 0 [])"

definition iter_unique_sources :: "('a \<Rightarrow> string) \<Rightarrow> 'a list \<Rightarrow> string list" where
  "iter_unique_sources key items = sort (remdups (map key items))"

definition holdout_count :: "nat \<Rightarrow> rat \<Rightarrow> nat" where
  "holdout_count n fraction = nat (max 1 (round_half_even (fl (of_nat n * fraction))))"

definition split_dev_holdout ::
  "('rng, string) generator \<Rightarrow> ('a \<Rightarrow> string) \<Rightarrow> rat \<Rightarrow> int \<Rightarrow> 'a list \<Rightarrow> 'a list \<times> 'a list" where
  "split_dev_holdout g key fraction seed items =
     (let groups = group_on key items;
          keys = fst (gn_shuffle g (gn_seeded g seed) (sort (map fst groups)));
          held = set (take (holdout_count (length keys) fraction) keys)
      in (concat (map snd (filter (\<lambda>(k, _). k \<notin> held) groups)), concat (map snd (filter (\<lambda>(k, _). k \<in> held) groups))))"

section \<open>Manifests\<close>

record dataset_sample =
  sm_sample_id :: string
  sm_label :: string
  sm_frames :: "string list"
  sm_split :: "string option"
  sm_source_dataset :: "string option"
  sm_prompt_injection :: bool

text \<open>
  \<open>DatasetSample.model_validate\<close>: pydantic's reading of the fields that only describe a sample is the
  argument \<open>others_ok\<close>, its lax reading of a boolean is \<open>lax_bool\<close>.
\<close>

definition opt_text_field :: "runtime \<Rightarrow> obj \<Rightarrow> string \<Rightarrow> string option option" where
  "opt_text_field rt ob k = (case jget_n ob k of JNull \<Rightarrow> Some None | v \<Rightarrow> map_option Some (str_text rt v))"

definition texts :: "runtime \<Rightarrow> json \<Rightarrow> string list option" where
  "texts rt v = (case v of JArr xs \<Rightarrow> those (map (str_text rt) xs) | _ \<Rightarrow> None)"

definition validate_sample :: "runtime \<Rightarrow> (json \<Rightarrow> bool option) \<Rightarrow> (obj \<Rightarrow> bool) \<Rightarrow> obj \<Rightarrow> dataset_sample option" where
  "validate_sample rt lax_bool others_ok ob =
     (case (Option.bind (jget ob ''sample_id'') (str_text rt), Option.bind (jget ob ''label'') (str_text rt),
            texts rt (jget_d ob ''frames'' (JArr [])), opt_text_field rt ob ''split'', opt_text_field rt ob ''source_dataset'',
            lax_bool (jget_d ob ''prompt_injection'' (JBool False))) of
        (Some sid, Some label, Some frames, Some split, Some source, Some injection) \<Rightarrow>
          if label \<in> set GROUND_TRUTH_LABELS \<and> split \<in> {None, Some ''dev'', Some ''holdout''} \<and> others_ok ob
          then Some \<lparr>sm_sample_id = sid, sm_label = label, sm_frames = frames, sm_split = split,
                     sm_source_dataset = source, sm_prompt_injection = injection\<rparr>
          else None
      | _ \<Rightarrow> None)"

text \<open>
  A line that is blank is skipped; a line that is not JSON raises. \<open>resolved\<close> is the path below the
  manifest's directory.
\<close>

datatype manifest_line = Blank | Not_json | Line json

fun load_manifest :: "runtime \<Rightarrow> (obj \<Rightarrow> dataset_sample option) \<Rightarrow> (string \<Rightarrow> string) \<Rightarrow> manifest_line list \<Rightarrow> exn + dataset_sample list" where
  "load_manifest rt validate resolved [] = Inr []"
| "load_manifest rt validate resolved (Blank # ls) = load_manifest rt validate resolved ls"
| "load_manifest rt validate resolved (Line (JObj raw) # ls) =
     sum_bind (py_list rt (jget_d raw ''frames'' (JArr []))) (\<lambda>vs.
     sum_bind (case those (map (str_text rt) vs) of None \<Rightarrow> Inl TypeErr | Some fs \<Rightarrow> Inr fs) (\<lambda>fs.
     sum_bind (case validate (jput ''frames'' (JArr (map (JStr \<circ> resolved) fs)) raw) of None \<Rightarrow> Inl ValueErr | Some s \<Rightarrow> Inr s) (\<lambda>s.
     sum_bind (load_manifest rt validate resolved ls) (\<lambda>rest. Inr (s # rest)))))"
| "load_manifest rt validate resolved (Not_json # ls) = Inl ValueErr"
| "load_manifest rt validate resolved (Line _ # ls) = Inl AttributeErr"

section \<open>Validation of a manifest\<close>

record frame_files =
  ff_inside :: "string \<Rightarrow> bool"
  ff_exists :: "string \<Rightarrow> bool"
  ff_bytes :: "string \<Rightarrow> bytes"
  ff_verifies :: "string \<Rightarrow> bool"
  ff_digest :: "string \<Rightarrow> string"

definition manifest_image_ok :: "frame_files \<Rightarrow> string \<Rightarrow> bool" where
  "manifest_image_ok ff frame \<longleftrightarrow> take 3 (ff_bytes ff frame) = jpeg_signature \<and> ff_verifies ff frame"

text \<open>The errors by their kind, with the line; the code renders them as texts.\<close>

datatype manifest_error = Schema_error nat | Duplicate_id nat string | No_frames nat | Path_traversal nat string

record validation_state =
  vs_seen :: "string list"
  vs_hashes :: "(string \<times> string list) list"
  vs_missing :: "string list"
  vs_invalid :: "string list"
  vs_errors :: "manifest_error list"
  vs_classes :: "(string \<times> nat) list"
  vs_splits :: "(string \<times> nat) list"
  vs_sources :: "string list"

definition bump :: "string \<Rightarrow> (string \<times> nat) list \<Rightarrow> (string \<times> nat) list" where
  "bump k ns = AList.update k (Suc (case map_of ns k of None \<Rightarrow> 0 | Some n \<Rightarrow> n)) ns"

definition check_frame :: "frame_files \<Rightarrow> nat \<Rightarrow> string \<Rightarrow> string \<Rightarrow> validation_state \<Rightarrow> validation_state" where
  "check_frame ff line_no sid frame st =
     (if \<not> ff_inside ff frame then st\<lparr>vs_errors := vs_errors st @ [Path_traversal line_no frame]\<rparr>
      else if \<not> ff_exists ff frame then st\<lparr>vs_missing := vs_missing st @ [frame]\<rparr>
      else if \<not> manifest_image_ok ff frame then st\<lparr>vs_invalid := vs_invalid st @ [frame]\<rparr>
      else st\<lparr>vs_hashes := add_to_group (ff_digest ff frame) sid (vs_hashes st)\<rparr>)"

text \<open>The checks of label and split again are not reached: the schema has refused other values.\<close>

definition check_sample :: "frame_files \<Rightarrow> nat \<Rightarrow> dataset_sample \<Rightarrow> validation_state \<Rightarrow> validation_state" where
  "check_sample ff line_no s st =
     (let sid = sm_sample_id s;
          st1 = (if sid \<in> set (vs_seen st) then st\<lparr>vs_errors := vs_errors st @ [Duplicate_id line_no sid]\<rparr>
                 else st\<lparr>vs_seen := vs_seen st @ [sid]\<rparr>);
          st2 = st1\<lparr>vs_classes := bump (sm_label s) (vs_classes st1)\<rparr>;
          st3 = (case sm_split s of Some (c # cs) \<Rightarrow> st2\<lparr>vs_splits := bump (c # cs) (vs_splits st2)\<rparr> | _ \<Rightarrow> st2);
          st4 = (case sm_source_dataset s of
                   Some (c # cs) \<Rightarrow> st3\<lparr>vs_sources := List.insert (c # cs) (vs_sources st3)\<rparr> | _ \<Rightarrow> st3);
          st5 = (if sm_frames s = [] then st4\<lparr>vs_errors := vs_errors st4 @ [No_frames line_no]\<rparr> else st4)
      in fold (check_frame ff line_no sid) (sm_frames s) st5)"

fun check_lines :: "(obj \<Rightarrow> dataset_sample option) \<Rightarrow> frame_files \<Rightarrow> nat \<Rightarrow> manifest_line list \<Rightarrow> validation_state \<Rightarrow> exn + validation_state" where
  "check_lines validate ff n [] st = Inr st"
| "check_lines validate ff n (Blank # ls) st = check_lines validate ff (Suc n) ls st"
| "check_lines validate ff n (Not_json # ls) st = Inl ValueErr"
| "check_lines validate ff n (Line j # ls) st =
     (case (case j of JObj ob \<Rightarrow> validate ob | _ \<Rightarrow> None) of
        None \<Rightarrow> check_lines validate ff (Suc n) ls (st\<lparr>vs_errors := vs_errors st @ [Schema_error n]\<rparr>)
      | Some s \<Rightarrow> check_lines validate ff (Suc n) ls (check_sample ff n s st))"

definition empty_validation :: validation_state where
  "empty_validation = \<lparr>vs_seen = [], vs_hashes = [], vs_missing = [], vs_invalid = [], vs_errors = [], vs_classes = [],
     vs_splits = [], vs_sources = []\<rparr>"

text \<open>What the report is made of, and whether \<open>main\<close> ends without complaint.\<close>

definition validate_manifest :: "(obj \<Rightarrow> dataset_sample option) \<Rightarrow> frame_files \<Rightarrow> manifest_line list \<Rightarrow> exn + validation_state" where
  "validate_manifest validate ff ls = check_lines validate ff 1 ls empty_validation"

definition duplicate_frames :: "validation_state \<Rightarrow> (string \<times> string list) list" where
  "duplicate_frames st = map (\<lambda>(d, ids). (d, sort (remdups ids))) (filter (\<lambda>(_, ids). 1 < length ids) (vs_hashes st))"

definition counts_json :: "(string \<times> nat) list \<Rightarrow> json" where
  "counts_json ns = JObj (map (\<lambda>(k, n). (k, JInt (int n))) (sort_key fst ns))"

definition validation_report :: "(manifest_error \<Rightarrow> string) \<Rightarrow> string \<Rightarrow> validation_state \<Rightarrow> obj" where
  "validation_report error_text manifest st =
     [(''manifest'', JStr manifest), (''total_samples'', JInt (int (length (vs_seen st)))),
      (''class_counts'', counts_json (vs_classes st)), (''split_counts'', counts_json (vs_splits st)),
      (''source_datasets'', JArr (map JStr (sort (vs_sources st)))),
      (''duplicate_count'', JInt (int (length (duplicate_frames st)))),
      (''duplicates'', JArr (map (\<lambda>(d, ids). JObj [(''sha256'', JStr d), (''sample_ids'', JArr (map JStr ids))]) (duplicate_frames st))),
      (''missing_files'', JArr (map JStr (take 100 (vs_missing st)))), (''missing_file_count'', JInt (int (length (vs_missing st)))),
      (''invalid_images'', JArr (map JStr (take 100 (vs_invalid st)))), (''invalid_image_count'', JInt (int (length (vs_invalid st)))),
      (''validation_errors'', JArr (map (JStr \<circ> error_text) (take 100 (vs_errors st)))),
      (''validation_error_count'', JInt (int (length (vs_errors st)))), (''license_status'', JStr ''REVIEWED_IN_BOOTSTRAP'')]"

definition manifest_accepted :: "validation_state \<Rightarrow> bool" where
  "manifest_accepted st \<longleftrightarrow> vs_errors st = [] \<and> vs_missing st = [] \<and> vs_invalid st = []"

section \<open>Bootstrap\<close>

record raw_source_item =
  rw_sample_id :: string
  rw_source_dataset :: string
  rw_source_label :: string
  rw_frames :: "string list"
  rw_subject_alias :: "string option"
  rw_capture_device_class :: "string option"
  rw_presentation_device_class :: "string option"
  rw_presentation_border_visible :: "bool option"
  rw_lighting :: "string option"
  rw_prompt_injection :: bool

definition subject_key :: "raw_source_item \<Rightarrow> string" where
  "subject_key it = (case rw_subject_alias it of Some (c # cs) \<Rightarrow> c # cs | _ \<Rightarrow> rw_sample_id it)"

definition mapped_items :: "raw_source_item list \<Rightarrow> (raw_source_item \<times> string) list" where
  "mapped_items items = List.map_filter (\<lambda>it. map_option (Pair it) (fst (map_label (rw_source_label it)))) items"

definition dropped_items :: "raw_source_item list \<Rightarrow> json list" where
  "dropped_items items = map (\<lambda>it. JObj [(''sample_id'', JStr (rw_sample_id it)), (''source_label'', JStr (rw_source_label it)),
       (''reason'', JStr (if snd (map_label (rw_source_label it)) then ''ambiguous'' else ''unmapped''))])
     (filter (\<lambda>it. fst (map_label (rw_source_label it)) = None) items)"

record bootstrap_config =
  bc_dataset_name :: string
  bc_samples_per_class :: "(string \<times> int) list"
  bc_holdout_fraction :: rat
  bc_seed :: int

definition wanted :: "bootstrap_config \<Rightarrow> string \<Rightarrow> int" where
  "wanted cfg label = (case map_of (bc_samples_per_class cfg) label of None \<Rightarrow> 0 | Some k \<Rightarrow> k)"

definition select_items ::
  "('rng, raw_source_item \<times> string) generator \<Rightarrow> bootstrap_config \<Rightarrow> raw_source_item list \<Rightarrow> (raw_source_item \<times> string) list" where
  "select_items g cfg items =
     concat (map (\<lambda>(label, members). diverse_sample g (subject_key \<circ> fst) (wanted cfg label) (bc_seed cfg) members)
       (sort_key fst (group_on snd (mapped_items items))))"

text \<open>\<open>Path.suffix\<close>: from the last dot of the name, unless it is its first or last character.\<close>

definition path_name :: "string \<Rightarrow> string" where
  "path_name path = (let parts = filter (\<lambda>p. p \<notin> {[], ''.''}) (split_on CHR ''/'' path) in if parts = [] then [] else last parts)"

definition dot_parts :: "string \<Rightarrow> (string \<times> string) option" where
  "dot_parts name =
     (let parts = split_on CHR ''.'' name; suffix = last parts; n = length name - length suffix - 1 in
      if length parts < 2 \<or> suffix = [] \<or> n = 0 then None else Some (take n name, CHR ''.'' # suffix))"

definition path_suffix :: "string \<Rightarrow> string" where
  "path_suffix path = (case dot_parts (path_name path) of None \<Rightarrow> [] | Some (_, suffix) \<Rightarrow> suffix)"

definition path_stem :: "string \<Rightarrow> string" where
  "path_stem path = (case dot_parts (path_name path) of None \<Rightarrow> path_name path | Some (stem, _) \<Rightarrow> stem)"

definition is_video :: "string \<Rightarrow> bool" where
  "is_video path \<longleftrightarrow> str_lower (path_suffix path) \<in> {''.mp4'', ''.mov'', ''.webm'', ''.mkv'', ''.avi''}"

text \<open>
  The duration \<open>ffmpeg\<close> prints: the first line with \<open>Duration:\<close> decides, and a text of it that is not three
  floats is no duration. \<open>to_float\<close> is Python's \<open>float\<close>.
\<close>

fun after :: "string \<Rightarrow> string \<Rightarrow> string option" where
  "after marker [] = (if marker = [] then Some [] else None)"
| "after marker (c # cs) =
     (if take (length marker) (c # cs) = marker then Some (drop (length marker) (c # cs)) else after marker cs)"

fun up_to :: "string \<Rightarrow> string \<Rightarrow> string" where
  "up_to marker [] = []"
| "up_to marker (c # cs) = (if take (length marker) (c # cs) = marker then [] else c # up_to marker cs)"

fun probe_duration :: "(string \<Rightarrow> rat option) \<Rightarrow> string list \<Rightarrow> rat option" where
  "probe_duration to_float [] = None"
| "probe_duration to_float (line # ls) =
     (case after ''Duration:'' line of
        None \<Rightarrow> probe_duration to_float ls
      | Some rest \<Rightarrow>
          (case map to_float (split_on CHR '':'' (str_strip (hd (split_on CHR '','' (up_to ''Duration:'' rest))))) of
             [Some h, Some m, Some s] \<Rightarrow> Some (fl (fl (fl (h * 3600) + fl (m * 60)) + s))
           | _ \<Rightarrow> None))"

definition FRAME_TIMESTAMPS :: "rat list" where "FRAME_TIMESTAMPS = [1/4, 1/2, 3/4]"

definition pad :: "nat \<Rightarrow> nat \<Rightarrow> string" where
  "pad w n = (let d = nat_digits n in replicate (w - length d) CHR ''0'' @ d)"

text \<open>
  \<open>extract_video_frames\<close>: \<open>ffmpeg\<close> is \<open>None\<close> when it is not installed, else the lines it prints for a video and
  whether it wrote the frame at a time of the video to a file. \<open>None\<close> is the \<open>RuntimeError\<close>.
\<close>

record ffmpeg =
  fg_probe :: "string \<Rightarrow> string list"
  fg_extract :: "string \<Rightarrow> rat \<Rightarrow> string \<Rightarrow> bool"

definition extract_video_frames :: "(string \<Rightarrow> rat option) \<Rightarrow> ffmpeg option \<Rightarrow> string \<Rightarrow> string \<Rightarrow> string list option" where
  "extract_video_frames to_float tool video_path output_dir = (case tool of
     None \<Rightarrow> None
   | Some fg \<Rightarrow> (case probe_duration to_float (fg_probe fg video_path) of
       None \<Rightarrow> None
     | Some duration \<Rightarrow>
         if duration \<le> 0 then None
         else (let targets = map (\<lambda>(i, fraction). (fl (fraction * duration), output_dir @ ''/'' @ path_stem video_path @ ''-'' @ pad 2 i @ ''.jpg''))
                     (enumerate 0 FRAME_TIMESTAMPS);
                   frames = map snd (filter (\<lambda>(time, target). fg_extract fg video_path time target) targets)
               in if frames = [] then None else Some frames)))"

text \<open>
  The frames of a row: a video's extracted ones, a still image's copy, numbered by those before it; paths are
  relative to the output directory.
\<close>

fun row_frames :: "(string \<Rightarrow> string \<Rightarrow> string list option) \<Rightarrow> string \<Rightarrow> string list \<Rightarrow> string list \<Rightarrow> string list option" where
  "row_frames extracted sid [] fs = Some fs"
| "row_frames extracted sid (f # rest) fs =
     (if is_video f
      then (case extracted f (''samples/'' @ sid) of None \<Rightarrow> None | Some new \<Rightarrow> row_frames extracted sid rest (fs @ new))
      else row_frames extracted sid rest (fs @ [''samples/'' @ sid @ ''-'' @ nat_digits (length fs) @ ''.jpg'']))"

definition license_state_value :: "license_state \<Rightarrow> string" where
  "license_state_value l = (case l of ALLOWED_FOR_POC \<Rightarrow> ''ALLOWED_FOR_POC'' | ALLOWED_FOR_LOCAL_ONLY \<Rightarrow> ''ALLOWED_FOR_LOCAL_ONLY''
     | REQUIRES_APPROVAL \<Rightarrow> ''REQUIRES_APPROVAL'' | NOT_ALLOWED \<Rightarrow> ''NOT_ALLOWED'' | UNCLEAR \<Rightarrow> ''UNCLEAR'')"

definition bootstrap_row :: "bootstrap_config \<Rightarrow> dataset_descriptor \<Rightarrow> string set \<Rightarrow> nat \<Rightarrow> raw_source_item \<times> string \<Rightarrow> string list \<Rightarrow> obj" where
  "bootstrap_row cfg d held index pair frames =
     (let it = fst pair; canonical = snd pair in
     [(''sample_id'', JStr (bc_dataset_name cfg @ ''-'' @ pad 3 index)), (''source_dataset'', JStr (rw_source_dataset it)),
      (''source_sample_id'', JStr (rw_sample_id it)), (''source_label'', JStr (rw_source_label it)),
      (''canonical_label'', JStr canonical), (''label'', JStr canonical),
      (''split'', JStr (if rw_sample_id it \<in> held then ''holdout'' else ''dev'')),
      (''subject_alias'', jopt (rw_subject_alias it)), (''capture_device_class'', jopt (rw_capture_device_class it)),
      (''presentation_device_class'', jopt (rw_presentation_device_class it)),
      (''presentation_border_visible'', case rw_presentation_border_visible it of None \<Rightarrow> JNull | Some b \<Rightarrow> JBool b),
      (''lighting'', jopt (rw_lighting it)), (''prompt_injection'', JBool (rw_prompt_injection it)),
      (''license_status'', JStr (license_state_value (ds_license_state d))), (''usage_purpose'', JStr (ds_usage_purpose d)),
      (''frames'', JArr (map JStr frames))])"

text \<open>The rows of the manifest and what else is recorded; no licence and no frames end it with an error.\<close>

datatype bootstrap_error = Unlicensed | No_frames_extracted

fun bootstrap_rows ::
  "bootstrap_config \<Rightarrow> dataset_descriptor \<Rightarrow> string set \<Rightarrow> (string \<Rightarrow> string \<Rightarrow> string list option) \<Rightarrow> nat
    \<Rightarrow> (raw_source_item \<times> string) list \<Rightarrow> bootstrap_error + obj list" where
  "bootstrap_rows cfg d held extracted index [] = Inr []"
| "bootstrap_rows cfg d held extracted index (pair # pairs) =
     (case row_frames extracted (rw_sample_id (fst pair)) (rw_frames (fst pair)) [] of
        None \<Rightarrow> Inl No_frames_extracted
      | Some frames \<Rightarrow> sum_bind (bootstrap_rows cfg d held extracted (Suc index) pairs)
          (\<lambda>rows. Inr (bootstrap_row cfg d held index pair frames # rows)))"

definition bootstrap_split ::
  "('rng, raw_source_item \<times> string) generator \<Rightarrow> ('rng, string) generator \<Rightarrow> bootstrap_config \<Rightarrow> raw_source_item list
    \<Rightarrow> (raw_source_item \<times> string) list \<times> (raw_source_item \<times> string) list" where
  "bootstrap_split g gk cfg items =
     split_dev_holdout gk (subject_key \<circ> fst) (bc_holdout_fraction cfg) (bc_seed cfg) (select_items g cfg items)"

definition build_manifest ::
  "('rng, raw_source_item \<times> string) generator \<Rightarrow> ('rng, string) generator \<Rightarrow> (string \<Rightarrow> string \<Rightarrow> string list option)
    \<Rightarrow> bootstrap_config \<Rightarrow> raw_source_item list \<Rightarrow> bootstrap_error + obj list" where
  "build_manifest g gk extracted cfg items =
     (case require_usable_dataset (bc_dataset_name cfg) of
        None \<Rightarrow> Inl Unlicensed
      | Some d \<Rightarrow>
          (let (dev, holdout) = bootstrap_split g gk cfg items
           in bootstrap_rows cfg d ((rw_sample_id \<circ> fst) ` set holdout) extracted 1 (dev @ holdout)))"

definition bootstrap_metadata :: "bootstrap_config \<Rightarrow> raw_source_item list \<Rightarrow> obj" where
  "bootstrap_metadata cfg items =
     [(''dataset_name'', JStr (bc_dataset_name cfg)), (''sampling_seed'', JInt (bc_seed cfg)),
      (''sampling_version'', JStr ''sampling-v1''), (''split_version'', JStr ''split-v1''),
      (''frame_extraction_version'', JStr ''frame-extraction-v1''), (''holdout_fraction'', JFloat (Fin (bc_holdout_fraction cfg))),
      (''dropped_samples'', JArr (dropped_items items))]"

section \<open>The public sample\<close>

definition SUBSET :: "(string \<times> string list) list" where
  "SUBSET =
     [(''live'', map (\<lambda>n. ''Selfies/Selfie_'' @ nat_digits n @ ''.jpg'') ([1..<8] @ [9..<26])),
      (''mobile'', map (\<lambda>f. ''Replay_mobile_attacks/Galaxy_a54-Pixel7/'' @ f)
        [''20241126_030439.mp4'', ''20241126_030501.mp4'', ''20241126_030523.mp4'', ''20241126_030546.mp4'', ''20241126_030612.mp4'',
         ''20241126_030629.mp4'', ''20241126_030652.mp4'', ''20241126_030713.mp4'', ''20241126_030745.mp4'', ''20241126_030805.mp4'']),
      (''screen_display'', map (\<lambda>f. ''Replay_display_attacks/Screen/'' @ f)
        [''20240823_194131.mp4'', ''20240823_194241.mp4'', ''IMG_5915.MOV'', ''IMG_5987.MOV'', ''VID_20240823_171603.mp4''])]"

definition CAPTURE_DEVICE_BY_SOURCE :: "(string \<times> string) list" where
  "CAPTURE_DEVICE_BY_SOURCE = [(''live'', ''mobile''), (''mobile'', ''mobile''), (''screen_display'', ''unknown'')]"

definition PRESENTATION_DEVICE_BY_SOURCE :: "(string \<times> string) list" where
  "PRESENTATION_DEVICE_BY_SOURCE = [(''live'', ''NONE''), (''mobile'', ''mobile''), (''screen_display'', ''display'')]"

definition file_stem :: "string \<Rightarrow> string" where
  "file_stem relative = hd (split_on CHR ''.'' (last (split_on CHR ''/'' relative)))"

definition axon_item :: "string \<Rightarrow> string \<Rightarrow> string \<Rightarrow> raw_source_item" where
  "axon_item download_root source_label relative =
     \<lparr>rw_sample_id = file_stem relative, rw_source_dataset = ''axon-face-anti-spoofing-sample'', rw_source_label = source_label,
      rw_frames = [download_root @ ''/'' @ relative], rw_subject_alias = Some (file_stem relative),
      rw_capture_device_class = map_of CAPTURE_DEVICE_BY_SOURCE source_label,
      rw_presentation_device_class = map_of PRESENTATION_DEVICE_BY_SOURCE source_label,
      rw_presentation_border_visible = None, rw_lighting = None, rw_prompt_injection = False\<rparr>"

definition axon_items :: "string \<Rightarrow> raw_source_item list" where
  "axon_items download_root = concat (map (\<lambda>(label, paths). map (axon_item download_root label) paths) SUBSET)"

end
