(* ===== verification/Vlm_Run.thy ===== *)
theory Vlm_Run
  imports Vlm_Datasets "HOL-Library.Product_Lexorder"
begin

text \<open>
  The runner of the offline evaluation (\<open>app/experiments/vlm/run.py\<close>) and what its reports
  (\<open>app/experiments/vlm/reports.py\<close>) hold; their texts are in Vlm_Reports. A task is
  taken to run without another one in between; the order in which the semaphore lets them run is an
  argument. Log lines and the waiting itself are left out.
\<close>

section \<open>Rate limit\<close>

text \<open>The interval between requests and one \<open>acquire\<close>: the time to wait and the new \<open>_next_at\<close>.\<close>

definition limiter_interval :: "rat \<Rightarrow> rat" where
  "limiter_interval rps = (if rps > 0 then fl (1 / rps) else 0)"

definition acquire :: "rat \<Rightarrow> rat \<Rightarrow> rat \<Rightarrow> rat \<times> rat" where
  "acquire interval now next_at =
     (if interval \<le> 0 then (0, next_at) else (max 0 (fl (next_at - now)), fl (max now next_at + interval)))"

section \<open>Samples\<close>

text \<open>\<open>xs[:k]\<close>, which counts from the end when \<open>k\<close> is negative.\<close>

definition slice_to :: "int \<Rightarrow> 'a list \<Rightarrow> 'a list" where
  "slice_to k xs = (if k < 0 then take (length xs - nat (- k)) xs else take (nat k) xs)"

definition sample_key :: "dataset_sample \<Rightarrow> string \<Rightarrow> string \<Rightarrow> string \<Rightarrow> json list" where
  "sample_key s provider model strategy = map JStr [sm_sample_id s, provider, model, PROMPT_VERSION, strategy]"

text \<open>The lines of the results file; a line that is JSON but no object has no \<open>get\<close>.\<close>

definition result_key :: "obj \<Rightarrow> json list" where
  "result_key ob = map (jget_n ob) [''sample_id'', ''provider'', ''model'', ''prompt_version'', ''frame_strategy'']"

fun load_completed :: "manifest_line list \<Rightarrow> exn + json list set" where
  "load_completed [] = Inr {}"
| "load_completed (Line (JObj ob) # ls) =
     sum_bind (load_completed ls) (\<lambda>ks. Inr (if truthy (jget_n ob ''error'') then ks else insert (result_key ob) ks))"
| "load_completed (Line _ # ls) = Inl AttributeErr"
| "load_completed (_ # ls) = load_completed ls"

text \<open>The earlier results without an error; \<open>ResultRecord.model_validate\<close> is the argument \<open>validate_record\<close>.\<close>

fun prior_successes :: "(json \<Rightarrow> result_record option) \<Rightarrow> manifest_line list \<Rightarrow> result_record list" where
  "prior_successes validate_record [] = []"
| "prior_successes validate_record (Line j # ls) =
     (case validate_record j of
        Some r \<Rightarrow> if rr_error r = None then r # prior_successes validate_record ls else prior_successes validate_record ls
      | None \<Rightarrow> prior_successes validate_record ls)"
| "prior_successes validate_record (_ # ls) = prior_successes validate_record ls"

text \<open>
  The frames of a sample; the search of \<open>select_temporal_triad\<close> for an unused index ends
  (\<open>Vision_Properties\<close>), so its branch \<open>None\<close> is not taken.
\<close>

definition read_sample_frames :: "(string \<Rightarrow> bytes) \<Rightarrow> dataset_sample \<Rightarrow> string \<Rightarrow> exn + image_input list" where
  "read_sample_frames contents s strategy =
     (case (if strategy = ''single-quality-v1'' then Some (select_single_frame (sm_frames s))
            else select_temporal_triad (sm_frames s)) of
        None \<Rightarrow> Inl LibraryErr
      | Some selected \<Rightarrow> Inr (map (\<lambda>(i, path). \<lparr>im_bytes = contents path, im_mime_type = ''image/jpeg'', im_sequence = Some (int i)\<rparr>)
          (enumerate 0 selected)))"

section \<open>Evaluation\<close>

record run_environment =
  rn_settings :: settings
  rn_libs :: provider_libraries
  rn_contents :: "string \<Rightarrow> bytes"

definition run_record :: "dataset_sample \<Rightarrow> int option \<Rightarrow> string \<Rightarrow> string \<Rightarrow> string \<Rightarrow> result_record" where
  "run_record s repetition provider model strategy =
     \<lparr>rr_sample_id = sm_sample_id s, rr_ground_truth = sm_label s, rr_predicted = None, rr_attack_medium = None,
      rr_provider = provider, rr_model = model, rr_prompt_version = PROMPT_VERSION, rr_frame_strategy = strategy,
      rr_confidence = None, rr_latency_ms = None, rr_error = None, rr_repetition = repetition\<rparr>"

definition record_result :: "result_record \<Rightarrow> experiment_result \<Rightarrow> int \<Rightarrow> result_record" where
  "record_result r x latency = r\<lparr>rr_predicted := map_option vlm_classification_value (xr_classification x),
     rr_attack_medium := map_option attack_medium_value (xr_attack_medium x), rr_confidence := xr_confidence x,
     rr_latency_ms := Some latency, rr_error := map_option vlm_error_value (xr_error x)\<rparr>"

text \<open>
  \<open>run_one\<close>: nothing for a sample that is completed; a \<open>VlmError\<close> of the service is the record's error. The
  service's latency is the time its provider call takes.
\<close>

definition run_one ::
  "runtime \<Rightarrow> run_environment \<Rightarrow> string \<Rightarrow> string \<Rightarrow> string \<Rightarrow> json list set \<Rightarrow> dataset_sample \<times> int option \<Rightarrow> result_record option M" where
  "run_one rt en provider model strategy completed pair =
     (let s = fst pair; r = run_record s (snd pair) provider model strategy in
      if sample_key s provider model strategy \<in> completed then ret None
      else bnd (lift (read_sample_frames (rn_contents en) s strategy)) (\<lambda>frames.
        catch
          (bnd (gets clock) (\<lambda>started.
           bnd (service_evaluate rt (get_vision_provider rt (rn_libs en)) (rn_settings en)
              \<lparr>er_strategy = strategy, er_provider = provider, er_mock_behavior = [], er_frames = frames\<rparr>) (\<lambda>x.
           bnd (gets clock) (\<lambda>now. ret (Some (record_result r x ((now - started) div 1000)))))))
          (\<lambda>e. (case e of VlmError code _ \<Rightarrow> ret (Some (r\<lparr>rr_error := Some (vlm_error_value code)\<rparr>)) | _ \<Rightarrow> raise e))))"

fun run_tasks ::
  "runtime \<Rightarrow> run_environment \<Rightarrow> string \<Rightarrow> string \<Rightarrow> string \<Rightarrow> json list set \<Rightarrow> (dataset_sample \<times> int option) list
    \<Rightarrow> result_record list \<Rightarrow> result_record list M" where
  "run_tasks rt en provider model strategy completed [] rs = ret rs"
| "run_tasks rt en provider model strategy completed (pair # pairs) rs =
     bnd (run_one rt en provider model strategy completed pair) (\<lambda>r.
       run_tasks rt en provider model strategy completed pairs (case r of None \<Rightarrow> rs | Some r \<Rightarrow> rs @ [r]))"

text \<open>\<open>evaluate_samples\<close>; \<open>order\<close> is the order in which the tasks get to run.\<close>

definition evaluate_samples ::
  "runtime \<Rightarrow> run_environment \<Rightarrow> (json \<Rightarrow> result_record option) \<Rightarrow> ((dataset_sample \<times> int option) list \<Rightarrow> (dataset_sample \<times> int option) list)
    \<Rightarrow> string \<Rightarrow> string \<Rightarrow> bool \<Rightarrow> int option \<Rightarrow> manifest_line list option \<Rightarrow> (dataset_sample \<times> int option) list \<Rightarrow> result_record list M" where
  "evaluate_samples rt en validate_record order provider strategy rerun max_requests results_file items =
     bnd (lift (get_vision_provider rt (rn_libs en) (rn_settings en) provider)) (\<lambda>p.
       let model = pi_model_id (pv_info p);
           items = (case max_requests of None \<Rightarrow> items | Some k \<Rightarrow> slice_to k items);
           earlier = (if rerun then [] else case results_file of None \<Rightarrow> [] | Some ls \<Rightarrow> ls)
       in bnd (lift (load_completed earlier)) (\<lambda>completed.
          run_tasks rt en provider model strategy completed (order items) (prior_successes validate_record earlier)))"

text \<open>\<open>write_results\<close>: the file holds the records as they stand, one per line.\<close>

definition results_lines :: "result_record list \<Rightarrow> manifest_line list" where
  "results_lines rs = map (\<lambda>r. Line (JObj (record_dump r))) rs"

section \<open>After the run\<close>

definition run_row_key :: "result_record \<Rightarrow> string \<times> string \<times> string \<times> string \<times> int option" where
  "run_row_key r = (rr_sample_id r, rr_frame_strategy r, rr_provider r, rr_model r, rr_repetition r)"

definition dedupe_step ::
  "((string \<times> string \<times> string \<times> string \<times> int option) \<times> result_record) list \<Rightarrow> result_record
    \<Rightarrow> ((string \<times> string \<times> string \<times> string \<times> int option) \<times> result_record) list" where
  "dedupe_step best r =
     (case map_of best (run_row_key r) of
        None \<Rightarrow> AList.update (run_row_key r) r best
      | Some old \<Rightarrow> if rr_error old \<noteq> None \<and> rr_error r = None then AList.update (run_row_key r) r best else best)"

definition dedupe_records :: "result_record list \<Rightarrow> result_record list" where
  "dedupe_records rs = map snd (foldl dedupe_step [] rs)"

datatype refusal = Needs_live | Needs_budget | Exceeds_budget int int

definition validate_run_flags :: "string \<Rightarrow> bool \<Rightarrow> int option \<Rightarrow> int \<Rightarrow> refusal option" where
  "validate_run_flags provider live max_requests expected_calls =
     (if provider \<noteq> ''mock'' \<and> \<not> live then Some Needs_live
      else if provider \<noteq> ''mock'' \<and> max_requests = None then Some Needs_budget
      else case max_requests of
        Some k \<Rightarrow> if expected_calls > k then Some (Exceeds_budget expected_calls k) else None
      | None \<Rightarrow> None)"

record run_arguments =
  ra_provider :: string
  ra_strategy :: string
  ra_split :: string
  ra_limit :: int
  ra_rerun :: bool
  ra_dry_run :: bool
  ra_live :: bool
  ra_max_requests :: "int option"
  ra_repetitions :: int
  ra_repeatability_limit :: int

definition chosen_samples :: "run_arguments \<Rightarrow> dataset_sample list \<Rightarrow> dataset_sample list" where
  "chosen_samples ra samples =
     (let xs = (if ra_split ra \<noteq> ''all'' then filter (\<lambda>s. sm_split s = Some (ra_split ra)) samples else samples)
      in if 0 < ra_limit ra then take (nat (ra_limit ra)) xs else xs)"

definition run_items :: "run_arguments \<Rightarrow> dataset_sample list \<Rightarrow> (dataset_sample \<times> int option) list" where
  "run_items ra samples =
     map (\<lambda>s. (s, None)) samples
     @ (if 0 < ra_repetitions ra
        then concat (map (\<lambda>rep. map (\<lambda>s. (s, Some rep)) (slice_to (ra_repeatability_limit ra) samples)) [1 .. ra_repetitions ra])
        else [])"

text \<open>How the runner ends: with the numbers of a dry run, a refusal, or the records it evaluated.\<close>

datatype run_outcome = Dry_run int int | Refused refusal | Evaluated "result_record list"

definition run_evaluation ::
  "runtime \<Rightarrow> run_environment \<Rightarrow> (json \<Rightarrow> result_record option) \<Rightarrow> ((dataset_sample \<times> int option) list \<Rightarrow> (dataset_sample \<times> int option) list)
    \<Rightarrow> run_arguments \<Rightarrow> manifest_line list option \<Rightarrow> dataset_sample list \<Rightarrow> run_outcome M" where
  "run_evaluation rt en validate_record order ra results_file manifest =
     (let samples = chosen_samples ra manifest; items = run_items ra samples; expected_calls = int (length items) in
      if ra_dry_run ra
      then bnd (lift (expected_frame_count (ra_strategy ra))) (\<lambda>n. ret (Dry_run expected_calls (expected_calls * int n)))
      else case validate_run_flags (ra_provider ra) (ra_live ra) (ra_max_requests ra) expected_calls of
        Some refused \<Rightarrow> ret (Refused refused)
      | None \<Rightarrow>
          bnd (evaluate_samples rt en validate_record order (ra_provider ra) (ra_strategy ra) (ra_rerun ra) (ra_max_requests ra)
                 results_file items) (\<lambda>rs. ret (Evaluated (if rs = [] then [] else dedupe_records rs))))"

section \<open>Reports\<close>

definition false_spoof_accepts :: "result_record list \<Rightarrow> exn + obj list" where
  "false_spoof_accepts rs = sum_bind (filter_checked (\<lambda>r. sum_bind (classify_for (rr_ground_truth r))
     (\<lambda>c. Inr (c \<noteq> C_LIVE \<and> \<not> is_error r \<and> predicts r C_LIVE))) rs) (\<lambda>xs. Inr (map record_dump xs))"

definition false_live_rejects :: "result_record list \<Rightarrow> obj list" where
  "false_live_rejects rs =
     map record_dump (filter (\<lambda>r. rr_ground_truth r = ''LIVE'' \<and> \<not> is_error r \<and> \<not> predicts r C_LIVE) rs)"

text \<open>One entry per model: the last of a provider and model, at the place of its first.\<close>

definition per_model :: "result_record list \<Rightarrow> result_record list" where
  "per_model rs = map snd (fold (\<lambda>r. AList.update (rr_provider r, rr_model r) r) rs [])"

definition disagreement_row :: "string \<times> string \<Rightarrow> result_record list \<Rightarrow> obj" where
  "disagreement_row k rs =
     [(''sample_id'', JStr (fst k)), (''frame_strategy'', JStr (snd k)), (''ground_truth'', JStr (rr_ground_truth (hd rs))),
      (''decisions'', JArr (map (\<lambda>r. JObj [(''provider'', JStr (rr_provider r)), (''model'', JStr (rr_model r)),
         (''predicted'', jopt (rr_predicted r)),
         (''self_reported_confidence'', case rr_confidence r of None \<Rightarrow> JNull | Some q \<Rightarrow> JFloat q)]) (per_model rs)))]"

definition model_disagreements :: "result_record list \<Rightarrow> obj list" where
  "model_disagreements rs = map (\<lambda>(k, xs). disagreement_row k xs) (filter (\<lambda>(k, xs). 1 < length (per_model xs))
     (sort_key fst (group_on (\<lambda>r. (rr_sample_id r, rr_frame_strategy r)) rs)))"

definition baseline_report :: "obj \<Rightarrow> obj \<Rightarrow> obj" where
  "baseline_report config numbers =
     [(''run_configuration'', JObj config),
      (''interpretation'', JObj [(''disclaimer'', JStr (''Results are for this finite evaluation set only and are NOT a production accuracy ''
         @ ''claim. self_reported_confidence is not calibrated probability.''))]),
      (''metrics'', JObj numbers)]"

text \<open>\<open>str\<close> of a JSON value is the argument \<open>shown\<close>.\<close>

fun row_objects :: "json \<Rightarrow> exn + obj list" where
  "row_objects (JArr js) = traverse (\<lambda>j. case j of JObj ob \<Rightarrow> Inr ob | _ \<Rightarrow> Inl AttributeErr) js"
| "row_objects _ = Inl TypeErr"

definition csv_line :: "string list \<Rightarrow> string" where
  "csv_line cells = (case cells of [] \<Rightarrow> [] | c # cs \<Rightarrow> c @ concat (map (\<lambda>x. CHR '','' # x) cs))"

definition confusion_matrix_csv :: "(json \<Rightarrow> string) \<Rightarrow> obj \<Rightarrow> exn + string list" where
  "confusion_matrix_csv shown numbers =
     sum_bind (row_objects (jget_d numbers ''class_rows'' (JArr []))) (\<lambda>rows.
       Inr (map csv_line ([''class'', ''n'', ''correct'', ''uncertain'', ''error'', ''spoof_to_live'']
         # map (\<lambda>row. shown (jget_d row ''class'' (JStr [])) # map (\<lambda>k. shown (jget_d row k (JInt 0)))
             [''n'', ''correct'', ''uncertain'', ''error'', ''spoof_to_live'']) rows)))"

definition summarize :: "result_record list \<Rightarrow> exn + obj" where
  "summarize rs =
     sum_bind (count_checked is_correct rs) (\<lambda>correct.
       Inr [(''total'', jnat (length rs)), (''conclusive'', jnat (count_where is_conclusive rs)),
            (''uncertain'', jnat (count_where is_uncertain rs)), (''technical_errors'', jnat (count_where is_error rs)),
            (''correct'', jnat correct)])"

text \<open>The attack classes by their share of spoofs taken for live, worst first.\<close>

definition int_field :: "obj \<Rightarrow> string \<Rightarrow> int \<Rightarrow> exn + int" where
  "int_field ob k d = (case jget_d ob k (JInt d) of JInt i \<Rightarrow> Inr i | JNull \<Rightarrow> (if k = ''spoof_to_live'' then Inr 0 else Inl TypeErr) | _ \<Rightarrow> Inl TypeErr)"

definition priority_rank :: "obj \<Rightarrow> exn + rat \<times> obj" where
  "priority_rank row =
     sum_bind (int_field row ''spoof_to_live'' 0) (\<lambda>k.
     sum_bind (int_field row ''n'' 1) (\<lambda>n. Inr (fl (of_int (- k) / of_int (max 1 n)), row)))"

definition priority_rows :: "obj \<Rightarrow> exn + obj list" where
  "priority_rows numbers =
     sum_bind (row_objects (jget_d numbers ''class_rows'' (JArr []))) (\<lambda>rows.
     sum_bind (traverse priority_rank (filter (\<lambda>row. jget_n row ''class'' \<noteq> JStr ''LIVE'') rows)) (\<lambda>ranked.
       Inr (map snd (sort_key fst ranked))))"

text \<open>What the run leaves for its records, beside the configuration: the measures and the lists of samples.\<close>

definition run_metrics :: "dataset_sample list \<Rightarrow> result_record list \<Rightarrow> exn + obj" where
  "run_metrics samples rs =
     sum_bind (compute_metrics rs) (\<lambda>m.
     sum_bind (group_by_strategy rs) (\<lambda>by_strategy.
     sum_bind (group_by_provider rs) (\<lambda>by_provider.
     sum_bind (paired_strategy_comparison rs) (\<lambda>paired.
     sum_bind (high_confidence_errors (fl (8 / 10)) rs) (\<lambda>confident.
       Inr (m @ [(''per_strategy'', JObj by_strategy), (''per_provider'', JObj by_provider),
         (''error_counts'', JObj (map (\<lambda>(e, n). (e, jnat n)) (error_counts rs))),
         (''provider_reliability'', JObj (provider_reliability rs)), (''paired_strategy'', JObj paired),
         (''dataset_class_counts'', JObj (map (\<lambda>l. (l, jnat (count_where (\<lambda>s. sm_label s = l) samples)))
            (sort (remdups (map sm_label samples))))),
         (''high_confidence_error_count'', jnat (length confident))]))))))"

definition repeatability_rows :: "result_record list \<Rightarrow> obj list" where
  "repeatability_rows rs = map record_dump (filter (\<lambda>r. rr_repetition r \<noteq> None) rs)"

definition prompt_injection_rows :: "dataset_sample list \<Rightarrow> result_record list \<Rightarrow> obj list" where
  "prompt_injection_rows samples rs =
     map record_dump (filter (\<lambda>r. rr_sample_id r \<in> sm_sample_id ` set (filter sm_prompt_injection samples)) rs)"

end
