(* ===== verification/Harness_Properties.thy ===== *)
theory Harness_Properties
  imports Vlm_Run
begin

text \<open>The properties of the evaluation harness: what its metrics count, and the bounds of its estimates.\<close>

section \<open>Every record is counted once\<close>

lemma add_to_group_total:
  "sum_list (map (\<lambda>(k, xs). (f k xs :: nat)) (add_to_group k x gs)) =
     sum_list (map (\<lambda>(k, xs). f k xs) gs) + g k x"
  if "\<And>k xs x. f k (xs @ [x]) = f k xs + g k x" "\<And>k x. f k [x] = g k x"
  by (induction k x gs rule: add_to_group.induct) (auto simp: that)

lemma group_total:
  assumes "\<And>k xs x. (f k (xs @ [x]) :: nat) = f k xs + g k x" "\<And>k x. f k [x] = g k x"
  shows "sum_list (map (\<lambda>(k, xs). f k xs) (group_on h rs)) = (\<Sum>r\<leftarrow>rs. g (h r) r)"
proof -
  have "sum_list (map (\<lambda>(k, xs). f k xs) (foldl (\<lambda>gs x. add_to_group (h x) x gs) gs rs))
      = sum_list (map (\<lambda>(k, xs). f k xs) gs) + (\<Sum>r\<leftarrow>rs. g (h r) r)" for gs
    by (induction rs arbitrary: gs) (simp_all add: add_to_group_total[where f = f and g = g, OF assms])
  then show ?thesis by (simp add: group_on_def)
qed

lemma add_to_group_keyed:
  "(\<forall>(k, xs) \<in> set gs. \<forall>x \<in> set xs. h x = k) \<Longrightarrow> \<forall>(k, xs) \<in> set (add_to_group (h y) y gs). \<forall>x \<in> set xs. h x = k"
  by (induction "h y" y gs rule: add_to_group.induct) auto

lemma add_to_group_keys: "map fst (add_to_group k x gs) = (if k \<in> set (map fst gs) then map fst gs else map fst gs @ [k])"
  by (induction k x gs rule: add_to_group.induct) auto

lemma group_keyed: "\<forall>(k, xs) \<in> set (group_on h rs). \<forall>x \<in> set xs. h x = k" and group_distinct: "distinct (map fst (group_on h rs))"
proof -
  have "(\<forall>(k, xs) \<in> set gs. \<forall>x \<in> set xs. h x = k) \<Longrightarrow> distinct (map fst gs) \<Longrightarrow>
      (\<forall>(k, xs) \<in> set (foldl (\<lambda>gs x. add_to_group (h x) x gs) gs rs). \<forall>x \<in> set xs. h x = k)
      \<and> distinct (map fst (foldl (\<lambda>gs x. add_to_group (h x) x gs) gs rs))" for gs
  proof (induction rs arbitrary: gs)
    case (Cons r rs)
    show ?case unfolding foldl.simps
    proof (rule Cons.IH)
      show "\<forall>(k, xs) \<in> set (add_to_group (h r) r gs). \<forall>x \<in> set xs. h x = k" using Cons.prems(1) by (rule add_to_group_keyed)
      show "distinct (map fst (add_to_group (h r) r gs))" using Cons.prems(2) by (simp add: add_to_group_keys)
    qed
  qed simp
  from this[of "[]"] show "\<forall>(k, xs) \<in> set (group_on h rs). \<forall>x \<in> set xs. h x = k" "distinct (map fst (group_on h rs))"
    by (auto simp: group_on_def)
qed

lemma add_to_group_mset: "mset (concat (map snd (add_to_group k x gs))) = add_mset x (mset (concat (map snd gs)))"
  by (induction k x gs rule: add_to_group.induct) auto

lemma group_mset: "mset (concat (map snd (group_on h rs))) = mset rs"
proof -
  have "mset (concat (map snd (foldl (\<lambda>gs x. add_to_group (h x) x gs) gs rs))) = mset (concat (map snd gs)) + mset rs" for gs
    by (induction rs arbitrary: gs) (simp_all add: add_to_group_mset)
  from this[of "[]"] show ?thesis by (simp add: group_on_def)
qed

lemma group_mem: "(k, xs) \<in> set (group_on h rs) \<Longrightarrow> x \<in> set xs \<Longrightarrow> x \<in> set rs \<and> h x = k"
proof -
  assume a: "(k, xs) \<in> set (group_on h rs)" "x \<in> set xs"
  then have "x \<in># mset (concat (map snd (group_on h rs)))" by force
  then show ?thesis using a group_keyed[of h rs] unfolding group_mset by force
qed

lemma count_where_append: "count_where p (xs @ ys) = count_where p xs + count_where p ys"
  by (simp add: count_where_def)

lemma count_where_sum: "count_where p xs = (\<Sum>x\<leftarrow>xs. if p x then 1 else 0)"
  by (induction xs) (auto simp: count_where_def)

lemma verdicts_partition: "count_where is_conclusive rs + count_where is_uncertain rs + count_where is_error rs = length rs"
  by (induction rs) (auto simp: count_where_def is_conclusive_def is_uncertain_def)

definition row_int :: "string \<Rightarrow> obj \<Rightarrow> int" where
  "row_int k row = (case jget row k of Some (JInt i) \<Rightarrow> i | _ \<Rightarrow> 0)"

lemma class_row_ints:
  assumes "class_row label rs = Inr row"
  shows "row_int ''n'' row = int (length rs)" "row_int ''spoof_to_live'' row = int (spoof_to_live label rs)"
  using assms by (auto simp: class_row_def Let_def sum_bind_def row_int_def jnat_def split: sum.splits)

lemma traverse_rows:
  "traverse (\<lambda>(label, rows). class_row label rows) gs = Inr rows \<Longrightarrow>
     (\<Sum>row\<leftarrow>rows. row_int ''n'' row) = int (sum_list (map (\<lambda>(_, xs). length xs) gs))
     \<and> (\<Sum>row\<leftarrow>rows. row_int ''spoof_to_live'' row) = int (sum_list (map (\<lambda>(l, xs). spoof_to_live l xs) gs))"
  by (induction gs arbitrary: rows) (auto simp: sum_bind_Inr class_row_ints split: prod.splits)

lemma sum_list_sort_key: "sum_list (map (f :: 'a \<Rightarrow> nat) (sort_key g xs)) = sum_list (map f xs)"
  by (metis mset_map mset_sort sum_mset_sum_list)

lemma spoof_groups:
  "count_where p (concat (map snd (filter (\<lambda>(label, _). label \<noteq> x) gs))) = sum_list (map (\<lambda>(l, xs). count_where (\<lambda>r. l \<noteq> x \<and> p r) xs) gs)"
proof (induction gs)
  case (Cons g gs)
  obtain l xs where "g = (l, xs)" by fastforce
  with Cons show ?case by (cases "l = x") (auto simp: count_where_append count_where_def)
qed (simp add: count_where_def)

text \<open>C36: The metrics count every record once: the rows of the classes add up to the records, their spoofs
  accepted as live to the overall number, and a record is conclusive, uncertain or an error.\<close>

theorem metrics_count_every_record:
  assumes "compute_metrics rs = Inr m"
  shows "\<exists>rows k. jget m ''class_rows'' = Some (JArr (map JObj rows)) \<and> (\<Sum>row\<leftarrow>rows. row_int ''n'' row) = int (length rs)
    \<and> jget m ''spoof_to_live_total'' = Some (JInt k) \<and> (\<Sum>row\<leftarrow>rows. row_int ''spoof_to_live'' row) = k
    \<and> count_where is_conclusive rs + count_where is_uncertain rs + count_where is_error rs = length rs"
proof -
  let ?g = "group_on rr_ground_truth rs"
  obtain rows where rows: "traverse (\<lambda>(label, rows). class_row label rows) (sort_key fst ?g) = Inr rows"
    and m: "jget m ''class_rows'' = Some (JArr (map JObj rows))"
      "jget m ''spoof_to_live_total'' = Some (jnat (count_where (\<lambda>r. predicts r C_LIVE)
         (concat (map snd (filter (\<lambda>(label, _). label \<noteq> ''LIVE'') ?g)))))"
    using assms by (auto simp: compute_metrics_def Let_def sum_bind_Inr)
  have "sum_list (map (\<lambda>(_ :: string, xs). length xs) ?g) = length rs"
    by (subst group_total[where g = "\<lambda>_ _. 1"]) (simp_all add: sum_list_triv)
  then show ?thesis
    using m traverse_rows[OF rows] verdicts_partition[of rs]
    by (auto simp: sum_list_sort_key jnat_def spoof_groups spoof_to_live_def[abs_def])
qed

lemma count_checked_total: "\<forall>x \<in> set xs. \<exists>b. p x = Inr b \<Longrightarrow> \<exists>n. count_checked p xs = Inr n"
  by (induction xs) (auto simp: sum_bind_def)

lemma traverse_total: "\<forall>x \<in> set xs. \<exists>b. f x = Inr b \<Longrightarrow> \<exists>ys. traverse f xs = Inr ys"
  by (induction xs) (auto simp: sum_bind_def)

text \<open>The metrics exist whenever every ground truth is a label of the taxonomy.\<close>

lemma compute_metrics_total:
  assumes "\<forall>r \<in> set rs. \<exists>c. classify_for (rr_ground_truth r) = Inr c"
  shows "\<exists>m. compute_metrics rs = Inr m"
proof -
  have c: "\<exists>b. is_correct r = Inr b" "\<exists>b. spoof_accepted r = Inr b" "\<exists>b. is_incorrect r = Inr b" if r: "r \<in> set rs" for r
  proof -
    obtain c where "classify_for (rr_ground_truth r) = Inr c" using assms r by blast
    then show ok: "\<exists>b. is_correct r = Inr b" and "\<exists>b. spoof_accepted r = Inr b"
      by (auto simp: is_correct_def spoof_accepted_def sum_bind_def)
    then show "\<exists>b. is_incorrect r = Inr b" by (auto simp: is_incorrect_def sum_bind_def)
  qed
  have "\<exists>row. class_row label xs = Inr row" if "(label, xs) \<in> set (group_on rr_ground_truth rs)" for label xs
  proof -
    have "\<forall>x \<in> set xs. \<exists>b. is_correct x = Inr b" using group_mem[OF that] c(1) by blast
    from count_checked_total[OF this] show ?thesis by (auto simp: class_row_def Let_def sum_bind_def)
  qed
  then have rows: "\<exists>rows. traverse (\<lambda>(label, xs). class_row label xs) (sort_key fst (group_on rr_ground_truth rs)) = Inr rows"
    by (intro traverse_total) (simp add: split_beta)
  have "\<exists>j. bucket_json (filter P rs) = Inr j" for P
  proof -
    have "\<exists>n. count_checked is_correct (filter P rs) = Inr n" "\<exists>n. count_checked is_incorrect (filter P rs) = Inr n"
      "\<exists>n. count_checked spoof_accepted (filter P rs) = Inr n"
      using c by (intro count_checked_total ballI; simp)+
    then show ?thesis by (auto simp: bucket_json_def sum_bind_def)
  qed
  then have "\<exists>b. (case x of (name, lower, upper) \<Rightarrow> sum_bind (bucket_json (filter (\<lambda>r. in_bucket lower upper (rr_confidence r)) rs))
      (\<lambda>j. Inr (name, j))) = Inr b" for x :: "string \<times> rat \<times> rat"
    proof -
    obtain name lower upper where x: "x = (name, lower, upper)" by (cases x)
    show ?thesis using \<open>\<And>P. \<exists>j. bucket_json (filter P rs) = Inr j\<close>[of "\<lambda>r. in_bucket lower upper (rr_confidence r)"] 
      by (auto simp: x sum_bind_def)
  qed
  then have "\<exists>b. confidence_buckets rs = Inr b" unfolding confidence_buckets_def by (intro traverse_total ballI)
  with rows show ?thesis by (auto simp: compute_metrics_def Let_def sum_bind_def)
qed

definition demo_result :: "string \<Rightarrow> vlm_classification \<Rightarrow> result_record" where
  "demo_result label c = \<lparr>rr_sample_id = ''a'', rr_ground_truth = label, rr_predicted = Some (vlm_classification_value c), rr_attack_medium = None,
     rr_provider = ''mock'', rr_model = ''m'', rr_prompt_version = ''p'', rr_frame_strategy = ''single-quality-v1'', rr_confidence = None,
     rr_latency_ms = None, rr_error = None, rr_repetition = None\<rparr>"

theorem metrics_count_every_record_witness:
  "\<exists>m rows k. compute_metrics [demo_result ''LIVE'' C_LIVE, demo_result ''PRINT_PHOTO'' C_LIVE] = Inr m
    \<and> jget m ''class_rows'' = Some (JArr (map JObj rows)) \<and> (\<Sum>row\<leftarrow>rows. row_int ''n'' row) = 2
    \<and> jget m ''spoof_to_live_total'' = Some (JInt k) \<and> (\<Sum>row\<leftarrow>rows. row_int ''spoof_to_live'' row) = k"
proof -
  have "classify_for ''LIVE'' = Inr C_LIVE" "classify_for ''PRINT_PHOTO'' = Inr C_PRINT_ATTACK" by code_simp+
  then obtain m where m: "compute_metrics [demo_result ''LIVE'' C_LIVE, demo_result ''PRINT_PHOTO'' C_LIVE] = Inr m"
    using compute_metrics_total[of "[demo_result ''LIVE'' C_LIVE, demo_result ''PRINT_PHOTO'' C_LIVE]"] by (auto simp: demo_result_def)
  from metrics_count_every_record[OF m] m show ?thesis by fastforce
qed

section \<open>Bounds\<close>

lemma round4_mono: "0 \<le> q \<Longrightarrow> q \<le> r \<Longrightarrow> round4 q \<le> round4 r"
  unfolding round4_def
  by (intro fl_mono divide_right_mono) (simp_all add: round_half_even_nonneg round_half_even_mono)

lemma round4_ends [simp]: "round4 0 = 0" "round4 1 = 1"
proof -
  show "round4 0 = 0" using round_half_even_int[of 0] by (simp add: round4_def)
  show "round4 1 = 1" using round_half_even_int[of 10000] by (simp add: round4_def)
qed

lemma int_root_nonneg: "0 \<le> fl_sqrt q" if "0 \<le> q"
proof -
  obtain a b where ab: "quotient_of q = (a, b)" by fastforce
  then have "0 < b" using quotient_of_denom_pos by blast
  then show ?thesis by (simp add: fl_sqrt_def ab Let_def fl_nonneg)
qed

text \<open>C37: The confidence interval of a proportion is an interval of the unit interval, whatever the roundings.\<close>

theorem wilson_interval_in_unit:
  assumes "0 < n" and "k \<le> n"
  shows "\<exists>lo hi. wilson_interval k n = Some (lo, hi) \<and> 0 \<le> lo \<and> lo \<le> hi \<and> hi \<le> 1"
proof -
  define z m where "z = wilson_z" and "m = (of_nat n :: rat)"
  define p zz where "p = fl (of_nat k / m)" and "zz = fl (z * z)"
  define d where "d = fl (1 + fl (zz / m))"
  define c where "c = fl (fl (p + fl (zz / (2 * m))) / d)"
  define r where "r = fl (fl (z * fl_sqrt (fl (fl (fl (p * fl (1 - p)) + fl (zz / (4 * m))) / m))) / d)"
  have m: "0 < m" using assms(1) by (simp add: m_def)
  have z: "0 \<le> z" by (simp add: z_def wilson_z_def fl_nonneg)
  have "of_nat k / m \<le> 1" using assms by (simp add: m_def)
  then have p: "0 \<le> p" "p \<le> 1" using m by (simp_all add: p_def fl_nonneg fl_le_1)
  have zz: "0 \<le> zz" by (simp add: zz_def fl_nonneg)
  have t: "0 \<le> fl (zz / (2 * m))" "fl (zz / (2 * m)) \<le> fl (zz / m)"
    using zz m by (simp_all add: fl_nonneg fl_mono frac_le)
  then have d: "1 \<le> d" "fl (p + fl (zz / (2 * m))) \<le> d"
    unfolding d_def using p by (intro fl_ge_1 fl_mono, simp)+ simp
  have num: "0 \<le> fl (p + fl (zz / (2 * m)))" using t p by (simp add: fl_nonneg)
  have c: "0 \<le> c" "c \<le> 1" using d num by (simp_all add: c_def fl_nonneg fl_le_1)
  have r: "0 \<le> r"
    using z d zz m p by (simp add: r_def fl_nonneg int_root_nonneg)
  have lo: "max 0 (fl (c - r)) \<le> min 1 (fl (c + r))"
  proof -
    have "0 \<le> fl (c + r)" using c r by (simp add: fl_nonneg)
    moreover have "fl (c - r) \<le> fl (c + r) \<and> fl (c - r) \<le> 1 \<or> fl (c - r) \<le> 0"
    proof (cases "c - r \<le> 0")
      case True
      then show ?thesis using fl_nonpos by blast
    next
      case False
      then show ?thesis using c r by (intro disjI1 conjI fl_mono fl_le_1) simp_all
    qed
    ultimately show ?thesis by auto
  qed
  have "wilson_interval k n = Some (round4 (max 0 (fl (c - r))), round4 (min 1 (fl (c + r))))"
    using assms(1) unfolding wilson_interval_def Let_def
    by (simp add: c_def r_def d_def p_def zz_def z_def m_def)
  moreover have "round4 0 \<le> round4 (max 0 (fl (c - r)))" "round4 (max 0 (fl (c - r))) \<le> round4 (min 1 (fl (c + r)))"
    "round4 (min 1 (fl (c + r))) \<le> round4 1"
    using lo by (intro round4_mono; simp add: c r)+
  ultimately show ?thesis by simp
qed

theorem wilson_interval_in_unit_witness:
  "\<exists>lo hi. wilson_interval 3 10 = Some (lo, hi) \<and> 0 \<le> lo \<and> lo \<le> hi \<and> hi \<le> 1"
  by (rule wilson_interval_in_unit) simp_all

text \<open>A confidence below 1 is counted in exactly one bucket; a confidence of exactly 1, the highest there is,
  in none.\<close>

theorem top_confidence_in_no_bucket:
  "(\<forall>q. 0 \<le> q \<and> q < 1 \<longrightarrow> (\<exists>!b. b \<in> set CONFIDENCE_BUCKETS \<and> in_bucket (fst (snd b)) (snd (snd b)) (Some (Fin q))))
   \<and> (\<forall>b \<in> set CONFIDENCE_BUCKETS. \<not> in_bucket (fst (snd b)) (snd (snd b)) (Some (Fin 1)))"
proof -
  have order: "0 \<le> fl (2 / 10)" "fl (2 / 10) \<le> fl (4 / 10)" "fl (4 / 10) \<le> fl (6 / 10)" "fl (6 / 10) \<le> fl (8 / 10)" "fl (8 / 10) \<le> 1"
    by (simp_all add: fl_nonneg fl_mono fl_le_1)
  define b1 b2 b3 b4 where "b1 = fl (2 / 10)" and "b2 = fl (4 / 10)" and "b3 = fl (6 / 10)" and "b4 = fl (8 / 10)"
  have buckets: "CONFIDENCE_BUCKETS = [(''0.0-0.2'', 0, b1), (''0.2-0.4'', b1, b2), (''0.4-0.6'', b2, b3), (''0.6-0.8'', b3, b4), (''0.8-1.0'', b4, 1)]"
    unfolding CONFIDENCE_BUCKETS_def b1_def b2_def b3_def b4_def ..
  have o: "0 \<le> b1" "b1 \<le> b2" "b2 \<le> b3" "b3 \<le> b4" "b4 \<le> 1"
    unfolding b1_def b2_def b3_def b4_def by (fact order)+
  have one: "\<exists>!b. b \<in> set CONFIDENCE_BUCKETS \<and> in_bucket (fst (snd b)) (snd (snd b)) (Some (Fin q))" if q: "0 \<le> q" "q < 1" for q
  proof -
    have pick: ?thesis if "x \<in> set CONFIDENCE_BUCKETS" "in_bucket (fst (snd x)) (snd (snd x)) (Some (Fin q))"
      and "\<And>y. y \<in> set CONFIDENCE_BUCKETS \<Longrightarrow> in_bucket (fst (snd y)) (snd (snd y)) (Some (Fin q)) \<Longrightarrow> fst (snd y) = fst (snd x) \<and> snd (snd y) = snd (snd x) \<and> fst y = fst x"
      for x
    proof (rule ex1I[of _ x])
      show "x \<in> set CONFIDENCE_BUCKETS \<and> in_bucket (fst (snd x)) (snd (snd x)) (Some (Fin q))" using that(1,2) by (rule conjI)
    next
      fix y assume y: "y \<in> set CONFIDENCE_BUCKETS \<and> in_bucket (fst (snd y)) (snd (snd y)) (Some (Fin q))"
      show "y = x" using that(3)[OF conjunct1[OF y] conjunct2[OF y]] by (intro prod_eqI) blast+
    qed
    consider "q < b1" | "b1 \<le> q" "q < b2" | "b2 \<le> q" "q < b3" | "b3 \<le> q" "q < b4" | "b4 \<le> q" by linarith
    then show ?thesis
    proof cases
      case 1
      then show ?thesis using q o by (intro pick[of "(''0.0-0.2'', 0, b1)"]) (auto simp: buckets)
    next
      case 2
      then show ?thesis using q o by (intro pick[of "(''0.2-0.4'', b1, b2)"]) (auto simp: buckets)
    next
      case 3
      then show ?thesis using q o by (intro pick[of "(''0.4-0.6'', b2, b3)"]) (auto simp: buckets)
    next
      case 4
      then show ?thesis using q o by (intro pick[of "(''0.6-0.8'', b3, b4)"]) (auto simp: buckets)
    next
      case 5
      then show ?thesis using q o by (intro pick[of "(''0.8-1.0'', b4, 1)"]) (auto simp: buckets)
    qed
  qed
  moreover have "\<forall>b \<in> set CONFIDENCE_BUCKETS. \<not> in_bucket (fst (snd b)) (snd (snd b)) (Some (Fin 1))"
    using o unfolding buckets by simp
  ultimately show ?thesis by blast
qed

end
