(* ===== verification/Dataset_Properties.thy ===== *)
theory Dataset_Properties
  imports Vlm_Datasets Harness_Properties
begin

text \<open>The properties of the datasets: whom a split separates, what a manifest is made of and what a checked one holds.\<close>

section \<open>Groups and splits\<close>

lemma mset_split: "mset (concat (map snd (filter P gs))) + mset (concat (map snd (filter (\<lambda>g. \<not> P g) gs))) = mset (concat (map snd gs))"
  by (induction gs) auto

lemma add_to_group_ne: "\<forall>g \<in> set gs. snd g \<noteq> [] \<Longrightarrow> \<forall>g \<in> set (add_to_group k x gs). snd g \<noteq> []"
  by (induction k x gs rule: add_to_group.induct) auto

lemma group_ne: "\<forall>g \<in> set (group_on h rs). snd g \<noteq> []"
proof -
  have "\<forall>g \<in> set gs. snd g \<noteq> [] \<Longrightarrow> \<forall>g \<in> set (foldl (\<lambda>gs x. add_to_group (h x) x gs) gs rs). snd g \<noteq> []" for gs
  proof (induction rs arbitrary: gs)
    case (Cons r rs)
    show ?case unfolding foldl.simps using Cons.prems by (intro Cons.IH add_to_group_ne)
  qed simp
  from this[of "[]"] show ?thesis by (simp add: group_on_def)
qed

lemma holdout_count_pos: "0 < holdout_count n q" by (simp add: holdout_count_def)

lemma shuffles_mset: "shuffles g \<Longrightarrow> mset (fst (gn_shuffle g r xs)) = mset xs"
  by (simp add: shuffles_def)

lemma shuffles_set: "shuffles g \<Longrightarrow> set (fst (gn_shuffle g r xs)) = set xs"
  by (metis shuffles_mset set_mset_mset)

definition held_keys :: "('rng, string) generator \<Rightarrow> ('a \<Rightarrow> string) \<Rightarrow> rat \<Rightarrow> int \<Rightarrow> 'a list \<Rightarrow> string set" where
  "held_keys g key fraction seed items =
     (let keys = fst (gn_shuffle g (gn_seeded g seed) (sort (map fst (group_on key items))))
      in set (take (holdout_count (length keys) fraction) keys))"

lemma split_members:
  assumes "split_dev_holdout g key fraction seed items = (dev, holdout)"
  shows "x \<in> set dev \<longleftrightarrow> x \<in> set items \<and> key x \<notin> held_keys g key fraction seed items"
    "x \<in> set holdout \<longleftrightarrow> x \<in> set items \<and> key x \<in> held_keys g key fraction seed items"
    "mset dev + mset holdout = mset items"
proof -
  let ?H = "held_keys g key fraction seed items" and ?G = "group_on key items"
  have eq: "dev = concat (map snd (filter (\<lambda>g. fst g \<notin> ?H) ?G))" "holdout = concat (map snd (filter (\<lambda>g. \<not> fst g \<notin> ?H) ?G))"
    using assms by (auto simp: split_dev_holdout_def held_keys_def Let_def split_def)
  show m: "mset dev + mset holdout = mset items" unfolding eq by (simp only: mset_split group_mset)
  have d: "y \<in> set dev \<Longrightarrow> key y \<notin> ?H" and h: "y \<in> set holdout \<Longrightarrow> key y \<in> ?H" for y
    unfolding eq by (auto dest: group_mem)
  have "x \<in> set dev \<or> x \<in> set holdout \<longleftrightarrow> x \<in> set items"
    using arg_cong[OF m, of set_mset] by auto
  then show "x \<in> set dev \<longleftrightarrow> x \<in> set items \<and> key x \<notin> ?H" "x \<in> set holdout \<longleftrightarrow> x \<in> set items \<and> key x \<in> ?H"
    using d h by blast+
qed

text \<open>The split loses and invents nothing, separates the keys (no subject is in both parts) and leaves
  the holdout empty only when there is nothing to split.\<close>

theorem split_separates_subjects:
  assumes "split_dev_holdout g key fraction seed items = (dev, holdout)" and "shuffles g"
  shows "mset dev + mset holdout = mset items \<and> key ` set dev \<inter> key ` set holdout = {} \<and> (holdout = [] \<longleftrightarrow> items = [])"
proof -
  note mem = split_members[OF assms(1)]
  have "holdout \<noteq> []" if ne: "items \<noteq> []"
  proof -
    let ?ks = "fst (gn_shuffle g (gn_seeded g seed) (sort (map fst (group_on key items))))"
    have "group_on key items \<noteq> []" using ne group_mset[of key items] by auto
    moreover have sk: "set ?ks = fst ` set (group_on key items)" by (simp add: shuffles_set[OF assms(2)])
    ultimately have "?ks \<noteq> []" by (metis set_empty image_is_empty)
    then have "hd ?ks \<in> held_keys g key fraction seed items"
      using holdout_count_pos[of "length ?ks" fraction] by (cases ?ks) (auto simp: held_keys_def Let_def take_Cons' neq0_conv)
    moreover obtain xs where xs: "(hd ?ks, xs) \<in> set (group_on key items)"
      using sk \<open>?ks \<noteq> []\<close> hd_in_set[of ?ks] by auto
    moreover from xs have "xs \<noteq> []" using group_ne[of key items] by force
    ultimately have "hd xs \<in> set items \<and> key (hd xs) \<in> held_keys g key fraction seed items"
      using group_mem[OF xs, of "hd xs"] by simp
    then show ?thesis using mem(2) by force
  qed
  then show ?thesis using mem by auto
qed


theorem split_separates_subjects_witness:
  "case split_dev_holdout \<lparr>gn_seeded = \<lambda>_. (), gn_shuffle = \<lambda>r xs. (rev xs, r)\<rparr> id (1 / 2) 42 [''a'', ''b'', ''a'', ''c''] of
     (dev, holdout) \<Rightarrow> mset dev + mset holdout = mset [''a'', ''b'', ''a'', ''c''] \<and> id ` set dev \<inter> id ` set holdout = {}
       \<and> (holdout = [] \<longleftrightarrow> [''a'', ''b'', ''a'', ''c''] = [])"
proof -
  let ?g = "\<lparr>gn_seeded = \<lambda>_. (), gn_shuffle = \<lambda>r xs. (rev xs, r)\<rparr>" and ?items = "[''a'', ''b'', ''a'', ''c'']"
  obtain dev holdout where e: "split_dev_holdout ?g id (1 / 2) 42 ?items = (dev, holdout)" by fastforce
  have "shuffles ?g" by (simp add: shuffles_def)
  from split_separates_subjects[OF e this] show ?thesis unfolding e prod.case .
qed

section \<open>Sampling\<close>

lemma rounds_set: "set (rounds k groups index result) \<subseteq> set result \<union> \<Union> (set ` set groups)"
proof (induction k groups index result rule: rounds.induct)
  case (1 k groups index result)
  have r: "set (round_at index groups) \<subseteq> \<Union> (set ` set groups)" by (auto simp: round_at_def)
  show ?case
  proof (cases "k \<le> length result \<or> round_at index groups = []")
    case True
    then show ?thesis by (subst rounds.simps) auto
  next
    case False
    then have eq: "rounds k groups index result = rounds k groups (Suc index) (take k (result @ round_at index groups))"
      by (subst rounds.simps) simp
    have "set (take k (result @ round_at index groups)) \<subseteq> set result \<union> \<Union> (set ` set groups)"
      using r set_take_subset[of k "result @ round_at index groups"] by auto
    then show ?thesis using 1[of] False unfolding eq by fastforce
  qed
qed

lemma rounds_length: "length result \<le> k \<Longrightarrow> length (rounds k groups index result) \<le> k"
proof (induction k groups index result rule: rounds.induct)
  case (1 k groups index result)
  show ?case
  proof (cases "k \<le> length result \<or> round_at index groups = []")
    case True
    then show ?thesis using "1.prems" by (subst rounds.simps) auto
  next
    case False
    then have "rounds k groups index result = rounds k groups (Suc index) (take k (result @ round_at index groups))"
      by (subst rounds.simps) simp
    moreover have "length (take k (result @ round_at index groups)) \<le> k" by (simp only: length_take min.cobounded2)
    ultimately show ?thesis using False "1.IH" by presburger
  qed
qed

lemma shuffle_groups_set: "shuffles g \<Longrightarrow> \<Union> (set ` set (shuffle_groups g r xss)) = \<Union> (set ` set xss)"
proof (induction g r xss rule: shuffle_groups.induct)
  case (2 g r xs xss)
  obtain ys r' where e: "gn_shuffle g r xs = (ys, r')" by fastforce
  then have "set ys = set xs" using shuffles_set[OF "2.prems", of r xs] by simp
  then show ?case using "2.IH"[OF e[symmetric] "2.prems"] by (simp add: e)
qed simp

lemma diverse_sample_facts:
  assumes "shuffles g"
  shows "set (diverse_sample g key k seed items) \<subseteq> set items" "int (length (diverse_sample g key k seed items)) \<le> max 0 k"
proof -
  let ?groups = "map snd (sorted_groups key items)"
  let ?shuffled = "shuffle_groups g (gn_seeded g seed) ?groups"
  have "\<Union> (set ` set ?groups) \<subseteq> set items" by (auto simp: sorted_groups_def dest: group_mem)
  then have "set (rounds (nat k) ?shuffled 0 []) \<subseteq> set items"
    using rounds_set[of "nat k" ?shuffled 0 "[]"] shuffle_groups_set[OF assms, of "gn_seeded g seed" ?groups] by simp
  then show "set (diverse_sample g key k seed items) \<subseteq> set items" by (simp add: diverse_sample_def)
  have "length (rounds (nat k) ?shuffled 0 []) \<le> nat k" by (rule rounds_length) simp
  then have "int (length (rounds (nat k) ?shuffled 0 [])) \<le> int (nat k)" by (simp only: of_nat_le_iff)
  also have "int (nat k) = max 0 k" by simp
  finally show "int (length (diverse_sample g key k seed items)) \<le> max 0 k"
    unfolding diverse_sample_def by (cases "k \<le> 0 \<or> items = []") (simp_all only: if_True if_False, simp)
qed

section \<open>The manifest a bootstrap writes\<close>

lemma map_label_known: "fst (map_label l) = Some c \<Longrightarrow> c \<in> set GROUND_TRUTH_LABELS"
  unfolding map_label_def Let_def LABEL_MAPPING_def GROUND_TRUTH_LABELS_def
  by (auto split: if_splits)

lemma mapped_items_member: "(it, c) \<in> set (mapped_items items) \<longleftrightarrow> it \<in> set items \<and> fst (map_label (rw_source_label it)) = Some c"
  by (induction items) (auto simp: mapped_items_def List.map_filter_def split: option.splits)

lemma selected_member:
  assumes "shuffles g" "(it, c) \<in> set (select_items g cfg items)"
  shows "it \<in> set items \<and> fst (map_label (rw_source_label it)) = Some c"
proof -
  obtain label members where m: "(label, members) \<in> set (group_on snd (mapped_items items))"
    "(it, c) \<in> set (diverse_sample g (subject_key \<circ> fst) (wanted cfg label) (bc_seed cfg) members)"
    using assms(2) unfolding select_items_def set_concat set_map set_sort UN_simps split_def
    by (elim UN_E imageE) (metis prod.collapse)
  then have "(it, c) \<in> set members" using diverse_sample_facts(1)[OF assms(1)] by blast
  then have "(it, c) \<in> set (mapped_items items)" using group_mem[OF m(1)] by blast
  then show ?thesis by (simp add: mapped_items_member)
qed

lemma bootstrap_rows_member:
  "bootstrap_rows cfg d held extracted n pairs = Inr rows \<Longrightarrow> row \<in> set rows \<Longrightarrow>
     \<exists>i pair frames. pair \<in> set pairs \<and> row = bootstrap_row cfg d held i pair frames"
proof (induction cfg d held extracted n pairs arbitrary: rows rule: bootstrap_rows.induct)
  case (2 cfg d held extracted n pair pairs)
  obtain frames rows' where f: "row_frames extracted (rw_sample_id (fst pair)) (rw_frames (fst pair)) [] = Some frames"
    "bootstrap_rows cfg d held extracted (Suc n) pairs = Inr rows'" "rows = bootstrap_row cfg d held n pair frames # rows'"
    using "2.prems"(1) by (auto simp: sum_bind_Inr split: option.splits)
  show ?case
  proof (cases "row \<in> set rows'")
    case True
    then show ?thesis using "2.IH"[OF f(1,2)] by auto
  next
    case False
    then have "row = bootstrap_row cfg d held n pair frames" using "2.prems"(2) f(3) by simp
    then show ?thesis by (intro exI[of _ n] exI[of _ pair] exI[of _ frames]) simp
  qed
qed simp

text \<open>A row's subject as its manifest names it: the alias, or the source's id of the sample.\<close>

definition row_subject :: "obj \<Rightarrow> json" where
  "row_subject row = (if truthy (jget_n row ''subject_alias'') then jget_n row ''subject_alias'' else jget_n row ''source_sample_id'')"

lemma row_subject_row: "row_subject (bootstrap_row cfg d held i pair frames) = JStr (subject_key (fst pair))"
  by (auto simp: row_subject_def bootstrap_row_def subject_key_def jget_n_def jopt_def Let_def split: option.splits list.splits)

lemma row_of_known:
  assumes "row = bootstrap_row cfg d held i p frames" and "fst p \<in> set items" and "fst (map_label (rw_source_label (fst p))) = Some (snd p)"
  shows "\<exists>it \<in> set items. \<exists>c. jget row ''source_sample_id'' = Some (JStr (rw_sample_id it))
    \<and> fst (map_label (rw_source_label it)) = Some c \<and> c \<in> set GROUND_TRUTH_LABELS \<and> jget row ''label'' = Some (JStr c)"
proof -
  have "jget row ''source_sample_id'' = Some (JStr (rw_sample_id (fst p))) \<and> jget row ''label'' = Some (JStr (snd p))"
    unfolding assms(1) by (simp add: bootstrap_row_def Let_def)
  then show ?thesis using assms(2,3) map_label_known by blast
qed

lemma usable_known: "require_usable_dataset name = Some d \<Longrightarrow> \<exists>d. find_dataset name = Some d \<and> is_usable_for_external_vlm d"
  by (auto simp: require_usable_dataset_def evaluate_dataset_def is_usable_for_external_vlm_def dataset_def Let_def
      split: option.splits if_splits)

text \<open>The split a row names is the part its item is in, when the source's ids are distinct.\<close>

lemma split_of_row:
  assumes "\<forall>q \<in> set dev \<union> set holdout. fst q \<in> set items" and "distinct (map rw_sample_id items)"
    and "(subject_key \<circ> fst) ` set dev \<inter> (subject_key \<circ> fst) ` set holdout = {}" and p: "p \<in> set dev \<union> set holdout"
  shows "rw_sample_id (fst p) \<in> (rw_sample_id \<circ> fst) ` set holdout \<longleftrightarrow> p \<in> set holdout"
proof
  assume "rw_sample_id (fst p) \<in> (rw_sample_id \<circ> fst) ` set holdout"
  then obtain q where q: "q \<in> set holdout" "rw_sample_id (fst q) = rw_sample_id (fst p)" by auto
  have "fst q = fst p"
    using assms(1) p q assms(2) unfolding distinct_map by (intro inj_onD[of rw_sample_id "set items"]) simp_all
  then have "(subject_key \<circ> fst) p \<in> (subject_key \<circ> fst) ` set holdout" using q(1) by (metis comp_apply imageI)
  then show "p \<in> set holdout" using p assms(3) by blast
qed auto

text \<open>C35: A manifest is built only of a dataset whose licence allows sending its images out; every row carries the
  canonical label its source label maps to, and no subject is in a row of each split. The source's sample ids have
  to be distinct: the split of a row is looked up by them.\<close>

theorem manifest_is_licensed_and_disjoint:
  assumes "build_manifest g gk extracted cfg items = Inr rows" and "shuffles g" and "shuffles gk"
    and "distinct (map rw_sample_id items)"
  shows "(\<exists>d. find_dataset (bc_dataset_name cfg) = Some d \<and> is_usable_for_external_vlm d)
    \<and> (\<forall>row \<in> set rows. \<exists>it \<in> set items. \<exists>c. jget row ''source_sample_id'' = Some (JStr (rw_sample_id it))
         \<and> fst (map_label (rw_source_label it)) = Some c \<and> c \<in> set GROUND_TRUTH_LABELS \<and> jget row ''label'' = Some (JStr c))
    \<and> (\<forall>r1 \<in> set rows. \<forall>r2 \<in> set rows. jget r1 ''split'' \<noteq> jget r2 ''split'' \<longrightarrow> row_subject r1 \<noteq> row_subject r2)"
proof -
  obtain dev holdout where sp: "bootstrap_split g gk cfg items = (dev, holdout)" by fastforce
  let ?held = "(rw_sample_id \<circ> fst) ` set holdout"
  obtain d where d: "require_usable_dataset (bc_dataset_name cfg) = Some d"
    and rows: "bootstrap_rows cfg d ?held extracted 1 (dev @ holdout) = Inr rows"
    using assms(1) sp by (auto simp: build_manifest_def split: option.splits)
  note spl = sp[unfolded bootstrap_split_def]
  have dis: "(subject_key \<circ> fst) ` set dev \<inter> (subject_key \<circ> fst) ` set holdout = {}"
    using split_separates_subjects[OF spl assms(3)] by blast
  have sel: "fst p \<in> set items \<and> fst (map_label (rw_source_label (fst p))) = Some (snd p)" if "p \<in> set dev \<union> set holdout" for p
    using that selected_member[OF assms(2), of "fst p" "snd p" cfg items] split_members(1,2)[OF spl, of p] by auto
  have held: "rw_sample_id (fst p) \<in> ?held \<longleftrightarrow> p \<in> set holdout" if "p \<in> set dev \<union> set holdout" for p
    using split_of_row[OF _ assms(4) dis that] sel by blast
  have row: "\<exists>i p frames. p \<in> set dev \<union> set holdout \<and> r = bootstrap_row cfg d ?held i p frames" if "r \<in> set rows" for r
    using bootstrap_rows_member[OF rows that] by auto
  have "\<exists>it \<in> set items. \<exists>c. jget r ''source_sample_id'' = Some (JStr (rw_sample_id it))
       \<and> fst (map_label (rw_source_label it)) = Some c \<and> c \<in> set GROUND_TRUTH_LABELS \<and> jget r ''label'' = Some (JStr c)"
    if "r \<in> set rows" for r
    using row[OF that] row_of_known sel by blast
  moreover have "row_subject r1 \<noteq> row_subject r2"
    if r: "r1 \<in> set rows" "r2 \<in> set rows" "jget r1 ''split'' \<noteq> jget r2 ''split''" for r1 r2
  proof -
    obtain i1 p1 f1 i2 p2 f2 where p: "p1 \<in> set dev \<union> set holdout" "p2 \<in> set dev \<union> set holdout"
      and e: "r1 = bootstrap_row cfg d ?held i1 p1 f1" "r2 = bootstrap_row cfg d ?held i2 p2 f2"
      using row[OF r(1)] row[OF r(2)] by blast
    have "p1 \<in> set holdout \<longleftrightarrow> p2 \<notin> set holdout"
      using r(3) held[OF p(1)] held[OF p(2)] unfolding e by (auto simp: bootstrap_row_def Let_def split: if_splits)
    then have "subject_key (fst p1) \<noteq> subject_key (fst p2)" using p dis by fastforce
    then show ?thesis unfolding e row_subject_row by simp
  qed
  ultimately show ?thesis using usable_known[OF d] by blast
qed


lemma row_frames_total: "\<exists>frames. row_frames (\<lambda>f d. Some (h f d)) sid fs acc = Some frames"
  by (induction fs arbitrary: acc) simp_all

lemma bootstrap_rows_total: "\<exists>rows. bootstrap_rows cfg d held (\<lambda>f d. Some (h f d)) n pairs = Inr rows \<and> length rows = length pairs"
proof (induction pairs arbitrary: n)
  case (Cons pair pairs)
  obtain frames where "row_frames (\<lambda>f d. Some (h f d)) (rw_sample_id (fst pair)) (rw_frames (fst pair)) [] = Some frames"
    using row_frames_total[where h = h] by blast
  then show ?case using Cons.IH[of "Suc n"] by (auto simp: sum_bind_def)
qed simp

lemma axon_dataset_usable: "require_usable_dataset ''axon-face-anti-spoofing-sample'' \<noteq> None"
  by code_simp

theorem manifest_is_licensed_and_disjoint_witness:
  "\<exists>g gk extracted cfg items rows. build_manifest (g :: (unit, _) generator) (gk :: (unit, _) generator) extracted cfg items = Inr rows
    \<and> (\<exists>d. find_dataset (bc_dataset_name cfg) = Some d \<and> is_usable_for_external_vlm d)
    \<and> (\<forall>row \<in> set rows. \<exists>it \<in> set items. \<exists>c. jget row ''source_sample_id'' = Some (JStr (rw_sample_id it))
         \<and> fst (map_label (rw_source_label it)) = Some c \<and> c \<in> set GROUND_TRUTH_LABELS \<and> jget row ''label'' = Some (JStr c))
    \<and> (\<forall>r1 \<in> set rows. \<forall>r2 \<in> set rows. jget r1 ''split'' \<noteq> jget r2 ''split'' \<longrightarrow> row_subject r1 \<noteq> row_subject r2)"
proof -
  let ?g = "\<lparr>gn_seeded = \<lambda>_. (), gn_shuffle = \<lambda>r xs. (rev xs, r)\<rparr> :: (unit, raw_source_item \<times> string) generator"
  let ?gk = "\<lparr>gn_seeded = \<lambda>_. (), gn_shuffle = \<lambda>r xs. (rev xs, r)\<rparr> :: (unit, string) generator"
  let ?cfg = "\<lparr>bc_dataset_name = ''axon-face-anti-spoofing-sample'', bc_samples_per_class = [(''LIVE'', 2), (''SCREEN_MOBILE'', 2)],
    bc_holdout_fraction = 1 / 2, bc_seed = 42\<rparr>"
  let ?items = "[axon_item ''d'' ''live'' ''Selfies/Selfie_1.jpg'', axon_item ''d'' ''mobile'' ''m/1.mp4'']"
  have s: "shuffles ?g" "shuffles ?gk" by (simp_all add: shuffles_def)
  have d: "distinct (map rw_sample_id ?items)" by code_simp
  obtain rows where r: "build_manifest ?g ?gk (\<lambda>f d. Some [d]) ?cfg ?items = Inr rows"
    using axon_dataset_usable bootstrap_rows_total[where h = "\<lambda>f d. [d]"]
    by (fastforce simp: build_manifest_def split: option.splits prod.splits)
  show ?thesis
    by (intro exI[of _ ?g] exI[of _ ?gk] exI[of _ "\<lambda>f d. Some [d]"] exI[of _ ?cfg] exI[of _ ?items] exI[of _ rows])
       (rule conjI[OF r manifest_is_licensed_and_disjoint[OF r s d]])
qed

section \<open>A checked manifest\<close>

definition good_frame :: "frame_files \<Rightarrow> string \<Rightarrow> bool" where
  "good_frame ff f \<longleftrightarrow> ff_inside ff f \<and> ff_exists ff f \<and> manifest_image_ok ff f"

definition read_line :: "(obj \<Rightarrow> dataset_sample option) \<Rightarrow> manifest_line \<Rightarrow> dataset_sample option" where
  "read_line validate l = (case l of Line (JObj ob) \<Rightarrow> validate ob | _ \<Rightarrow> None)"

lemma check_frame_accepted:
  "manifest_accepted (check_frame ff n sid f st) \<Longrightarrow>
     manifest_accepted st \<and> good_frame ff f" "vs_seen (check_frame ff n sid f st) = vs_seen st"
  by (auto simp: check_frame_def manifest_accepted_def good_frame_def split: if_splits)

lemma check_frames_accepted:
  "manifest_accepted (fold (check_frame ff n sid) fs st) \<Longrightarrow> manifest_accepted st \<and> (\<forall>f \<in> set fs. good_frame ff f)"
  "vs_seen (fold (check_frame ff n sid) fs st) = vs_seen st"
proof -
  show "manifest_accepted (fold (check_frame ff n sid) fs st) \<Longrightarrow> manifest_accepted st \<and> (\<forall>f \<in> set fs. good_frame ff f)"
  proof (induction fs arbitrary: st)
    case (Cons f fs)
    have "manifest_accepted (check_frame ff n sid f st) \<and> (\<forall>f \<in> set fs. good_frame ff f)"
      using Cons.IH[of "check_frame ff n sid f st"] Cons.prems by simp
    then show ?case using check_frame_accepted(1)[of ff n sid f st] by simp
  qed simp
  show "vs_seen (fold (check_frame ff n sid) fs st) = vs_seen st"
    by (induction fs arbitrary: st) (simp_all add: check_frame_accepted(2))
qed

definition good_sample :: "frame_files \<Rightarrow> dataset_sample \<Rightarrow> bool" where
  "good_sample ff s \<longleftrightarrow> sm_frames s \<noteq> [] \<and> (\<forall>f \<in> set (sm_frames s). good_frame ff f)"

lemma split_count_fields:
  "vs_seen (case x of Some (c # cs) \<Rightarrow> st\<lparr>vs_splits := f c cs\<rparr> | _ \<Rightarrow> st) = vs_seen st"
  "manifest_accepted (case x of Some (c # cs) \<Rightarrow> st\<lparr>vs_splits := f c cs\<rparr> | _ \<Rightarrow> st) = manifest_accepted st"
  "vs_seen (case x of Some (c # cs) \<Rightarrow> st\<lparr>vs_sources := h c cs\<rparr> | _ \<Rightarrow> st) = vs_seen st"
  "manifest_accepted (case x of Some (c # cs) \<Rightarrow> st\<lparr>vs_sources := h c cs\<rparr> | _ \<Rightarrow> st) = manifest_accepted st"
  by (auto simp: manifest_accepted_def split: option.splits list.splits)

lemma other_fields:
  "manifest_accepted (st\<lparr>vs_classes := f\<rparr>) = manifest_accepted st" "manifest_accepted (st\<lparr>vs_seen := ids\<rparr>) = manifest_accepted st"
  "\<not> manifest_accepted (st\<lparr>vs_errors := vs_errors st' @ [e]\<rparr>)"
  by (simp_all add: manifest_accepted_def)

lemma check_sample_accepted:
  assumes "manifest_accepted (check_sample ff n s st)"
  shows "manifest_accepted st \<and> good_sample ff s \<and> sm_sample_id s \<notin> set (vs_seen st)
    \<and> vs_seen (check_sample ff n s st) = vs_seen st @ [sm_sample_id s]"
  using check_frames_accepted(1)[OF assms[unfolded check_sample_def Let_def]]
  unfolding check_sample_def Let_def check_frames_accepted(2) good_sample_def
  by (cases "sm_frames s = []"; cases "sm_sample_id s \<in> set (vs_seen st)") (simp_all add: split_count_fields other_fields)

lemma check_lines_accepted:
  "check_lines validate ff n ls st = Inr st' \<Longrightarrow> manifest_accepted st' \<Longrightarrow>
     manifest_accepted st \<and> (\<exists>ss. those (map (read_line validate) (filter (\<lambda>l. l \<noteq> Blank) ls)) = Some ss
       \<and> vs_seen st' = vs_seen st @ map sm_sample_id ss \<and> (\<forall>s \<in> set ss. good_sample ff s)
       \<and> (distinct (vs_seen st) \<longrightarrow> distinct (vs_seen st')))"
proof (induction validate ff n ls st rule: check_lines.induct)
  case (4 validate ff n j ls st)
  show ?case
  proof (cases "read_line validate (Line j)")
    case None
    then have "check_lines validate ff (Suc n) ls (st\<lparr>vs_errors := vs_errors st @ [Schema_error n]\<rparr>) = Inr st'"
      using "4.prems"(1) by (auto simp: read_line_def split: option.splits json.splits)
    then show ?thesis using "4.IH"(1)[OF _ _ "4.prems"(2)] None
      by (auto simp: read_line_def manifest_accepted_def split: json.splits)
  next
    case (Some s)
    then have e: "(case j of JObj ob \<Rightarrow> validate ob | _ \<Rightarrow> None) = Some s"
      and c: "check_lines validate ff (Suc n) ls (check_sample ff n s st) = Inr st'"
      using "4.prems"(1) by (auto simp: read_line_def split: option.splits json.splits)
    from "4.IH"(2)[OF e c "4.prems"(2)] obtain ss where ss: "manifest_accepted (check_sample ff n s st)"
      "those (map (read_line validate) (filter (\<lambda>l. l \<noteq> Blank) ls)) = Some ss"
      "vs_seen st' = vs_seen (check_sample ff n s st) @ map sm_sample_id ss" "\<forall>s \<in> set ss. good_sample ff s"
      "distinct (vs_seen (check_sample ff n s st)) \<longrightarrow> distinct (vs_seen st')" by blast
    show ?thesis using check_sample_accepted[OF ss(1)] ss Some by auto
  qed
qed auto

text \<open>A manifest that passes the check is sound: every line that is not blank is a sample of the schema, no two
  samples share an id, and each has frames, all of them below the root, there, and JPEGs that decode.\<close>

theorem accepted_manifest_is_sound:
  assumes "validate_manifest validate ff ls = Inr st" and "manifest_accepted st"
  shows "\<exists>ss. those (map (read_line validate) (filter (\<lambda>l. l \<noteq> Blank) ls)) = Some ss \<and> distinct (map sm_sample_id ss)
    \<and> (\<forall>s \<in> set ss. sm_frames s \<noteq> [] \<and> (\<forall>f \<in> set (sm_frames s). ff_inside ff f \<and> ff_exists ff f \<and> manifest_image_ok ff f))"
  using check_lines_accepted[OF assms(1)[unfolded validate_manifest_def] assms(2)]
  by (auto simp: empty_validation_def good_sample_def good_frame_def)

theorem accepted_manifest_is_sound_witness:
  "\<exists>validate ff ls st. validate_manifest validate ff ls = Inr st \<and> manifest_accepted st
    \<and> (\<exists>ss. those (map (read_line validate) (filter (\<lambda>l. l \<noteq> Blank) ls)) = Some ss \<and> distinct (map sm_sample_id ss)
    \<and> (\<forall>s \<in> set ss. sm_frames s \<noteq> [] \<and> (\<forall>f \<in> set (sm_frames s). ff_inside ff f \<and> ff_exists ff f \<and> manifest_image_ok ff f)))"
proof -
  define validate where "validate = (\<lambda>ob :: obj. Some \<lparr>sm_sample_id = (case jget ob ''sample_id'' of Some (JStr i) \<Rightarrow> i | _ \<Rightarrow> []),
    sm_label = ''LIVE'', sm_frames = [''f.jpg''], sm_split = None, sm_source_dataset = None, sm_prompt_injection = False\<rparr>)"
  define ff where "ff = \<lparr>ff_inside = \<lambda>_. True, ff_exists = \<lambda>_. True, ff_bytes = \<lambda>_. jpeg_signature, ff_verifies = \<lambda>_. True, ff_digest = id\<rparr>"
  define ls where "ls = [Line (JObj [(''sample_id'', JStr ''a'')]), Blank, Line (JObj [(''sample_id'', JStr ''b'')])]"
  obtain st where st: "validate_manifest validate ff ls = Inr st" "manifest_accepted st"
    by (simp add: validate_manifest_def ls_def validate_def ff_def check_sample_def check_frame_def manifest_image_ok_def jpeg_signature_def
        empty_validation_def manifest_accepted_def Let_def)
  then show ?thesis using accepted_manifest_is_sound[OF st] by blast
qed

end
