(* ===== verification/Run_Properties.thy ===== *)
theory Run_Properties
  imports Dataset_Properties Sample_Run
begin

text \<open>The properties of the evaluation's runner: what a run sends, what resuming it repeats, which records it keeps.\<close>

section \<open>Runs\<close>

definition record_of :: "string \<Rightarrow> string \<Rightarrow> string \<Rightarrow> dataset_sample \<times> int option \<Rightarrow> result_record \<Rightarrow> bool" where
  "record_of provider model strategy pair r \<longleftrightarrow> rr_sample_id r = sm_sample_id (fst pair) \<and> rr_repetition r = snd pair
     \<and> rr_provider r = provider \<and> rr_model r = model \<and> rr_prompt_version r = PROMPT_VERSION \<and> rr_frame_strategy r = strategy"

lemma catch_Inr: "catch m h w = (Inr x, w') \<Longrightarrow> m w = (Inr x, w') \<or> (\<exists>e w1. m w = (Inl e, w1) \<and> h e w1 = (Inr x, w'))"
  by (auto simp: catch_def split: prod.splits sum.splits)

lemma run_one_completed:
  "sample_key (fst pair) provider model strategy \<in> ks \<Longrightarrow> run_one rt en provider model strategy ks pair = ret None"
  by (simp add: run_one_def Let_def)

lemma run_one_record:
  assumes "run_one rt en provider model strategy ks pair w = (Inr x, w')"
    and "sample_key (fst pair) provider model strategy \<notin> ks"
  shows "\<exists>r. x = Some r \<and> record_of provider model strategy pair r"
proof -
  let ?r = "run_record (fst pair) (snd pair) provider model strategy"
  define eval where "eval = (\<lambda>frames. service_evaluate rt (get_vision_provider rt (rn_libs en)) (rn_settings en)
    \<lparr>er_strategy = strategy, er_provider = provider, er_mock_behavior = [], er_frames = frames\<rparr>)"
  obtain frames where c: "catch (bnd (gets clock) (\<lambda>started. bnd (eval frames) (\<lambda>x. bnd (gets clock)
       (\<lambda>now. ret (Some (record_result ?r x ((now - started) div 1000)))))))
     (\<lambda>e. (case e of VlmError code _ \<Rightarrow> ret (Some (?r\<lparr>rr_error := Some (vlm_error_value code)\<rparr>)) | _ \<Rightarrow> raise e)) w = (Inr x, w')"
    using assms unfolding run_one_def Let_def eval_def by (auto simp: bnd_Inr lift_def)
  have "\<exists>r. x = Some r \<and> (\<exists>y l code. r = record_result ?r y l \<or> r = ?r\<lparr>rr_error := Some (vlm_error_value code)\<rparr>)"
    using catch_Inr[OF c] by (elim disjE exE conjE) (auto simp: bnd_Inr ret_def raise_def split: exn.splits)
  then show ?thesis by (auto simp: record_of_def run_record_def record_result_def)
qed

lemma run_tasks_completed:
  "\<forall>pair \<in> set pairs. sample_key (fst pair) provider model strategy \<in> ks \<Longrightarrow>
     run_tasks rt en provider model strategy ks pairs rs w = (Inr rs, w)"
  by (induction pairs) (simp_all add: run_one_completed run_defs)

lemma run_tasks_fresh:
  "run_tasks rt en provider model strategy {} pairs rs w = (Inr rs', w') \<Longrightarrow>
     \<exists>new. rs' = rs @ new \<and> list_all2 (record_of provider model strategy) pairs new"
proof (induction pairs arbitrary: rs w)
  case Nil
  then show ?case by (simp add: run_defs)
next
  case (Cons pair pairs)
  obtain x w1 where x: "run_one rt en provider model strategy {} pair w = (Inr x, w1)"
    "run_tasks rt en provider model strategy {} pairs (case x of None \<Rightarrow> rs | Some r \<Rightarrow> rs @ [r]) w1 = (Inr rs', w')"
    using Cons.prems by (auto simp: bnd_Inr)
  obtain r where r: "x = Some r" "record_of provider model strategy pair r" using run_one_record[OF x(1)] by blast
  obtain new where "rs' = (rs @ [r]) @ new" "list_all2 (record_of provider model strategy) pairs new"
    using Cons.IH x(2) r(1) by fastforce
  then show ?case using r(2) by (intro exI[of _ "r # new"]) simp
qed

lemma record_key: "record_of provider model strategy pair r \<Longrightarrow> result_key (record_dump r) = sample_key (fst pair) provider model strategy"
  by (simp add: record_of_def result_key_def record_dump_def sample_key_def)

lemma load_results: "\<forall>r \<in> set rs. rr_error r = None \<Longrightarrow> load_completed (results_lines rs) = Inr ((result_key \<circ> record_dump) ` set rs)"
proof (induction rs)
  case (Cons r rs)
  then have "\<not> truthy (jget_n (record_dump r) ''error'')" by (simp add: record_dump_def jget_n_def jopt_def)
  with Cons show ?case by (simp add: results_lines_def sum_bind_def)
qed (simp add: results_lines_def)

lemma prior_results:
  "\<forall>r \<in> set rs. rr_error r = None \<and> validate_record (JObj (record_dump r)) = Some r \<Longrightarrow>
     prior_successes validate_record (results_lines rs) = rs"
  by (induction rs) (simp_all add: results_lines_def)

text \<open>C34: A run that ended without errors is not repeated: run again over the results it wrote, it calls no provider
  (nothing changes) and gives the same records.\<close>

theorem resumed_run_repeats_nothing:
  assumes "evaluate_samples rt en validate_record order provider strategy rerun max_requests None items w = (Inr rs, w1)"
    and "\<And>xs. set (order xs) = set xs"
    and "\<And>r. r \<in> set rs \<Longrightarrow> rr_error r = None" and "\<And>r. r \<in> set rs \<Longrightarrow> validate_record (JObj (record_dump r)) = Some r"
  shows "evaluate_samples rt en validate_record order provider strategy False max_requests (Some (results_lines rs)) items w2 = (Inr rs, w2)"
proof -
  define chosen where "chosen = (case max_requests of None \<Rightarrow> items | Some k \<Rightarrow> slice_to k items)"
  obtain p where p: "get_vision_provider rt (rn_libs en) (rn_settings en) provider = Inr p"
    and run: "run_tasks rt en provider (pi_model_id (pv_info p)) strategy {} (order chosen) [] w = (Inr rs, w1)"
    using assms(1) unfolding evaluate_samples_def Let_def bnd_Inr chosen_def
    by (cases rerun) (auto simp: lift_def)
  let ?model = "pi_model_id (pv_info p)"
  have all: "list_all2 (record_of provider ?model strategy) (order chosen) rs" using run_tasks_fresh[OF run] by simp
  have "sample_key (fst pair) provider ?model strategy \<in> (result_key \<circ> record_dump) ` set rs" if pair: "pair \<in> set (order chosen)" for pair
  proof -
    obtain r where "r \<in> set rs" "record_of provider ?model strategy pair r"
      using all pair by (metis in_set_conv_nth list_all2_conv_all_nth)
    then show ?thesis using record_key by (metis comp_apply imageI)
  qed
  then have "run_tasks rt en provider ?model strategy ((result_key \<circ> record_dump) ` set rs) (order chosen) rs w2 = (Inr rs, w2)"
    by (intro run_tasks_completed) blast
  moreover have "load_completed (results_lines rs) = Inr ((result_key \<circ> record_dump) ` set rs)"
    using assms(3) by (intro load_results) blast
  moreover have "prior_successes validate_record (results_lines rs) = rs" using assms(3,4) by (intro prior_results) blast
  ultimately show ?thesis by (simp add: evaluate_samples_def bnd_def lift_def p chosen_def Let_def)
qed

text \<open>C33: Images go to an external provider only on explicit request and within the budget: a run that does anything was
  started with the explicit live flag, is no dry run, and plans no more requests than its budget allows.
\<close>

theorem external_run_is_budgeted:
  assumes "ra_provider ra \<noteq> ''mock''"
    and "snd (run_evaluation rt en validate_record order ra results_file manifest w) \<noteq> w"
  shows "ra_live ra \<and> \<not> ra_dry_run ra \<and> (\<exists>k. ra_max_requests ra = Some k \<and> int (length (run_items ra (chosen_samples ra manifest))) \<le> k)"
  using assms unfolding run_evaluation_def Let_def
  by (auto simp: validate_run_flags_def run_defs split: if_splits option.splits sum.splits prod.splits)

section \<open>One record per row\<close>

lemma set_update_distinct: "distinct (map fst al) \<Longrightarrow> set (AList.update k v al) = insert (k, v) {x \<in> set al. fst x \<noteq> k}"
  by (induction al) (simp, force)

definition best_of :: "((string \<times> string \<times> string \<times> string \<times> int option) \<times> result_record) list \<Rightarrow> result_record list \<Rightarrow> bool" where
  "best_of best rs \<longleftrightarrow> distinct (map fst best) \<and> fst ` set best = run_row_key ` set rs
     \<and> (\<forall>p \<in> set best. run_row_key (snd p) = fst p \<and> snd p \<in> set rs
         \<and> (rr_error (snd p) \<noteq> None \<longrightarrow> (\<forall>r \<in> set rs. run_row_key r = fst p \<longrightarrow> rr_error r \<noteq> None)))"

lemma best_of_update:
  assumes "best_of best rs"
    and "rr_error r \<noteq> None \<longrightarrow> (\<forall>r' \<in> set rs. run_row_key r' = run_row_key r \<longrightarrow> rr_error r' \<noteq> None)"
  shows "best_of (AList.update (run_row_key r) r best) (rs @ [r])"
proof -
  have d: "distinct (map fst best)" using assms(1) by (simp add: best_of_def)
  show ?thesis unfolding best_of_def
  proof (intro conjI ballI)
    show "distinct (map fst (AList.update (run_row_key r) r best))" using d by (rule distinct_update)
    show "fst ` set (AList.update (run_row_key r) r best) = run_row_key ` set (rs @ [r])"
      using assms(1) by (simp add: dom_update best_of_def)
    fix p
    assume "p \<in> set (AList.update (run_row_key r) r best)"
    then have p: "p = (run_row_key r, r) \<or> p \<in> set best \<and> fst p \<noteq> run_row_key r" unfolding set_update_distinct[OF d] by blast
    show "run_row_key (snd p) = fst p" "snd p \<in> set (rs @ [r])" using p assms(1) by (auto simp: best_of_def)
    show "rr_error (snd p) \<noteq> None \<longrightarrow> (\<forall>r' \<in> set (rs @ [r]). run_row_key r' = fst p \<longrightarrow> rr_error r' \<noteq> None)"
      using p
    proof
      assume "p = (run_row_key r, r)"
      then show ?thesis using assms(2) by simp
    next
      assume "p \<in> set best \<and> fst p \<noteq> run_row_key r"
      then show ?thesis using assms(1) unfolding best_of_def by (metis in_set_conv_decomp_first rotate1.simps(2) set_ConsD set_rotate1)
    qed
  qed
qed

lemma best_of_keep:
  assumes "best_of best rs" and "(run_row_key r, old) \<in> set best" and "rr_error old = None \<or> rr_error r \<noteq> None"
  shows "best_of best (rs @ [r])"
proof -
  have key: "run_row_key r \<in> fst ` set best" using assms(2) by force
  have d: "distinct (map fst best)" using assms(1) by (simp add: best_of_def)
  show ?thesis unfolding best_of_def
  proof (intro conjI ballI)
    show "distinct (map fst best)" by (fact d)
    show "fst ` set best = run_row_key ` set (rs @ [r])" using assms(1) key by (auto simp: best_of_def)
    fix p
    assume p: "p \<in> set best"
    show "run_row_key (snd p) = fst p" "snd p \<in> set (rs @ [r])" using p assms(1) by (simp_all add: best_of_def)
    have "snd p = old" if "fst p = run_row_key r"
      using d p assms(2) that by (metis eq_key_imp_eq_value prod.collapse)
    then show "rr_error (snd p) \<noteq> None \<longrightarrow> (\<forall>r' \<in> set (rs @ [r]). run_row_key r' = fst p \<longrightarrow> rr_error r' \<noteq> None)"
      using p assms(1,3) by (auto simp: best_of_def)
  qed
qed

lemma dedupe_best: "best_of (foldl dedupe_step [] rs) rs"
proof (induction rs rule: rev_induct)
  case (snoc r rs)
  let ?best = "foldl dedupe_step [] rs"
  have step: "foldl dedupe_step [] (rs @ [r]) = dedupe_step ?best r" by simp
  note defs = step dedupe_step_def[of ?best r]
  show ?case 
  proof (cases "map_of ?best (run_row_key r)")
    case None
    then have "run_row_key r \<notin> run_row_key ` set rs" using snoc by (auto simp: map_of_eq_None_iff best_of_def)
    then have "best_of (AList.update (run_row_key r) r ?best) (rs @ [r])"
      using snoc by (intro best_of_update) (assumption, metis image_eqI)
    then show ?thesis unfolding defs using None by simp
  next
    case (Some old)
    show ?thesis
    proof (cases "rr_error old \<noteq> None \<and> rr_error r = None")
      case True
      then show ?thesis unfolding defs using best_of_update[OF snoc, of r] Some by simp
    next
      case False
      then show ?thesis unfolding defs using best_of_keep[OF snoc map_of_SomeD[OF Some]] Some by auto
    qed
  qed
qed (simp add: best_of_def)

text \<open>Removing duplicates keeps one record of every row (sample, strategy, provider, model, repetition), and an error only
  where every record of the row is one.\<close>

theorem dedupe_keeps_best:
  "distinct (map run_row_key (dedupe_records rs)) \<and> run_row_key ` set (dedupe_records rs) = run_row_key ` set rs
   \<and> set (dedupe_records rs) \<subseteq> set rs
   \<and> (\<forall>r \<in> set (dedupe_records rs). \<forall>r' \<in> set rs. run_row_key r' = run_row_key r \<and> rr_error r' = None \<longrightarrow> rr_error r = None)"
proof -
  let ?best = "foldl dedupe_step [] rs"
  have b: "best_of ?best rs" by (rule dedupe_best)
  then have "\<forall>p \<in> set ?best. run_row_key (snd p) = fst p" unfolding best_of_def by blast
  then have k: "map (run_row_key \<circ> snd) ?best = map fst ?best" by simp
  from arg_cong[OF this, of set] have "run_row_key ` snd ` set ?best = fst ` set ?best" by (simp only: set_map image_comp)
  with b have keys: "run_row_key ` set (dedupe_records rs) = run_row_key ` set rs"
    unfolding dedupe_records_def set_map best_of_def by simp
  have "distinct (map run_row_key (dedupe_records rs))" unfolding dedupe_records_def map_map k using b by (simp only: best_of_def)
  moreover have "set (dedupe_records rs) \<subseteq> set rs" using b by (auto simp: dedupe_records_def best_of_def)
  moreover have "rr_error r = None"
    if "r \<in> set (dedupe_records rs)" "r' \<in> set rs" "run_row_key r' = run_row_key r" "rr_error r' = None" for r r'
  proof -
    obtain p where "p \<in> set ?best" "r = snd p" using \<open>r \<in> set (dedupe_records rs)\<close> by (auto simp: dedupe_records_def)
    then show ?thesis using b that(2-4) unfolding best_of_def by metis
  qed
  ultimately show ?thesis using keys by blast
qed

theorem dedupe_keeps_best_witness:
  "\<exists>rs. rs \<noteq> [] \<and> distinct (map run_row_key (dedupe_records rs)) \<and> run_row_key ` set (dedupe_records rs) = run_row_key ` set rs
   \<and> set (dedupe_records rs) \<subseteq> set rs
   \<and> (\<forall>r \<in> set (dedupe_records rs). \<forall>r' \<in> set rs. run_row_key r' = run_row_key r \<and> rr_error r' = None \<longrightarrow> rr_error r = None)"
proof -
  define s where "s = \<lparr>sm_sample_id = ''a'', sm_label = ''LIVE'', sm_frames = [], sm_split = None, sm_source_dataset = None, sm_prompt_injection = False\<rparr>"
  let ?rs = "[run_record s None ''mock'' ''m'' ''single-quality-v1'']"
  show ?thesis using dedupe_keeps_best[of ?rs] by blast
qed


section \<open>A run of one sample\<close>

definition one_sample :: dataset_sample where
  "one_sample = \<lparr>sm_sample_id = ''a'', sm_label = ''LIVE'', sm_frames = [''a.jpg''], sm_split = None, sm_source_dataset = None, sm_prompt_injection = False\<rparr>"

definition one_environment :: run_environment where
  "one_environment = \<lparr>rn_settings = gate_settings, rn_libs = demo_libraries, rn_contents = \<lambda>_. jpeg_signature\<rparr>"

lemma one_fields [simp]: "rn_settings one_environment = gate_settings" "rn_libs one_environment = demo_libraries"
  "rn_contents one_environment f = jpeg_signature" "sm_sample_id one_sample = ''a''" "sm_label one_sample = ''LIVE''" "sm_frames one_sample = [''a.jpg'']"
  by (simp_all add: one_environment_def one_sample_def)

lemma default_assessment: "\<exists>a. assessment_for ''default'' = Inr a"
  by (simp add: assessment_for_def mock_table_def)

lemma one_run:
  "\<exists>r w'. run (run_one plain_runtime one_environment ''mock'' m ''single-quality-v1'' {} (one_sample, None)) w = (Inr (Some r), w') \<and> rr_error r = None"
proof -
  obtain a where a: "assessment_for ''default'' = Inr a" using default_assessment by blast
  show ?thesis
    by (simp add: run_unfold[OF run_one_def] run_ops vlm_runs run_mock mock_chosen Let_def a read_sample_frames_def select_single_frame_def
      sample_key_def payload_simps record_result_def run_record_def enumerate_eq_zip cong: run_cong split del: if_split)
qed


theorem resumed_run_repeats_nothing_witness:
  "\<exists>validate_record r w1. evaluate_samples plain_runtime one_environment validate_record id ''mock'' ''single-quality-v1'' False None None
      [(one_sample, None)] empty_world = (Inr [r], w1)
    \<and> evaluate_samples plain_runtime one_environment validate_record id ''mock'' ''single-quality-v1'' False None (Some (results_lines [r]))
      [(one_sample, None)] w1 = (Inr [r], w1)"
proof -
  obtain r w1 where r: "run_one plain_runtime one_environment ''mock'' (pi_model_id (pv_info MockVisionProvider)) ''single-quality-v1'' {}
      (one_sample, None) empty_world = (Inr (Some r), w1)" "rr_error r = None"
    using one_run[of "pi_model_id (pv_info MockVisionProvider)" empty_world] by (auto simp: run_def)
  have first: "evaluate_samples plain_runtime one_environment (\<lambda>_. Some r) id ''mock'' ''single-quality-v1'' False None None
      [(one_sample, None)] empty_world = (Inr [r], w1)"
    by (simp add: evaluate_samples_def mock_chosen(1) bnd_def lift_def ret_def r(1) Let_def)
  show ?thesis
    by (intro exI conjI, rule first, rule resumed_run_repeats_nothing[OF first]) (simp_all add: r(2))
qed

definition external_run :: run_arguments where
  "external_run = \<lparr>ra_provider = ''MOCK'', ra_strategy = ''single-quality-v1'', ra_split = ''all'', ra_limit = 0, ra_rerun = False,
     ra_dry_run = False, ra_live = True, ra_max_requests = Some 1, ra_repetitions = 0, ra_repeatability_limit = 10\<rparr>"

lemma mock_chosen_upper: "get_vision_provider rt libs s ''MOCK'' = Inr MockVisionProvider"
proof -
  have "str_lower ''MOCK'' = ''mock''" by code_simp
  then show ?thesis by (simp add: get_vision_provider_def)
qed

lemma external_one_run:
  "\<exists>r w'. run (run_one plain_runtime one_environment ''MOCK'' m ''single-quality-v1'' {} (one_sample, None)) w = (Inr (Some r), w') \<and> rng w' = Suc (rng w)"
proof -
  obtain a where a: "assessment_for ''default'' = Inr a" using default_assessment by blast
  show ?thesis
    by (simp add: run_unfold[OF run_one_def] run_ops vlm_runs run_mock mock_chosen_upper Let_def a read_sample_frames_def select_single_frame_def
      sample_key_def payload_simps record_result_def run_record_def enumerate_eq_zip cong: run_cong split del: if_split)
qed

theorem external_run_is_budgeted_witness:
  "snd (run_evaluation plain_runtime one_environment (\<lambda>_. None) id external_run None [one_sample] empty_world) \<noteq> empty_world
   \<and> ra_live external_run \<and> \<not> ra_dry_run external_run
   \<and> (\<exists>k. ra_max_requests external_run = Some k \<and> int (length (run_items external_run (chosen_samples external_run [one_sample]))) \<le> k)"
proof -
  obtain r w' where r: "run_one plain_runtime one_environment ''MOCK'' (pi_model_id (pv_info MockVisionProvider)) ''single-quality-v1'' {}
      (one_sample, None) empty_world = (Inr (Some r), w')" "rng w' = Suc (rng empty_world)"
    using external_one_run[of "pi_model_id (pv_info MockVisionProvider)" empty_world] by (auto simp: run_def)
  have items: "run_items external_run (chosen_samples external_run [one_sample]) = [(one_sample, None)]"
    by (simp add: run_items_def chosen_samples_def external_run_def)
  have "snd (run_evaluation plain_runtime one_environment (\<lambda>_. None) id external_run None [one_sample] empty_world) = w'"
    unfolding run_evaluation_def Let_def items
    by (simp add: external_run_def validate_run_flags_def evaluate_samples_def mock_chosen_upper bnd_def lift_def ret_def r(1) Let_def slice_to_def)
  moreover have "w' \<noteq> empty_world" using r(2) by auto
  ultimately have changed: "snd (run_evaluation plain_runtime one_environment (\<lambda>_. None) id external_run None [one_sample] empty_world) \<noteq> empty_world"
    by simp
  have "ra_provider external_run \<noteq> ''mock''" by (simp add: external_run_def)
  from external_run_is_budgeted[OF this changed] show ?thesis using changed by blast
qed

end
