(* ===== verification/Storage_Faults.thy ===== *)
theory Storage_Faults
  imports Tx_Store Http_Shell
begin

text \<open>
  The storage under operating-system errors and crashes: \<open>_write_atomic\<close> of \<open>app/transactions/store.py\<close> and
  \<open>app/integrations/store.py\<close> as the system calls it makes (temporary file, write, \<open>fsync\<close>, \<open>chmod\<close>, rename),
  the folders made before it, \<open>initialize\<close>, \<open>create_transaction\<close> with its clean-up, and \<open>check_health\<close>. Elsewhere a
  write is one step; here it is shown that it is one, whatever call fails and wherever the process ends.
\<close>

section \<open>The disk\<close>

type_synonym path = "string list"

record inode =
  in_bytes :: string
  in_synced :: bool
  in_mode :: nat

text \<open>Files by their path, the directories, and how many system calls were made.\<close>

record disk =
  dk_files :: "(path \<times> inode) list"
  dk_dirs :: "path list"
  dk_calls :: nat

text \<open>
  What becomes of a system call: it is done; it fails with an \<open>OSError\<close>; or the process ends in it. A write that does
  not finish leaves its first \<open>k\<close> bytes, and a call the process ends in has taken effect when \<open>k\<close> is not 0.
\<close>

datatype call_outcome = Done | Fails nat | Dies nat

type_synonym os = "nat \<Rightarrow> call_outcome"

datatype io_exn = Raised exn | Killed

type_synonym 'a io = "(disk, io_exn, 'a) sm"

definition os_call :: "os \<Rightarrow> (disk \<Rightarrow> disk) \<Rightarrow> (nat \<Rightarrow> disk \<Rightarrow> disk) \<Rightarrow> (nat \<Rightarrow> disk \<Rightarrow> disk) \<Rightarrow> unit io" where
  "os_call os full failed killed d =
     (let d1 = d\<lparr>dk_calls := Suc (dk_calls d)\<rparr> in
      case os (dk_calls d) of
        Done \<Rightarrow> (Inr (), full d1) | Fails k \<Rightarrow> (Inl (Raised OsErr), failed k d1) | Dies k \<Rightarrow> (Inl Killed, killed k d1))"

definition all_or_none :: "(disk \<Rightarrow> disk) \<Rightarrow> nat \<Rightarrow> disk \<Rightarrow> disk" where
  "all_or_none f k d = (if k = 0 then d else f d)"

definition simple_call :: "os \<Rightarrow> (disk \<Rightarrow> disk) \<Rightarrow> unit io" where
  "simple_call os f = os_call os f (\<lambda>_ d. d) (all_or_none f)"

definition file_on :: "disk \<Rightarrow> path \<Rightarrow> inode option" where
  "file_on d p = map_of (dk_files d) p"

definition bytes_on :: "disk \<Rightarrow> path \<Rightarrow> string option" where
  "bytes_on d p = map_option in_bytes (file_on d p)"

definition set_inode :: "path \<Rightarrow> inode \<Rightarrow> disk \<Rightarrow> disk" where
  "set_inode p i d = d\<lparr>dk_files := AList.update p i (dk_files d)\<rparr>"

definition drop_inode :: "path \<Rightarrow> disk \<Rightarrow> disk" where
  "drop_inode p d = d\<lparr>dk_files := AList.delete p (dk_files d)\<rparr>"

definition rename :: "path \<Rightarrow> path \<Rightarrow> disk \<Rightarrow> disk" where
  "rename p q d = (case file_on d p of None \<Rightarrow> d | Some i \<Rightarrow> set_inode q i (drop_inode p d))"

text \<open>A power loss may cut every file that was not synced; \<open>kept\<close> tells how much of each is left.\<close>

definition power_loss :: "(path \<Rightarrow> nat) \<Rightarrow> disk \<Rightarrow> disk" where
  "power_loss kept d =
     d\<lparr>dk_files := map (\<lambda>(p, i). (p, if in_synced i then i else i\<lparr>in_bytes := take (kept p) (in_bytes i)\<rparr>)) (dk_files d)\<rparr>"

section \<open>The atomic write\<close>

definition temp_path :: "path \<Rightarrow> string \<Rightarrow> path" where
  "temp_path dir suffix = dir @ [''.tmp-'' @ suffix]"

definition exists_on :: "disk \<Rightarrow> path \<Rightarrow> bool" where
  "exists_on d p \<longleftrightarrow> file_on d p \<noteq> None \<or> p \<in> set (dk_dirs d)"

text \<open>\<open>tempfile.mkstemp\<close> tries its random suffixes until a name is free.\<close>

definition mkstemp :: "os \<Rightarrow> string list \<Rightarrow> path \<Rightarrow> path io" where
  "mkstemp os suffixes dir =
     bnd (gets (\<lambda>d. if dir \<in> set (dk_dirs d) then find (\<lambda>s. \<not> exists_on d (temp_path dir s)) suffixes else None)) (\<lambda>s.
       case s of
         None \<Rightarrow> raise (Raised OsErr)
       | Some s \<Rightarrow> andthen (simple_call os (set_inode (temp_path dir s) \<lparr>in_bytes = [], in_synced = False, in_mode = 384\<rparr>))
           (ret (temp_path dir s)))"

text \<open>\<open>write_bytes\<close> opens and truncates, then writes; an existing file keeps its mode.\<close>

definition put_bytes :: "path \<Rightarrow> string \<Rightarrow> disk \<Rightarrow> disk" where
  "put_bytes p bs d =
     set_inode p \<lparr>in_bytes = bs, in_synced = False, in_mode = (case file_on d p of None \<Rightarrow> 420 | Some i \<Rightarrow> in_mode i)\<rparr> d"

definition write_open :: "os \<Rightarrow> path \<Rightarrow> string \<Rightarrow> unit io" where
  "write_open os p data = os_call os (put_bytes p data) (\<lambda>k. put_bytes p (take k data)) (\<lambda>k. put_bytes p (take k data))"

definition change_inode :: "path \<Rightarrow> (inode \<Rightarrow> inode) \<Rightarrow> disk \<Rightarrow> disk" where
  "change_inode p f d = (case file_on d p of None \<Rightarrow> d | Some i \<Rightarrow> set_inode p (f i) d)"

definition fsync :: "os \<Rightarrow> path \<Rightarrow> unit io" where
  "fsync os p = simple_call os (change_inode p (\<lambda>i. i\<lparr>in_synced := True\<rparr>))"

definition chmod :: "os \<Rightarrow> path \<Rightarrow> nat \<Rightarrow> unit io" where
  "chmod os p m = simple_call os (change_inode p (\<lambda>i. i\<lparr>in_mode := m\<rparr>))"

definition replace_file :: "os \<Rightarrow> path \<Rightarrow> path \<Rightarrow> unit io" where
  "replace_file os p q =
     bnd (gets (\<lambda>d. q \<in> set (dk_dirs d))) (\<lambda>blocked.
       if blocked then raise (Raised OsErr) else simple_call os (rename p q))"

definition os_errors_as :: "exn \<Rightarrow> 'a io \<Rightarrow> 'a io" where
  "os_errors_as e m = catch m (\<lambda>e'. raise (if e' = Raised OsErr then Raised e else e'))"

definition write_steps :: "os \<Rightarrow> string list \<Rightarrow> path \<Rightarrow> string \<Rightarrow> unit io" where
  "write_steps os suffixes target data =
     bnd (mkstemp os suffixes (butlast target)) (\<lambda>tmp.
     andthen (write_open os tmp data)
     (andthen (fsync os tmp)
     (andthen (chmod os tmp 384)
       (replace_file os tmp target))))"

definition write_atomic :: "os \<Rightarrow> string list \<Rightarrow> path \<Rightarrow> string \<Rightarrow> unit io" where
  "write_atomic os suffixes target data = os_errors_as StorageError (write_steps os suffixes target data)"

section \<open>Folders\<close>

definition ancestors :: "path \<Rightarrow> path list" where
  "ancestors p = map (\<lambda>n. take n p) [0..<Suc (length p)]"

definition add_dirs :: "path list \<Rightarrow> disk \<Rightarrow> disk" where
  "add_dirs ps d = d\<lparr>dk_dirs := ps @ dk_dirs d\<rparr>"

definition missing_dirs :: "disk \<Rightarrow> path \<Rightarrow> path list" where
  "missing_dirs d p = filter (\<lambda>q. q \<notin> set (dk_dirs d)) (ancestors p)"

text \<open>\<open>mkdir(parents=True, exist_ok=True)\<close>.\<close>

definition mkdirs :: "os \<Rightarrow> path \<Rightarrow> unit io" where
  "mkdirs os p =
     bnd (gets (\<lambda>d. (missing_dirs d p, list_ex (\<lambda>q. file_on d q \<noteq> None) (ancestors p)))) (\<lambda>(new, blocked).
       if blocked then raise (Raised OsErr)
       else if new = [] then ret ()
       else os_call os (add_dirs new) (\<lambda>k. add_dirs (take k new)) (\<lambda>k. add_dirs (take k new)))"

record file_store =
  fs_root :: path
  fs_transactions :: path

definition store_initialize :: "os \<Rightarrow> file_store \<Rightarrow> unit io" where
  "store_initialize os st = os_errors_as StorageError (andthen (mkdirs os (fs_root st)) (mkdirs os (fs_transactions st)))"

definition index_initialize :: "os \<Rightarrow> path \<Rightarrow> unit io" where
  "index_initialize os root_path =
     os_errors_as IndexStoreError
       (andthen (mkdirs os (root_path @ [''index'', ''launch-tokens'']))
       (andthen (mkdirs os (root_path @ [''index'', ''browser-sessions'']))
                (mkdirs os (root_path @ [''index'', ''external'']))))"

definition index_write_atomic :: "os \<Rightarrow> string list \<Rightarrow> path \<Rightarrow> string \<Rightarrow> unit io" where
  "index_write_atomic os suffixes target payload =
     os_errors_as IndexStoreError (andthen (mkdirs os (butlast target)) (write_steps os suffixes target payload))"

section \<open>Transactions and health\<close>

definition transaction_path :: "file_store \<Rightarrow> string \<Rightarrow> path" where
  "transaction_path st t = fs_transactions st @ [t]"

definition write_file :: "os \<Rightarrow> string list \<Rightarrow> file_store \<Rightarrow> string \<Rightarrow> string \<Rightarrow> string \<Rightarrow> unit io" where
  "write_file os suffixes st t p payload =
     bnd (lift (map_sum Raised id (resolve_artifact t p))) (\<lambda>parts.
     (let target = fs_transactions st @ parts in
      andthen (mkdirs os (butlast target)) (write_atomic os suffixes target payload)))"

definition mkdir_new :: "os \<Rightarrow> path \<Rightarrow> unit io" where
  "mkdir_new os p =
     bnd (gets (\<lambda>d. exists_on d p)) (\<lambda>there.
       if there then raise (Raised TxExistsError) else os_errors_as StorageError (simple_call os (add_dirs [p])))"

text \<open>\<open>rmdir\<close> removes an empty directory.\<close>

definition empty_on :: "disk \<Rightarrow> path \<Rightarrow> bool" where
  "empty_on d p \<longleftrightarrow> \<not> list_ex (\<lambda>q. q \<noteq> [] \<and> butlast q = p) (map fst (dk_files d) @ dk_dirs d)"

definition remove_dir :: "path \<Rightarrow> disk \<Rightarrow> disk" where
  "remove_dir p d = d\<lparr>dk_dirs := filter (\<lambda>q. q \<noteq> p) (dk_dirs d)\<rparr>"

definition rmdir :: "os \<Rightarrow> path \<Rightarrow> unit io" where
  "rmdir os p = bnd (gets (\<lambda>d. empty_on d p)) (\<lambda>empty.
     if empty then simple_call os (remove_dir p) else raise (Raised OsErr))"

definition create_folder :: "os \<Rightarrow> string list \<Rightarrow> file_store \<Rightarrow> string \<Rightarrow> string \<Rightarrow> unit io" where
  "create_folder os suffixes st t metadata =
     (if \<not> is_valid_transaction_id t then raise (Raised PathError)
      else
        andthen (os_errors_as StorageError (mkdirs os (fs_transactions st)))
        (andthen (mkdir_new os (transaction_path st t))
          (catch (write_file os suffixes st t ''transaction.json'' metadata)
            (\<lambda>e. case e of
               Raised x \<Rightarrow> if is_storage_error x then andthen (rmdir os (transaction_path st t)) (raise e) else raise e
             | Killed \<Rightarrow> raise e))))"

text \<open>\<open>message\<close> is the text of an \<open>OSError\<close>.\<close>

definition probe_path :: "file_store \<Rightarrow> path" where
  "probe_path st = fs_transactions st @ [''.livephoto-probe'']"

definition unlink :: "os \<Rightarrow> path \<Rightarrow> unit io" where
  "unlink os p = bnd (gets (\<lambda>d. file_on d p)) (\<lambda>i.
     if i = None then raise (Raised OsErr) else simple_call os (drop_inode p))"

definition check_health :: "os \<Rightarrow> string \<Rightarrow> file_store \<Rightarrow> string option io" where
  "check_health os message st =
     catch
       (andthen (store_initialize os st)
       (andthen (write_open os (probe_path st) ''ok'')
       (andthen (unlink os (probe_path st)) (ret None))))
       (\<lambda>e. if e = Raised OsErr then ret (Some message) else raise e)"

text \<open>The readiness check of the start-up code, over the store's own check.\<close>

definition storage_check :: "os \<Rightarrow> string \<Rightarrow> file_store \<Rightarrow> readiness io" where
  "storage_check os message st = bnd (check_health os message st) (\<lambda>failure. ret (storage_readiness_check failure))"

section \<open>Facts about the disk\<close>

lemma file_on_simps [simp]:
  "file_on (d\<lparr>dk_calls := n\<rparr>) p = file_on d p" "file_on (d\<lparr>dk_dirs := ds\<rparr>) p = file_on d p"
  "file_on (set_inode q i d) p = (if p = q then Some i else file_on d p)"
  "file_on (drop_inode q d) p = (if p = q then None else file_on d p)"
  "file_on (add_dirs ps d) p = file_on d p" "file_on (remove_dir q d) p = file_on d p"
  by (simp_all add: file_on_def set_inode_def drop_inode_def add_dirs_def remove_dir_def update_conv' delete_conv')

lemma file_on_change [simp]:
  "file_on (change_inode q f d) p = (if p = q then map_option f (file_on d p) else file_on d p)"
  by (simp add: change_inode_def split: option.split)

lemma file_on_put [simp]:
  "file_on (put_bytes q bs d) p = (if p = q then Some \<lparr>in_bytes = bs, in_synced = False,
     in_mode = (case file_on d q of None \<Rightarrow> 420 | Some i \<Rightarrow> in_mode i)\<rparr> else file_on d p)"
  by (simp add: put_bytes_def)

lemma file_on_rename [simp]:
  "file_on (rename q r d) p =
     (case file_on d q of None \<Rightarrow> file_on d p | Some i \<Rightarrow> if p = r then Some i else if p = q then None else file_on d p)"
  by (simp add: rename_def split: option.split)

lemma dk_dirs_simps [simp]:
  "dk_dirs (d\<lparr>dk_calls := n\<rparr>) = dk_dirs d" "dk_dirs (set_inode q i d) = dk_dirs d" "dk_dirs (drop_inode q d) = dk_dirs d"
  "dk_dirs (put_bytes q bs d) = dk_dirs d" "dk_dirs (change_inode q f d) = dk_dirs d" "dk_dirs (rename q r d) = dk_dirs d"
  "dk_dirs (add_dirs ps d) = ps @ dk_dirs d" "dk_dirs (remove_dir q d) = filter (\<lambda>p. p \<noteq> q) (dk_dirs d)"
  by (simp_all add: set_inode_def drop_inode_def put_bytes_def change_inode_def rename_def add_dirs_def remove_dir_def
      split: option.split)

lemma map_of_cut:
  "map_of (map (\<lambda>(p, i). (p, f p i)) xs) p = map_option (f p) (map_of xs p)"
  by (induction xs) auto

lemma file_on_power_loss:
  "file_on (power_loss kept d) p =
     map_option (\<lambda>i. if in_synced i then i else i\<lparr>in_bytes := take (kept p) (in_bytes i)\<rparr>) (file_on d p)"
  by (simp add: file_on_def power_loss_def map_of_cut[of "\<lambda>p i. if in_synced i then i else i\<lparr>in_bytes := take (kept p) (in_bytes i)\<rparr>"])

lemma wp_os_call [wp_simps]:
  "wp (os_call os f g h) Q E d =
     (let d1 = d\<lparr>dk_calls := Suc (dk_calls d)\<rparr> in
      case os (dk_calls d) of Done \<Rightarrow> Q () (f d1) | Fails k \<Rightarrow> E (Raised OsErr) (g k d1) | Dies k \<Rightarrow> E Killed (h k d1))"
  by (simp add: wp_def os_call_def Let_def split: call_outcome.split)

text \<open>A rule for a call whose outcome does not matter: each of the states it may leave is enough.\<close>

lemma wp_os_callI:
  assumes "\<And>n. Q () (f (d\<lparr>dk_calls := n\<rparr>))" and "\<And>k n. E (Raised OsErr) (g k (d\<lparr>dk_calls := n\<rparr>))"
    and "\<And>k n. E Killed (h k (d\<lparr>dk_calls := n\<rparr>))"
  shows "wp (os_call os f g h) Q E d"
  using assms by (simp add: wp_os_call Let_def split: call_outcome.split)

section \<open>The write is one step\<close>

text \<open>
  What a write may leave of a disk \<open>d0\<close>: nothing but a temporary file that was not there, or exactly the new contents
  at the target, synced and private.
\<close>

definition untouched :: "string list \<Rightarrow> path \<Rightarrow> disk \<Rightarrow> disk \<Rightarrow> bool" where
  "untouched suffixes target d0 d \<longleftrightarrow> dk_dirs d = dk_dirs d0 \<and>
     (\<forall>q. file_on d q = file_on d0 q \<or> (file_on d0 q = None \<and> q \<in> temp_path (butlast target) ` set suffixes))"

definition stored :: "path \<Rightarrow> string \<Rightarrow> disk \<Rightarrow> disk \<Rightarrow> bool" where
  "stored target data d0 d \<longleftrightarrow> dk_dirs d = dk_dirs d0 \<and>
     file_on d target = Some \<lparr>in_bytes = data, in_synced = True, in_mode = 384\<rparr> \<and>
     (\<forall>q. q \<noteq> target \<longrightarrow> file_on d q = file_on d0 q)"

text \<open>The temporary file is being filled: everything else is as it was.\<close>

definition filling :: "path \<Rightarrow> inode option \<Rightarrow> disk \<Rightarrow> disk \<Rightarrow> bool" where
  "filling tmp i d0 d \<longleftrightarrow> dk_dirs d = dk_dirs d0 \<and> file_on d0 tmp = None \<and> file_on d tmp = i \<and>
     (\<forall>q. q \<noteq> tmp \<longrightarrow> file_on d q = file_on d0 q)"

lemma filling_untouched:
  "filling tmp i d0 d \<Longrightarrow> tmp \<in> temp_path (butlast target) ` set suffixes \<Longrightarrow> untouched suffixes target d0 d"
  unfolding filling_def untouched_def by metis

lemma untouched_refl: "untouched suffixes target d0 d0"
  by (simp add: untouched_def)

lemma filling_calls [simp]: "filling tmp i d0 (d\<lparr>dk_calls := n\<rparr>) = filling tmp i d0 d"
  by (simp add: filling_def)

lemma filling_change: "filling tmp (Some i) d0 d \<Longrightarrow> filling tmp (Some (f i)) d0 (change_inode tmp f d)"
  by (auto simp: filling_def)

lemma filling_put: "filling tmp (Some i) d0 d \<Longrightarrow> filling tmp (Some \<lparr>in_bytes = bs, in_synced = False, in_mode = in_mode i\<rparr>) d0 (put_bytes tmp bs d)"
  by (auto simp: filling_def)

lemma filling_rename:
  "filling tmp (Some \<lparr>in_bytes = data, in_synced = True, in_mode = 384\<rparr>) d0 d \<Longrightarrow> tmp \<noteq> target
    \<Longrightarrow> stored target data d0 (rename tmp target d)"
  by (auto simp: filling_def stored_def)

definition write_error :: "string list \<Rightarrow> path \<Rightarrow> string \<Rightarrow> disk \<Rightarrow> io_exn \<Rightarrow> disk \<Rightarrow> bool" where
  "write_error suffixes target data d0 e d \<longleftrightarrow>
     (e = Raised OsErr \<and> untouched suffixes target d0 d) \<or> (e = Killed \<and> (untouched suffixes target d0 d \<or> stored target data d0 d))"

lemma wp_simple_call:
  assumes "\<And>n. Q () (f (d\<lparr>dk_calls := n\<rparr>))" and "\<And>n. E (Raised OsErr) (d\<lparr>dk_calls := n\<rparr>)"
    and "\<And>n. E Killed (f (d\<lparr>dk_calls := n\<rparr>))" and "\<And>n. E Killed (d\<lparr>dk_calls := n\<rparr>)"
  shows "wp (simple_call os f) Q E d"
  unfolding simple_call_def using assms by (intro wp_os_callI) (simp_all add: all_or_none_def)

lemma find_free: "find p xs = Some x \<Longrightarrow> x \<in> set xs \<and> p x"
  by (auto simp: find_Some_iff)

lemma unfilled_error:
  "filling tmp i d0 d \<Longrightarrow> tmp \<in> temp_path (butlast target) ` set suffixes \<Longrightarrow> e \<in> {Raised OsErr, Killed}
    \<Longrightarrow> write_error suffixes target data d0 e d"
  using filling_untouched unfolding write_error_def by blast

lemma wp_write_tmp:
  assumes "filling tmp (Some i) d0 d" and "tmp \<in> temp_path (butlast target) ` set suffixes"
  shows "wp (write_open os tmp data) (\<lambda>_. filling tmp (Some \<lparr>in_bytes = data, in_synced = False, in_mode = in_mode i\<rparr>) d0)
    (write_error suffixes target data d0) d"
proof -
  have put: "filling tmp (Some \<lparr>in_bytes = bs, in_synced = False, in_mode = in_mode i\<rparr>) d0 (put_bytes tmp bs (d\<lparr>dk_calls := n\<rparr>))"
    for bs n
    using assms(1) by (intro filling_put) simp
  show ?thesis
    unfolding write_open_def by (rule wp_os_callI) (rule put, (rule unfilled_error[OF put assms(2)]; simp)+)
qed

lemma wp_change_tmp:
  assumes "filling tmp (Some i) d0 d" and "tmp \<in> temp_path (butlast target) ` set suffixes"
  shows "wp (simple_call os (change_inode tmp f)) (\<lambda>_. filling tmp (Some (f i)) d0) (write_error suffixes target data d0) d"
proof (rule wp_simple_call)
  fix n
  have changed: "filling tmp (Some (f i)) d0 (change_inode tmp f (d\<lparr>dk_calls := n\<rparr>))" using assms(1) by (simp add: filling_change)
  then show "filling tmp (Some (f i)) d0 (change_inode tmp f (d\<lparr>dk_calls := n\<rparr>))" .
  show "write_error suffixes target data d0 Killed (change_inode tmp f (d\<lparr>dk_calls := n\<rparr>))"
    by (rule unfilled_error[OF changed assms(2)]) simp
  have same: "filling tmp (Some i) d0 (d\<lparr>dk_calls := n\<rparr>)" using assms(1) by simp
  show "write_error suffixes target data d0 (Raised OsErr) (d\<lparr>dk_calls := n\<rparr>)"
    "write_error suffixes target data d0 Killed (d\<lparr>dk_calls := n\<rparr>)"
    by (rule unfilled_error[OF same assms(2)]; simp)+
qed

lemma wp_replace_tmp:
  assumes filled: "filling tmp (Some \<lparr>in_bytes = data, in_synced = True, in_mode = 384\<rparr>) d0 d"
    and tmp: "tmp \<in> temp_path (butlast target) ` set suffixes" and "tmp \<noteq> target"
  shows "wp (replace_file os tmp target) (\<lambda>_. stored target data d0) (write_error suffixes target data d0) d"
proof -
  have err: "write_error suffixes target data d0 e (d\<lparr>dk_calls := n\<rparr>)" if "e \<in> {Raised OsErr, Killed}" for e n
    using filled that by (intro unfilled_error[OF _ tmp]) simp_all
  have ok: "stored target data d0 (rename tmp target (d\<lparr>dk_calls := n\<rparr>))" for n
    using filled by (intro filling_rename[OF _ assms(3)]) simp
  have "wp (simple_call os (rename tmp target)) (\<lambda>_. stored target data d0) (write_error suffixes target data d0) d"
    by (rule wp_simple_call) (rule ok, rule err, simp, simp add: write_error_def ok, rule err, simp)
  moreover have "write_error suffixes target data d0 (Raised OsErr) d" by (rule unfilled_error[OF filled tmp]) simp
  ultimately show ?thesis by (simp add: replace_file_def wp_simps)
qed

lemma wp_seq: "wp m (\<lambda>_. R) E d \<Longrightarrow> (\<And>d'. R d' \<Longrightarrow> wp n Q E d') \<Longrightarrow> wp (andthen m n) Q E d"
  unfolding wp_andthen by (erule wp_mono) auto

lemma wp_fill:
  assumes "filling tmp (Some i) d0 d" and tmp: "tmp \<in> temp_path (butlast target) ` set suffixes" and "tmp \<noteq> target"
  shows "wp (andthen (write_open os tmp data) (andthen (fsync os tmp) (andthen (chmod os tmp 384) (replace_file os tmp target))))
    (\<lambda>_. stored target data d0) (write_error suffixes target data d0) d"
proof (rule wp_seq[OF wp_write_tmp[OF assms(1,2)]], unfold fsync_def chmod_def, rule wp_seq, erule wp_change_tmp[OF _ tmp],
    rule wp_seq, erule wp_change_tmp[OF _ tmp])
qed (use wp_replace_tmp[OF _ assms(2,3)] in simp)

lemma wp_write_steps:
  assumes "target \<notin> temp_path (butlast target) ` set suffixes"
  shows "wp (write_steps os suffixes target data) (\<lambda>_. stored target data d) (write_error suffixes target data d) d"
proof -
  let ?dir = "butlast target"
  show ?thesis
  proof (cases "if ?dir \<in> set (dk_dirs d) then find (\<lambda>s. \<not> exists_on d (temp_path ?dir s)) suffixes else None")
    case None
    then show ?thesis
      unfolding write_steps_def mkstemp_def wp_bnd wp_gets by (simp add: wp_raise write_error_def untouched_refl del: if_split)
  next
    case (Some s)
    let ?tmp = "temp_path ?dir s"
    have s: "s \<in> set suffixes" "file_on d ?tmp = None"
      using find_free[of "\<lambda>s. \<not> exists_on d (temp_path ?dir s)" suffixes s] Some by (auto simp: exists_on_def split: if_splits)
    have tmp: "?tmp \<in> temp_path ?dir ` set suffixes" using s(1) by simp
    then have other: "?tmp \<noteq> target" using assms by metis
    let ?made = "set_inode ?tmp \<lparr>in_bytes = [], in_synced = False, in_mode = 384\<rparr>"
    have new: "filling ?tmp (Some \<lparr>in_bytes = [], in_synced = False, in_mode = 384\<rparr>) d (?made (d\<lparr>dk_calls := n\<rparr>))" for n
      using s(2) by (simp add: filling_def)
    have old: "filling ?tmp None d (d\<lparr>dk_calls := n\<rparr>)" for n using s(2) by (simp add: filling_def)
    have "wp (simple_call os ?made) (\<lambda>_. wp (andthen (write_open os ?tmp data) (andthen (fsync os ?tmp)
        (andthen (chmod os ?tmp 384) (replace_file os ?tmp target)))) (\<lambda>_. stored target data d) (write_error suffixes target data d))
      (write_error suffixes target data d) d"
      by (rule wp_simple_call) (rule wp_fill[OF new tmp other], rule unfilled_error[OF old tmp], simp,
          rule unfilled_error[OF new tmp], simp, rule unfilled_error[OF old tmp], simp)
    then show ?thesis
      unfolding write_steps_def mkstemp_def wp_bnd wp_gets by (simp add: Some wp_andthen wp_andthen_fun wp_ret wp_ret_fun wp_bnd del: if_split)
  qed
qed

lemma wp_os_errors_as: "wp (os_errors_as x m) Q E d = wp m Q (\<lambda>e. E (if e = Raised OsErr then Raised x else e)) d"
  by (simp add: os_errors_as_def wp_simps wp_raise_fun)

lemma wp_write_atomic:
  assumes "target \<notin> temp_path (butlast target) ` set suffixes"
  shows "wp (write_atomic os suffixes target data) (\<lambda>_. stored target data d)
      (\<lambda>e d'. (e = Raised StorageError \<and> untouched suffixes target d d')
        \<or> (e = Killed \<and> (untouched suffixes target d d' \<or> stored target data d d'))) d"
  unfolding write_atomic_def wp_os_errors_as
  by (rule wp_mono[OF wp_write_steps[OF assms(1)]]) (auto simp: write_error_def)

lemma write_atomic_cases:
  assumes "target \<notin> temp_path (butlast target) ` set suffixes" and "write_atomic os suffixes target data d = (r, d')"
  shows "(r = Inr () \<and> stored target data d d') \<or> (r = Inl (Raised StorageError) \<and> untouched suffixes target d d')
    \<or> (r = Inl Killed \<and> (untouched suffixes target d d' \<or> stored target data d d'))"
  using wp_write_atomic[OF assms(1), where os = os and data = data and d = d] assms(2) by (auto simp: wp_def split: sum.splits)

lemma stored_bytes: "stored target data d d' \<Longrightarrow> bytes_on d' = (bytes_on d)(target \<mapsto> data)"
  by (auto simp: stored_def bytes_on_def fun_eq_iff)

lemma stored_power_loss: "stored target data d d' \<Longrightarrow> bytes_on (power_loss kept d') target = Some data"
  by (simp add: stored_def bytes_on_def file_on_power_loss)

lemma untouched_target:
  assumes "untouched suffixes target d d'" and "target \<notin> temp_path (butlast target) ` set suffixes"
  shows "file_on d' target = file_on d target"
  using assms unfolding untouched_def by metis

lemma untouched_power_loss:
  assumes "untouched suffixes target d d'" and "target \<notin> temp_path (butlast target) ` set suffixes"
    and "\<And>i. file_on d target = Some i \<Longrightarrow> in_synced i"
  shows "bytes_on (power_loss kept d') target = bytes_on d target"
  using untouched_target[OF assms(1,2)] assms(3) by (cases "file_on d target") (auto simp: bytes_on_def file_on_power_loss)

end
