(* ===== verification/Storage_Properties.thy ===== *)
theory Storage_Properties
  imports Storage_Faults
begin

text \<open>
  The properties of the storage under failures: a write is all or nothing, what a failed creation of a transaction
  leaves, and what the health check misses.
\<close>

section \<open>Writes\<close>


section \<open>Creation and health\<close>

text \<open>A disk with the store's folders and nothing else, and a system whose \<open>n\<close>-th call fails.\<close>

definition failing_at :: "nat \<Rightarrow> os" where
  "failing_at n = (\<lambda>k. if k = n then Fails 0 else Done)"

definition plain_store :: file_store where
  "plain_store = \<lparr>fs_root = [''data''], fs_transactions = [''data'', ''transactions'']\<rparr>"

definition plain_disk :: disk where
  "plain_disk = \<lparr>dk_files = [], dk_dirs = [[], [''data''], [''data'', ''transactions'']], dk_calls = 0\<rparr>"

text \<open>\<open>mkdirs\<close> on folders that are there does nothing.\<close>

lemma mkdirs_there:
  assumes "set (ancestors p) \<subseteq> set (dk_dirs d)" and "\<And>q. q \<in> set (ancestors p) \<Longrightarrow> file_on d q = None"
  shows "mkdirs os p d = (Inr (), d)"
proof -
  have "missing_dirs d p = []" using assms(1) by (auto simp: missing_dirs_def filter_empty_conv)
  moreover have "\<not> list_ex (\<lambda>q. file_on d q \<noteq> None) (ancestors p)" using assms(2) by (auto simp: list_ex_iff)
  ultimately show ?thesis by (simp add: mkdirs_def bnd_def gets_def ret_def)
qed

lemma mkdirs_fails:
  assumes "missing_dirs d p \<noteq> []" and "os (dk_calls d) = Fails k"
  shows "fst (mkdirs os p d) = Inl (Raised OsErr)"
  using assms by (simp add: mkdirs_def bnd_def gets_def raise_def os_call_def Let_def)

lemma missing_self: "p \<notin> set (dk_dirs d) \<Longrightarrow> missing_dirs d p \<noteq> []"
proof -
  assume "p \<notin> set (dk_dirs d)"
  moreover have "p \<in> set (ancestors p)" unfolding ancestors_def set_map by (rule image_eqI[of _ _ "length p"]) simp_all
  ultimately have "p \<in> set (missing_dirs d p)" by (simp add: missing_dirs_def)
  then show ?thesis by (cases "missing_dirs d p") auto
qed

text \<open>A storage root that cannot be made is not reported, it is raised. When the root is missing and the system refuses
  to make it, check_health, whose handler knows only OSError, ends in the TransactionStorageError of initialize
  and gives no readiness result, and the index store's initialize, which the start of the application calls, ends it.
\<close>

theorem missing_root_is_raised:
  assumes "fs_root st \<notin> set (dk_dirs d)" and "fs_root st @ [''index'', ''launch-tokens''] \<notin> set (dk_dirs d)"
    and "os (dk_calls d) = Fails k"
  shows "fst (storage_check os message st d) = Inl (Raised StorageError)
    \<and> fst (index_initialize os (fs_root st) d) = Inl (Raised IndexStoreError)"
proof -
  have "fst (mkdirs os (fs_root st) d) = Inl (Raised OsErr)"
    "fst (mkdirs os (fs_root st @ [''index'', ''launch-tokens'']) d) = Inl (Raised OsErr)"
    by (rule mkdirs_fails[OF missing_self[OF assms(1)]], rule assms(3), rule mkdirs_fails[OF missing_self[OF assms(2)]], rule assms(3))
  then obtain d1 d2 where m: "mkdirs os (fs_root st) d = (Inl (Raised OsErr), d1)"
      "mkdirs os (fs_root st @ [''index'', ''launch-tokens'']) d = (Inl (Raised OsErr), d2)"
    by (metis prod.collapse)
  show ?thesis
    by (simp add: storage_check_def check_health_def store_initialize_def index_initialize_def os_errors_as_def catch_def andthen_def bnd_def m raise_def)
qed

theorem missing_root_is_raised_witness:
  "fst (storage_check (failing_at 0) ''m'' plain_store \<lparr>dk_files = [], dk_dirs = [[]], dk_calls = 0\<rparr>) = Inl (Raised StorageError)
    \<and> fst (index_initialize (failing_at 0) (fs_root plain_store) \<lparr>dk_files = [], dk_dirs = [[]], dk_calls = 0\<rparr>)
      = Inl (Raised IndexStoreError)"
  by (rule missing_root_is_raised[where k = 0]) (simp_all add: plain_store_def failing_at_def)

lemma metadata_resolved: "is_valid_transaction_id t \<Longrightarrow> resolve_artifact t ''transaction.json'' = Inr [t, ''transaction.json'']"
  by (simp add: resolve_artifact_def path_part_kept_def starts_with_def)

section \<open>A failed creation\<close>

text \<open>Making folders changes no file and adds only the missing ones.\<close>

definition grown :: "path \<Rightarrow> disk \<Rightarrow> disk \<Rightarrow> bool" where
  "grown p d0 d \<longleftrightarrow> (\<forall>q. file_on d q = file_on d0 q) \<and> set (dk_dirs d0) \<subseteq> set (dk_dirs d)
     \<and> set (dk_dirs d) \<subseteq> set (dk_dirs d0) \<union> set (ancestors p)"

lemma grown_refl: "grown p d d" "grown p d (d\<lparr>dk_calls := n\<rparr>)"
  by (simp_all add: grown_def)

lemma grown_take: "grown p d (add_dirs (take k (missing_dirs d p)) (d\<lparr>dk_calls := n\<rparr>))"
  using set_take_subset[of k "missing_dirs d p"] by (auto simp: grown_def missing_dirs_def)

lemma grown_all: "grown p d (add_dirs (missing_dirs d p) (d\<lparr>dk_calls := n\<rparr>))"
  by (auto simp: grown_def missing_dirs_def)

lemma wp_mkdirs:
  "wp (mkdirs os p) (\<lambda>_. grown p d) (\<lambda>e d'. e \<in> {Raised OsErr, Killed} \<and> grown p d d') d"
proof -
  have "wp (os_call os (add_dirs (missing_dirs d p)) (\<lambda>k. add_dirs (take k (missing_dirs d p))) (\<lambda>k. add_dirs (take k (missing_dirs d p))))
      (\<lambda>_. grown p d) (\<lambda>e d'. e \<in> {Raised OsErr, Killed} \<and> grown p d d') d"
    by (rule wp_os_callI) (simp_all add: grown_take grown_all)
  then show ?thesis by (simp add: mkdirs_def wp_simps grown_refl)
qed

text \<open>The states of a creation: the folder is not there yet; it is there, with nothing in its own place.\<close>

definition folder_absent :: "path \<Rightarrow> disk \<Rightarrow> bool" where
  "folder_absent p d \<longleftrightarrow> \<not> exists_on d p"

definition folder_made :: "path \<Rightarrow> disk \<Rightarrow> bool" where
  "folder_made p d \<longleftrightarrow> file_on d p = None \<and> p \<in> set (dk_dirs d)"

lemma grown_absent: "grown q d d' \<Longrightarrow> p \<notin> set (ancestors q) \<Longrightarrow> folder_absent p d \<Longrightarrow> folder_absent p d'"
  by (auto simp: grown_def folder_absent_def exists_on_def)

lemma grown_made: "grown q d d' \<Longrightarrow> folder_made p d \<Longrightarrow> folder_made p d'"
  by (auto simp: grown_def folder_made_def)

lemma not_own_ancestor: "p @ [t] \<notin> set (ancestors p)"
  by (auto simp: ancestors_def dest: arg_cong[of _ _ length])

lemma write_keeps_made:
  assumes "folder_made p d" and "target \<notin> temp_path (butlast target) ` set suffixes" and "length p < length target"
  shows "wp (write_atomic os suffixes target data) (\<lambda>_. folder_made p)
    (\<lambda>e d'. e \<in> {Raised StorageError, Killed} \<and> folder_made p d') d"
proof -
  have long: "p \<noteq> target" "p \<notin> temp_path (butlast target) ` set suffixes" using assms(3) by (auto simp: temp_path_def)
  have made: "untouched suffixes target d d' \<or> stored target data d d' \<Longrightarrow> folder_made p d'" for d'
    using assms(1) long unfolding untouched_def stored_def folder_made_def by metis
  show ?thesis
    by (rule wp_mono[OF wp_write_atomic[OF assms(2)]]) (use made in auto)
qed

lemma wp_write_metadata:
  assumes "folder_made (transaction_path st t) d" and "is_valid_transaction_id t"
  shows "wp (write_file os suffixes st t ''transaction.json'' payload) (\<lambda>_. folder_made (transaction_path st t))
    (\<lambda>e d'. e \<in> {Raised StorageError, Raised OsErr, Killed} \<and> folder_made (transaction_path st t) d') d"
proof -
  let ?p = "transaction_path st t"
  have target: "?p @ [''transaction.json''] \<notin> temp_path ?p ` set suffixes" by (auto simp: temp_path_def)
  have "wp (andthen (mkdirs os ?p) (write_atomic os suffixes (?p @ [''transaction.json'']) payload)) (\<lambda>_. folder_made ?p)
      (\<lambda>e d'. e \<in> {Raised StorageError, Raised OsErr, Killed} \<and> folder_made ?p d') d"
    unfolding wp_andthen
  proof (rule wp_mono[OF wp_mkdirs])
    fix d' assume "grown ?p d d'"
    then have "folder_made ?p d'" by (rule grown_made[OF _ assms(1)])
    then show "wp (write_atomic os suffixes (?p @ [''transaction.json'']) payload) (\<lambda>_. folder_made ?p)
        (\<lambda>e d'. e \<in> {Raised StorageError, Raised OsErr, Killed} \<and> folder_made ?p d') d'"
      by (rule wp_mono[OF write_keeps_made]) (use target in auto)
  qed (use grown_made[OF _ assms(1)] in auto)
  then show ?thesis
    by (simp add: write_file_def metadata_resolved[OF assms(2)] wp_simps transaction_path_def butlast_append)
qed

lemma wp_rmdir:
  assumes "folder_made p d"
  shows "wp (rmdir os p) (\<lambda>_. folder_absent p) (\<lambda>e d'. (e = Raised OsErr \<and> folder_made p d') \<or> e = Killed) d"
proof -
  have "wp (simple_call os (remove_dir p)) (\<lambda>_. folder_absent p) (\<lambda>e d'. (e = Raised OsErr \<and> folder_made p d') \<or> e = Killed) d"
    using assms by (intro wp_simple_call) (simp_all add: folder_absent_def folder_made_def exists_on_def)
  then show ?thesis using assms by (simp add: rmdir_def wp_simps)
qed

text \<open>What a creation that does not return may leave.\<close>

definition creation_error :: "path \<Rightarrow> io_exn \<Rightarrow> disk \<Rightarrow> bool" where
  "creation_error p e d \<longleftrightarrow>
     (e \<in> {Raised StorageError, Raised TxExistsError, Raised PathError} \<and> folder_absent p d) \<or> (e = Raised OsErr \<and> folder_made p d) \<or> e = Killed"

lemma wp_create_inner:
  assumes "folder_absent (transaction_path st t) d" and "is_valid_transaction_id t"
  shows "wp (andthen (mkdir_new os (transaction_path st t))
      (catch (write_file os suffixes st t ''transaction.json'' metadata)
        (\<lambda>e. case e of
           Raised x \<Rightarrow> if is_storage_error x then andthen (rmdir os (transaction_path st t)) (raise e) else raise e
         | Killed \<Rightarrow> raise e)))
    (\<lambda>_. folder_made (transaction_path st t)) (creation_error (transaction_path st t)) d"
proof -
  let ?p = "transaction_path st t"
  have handler: "wp (case e of Raised x \<Rightarrow> if is_storage_error x then andthen (rmdir os ?p) (raise e) else raise e | Killed \<Rightarrow> raise e)
      (\<lambda>_. folder_made ?p) (creation_error ?p) d'"
    if "e \<in> {Raised StorageError, Raised OsErr, Killed}" "folder_made ?p d'" for e d'
  proof -
    have "wp (rmdir os ?p) (\<lambda>_. creation_error ?p (Raised StorageError)) (creation_error ?p) d'"
      by (rule wp_mono[OF wp_rmdir[OF that(2)]]) (auto simp: creation_error_def)
    moreover have "e = Raised OsErr \<Longrightarrow> creation_error ?p e d'" "creation_error ?p Killed d'"
      using that(2) by (simp_all add: creation_error_def)
    ultimately show ?thesis using that(1) by (auto simp: is_storage_error_def wp_andthen wp_raise_fun wp_raise)
  qed
  have "wp (simple_call os (add_dirs [?p])) (\<lambda>_. folder_made ?p)
      (\<lambda>e d'. (e = Raised OsErr \<and> folder_absent ?p d') \<or> e = Killed) d"
    using assms(1) by (intro wp_simple_call) (simp_all add: folder_absent_def folder_made_def exists_on_def)
  then have "wp (mkdir_new os ?p) (\<lambda>_. folder_made ?p) (creation_error ?p) d"
    using assms(1) by (auto simp: mkdir_new_def wp_simps wp_os_errors_as creation_error_def folder_absent_def elim: wp_mono)
  then show ?thesis
  proof (rule wp_seq)
    fix d' assume "folder_made ?p d'"
    from wp_write_metadata[OF this assms(2)] show "wp (catch (write_file os suffixes st t ''transaction.json'' metadata)
        (\<lambda>e. case e of Raised x \<Rightarrow> if is_storage_error x then andthen (rmdir os ?p) (raise e) else raise e | Killed \<Rightarrow> raise e))
      (\<lambda>_. folder_made ?p) (creation_error ?p) d'"
      unfolding wp_catch by (rule wp_mono) (use handler in auto)
  qed
qed

lemma wp_create_folder:
  assumes "folder_absent (transaction_path st t) d"
  shows "wp (create_folder os suffixes st t metadata) (\<lambda>_. folder_made (transaction_path st t)) (creation_error (transaction_path st t)) d"
proof (cases "is_valid_transaction_id t")
  case True
  let ?p = "transaction_path st t"
  have absent: "grown (fs_transactions st) d d' \<Longrightarrow> folder_absent ?p d'" for d'
    by (erule grown_absent[OF _ _ assms]) (unfold transaction_path_def, rule not_own_ancestor)
  have "wp (os_errors_as StorageError (mkdirs os (fs_transactions st))) (\<lambda>_. folder_absent ?p) (creation_error ?p) d"
    unfolding wp_os_errors_as by (rule wp_mono[OF wp_mkdirs]) (use absent in \<open>auto simp: creation_error_def\<close>)
  then show ?thesis
    unfolding create_folder_def using True by (simp only: not_True_eq_False if_False) (erule wp_seq, erule wp_create_inner)
qed (simp add: create_folder_def wp_simps creation_error_def assms)

text \<open>C31: A failed creation leaves no folder, or says so by a bare OSError. If create_transaction raises one of the store's own
  errors, the transaction's folder is not there afterwards, whatever system call failed; a creation that leaves the folder
  behind raises an OSError, which its callers do not expect, and it is the only case.
\<close>

theorem failed_creation_cleans_up:
  assumes "create_folder os suffixes st t metadata d = (Inl (Raised e), d')"
    and "\<not> exists_on d (transaction_path st t)"
  shows "if e = OsErr then transaction_path st t \<in> set (dk_dirs d')
    else e \<in> {StorageError, TxExistsError, PathError} \<and> \<not> exists_on d' (transaction_path st t)"
proof -
  have "folder_absent (transaction_path st t) d" using assms(2) by (simp add: folder_absent_def)
  from wp_create_folder[OF this, of os suffixes metadata]
  have "creation_error (transaction_path st t) (Raised e) d'" by (simp add: wp_def assms(1))
  then show ?thesis by (auto simp: creation_error_def folder_absent_def folder_made_def)
qed

text \<open>The first write of a new transaction fails: the temporary file stays, so the folder cannot be removed.\<close>

lemmas disk_run = bnd_def andthen_def catch_def gets_def ret_def raise_def lift_def os_errors_as_def os_call_def simple_call_def
  all_or_none_def Let_def

definition half_created :: "string \<Rightarrow> string \<Rightarrow> disk" where
  "half_created t s =
     \<lparr>dk_files = [([''data'', ''transactions'', t, ''.tmp-'' @ s], \<lparr>in_bytes = [], in_synced = False, in_mode = 384\<rparr>)],
      dk_dirs = [[''data'', ''transactions'', t], [], [''data''], [''data'', ''transactions'']], dk_calls = 3\<rparr>"

lemma ancestors_plain:
  "ancestors [''data'', ''transactions''] = [[], [''data''], [''data'', ''transactions'']]"
  "ancestors [''data'', ''transactions'', t] = [[], [''data''], [''data'', ''transactions''], [''data'', ''transactions'', t]]"
  by (simp_all add: ancestors_def upt_rec numeral_eq_Suc)

lemma failed_first_write:
  assumes "is_valid_transaction_id t"
  shows "create_folder (failing_at 2) [s] plain_store t payload plain_disk = (Inl (Raised OsErr), half_created t s)"
  using assms
  by (simp add: create_folder_def write_file_def write_atomic_def write_steps_def mkdirs_def mkdir_new_def rmdir_def mkstemp_def
      write_open_def failing_at_def plain_store_def plain_disk_def half_created_def disk_run transaction_path_def metadata_resolved
      ancestors_plain missing_dirs_def exists_on_def file_on_def add_dirs_def set_inode_def put_bytes_def temp_path_def
      empty_on_def is_storage_error_def)

lemma half_created_taken:
  assumes "is_valid_transaction_id t"
  shows "fst (create_folder os suffixes plain_store t payload (half_created t s)) = Inl (Raised TxExistsError)"
  using assms
  by (simp add: create_folder_def mkdirs_def mkdir_new_def plain_store_def half_created_def disk_run transaction_path_def
      ancestors_plain missing_dirs_def exists_on_def file_on_def)

text \<open>A full disk leaves a half-created transaction. When the first write of transaction.json fails after its temporary
  file was made, create_transaction does not remove the folder: rmdir meets the temporary file, its OSError
  replaces the TransactionStorageError, and the folder stays without metadata, so the id counts as taken.
\<close>

theorem full_disk_leaves_half_created_folder:
  assumes "is_valid_transaction_id t"
  shows "\<exists>d. create_folder (failing_at 2) [s] plain_store t payload plain_disk = (Inl (Raised OsErr), d)
    \<and> transaction_path plain_store t \<in> set (dk_dirs d)
    \<and> file_on d (transaction_path plain_store t @ [''transaction.json'']) = None
    \<and> fst (create_folder os suffixes plain_store t payload d) = Inl (Raised TxExistsError)"
  by (rule exI[of _ "half_created t s"], intro conjI failed_first_write half_created_taken assms)
    (simp_all add: half_created_def transaction_path_def plain_store_def file_on_def)

theorem full_disk_leaves_half_created_folder_witness:
  "\<exists>d. create_folder (failing_at 2) [''x''] plain_store ''LP-20260910T150524236Z-7B4136'' ''{}'' plain_disk = (Inl (Raised OsErr), d)
    \<and> transaction_path plain_store ''LP-20260910T150524236Z-7B4136'' \<in> set (dk_dirs d)
    \<and> file_on d (transaction_path plain_store ''LP-20260910T150524236Z-7B4136'' @ [''transaction.json'']) = None
    \<and> fst (create_folder (failing_at 9) [] plain_store ''LP-20260910T150524236Z-7B4136'' ''{}'' d) = Inl (Raised TxExistsError)"
  by (rule full_disk_leaves_half_created_folder) (code_simp)



text \<open>A creation whose temporary file cannot be made.\<close>

lemma failed_temporary_file:
  assumes "is_valid_transaction_id t"
  shows "create_folder (failing_at 1) [s] plain_store t payload plain_disk = (Inl (Raised StorageError), plain_disk\<lparr>dk_calls := 3\<rparr>)"
  using assms
  by (simp add: create_folder_def write_file_def write_atomic_def write_steps_def mkdirs_def mkdir_new_def rmdir_def mkstemp_def
      failing_at_def plain_store_def plain_disk_def disk_run transaction_path_def metadata_resolved
      ancestors_plain missing_dirs_def exists_on_def file_on_def add_dirs_def temp_path_def
      empty_on_def is_storage_error_def remove_dir_def)

theorem failed_creation_cleans_up_witness:
  "fst (create_folder (failing_at 1) [''x''] plain_store ''LP-20260910T150524236Z-7B4136'' ''{}'' plain_disk) = Inl (Raised StorageError)
    \<and> \<not> exists_on (snd (create_folder (failing_at 1) [''x''] plain_store ''LP-20260910T150524236Z-7B4136'' ''{}'' plain_disk))
        (transaction_path plain_store ''LP-20260910T150524236Z-7B4136'')"
proof -
  have "is_valid_transaction_id ''LP-20260910T150524236Z-7B4136''" by code_simp
  note run = failed_temporary_file[OF this, of "''x''" "''{}''"]
  have "\<not> exists_on plain_disk (transaction_path plain_store ''LP-20260910T150524236Z-7B4136'')"
    by (simp add: exists_on_def file_on_def plain_disk_def plain_store_def transaction_path_def)
  from failed_creation_cleans_up[OF run this] show ?thesis by (simp del: One_nat_def add: run)
qed

end
