(* ===== verification/Contracts.thy ===== *)
theory Contracts
  imports Providers
begin

text \<open>
  Contracts the core declares: the reason codes (\<open>app/domain/reason.py\<close>), the result and the health of a validator
  (\<open>app/domain/validation.py\<close>, \<open>app/validators\<close>), and the health of a vision provider
  (\<open>app/providers/vision/contracts.py\<close> and the \<open>health\<close> of every provider).
\<close>

section \<open>Reason codes\<close>

datatype reason_code =
    RC_NO_FACE | RC_MULTIPLE_FACES | RC_FACE_TOO_SMALL | RC_FACE_NOT_CENTERED | RC_FACE_OCCLUDED |
  RC_BLURRED | RC_UNDEREXPOSED | RC_OVEREXPOSED | RC_IMAGE_QUALITY_FAILED | RC_SCREEN_REPLAY_SUSPECTED |
  RC_PRINT_ATTACK_SUSPECTED | RC_PASSIVE_PAD_FAILED | RC_PAD_SCORE_BELOW_THRESHOLD |
  RC_MODEL_DISAGREEMENT | RC_UNCERTAIN | RC_VALIDATOR_TIMEOUT | RC_VALIDATOR_ERROR |
  RC_CAPTURE_TOO_FEW_FRAMES | RC_SESSION_INVALID | RC_SESSION_EXPIRED | RC_TOKEN_REPLAY_DETECTED |
  RC_INVALID_REDIRECT | RC_RATE_LIMIT_TRIGGERED | RC_INTERNAL_VALIDATION_ERROR

fun reason_code_value :: "reason_code \<Rightarrow> string" where
  "reason_code_value RC_NO_FACE = ''NO_FACE''"
| "reason_code_value RC_MULTIPLE_FACES = ''MULTIPLE_FACES''"
| "reason_code_value RC_FACE_TOO_SMALL = ''FACE_TOO_SMALL''"
| "reason_code_value RC_FACE_NOT_CENTERED = ''FACE_NOT_CENTERED''"
| "reason_code_value RC_FACE_OCCLUDED = ''FACE_OCCLUDED''"
| "reason_code_value RC_BLURRED = ''BLURRED''"
| "reason_code_value RC_UNDEREXPOSED = ''UNDEREXPOSED''"
| "reason_code_value RC_OVEREXPOSED = ''OVEREXPOSED''"
| "reason_code_value RC_IMAGE_QUALITY_FAILED = ''IMAGE_QUALITY_FAILED''"
| "reason_code_value RC_SCREEN_REPLAY_SUSPECTED = ''SCREEN_REPLAY_SUSPECTED''"
| "reason_code_value RC_PRINT_ATTACK_SUSPECTED = ''PRINT_ATTACK_SUSPECTED''"
| "reason_code_value RC_PASSIVE_PAD_FAILED = ''PASSIVE_PAD_FAILED''"
| "reason_code_value RC_PAD_SCORE_BELOW_THRESHOLD = ''PAD_SCORE_BELOW_THRESHOLD''"
| "reason_code_value RC_MODEL_DISAGREEMENT = ''MODEL_DISAGREEMENT''"
| "reason_code_value RC_UNCERTAIN = ''UNCERTAIN''"
| "reason_code_value RC_VALIDATOR_TIMEOUT = ''VALIDATOR_TIMEOUT''"
| "reason_code_value RC_VALIDATOR_ERROR = ''VALIDATOR_ERROR''"
| "reason_code_value RC_CAPTURE_TOO_FEW_FRAMES = ''CAPTURE_TOO_FEW_FRAMES''"
| "reason_code_value RC_SESSION_INVALID = ''SESSION_INVALID''"
| "reason_code_value RC_SESSION_EXPIRED = ''SESSION_EXPIRED''"
| "reason_code_value RC_TOKEN_REPLAY_DETECTED = ''TOKEN_REPLAY_DETECTED''"
| "reason_code_value RC_INVALID_REDIRECT = ''INVALID_REDIRECT''"
| "reason_code_value RC_RATE_LIMIT_TRIGGERED = ''RATE_LIMIT_TRIGGERED''"
| "reason_code_value RC_INTERNAL_VALIDATION_ERROR = ''INTERNAL_VALIDATION_ERROR''"

definition reason_codes :: "reason_code list" where
  "reason_codes =
     [RC_NO_FACE, RC_MULTIPLE_FACES, RC_FACE_TOO_SMALL, RC_FACE_NOT_CENTERED, RC_FACE_OCCLUDED, RC_BLURRED,
     RC_UNDEREXPOSED, RC_OVEREXPOSED, RC_IMAGE_QUALITY_FAILED, RC_SCREEN_REPLAY_SUSPECTED,
     RC_PRINT_ATTACK_SUSPECTED, RC_PASSIVE_PAD_FAILED, RC_PAD_SCORE_BELOW_THRESHOLD,
     RC_MODEL_DISAGREEMENT, RC_UNCERTAIN, RC_VALIDATOR_TIMEOUT, RC_VALIDATOR_ERROR,
     RC_CAPTURE_TOO_FEW_FRAMES, RC_SESSION_INVALID, RC_SESSION_EXPIRED, RC_TOKEN_REPLAY_DETECTED,
     RC_INVALID_REDIRECT, RC_RATE_LIMIT_TRIGGERED, RC_INTERNAL_VALIDATION_ERROR]"

interpretation reason_enum: str_enum reason_code_value reason_codes
proof
  show "x \<in> set reason_codes" for x by (cases x) (simp_all add: reason_codes_def)
qed (simp add: reason_codes_def)

section \<open>Validators\<close>

datatype validator_status = V_PASS | V_FAIL | V_UNCERTAIN | V_ERROR | V_SKIPPED

fun validator_status_value :: "validator_status \<Rightarrow> string" where
  "validator_status_value V_PASS = ''PASS''"
| "validator_status_value V_FAIL = ''FAIL''"
| "validator_status_value V_UNCERTAIN = ''UNCERTAIN''"
| "validator_status_value V_ERROR = ''ERROR''"
| "validator_status_value V_SKIPPED = ''SKIPPED''"

definition validator_statuses :: "validator_status list" where
  "validator_statuses = [V_PASS, V_FAIL, V_UNCERTAIN, V_ERROR, V_SKIPPED]"

interpretation validator_enum: str_enum validator_status_value validator_statuses
proof
  show "x \<in> set validator_statuses" for x by (cases x) (simp_all add: validator_statuses_def)
qed (simp add: validator_statuses_def)

text \<open>A score may be absent; only the name, the version and the result are required.\<close>

record validator_result =
  vd_validator_name :: string
  vd_validator_version :: string
  vd_result :: validator_status
  vd_reason_codes :: "reason_code list"
  vd_raw_score :: "pyfloat option"
  vd_calibrated_score :: "pyfloat option"
  vd_threshold :: "pyfloat option"
  vd_latency_ms :: "int option"
  vd_model_version :: "string option"
  vd_configuration_version :: "string option"

definition validator_result_of :: "string \<Rightarrow> string \<Rightarrow> validator_status \<Rightarrow> validator_result" where
  "validator_result_of name version status =
     \<lparr>vd_validator_name = name, vd_validator_version = version, vd_result = status, vd_reason_codes = [], vd_raw_score = None,
      vd_calibrated_score = None, vd_threshold = None, vd_latency_ms = None, vd_model_version = None,
      vd_configuration_version = None\<rparr>"

record validator_health =
  vh_status :: validator_status
  vh_detail :: "string option"

definition validator_healthy :: validator_health where
  "validator_healthy = \<lparr>vh_status = V_PASS, vh_detail = None\<rparr>"

section \<open>The health of a provider\<close>

datatype health_status = H_ok | H_degraded | H_error

record provider_health =
  ph_status :: health_status
  ph_detail :: "string option"

definition groq_health :: "string \<Rightarrow> provider_health" where
  "groq_health api_key =
     (if api_key \<noteq> [] then \<lparr>ph_status = H_ok, ph_detail = Some ''configured''\<rparr>
      else \<lparr>ph_status = H_error, ph_detail = Some ''missing key''\<rparr>)"

definition openrouter_health :: "string \<Rightarrow> provider_health" where
  "openrouter_health api_key =
     (if api_key \<noteq> [] then \<lparr>ph_status = H_ok, ph_detail = Some ''configured''\<rparr>
      else \<lparr>ph_status = H_error, ph_detail = Some ''missing key''\<rparr>)"

definition gemini_health :: provider_health where
  "gemini_health = \<lparr>ph_status = H_ok, ph_detail = Some ''gemini configured''\<rparr>"

definition mock_health :: provider_health where
  "mock_health = \<lparr>ph_status = H_ok, ph_detail = Some ''mock provider''\<rparr>"

text \<open>
  The self-hosted provider asks its endpoint for the models; \<open>get\<close> is the HTTP client: the status of the answer, or \<open>None\<close>
  when the request raises.
\<close>

definition local_health :: "(string \<Rightarrow> (string \<times> string) list \<Rightarrow> int option) \<Rightarrow> string \<Rightarrow> string \<Rightarrow> provider_health" where
  "local_health get base_url api_key =
     (let headers = (if api_key \<noteq> [] then [(''Authorization'', ''Bearer '' @ api_key)] else []) in
      case get (rstrip_if (\<lambda>c. c = CHR ''/'') base_url @ ''/models'') headers of
        None \<Rightarrow> \<lparr>ph_status = H_error, ph_detail = Some ''local model endpoint unreachable''\<rparr>
      | Some status \<Rightarrow>
          if status = 200 then \<lparr>ph_status = H_ok, ph_detail = Some ''local model endpoint reachable''\<rparr>
          else if status = 401 \<or> status = 403 then \<lparr>ph_status = H_degraded, ph_detail = Some ''local model auth check failed''\<rparr>
          else \<lparr>ph_status = H_degraded, ph_detail = Some ''local model endpoint returned an error''\<rparr>)"

lemma local_health_ok: "ph_status (local_health get u k) = H_ok \<longleftrightarrow>
    get (rstrip_if (\<lambda>c. c = CHR ''/'') u @ ''/models'') (if k \<noteq> [] then [(''Authorization'', ''Bearer '' @ k)] else []) = Some 200"
  by (auto simp: local_health_def Let_def split: option.split)

end
