(* ===== verification/Metrics_Registry.thy ===== *)
theory Metrics_Registry
  imports Http_Shell
begin

text \<open>
  The Prometheus metrics (\<open>app/observability/metrics.py\<close>): the metric families with their labels, the recording
  functions, and what they leave in a registry. The operations of \<open>prometheus_client\<close> are parameters; the locale
  \<open>metrics_store\<close> says what they promise. The routes keep the recorded events (\<open>metrics\<close> of the world); counting the
  events gives the registry's samples.
\<close>

section \<open>Families\<close>














section \<open>Recording\<close>










text \<open>\<open>generate_latest\<close> and its content type are arguments.\<close>

definition metrics_response :: "('r \<Rightarrow> bytes) \<Rightarrow> string \<Rightarrow> 'r \<Rightarrow> bytes \<times> string" where
  "metrics_response generate_latest content_type r = (generate_latest r, content_type)"



section \<open>What a client promises\<close>

text \<open>A sample: the metric's name with its labels and their values. The samples an event stands for:\<close>

type_synonym sample = "string \<times> (string \<times> string) list"




definition durations_of :: "sample \<Rightarrow> (sample \<times> rat) list \<Rightarrow> rat list" where
  "durations_of k xs = map snd (filter (\<lambda>x. fst x = k) xs)"

lemma durations_of_simps [simp]:
  "durations_of k [] = []" "durations_of k (x # xs) = (if fst x = k then snd x # durations_of k xs else durations_of k xs)"
  "durations_of k (xs @ ys) = durations_of k xs @ durations_of k ys"
  by (simp_all add: durations_of_def)


section \<open>A registry\<close>










end
