(* ===== verification/App_Factory.thy ===== *)
theory App_Factory
  imports Http_Shell
begin

text \<open>
  How the application is put together: the middlewares, routers and routes of \<open>app/factory.py\<close>, the spans of the
  tracing middleware (\<open>app/observability/otel.py\<close>), the logging pipeline (\<open>app/core/logging.py\<close>) and the
  database settings (\<open>app/db\<close>, \<open>alembic/env.py\<close>). FastAPI, OpenTelemetry, structlog and SQLAlchemy run what is
  configured here and are not modelled.
\<close>

section \<open>Tracing\<close>

record tracer =
  tc_service_name :: string
  tc_service_version :: string
  tc_console :: bool

definition init_otel :: "settings \<Rightarrow> tracer option" where
  "init_otel s =
     (if \<not> otel_enabled s then None
      else Some \<lparr>tc_service_name = otel_service_name s, tc_service_version = app_version s,
                 tc_console = otel_traces_console s\<rparr>)"

record span =
  sp_name :: string
  sp_attributes :: obj

text \<open>
  The span of one request: \<open>status\<close> is the status of the response that started, if one did; \<open>status or 500\<close>.
\<close>

definition request_span :: "tracer option \<Rightarrow> string \<Rightarrow> string \<Rightarrow> nat option \<Rightarrow> rat \<Rightarrow> span option" where
  "request_span tracer verb path status duration =
     (case tracer of
        None \<Rightarrow> None
      | Some t \<Rightarrow> Some \<lparr>sp_name = ''http.request'', sp_attributes =
          [(''http.request.method'', JStr verb), (''url.path'', JStr path),
           (''http.response.status_code'', JInt (case status of Some n \<Rightarrow> if n = 0 then 500 else int n | None \<Rightarrow> 500)),
           (''http.request.duration_seconds'', JFloat (Fin duration))]\<rparr>)"

text \<open>The response the tracing middleware sees of a route: its own, or the handlers' for its error.\<close>

definition started_status :: "string \<Rightarrow> exn + http_response \<Rightarrow> nat option" where
  "started_status rid result = (case result of
     Inr r \<Rightarrow> Some (hr_status r) | Inl e \<Rightarrow> map_option hr_status (handled_error rid e))"

definition trace_exchange ::
  "settings \<Rightarrow> string \<Rightarrow> string \<Rightarrow> string \<Rightarrow> headers \<Rightarrow> (string \<Rightarrow> http_response M) \<Rightarrow> rat \<Rightarrow> world \<Rightarrow> span option" where
  "trace_exchange s fresh verb path hs route duration w =
     (let rid = request_id_for fresh hs
      in request_span (init_otel s) verb path (started_status rid (fst (route rid w))) duration)"

section \<open>Application\<close>

datatype middleware = Cors_mw | Request_id_mw | Request_logging_mw | Security_headers_mw | Metrics_mw
  | Tracing_mw "tracer option"

text \<open>\<open>add_middleware\<close> puts the new one outside those before it. A router is its name with its prefix.\<close>

record application =
  an_title :: string
  an_version :: string
  an_middlewares :: "middleware list"
  an_routers :: "(string \<times> string) list"
  an_metrics_route :: "string option"

definition add_middleware :: "middleware list \<Rightarrow> middleware \<Rightarrow> middleware list" where
  "add_middleware stack m = m # stack"

definition create_app :: "settings \<Rightarrow> application" where
  "create_app s =
     (let prefix = api_v1_prefix s in
      \<lparr>an_title = app_name s, an_version = app_version s,
       an_middlewares = foldl add_middleware []
         ([Tracing_mw (init_otel s)] @ (if prometheus_enabled s then [Metrics_mw] else [])
          @ [Security_headers_mw, Request_logging_mw, Request_id_mw, Cors_mw]),
       an_routers = [(''health'', []), (''v1'', prefix), (''experiments'', prefix), (''transactions'', prefix), (''xbiz'', []),
          (''integration'', prefix), (''browser'', prefix)]
         @ (if app_env s \<in> {Env_local, Env_test, Env_development} \<and> decision_test_writer_enabled s
            then [(''dev'', prefix)] else []),
       an_metrics_route = (if prometheus_enabled s then Some (metrics_path s) else None)\<rparr>)"

text \<open>The middlewares from the outermost in, as the comment of the factory has them.\<close>

lemma middleware_order:
  "an_middlewares (create_app s) = [Cors_mw, Request_id_mw, Request_logging_mw, Security_headers_mw]
     @ (if prometheus_enabled s then [Metrics_mw] else []) @ [Tracing_mw (init_otel s)]"
  by (simp add: create_app_def Let_def add_middleware_def)

lemma no_dev_router_deployed:
  "app_env s = Env_uat \<or> app_env s = Env_production \<Longrightarrow> ''dev'' \<notin> set (map fst (an_routers (create_app s)))"
  by (auto simp: create_app_def Let_def)

section \<open>Logging\<close>

text \<open>\<open>getattr(logging, level.upper(), INFO)\<close> for the names of levels.\<close>

definition logging_level :: "settings \<Rightarrow> nat" where
  "logging_level s = (case map_of
     [(''CRITICAL'', 50), (''FATAL'', 50), (''ERROR'', 40), (''WARNING'', 30), (''WARN'', 30), (''INFO'', 20), (''DEBUG'', 10),
      (''NOTSET'', 0)] (str_upper (log_level s)) of Some n \<Rightarrow> n | None \<Rightarrow> 20)"

datatype log_processor = Merge_contextvars | Add_logger_name | Add_log_level | Stack_info | Format_exc_info | Redact
  | Time_stamper | Unicode_decoder | Json_renderer | Console_renderer

definition log_processors :: "settings \<Rightarrow> log_processor list" where
  "log_processors s =
     [Merge_contextvars, Add_logger_name, Add_log_level, Stack_info, Format_exc_info, Redact, Time_stamper, Unicode_decoder]
     @ (if log_format_json s then [Json_renderer] else [Console_renderer])"

definition request_context :: "string \<Rightarrow> string \<Rightarrow> string \<Rightarrow> obj" where
  "request_context request_id verb path =
     [(''request_id'', JStr request_id), (''method'', JStr verb), (''path'', JStr path)]"

text \<open>
  A record on its way to the renderer: the context does not replace a key of the event, the level and the logger's
  name do, then the redaction, then the time stamp. The processors between them act on exceptions, stacks and byte strings,
  which a record of the code does not carry.
\<close>

definition log_step :: "obj \<Rightarrow> string \<Rightarrow> string \<Rightarrow> int \<Rightarrow> log_processor \<Rightarrow> obj \<Rightarrow> obj" where
  "log_step context name level now p event =
     (case p of
        Merge_contextvars \<Rightarrow> event @ filter (\<lambda>(k, v). jget event k = None) context
      | Add_logger_name \<Rightarrow> jput ''logger'' (JStr name) event
      | Add_log_level \<Rightarrow> jput ''level'' (JStr level) event
      | Redact \<Rightarrow> redact_processor event
      | Time_stamper \<Rightarrow> jput ''timestamp'' (JTime now) event
      | _ \<Rightarrow> event)"

definition rendered_record :: "settings \<Rightarrow> obj \<Rightarrow> string \<Rightarrow> string \<Rightarrow> int \<Rightarrow> obj \<Rightarrow> obj" where
  "rendered_record s context name level now event =
     foldl (\<lambda>ev p. log_step context name level now p ev) event (log_processors s)"

text \<open>Whatever a record and its context hold, nothing is rendered under a sensitive key but the mark.\<close>

lemma timestamp_not_sensitive: "\<not> is_sensitive_key ''timestamp''"
  by code_simp

lemma redacted_keys: "(k, v) \<in> set (redact_processor ev) \<Longrightarrow> is_sensitive_key k \<Longrightarrow> v = REDACTED"
  by (auto simp: redact_processor_def)

lemma rendered_record_redacted:
  assumes "(k, v) \<in> set (rendered_record s context name level now event)" and "is_sensitive_key k"
  shows "v = REDACTED"
proof -
  obtain ev where ev: "rendered_record s context name level now event = jput ''timestamp'' (JTime now) (redact_processor ev)"
    by (auto simp: rendered_record_def log_processors_def log_step_def)
  have "k \<noteq> ''timestamp''" using assms(2) timestamp_not_sensitive by auto
  moreover have "(k, v) \<in> set (AList.update a b xs) \<Longrightarrow> k \<noteq> a \<Longrightarrow> (k, v) \<in> set xs" for a b xs
    by (induction xs) (auto split: if_splits)
  ultimately have "(k, v) \<in> set (redact_processor ev)" using assms(1) unfolding ev by blast
  then show ?thesis using redacted_keys assms(2) by blast
qed

section \<open>Database\<close>

record db_engine =
  db_url :: string
  db_pre_ping :: bool

definition engine_from_settings :: "string \<Rightarrow> db_engine option" where
  "engine_from_settings url = (if url = [] then None else Some \<lparr>db_url = url, db_pre_ping = True\<rparr>)"

text \<open>The URL of a migration; the \<open>RuntimeError\<close> of a missing one is the \<open>LibraryErr\<close>.\<close>

definition migration_url :: "settings \<Rightarrow> exn + string" where
  "migration_url s = (if database_url s = [] then Inl LibraryErr else Inr (database_url s))"

section \<open>Spans and logs of a launch link\<close>

text \<open>The path of a launch link is logged without its token, but the span that the tracing middleware exports for the
  same request carries the raw path, token included.\<close>

theorem span_keeps_launch_token:
  assumes "otel_enabled s" and "template \<in> {None, Some LAUNCH_REDEMPTION_TEMPLATE}"
  shows "ex_logged_path (fst (exchange_for s fresh verb (LAUNCH_REDEMPTION_PREFIX @ token) hs template route w))
      = LAUNCH_REDEMPTION_TEMPLATE
    \<and> (\<exists>sp. trace_exchange s fresh verb (LAUNCH_REDEMPTION_PREFIX @ token) hs route d w = Some sp
        \<and> jget (sp_attributes sp) ''url.path'' = Some (JStr (LAUNCH_REDEMPTION_PREFIX @ token)))"
proof -
  have path: "safe_request_path template (LAUNCH_REDEMPTION_PREFIX @ token) = LAUNCH_REDEMPTION_TEMPLATE"
    using assms(2) by (auto simp: safe_request_path_def starts_with_def LAUNCH_REDEMPTION_TEMPLATE_def)
  have "ex_logged_path (fst (exchange_for s fresh verb p hs template route w)) = safe_request_path template p" for p
    by (simp add: exchange_for_def Let_def split: prod.splits sum.splits option.splits)
  then show ?thesis
    using assms(1) by (simp add: path trace_exchange_def request_span_def init_otel_def Let_def)
qed

theorem span_keeps_launch_token_witness:
  "\<exists>sp. trace_exchange (default_settings\<lparr>otel_enabled := True\<rparr>) ''f'' ''GET'' (LAUNCH_REDEMPTION_PREFIX @ ''abc'') []
      (\<lambda>rid. raise OsErr) 0 empty_world = Some sp
    \<and> jget (sp_attributes sp) ''url.path'' = Some (JStr (LAUNCH_REDEMPTION_PREFIX @ ''abc''))"
proof -
  have "otel_enabled (default_settings\<lparr>otel_enabled := True\<rparr>)" by simp
  moreover have "None \<in> {None, Some LAUNCH_REDEMPTION_TEMPLATE}" by simp
  ultimately show ?thesis by (rule span_keeps_launch_token[THEN conjunct2])
qed

end
