(* ===== verification/Vlm_Logs.thy ===== *)
theory Vlm_Logs
  imports Vlm_Service Log_Redaction Vlm_Metrics
begin

text \<open>
  The log records of an evaluation (\<open>app/experiments/vlm/service.py\<close>): what \<open>evaluate\<close> logs on its way, with the fields of
  each record. They carry sizes, versions and codes, and no image bytes or model text.
\<close>

section \<open>Records\<close>

definition json_int :: "int option \<Rightarrow> json" where
  "json_int x = (case x of None \<Rightarrow> JNull | Some i \<Rightarrow> JInt i)"

definition image_sizes :: "image_input list \<Rightarrow> nat list" where
  "image_sizes frames = map (length \<circ> im_bytes) frames"

text \<open>\<open>capture\<close> and \<open>quality\<close> are the versions of the capture and quality configuration the request names.\<close>

definition request_started ::
  "settings \<Rightarrow> experiment_request \<Rightarrow> vision_provider \<Rightarrow> string \<Rightarrow> string \<Rightarrow> string \<Rightarrow> obj list" where
  "request_started s rq p experiment_id capture quality =
     (if \<not> vlm_experiment_logging_enabled s then []
      else [[(''event'', JStr ''vlm_experiment_request_started''), (''experiment_id'', JStr experiment_id),
        (''environment'', JStr (app_env_text (app_env s))), (''provider'', JStr (er_provider rq)),
        (''model'', JStr (pi_model_id (pv_info p))), (''provider_adapter_version'', JStr (pi_adapter_version (pv_info p))),
        (''prompt_id'', JStr PROMPT_ID), (''prompt_version'', JStr PROMPT_VERSION), (''schema_version'', JStr VLM_SCHEMA_VERSION),
        (''frame_strategy'', JStr (er_strategy rq)), (''image_count'', jnat (length (er_frames rq))),
        (''image_sizes_bytes'', JArr (map jnat (image_sizes (er_frames rq)))),
        (''total_image_bytes'', jnat (sum_list (image_sizes (er_frames rq)))),
        (''mime_types'', JArr (map (JStr \<circ> im_mime_type) (er_frames rq))),
        (''capture_config_version'', JStr capture), (''quality_config_version'', JStr quality)]])"

definition response_received ::
  "settings \<Rightarrow> experiment_request \<Rightarrow> vision_response \<Rightarrow> string \<Rightarrow> int option \<Rightarrow> int \<Rightarrow> obj list" where
  "response_received s rq response experiment_id provider_latency_ms total_latency_ms =
     (let a = vp_assessment response;
          usage = (\<lambda>f. case vp_usage response of None \<Rightarrow> JNull | Some u \<Rightarrow> json_int (f u)) in
      if \<not> vlm_experiment_logging_enabled s then []
      else [[(''event'', JStr ''vlm_experiment_response_received''), (''experiment_id'', JStr experiment_id),
        (''provider'', JStr (er_provider rq)), (''model'', JStr (vp_model response)),
        (''classification'', JStr (vlm_classification_value (va_classification a))),
        (''attack_medium'', JStr (attack_medium_value (va_attack_medium a))),
        (''self_reported_confidence'', JFloat (va_confidence a)), (''evidence_codes'', JArr (va_evidence_codes a)),
        (''subject_count'', JStr (subject_count_value (va_subject_count a))),
        (''secondary_person_state'', JStr (secondary_person_state_value (va_secondary a))),
        (''provider_latency_ms'', json_int provider_latency_ms), (''total_latency_ms'', JInt total_latency_ms),
        (''input_tokens'', usage tu_input), (''output_tokens'', usage tu_output), (''total_tokens'', usage tu_total),
        (''schema_validation'', JStr ''success'')]])"

definition evaluation_failed ::
  "settings \<Rightarrow> experiment_request \<Rightarrow> vision_provider \<Rightarrow> string \<Rightarrow> vlm_error_code \<Rightarrow> int \<Rightarrow> nat \<Rightarrow> obj list" where
  "evaluation_failed s rq p experiment_id code latency_ms retry_count =
     (if \<not> vlm_experiment_logging_enabled s then []
      else [[(''event'', JStr ''vlm_experiment_failed''), (''experiment_id'', JStr experiment_id),
        (''provider'', JStr (er_provider rq)), (''model'', JStr (pi_model_id (pv_info p))),
        (''error_code'', JStr (vlm_error_value code)), (''retry_count'', jnat retry_count), (''latency_ms'', JInt latency_ms)]])"

text \<open>The record of every completed evaluation; \<open>outcome\<close> is the assessment or the error.\<close>

definition evaluation_completed ::
  "experiment_request \<Rightarrow> vision_provider \<Rightarrow> vlm_error_code + vlm_assessment \<Rightarrow> int \<Rightarrow> obj" where
  "evaluation_completed rq p result latency_ms =
     [(''event'', JStr ''vlm_evaluation_completed''), (''provider'', JStr (er_provider rq)),
      (''model'', JStr (pi_model_id (pv_info p))), (''prompt_version'', JStr PROMPT_VERSION),
      (''image_count'', jnat (length (er_frames rq)))]
     @ (case result of
          Inr a \<Rightarrow>
            [(''classification'', JStr (vlm_classification_value (va_classification a))),
             (''subject_count'', JStr (subject_count_value (va_subject_count a))),
             (''secondary_person_state'', JStr (secondary_person_state_value (va_secondary a))),
             (''latency_ms'', JInt latency_ms)]
        | Inl code \<Rightarrow> [(''latency_ms'', JInt latency_ms), (''error'', JStr (vlm_error_value code))])"

text \<open>What one evaluation logs once its checks are passed, in order.\<close>

definition evaluation_log ::
  "settings \<Rightarrow> experiment_request \<Rightarrow> vision_provider \<Rightarrow> string \<Rightarrow> string \<Rightarrow> string \<Rightarrow> vlm_error_code + vision_response
    \<Rightarrow> int option \<Rightarrow> int \<Rightarrow> obj list" where
  "evaluation_log s rq p experiment_id capture quality result provider_latency_ms latency_ms =
     request_started s rq p experiment_id capture quality
     @ (case result of
          Inl code \<Rightarrow> evaluation_completed rq p (Inl code) latency_ms
             # evaluation_failed s rq p experiment_id code latency_ms 0
        | Inr response \<Rightarrow> evaluation_completed rq p (Inr (vp_assessment response)) latency_ms
             # response_received s rq response experiment_id provider_latency_ms latency_ms)"

section \<open>Facts\<close>

text \<open>The counts of tokens are logged, and redacted for the sake of their names.\<close>

lemma token_counts_redacted:
  assumes "vlm_experiment_logging_enabled s" and "k \<in> {''input_tokens'', ''output_tokens'', ''total_tokens''}"
  shows "\<forall>ob \<in> set (response_received s rq r i l t). \<forall>v. (k, v) \<in> set (redact_processor ob) \<longrightarrow> v = REDACTED"
proof -
  have "is_sensitive_key ''input_tokens''" "is_sensitive_key ''output_tokens''" "is_sensitive_key ''total_tokens''"
    by code_simp+
  then have "is_sensitive_key k" using assms(2) by blast
  then show ?thesis by (auto simp: redact_processor_def)
qed

text \<open>Without the setting, an evaluation logs one record.\<close>

lemma quiet_log: "\<not> vlm_experiment_logging_enabled s \<Longrightarrow> length (evaluation_log s rq p i c q res pl l) = 1"
  by (simp add: evaluation_log_def request_started_def response_received_def evaluation_failed_def Let_def split: sum.splits)

end
