(* ===== verification/Vlm_Reports.thy ===== *)
theory Vlm_Reports
  imports Vlm_Run
begin

text \<open>
  The texts the offline evaluation leaves (\<open>app/experiments/vlm/reports.py\<close>): the Markdown report, the priority
  analysis, and all files of a run in the order they are written (\<open>main\<close> of \<open>app/experiments/vlm/run.py\<close>). Numbers
  are printed as Python's fixed-point format prints them.
\<close>

section \<open>Numbers\<close>

text \<open>\<open>format(q, ".nf")\<close>: the exact value rounded to the digits asked for, halves to the even neighbour.\<close>

definition zero_padded :: "nat \<Rightarrow> nat \<Rightarrow> string" where
  "zero_padded n k = (let t = nat_digits k in replicate (n - length t) CHR ''0'' @ t)"

definition format_fixed :: "nat \<Rightarrow> rat \<Rightarrow> string" where
  "format_fixed n q =
     (let k = nat (round_half_even (\<bar>q\<bar> * 10 ^ n)); m = 10 ^ n in
      (if q < 0 then ''-'' else []) @ nat_digits (k div m)
      @ (if n = 0 then [] else CHR ''.'' # zero_padded n (k mod m)))"

text \<open>\<open>format(q, ".1%")\<close>.\<close>

definition format_percent :: "rat \<Rightarrow> string" where
  "format_percent q = format_fixed 1 (fl (q * 100)) @ ''%''"

definition pct :: "int \<Rightarrow> int \<Rightarrow> string" where
  "pct numerator denominator =
     (if denominator = 0 then ''n/a (0)''
      else int_text numerator @ ''/'' @ int_text denominator @ '' = ''
        @ format_fixed 1 (fl (fl (of_int numerator / of_int denominator) * 100)) @ ''%'')"

section \<open>Fields\<close>

text \<open>\<open>d[k]\<close>, \<open>d.get(k) or {}\<close>, and an integer of a share.\<close>

definition item :: "obj \<Rightarrow> string \<Rightarrow> exn + json" where
  "item ob k = (case jget ob k of None \<Rightarrow> Inl KeyErr | Some v \<Rightarrow> Inr v)"

definition object_or_empty :: "obj \<Rightarrow> string \<Rightarrow> exn + obj" where
  "object_or_empty ob k =
     (let v = jget_n ob k in if \<not> truthy v then Inr [] else case v of JObj d \<Rightarrow> Inr d | _ \<Rightarrow> Inl AttributeErr)"

definition share_part :: "obj \<Rightarrow> string \<Rightarrow> exn + int" where
  "share_part ob k = (case jget_d ob k (JInt 0) of JInt i \<Rightarrow> Inr i | _ \<Rightarrow> Inl TypeErr)"

definition share_text :: "obj \<Rightarrow> exn + string" where
  "share_text share =
     sum_bind (share_part share ''numerator'') (\<lambda>k. sum_bind (share_part share ''denominator'') (\<lambda>n. Inr (pct k n)))"

definition interval_text :: "json \<Rightarrow> exn + string" where
  "interval_text ci =
     (if \<not> truthy ci then Inr ''n/a''
      else case ci of
        JArr [JFloat (Fin a), JFloat (Fin b)] \<Rightarrow> Inr (''['' @ format_fixed 3 a @ '', '' @ format_fixed 3 b @ '']'')
      | _ \<Rightarrow> Inl TypeErr)"

definition items_of :: "obj \<Rightarrow> string \<Rightarrow> exn + (string \<times> obj) list" where
  "items_of ob k = sum_bind (object_or_empty ob k)
     (traverse (\<lambda>(name, v). case v of JObj d \<Rightarrow> Inr (name, d) | _ \<Rightarrow> Inl AttributeErr))"

section \<open>The baseline report\<close>

text \<open>A row of a table: its cells between bars. \<open>shown\<close> is \<open>str\<close> of a JSON value.\<close>

definition table_row :: "string list \<Rightarrow> string" where
  "table_row cells = ''|'' @ concat (map (\<lambda>c. '' '' @ c @ '' |'') cells)"

definition shown_items :: "(json \<Rightarrow> string) \<Rightarrow> obj \<Rightarrow> string list \<Rightarrow> exn + string list" where
  "shown_items shown ob ks = traverse (\<lambda>k. sum_bind (item ob k) (\<lambda>v. Inr (shown v))) ks"

definition class_line :: "(json \<Rightarrow> string) \<Rightarrow> obj \<Rightarrow> exn + string" where
  "class_line shown row =
     sum_bind (object_or_empty row ''apcer_style_estimate'') (\<lambda>est.
     sum_bind (interval_text (jget_n row ''apcer_style_wilson_ci'')) (\<lambda>ci.
     sum_bind (shown_items shown row [''class'', ''n'', ''correct'', ''uncertain'', ''error'', ''spoof_to_live'']) (\<lambda>cells.
     sum_bind (share_text est) (\<lambda>share. Inr (table_row (cells @ [share @ '' '' @ ci]))))))"

definition config_lines :: "(json \<Rightarrow> string) \<Rightarrow> obj \<Rightarrow> string list" where
  "config_lines shown config = map (\<lambda>(k, v). ''- '' @ k @ '': '' @ shown v) (sort_key fst config)"

definition overall_lines :: "(json \<Rightarrow> string) \<Rightarrow> obj \<Rightarrow> exn + string list" where
  "overall_lines shown numbers =
     sum_bind (object_or_empty numbers ''apcer_style_overall'') (\<lambda>overall.
     sum_bind (share_text overall) (\<lambda>spoof.
     sum_bind (object_or_empty numbers ''genuine_non_accept_rate'') (\<lambda>gnar.
     sum_bind (share_text gnar) (\<lambda>genuine.
       Inr [''- SPOOF -> LIVE (overall): '' @ spoof, ''- Genuine non-accept rate: '' @ genuine,
            ''- Uncertain rate: '' @ shown (jget_n numbers ''uncertain_rate''),
            ''- Conclusive rate: '' @ shown (jget_n numbers ''conclusive_rate''),
            ''- Technical error rate: '' @ shown (jget_n numbers ''technical_error_rate''),
            ''- Latency (ms): '' @ shown (jget_n numbers ''latency_ms'')]))))"

definition strategy_line :: "string \<times> obj \<Rightarrow> exn + string" where
  "strategy_line x =
     sum_bind (object_or_empty (snd x) ''apcer_style_overall'') (\<lambda>overall.
     sum_bind (object_or_empty (snd x) ''genuine_non_accept_rate'') (\<lambda>genuine.
     sum_bind (share_text overall) (\<lambda>a. sum_bind (share_text genuine) (\<lambda>b.
       Inr (''- '' @ fst x @ '': spoof->LIVE '' @ a @ '', genuine non-accept '' @ b)))))"

definition provider_line :: "string \<times> obj \<Rightarrow> exn + string" where
  "provider_line x =
     sum_bind (object_or_empty (snd x) ''apcer_style_overall'') (\<lambda>overall.
     sum_bind (share_text overall) (\<lambda>a. Inr (''- '' @ fst x @ '': spoof->LIVE '' @ a)))"

definition bucket_line :: "(json \<Rightarrow> string) \<Rightarrow> string \<times> obj \<Rightarrow> exn + string" where
  "bucket_line shown x =
     sum_bind (shown_items shown (snd x) [''n'', ''correct'', ''incorrect'', ''spoof_to_live'']) (\<lambda>cells.
       Inr (table_row (fst x # cells)))"

text \<open>A section that is there only when the measures have the entry.\<close>

definition optional_section ::
  "obj \<Rightarrow> string \<Rightarrow> string list \<Rightarrow> (string \<times> obj \<Rightarrow> exn + string) \<Rightarrow> exn + string list" where
  "optional_section numbers k heading line =
     (if \<not> truthy (jget_n numbers k) then Inr []
      else sum_bind (items_of numbers k) (\<lambda>xs. sum_bind (traverse line xs) (\<lambda>ls. Inr (heading @ ls))))"

definition baseline_report_md :: "(json \<Rightarrow> string) \<Rightarrow> obj \<Rightarrow> obj \<Rightarrow> exn + string list" where
  "baseline_report_md shown config numbers =
     sum_bind (row_objects (jget_d numbers ''class_rows'' (JArr []))) (\<lambda>rows.
     sum_bind (traverse (class_line shown) rows) (\<lambda>classes.
     sum_bind (overall_lines shown numbers) (\<lambda>overall.
     sum_bind (optional_section numbers ''per_strategy'' [[], ''## Per strategy''] strategy_line) (\<lambda>strategies.
     sum_bind (optional_section numbers ''per_provider'' [[], ''## Per provider:model''] provider_line) (\<lambda>providers.
     sum_bind (optional_section numbers ''confidence_buckets''
        [[], ''## Confidence buckets (self_reported_confidence)'', ''| bucket | n | correct | incorrect | spoof->LIVE |'',
         ''|---|---|---|---|---|''] (bucket_line shown)) (\<lambda>buckets.
       Inr ([''# LivePhoto VLM Baseline Report (M5)'', [], ''## Run configuration''] @ config_lines shown config
         @ [[], ''> This is a finite evaluation set only; NOT a production accuracy claim. ''
              @ ''self_reported_confidence is not calibrated probability.'', [], ''## Per-class results'',
            ''| class | n | correct | uncertain | error | spoof->LIVE | APCER-style (CI) |'', ''|---|---|---|---|---|---|---|'']
         @ classes @ [[], ''## Overall''] @ overall @ strategies @ providers @ buckets)))))))"

section \<open>The priority analysis\<close>

definition paragraph_sign :: char where "paragraph_sign = CHR 0xA7"

text \<open>\<open>est.get('value', 0) or 0\<close> as a number.\<close>

definition estimate_value :: "obj \<Rightarrow> exn + rat" where
  "estimate_value est =
     (let v = jget_d est ''value'' (JInt 0) in
      if \<not> truthy v then Inr 0
      else case v of JFloat (Fin q) \<Rightarrow> Inr q | JInt i \<Rightarrow> Inr (of_int i) | _ \<Rightarrow> Inl TypeErr)"

definition priority_lines :: "(json \<Rightarrow> string) \<Rightarrow> obj \<Rightarrow> exn + string list" where
  "priority_lines shown row =
     sum_bind (object_or_empty row ''apcer_style_estimate'') (\<lambda>est.
     sum_bind (shown_items shown row [''class'', ''spoof_to_live'', ''n'']) (\<lambda>cells.
     sum_bind (estimate_value est) (\<lambda>q.
       Inr [''## '' @ cells ! 0 @ '': '' @ cells ! 1 @ ''/'' @ cells ! 2 @ '' attacks classified LIVE (''
              @ format_percent q @ '' APCER-style)'', [],
            ''- Priority level: HIGH if any spoof->LIVE observed, otherwise LOW.'', []])))"

definition m6_priority_analysis :: "(json \<Rightarrow> string) \<Rightarrow> obj \<Rightarrow> exn + string list" where
  "m6_priority_analysis shown numbers =
     sum_bind (priority_rows numbers) (\<lambda>rows.
     sum_bind (traverse (priority_lines shown) rows) (\<lambda>ls.
       Inr ([''# M6 Priority Analysis (M5 evidence)'', [],
             ''Based only on measured results in this run. Priorities are ranked by the observed'',
             ''SPOOF -> LIVE rate per attack class (M5 '' @ paragraph_sign # ''81-82).'', []]
         @ (if rows = [] then [''No attack-class samples were evaluated in this run.''] else []) @ concat ls
         @ [''## Recommendation'', [],
            ''Do not prescribe a specific M6 technology (e.g., YOLO) a priori; choose the layer'',
            ''addresses the highest observed failure class (device/screen/print/dedicated PAD)'',
            ''based on this evidence (M5 '' @ paragraph_sign # ''82).''])))"

section \<open>The files of a run\<close>

datatype report_file = Jsonl_rows "obj list" | Json_report json | Text_lines "string list"

text \<open>
  The files in the order they are written; \<open>config\<close> is the configuration the run records. The first exception ends
  the list, and what came before it stays written.
\<close>

type_synonym report_step = "string \<times> (exn + report_file)"

definition report_steps ::
  "(json \<Rightarrow> string) \<Rightarrow> obj \<Rightarrow> run_arguments \<Rightarrow> dataset_sample list \<Rightarrow> obj \<Rightarrow> result_record list \<Rightarrow> report_step list" where
  "report_steps shown config ra samples numbers rs =
     (let text = (\<lambda>m. sum_bind m (\<lambda>ls. Inr (Text_lines ls))); confident = high_confidence_errors (fl (8 / 10)) rs in
     [(''baseline_report.json'', Inr (Json_report (JObj (baseline_report config numbers)))),
      (''baseline_report.md'', text (baseline_report_md shown config numbers)),
      (''confusion_matrix.csv'', text (confusion_matrix_csv shown numbers)),
      (''false_spoof_accepts.jsonl'', sum_bind (false_spoof_accepts rs) (\<lambda>xs. Inr (Jsonl_rows xs))),
      (''false_live_rejects.jsonl'', Inr (Jsonl_rows (false_live_rejects rs))),
      (''model_disagreements.jsonl'', Inr (Jsonl_rows (model_disagreements rs))),
      (''m6_priority_analysis.md'', text (m6_priority_analysis shown numbers)),
      (''high_confidence_errors.jsonl'', sum_bind confident (\<lambda>xs. Inr (Jsonl_rows (map record_dump xs)))),
      (''strategy_comparison.json'', Inr (Json_report (jget_n numbers ''paired_strategy''))),
      (''provider_comparison.json'', Inr (Json_report (jget_n numbers ''per_provider'')))]
     @ (if 0 < ra_repetitions ra then [(''repeatability_results.jsonl'', Inr (Jsonl_rows (repeatability_rows rs)))] else [])
     @ (if list_ex sm_prompt_injection samples
        then [(''prompt_injection_results.jsonl'', Inr (Jsonl_rows (prompt_injection_rows samples rs)))] else [])
     @ [(''run_metadata.json'', sum_bind (summarize rs) (\<lambda>summary.
          Inr (Json_report (JObj [(''run_metadata'', JObj config), (''summary'', JObj summary)]))))])"

fun written_reports :: "report_step list \<Rightarrow> (string \<times> report_file) list \<times> exn option" where
  "written_reports [] = ([], None)"
| "written_reports ((name, Inl e) # steps) = ([], Some e)"
| "written_reports ((name, Inr f) # steps) = (case written_reports steps of (fs, e) \<Rightarrow> ((name, f) # fs, e))"

section \<open>Facts\<close>

lemma written_reports_all:
  "snd (written_reports steps) = None \<Longrightarrow> map fst (fst (written_reports steps)) = map fst steps"
  by (induction steps rule: written_reports.induct) (auto split: prod.splits)

lemma pct_zero: "pct k 0 = ''n/a (0)''"
  by (simp add: pct_def)

text \<open>A fixed-point text has exactly the digits asked for.\<close>

lemma nat_digits_length: "k < 10 ^ n \<Longrightarrow> 0 < n \<Longrightarrow> length (nat_digits k) \<le> n"
proof (induction k arbitrary: n rule: nat_digits.induct)
  case (1 k)
  show ?case
  proof (cases "k < 10")
    case True
    then show ?thesis using 1(3) by (simp add: nat_digits.simps)
  next
    case False
    then obtain m where m: "n = Suc m" "0 < m" using 1(2,3) by (cases n; cases "n - 1") auto
    then have "k div 10 < 10 ^ m" using 1(2) by simp
    then have "length (nat_digits (k div 10)) \<le> m" using 1(1) False m(2) by blast
    then show ?thesis using False m(1) by (simp add: nat_digits.simps[of k])
  qed
qed

lemma zero_padded_length: "k < 10 ^ n \<Longrightarrow> 0 < n \<Longrightarrow> length (zero_padded n k) = n"
  using nat_digits_length[of k n] by (simp add: zero_padded_def Let_def)

end
