(* ===== verification/Report_Properties.thy ===== *)
theory Report_Properties
  imports Vlm_Reports Harness_Properties
begin

text \<open>
  The writers of the reports accept what the metrics produce: for records with known labels the metrics exist and
  every file of the run is written.
\<close>

section \<open>Traversals\<close>




section \<open>The metrics of known labels\<close>












section \<open>The writers on the metrics\<close>

lemma share_text_share [simp]:
  "share_text [(''numerator'', jnat k), (''denominator'', jnat n), (''value'', v)] = Inr (pct (int k) (int n))"
  by (simp add: share_text_def share_part_def jnat_def sum_bind_def)















section \<open>Every file is written\<close>







end
