(* ===== verification/Segmentation.thy ===== *)
theory Segmentation
  imports Portrait
begin

text \<open>
  The inference of \<open>app/portrait/segmentation.py\<close>: from the network's output array to the alpha matte, and the
  deterministic matte of the tests' provider. The network's run and Pillow's resampling are parameters. An array is
  a \<open>tensor\<close>: nested lists, all entries of an axis of one shape.
\<close>

section \<open>Arrays\<close>

datatype tensor = Scalar rat | Axis "tensor list"

fun tensor_ndim :: "tensor \<Rightarrow> nat" where
  "tensor_ndim (Scalar x) = 0"
| "tensor_ndim (Axis []) = 1"
| "tensor_ndim (Axis (t # ts)) = Suc (tensor_ndim t)"

text \<open>\<open>a[0]\<close> and \<open>a[:, 0]\<close>.\<close>

fun first_entry :: "tensor \<Rightarrow> exn + tensor" where
  "first_entry (Axis (t # ts)) = Inr t"
| "first_entry t = Inl IndexErr"

fun first_entries :: "tensor list \<Rightarrow> exn + tensor list" where
  "first_entries [] = Inr []"
| "first_entries (t # ts) =
     sum_bind (first_entry t) (\<lambda>u. sum_bind (first_entries ts) (\<lambda>us. Inr (u # us)))"

fun first_column :: "tensor \<Rightarrow> exn + tensor" where
  "first_column (Axis ts) = sum_bind (first_entries ts) (\<lambda>us. Inr (Axis us))"
| "first_column t = Inl IndexErr"

text \<open>\<open>squeeze\<close>: the axes of length one go.\<close>

fun squeeze :: "tensor \<Rightarrow> tensor" where
  "squeeze (Scalar x) = Scalar x"
| "squeeze (Axis ts) = (case map squeeze ts of [t] \<Rightarrow> t | us \<Rightarrow> Axis us)"

fun scalar_value :: "tensor \<Rightarrow> rat" where
  "scalar_value (Scalar x) = x"
| "scalar_value (Axis ts) = 0"

fun axis_entries :: "tensor \<Rightarrow> tensor list" where
  "axis_entries (Axis ts) = ts"
| "axis_entries (Scalar x) = []"

definition grid_of :: "tensor \<Rightarrow> rat grid" where
  "grid_of t = map (map scalar_value \<circ> axis_entries) (axis_entries t)"

section \<open>The network\<close>

text \<open>
  \<open>resize_rgb\<close> and \<open>resize_gray\<close> are Pillow's \<open>resize\<close> of an image to a width and a height (bilinear for the
  colour input); \<open>network_run\<close> is \<open>InferenceSession.run\<close> of a model file on the input array.
\<close>

record inference =
  resize_rgb :: "pixel grid \<Rightarrow> nat \<times> nat \<Rightarrow> pixel grid"
  resize_gray :: "byte grid \<Rightarrow> nat \<times> nat \<Rightarrow> byte grid"
  network_run :: "blob \<Rightarrow> tensor \<Rightarrow> exn + tensor"

definition DEFAULT_INPUT_SIZE :: nat where "DEFAULT_INPUT_SIZE = 512"

text \<open>\<open>np.asarray(resized, dtype=np.float32) / 255.0\<close>, channel first, as a batch of one.\<close>

definition input_channel :: "(pixel \<Rightarrow> byte) \<Rightarrow> pixel grid \<Rightarrow> tensor" where
  "input_channel f g = Axis (map (\<lambda>row. Axis (map (\<lambda>p. Scalar (fl32 (of_nat (unat (f p)) / 255))) row)) g)"

definition input_tensor :: "pixel grid \<Rightarrow> tensor" where
  "input_tensor g = Axis [Axis [input_channel fst g, input_channel (fst \<circ> snd) g, input_channel (snd \<circ> snd) g]]"

text \<open>
  The output's matte. After \<open>squeeze\<close> an array that is not two-dimensional is replaced by its first entry; what
  is still not two-dimensional is no gray image for Pillow.
\<close>

definition matte_of_output :: "tensor \<Rightarrow> exn + rat grid" where
  "matte_of_output raw =
     (let a = squeeze raw in
      if tensor_ndim a = 2 then Inr (grid_of a)
      else if tensor_ndim a \<le> 1 then Inl IndexErr
      else if tensor_ndim a = 3 then sum_bind (first_entry a) (\<lambda>b. Inr (grid_of b))
      else Inl TypeErr)"

text \<open>\<open>Image.fromarray((clip(alpha) * 255).astype(uint8)).resize(size)\<close>, back to float32 in the unit range.\<close>

definition resample_matte :: "inference \<Rightarrow> rat grid \<Rightarrow> nat \<times> nat \<Rightarrow> rat grid" where
  "resample_matte lib alpha dims =
     map_grid (\<lambda>b. fl32 (of_nat (unat b) / 255)) (resize_gray lib (map_grid to_byte alpha) dims)"

definition inference_failed :: exn where
  "inference_failed = PortraitError PORTRAIT_PROCESSING_FAILED ''portrait segmentation inference failed''"

definition predict_alpha :: "inference \<Rightarrow> blob \<Rightarrow> rgb_image \<Rightarrow> exn + rat grid" where
  "predict_alpha lib raw_model img =
     (case network_run lib raw_model
             (input_tensor (resize_rgb lib (ri_pixels img) (DEFAULT_INPUT_SIZE, DEFAULT_INPUT_SIZE))) of
        Inl e \<Rightarrow> Inl inference_failed
      | Inr raw \<Rightarrow>
          sum_bind (matte_of_output raw) (\<lambda>alpha. Inr (resample_matte lib alpha (ri_width img, ri_height img))))"

text \<open>The imaging library of the processor with this inference in it.\<close>

definition with_inference :: "inference \<Rightarrow> imaging \<Rightarrow> imaging" where
  "with_inference lib im = im\<lparr>onnx_session := predict_alpha lib\<rparr>"

section \<open>The tests' provider\<close>

definition axis_offset :: "int \<Rightarrow> nat \<Rightarrow> rat \<Rightarrow> rat" where
  "axis_offset i n background_ratio =
     fl (fl (of_int i - of_nat n / 2) / max (fl (of_nat n * fl (1 - background_ratio))) 1)"

definition fake_alpha :: "rat \<Rightarrow> int \<times> int \<Rightarrow> nat \<times> nat \<Rightarrow> rat" where
  "fake_alpha background_ratio p dims =
     (let dx = axis_offset (snd p) (fst dims) background_ratio;
          dy = axis_offset (fst p) (snd dims) background_ratio;
          distance = fl_sqrt (fl (fl (dx * dx) + fl (dy * dy)))
      in fl32 (clip_unit (fl (1 - distance))))"

definition fake_predict :: "bool \<Rightarrow> rat \<Rightarrow> rgb_image \<Rightarrow> exn + rat grid" where
  "fake_predict fail background_ratio img =
     (if fail then Inl (PortraitError PORTRAIT_PROCESSING_FAILED ''fake segmentation failure'')
      else Inr (tabulate (ri_height img) (ri_width img)
             (\<lambda>p. fake_alpha background_ratio p (ri_width img, ri_height img))))"

definition FakePortraitSegmentation :: "bool \<Rightarrow> rat \<Rightarrow> segmentation" where
  "FakePortraitSegmentation fail background_ratio =
     \<lparr>sg_name = ''fake-portrait-matting'', sg_sha256 = ''fake'', sg_predict = fake_predict fail background_ratio\<rparr>"

section \<open>Facts\<close>

text \<open>\<open>resize\<close> returns an image of the size it was asked for.\<close>

definition resizes :: "inference \<Rightarrow> bool" where
  "resizes lib \<longleftrightarrow> (\<forall>g w h. 0 < w \<longrightarrow> 0 < h \<longrightarrow>
     grid_height (resize_gray lib g (w, h)) = h \<and> grid_width (resize_gray lib g (w, h)) = w)"

definition unit_matte :: "rat grid \<Rightarrow> bool" where
  "unit_matte alpha \<longleftrightarrow> list_all (list_all (\<lambda>a. 0 \<le> a \<and> a \<le> 1)) alpha"

lemma unit_byte: "0 \<le> fl32 (of_nat (unat (b :: byte)) / 255) \<and> fl32 (of_nat (unat b) / 255) \<le> 1"
proof -
  have "(0 :: rat) \<le> of_nat (unat b)" by (rule of_nat_0_le_iff)
  then have "(0 :: rat) \<le> of_nat (unat b) / 255" "of_nat (unat b) / 255 \<le> (1 :: rat)"
    using byte_bound[of b] by simp_all
  then show ?thesis unfolding fl32_def by (simp add: round_to_nonneg round_to_le_1)
qed

lemma unit_clip: "0 \<le> fl32 (clip_unit q) \<and> fl32 (clip_unit q) \<le> 1"
  by (simp add: fl32_def clip_unit_def round_to_nonneg round_to_le_1)

lemma unit_matte_resampled: "unit_matte (resample_matte lib alpha dims)"
  by (simp add: unit_matte_def resample_matte_def map_grid_def list_all_iff unit_byte del: of_nat_unat)

lemma unit_matte_tabulate: "(\<And>p. 0 \<le> f p \<and> f p \<le> 1) \<Longrightarrow> unit_matte (tabulate h w f)"
  by (simp add: unit_matte_def tabulate_def list_all_iff)

lemma grid_size_resampled:
  assumes "resizes lib" and "0 < w" and "0 < h"
  shows "grid_height (resample_matte lib alpha (w, h)) = h" "grid_width (resample_matte lib alpha (w, h)) = w"
  using assms by (simp_all add: resample_matte_def resizes_def)

lemma predict_alpha_shape:
  assumes "predict_alpha lib raw img = Inr alpha" and "resizes lib" and "0 < ri_width img" and "0 < ri_height img"
  shows "(grid_height alpha, grid_width alpha) = (ri_height img, ri_width img) \<and> unit_matte alpha"
  using assms by (auto simp: predict_alpha_def sum_bind_Inr grid_size_resampled unit_matte_resampled split: sum.splits)

lemma fake_predict_shape:
  assumes "fake_predict fail r img = Inr alpha" and "0 < ri_height img"
  shows "(grid_height alpha, grid_width alpha) = (ri_height img, ri_width img) \<and> unit_matte alpha"
proof -
  have "unit_matte alpha"
    using assms(1) unfolding fake_predict_def fake_alpha_def Let_def
    by (auto split: if_splits intro!: unit_matte_tabulate simp: unit_clip)
  then show ?thesis using assms by (auto simp: fake_predict_def split: if_splits)
qed

text \<open>
  With this inference the matte always has the shape of the image, so the structural gate is always applied: what
  is composed comes from a matte in the unit range that passed it.
\<close>

lemma with_inference_predicts:
  assumes "segmentation_provider rt (with_inference lib im) s None = Inr seg"
  shows "\<exists>raw. model_file im (portrait_model_path s) = Some raw \<and> sg_predict seg = predict_alpha lib raw"
  using assms by (auto simp: segmentation_provider_def OnnxPortraitSegmentation_def with_inference_def
      split: option.splits if_splits)

lemma composed_from_gated:
  assumes "compose_portrait (with_inference lib im) s (segmentation_provider rt (with_inference lib im) s None) data box
      = Inr (composed, crop)"
    and "resizes lib" and "\<And>b i. pil_decode im b = Some i \<Longrightarrow> 0 < ri_width i \<and> 0 < ri_height i"
  shows "\<exists>raw img alpha0 alpha. model_file im (portrait_model_path s) = Some raw \<and> pil_decode im data = Some img
    \<and> predict_alpha lib raw img = Inr alpha0 \<and> unit_matte alpha0 \<and> mi_ok (validate_portrait_matte alpha0 box)
    \<and> resolve_matte alpha0 img box = Inr alpha \<and> mi_ok (validate_portrait_matte alpha box)"
proof -
  obtain img seg alpha0 alpha where steps: "decode_image (with_inference lib im) data = Inr img"
      "segmentation_provider rt (with_inference lib im) s None = Inr seg" "sg_predict seg img = Inr alpha0"
      "resolve_matte alpha0 img box = Inr alpha"
    using assms(1) unfolding compose_portrait_def by (auto simp: sum_bind_Inr)
  obtain raw where raw: "model_file im (portrait_model_path s) = Some raw" "sg_predict seg = predict_alpha lib raw"
    using with_inference_predicts[OF steps(2)] by blast
  have img: "pil_decode im data = Some img"
    using steps(1) by (auto simp: decode_image_def with_inference_def split: option.splits)
  have pred: "predict_alpha lib raw img = Inr alpha0" using steps(3) by (simp add: raw)
  have shape: "(grid_height alpha0, grid_width alpha0) = (ri_height img, ri_width img) \<and> unit_matte alpha0"
    using predict_alpha_shape[OF pred assms(2) conjunct1[OF assms(3)[OF img]] conjunct2[OF assms(3)[OF img]]] .
  then have "mi_ok (validate_portrait_matte alpha0 box)
      \<and> (alpha = alpha0 \<or> refine_matte alpha0 box = Inr alpha \<and> mi_ok (validate_portrait_matte alpha box))"
    using resolve_matte_gate[OF steps(4)] by blast
  then show ?thesis using raw(1) img pred shape steps(4) by blast
qed

end
