(* ===== verification/Benchmark_Models.thy ===== *)
theory Benchmark_Models
  imports Segmentation
begin

text \<open>
  The candidate models of the offline segmentation benchmark (\<open>scripts/evaluate_portrait_segmentation.py\<close>): the
  catalog with its licences, the face box as a prompt, and one provider per model. PyTorch, Transformers and the
  Hugging Face client are parameters; what the script does with their arrays is modelled.
\<close>

section \<open>Catalog\<close>

record catalog_entry =
  ce_name :: string
  ce_repo :: string
  ce_code_license :: string
  ce_weights_license :: string
  ce_commercial_use :: string
  ce_source :: string
  ce_runtime :: string

definition MODEL_CATALOG :: "(string \<times> catalog_entry) list" where
  "MODEL_CATALOG =
     [(''modnet'', \<lparr>ce_name = ''MODNet photographic portrait matting (ONNX)'',
        ce_repo = ''ZHKKKe/MODNet (weights mirror: DavG25/modnet-pretrained-models)'',
        ce_code_license = ''Apache-2.0'', ce_weights_license = ''Apache-2.0'',
        ce_commercial_use = ''Permitted (permissive, attribution/notice).'',
        ce_source = ''https://huggingface.co/DavG25/modnet-pretrained-models'', ce_runtime = ''onnxruntime (CPU)''\<rparr>),
      (''birefnet'', \<lparr>ce_name = ''BiRefNet dichotomous image segmentation'', ce_repo = ''ZhengPeng7/BiRefNet'',
        ce_code_license = ''MIT'', ce_weights_license = ''MIT (Hugging Face model card)'',
        ce_commercial_use = ''Permitted (permissive, attribution/notice).'',
        ce_source = ''https://huggingface.co/ZhengPeng7/BiRefNet'',
        ce_runtime = ''torch + transformers (trust_remote_code)''\<rparr>),
      (''sam2'', \<lparr>ce_name = ''SAM 2.1 (Hierarchical Image Segmentation, promptable)'', ce_repo = ''facebook/sam2.1-hiera-large'',
        ce_code_license = ''Apache-2.0'', ce_weights_license = ''Apache-2.0'',
        ce_commercial_use = ''Permitted (permissive, attribution/notice).'',
        ce_source = ''https://huggingface.co/facebook/sam2.1-hiera-large'',
        ce_runtime = ''torch + transformers (Sam2Model, box prompt)''\<rparr>),
      (''rmbg2'', \<lparr>ce_name = ''BRIA RMBG-2.0 background removal'', ce_repo = ''briaai/RMBG-2.0'',
        ce_code_license = ''bria-rmbg-2.0 (model license)'', ce_weights_license = ''CC BY-NC 4.0 (non-commercial)'',
        ce_commercial_use = ''NOT permitted without a separate commercial agreement with BRIA; HF weights are ''
          @ ''gated. Disqualified for a bank production deployment as-is.'',
        ce_source = ''https://huggingface.co/briaai/RMBG-2.0'',
        ce_runtime = ''torch + transformers (trust_remote_code, gated weights)''\<rparr>)]"

record model_spec =
  ms_key :: string
  ms_name :: string
  ms_repo :: string
  ms_code_license :: string
  ms_weights_license :: string
  ms_commercial_use :: string
  ms_source :: string
  ms_runtime :: string
  ms_revision :: "string option"
  ms_weights_bytes :: "nat option"
  ms_checkpoint_sha256 :: "string option"
  ms_load_ms :: "int option"
  ms_license_notes :: string

definition bare_spec :: "string \<Rightarrow> catalog_entry \<Rightarrow> model_spec" where
  "bare_spec key c =
     \<lparr>ms_key = key, ms_name = ce_name c, ms_repo = ce_repo c, ms_code_license = ce_code_license c,
      ms_weights_license = ce_weights_license c, ms_commercial_use = ce_commercial_use c, ms_source = ce_source c,
      ms_runtime = ce_runtime c, ms_revision = None, ms_weights_bytes = None, ms_checkpoint_sha256 = None,
      ms_load_ms = None, ms_license_notes = []\<rparr>"

text \<open>The spec of a key; a key that is not in the catalog gets a spec of its name alone.\<close>

definition unknown_entry :: "string \<Rightarrow> catalog_entry" where
  "unknown_entry key = \<lparr>ce_name = key, ce_repo = [], ce_code_license = [], ce_weights_license = [],
     ce_commercial_use = [], ce_source = [], ce_runtime = []\<rparr>"

definition spec_for :: "string \<Rightarrow> model_spec" where
  "spec_for key = bare_spec key (case map_of MODEL_CATALOG key of Some c \<Rightarrow> c | None \<Rightarrow> unknown_entry key)"

section \<open>The libraries\<close>

datatype transform_step = Resize nat nat | To_tensor | Normalize "rat list" "rat list"
datatype torch_output = Single tensor | Several "tensor list"

record hub_file =
  hf_name :: string
  hf_size :: "nat option"

record hub_info =
  hi_sha :: "string option"
  hi_siblings :: "hub_file list"

text \<open>
  \<open>exn_type\<close> and \<open>exn_text\<close> are the name of an exception's class and \<open>f"{type(exc).__name__}: {exc}"\<close>; \<open>torch_devices\<close>
  tells whether MPS and CUDA are there (\<open>None\<close> when PyTorch cannot be asked); \<open>load_model\<close> is \<open>from_pretrained\<close>,
  \<open>torch_forward\<close> the transforms and the model, \<open>torch_sigmoid\<close> its squashing; \<open>sam_masks\<close> is the processor and the model
  on a prompt box, with or without the keyword \<open>multimask_output\<close>, up to \<open>pred_masks\<close>; \<open>np_exp\<close> is \<open>None\<close> past the
  largest float32; \<open>box_exn\<close> and \<open>sam_other_prompt\<close> stand for what Python's arithmetic does on a box of a manifest
  that is not four finite numbers; \<open>perf_counter\<close> gives the readings of the clock in order.
\<close>

record bench_env =
  be_runtime :: runtime
  be_imaging :: imaging
  be_inference :: inference
  be_file :: "string \<Rightarrow> blob option"
  exn_type :: "exn \<Rightarrow> string"
  exn_text :: "exn \<Rightarrow> string"
  torch_devices :: "(bool \<times> bool) option"
  hub_model_info :: "string \<Rightarrow> exn + hub_info"
  hub_download :: "string \<Rightarrow> string \<Rightarrow> exn + blob"
  load_model :: "string \<Rightarrow> string \<Rightarrow> string \<Rightarrow> exn option"
  torch_forward :: "string \<Rightarrow> string \<Rightarrow> transform_step list \<Rightarrow> rgb_image \<Rightarrow> exn + torch_output"
  torch_sigmoid :: "tensor \<Rightarrow> tensor"
  sam_masks :: "string \<Rightarrow> string \<Rightarrow> bool \<Rightarrow> rat list \<Rightarrow> rgb_image \<Rightarrow> exn + tensor"
  sam_other_prompt :: "json list \<Rightarrow> rgb_image \<Rightarrow> exn + rat grid"
  box_exn :: "json list \<Rightarrow> exn"
  np_exp :: "rat \<Rightarrow> rat option"
  np_mean :: "rat grid \<Rightarrow> rat"
  perf_counter :: "nat \<Rightarrow> rat"
  utc_now :: int
  backend_root :: string

definition pick_device :: "bench_env \<Rightarrow> string \<Rightarrow> string" where
  "pick_device en requested =
     (if requested \<noteq> ''auto'' then requested
      else case torch_devices en of
        Some (mps, cuda) \<Rightarrow> if mps then ''mps'' else if cuda then ''cuda'' else ''cpu''
      | None \<Rightarrow> ''cpu'')"

section \<open>Provenance\<close>

text \<open>The weight file: the first with one of the two usual names, else the last with a suffix.\<close>

fun pick_weights :: "string list \<Rightarrow> string list \<Rightarrow> hub_file list \<Rightarrow> hub_file option \<Rightarrow> hub_file option" where
  "pick_weights suffixes usual [] candidate = candidate"
| "pick_weights suffixes usual (f # fs) candidate =
     (if list_ex (\<lambda>s. ends_with s (hf_name f)) suffixes
      then if hf_name f \<in> set usual then Some f else pick_weights suffixes usual fs (Some f)
      else pick_weights suffixes usual fs candidate)"

definition note_provenance :: "bench_env \<Rightarrow> exn \<Rightarrow> model_spec \<Rightarrow> model_spec" where
  "note_provenance en e spec =
     spec\<lparr>ms_license_notes := str_strip (ms_license_notes spec @ '' provenance: '' @ exn_type en e)\<rparr>"

definition hf_provenance :: "bench_env \<Rightarrow> model_spec \<Rightarrow> model_spec" where
  "hf_provenance en spec =
     (case hub_model_info en (ms_repo spec) of
        Inl e \<Rightarrow> note_provenance en e spec
      | Inr info \<Rightarrow>
          (let spec = spec\<lparr>ms_revision := hi_sha info\<rparr>;
               usual = [''model.safetensors'', last (split_on CHR ''/'' (ms_repo spec)) @ ''.safetensors''] in
           case pick_weights [''.safetensors''] usual (hi_siblings info) None of
             None \<Rightarrow> spec
           | Some f \<Rightarrow>
               (let spec = spec\<lparr>ms_weights_bytes := hf_size f\<rparr> in
                case hub_download en (ms_repo spec) (hf_name f) of
                  Inl e \<Rightarrow> note_provenance en e spec
                | Inr data \<Rightarrow> spec\<lparr>ms_checkpoint_sha256 := Some (sha_blob (be_runtime en) data)\<rparr>)))"

section \<open>Mattes of the candidates\<close>

text \<open>What \<open>Image.fromarray\<close> takes for a gray image; one dimension is one column.\<close>

definition gray_of :: "tensor \<Rightarrow> exn + rat grid" where
  "gray_of t =
     (if tensor_ndim t = 0 then Inl IndexErr
      else if tensor_ndim t = 1 then Inr (map (\<lambda>u. [scalar_value u]) (axis_entries t))
      else if tensor_ndim t = 2 then Inr (grid_of t)
      else Inl TypeErr)"

definition matting_transforms :: "transform_step list" where
  "matting_transforms = [Resize 1024 1024, To_tensor,
     Normalize (map fl [485 / 1000, 456 / 1000, 406 / 1000]) (map fl [229 / 1000, 224 / 1000, 225 / 1000])]"

fun last_output :: "torch_output \<Rightarrow> exn + tensor" where
  "last_output (Single t) = Inr t"
| "last_output (Several ts) = (if ts = [] then Inl IndexErr else Inr (last ts))"

text \<open>\<open>BiRefNetProvider.predict_alpha\<close> and \<open>Rmbg2Provider.predict_alpha\<close>, which are the same code.\<close>

definition matting_predict :: "bench_env \<Rightarrow> string \<Rightarrow> string \<Rightarrow> rgb_image \<Rightarrow> exn + rat grid" where
  "matting_predict en repo device img =
     sum_bind (torch_forward en repo device matting_transforms img) (\<lambda>out.
     sum_bind (last_output out) (\<lambda>prediction.
     sum_bind (gray_of (squeeze (torch_sigmoid en prediction))) (\<lambda>alpha.
       Inr (resample_matte (be_inference en) alpha (ri_width img, ri_height img)))))"

text \<open>A box as four finite numbers; the JSON number of a manifest may be an integer.\<close>

fun finite_number :: "json \<Rightarrow> rat option" where
  "finite_number (JInt i) = Some (of_int i)"
| "finite_number (JBool b) = Some (if b then 1 else 0)"
| "finite_number (JFloat (Fin q)) = Some q"
| "finite_number _ = None"

fun box_numbers :: "json list \<Rightarrow> face_box option" where
  "box_numbers [a, b, c, d] =
     (case (finite_number a, finite_number b, finite_number c, finite_number d) of
        (Some x, Some y, Some w, Some h) \<Rightarrow> Some (x, y, w, h)
      | _ \<Rightarrow> None)"
| "box_numbers _ = None"

text \<open>\<open>Sam2Provider._prompt_box\<close>: the face box padded sideways, above the hair and down to the torso.\<close>

definition prompt_corners :: "face_box \<Rightarrow> rat \<times> rat \<times> rat \<times> rat" where
  "prompt_corners box = (case box of (fx, fy, fw, fh) \<Rightarrow>
     (max 0 (fl (fx - fl (fl (1 / 10) * fw))), max 0 (fl (fy - fl (1 / 2 * fh))),
      min 1 (fl (fl (fx + fw) + fl (fl (1 / 10) * fw))), min 1 (fl (fl (fy + fh) + fl (3 / 2 * fh)))))"

definition prompt_box :: "face_box \<Rightarrow> nat \<times> nat \<Rightarrow> rat list" where
  "prompt_box box dims = (case prompt_corners box of (x0, y0, x1, y1) \<Rightarrow>
     [fl (x0 * of_nat (fst dims)), fl (y0 * of_nat (snd dims)),
      fl (x1 * of_nat (fst dims)), fl (y1 * of_nat (snd dims))])"

text \<open>\<open>while logits.ndim > 3: logits = logits[:, 0]\<close>, and the loop that takes first entries: each round takes one axis.\<close>

fun take_columns :: "nat \<Rightarrow> tensor \<Rightarrow> exn + tensor" where
  "take_columns 0 t = Inr t"
| "take_columns (Suc n) t = sum_bind (first_column t) (take_columns n)"

fun take_entries :: "nat \<Rightarrow> tensor \<Rightarrow> exn + tensor" where
  "take_entries 0 t = Inr t"
| "take_entries (Suc n) t = sum_bind (first_entry t) (take_entries n)"

definition sam_logits :: "tensor \<Rightarrow> exn + tensor" where
  "sam_logits masks =
     sum_bind (take_columns (tensor_ndim masks - 3) masks) (\<lambda>m.
     sum_bind (first_entry m) (\<lambda>l. take_entries (tensor_ndim l - 2) l))"

definition sigmoid32 :: "bench_env \<Rightarrow> rat \<Rightarrow> rat" where
  "sigmoid32 en x = (case np_exp en (- x) of None \<Rightarrow> 0 | Some e \<Rightarrow> fl32 (1 / fl32 (1 + e)))"

definition sam_mask :: "bench_env \<Rightarrow> tensor \<Rightarrow> nat \<times> nat \<Rightarrow> exn + rat grid" where
  "sam_mask en masks dims =
     sum_bind (sam_logits masks) (\<lambda>l. sum_bind (gray_of l) (\<lambda>g.
       Inr (map_grid (\<lambda>a. if a > 1 / 2 then 1 else 0)
         (resample_matte (be_inference en) (map_grid (sigmoid32 en) g) dims))))"

definition sam_predict :: "bench_env \<Rightarrow> string \<Rightarrow> string \<Rightarrow> rgb_image \<Rightarrow> json list option \<Rightarrow> exn + rat grid" where
  "sam_predict en repo device img face_box =
     (case face_box of
        None \<Rightarrow> Inl ValueErr
      | Some values \<Rightarrow>
          (case box_numbers values of
             None \<Rightarrow> sam_other_prompt en values img
           | Some box \<Rightarrow>
               (let prompt = prompt_box box (ri_width img, ri_height img) in
                sum_bind (case sam_masks en repo device True prompt img of
                    Inl TypeErr \<Rightarrow> sam_masks en repo device False prompt img
                  | r \<Rightarrow> r)
                  (\<lambda>masks. sam_mask en masks (ri_width img, ri_height img)))))"

section \<open>Providers\<close>

record provider =
  pr_spec :: model_spec
  pr_predict :: "rgb_image \<Rightarrow> json list option \<Rightarrow> exn + rat grid"

definition elapsed_ms :: "rat \<Rightarrow> rat \<Rightarrow> int" where
  "elapsed_ms started ended = py_trunc (fl (fl (ended - started) * 1000))"

text \<open>The constructors; \<open>n\<close> is the number of clock readings so far, and the new number comes with the result.\<close>

definition onnx_provider :: "bench_env \<Rightarrow> string \<Rightarrow> string option \<Rightarrow> nat \<Rightarrow> (exn + provider) \<times> nat" where
  "onnx_provider en model_path expected_sha256 n =
     (let im = with_inference (be_inference en) (be_imaging en); rt = be_runtime en in
      case OnnxPortraitSegmentation rt im model_path (case expected_sha256 of None \<Rightarrow> [] | Some h \<Rightarrow> h) of
        Inl e \<Rightarrow> (Inl e, n + 1)
      | Inr seg \<Rightarrow>
          (let file = model_file im model_path in
           (Inr \<lparr>pr_spec = (spec_for ''modnet'')\<lparr>ms_load_ms := Some (elapsed_ms (perf_counter en n) (perf_counter en (n + 1))),
                   ms_weights_bytes := map_option (blob_size rt) file, ms_checkpoint_sha256 := map_option (sha_blob rt) file\<rparr>,
                 pr_predict = (\<lambda>img face_box. sg_predict seg img)\<rparr>, n + 2)))"

definition hub_provider ::
  "bench_env \<Rightarrow> string \<Rightarrow> string list \<Rightarrow> (rgb_image \<Rightarrow> json list option \<Rightarrow> exn + rat grid) \<Rightarrow> string \<Rightarrow> string \<Rightarrow> nat
    \<Rightarrow> (exn + provider) \<times> nat" where
  "hub_provider en key classes predict repo device n =
     (case List.find (\<lambda>c. load_model en c repo device \<noteq> None) classes of
        Some c \<Rightarrow> (Inl (the (load_model en c repo device)), n + 1)
      | None \<Rightarrow>
          (Inr \<lparr>pr_spec = hf_provenance en ((spec_for key)\<lparr>ms_repo := repo,
                  ms_load_ms := Some (elapsed_ms (perf_counter en n) (perf_counter en (n + 1)))\<rparr>),
                pr_predict = predict\<rparr>, n + 2))"

definition birefnet_provider :: "bench_env \<Rightarrow> string \<Rightarrow> string \<Rightarrow> nat \<Rightarrow> (exn + provider) \<times> nat" where
  "birefnet_provider en repo device = hub_provider en ''birefnet'' [''AutoModelForImageSegmentation'']
     (\<lambda>img face_box. matting_predict en repo device img) repo device"

definition sam2_provider :: "bench_env \<Rightarrow> string \<Rightarrow> string \<Rightarrow> nat \<Rightarrow> (exn + provider) \<times> nat" where
  "sam2_provider en repo device = hub_provider en ''sam2'' [''Sam2Processor'', ''Sam2Model'']
     (sam_predict en repo device) repo device"

definition rmbg2_provider :: "bench_env \<Rightarrow> string \<Rightarrow> string \<Rightarrow> nat \<Rightarrow> (exn + provider) \<times> nat" where
  "rmbg2_provider en repo device = hub_provider en ''rmbg2'' [''AutoModelForImageSegmentation'']
     (\<lambda>img face_box. matting_predict en repo device img) repo device"

end
