(* ===== verification/Benchmark_Run.thy ===== *)
theory Benchmark_Run
  imports Benchmark_Models
begin

text \<open>
  The run of the offline segmentation benchmark (\<open>scripts/evaluate_portrait_segmentation.py\<close>): its arguments and
  cases, the evaluation of a case by a model, the report and the exit code. The run keeps the files it has written
  and the number of clock readings; an exception that is not caught ends it. Directories and console lines are
  left out, and so is how \<open>argparse\<close> splits the command line into options and values.
\<close>

section \<open>Paths\<close>

text \<open>A \<open>pathlib\<close> path: its root and its parts, without empty parts and dots.\<close>

record pure_path =
  pp_root :: string
  pp_parts :: "string list"

definition path_of :: "string \<Rightarrow> pure_path" where
  "path_of s =
     (let n = length (takeWhile (\<lambda>c. c = CHR ''/'') s) in
      \<lparr>pp_root = (if n = 0 then [] else if n = 2 then ''//'' else ''/''),
       pp_parts = filter (\<lambda>p. p \<notin> {[], ''.''}) (split_on CHR ''/'' s)\<rparr>)"

definition path_text :: "pure_path \<Rightarrow> string" where
  "path_text p = (if pp_root p = [] \<and> pp_parts p = [] then ''.'' else pp_root p @ join_on CHR ''/'' (pp_parts p))"

definition path_div :: "pure_path \<Rightarrow> string \<Rightarrow> pure_path" where
  "path_div base s =
     (let q = path_of s in if pp_root q \<noteq> [] then q else base\<lparr>pp_parts := pp_parts base @ pp_parts q\<rparr>)"

definition relative_to :: "pure_path \<Rightarrow> pure_path \<Rightarrow> exn + pure_path" where
  "relative_to p base =
     (if pp_root p = pp_root base \<and> take (length (pp_parts base)) (pp_parts p) = pp_parts base
      then Inr \<lparr>pp_root = [], pp_parts = drop (length (pp_parts base)) (pp_parts p)\<rparr>
      else Inl ValueErr)"

definition file_name :: "pure_path \<Rightarrow> string" where
  "file_name p = (if pp_parts p = [] then [] else last (pp_parts p))"

definition parent :: "pure_path \<Rightarrow> pure_path" where
  "parent p = p\<lparr>pp_parts := butlast (pp_parts p)\<rparr>"

section \<open>Arguments\<close>

record bench_args =
  ag_input :: "string list"
  ag_face_box :: "json list list"
  ag_manifest :: "string option"
  ag_models :: string
  ag_output_dir :: string
  ag_json_out :: "string option"
  ag_background_color :: string
  ag_model_path :: string
  ag_model_sha256 :: "string option"
  ag_birefnet_repo :: string
  ag_sam2_repo :: string
  ag_rmbg2_repo :: string
  ag_device :: string
  ag_markdown_out :: "string option"

definition DEFAULT_BACKGROUND_COLOR :: string where "DEFAULT_BACKGROUND_COLOR = ''#FFFFFF''"
definition DEFAULT_MODNET_PATH :: string where
  "DEFAULT_MODNET_PATH = ''model-assets/modnet_photographic_portrait_matting.onnx''"
definition DEFAULT_MODELS :: string where "DEFAULT_MODELS = ''modnet,birefnet''"
definition EVAL_SCHEMA_VERSION :: string where "EVAL_SCHEMA_VERSION = ''segmentation-evaluation-v1''"
definition MATTE_INTEGRITY_VERSION :: string where "MATTE_INTEGRITY_VERSION = ''portrait-matte-integrity-v1''"
definition EVAL_FOREGROUND_THRESHOLD :: rat where "EVAL_FOREGROUND_THRESHOLD = 1 / 2"

definition default_args :: bench_args where
  "default_args =
     \<lparr>ag_input = [], ag_face_box = [], ag_manifest = None, ag_models = DEFAULT_MODELS,
      ag_output_dir = ''local-data/segmentation-eval'', ag_json_out = None,
      ag_background_color = DEFAULT_BACKGROUND_COLOR, ag_model_path = DEFAULT_MODNET_PATH, ag_model_sha256 = None,
      ag_birefnet_repo = ''ZhengPeng7/BiRefNet'', ag_sam2_repo = ''facebook/sam2.1-hiera-large'',
      ag_rmbg2_repo = ''briaai/RMBG-2.0'', ag_device = ''auto'', ag_markdown_out = None\<rparr>"

text \<open>The \<open>ArgumentTypeError\<close> of another number of parts is the \<open>LibraryErr\<close>.\<close>

definition parse_face_box :: "runtime \<Rightarrow> string \<Rightarrow> exn + json list" where
  "parse_face_box rt v =
     (case parse_floats rt (split_on CHR '','' v) of
        None \<Rightarrow> Inl ValueErr
      | Some xs \<Rightarrow> if length xs \<noteq> 4 then Inl LibraryErr else Inr xs)"

text \<open>One option with its value; an unknown option, a refused value or device is \<open>None\<close>: usage, exit code 2.\<close>

definition take_option :: "runtime \<Rightarrow> bench_args \<Rightarrow> string \<times> string \<Rightarrow> bench_args option" where
  "take_option rt a opt = (let v = snd opt in
     if fst opt = ''--input'' then Some (a\<lparr>ag_input := ag_input a @ [v]\<rparr>)
     else if fst opt = ''--face-box'' then
       (case parse_face_box rt v of Inl e \<Rightarrow> None | Inr box \<Rightarrow> Some (a\<lparr>ag_face_box := ag_face_box a @ [box]\<rparr>))
     else if fst opt = ''--manifest'' then Some (a\<lparr>ag_manifest := Some v\<rparr>)
     else if fst opt = ''--models'' then Some (a\<lparr>ag_models := v\<rparr>)
     else if fst opt = ''--output-dir'' then Some (a\<lparr>ag_output_dir := v\<rparr>)
     else if fst opt = ''--json-out'' then Some (a\<lparr>ag_json_out := Some v\<rparr>)
     else if fst opt = ''--background-color'' then Some (a\<lparr>ag_background_color := v\<rparr>)
     else if fst opt = ''--portrait-model-path'' then Some (a\<lparr>ag_model_path := v\<rparr>)
     else if fst opt = ''--portrait-model-sha256'' then Some (a\<lparr>ag_model_sha256 := Some v\<rparr>)
     else if fst opt = ''--birefnet-repo'' then Some (a\<lparr>ag_birefnet_repo := v\<rparr>)
     else if fst opt = ''--sam2-repo'' then Some (a\<lparr>ag_sam2_repo := v\<rparr>)
     else if fst opt = ''--rmbg2-repo'' then Some (a\<lparr>ag_rmbg2_repo := v\<rparr>)
     else if fst opt = ''--device'' then
       (if v \<in> {''auto'', ''cpu'', ''mps'', ''cuda''} then Some (a\<lparr>ag_device := v\<rparr>) else None)
     else if fst opt = ''--markdown-out'' then Some (a\<lparr>ag_markdown_out := Some v\<rparr>)
     else None)"

fun take_options :: "runtime \<Rightarrow> bench_args \<Rightarrow> (string \<times> string) list \<Rightarrow> bench_args option" where
  "take_options rt a [] = Some a"
| "take_options rt a (opt # opts) = (case take_option rt a opt of None \<Rightarrow> None | Some b \<Rightarrow> take_options rt b opts)"

definition parse_args :: "runtime \<Rightarrow> (string \<times> string) list \<Rightarrow> bench_args option" where
  "parse_args rt argv = take_options rt default_args argv"

section \<open>Cases\<close>

record bench_case =
  bc_name :: json
  bc_image :: pure_path
  bc_face_box :: "json list option"
  bc_notes :: json

definition manifest_case :: "runtime \<Rightarrow> json \<Rightarrow> exn + bench_case" where
  "manifest_case rt entry =
     (case entry of
        JObj ob \<Rightarrow>
          (case (jget ob ''name'', jget ob ''image'') of
             (Some name, Some img) \<Rightarrow>
               (case str_text rt img of
                  None \<Rightarrow> Inl TypeErr
                | Some path \<Rightarrow>
                    sum_bind (if truthy (jget_n ob ''face_box'')
                              then sum_bind (py_list rt (jget_n ob ''face_box'')) (\<lambda>xs. Inr (Some xs))
                              else Inr None) (\<lambda>box.
                      Inr \<lparr>bc_name = name, bc_image = path_of path, bc_face_box = box,
                           bc_notes = jget_d ob ''notes'' (JStr [])\<rparr>))
           | _ \<Rightarrow> Inl KeyErr)
      | _ \<Rightarrow> Inl AttributeErr)"

fun manifest_cases :: "runtime \<Rightarrow> json list \<Rightarrow> exn + bench_case list" where
  "manifest_cases rt [] = Inr []"
| "manifest_cases rt (j # js) =
     sum_bind (manifest_case rt j) (\<lambda>c. sum_bind (manifest_cases rt js) (\<lambda>cs. Inr (c # cs)))"

definition read_json_file :: "runtime \<Rightarrow> blob option \<Rightarrow> exn + json" where
  "read_json_file rt file =
     (case file of
        None \<Rightarrow> Inl OsErr
      | Some (Json j) \<Rightarrow> Inr j
      | Some (Text s) \<Rightarrow> (case json_loads rt s of None \<Rightarrow> Inl ValueErr | Some j \<Rightarrow> Inr j)
      | Some (Bin b) \<Rightarrow> Inl UnicodeErr)"

definition load_manifest :: "bench_env \<Rightarrow> string \<Rightarrow> exn + bench_case list" where
  "load_manifest en path =
     sum_bind (read_json_file (be_runtime en) (be_file en (path_text (path_of path)))) (\<lambda>data.
       case data of
         JObj ob \<Rightarrow>
           sum_bind (py_list (be_runtime en) (jget_d ob ''cases'' (JArr []))) (manifest_cases (be_runtime en))
       | _ \<Rightarrow> Inl AttributeErr)"

text \<open>The name of an input's case: the directory it is in, one level up for a stored capture.\<close>

definition input_name :: "nat \<Rightarrow> string \<Rightarrow> string" where
  "input_name index v =
     (let p = path_of v;
          name = (if file_name (parent p) = [] then ''case-'' @ int_text (int index) else file_name (parent p)) in
      if file_name p = ''selected-original.jpg'' \<and> file_name (parent (parent p)) \<noteq> []
      then file_name (parent (parent p)) else name)"

text \<open>The box at the input's position, else the first one.\<close>

definition paired_box :: "json list list \<Rightarrow> nat \<Rightarrow> json list option" where
  "paired_box boxes index =
     (if index < length boxes then Some (boxes ! index) else if boxes \<noteq> [] then Some (hd boxes) else None)"

definition input_case :: "json list list \<Rightarrow> nat \<times> string \<Rightarrow> bench_case" where
  "input_case boxes iv = \<lparr>bc_name = JStr (input_name (fst iv) (snd iv)), bc_image = path_of (snd iv),
     bc_face_box = paired_box boxes (fst iv), bc_notes = JStr []\<rparr>"

definition collect_cases :: "bench_env \<Rightarrow> bench_args \<Rightarrow> exn + bench_case list" where
  "collect_cases en a =
     sum_bind (case ag_manifest a of Some m \<Rightarrow> if m = [] then Inr [] else load_manifest en m | None \<Rightarrow> Inr [])
       (\<lambda>cases. Inr (cases @ map (input_case (ag_face_box a)) (enumerate 0 (ag_input a))))"

section \<open>One case with one model\<close>

datatype bench_file = Jpeg_file "pixel grid" int | Gray_file "byte grid" | Json_file json | Text_file string

record bench =
  bn_files :: "string \<rightharpoonup> bench_file"
  bn_reads :: nat

definition save_file :: "pure_path \<Rightarrow> bench_file \<Rightarrow> bench \<Rightarrow> bench" where
  "save_file p f b = b\<lparr>bn_files := (bn_files b)(path_text p \<mapsto> f)\<rparr>"

text \<open>
  A row of the results. The rows of a model that could not be built hold the case, the model and the error only.
\<close>

record alpha_stats =
  as_min :: rat
  as_max :: rat
  as_mean :: rat
  as_shape :: "nat \<times> nat"

record eval_result =
  er_case :: json
  er_model :: string
  er_status :: string
  er_input :: "nat \<times> nat"
  er_output :: "(nat \<times> nat) option"
  er_inference_ms :: "int option"
  er_alpha :: "alpha_stats option"
  er_raw :: "matte_integrity option"
  er_refined :: "matte_integrity option"
  er_action :: "string option"
  er_crop :: "crop_box option"
  er_outputs :: "(string \<times> string) list"
  er_error :: "string option"

datatype bench_row = Skipped json string string | Evaluated_row eval_result

fun row_case :: "bench_row \<Rightarrow> json" where
  "row_case (Skipped c m e) = c"
| "row_case (Evaluated_row r) = er_case r"

fun row_model :: "bench_row \<Rightarrow> string" where
  "row_model (Skipped c m e) = m"
| "row_model (Evaluated_row r) = er_model r"

fun row_status :: "bench_row \<Rightarrow> string" where
  "row_status (Skipped c m e) = ''SKIPPED''"
| "row_status (Evaluated_row r) = er_status r"

definition pair_text :: "nat \<times> nat \<Rightarrow> string" where
  "pair_text p = ''('' @ int_text (int (fst p)) @ '', '' @ int_text (int (snd p)) @ '')''"

definition stats_of :: "bench_env \<Rightarrow> rat grid \<Rightarrow> alpha_stats" where
  "stats_of en alpha =
     (let xs = concat alpha in
      \<lparr>as_min = round4 (fold min xs (hd xs)), as_max = round4 (fold max xs (hd xs)), as_mean = round4 (np_mean en alpha),
       as_shape = (grid_height alpha, grid_width alpha)\<rparr>)"

definition foreground_mask :: "rat grid \<Rightarrow> byte grid" where
  "foreground_mask alpha = map_grid (\<lambda>a. if a \<ge> EVAL_FOREGROUND_THRESHOLD then 255 else 0) alpha"

text \<open>The verdict on a matte: the production validator on it and on its refinement.\<close>

definition case_box :: "bench_env \<Rightarrow> json list option \<Rightarrow> exn + face_box option" where
  "case_box en v = (case v of
     None \<Rightarrow> Inr None
   | Some values \<Rightarrow> (case box_numbers values of None \<Rightarrow> Inl (box_exn en values) | Some box \<Rightarrow> Inr (Some box)))"

definition judge :: "bench_env \<Rightarrow> rat grid \<Rightarrow> json list option \<Rightarrow> exn + matte_integrity \<times> matte_integrity \<times> string" where
  "judge en alpha values =
     sum_bind (case_box en values) (\<lambda>box.
       let raw_integrity = validate_portrait_matte alpha box in
       sum_bind (refine_matte alpha box) (\<lambda>refined_alpha.
         let refined_integrity = validate_portrait_matte refined_alpha box in
         Inr (raw_integrity, refined_integrity,
           if refinement_is_acceptable raw_integrity refined_integrity then ''refined'' else ''reverted_to_raw'')))"

definition composite :: "rgb_image \<Rightarrow> rat grid \<Rightarrow> face_box option \<Rightarrow> pixel \<Rightarrow> exn + pixel grid \<times> crop_box" where
  "composite img alpha box background =
     sum_bind (passport_crop alpha (int (ri_width img), int (ri_height img)) box) (\<lambda>crop.
       Inr (composite_solid (crop_grid (ri_pixels img) crop) (crop_grid alpha crop) background, crop))"

text \<open>\<open>original.jpg\<close> is written before the path relative to the output directory is taken.\<close>

definition new_result :: "json \<Rightarrow> string \<Rightarrow> rgb_image \<Rightarrow> string \<Rightarrow> eval_result" where
  "new_result name key img original =
     \<lparr>er_case = name, er_model = key, er_status = ''OK'', er_input = (ri_width img, ri_height img), er_output = None,
      er_inference_ms = None, er_alpha = None, er_raw = None, er_refined = None, er_action = None, er_crop = None,
      er_outputs = [(''original'', original)], er_error = None\<rparr>"

definition JPEG_QUALITY :: int where "JPEG_QUALITY = 95"

text \<open>The mattes' files and their paths in the result.\<close>

definition matte_files :: "pure_path \<Rightarrow> pure_path \<Rightarrow> rat grid \<Rightarrow> bench \<Rightarrow> (exn + (string \<times> string) list) \<times> bench" where
  "matte_files out_root model_dir alpha b =
     (let alpha_path = path_div model_dir ''alpha.png''; mask_path = path_div model_dir ''foreground-mask.png'';
          b1 = save_file alpha_path (Gray_file (map_grid to_byte alpha)) b in
      case relative_to alpha_path out_root of
        Inl e \<Rightarrow> (Inl e, b1)
      | Inr ra \<Rightarrow>
          (let b2 = save_file mask_path (Gray_file (foreground_mask alpha)) b1 in
           (sum_bind (relative_to mask_path out_root) (\<lambda>rm.
              Inr [(''alpha'', path_text ra), (''foreground_mask'', path_text rm)]), b2)))"

text \<open>The composite of the raw matte; whatever it raises is noted in the row.\<close>

definition composite_row ::
  "bench_env \<Rightarrow> pure_path \<Rightarrow> pure_path \<Rightarrow> rgb_image \<Rightarrow> rat grid \<Rightarrow> face_box option \<Rightarrow> pixel \<Rightarrow> eval_result \<Rightarrow> bench
    \<Rightarrow> eval_result \<times> bench" where
  "composite_row en out_root model_dir img alpha box background r b =
     (let failed = (\<lambda>e. r\<lparr>er_status := ''PARTIAL'', er_error := Some (''composite: '' @ exn_text en e)\<rparr>) in
      case composite img alpha box background of
        Inl e \<Rightarrow> (failed e, b)
      | Inr (composed, crop) \<Rightarrow>
          (let path = path_div model_dir ''white-composite.jpg''; b1 = save_file path (Jpeg_file composed JPEG_QUALITY) b in
           case relative_to path out_root of
             Inl e \<Rightarrow> (failed e, b1)
           | Inr rp \<Rightarrow> (r\<lparr>er_outputs := er_outputs r @ [(''white_composite'', path_text rp)], er_crop := Some crop,
                er_output := Some (grid_width composed, grid_height composed)\<rparr>, b1)))"

text \<open>From the predicted matte on.\<close>

definition evaluate_matte ::
  "bench_env \<Rightarrow> pure_path \<Rightarrow> pure_path \<Rightarrow> rgb_image \<Rightarrow> rat grid \<Rightarrow> bench_case \<Rightarrow> pixel \<Rightarrow> eval_result \<Rightarrow> bench
    \<Rightarrow> (exn + eval_result) \<times> bench" where
  "evaluate_matte en out_root model_dir img alpha c background r b =
     (if (grid_height alpha, grid_width alpha) \<noteq> (ri_height img, ri_width img)
      then (Inr (r\<lparr>er_status := ''ERROR'', er_error := Some (''alpha shape '' @ pair_text (grid_height alpha, grid_width alpha)
              @ '' != image '' @ pair_text (ri_height img, ri_width img))\<rparr>), b)
      else
      (case matte_files out_root model_dir alpha b of
         (Inl e, b1) \<Rightarrow> (Inl e, b1)
       | (Inr files, b1) \<Rightarrow>
           (case sum_bind (case_box en (bc_face_box c)) (\<lambda>box. sum_bind (judge en alpha (bc_face_box c)) (\<lambda>v. Inr (box, v))) of
              Inl e \<Rightarrow> (Inl e, b1)
            | Inr (box, raw, refined, act) \<Rightarrow>
                (case composite_row en out_root model_dir img alpha box background
                    (r\<lparr>er_alpha := Some (stats_of en alpha), er_outputs := er_outputs r @ files, er_raw := Some raw,
                       er_refined := Some refined, er_action := Some act\<rparr>) b1 of
                  (result, b2) \<Rightarrow> (Inr result, b2)))))"

definition evaluate_case_model ::
  "bench_env \<Rightarrow> bench_case \<Rightarrow> provider \<Rightarrow> pure_path \<Rightarrow> pixel \<Rightarrow> bench \<Rightarrow> (exn + eval_result) \<times> bench" where
  "evaluate_case_model en c p out_root background b =
     (let key = ms_key (pr_spec p) in
      case str_text (be_runtime en) (bc_name c) of
        None \<Rightarrow> (Inl TypeErr, b)
      | Some name \<Rightarrow>
          (let model_dir = path_div (path_div out_root name) key; original = path_div model_dir ''original.jpg'' in
           case Option.bind (be_file en (path_text (bc_image c))) (pil_decode (be_imaging en)) of
             None \<Rightarrow> (Inl OsErr, b)
           | Some img \<Rightarrow>
               (let b1 = save_file original (Jpeg_file (ri_pixels img) JPEG_QUALITY) b in
                case relative_to original out_root of
                  Inl e \<Rightarrow> (Inl e, b1)
                | Inr ro \<Rightarrow>
                    (let r = new_result (bc_name c) key img (path_text ro); n = bn_reads b1 in
                     case pr_predict p img (bc_face_box c) of
                       Inl e \<Rightarrow> (Inr (r\<lparr>er_status := ''ERROR'', er_error := Some (exn_text en e)\<rparr>), b1\<lparr>bn_reads := n + 1\<rparr>)
                     | Inr alpha \<Rightarrow>
                         evaluate_matte en out_root model_dir img alpha c background
                           (r\<lparr>er_inference_ms := Some (elapsed_ms (perf_counter en n) (perf_counter en (n + 1)))\<rparr>)
                           (b1\<lparr>bn_reads := n + 2\<rparr>)))))"

section \<open>The run\<close>

text \<open>The cases of a model in order; the first exception that is not caught ends the run.\<close>

fun evaluate_cases ::
  "bench_env \<Rightarrow> provider \<Rightarrow> pure_path \<Rightarrow> pixel \<Rightarrow> bench_case list \<Rightarrow> bench \<Rightarrow> (exn + bench_row list) \<times> bench" where
  "evaluate_cases en p out_root background [] b = (Inr [], b)"
| "evaluate_cases en p out_root background (c # cs) b =
     (case evaluate_case_model en c p out_root background b of
        (Inl e, b1) \<Rightarrow> (Inl e, b1)
      | (Inr r, b1) \<Rightarrow>
          (case evaluate_cases en p out_root background cs b1 of
             (Inl e, b2) \<Rightarrow> (Inl e, b2)
           | (Inr rs, b2) \<Rightarrow> (Inr (Evaluated_row r # rs), b2)))"

definition build_provider :: "bench_env \<Rightarrow> bench_args \<Rightarrow> string \<Rightarrow> string \<Rightarrow> nat \<Rightarrow> (exn + provider) \<times> nat" where
  "build_provider en a key device n =
     (if key = ''modnet'' then
        (let p = path_of (ag_model_path a);
             path = (if pp_root p = [] \<and> model_file (be_imaging en) (path_text p) = None
                     then path_div (path_of (backend_root en)) (path_text p) else p)
         in onnx_provider en (path_text path) (ag_model_sha256 a) n)
      else if key = ''birefnet'' then birefnet_provider en (ag_birefnet_repo a) device n
      else if key = ''sam2'' then sam2_provider en (ag_sam2_repo a) device n
      else if key = ''rmbg2'' then rmbg2_provider en (ag_rmbg2_repo a) device n
      else (Inl KeyErr, n))"

text \<open>A model that cannot be built gets a spec with a note and a row per case.\<close>

definition skipped_spec :: "bench_env \<Rightarrow> string \<Rightarrow> exn \<Rightarrow> model_spec" where
  "skipped_spec en key e = (spec_for key)\<lparr>ms_license_notes := ''SKIPPED: '' @ exn_text en e\<rparr>"

definition evaluate_model ::
  "bench_env \<Rightarrow> bench_args \<Rightarrow> string \<Rightarrow> pure_path \<Rightarrow> pixel \<Rightarrow> bench_case list \<Rightarrow> string \<Rightarrow> bench
    \<Rightarrow> (exn + model_spec \<times> bench_row list) \<times> bench" where
  "evaluate_model en a device out_root background cases key b =
     (case build_provider en a key device (bn_reads b) of
        (Inl e, n) \<Rightarrow>
          (Inr (skipped_spec en key e, map (\<lambda>c. Skipped (bc_name c) key (exn_text en e)) cases), b\<lparr>bn_reads := n\<rparr>)
      | (Inr p, n) \<Rightarrow>
          (case evaluate_cases en p out_root background cases (b\<lparr>bn_reads := n\<rparr>) of
             (Inl e, b1) \<Rightarrow> (Inl e, b1)
           | (Inr rows, b1) \<Rightarrow> (Inr (pr_spec p, rows), b1)))"

fun evaluate_models ::
  "bench_env \<Rightarrow> bench_args \<Rightarrow> string \<Rightarrow> pure_path \<Rightarrow> pixel \<Rightarrow> bench_case list \<Rightarrow> string list \<Rightarrow> bench
    \<Rightarrow> (exn + (model_spec \<times> bench_row list) list) \<times> bench" where
  "evaluate_models en a device out_root background cases [] b = (Inr [], b)"
| "evaluate_models en a device out_root background cases (key # keys) b =
     (case evaluate_model en a device out_root background cases key b of
        (Inl e, b1) \<Rightarrow> (Inl e, b1)
      | (Inr x, b1) \<Rightarrow>
          (case evaluate_models en a device out_root background cases keys b1 of
             (Inl e, b2) \<Rightarrow> (Inl e, b2)
           | (Inr xs, b2) \<Rightarrow> (Inr (x # xs), b2)))"

definition model_keys :: "string \<Rightarrow> string list" where
  "model_keys models = filter (\<lambda>k. k \<noteq> []) (map str_strip (split_on CHR '','' models))"

section \<open>Report\<close>

definition json_option :: "('a \<Rightarrow> json) \<Rightarrow> 'a option \<Rightarrow> json" where
  "json_option f x = (case x of None \<Rightarrow> JNull | Some v \<Rightarrow> f v)"

definition dims_json :: "nat \<times> nat \<Rightarrow> json" where
  "dims_json d = JObj [(''width'', jnat (fst d)), (''height'', jnat (snd d))]"

fun matte_reason_text :: "matte_reason \<Rightarrow> string" where
  "matte_reason_text Empty_matte = ''empty_matte''"
| "matte_reason_text Face_retention_low = ''face_retention_low''"
| "matte_reason_text Face_component_fragmented = ''face_component_fragmented''"
| "matte_reason_text Head_retention_low = ''head_retention_low''"
| "matte_reason_text Face_asymmetry = ''face_asymmetry''"

definition integrity_dict :: "matte_integrity \<Rightarrow> obj" where
  "integrity_dict m =
     [(''ok'', JBool (mi_ok m)), (''reason'', jopt (map_option matte_reason_text (mi_reason m))),
      (''has_face_box'', JBool (mi_has_face_box m)), (''face_retention'', json_rat (mi_face_retention m)),
      (''head_retention'', json_rat (mi_head_retention m)), (''left_retention'', json_rat (mi_left_retention m)),
      (''right_retention'', json_rat (mi_right_retention m)), (''balance'', json_rat (mi_balance m)),
      (''component_face_overlap'', json_rat (mi_overlap m)), (''foreground_ratio'', json_rat (mi_foreground_ratio m))]"

definition spec_json :: "model_spec \<Rightarrow> json" where
  "spec_json s = JObj
     [(''key'', JStr (ms_key s)), (''name'', JStr (ms_name s)), (''repo'', JStr (ms_repo s)),
      (''code_license'', JStr (ms_code_license s)), (''weights_license'', JStr (ms_weights_license s)),
      (''commercial_use'', JStr (ms_commercial_use s)), (''source'', JStr (ms_source s)), (''runtime'', JStr (ms_runtime s)),
      (''revision'', jopt (ms_revision s)), (''weights_bytes'', json_option jnat (ms_weights_bytes s)),
      (''checkpoint_sha256'', jopt (ms_checkpoint_sha256 s)), (''load_ms'', json_option JInt (ms_load_ms s)),
      (''license_notes'', JStr (ms_license_notes s))]"

definition crop_json :: "crop_box \<Rightarrow> json" where
  "crop_json c = (case cnormalized c of (a, b, d, e) \<Rightarrow> JObj
     [(''x0'', JInt (cx0 c)), (''y0'', JInt (cy0 c)), (''x1'', JInt (cx1 c)), (''y1'', JInt (cy1 c)),
      (''width'', JInt (cwidth c)), (''height'', JInt (cheight c)), (''normalized'', JArr (map json_rat [a, b, d, e]))])"

definition stats_json :: "alpha_stats \<Rightarrow> json" where
  "stats_json a = JObj
     [(''min'', json_rat (as_min a)), (''max'', json_rat (as_max a)), (''mean'', json_rat (as_mean a)),
      (''shape'', JArr [jnat (fst (as_shape a)), jnat (snd (as_shape a))])]"

fun row_dict :: "bench_row \<Rightarrow> obj" where
  "row_dict (Skipped c m e) =
     [(''case'', c), (''model'', JStr m), (''status'', JStr ''SKIPPED''), (''error'', JStr e), (''raw_integrity'', JNull)]"
| "row_dict (Evaluated_row r) =
     [(''case'', er_case r), (''model'', JStr (er_model r)), (''status'', JStr (er_status r)),
      (''input_dimensions'', dims_json (er_input r)), (''output_dimensions'', json_option dims_json (er_output r)),
      (''inference_ms'', json_option JInt (er_inference_ms r)), (''alpha_stats'', json_option stats_json (er_alpha r)),
      (''raw_integrity'', json_option (JObj \<circ> integrity_dict) (er_raw r)),
      (''refined_integrity'', json_option (JObj \<circ> integrity_dict) (er_refined r)),
      (''refinement_action'', jopt (er_action r)), (''crop_box'', json_option crop_json (er_crop r)),
      (''outputs'', JObj (map (\<lambda>(k, v). (k, JStr v)) (er_outputs r))), (''error'', jopt (er_error r))]"

definition case_json :: "bench_case \<Rightarrow> json" where
  "case_json c = JObj
     [(''name'', bc_name c), (''image'', JStr (path_text (bc_image c))),
      (''face_box'', case bc_face_box c of Some v \<Rightarrow> if v \<noteq> [] then JArr v else JNull | None \<Rightarrow> JNull),
      (''notes'', bc_notes c), (''width'', JNull), (''height'', JNull)]"

definition report_json ::
  "bench_env \<Rightarrow> bench_args \<Rightarrow> string \<Rightarrow> bench_case list \<Rightarrow> (model_spec \<times> bench_row list) list \<Rightarrow> obj" where
  "report_json en a device cases ms =
     [(''schema'', JStr EVAL_SCHEMA_VERSION), (''generated_at'', JTime (utc_now en)),
      (''integrity_version'', JStr MATTE_INTEGRITY_VERSION), (''refinement_version'', JStr MATTE_REFINEMENT_VERSION),
      (''crop_version'', JStr CROP_VERSION), (''background_color'', JStr (ag_background_color a)),
      (''device'', JStr device), (''models'', JArr (map (spec_json \<circ> fst) ms)), (''cases'', JArr (map case_json cases)),
      (''results'', JArr (map (JObj \<circ> row_dict) (concat (map snd ms))))]"

text \<open>The Markdown table; \<open>format\<close> prints a value as \<open>str\<close> does.\<close>

definition shown :: "runtime \<Rightarrow> json \<Rightarrow> string" where
  "shown rt j = (case str_text rt (py_str rt j) of Some s \<Rightarrow> s | None \<Rightarrow> [])"

definition raw_dict :: "bench_row \<Rightarrow> obj" where
  "raw_dict row = (case jget_n (row_dict row) ''raw_integrity'' of JObj ob \<Rightarrow> ob | _ \<Rightarrow> [])"

definition integrity_cell :: "runtime \<Rightarrow> bench_row \<Rightarrow> string" where
  "integrity_cell rt row =
     (if row_status row = ''OK''
      then if truthy (jget_n (raw_dict row) ''ok'') then ''PASS''
           else ''FAIL ('' @ shown rt (jget_n (raw_dict row) ''reason'') @ '')''
      else row_status row)"

definition table_line :: "runtime \<Rightarrow> bench_row \<Rightarrow> string" where
  "table_line rt row =
     (let raw = (\<lambda>k. shown rt (jget_d (raw_dict row) k (JStr ''-''))); d = row_dict row in
      ''| '' @ concat (map (\<lambda>c. c @ '' | '')
        [shown rt (row_case row), row_model row, integrity_cell rt row, raw ''face_retention'', raw ''head_retention'',
         raw ''balance'', raw ''component_face_overlap'', shown rt (jget_d d ''inference_ms'' (JStr ''-''))])
      @ (if truthy (jget_n d ''error'') then shown rt (jget_n d ''error'') else []) @ '' |'')"

definition markdown_table :: "runtime \<Rightarrow> bench_row list \<Rightarrow> string list" where
  "markdown_table rt rows =
     [''| Case | Model | Integrity | Face retention | Head retention | Balance | ''
        @ ''Component overlap | Time (ms) | Notes |'',
      ''|---|---|---|---|---|---|---|---|---|''] @ map (table_line rt) rows"

definition unlines :: "string list \<Rightarrow> string" where
  "unlines ls = concat (map (\<lambda>l. l @ [CHR 0x0A]) ls)"

section \<open>Main\<close>

datatype bench_end = Exit int | Uncaught exn

definition exit_code :: "bench_row list \<Rightarrow> int" where
  "exit_code rows =
     (if length (filter (\<lambda>r. row_status r \<in> {''ERROR'', ''SKIPPED''}) rows) = length rows then 1 else 0)"

definition report_path :: "bench_args \<Rightarrow> pure_path" where
  "report_path a = (case ag_json_out a of
     Some p \<Rightarrow> if p \<noteq> [] then path_of p else path_div (path_of (ag_output_dir a)) ''segmentation-evaluation.json''
   | None \<Rightarrow> path_div (path_of (ag_output_dir a)) ''segmentation-evaluation.json'')"

definition write_report ::
  "bench_env \<Rightarrow> bench_args \<Rightarrow> string \<Rightarrow> bench_case list \<Rightarrow> (model_spec \<times> bench_row list) list \<Rightarrow> bench \<Rightarrow> bench" where
  "write_report en a device cases ms b =
     (let b1 = save_file (report_path a) (Json_file (JObj (report_json en a device cases ms))) b in
      case ag_markdown_out a of
        Some p \<Rightarrow> if p \<noteq> [] then save_file (path_of p)
                    (Text_file (unlines (markdown_table (be_runtime en) (concat (map snd ms))))) b1 else b1
      | None \<Rightarrow> b1)"

definition bench_main :: "bench_env \<Rightarrow> (string \<times> string) list \<Rightarrow> bench \<Rightarrow> bench_end \<times> bench" where
  "bench_main en argv b =
     (case parse_args (be_runtime en) argv of
        None \<Rightarrow> (Exit 2, b)
      | Some a \<Rightarrow>
          (case parse_background_color (ag_background_color a) of
             Inl e \<Rightarrow> (Uncaught e, b)
           | Inr background \<Rightarrow>
               (case collect_cases en a of
                  Inl e \<Rightarrow> (Uncaught e, b)
                | Inr cases \<Rightarrow>
                    if cases = [] then (Exit 2, b)
                    else
                    (let device = pick_device en (ag_device a) in
                     case evaluate_models en a device (path_of (ag_output_dir a)) background cases
                         (model_keys (ag_models a)) b of
                       (Inl e, b1) \<Rightarrow> (Uncaught e, b1)
                     | (Inr ms, b1) \<Rightarrow>
                         (Exit (exit_code (concat (map snd ms))), write_report en a device cases ms b1)))))"

end
