(* ===== verification/Benchmark_Properties.thy ===== *)
theory Benchmark_Properties
  imports Benchmark_Run Sample_Image
begin

text \<open>
  What holds of the segmentation benchmark: its rows are the pairs of models and cases in order, its verdict on
  a matte is what the production processor does with that matte, and the prompt box of SAM contains the face.
\<close>

section \<open>Steps\<close>

lemma hf_provenance_key [simp]: "ms_key (hf_provenance en spec) = ms_key spec"
  by (simp add: hf_provenance_def note_provenance_def Let_def split: sum.splits option.splits)

lemma spec_for_key [simp]: "ms_key (spec_for key) = key"
  by (simp add: spec_for_def bare_spec_def)

lemma hub_provider_key: "hub_provider en key cs predict repo device n = (Inr p, m) \<Longrightarrow> ms_key (pr_spec p) = key"
  by (auto simp: hub_provider_def split: option.splits)

lemma onnx_provider_key: "onnx_provider en path h n = (Inr p, m) \<Longrightarrow> ms_key (pr_spec p) = ''modnet''"
  by (auto simp: onnx_provider_def Let_def split: sum.splits)

lemma build_provider_key: "build_provider en a key device n = (Inr p, m) \<Longrightarrow> ms_key (pr_spec p) = key"
  using hub_provider_key onnx_provider_key
  by (fastforce simp: build_provider_def birefnet_provider_def sam2_provider_def rmbg2_provider_def Let_def split: if_splits)

text \<open>What a row that was evaluated holds of its case and model.\<close>

definition row_of :: "json \<Rightarrow> string \<Rightarrow> eval_result \<Rightarrow> bool" where
  "row_of name key r \<longleftrightarrow> er_case r = name \<and> er_model r = key \<and> er_status r \<in> {''OK'', ''PARTIAL'', ''ERROR''}"

lemma composite_row_of:
  "composite_row en base dir img alpha box bg r b = (r', b') \<Longrightarrow>
    er_case r' = er_case r \<and> er_model r' = er_model r \<and> er_status r' \<in> {er_status r, ''PARTIAL''}
    \<and> er_raw r' = er_raw r \<and> er_refined r' = er_refined r \<and> er_action r' = er_action r"
  by (auto simp: composite_row_def Let_def split: sum.splits prod.splits)

lemma evaluate_matte_of:
  assumes "evaluate_matte en base dir img alpha c bg r b = (Inr r', b')" and "er_status r = ''OK''"
  shows "er_case r' = er_case r \<and> er_model r' = er_model r \<and> er_status r' \<in> {''OK'', ''PARTIAL'', ''ERROR''}
    \<and> (er_status r' \<noteq> ''ERROR'' \<longrightarrow> (grid_height alpha, grid_width alpha) = (ri_height img, ri_width img)
      \<and> (\<exists>box raw refined act. case_box en (bc_face_box c) = Inr box \<and> judge en alpha (bc_face_box c) = Inr (raw, refined, act)
          \<and> er_raw r' = Some raw \<and> er_refined r' = Some refined \<and> er_action r' = Some act))"
proof (cases "(grid_height alpha, grid_width alpha) = (ri_height img, ri_width img)")
  case True
  obtain files b1 where files: "matte_files base dir alpha b = (Inr files, b1)"
    using assms(1) True by (fastforce simp: evaluate_matte_def split: prod.splits sum.splits)
  obtain box raw refined act where v: "case_box en (bc_face_box c) = Inr box" "judge en alpha (bc_face_box c) = Inr (raw, refined, act)"
    using assms(1) True files by (auto simp: evaluate_matte_def sum_bind_def split: sum.splits)
  obtain q where q: "composite_row en base dir img alpha box bg
      (r\<lparr>er_alpha := Some (stats_of en alpha), er_outputs := er_outputs r @ files, er_raw := Some raw,
         er_refined := Some refined, er_action := Some act\<rparr>) b1 = (r', q)"
    using assms(1) True files v by (auto simp: evaluate_matte_def sum_bind_def split: prod.splits)
  show ?thesis using composite_row_of[OF q] assms(2) True v by auto
next
  case False
  then show ?thesis using assms by (auto simp: evaluate_matte_def)
qed

lemma evaluate_case_of:
  assumes "evaluate_case_model en c p base bg b = (Inr r, b')"
  shows "row_of (bc_name c) (ms_key (pr_spec p)) r"
    and "er_status r \<noteq> ''ERROR'' \<Longrightarrow> \<exists>img alpha box raw refined act.
      Option.bind (be_file en (path_text (bc_image c))) (pil_decode (be_imaging en)) = Some img
      \<and> pr_predict p img (bc_face_box c) = Inr alpha \<and> (grid_height alpha, grid_width alpha) = (ri_height img, ri_width img)
      \<and> case_box en (bc_face_box c) = Inr box \<and> judge en alpha (bc_face_box c) = Inr (raw, refined, act)
      \<and> er_raw r = Some raw \<and> er_refined r = Some refined \<and> er_action r = Some act"
proof -
  obtain name img ro where steps: "str_text (be_runtime en) (bc_name c) = Some name"
      "Option.bind (be_file en (path_text (bc_image c))) (pil_decode (be_imaging en)) = Some img"
      "relative_to (path_div (path_div (path_div base name) (ms_key (pr_spec p))) ''original.jpg'') base = Inr ro"
    using assms by (auto simp: evaluate_case_model_def Let_def split: option.splits sum.splits)
  let ?r = "new_result (bc_name c) (ms_key (pr_spec p)) img (path_text ro)"
  have new: "er_case ?r = bc_name c" "er_model ?r = ms_key (pr_spec p)" "er_status ?r = ''OK''"
    by (simp_all add: new_result_def)
  show "row_of (bc_name c) (ms_key (pr_spec p)) r"
  proof (cases "pr_predict p img (bc_face_box c)")
    case (Inl e)
    then show ?thesis using assms steps new by (auto simp: evaluate_case_model_def Let_def row_of_def)
  next
    case (Inr alpha)
    then show ?thesis using assms steps new evaluate_matte_of
      by (fastforce simp: evaluate_case_model_def Let_def row_of_def)
  qed
  assume ok: "er_status r \<noteq> ''ERROR''"
  obtain alpha where alpha: "pr_predict p img (bc_face_box c) = Inr alpha"
    using assms steps ok by (cases "pr_predict p img (bc_face_box c)") (auto simp: evaluate_case_model_def Let_def)
  obtain m q k where "evaluate_matte en base m img alpha c bg (?r\<lparr>er_inference_ms := Some q\<rparr>) k = (Inr r, b')"
    using assms steps alpha by (auto simp: evaluate_case_model_def Let_def)
  from evaluate_matte_of[OF this] ok new alpha steps(2)
  show "\<exists>img alpha box raw refined act.
      Option.bind (be_file en (path_text (bc_image c))) (pil_decode (be_imaging en)) = Some img
      \<and> pr_predict p img (bc_face_box c) = Inr alpha \<and> (grid_height alpha, grid_width alpha) = (ri_height img, ri_width img)
      \<and> case_box en (bc_face_box c) = Inr box \<and> judge en alpha (bc_face_box c) = Inr (raw, refined, act)
      \<and> er_raw r = Some raw \<and> er_refined r = Some refined \<and> er_action r = Some act"
    by auto
qed

section \<open>Every pair has its row\<close>

lemma evaluate_cases_rows:
  assumes "evaluate_cases en p base bg cs b = (Inr rows, b')"
  shows "map (\<lambda>r. (row_model r, row_case r)) rows = map (\<lambda>c. (ms_key (pr_spec p), bc_name c)) cs
    \<and> (\<forall>r \<in> set rows. row_status r \<in> {''OK'', ''PARTIAL'', ''ERROR'', ''SKIPPED''})"
  using assms
proof (induction cs arbitrary: b rows)
  case (Cons c cs)
  from Cons.prems obtain r b1 rs where r: "evaluate_case_model en c p base bg b = (Inr r, b1)"
      "evaluate_cases en p base bg cs b1 = (Inr rs, b')" "rows = Evaluated_row r # rs"
    by (auto split: prod.splits sum.splits)
  show ?case using evaluate_case_of(1)[OF r(1)] Cons.IH[OF r(2)] by (auto simp: r(3) row_of_def)
qed simp

lemma evaluate_model_rows:
  assumes "evaluate_model en a device base bg cs key b = (Inr (spec, rows), b')"
  shows "map (\<lambda>r. (row_model r, row_case r)) rows = map (\<lambda>c. (key, bc_name c)) cs
    \<and> (\<forall>r \<in> set rows. row_status r \<in> {''OK'', ''PARTIAL'', ''ERROR'', ''SKIPPED''})"
proof (cases "build_provider en a key device (bn_reads b)")
  case (Pair res n)
  show ?thesis
  proof (cases res)
    case (Inl e)
    then show ?thesis using assms Pair by (auto simp: evaluate_model_def comp_def)
  next
    case (Inr p)
    then obtain b1 where "evaluate_cases en p base bg cs (b\<lparr>bn_reads := n\<rparr>) = (Inr rows, b1)"
      using assms Pair by (auto simp: evaluate_model_def split: prod.splits sum.splits)
    from evaluate_cases_rows[OF this] build_provider_key[of en a key device _ p n] Pair Inr show ?thesis by simp
  qed
qed

lemma evaluate_models_rows:
  assumes "evaluate_models en a device base bg cs keys b = (Inr ms, b')"
  shows "map (\<lambda>r. (row_model r, row_case r)) (concat (map snd ms)) = List.product keys (map bc_name cs)
    \<and> (\<forall>r \<in> set (concat (map snd ms)). row_status r \<in> {''OK'', ''PARTIAL'', ''ERROR'', ''SKIPPED''})"
  using assms
proof (induction keys arbitrary: b ms)
  case (Cons key keys)
  from Cons.prems obtain x b1 xs where x: "evaluate_model en a device base bg cs key b = (Inr x, b1)"
      "evaluate_models en a device base bg cs keys b1 = (Inr xs, b')" "ms = x # xs"
    by (auto split: prod.splits sum.splits)
  obtain spec rows where xx: "x = (spec, rows)" by fastforce
  show ?case using evaluate_model_rows[OF x(1)[unfolded xx]] Cons.IH[OF x(2)] by (auto simp: x(3) xx comp_def)
qed simp

lemma bench_main_steps:
  assumes "bench_main en argv b = (Exit rc, b')" and "rc \<noteq> 2"
  obtains a background cases ms b1 where "parse_args (be_runtime en) argv = Some a"
    and "parse_background_color (ag_background_color a) = Inr background"
    and "collect_cases en a = Inr cases" and "cases \<noteq> []"
    and "evaluate_models en a (pick_device en (ag_device a)) (path_of (ag_output_dir a)) background cases
           (model_keys (ag_models a)) b = (Inr ms, b1)"
    and "rc = exit_code (concat (map snd ms))" and "b' = write_report en a (pick_device en (ag_device a)) cases ms b1"
  using assms by (auto simp: bench_main_def Let_def split: option.splits sum.splits if_splits prod.splits)

lemma filter_all_iff: "length (filter P xs) = length xs \<longleftrightarrow> (\<forall>x \<in> set xs. P x)"
  by (induction xs) (auto simp: le_imp_less_Suc less_imp_neq)

lemma exit_code_all_failed:
  "exit_code rows = (if \<forall>r \<in> set rows. row_status r \<in> {''ERROR'', ''SKIPPED''} then 1 else 0)"
  by (simp only: exit_code_def filter_all_iff)

text \<open>C39: A benchmark run that ends with a report has exactly one row for every pair of a requested model and a
  collected case, model by model in the order of the request and case by case, whatever failed on the way; its
  exit code is 1 exactly when every row is an error or was skipped, and otherwise 0; the rows are the report's.\<close>

theorem benchmark_covers_every_pair:
  assumes "bench_main en argv b = (Exit rc, b')" and "rc \<noteq> 2"
  shows "\<exists>a cases rows ob. parse_args (be_runtime en) argv = Some a \<and> collect_cases en a = Inr cases
    \<and> map (\<lambda>r. (row_model r, row_case r)) rows = List.product (model_keys (ag_models a)) (map bc_name cases)
    \<and> rc = (if \<forall>r \<in> set rows. row_status r \<in> {''ERROR'', ''SKIPPED''} then 1 else 0)
    \<and> jget_n ob ''results'' = JArr (map (JObj \<circ> row_dict) rows)
    \<and> (ag_markdown_out a = None \<longrightarrow> bn_files b' (path_text (report_path a)) = Some (Json_file (JObj ob)))"
proof -
  obtain a background cases ms b1 where run: "parse_args (be_runtime en) argv = Some a" "collect_cases en a = Inr cases"
      "evaluate_models en a (pick_device en (ag_device a)) (path_of (ag_output_dir a)) background cases
         (model_keys (ag_models a)) b = (Inr ms, b1)"
      "rc = exit_code (concat (map snd ms))" "b' = write_report en a (pick_device en (ag_device a)) cases ms b1"
    using bench_main_steps[OF assms] by metis
  let ?ob = "report_json en a (pick_device en (ag_device a)) cases ms"
  have "jget_n ?ob ''results'' = JArr (map (JObj \<circ> row_dict) (concat (map snd ms)))"
    by (simp add: report_json_def)
  moreover have "ag_markdown_out a = None \<longrightarrow> bn_files b' (path_text (report_path a)) = Some (Json_file (JObj ?ob))"
    by (simp add: run(5) write_report_def save_file_def Let_def)
  ultimately show ?thesis
    using run(1,2) run(4)[unfolded exit_code_all_failed] conjunct1[OF evaluate_models_rows[OF run(3)]]
    by (intro exI[of _ a] exI[of _ cases] exI[of _ "concat (map snd ms)"] exI[of _ ?ob] conjI)
qed

section \<open>The verdict\<close>

text \<open>C40: The verdict of an evaluated row is the production processor's: its integrity is the production validator's on
  the model's matte, and given that matte the processor would go on with the refined matte where the row says
  refined, with the raw one where it says reverted, and refuse the portrait where the row's integrity failed.\<close>

theorem benchmark_verdict_is_production:
  assumes "evaluate_case_model en c p base bg b = (Inr r, b')" and "er_status r \<noteq> ''ERROR''"
  shows "\<exists>img alpha box. Option.bind (be_file en (path_text (bc_image c))) (pil_decode (be_imaging en)) = Some img
    \<and> pr_predict p img (bc_face_box c) = Inr alpha \<and> case_box en (bc_face_box c) = Inr box
    \<and> er_raw r = Some (validate_portrait_matte alpha box)
    \<and> resolve_matte alpha img box =
        (if mi_ok (validate_portrait_matte alpha box)
         then if er_action r = Some ''refined'' then refine_matte alpha box else Inr alpha
         else Inl quality_failed)"
proof -
  obtain img alpha box raw refined act where r: "Option.bind (be_file en (path_text (bc_image c))) (pil_decode (be_imaging en)) = Some img"
      "pr_predict p img (bc_face_box c) = Inr alpha" "(grid_height alpha, grid_width alpha) = (ri_height img, ri_width img)"
      "case_box en (bc_face_box c) = Inr box" "judge en alpha (bc_face_box c) = Inr (raw, refined, act)"
      "er_raw r = Some raw" "er_action r = Some act"
    using evaluate_case_of(2)[OF assms] by blast
  obtain alpha' where j: "refine_matte alpha box = Inr alpha'" "raw = validate_portrait_matte alpha box"
      "act = (if refinement_is_acceptable raw (validate_portrait_matte alpha' box) then ''refined'' else ''reverted_to_raw'')"
    using r(4,5) by (auto simp: judge_def sum_bind_Inr Let_def)
  have "resolve_matte alpha img box = (if mi_ok raw then if act = ''refined'' then refine_matte alpha box else Inr alpha
      else Inl quality_failed)"
    using r(3) by (simp add: resolve_matte_def Let_def j sum_bind_def)
  moreover have "(er_action r = Some ''refined'') = (act = ''refined'')" by (simp only: r(7) option.inject)
  ultimately show ?thesis
    using r(1,2,4,6) by (intro exI[of _ img] exI[of _ alpha] exI[of _ box] conjI) (simp_all only: j(2))
qed

section \<open>The prompt\<close>

text \<open>One axis of the prompt: padding moves the ends outwards and the clamp keeps them in the unit range.\<close>

lemma padded_axis:
  assumes "0 \<le> x" and "x \<le> 1" and "fl x = x" and "0 \<le> a" and "0 \<le> b" and "0 \<le> w"
  shows "0 \<le> max 0 (fl (x - fl a)) \<and> max 0 (fl (x - fl a)) \<le> x
    \<and> min 1 (fl (x + w)) \<le> min 1 (fl (fl (x + w) + fl b)) \<and> min 1 (fl (fl (x + w) + fl b)) \<le> 1
    \<and> 0 \<le> min 1 (fl (fl (x + w) + fl b))"
proof -
  have "fl (x - fl a) \<le> x"
  proof (cases "0 \<le> x - fl a")
    case True
    then have "fl (x - fl a) \<le> fl x" using fl_nonneg[OF assms(4)] by (intro fl_mono) auto
    then show ?thesis by (simp add: assms(3))
  next
    case False
    then show ?thesis using fl_nonpos[of "x - fl a"] assms(1) by simp
  qed
  moreover have "fl (fl (x + w)) \<le> fl (fl (x + w) + fl b)"
    using assms by (intro fl_mono) (simp_all add: fl_nonneg)
  ultimately show ?thesis using assms by (simp add: fl_nonneg fl_idem min.coboundedI2)
qed

text \<open>The prompt box of SAM lies inside the image and covers the face box as far as the image goes, for every
  face box of non-negative floats that starts inside the unit square.\<close>

theorem prompt_covers_face:
  assumes "0 \<le> fx" "fx \<le> 1" "fl fx = fx" and "0 \<le> fy" "fy \<le> 1" "fl fy = fy" and "0 \<le> fw" "0 \<le> fh"
    and "W < 2 ^ 53" "H < 2 ^ 53"
  shows "case prompt_corners (fx, fy, fw, fh) of (x0, y0, x1, y1) \<Rightarrow>
      0 \<le> x0 \<and> x0 \<le> fx \<and> min 1 (fl (fx + fw)) \<le> x1 \<and> x1 \<le> 1
    \<and> 0 \<le> y0 \<and> y0 \<le> fy \<and> min 1 (fl (fy + fh)) \<le> y1 \<and> y1 \<le> 1
    \<and> list_all2 (\<lambda>v n. 0 \<le> v \<and> v \<le> of_nat n) (prompt_box (fx, fy, fw, fh) (W, H)) [W, H, W, H]"
proof -
  have tenth: "0 \<le> fl (1 / 10) * fw" using assms(7) by (simp add: fl_nonneg)
  note x = padded_axis[OF assms(1-3) tenth tenth assms(7)]
  have half: "0 \<le> 1 / 2 * fh" "0 \<le> 3 / 2 * fh" using assms(8) by simp_all
  note y = padded_axis[OF assms(4-6) half assms(8)]
  have le1: "max 0 (fl (fx - fl (fl (1 / 10) * fw))) \<le> 1" "max 0 (fl (fy - fl (1 / 2 * fh))) \<le> 1"
    using x y assms(2,5) by linarith+
  show ?thesis
    using x y le1 assms(9,10) fl_scaled_le unfolding prompt_box_def prompt_corners_def prod.case fst_conv snd_conv
    by (simp only: list_all2_Cons list_all2_Nil simp_thms)
qed

theorem prompt_covers_face_witness:
  "case prompt_corners (0, 0, 1, 1) of (x0, y0, x1, y1) \<Rightarrow>
      0 \<le> x0 \<and> x0 \<le> 0 \<and> min 1 (fl (0 + 1)) \<le> x1 \<and> x1 \<le> 1
    \<and> 0 \<le> y0 \<and> y0 \<le> 0 \<and> min 1 (fl (0 + 1)) \<le> y1 \<and> y1 \<le> 1
    \<and> list_all2 (\<lambda>v n. 0 \<le> v \<and> v \<le> of_nat n) (prompt_box (0, 0, 1, 1) (640, 480)) [640, 480, 640, 480]"
  by (rule prompt_covers_face) (simp_all add: fl_def round_to_def)

section \<open>Concrete runs\<close>

text \<open>An environment without PyTorch, whose image is the white pair and whose model answers an opaque matte.\<close>

definition opaque_inference :: inference where
  "opaque_inference = \<lparr>resize_rgb = (\<lambda>g d. g), resize_gray = (\<lambda>g d. g), network_run = (\<lambda>m t. Inl LibraryErr)\<rparr>"

definition demo_bench :: bench_env where
  "demo_bench =
     \<lparr>be_runtime = demo_runtime, be_imaging = pair_imaging, be_inference = opaque_inference,
      be_file = (\<lambda>p. Some (Bin jpeg_signature)), exn_type = (\<lambda>e. ''E''), exn_text = (\<lambda>e. ''E: e''), torch_devices = None,
      hub_model_info = (\<lambda>r. Inl LibraryErr), hub_download = (\<lambda>r f. Inl LibraryErr), load_model = (\<lambda>c r d. Some LibraryErr),
      torch_forward = (\<lambda>r d ts i. Inl LibraryErr), torch_sigmoid = (\<lambda>t. t), sam_masks = (\<lambda>r d k b i. Inl LibraryErr),
      sam_other_prompt = (\<lambda>v i. Inl ValueErr), box_exn = (\<lambda>v. ValueErr), np_exp = (\<lambda>x. None), np_mean = (\<lambda>g. 0),
      perf_counter = (\<lambda>n. 0), utc_now = 0, backend_root = ''/backend''\<rparr>"

definition empty_bench :: bench where
  "empty_bench = \<lparr>bn_files = Map.empty, bn_reads = 0\<rparr>"

definition demo_argv :: "(string \<times> string) list" where
  "demo_argv = [(''--input'', ''photos/a.jpg''), (''--models'', ''nosuch'')]"

lemma demo_args: "parse_args demo_runtime demo_argv
    = Some (default_args\<lparr>ag_input := [''photos/a.jpg''], ag_models := ''nosuch''\<rparr>)"
  by (simp add: parse_args_def demo_argv_def take_option_def default_args_def Let_def)

lemma demo_background: "parse_background_color ''#FFFFFF'' = Inr (255, 255, 255)"
  by (rule pair_background)

lemma demo_keys: "model_keys ''nosuch'' = [''nosuch'']"
  by code_simp

lemma demo_main: "\<exists>b'. bench_main demo_bench demo_argv empty_bench = (Exit 1, b')"
proof -
  define a where "a = default_args\<lparr>ag_input := [''photos/a.jpg''], ag_models := ''nosuch''\<rparr>"
  have fields: "ag_background_color a = ''#FFFFFF''" "ag_manifest a = None" "ag_input a = [''photos/a.jpg'']" "ag_models a = ''nosuch''"
    by (simp_all add: a_def default_args_def DEFAULT_BACKGROUND_COLOR_def)
  have built: "build_provider demo_bench a ''nosuch'' d n = (Inl KeyErr, n)" for d n
    by (simp add: build_provider_def)
  obtain c where cases: "collect_cases demo_bench a = Inr [c]"
    by (simp add: collect_cases_def fields sum_bind_def enumerate_eq_zip)
  have "parse_args (be_runtime demo_bench) demo_argv = Some a" by (simp add: demo_bench_def demo_args a_def)
  then show ?thesis
    by (simp add: bench_main_def fields demo_background cases demo_keys evaluate_model_def built Let_def exit_code_def)
qed

theorem benchmark_covers_every_pair_witness:
  "\<exists>b' a cases rows ob. bench_main demo_bench demo_argv empty_bench = (Exit 1, b')
    \<and> parse_args (be_runtime demo_bench) demo_argv = Some a \<and> collect_cases demo_bench a = Inr cases
    \<and> map (\<lambda>r. (row_model r, row_case r)) rows = List.product (model_keys (ag_models a)) (map bc_name cases)
    \<and> (\<forall>r \<in> set rows. row_status r \<in> {''ERROR'', ''SKIPPED''}) \<and> jget_n ob ''results'' = JArr (map (JObj \<circ> row_dict) rows)"
proof -
  obtain b' where b': "bench_main demo_bench demo_argv empty_bench = (Exit 1, b')" using demo_main by blast
  have two: "(1 :: int) \<noteq> 2" by simp
  from benchmark_covers_every_pair[OF b' two] obtain a cases rows ob where
    r: "parse_args (be_runtime demo_bench) demo_argv = Some a" "collect_cases demo_bench a = Inr cases"
      "map (\<lambda>r. (row_model r, row_case r)) rows = List.product (model_keys (ag_models a)) (map bc_name cases)"
      "(1 :: int) = (if \<forall>r \<in> set rows. row_status r \<in> {''ERROR'', ''SKIPPED''} then 1 else 0)"
      "jget_n ob ''results'' = JArr (map (JObj \<circ> row_dict) rows)"
    by blast
  from r(4) have all: "\<forall>r \<in> set rows. row_status r \<in> {''ERROR'', ''SKIPPED''}"
    by (simp only: split: if_splits)
  show ?thesis using b' r(1,2,3,5) all
    by (intro exI[of _ b'] exI[of _ a] exI[of _ cases] exI[of _ rows] exI[of _ ob] conjI)
qed

definition demo_case :: bench_case where
  "demo_case = \<lparr>bc_name = JStr ''a'', bc_image = path_of ''photos/a.jpg'',
     bc_face_box = Some (map (JFloat \<circ> Fin) [0, 0, 1, 1]), bc_notes = JStr []\<rparr>"

definition demo_provider :: provider where
  "demo_provider = \<lparr>pr_spec = spec_for ''sam2'', pr_predict = (\<lambda>img box. Inr [[1, 1]])\<rparr>"

lemma demo_relative:
  assumes "pp_root (path_of s) = []"
  shows "\<exists>rel. relative_to (path_div (path_div (path_div (path_of ''out'') ''a'') ''sam2'') s) (path_of ''out'') = Inr rel"
proof -
  have "pp_root (path_of ''a'') = []" "pp_root (path_of ''sam2'') = []" by (simp_all add: path_of_def)
  then show ?thesis using assms by (simp add: relative_to_def path_div_def Let_def)
qed

lemma artifact_roots:
  "pp_root (path_of ''original.jpg'') = []" "pp_root (path_of ''alpha.png'') = []"
  "pp_root (path_of ''foreground-mask.png'') = []"
  by (simp_all add: path_of_def)

lemma demo_judged: "case_box demo_bench (Some (map (JFloat \<circ> Fin) [0, 0, 1, 1])) = Inr (Some (0, 0, 1, 1))"
    "\<exists>v. judge demo_bench [[1, 1]] (Some (map (JFloat \<circ> Fin) [0, 0, 1, 1])) = Inr v"
  by (simp_all add: case_box_def judge_def sum_bind_def pair_refined Let_def)

lemma demo_evaluated: "\<exists>r b'. evaluate_case_model demo_bench demo_case demo_provider (path_of ''out'') (255, 255, 255) empty_bench
    = (Inr r, b') \<and> er_status r \<noteq> ''ERROR''"
proof -
  obtain ro ra rm where rel: "relative_to (path_div (path_div (path_div (path_of ''out'') ''a'') ''sam2'') ''original.jpg'') (path_of ''out'') = Inr ro"
      "relative_to (path_div (path_div (path_div (path_of ''out'') ''a'') ''sam2'') ''alpha.png'') (path_of ''out'') = Inr ra"
      "relative_to (path_div (path_div (path_div (path_of ''out'') ''a'') ''sam2'') ''foreground-mask.png'') (path_of ''out'') = Inr rm"
    using demo_relative[OF artifact_roots(1)] demo_relative[OF artifact_roots(2)] demo_relative[OF artifact_roots(3)] by blast
  obtain raw refined act where judged: "judge demo_bench [[1, 1]] (Some (map (JFloat \<circ> Fin) [0, 0, 1, 1])) = Inr (raw, refined, act)"
    using demo_judged(2) by auto
  have img: "Option.bind (be_file demo_bench p) (pil_decode (be_imaging demo_bench)) = Some white_pair" for p
    by (simp add: demo_bench_def pair_imaging_def)
  have name: "str_text (be_runtime demo_bench) (bc_name demo_case) = Some ''a''" by (simp add: demo_case_def)
  have dims: "(grid_height [[1, 1 :: rat]], grid_width [[1, 1 :: rat]]) = (ri_height white_pair, ri_width white_pair)"
    by (simp add: grid_height_def grid_width_def white_pair_def)
  have box: "bc_face_box demo_case = Some (map (JFloat \<circ> Fin) [0, 0, 1, 1])" by (simp add: demo_case_def)
  have "\<exists>r b'. evaluate_matte demo_bench (path_of ''out'') (path_div (path_div (path_of ''out'') ''a'') ''sam2'') white_pair [[1, 1]]
      demo_case (255, 255, 255) r0 b0 = (Inr r, b') \<and> er_status r \<noteq> ''ERROR''" if "er_status r0 = ''OK''" for r0 b0
  proof -
    obtain files b1 where f: "matte_files (path_of ''out'') (path_div (path_div (path_of ''out'') ''a'') ''sam2'') [[1, 1]] b0 = (Inr files, b1)"
      using rel by (simp add: matte_files_def Let_def sum_bind_def)
    obtain r b' where c: "composite_row demo_bench (path_of ''out'') (path_div (path_div (path_of ''out'') ''a'') ''sam2'') white_pair
        [[1, 1]] (Some (0, 0, 1, 1)) (255, 255, 255) (r0\<lparr>er_alpha := Some (stats_of demo_bench [[1, 1]]),
          er_outputs := er_outputs r0 @ files, er_raw := Some raw, er_refined := Some refined, er_action := Some act\<rparr>) b1 = (r, b')"
      by fastforce
    show ?thesis using composite_row_of[OF c] dims f c that
      by (auto simp only: evaluate_matte_def box demo_judged(1) judged sum_bind_def sum.case prod.case if_False not_True_eq_False
        eval_result.simps) (auto)
  qed
  then show ?thesis
    by (simp add: evaluate_case_model_def name img demo_provider_def rel Let_def new_result_def)
qed

theorem benchmark_verdict_is_production_witness:
  "\<exists>r b'. evaluate_case_model demo_bench demo_case demo_provider (path_of ''out'') (255, 255, 255) empty_bench = (Inr r, b')
    \<and> er_raw r = Some (validate_portrait_matte [[1, 1]] (Some (0, 0, 1, 1)))
    \<and> resolve_matte [[1, 1]] white_pair (Some (0, 0, 1, 1))
        = (if er_action r = Some ''refined'' then refine_matte [[1, 1]] (Some (0, 0, 1, 1)) else Inr [[1, 1]])"
proof -
  obtain r b' where r: "evaluate_case_model demo_bench demo_case demo_provider (path_of ''out'') (255, 255, 255) empty_bench
      = (Inr r, b')" "er_status r \<noteq> ''ERROR''"
    using demo_evaluated by blast
  obtain img alpha box where v: "Option.bind (be_file demo_bench (path_text (bc_image demo_case))) (pil_decode (be_imaging demo_bench)) = Some img"
      "pr_predict demo_provider img (bc_face_box demo_case) = Inr alpha" "case_box demo_bench (bc_face_box demo_case) = Inr box"
      "er_raw r = Some (validate_portrait_matte alpha box)"
      "resolve_matte alpha img box = (if mi_ok (validate_portrait_matte alpha box)
         then if er_action r = Some ''refined'' then refine_matte alpha box else Inr alpha else Inl quality_failed)"
    using benchmark_verdict_is_production[OF r] by (elim exE conjE)
  have "img = white_pair" using v(1) by (simp add: demo_bench_def pair_imaging_def)
  moreover have "alpha = [[1, 1]]" using v(2) by (simp add: demo_provider_def)
  moreover have "box = Some (0, 0, 1, 1)"
    using v(3) demo_judged(1) by (simp only: demo_case_def bench_case.simps sum.inject)
  ultimately show ?thesis
    using r(1) v(4,5) pair_gate by (intro exI[of _ r] exI[of _ b'] conjI) simp_all
qed

section \<open>The production model\<close>

text \<open>C21: With the ONNX model the portrait that is composed always comes from a gated matte: the network's output, whatever
  its numbers, becomes a matte in the unit range and of the image's size, so the structural gate is applied to it; it
  passed the gate, and so did the matte that is composed, which is it or its refinement.\<close>

theorem onnx_portrait_is_gated:
  assumes "compose_portrait (with_inference lib im) s (segmentation_provider rt (with_inference lib im) s None) data box
      = Inr (composed, crop)"
    and "resizes lib" and "\<And>b i. pil_decode im b = Some i \<Longrightarrow> 0 < ri_width i \<and> 0 < ri_height i"
  shows "\<exists>raw img alpha0 alpha. model_file im (portrait_model_path s) = Some raw \<and> pil_decode im data = Some img
    \<and> predict_alpha lib raw img = Inr alpha0 \<and> unit_matte alpha0 \<and> mi_ok (validate_portrait_matte alpha0 box)
    \<and> resolve_matte alpha0 img box = Inr alpha \<and> mi_ok (validate_portrait_matte alpha box)"
  by (rule composed_from_gated[OF assms])

definition opaque_network :: inference where
  "opaque_network = \<lparr>resize_rgb = (\<lambda>g d. g), resize_gray = (\<lambda>g d. tabulate (snd d) (fst d) (\<lambda>p. 255)),
     network_run = (\<lambda>m t. Inr (Axis [Axis [Axis [Axis [Scalar 2, Scalar 2], Axis [Scalar 2, Scalar 2]]]]))\<rparr>"

definition model_settings :: settings where
  "model_settings = default_settings\<lparr>portrait_model_path := ''model.onnx'', portrait_model_sha256 := [],
     portrait_background_color := ''#FFFFFF''\<rparr>"

definition model_imaging :: imaging where
  "model_imaging = pair_imaging\<lparr>model_file := (\<lambda>p. Some (Bin jpeg_signature))\<rparr>"

lemma opaque_predict: "predict_alpha opaque_network m white_pair = Inr [[1, 1]]"
proof -
  have "[0..<2] = [0, 1 :: nat]" by code_simp
  then show ?thesis
    by (simp add: predict_alpha_def opaque_network_def matte_of_output_def Let_def sum_bind_def resample_matte_def tabulate_def
        map_grid_def white_pair_def fl_ints)
qed

theorem onnx_portrait_is_gated_witness:
  "\<exists>composed crop alpha. compose_portrait (with_inference opaque_network model_imaging) model_settings
        (segmentation_provider demo_runtime (with_inference opaque_network model_imaging) model_settings None)
        (Bin jpeg_signature) (Some (0, 0, 1, 1)) = Inr (composed, crop)
    \<and> resolve_matte [[1, 1]] white_pair (Some (0, 0, 1, 1)) = Inr alpha
    \<and> mi_ok (validate_portrait_matte alpha (Some (0, 0, 1, 1)))"
proof -
  let ?im = "with_inference opaque_network model_imaging"
  obtain seg where seg: "segmentation_provider demo_runtime ?im model_settings None = Inr seg" "sg_predict seg white_pair = Inr [[1, 1]]"
    by (simp add: segmentation_provider_def OnnxPortraitSegmentation_def model_settings_def with_inference_def model_imaging_def opaque_predict)
  have bg: "portrait_background_color model_settings = ''#FFFFFF''" by (simp add: model_settings_def)
  have im: "pil_decode ?im = (\<lambda>b. Some white_pair)" "gaussian_blur ?im = (\<lambda>g. g)"
    by (simp_all add: with_inference_def model_imaging_def pair_imaging_def)
  obtain x c where x: "compose_portrait ?im model_settings (Inr seg) (Bin jpeg_signature) (Some (0, 0, 1, 1)) = Inr (x, c)"
    using pair_composed_by[OF bg im seg(2)] by blast
  have dec: "pil_decode model_imaging b = Some white_pair" for b by (simp add: model_imaging_def pair_imaging_def)
  have "resizes opaque_network" by (simp add: resizes_def opaque_network_def)
  moreover have "pil_decode model_imaging b = Some i \<Longrightarrow> 0 < ri_width i \<and> 0 < ri_height i" for b i
    by (auto simp: dec white_pair_def)
  ultimately obtain raw img alpha0 alpha where "pil_decode model_imaging (Bin jpeg_signature) = Some img"
      "predict_alpha opaque_network raw img = Inr alpha0" "resolve_matte alpha0 img (Some (0, 0, 1, 1)) = Inr alpha"
      "mi_ok (validate_portrait_matte alpha (Some (0, 0, 1, 1)))"
    using onnx_portrait_is_gated[OF x[folded seg(1)]] by blast
  then show ?thesis using x seg(1) by (auto simp: dec opaque_predict)
qed

end
